(* ===== verification/Prelude.thy ===== *)
theory Prelude
  imports Main "HOL-Library.Sublist"
begin

text \<open>
  What the components share: JavaScript's truthiness and string operations as far as the sources
  use them, thrown errors and promises as values, and the fact collections of the development.

  A \<open>string\<close> here is the UTF-8 encoding of the JavaScript string it stands for, one
  \<open>char\<close> per byte; \<open>utf8\<close> encodes code points, and is used for the Chinese texts of
  the sources. Routes, keys and permissions are ASCII. Code that counts UTF-16 code units
  (\<open>charCodeAt\<close>) is modelled on lists of 16-bit words in the theory \<open>TextUtil\<close>.
\<close>

named_theorems route_simps \<open>rewriting facts on route trees\<close>
named_theorems store_simps \<open>definitions of the store's mutations and actions\<close>
named_theorems table_simps \<open>definitions of the table component's handlers\<close>

section \<open>Strings\<close>

definition utf8_char :: "nat \<Rightarrow> string" where
  "utf8_char c =
     (if c < 0x80 then [char_of c]
      else if c < 0x800 then [char_of (0xC0 + c div 64), char_of (0x80 + c mod 64)]
      else if c < 0x10000 then
        [char_of (0xE0 + c div 4096), char_of (0x80 + c div 64 mod 64), char_of (0x80 + c mod 64)]
      else
        [char_of (0xF0 + c div 262144), char_of (0x80 + c div 4096 mod 64),
         char_of (0x80 + c div 64 mod 64), char_of (0x80 + c mod 64)])"

definition utf8 :: "nat list \<Rightarrow> string" where
  "utf8 cs = concat (map utf8_char cs)"

text \<open>\<open>s.startsWith(p)\<close> is \<open>prefix p s\<close>, \<open>s.includes(t)\<close> is \<open>sublist t s\<close>; the
  executable forms are those of the library. \<open>s.replace(pat, rep)\<close> with a string pattern
  rewrites the first occurrence only.\<close>

fun replace_first :: "string \<Rightarrow> string \<Rightarrow> string \<Rightarrow> string" where
  "replace_first pat rep [] = (if pat = [] then rep else [])"
| "replace_first pat rep (c # cs) =
     (if prefix pat (c # cs) then rep @ drop (length pat) (c # cs)
      else c # replace_first pat rep cs)"

text \<open>\<open>s.split(sep)\<close> for a one-character separator.\<close>

fun split_on :: "char \<Rightarrow> string \<Rightarrow> string list" where
  "split_on d [] = [[]]"
| "split_on d (c # cs) =
     (if c = d then [] # split_on d cs
      else (case split_on d cs of [] \<Rightarrow> [[c]] | p # ps \<Rightarrow> (c # p) # ps))"

lemma replace_first_absent: "pat \<noteq> [] \<Longrightarrow> \<not> sublist pat s \<Longrightarrow> replace_first pat rep s = s"
proof (induction s)
  case Nil
  then show ?case by simp
next
  case (Cons c s)
  from Cons.prems have "\<not> prefix pat (c # s)" and "\<not> sublist pat s"
    by (simp_all add: sublist_Cons_right)
  with Cons show ?case by simp
qed

lemma split_on_not_Nil [simp]: "split_on d s \<noteq> []"
  by (induction s) (auto split: list.splits)

lemma split_on_no_sep: "d \<notin> set s \<Longrightarrow> split_on d s = [s]"
  by (induction s) auto

lemma split_on_append: "d \<notin> set s \<Longrightarrow> split_on d (s @ d # t) = s # split_on d t"
  by (induction s) auto

section \<open>Truthiness\<close>

text \<open>An optional field is an \<open>option\<close>, \<open>None\<close> for \<open>undefined\<close> or \<open>null\<close>. The empty
  string is falsy as well, which is what \<open>a || b\<close> and \<open>a && b\<close> test.\<close>

definition truthy :: "string option \<Rightarrow> bool" where
  "truthy v = (case v of None \<Rightarrow> False | Some s \<Rightarrow> s \<noteq> [])"

definition str_or :: "string option \<Rightarrow> string option \<Rightarrow> string option" where
  "str_or a b = (if truthy a then a else b)"

definition str_default :: "string option \<Rightarrow> string \<Rightarrow> string" where
  "str_default a d = (case a of Some s \<Rightarrow> (if s \<noteq> [] then s else d) | None \<Rightarrow> d)"

definition is_true :: "bool option \<Rightarrow> bool" where
  "is_true b = (b = Some True)"

lemma truthy_simps [simp]: "truthy None = False" "truthy (Some s) = (s \<noteq> [])"
  by (simp_all add: truthy_def)

lemma str_default_truthy [simp]: "truthy a \<Longrightarrow> str_default a d = the a"
  by (cases a) (simp_all add: str_default_def)

lemma str_default_simps [simp]: "str_default None d = d" "str_default (Some s) d = (if s \<noteq> [] then s else d)"
  by (simp_all add: str_default_def)

section \<open>Errors and promises\<close>

text \<open>What the modelled code can throw or reject with. \<open>ApiError\<close> carries the HTTP status a
  failed request was rejected with (none for a network failure).\<close>

datatype js_error =
    TypeError
  | RangeError
  | URIError
  | CodeError string
  | ApiError "nat option"

text \<open>Two computations in sequence, the first error winning, and their results combined.\<close>

definition both :: "'e + 'a \<Rightarrow> 'e + 'b \<Rightarrow> ('a \<Rightarrow> 'b \<Rightarrow> 'c) \<Rightarrow> 'e + 'c" where
  "both a b f =
     (case a of
        Inl e \<Rightarrow> Inl e
      | Inr x \<Rightarrow> (case b of Inl e \<Rightarrow> Inl e | Inr y \<Rightarrow> Inr (f x y)))"

lemma both_simps [simp]:
  "both (Inl e) b f = Inl e"
  "both (Inr x) (Inl e) f = Inl e"
  "both (Inr x) (Inr y) f = Inr (f x y)"
  by (simp_all add: both_def)

text \<open>A promise when the code under consideration has run: still pending with nobody left to
  settle it, fulfilled, or rejected.\<close>

datatype 'a promise = Pending | Resolved 'a | Rejected js_error

definition settled :: "'a promise \<Rightarrow> bool" where
  "settled p \<longleftrightarrow> p \<noteq> Pending"

lemma settled_simps [simp]: "\<not> settled Pending" "settled (Resolved x)" "settled (Rejected e)"
  by (simp_all add: settled_def)

section \<open>Lists\<close>

lemma subseq_filter_mono: "(\<And>x. x \<in> set xs \<Longrightarrow> P x \<Longrightarrow> Q x) \<Longrightarrow> subseq (filter P xs) (filter Q xs)"
  by (induction xs) auto

lemma list_all_mono_set: "list_all P xs \<Longrightarrow> (\<And>x. x \<in> set xs \<Longrightarrow> P x \<Longrightarrow> Q x) \<Longrightarrow> list_all Q xs"
  by (simp add: list_all_iff)

end
