(* ===== verification/Account.thy ===== *)
theory Account
  imports Prelude
begin

text \<open>
  The account data the frontend gets from the user-info request: permissions with their action
  sets, the role, and the user record. Optional fields are those the requests may leave out; the
  store adds \<open>permissionList\<close> and the \<open>actionList\<close>s itself.
\<close>

record action_entity =
  ae_action :: string
  ae_describe :: string
  ae_defaultCheck :: bool

record permission =
  p_roleId :: string
  p_permissionId :: string
  p_permissionName :: string
  p_actions :: string
  p_actionEntitySet :: "action_entity list option"
  p_actionList :: "string list option"

record role =
  ro_id :: string
  ro_name :: string
  ro_permissions :: "permission list option"
  ro_permissionList :: "string list option"

record user_info =
  ui_id :: string
  ui_name :: string
  ui_username :: string
  ui_avatar :: string
  ui_role :: "role option"

text \<open>What a role grants after login: the ids of its permissions.\<close>

definition permission_ids :: "role \<Rightarrow> string list" where
  "permission_ids ro = (case ro_permissions ro of None \<Rightarrow> [] | Some ps \<Rightarrow> map p_permissionId ps)"

end
