(* ===== verification/Browser.thy ===== *)
theory Browser
  imports Prelude
begin

text \<open>
  The browser side of the store: values kept in local storage and the interface of the \<open>store\<close>
  package (\<open>storage.get\<close>, \<open>set\<close>, \<open>remove\<close>). The package is not part of the repository, so its
  operations are an argument of every definition that uses them, over an arbitrary type \<open>'m\<close> of
  stored contents, and what the code relies on is the hypothesis \<open>storage_laws\<close>. Also the keys of
  \<open>src/store/mutation-types.js\<close> and JavaScript's \<open>decodeURIComponent\<close>.
\<close>

section \<open>Values and storage\<close>

datatype jsval = Undefined | JBool bool | JStr string

fun js_truthy :: "jsval \<Rightarrow> bool" where
  "js_truthy Undefined = False"
| "js_truthy (JBool b) = b"
| "js_truthy (JStr s) = (s \<noteq> [])"

record 'm storage_ops =
  s_get :: "'m \<Rightarrow> string \<Rightarrow> jsval"
  s_set :: "'m \<Rightarrow> string \<Rightarrow> jsval \<Rightarrow> nat option \<Rightarrow> 'm"
  s_remove :: "'m \<Rightarrow> string \<Rightarrow> 'm"

text \<open>A key-value store; storing \<open>undefined\<close> leaves nothing to be found. The last argument of
  \<open>set\<close> is the extra one the login passes; nothing is assumed about it.\<close>

definition storage_laws :: "'m storage_ops \<Rightarrow> bool" where
  "storage_laws S \<longleftrightarrow>
     (\<forall>m k v e k'. s_get S (s_set S m k v e) k' = (if k' = k then v else s_get S m k')) \<and>
     (\<forall>m k k'. s_get S (s_remove S m k) k' = (if k' = k then Undefined else s_get S m k'))"

lemma get_set: "storage_laws S \<Longrightarrow> s_get S (s_set S m k v e) k' = (if k' = k then v else s_get S m k')"
  by (simp add: storage_laws_def)

lemma get_remove: "storage_laws S \<Longrightarrow> s_get S (s_remove S m k) k' = (if k' = k then Undefined else s_get S m k')"
  by (simp add: storage_laws_def)

text \<open>\<open>storage.get(key, default)\<close>\<close>

definition get_default :: "'m storage_ops \<Rightarrow> 'm \<Rightarrow> string \<Rightarrow> jsval \<Rightarrow> jsval" where
  "get_default S m k d = (if s_get S m k = Undefined then d else s_get S m k)"

text \<open>An instance for witnesses: a finite map as a list of its latest bindings.\<close>

definition alist_storage :: "(string \<times> jsval) list storage_ops" where
  "alist_storage = \<lparr>
     s_get = (\<lambda>m k. case map_of m k of None \<Rightarrow> Undefined | Some v \<Rightarrow> v),
     s_set = (\<lambda>m k v e. (k, v) # m),
     s_remove = (\<lambda>m k. (k, Undefined) # m)\<rparr>"

lemma alist_storage_laws: "storage_laws alist_storage"
  by (simp add: storage_laws_def alist_storage_def)

section \<open>Keys\<close>

definition ACCESS_TOKEN :: string where "ACCESS_TOKEN = ''Access-Token''"
definition SIDEBAR_TYPE :: string where "SIDEBAR_TYPE = ''sidebar_type''"
definition TOGGLE_MOBILE_TYPE :: string where "TOGGLE_MOBILE_TYPE = ''is_mobile''"
definition TOGGLE_NAV_THEME :: string where "TOGGLE_NAV_THEME = ''nav_theme''"
definition TOGGLE_LAYOUT :: string where "TOGGLE_LAYOUT = ''layout''"
definition TOGGLE_FIXED_HEADER :: string where "TOGGLE_FIXED_HEADER = ''fixed_header''"
definition TOGGLE_FIXED_SIDEBAR :: string where "TOGGLE_FIXED_SIDEBAR = ''fixed_sidebar''"
definition TOGGLE_CONTENT_WIDTH :: string where "TOGGLE_CONTENT_WIDTH = ''content_width''"
definition TOGGLE_HIDE_HEADER :: string where "TOGGLE_HIDE_HEADER = ''auto_hide_header''"
definition TOGGLE_COLOR :: string where "TOGGLE_COLOR = ''color''"
definition TOGGLE_WEAK :: string where "TOGGLE_WEAK = ''weak''"
definition TOGGLE_MULTI_TAB :: string where "TOGGLE_MULTI_TAB = ''multi_tab''"
definition APP_LANGUAGE :: string where "APP_LANGUAGE = ''app_language''"
definition LANG_KEY :: string where "LANG_KEY = ''lang''"

lemmas key_defs = ACCESS_TOKEN_def SIDEBAR_TYPE_def TOGGLE_MOBILE_TYPE_def TOGGLE_NAV_THEME_def
  TOGGLE_LAYOUT_def TOGGLE_FIXED_HEADER_def TOGGLE_FIXED_SIDEBAR_def TOGGLE_CONTENT_WIDTH_def
  TOGGLE_HIDE_HEADER_def TOGGLE_COLOR_def TOGGLE_WEAK_def TOGGLE_MULTI_TAB_def APP_LANGUAGE_def
  LANG_KEY_def

section \<open>Percent decoding\<close>

definition hex_digit :: "char \<Rightarrow> nat option" where
  "hex_digit c =
     (let n = of_char c :: nat in
      if 48 \<le> n \<and> n \<le> 57 then Some (n - 48)
      else if 65 \<le> n \<and> n \<le> 70 then Some (n - 55)
      else if 97 \<le> n \<and> n \<le> 102 then Some (n - 87) else None)"

text \<open>The value of an escape's two digits and what follows them.\<close>

fun escape_byte :: "string \<Rightarrow> (nat \<times> string) option" where
  "escape_byte (a # b # cs) =
     (case (hex_digit a, hex_digit b) of
        (Some h, Some l) \<Rightarrow> Some (16 * h + l, cs)
      | _ \<Rightarrow> None)"
| "escape_byte cs = None"

text \<open>The continuation bytes of a multi-byte sequence, each one an escape of its own.\<close>

fun continuation :: "nat \<Rightarrow> string \<Rightarrow> (nat list \<times> string) option" where
  "continuation 0 cs = Some ([], cs)"
| "continuation (Suc n) (c # cs) =
     (if c = CHR ''%'' then
        (case escape_byte cs of
           None \<Rightarrow> None
         | Some (b, rest) \<Rightarrow>
             (if 128 \<le> b \<and> b < 192
              then map_option (\<lambda>(bs, r). (b # bs, r)) (continuation n rest) else None))
      else None)"
| "continuation (Suc n) [] = None"

definition extra_bytes :: "nat \<Rightarrow> nat option" where
  "extra_bytes b =
     (if 192 \<le> b \<and> b < 224 then Some 1
      else if 224 \<le> b \<and> b < 240 then Some 2
      else if 240 \<le> b \<and> b < 248 then Some 3 else None)"

text \<open>Overlong forms, surrogates and code points past the last one are malformed.\<close>

definition code_point :: "nat \<Rightarrow> nat list \<Rightarrow> nat" where
  "code_point b bs =
     foldl (\<lambda>acc x. 64 * acc + (x - 128)) (b mod (2 ^ (6 - length bs))) bs"

definition valid_code_point :: "nat \<Rightarrow> nat \<Rightarrow> bool" where
  "valid_code_point n cp \<longleftrightarrow>
     (n = 1 \<longrightarrow> 128 \<le> cp) \<and> (n = 2 \<longrightarrow> 2048 \<le> cp \<and> \<not> (55296 \<le> cp \<and> cp < 57344)) \<and>
     (n = 3 \<longrightarrow> 65536 \<le> cp \<and> cp < 1114112)"

lemma escape_byte_shorter: "escape_byte cs = Some (b, rest) \<Longrightarrow> length rest < length cs"
  by (cases cs rule: escape_byte.cases) (auto split: option.splits prod.splits)

lemma continuation_shorter: "continuation n cs = Some (bs, rest) \<Longrightarrow> length rest \<le> length cs"
proof (induction n cs arbitrary: bs rest rule: continuation.induct)
  case (2 n c cs)
  then show ?case
    by (fastforce split: if_splits option.splits dest: escape_byte_shorter)
qed auto

function decodeURIComponent :: "string \<Rightarrow> string option" where
  "decodeURIComponent [] = Some []"
| "decodeURIComponent (c # cs) =
     (if c \<noteq> CHR ''%'' then map_option ((#) c) (decodeURIComponent cs)
      else (case escape_byte cs of
              None \<Rightarrow> None
            | Some (b, rest) \<Rightarrow>
                (if b < 128 then map_option ((#) (char_of b)) (decodeURIComponent rest)
                 else (case extra_bytes b of
                         None \<Rightarrow> None
                       | Some n \<Rightarrow>
                           (case continuation n rest of
                              None \<Rightarrow> None
                            | Some (bs, rest') \<Rightarrow>
                                (if valid_code_point n (code_point b bs)
                                 then map_option ((@) (map char_of (b # bs))) (decodeURIComponent rest')
                                 else None))))))"
  by pat_completeness auto
termination
  by (relation "measure length") (auto dest!: escape_byte_shorter continuation_shorter)

text \<open>A text without escapes is unchanged.\<close>

lemma decode_plain: "CHR ''%'' \<notin> set s \<Longrightarrow> decodeURIComponent s = Some s"
  by (induction s) auto

end
