(* ===== verification/Locales.thy ===== *)
theory Locales
  imports Browser
begin

text \<open>
  Language loading, \<open>src/locales/index.js\<close>: the i18n instance with its current locale and the languages it
  has messages of, the list of loaded languages the module keeps beside it, the names moment's locale was
  updated with, and the imports under way. \<open>loadLanguageAsync\<close> starts an import and returns; the import's
  end is a separate step, so the order of requests and ends is explicit. The storage write is the caller's
  \<open>storage.set('lang', lang)\<close>.
\<close>

record i18n_state =
  i18n_locale :: string
  i18n_messages :: "string list"
  loadedLanguages :: "string list"
  html_lang :: "string option"
  importing :: "string list"
  moment_updates :: "string list"

definition defaultLang :: string where
  "defaultLang = ''en-US''"

definition init_i18n :: i18n_state where
  "init_i18n = \<lparr>i18n_locale = defaultLang, i18n_messages = [defaultLang], loadedLanguages = [defaultLang],
     html_lang = None, importing = [], moment_updates = []\<rparr>"

definition setI18nLanguage :: "i18n_state \<Rightarrow> string \<Rightarrow> i18n_state \<times> string" where
  "setI18nLanguage s lang = (s\<lparr>i18n_locale := lang, html_lang := Some lang\<rparr>, lang)"

text \<open>The executor of the promise. In the branch that starts an import it returns the import's own
  promise, which nobody looks at, and calls neither \<open>resolve\<close> nor \<open>reject\<close>.\<close>

definition loadLanguageAsync ::
    "'m storage_ops \<Rightarrow> 'm \<times> i18n_state \<Rightarrow> string \<Rightarrow> ('m \<times> i18n_state) \<times> string promise" where
  "loadLanguageAsync S ms lang =
     (let m = s_set S (fst ms) LANG_KEY (JStr lang) None; s = snd ms in
      if i18n_locale s \<noteq> lang
      then (if lang \<notin> set (loadedLanguages s)
            then ((m, s\<lparr>importing := importing s @ [lang]\<rparr>), Pending)
            else (let (s', r) = setI18nLanguage s lang in ((m, s'), Resolved r)))
      else ((m, s), Resolved lang))"

text \<open>The files of \<open>locales/lang\<close>, and the name each has for moment.\<close>

definition language_files :: "string list" where
  "language_files = [''en-US'', ''zh-CN'']"

definition momentName :: "string \<Rightarrow> string" where
  "momentName l = (if l = ''zh-CN'' then ''zh-cn'' else ''eu'')"

text \<open>\<open>i18n.setLocaleMessage\<close>: the instance has the messages of the language from now on.\<close>

definition setLocaleMessage :: "string \<Rightarrow> i18n_state \<Rightarrow> i18n_state" where
  "setLocaleMessage lang s =
     s\<lparr>i18n_messages := (if lang \<in> set (i18n_messages s) then i18n_messages s else i18n_messages s @ [lang])\<rparr>"

text \<open>The \<open>then\<close> callback of the import of \<open>lang\<close>.\<close>

definition import_done :: "i18n_state \<Rightarrow> string \<Rightarrow> i18n_state" where
  "import_done s lang =
     (let s = s\<lparr>importing := remove1 lang (importing s)\<rparr>;
          s = setLocaleMessage lang s;
          s = s\<lparr>loadedLanguages := loadedLanguages s @ [lang]\<rparr>;
          s = s\<lparr>moment_updates := moment_updates s @ [momentName lang]\<rparr>
      in fst (setI18nLanguage s lang))"

text \<open>The import of a language ends with its messages or with a rejection that nobody handles.\<close>

definition import_ended :: "i18n_state \<Rightarrow> string \<Rightarrow> i18n_state" where
  "import_ended s l =
     (if l \<in> set language_files then import_done s l
      else s\<lparr>importing := remove1 l (importing s)\<rparr>)"

section \<open>Runs\<close>

datatype lang_event = Request string | ImportEnded string

fun lang_step :: "'m storage_ops \<Rightarrow> 'm \<times> i18n_state \<Rightarrow> lang_event \<Rightarrow> 'm \<times> i18n_state" where
  "lang_step S ms (Request lang) = fst (loadLanguageAsync S ms lang)"
| "lang_step S ms (ImportEnded lang) =
     (if lang \<in> set (importing (snd ms)) then (fst ms, import_ended (snd ms) lang) else ms)"

definition lang_run :: "'m storage_ops \<Rightarrow> 'm \<times> i18n_state \<Rightarrow> lang_event list \<Rightarrow> 'm \<times> i18n_state" where
  "lang_run S = foldl (lang_step S)"

text \<open>The instance has the messages of the current locale and of the fallback, of nothing but the languages
  there are files for, and the list of loaded languages agrees with it.\<close>

definition i18n_inv :: "i18n_state \<Rightarrow> bool" where
  "i18n_inv s \<longleftrightarrow> i18n_locale s \<in> set (i18n_messages s) \<and> defaultLang \<in> set (i18n_messages s) \<and>
     set (loadedLanguages s) = set (i18n_messages s) \<and> set (i18n_messages s) \<subseteq> set language_files"

lemma lang_step_inv: "i18n_inv (snd ms) \<Longrightarrow> i18n_inv (snd (lang_step S ms e))"
  by (cases e)
    (auto simp: i18n_inv_def loadLanguageAsync_def setI18nLanguage_def import_done_def import_ended_def
      setLocaleMessage_def Let_def)

lemma lang_run_inv: "i18n_inv (snd ms) \<Longrightarrow> i18n_inv (snd (lang_run S ms es))"
  by (induction es arbitrary: ms) (simp_all add: lang_run_def lang_step_inv)

text \<open>C33: whatever languages are requested and in whatever order their imports end, well or not, the i18n
  instance always has the messages of the locale in force and of the fallback language; the languages it has
  messages of are those of the list of loaded languages, and all of them have a file.\<close>

theorem locale_always_loaded:
  "let i = snd (lang_run S (m, init_i18n) es) in
   i18n_locale i \<in> set (i18n_messages i) \<and> defaultLang \<in> set (i18n_messages i) \<and>
   set (loadedLanguages i) = set (i18n_messages i) \<and> set (i18n_messages i) \<subseteq> set language_files"
  using lang_run_inv [of "(m, init_i18n)" S es]
  by (simp add: i18n_inv_def init_i18n_def defaultLang_def language_files_def Let_def)

text \<open>The promise of \<open>loadLanguageAsync\<close> settles exactly when the language is already in force or
  already loaded. For a language that has to be imported it stays pending for ever.\<close>

theorem loadLanguageAsync_settles_iff:
  "settled (snd (loadLanguageAsync S ms lang)) \<longleftrightarrow>
     lang = i18n_locale (snd ms) \<or> lang \<in> set (loadedLanguages (snd ms))"
  by (auto simp: loadLanguageAsync_def setI18nLanguage_def Let_def)

text \<open>A late import overrides a later choice: a user who asks for Chinese and then, before the
  import is done, for English again ends with Chinese in force, though English is what is stored.\<close>

theorem late_import_wins:
  assumes "storage_laws S"
  shows "i18n_locale (snd (lang_run S (m, init_i18n)
           [Request ''zh-CN'', Request ''en-US'', ImportEnded ''zh-CN''])) = ''zh-CN'' \<and>
         s_get S (fst (lang_run S (m, init_i18n)
           [Request ''zh-CN'', Request ''en-US'', ImportEnded ''zh-CN''])) LANG_KEY = JStr ''en-US''"
  by (simp add: lang_run_def loadLanguageAsync_def init_i18n_def defaultLang_def Let_def
      import_done_def import_ended_def language_files_def setLocaleMessage_def setI18nLanguage_def get_set [OF assms])

theorem late_import_wins_witness:
  "i18n_locale (snd (lang_run alist_storage ([], init_i18n)
     [Request ''zh-CN'', Request ''en-US'', ImportEnded ''zh-CN''])) = ''zh-CN''"
  using late_import_wins [OF alist_storage_laws] by blast

end
