(* ===== verification/AppStore.thy ===== *)
theory AppStore
  imports Locales
begin

text \<open>
  The store module \<open>src/store/modules/app.js\<close> (layout settings and language), the defaults of
  \<open>src/config/defaultSettings.js\<close>, and the part of \<open>src/core/bootstrap.js\<close> that restores the
  settings at start. A setting can be \<open>Undefined\<close>: bootstrap commits whatever storage and
  defaults yield. Vuex hands a mutation one payload, so the \<open>antd\<close> parameter always takes its
  default, the empty object.
\<close>

record app_state =
  sideCollapsed :: jsval
  isMobile :: jsval
  theme :: jsval
  layout :: jsval
  contentWidth :: jsval
  fixedHeader :: jsval
  fixedSidebar :: jsval
  autoHideHeader :: jsval
  color :: jsval
  weak :: jsval
  multiTab :: jsval
  lang :: jsval
  antLocale :: "(string \<times> jsval) list"

definition init_app :: app_state where
  "init_app = \<lparr>sideCollapsed = JBool False, isMobile = JBool False, theme = JStr ''dark'',
     layout = JStr '''', contentWidth = JStr '''', fixedHeader = JBool False,
     fixedSidebar = JBool False, autoHideHeader = JBool False, color = JStr '''',
     weak = JBool False, multiTab = JBool True, lang = JStr ''en-US'', antLocale = []\<rparr>"

section \<open>Mutations\<close>

datatype app_mutation =
    SidebarType | ToggleMobileType | ToggleNavTheme | ToggleLayout | ToggleFixedHeader
  | ToggleFixedSidebar | ToggleContentWidth | ToggleHideHeader | ToggleColor | ToggleWeak
  | AppLanguage | ToggleMultiTab

fun commit_app :: "'m storage_ops \<Rightarrow> app_mutation \<Rightarrow> jsval \<Rightarrow> 'm \<times> app_state \<Rightarrow> 'm \<times> app_state" where
  "commit_app S SidebarType v (m, s) = (s_set S m SIDEBAR_TYPE v None, s\<lparr>sideCollapsed := v\<rparr>)"
| "commit_app S ToggleMobileType v (m, s) = (m, s\<lparr>isMobile := v\<rparr>)"
| "commit_app S ToggleNavTheme v (m, s) = (s_set S m TOGGLE_NAV_THEME v None, s\<lparr>theme := v\<rparr>)"
| "commit_app S ToggleLayout v (m, s) = (s_set S m TOGGLE_LAYOUT v None, s\<lparr>layout := v\<rparr>)"
| "commit_app S ToggleFixedHeader v (m, s) =
     (s_set S m TOGGLE_FIXED_HEADER v None, s\<lparr>fixedHeader := v\<rparr>)"
| "commit_app S ToggleFixedSidebar v (m, s) =
     (s_set S m TOGGLE_FIXED_SIDEBAR v None, s\<lparr>fixedSidebar := v\<rparr>)"
| "commit_app S ToggleContentWidth v (m, s) =
     (s_set S m TOGGLE_CONTENT_WIDTH v None, s\<lparr>contentWidth := v\<rparr>)"
| "commit_app S ToggleHideHeader v (m, s) =
     (s_set S m TOGGLE_HIDE_HEADER v None, s\<lparr>autoHideHeader := v\<rparr>)"
| "commit_app S ToggleColor v (m, s) = (s_set S m TOGGLE_COLOR v None, s\<lparr>color := v\<rparr>)"
| "commit_app S ToggleWeak v (m, s) = (s_set S m TOGGLE_WEAK v None, s\<lparr>weak := v\<rparr>)"
| "commit_app S AppLanguage v (m, s) =
     (s_set S m APP_LANGUAGE v None, s\<lparr>lang := v, antLocale := []\<rparr>)"
| "commit_app S ToggleMultiTab v (m, s) =
     (s_set S m TOGGLE_MULTI_TAB v None, s\<lparr>multiTab := v\<rparr>)"

text \<open>The \<open>setLang\<close> action commits the language first and then waits for its messages.\<close>

definition setLang ::
    "'m storage_ops \<Rightarrow> string \<Rightarrow> 'm \<times> app_state \<times> i18n_state \<Rightarrow>
     ('m \<times> app_state \<times> i18n_state) \<times> unit promise" where
  "setLang S l = (\<lambda>(m, s, i).
     let (m1, s1) = commit_app S AppLanguage (JStr l) (m, s);
         ((m2, i2), p) = loadLanguageAsync S (m1, i) l
     in ((m2, s1, i2),
         (case p of Pending \<Rightarrow> Pending | Resolved _ \<Rightarrow> Resolved () | Rejected e \<Rightarrow> Rejected e)))"

section \<open>Defaults and bootstrap\<close>

record default_settings =
  d_navTheme :: jsval
  d_primaryColor :: jsval
  d_layout :: jsval
  d_contentWidth :: jsval
  d_fixedHeader :: jsval
  d_fixSiderbar :: jsval
  d_colorWeak :: jsval
  d_autoHideHeader :: jsval
  d_multiTab :: jsval
  d_title :: string

text \<open>The settings object has no \<open>autoHideHeader\<close> and no \<open>multiTab\<close>, which bootstrap reads.\<close>

definition defaultSettings :: default_settings where
  "defaultSettings = \<lparr>d_navTheme = JStr ''dark'', d_primaryColor = JStr ''#1890ff'',
     d_layout = JStr ''sidemenu'', d_contentWidth = JStr ''Fluid'', d_fixedHeader = JBool False,
     d_fixSiderbar = JBool False, d_colorWeak = JBool False, d_autoHideHeader = Undefined,
     d_multiTab = Undefined, d_title = ''Ant Design Pro''\<rparr>"

text \<open>The settings bootstrap restores, in the order it commits them: mutation, key, default.\<close>

definition restored_settings :: "(app_mutation \<times> string \<times> jsval) list" where
  "restored_settings =
     [(ToggleLayout, TOGGLE_LAYOUT, d_layout defaultSettings),
      (ToggleFixedHeader, TOGGLE_FIXED_HEADER, d_fixedHeader defaultSettings),
      (ToggleFixedSidebar, TOGGLE_FIXED_SIDEBAR, d_fixSiderbar defaultSettings),
      (ToggleContentWidth, TOGGLE_CONTENT_WIDTH, d_contentWidth defaultSettings),
      (ToggleHideHeader, TOGGLE_HIDE_HEADER, d_autoHideHeader defaultSettings),
      (ToggleNavTheme, TOGGLE_NAV_THEME, d_navTheme defaultSettings),
      (ToggleWeak, TOGGLE_WEAK, d_colorWeak defaultSettings),
      (ToggleColor, TOGGLE_COLOR, d_primaryColor defaultSettings),
      (ToggleMultiTab, TOGGLE_MULTI_TAB, d_multiTab defaultSettings)]"

definition restore_settings :: "'m storage_ops \<Rightarrow> 'm \<times> app_state \<Rightarrow> 'm \<times> app_state" where
  "restore_settings S ms =
     foldl (\<lambda>ms (mut, key, d). commit_app S mut (get_default S (fst ms) key d) ms)
       ms restored_settings"

section \<open>What survives a reload\<close>

fun setting :: "app_mutation \<Rightarrow> app_state \<Rightarrow> jsval" where
  "setting SidebarType s = sideCollapsed s"
| "setting ToggleMobileType s = isMobile s"
| "setting ToggleNavTheme s = theme s"
| "setting ToggleLayout s = layout s"
| "setting ToggleFixedHeader s = fixedHeader s"
| "setting ToggleFixedSidebar s = fixedSidebar s"
| "setting ToggleContentWidth s = contentWidth s"
| "setting ToggleHideHeader s = autoHideHeader s"
| "setting ToggleColor s = color s"
| "setting ToggleWeak s = weak s"
| "setting AppLanguage s = lang s"
| "setting ToggleMultiTab s = multiTab s"

fun storage_key :: "app_mutation \<Rightarrow> string option" where
  "storage_key SidebarType = Some SIDEBAR_TYPE"
| "storage_key ToggleMobileType = None"
| "storage_key ToggleNavTheme = Some TOGGLE_NAV_THEME"
| "storage_key ToggleLayout = Some TOGGLE_LAYOUT"
| "storage_key ToggleFixedHeader = Some TOGGLE_FIXED_HEADER"
| "storage_key ToggleFixedSidebar = Some TOGGLE_FIXED_SIDEBAR"
| "storage_key ToggleContentWidth = Some TOGGLE_CONTENT_WIDTH"
| "storage_key ToggleHideHeader = Some TOGGLE_HIDE_HEADER"
| "storage_key ToggleColor = Some TOGGLE_COLOR"
| "storage_key ToggleWeak = Some TOGGLE_WEAK"
| "storage_key AppLanguage = Some APP_LANGUAGE"
| "storage_key ToggleMultiTab = Some TOGGLE_MULTI_TAB"

lemma storage_key_inj: "storage_key a = Some k \<Longrightarrow> storage_key b = Some k \<Longrightarrow> a = b"
  by (cases a; cases b; auto simp: key_defs)

lemma setting_commit:
  "setting a (snd (commit_app S b v ms)) = (if a = b then v else setting a (snd ms))"
  by (cases ms; cases a; cases b; simp)

lemma get_commit:
  assumes "storage_laws S"
  shows "s_get S (fst (commit_app S b v ms)) k =
    (if storage_key b = Some k then v else s_get S (fst ms) k)"
  by (cases ms; cases b) (auto simp: get_set [OF assms])

text \<open>The restored settings agree with what is stored under their keys.\<close>

definition persisted :: "app_mutation list" where
  "persisted = map fst restored_settings"

definition in_sync :: "'m storage_ops \<Rightarrow> 'm \<times> app_state \<Rightarrow> bool" where
  "in_sync S ms \<longleftrightarrow>
     (\<forall>a \<in> set persisted. \<forall>k. storage_key a = Some k \<longrightarrow> s_get S (fst ms) k = setting a (snd ms))"

lemma commit_in_sync:
  assumes "storage_laws S" "in_sync S ms"
  shows "in_sync S (commit_app S b v ms)"
  using assms(2) storage_key_inj
  by (fastforce simp: in_sync_def get_commit [OF assms(1)] setting_commit)

fun commits :: "'m storage_ops \<Rightarrow> 'm \<times> app_state \<Rightarrow> (app_mutation \<times> jsval) list \<Rightarrow> 'm \<times> app_state" where
  "commits S ms [] = ms"
| "commits S ms ((a, v) # cs) = commits S (commit_app S a v ms) cs"

lemma commits_in_sync: "storage_laws S \<Longrightarrow> in_sync S ms \<Longrightarrow> in_sync S (commits S ms cs)"
  by (induction S ms cs rule: commits.induct) (simp_all add: commit_in_sync)

text \<open>Restoring reads every setting before anything else has written its key.\<close>

lemma get_default_commit:
  "storage_laws S \<Longrightarrow> storage_key b \<noteq> Some k \<Longrightarrow>
     get_default S (fst (commit_app S b v ms)) k d = get_default S (fst ms) k d"
  by (simp add: get_default_def get_commit)

lemma restore_unfold:
  assumes "storage_laws S"
  shows "restore_settings S ms =
    commits S ms (map (\<lambda>(a, k, d). (a, get_default S (fst ms) k d)) restored_settings)"
  by (simp add: restore_settings_def restored_settings_def get_default_commit [OF assms] key_defs)

lemma setting_commits:
  "distinct (map fst cs) \<Longrightarrow>
     setting b (snd (commits S ms cs)) =
       (case map_of cs b of None \<Rightarrow> setting b (snd ms) | Some v \<Rightarrow> v)"
proof (induction S ms cs rule: commits.induct)
  case (2 S ms a v cs)
  then have "map_of cs a = None" by (simp add: map_of_eq_None_iff)
  with 2 show ?case
    by (cases "b = a") (auto simp: setting_commit split: option.splits)
qed simp

lemma get_commits:
  "storage_laws S \<Longrightarrow> distinct (map fst cs) \<Longrightarrow> storage_key b = Some k \<Longrightarrow>
     s_get S (fst (commits S ms cs)) k =
       (case map_of cs b of None \<Rightarrow> s_get S (fst ms) k | Some v \<Rightarrow> v)"
proof (induction S ms cs rule: commits.induct)
  case (2 S ms a v cs)
  then have "map_of cs a = None" by (simp add: map_of_eq_None_iff)
  with 2 show ?case
    using storage_key_inj [of a k b]
    by (cases "b = a") (auto simp: get_commit split: option.splits)
qed simp

lemma restored_setting:
  assumes "storage_laws S" "(a, k, d) \<in> set restored_settings"
  shows "setting a (snd (restore_settings S ms)) = get_default S (fst ms) k d"
    and "s_get S (fst (restore_settings S ms)) k = get_default S (fst ms) k d"
    and "storage_key a = Some k"
proof -
  let ?cs = "map (\<lambda>(a, k, d). (a, get_default S (fst ms) k d)) restored_settings"
  have "distinct (map fst ?cs)"
    by (simp add: restored_settings_def)
  moreover have "map_of ?cs a = Some (get_default S (fst ms) k d)"
    using assms(2) by (auto simp: restored_settings_def)
  moreover show k: "storage_key a = Some k"
    using assms(2) by (auto simp: restored_settings_def)
  ultimately show "setting a (snd (restore_settings S ms)) = get_default S (fst ms) k d"
    and "s_get S (fst (restore_settings S ms)) k = get_default S (fst ms) k d"
    by (simp_all only: restore_unfold [OF assms(1)] setting_commits get_commits [OF assms(1)]
        option.case)
qed

lemma restore_in_sync:
  assumes "storage_laws S"
  shows "in_sync S (restore_settings S ms)"
  unfolding in_sync_def
proof (intro ballI allI impI)
  fix a k assume "a \<in> set persisted" and k: "storage_key a = Some k"
  then obtain k' d where r: "(a, k', d) \<in> set restored_settings"
    by (auto simp: persisted_def)
  from restored_setting(3) [OF assms r] k have "k' = k" by simp
  with restored_setting(1,2) [OF assms r, of ms]
  show "s_get S (fst (restore_settings S ms)) k = setting a (snd (restore_settings S ms))"
    by simp
qed

text \<open>C23: the nine settings the bootstrap restores survive a reload. After bootstrap and any sequence of
  committed changes, starting again from the same storage gives each of them the value it had, or its default
  when that value was \<open>undefined\<close>. (The collapsed state of the sidebar is stored as well, but it is not
  one of them; the language is not either.)\<close>

theorem settings_survive_reload:
  assumes "storage_laws S" and "(a, k, d) \<in> set restored_settings"
    and "before = commits S (restore_settings S (m, init_app)) changes"
  shows "setting a (snd (restore_settings S (fst before, init_app))) =
    (if setting a (snd before) = Undefined then d else setting a (snd before))"
proof -
  have "in_sync S before"
    unfolding assms(3) by (intro commits_in_sync restore_in_sync assms(1))
  then have "s_get S (fst before) k = setting a (snd before)"
    using restored_setting(3) [OF assms(1,2)] assms(2)
    by (force simp: in_sync_def persisted_def)
  then show ?thesis
    by (simp add: restored_setting [OF assms(1,2)] get_default_def)
qed

theorem settings_survive_reload_witness:
  "setting ToggleColor (snd (restore_settings alist_storage
     (fst (commits alist_storage (restore_settings alist_storage ([], init_app))
        [(ToggleColor, JStr ''#F5222D''), (ToggleWeak, JBool True)]), init_app))) = JStr ''#F5222D''"
  by (subst settings_survive_reload
      [OF alist_storage_laws, where k = TOGGLE_COLOR and d = "d_primaryColor defaultSettings", OF _ refl])
    (simp_all add: restored_settings_def setting_commit)

text \<open>A first start, with nothing stored, turns multi-tab mode off although the store's initial
  state has it on: the defaults object lacks the setting, so bootstrap commits \<open>undefined\<close>. The
  collapsed state of the sidebar is stored on every change but never restored.\<close>

theorem bootstrap_loses_settings:
  assumes "storage_laws S" and "s_get S m TOGGLE_MULTI_TAB = Undefined"
  shows "multiTab init_app = JBool True \<and>
    multiTab (snd (restore_settings S (m, init_app))) = Undefined \<and>
    s_get S (fst (commit_app S SidebarType (JBool True) (m, init_app))) SIDEBAR_TYPE = JBool True \<and>
    sideCollapsed (snd (restore_settings S
       (fst (commit_app S SidebarType (JBool True) (m, init_app)), init_app))) = JBool False"
proof (intro conjI)
  show "multiTab init_app = JBool True" by (simp add: init_app_def)
  have "(ToggleMultiTab, TOGGLE_MULTI_TAB, Undefined) \<in> set restored_settings"
    by (simp add: restored_settings_def defaultSettings_def)
  from restored_setting(1) [OF assms(1) this, of "(m, init_app)"] assms(2)
  show "multiTab (snd (restore_settings S (m, init_app))) = Undefined"
    by (simp add: get_default_def)
  show "s_get S (fst (commit_app S SidebarType (JBool True) (m, init_app))) SIDEBAR_TYPE = JBool True"
    by (simp add: get_set [OF assms(1)])
  have "setting SidebarType (snd (restore_settings S ms)) = setting SidebarType (snd ms)" for ms
    unfolding restore_unfold [OF assms(1)]
    by (subst setting_commits) (simp_all add: restored_settings_def)
  from this [of "(fst (commit_app S SidebarType (JBool True) (m, init_app)), init_app)"]
  show "sideCollapsed (snd (restore_settings S
      (fst (commit_app S SidebarType (JBool True) (m, init_app)), init_app))) = JBool False"
    by (simp add: init_app_def)
qed

theorem bootstrap_loses_settings_witness:
  "multiTab (snd (restore_settings alist_storage ([], init_app))) = Undefined"
proof -
  have "s_get alist_storage [] TOGGLE_MULTI_TAB = Undefined"
    by (simp add: alist_storage_def)
  from bootstrap_loses_settings [OF alist_storage_laws this] show ?thesis by blast
qed

end
