(* ===== verification/UserStore.thy ===== *)
theory UserStore
  imports Account AppStore
begin

text \<open>
  The store module \<open>src/store/modules/user.js\<close>: the token, the user's data and role, and the
  actions that log in, fetch the user's data and log out. The outcome of the request an action
  makes is an argument: an error, or the response's \<open>result\<close> (absent when the response has
  none). Then the start-up of \<open>src/core/bootstrap.js\<close>, and the sessions these make up.
\<close>

text \<open>\<open>roles\<close> starts as the empty array and becomes the role object.\<close>

datatype roles_value = NoRoles | Roles role

record user_state =
  us_token :: jsval
  us_name :: string
  us_welcome :: string
  us_avatar :: string
  us_roles :: roles_value
  us_info :: "user_info option"

definition init_user :: user_state where
  "init_user = \<lparr>us_token = JStr [], us_name = [], us_welcome = [], us_avatar = [],
     us_roles = NoRoles, us_info = None\<rparr>"

section \<open>Mutations\<close>

definition SET_TOKEN :: "user_state \<Rightarrow> jsval \<Rightarrow> user_state" where
  [store_simps]: "SET_TOKEN s t = s\<lparr>us_token := t\<rparr>"

definition SET_NAME :: "user_state \<Rightarrow> string \<Rightarrow> string \<Rightarrow> user_state" where
  [store_simps]: "SET_NAME s n w = s\<lparr>us_name := n, us_welcome := w\<rparr>"

definition SET_AVATAR :: "user_state \<Rightarrow> string \<Rightarrow> user_state" where
  [store_simps]: "SET_AVATAR s a = s\<lparr>us_avatar := a\<rparr>"

definition SET_ROLES :: "user_state \<Rightarrow> roles_value \<Rightarrow> user_state" where
  [store_simps]: "SET_ROLES s r = s\<lparr>us_roles := r\<rparr>"

definition SET_INFO :: "user_state \<Rightarrow> user_info \<Rightarrow> user_state" where
  [store_simps]: "SET_INFO s i = s\<lparr>us_info := Some i\<rparr>"

section \<open>Actions\<close>

record login_result =
  lr_token :: jsval

text \<open>Seven days in milliseconds, passed along as the third argument of \<open>storage.set\<close>.\<close>

definition token_ttl :: nat where
  "token_ttl = 7 * 24 * 60 * 60 * 1000"

definition Login ::
    "'m storage_ops \<Rightarrow> js_error + login_result option \<Rightarrow> 'm \<times> user_state \<Rightarrow>
     ('m \<times> user_state) \<times> unit promise" where
  [store_simps]: "Login S response = (\<lambda>(m, s).
     (case response of
        Inl e \<Rightarrow> ((m, s), Rejected e)
      | Inr None \<Rightarrow> ((m, s), Rejected TypeError)
      | Inr (Some result) \<Rightarrow>
          ((s_set S m ACCESS_TOKEN (lr_token result) (Some token_ttl), SET_TOKEN s (lr_token result)),
           Resolved ())))"

text \<open>The actions of a permission are read off its entity set when it has a non-empty one.\<close>

definition with_actions :: "permission \<Rightarrow> permission" where
  "with_actions per =
     (case p_actionEntitySet per of
        Some (e # es) \<Rightarrow> per\<lparr>p_actionList := Some (map ae_action (e # es))\<rparr>
      | _ \<Rightarrow> per)"

definition with_permission_list :: "role \<Rightarrow> permission list \<Rightarrow> role" where
  "with_permission_list ro ps =
     (let ps' = map with_actions ps in
      ro\<lparr>ro_permissions := Some ps', ro_permissionList := Some (map p_permissionId ps')\<rparr>)"

definition no_roles_error :: js_error where
  "no_roles_error = CodeError ''getInfo: roles must be a non-null array !''"

text \<open>A response without permissions rejects, and the code goes on committing name and avatar; the
  later \<open>resolve\<close> then has no effect. The role is completed in place, so the response the promise
  resolves with carries the completed role as well.\<close>

definition GetInfo ::
    "string \<Rightarrow> js_error + user_info option \<Rightarrow> user_state \<Rightarrow> user_state \<times> user_info promise" where
  [store_simps]: "GetInfo greeting response s =
     (case response of
        Inl e \<Rightarrow> (s, Rejected e)
      | Inr None \<Rightarrow> (s, Rejected TypeError)
      | Inr (Some result) \<Rightarrow>
          (let finish = (\<lambda>s. SET_AVATAR (SET_NAME s (ui_name result) greeting) (ui_avatar result)) in
           (case ui_role result of
              None \<Rightarrow> (finish s, Rejected no_roles_error)
            | Some ro \<Rightarrow>
                (case ro_permissions ro of
                   None \<Rightarrow> (s, Rejected TypeError)
                 | Some [] \<Rightarrow> (finish s, Rejected no_roles_error)
                 | Some (p # ps) \<Rightarrow>
                     (let role' = with_permission_list ro (p # ps);
                          result' = result\<lparr>ui_role := Some role'\<rparr>
                      in (finish (SET_INFO (SET_ROLES s (Roles role')) result'), Resolved result'))))))"

text \<open>A failed logout request is only logged: nothing is cleared and the promise never settles.\<close>

definition Logout ::
    "'m storage_ops \<Rightarrow> js_error + unit \<Rightarrow> 'm \<times> user_state \<Rightarrow> ('m \<times> user_state) \<times> unit promise" where
  [store_simps]: "Logout S response = (\<lambda>(m, s).
     (case response of
        Inl e \<Rightarrow> ((m, s), Pending)
      | Inr _ \<Rightarrow>
          ((s_remove S m ACCESS_TOKEN, SET_ROLES (SET_TOKEN s (JStr [])) NoRoles), Resolved ())))"

section \<open>Start-up\<close>

record 'm app =
  stored :: 'm
  app :: app_state
  user :: user_state
  i18n :: i18n_state

definition fresh_app :: "'m \<Rightarrow> 'm app" where
  "fresh_app m = \<lparr>stored = m, app = init_app, user = init_user, i18n = init_i18n\<rparr>"

text \<open>\<open>setLang\<close> is dispatched with what is stored under the language key. A value that is no string
  cannot be there: the key is only ever written by \<open>setLang\<close> itself.\<close>

definition Initializer :: "'m storage_ops \<Rightarrow> 'm app \<Rightarrow> 'm app" where
  "Initializer S a =
     (let (m1, s1) = restore_settings S (stored a, app a);
          u1 = SET_TOKEN (user a) (s_get S m1 ACCESS_TOKEN);
          l = (case get_default S m1 APP_LANGUAGE (JStr ''en-US'') of JStr l \<Rightarrow> l | _ \<Rightarrow> ''en-US'');
          ((m2, s2, i2), _) = setLang S l (m1, s1, i18n a)
      in a\<lparr>stored := m2, app := s2, user := u1, i18n := i2\<rparr>)"

section \<open>Sessions\<close>

text \<open>What can happen to the account state of a running frontend.\<close>

inductive account_step :: "'m storage_ops \<Rightarrow> 'm \<times> user_state \<Rightarrow> 'm \<times> user_state \<Rightarrow> bool"
  for S where
  step_login: "account_step S ms (fst (Login S response ms))"
| step_info: "account_step S (m, s) (m, fst (GetInfo greeting response s))"
| step_logout: "account_step S ms (fst (Logout S response ms))"
| step_setting: "account_step S (m, s) (fst (commit_app S mut v (m, a)), s)"

inductive_cases account_stepE: "account_step S ms ms'"

inductive account_run :: "'m storage_ops \<Rightarrow> 'm \<times> user_state \<Rightarrow> 'm \<times> user_state \<Rightarrow> bool"
  for S where
  run_start: "account_run S ms ms"
| run_step: "account_run S ms ms' \<Longrightarrow> account_step S ms' ms'' \<Longrightarrow> account_run S ms ms''"

text \<open>The token in the store is the one in storage, where an absent token and the empty string
  count as the same; and a role, once there, is complete: it has a non-empty permission list,
  which is the list of its permissions' ids.\<close>

definition session_inv :: "'m storage_ops \<Rightarrow> 'm \<times> user_state \<Rightarrow> bool" where
  "session_inv S ms \<longleftrightarrow>
     (us_token (snd ms) = s_get S (fst ms) ACCESS_TOKEN \<or>
      us_token (snd ms) = JStr [] \<and> s_get S (fst ms) ACCESS_TOKEN = Undefined) \<and>
     (case us_roles (snd ms) of
        NoRoles \<Rightarrow> True
      | Roles ro \<Rightarrow> permission_ids ro \<noteq> [] \<and> ro_permissionList ro = Some (permission_ids ro))"

lemma p_permissionId_with_actions [simp]: "p_permissionId (with_actions p) = p_permissionId p"
  by (simp add: with_actions_def split: option.splits list.splits)

lemma permission_ids_complete:
  "permission_ids (with_permission_list ro ps) = map p_permissionId ps"
  "ro_permissionList (with_permission_list ro ps) = Some (map p_permissionId ps)"
  by (simp_all add: with_permission_list_def permission_ids_def Let_def comp_def)

lemma storage_key_no_token: "storage_key b \<noteq> Some ACCESS_TOKEN"
  by (cases b) (simp_all add: key_defs)

lemma GetInfo_token: "us_token (fst (GetInfo g r s)) = us_token s"
  by (auto simp: store_simps Let_def split: sum.splits option.splits list.splits)

lemma GetInfo_roles:
  "us_roles (fst (GetInfo g r s)) = us_roles s \<or>
   (\<exists>ro p ps. us_roles (fst (GetInfo g r s)) = Roles (with_permission_list ro (p # ps)))"
  by (auto simp: store_simps Let_def split: sum.splits option.splits list.splits)

lemma account_step_inv:
  assumes "storage_laws S" "account_step S ms ms'" "session_inv S ms"
  shows "session_inv S ms'"
  using assms(2)
proof cases
  case (step_login response)
  then show ?thesis
    using assms(3) by (cases ms)
      (auto simp: session_inv_def store_simps get_set [OF assms(1)] split: sum.splits option.splits)
next
  case (step_info m s greeting response)
  then show ?thesis
    using assms(3) GetInfo_roles [of greeting response s]
    by (auto simp: session_inv_def GetInfo_token permission_ids_complete)
next
  case (step_logout response)
  then show ?thesis
    using assms(3) by (cases ms)
      (auto simp: session_inv_def store_simps get_remove [OF assms(1)] split: sum.splits)
next
  case (step_setting m s mut v a)
  then show ?thesis
    using assms(3) by (simp add: session_inv_def get_commit [OF assms(1)] storage_key_no_token)
qed

lemma account_run_inv:
  assumes "storage_laws S" "account_run S ms ms'" "session_inv S ms"
  shows "session_inv S ms'"
  using assms(2,3) by induction (auto intro: account_step_inv [OF assms(1)])

lemma get_commits_token:
  "storage_laws S \<Longrightarrow>
     s_get S (fst (commits S ms cs)) ACCESS_TOKEN = s_get S (fst ms) ACCESS_TOKEN"
  by (induction S ms cs rule: commits.induct) (simp_all add: get_commit storage_key_no_token)

lemma Initializer_token:
  assumes "storage_laws S"
  shows "us_token (user (Initializer S a)) = s_get S (stored a) ACCESS_TOKEN"
    and "s_get S (stored (Initializer S a)) ACCESS_TOKEN = s_get S (stored a) ACCESS_TOKEN"
    and "us_roles (user (Initializer S a)) = us_roles (user a)"
proof -
  have r: "s_get S (fst (restore_settings S ms)) ACCESS_TOKEN = s_get S (fst ms) ACCESS_TOKEN" for ms
    unfolding restore_unfold [OF assms] by (rule get_commits_token [OF assms])
  show "us_token (user (Initializer S a)) = s_get S (stored a) ACCESS_TOKEN"
    using r [of "(stored a, app a)"]
    by (auto simp: Initializer_def store_simps Let_def split: prod.splits)
  show "s_get S (stored (Initializer S a)) ACCESS_TOKEN = s_get S (stored a) ACCESS_TOKEN"
    using r [of "(stored a, app a)"]
    by (auto simp: Initializer_def store_simps Let_def setLang_def loadLanguageAsync_def
        get_set [OF assms] key_defs split: prod.splits if_splits)
  show "us_roles (user (Initializer S a)) = us_roles (user a)"
    by (auto simp: Initializer_def store_simps Let_def split: prod.splits)
qed

text \<open>C11: from start-up on, whatever sequence of logins, user-info fetches, logouts and setting changes
  follows and however their requests end, the store's token agrees with the stored one, and a role
  in the store is complete, so the route filter never meets a role without a permission list.\<close>

theorem session_stays_consistent:
  assumes "storage_laws S"
    and "account_run S (stored (Initializer S (fresh_app m)), user (Initializer S (fresh_app m))) ms"
  shows "session_inv S ms"
  by (rule account_run_inv [OF assms])
    (simp add: session_inv_def Initializer_token [OF assms(1)], simp add: fresh_app_def init_user_def)

theorem session_stays_consistent_witness:
  "session_inv alist_storage
     (fst (Login alist_storage (Inr (Some \<lparr>lr_token = JStr ''t''\<rparr>))
        (stored (Initializer alist_storage (fresh_app [])),
         user (Initializer alist_storage (fresh_app [])))))"
  by (rule session_stays_consistent [OF alist_storage_laws run_step [OF run_start step_login]])

text \<open>What a user-info fetch does to the role: it is replaced exactly when the response carries a
  role with at least one permission, and then by that role with its permission list filled in; in
  every other case the promise rejects and the old role stays.\<close>

theorem GetInfo_role_or_rejects:
  "case snd (GetInfo greeting response s) of
     Pending \<Rightarrow> False
   | Rejected e \<Rightarrow> us_roles (fst (GetInfo greeting response s)) = us_roles s
   | Resolved result \<Rightarrow>
       (\<exists>result0 ro ps. response = Inr (Some result0) \<and> ui_role result0 = Some ro \<and>
          ro_permissions ro = Some ps \<and> ps \<noteq> [] \<and>
          ui_role result = Some (with_permission_list ro ps) \<and>
          us_roles (fst (GetInfo greeting response s)) = Roles (with_permission_list ro ps))"
  by (auto simp: store_simps Let_def split: sum.splits option.splits list.splits)

text \<open>A logout whose request fails leaves token, role and storage as they were, and its promise
  never settles; one that succeeds clears all three.\<close>

theorem Logout_outcome:
  assumes "storage_laws S"
  shows "case response of
      Inl e \<Rightarrow> Logout S response ms = (ms, Pending)
    | Inr _ \<Rightarrow> snd (Logout S response ms) = Resolved () \<and>
        us_token (snd (fst (Logout S response ms))) = JStr [] \<and>
        us_roles (snd (fst (Logout S response ms))) = NoRoles \<and>
        s_get S (fst (fst (Logout S response ms))) ACCESS_TOKEN = Undefined"
  by (cases ms) (auto simp: store_simps get_remove [OF assms] split: sum.splits)

theorem Logout_outcome_witness:
  "Logout alist_storage (Inl (ApiError None)) ([], init_user) = (([], init_user), Pending)"
  using Logout_outcome [OF alist_storage_laws, of "Inl (ApiError None)" "([], init_user)"] by simp

end
