(* ===== verification/Routes.thy ===== *)
theory Routes
  imports Prelude
begin

text \<open>
  Route records as vue-router takes them (the objects of \<open>src/config/router.config.js\<close> and the
  ones \<open>generator\<close> builds), and pruning a route tree by a test on the records, the common part
  of the menu filters. A route's own fields are a record, its children a list that may be absent.
\<close>

section \<open>Data\<close>

text \<open>\<open>meta.permission\<close> is a list in the static table and a plain string in the generated one;
  \<open>includes\<close> is membership on the one and substring search on the other.\<close>

datatype permission_spec = PermList "string list" | PermString string

fun spec_includes :: "permission_spec \<Rightarrow> string \<Rightarrow> bool" where
  "spec_includes (PermList ps) p = (p \<in> set ps)"
| "spec_includes (PermString s) p = sublist p s"

text \<open>An empty string is falsy, an array (even an empty one) is not.\<close>

fun spec_truthy :: "permission_spec \<Rightarrow> bool" where
  "spec_truthy (PermList ps) = True"
| "spec_truthy (PermString s) = (s \<noteq> [])"

record route_meta =
  m_title :: "string option"
  m_icon :: "string option"
  m_keepAlive :: "bool option"
  m_permission :: "permission_spec option"
  m_target :: "string option"
  m_hiddenHeaderContent :: "bool option"
  m_hideHeader :: "bool option"
  m_hidden :: "bool option"
  m_roles :: "string list option"

definition no_meta :: route_meta where
  "no_meta = \<lparr>m_title = None, m_icon = None, m_keepAlive = None, m_permission = None,
     m_target = None, m_hiddenHeaderContent = None, m_hideHeader = None, m_hidden = None,
     m_roles = None\<rparr>"

text \<open>A component is an imported layout object, a lazy \<open>() => import(path)\<close>, something
  \<open>Object.prototype\<close> lends to an object used as a table, or undefined.\<close>

datatype component = Layout string | Import string | Inherited string | NoComponent

record route_info =
  r_path :: string
  r_name :: "string option"
  r_component :: component
  r_redirect :: "string option"
  r_meta :: "route_meta option"
  r_hidden :: "bool option"
  r_hideChildrenInMenu :: "bool option"

definition no_route :: route_info where
  "no_route = \<lparr>r_path = [], r_name = None, r_component = NoComponent, r_redirect = None,
     r_meta = None, r_hidden = None, r_hideChildrenInMenu = None\<rparr>"

datatype route = Route (info: route_info) (children: "route list option")

section \<open>Walking a route tree\<close>

text \<open>The menu seen from the root: for every route, in document order, the records on the way
  down to it. This is the list of all positions of the tree, so an equation between the chains
  of two trees says which routes they have, below which, and in which order.\<close>

fun chains :: "route list \<Rightarrow> route_info list list" where
  "chains [] = []"
| "chains (Route r cs # rs) =
     [r] # map ((#) r) (case cs of None \<Rightarrow> [] | Some ts \<Rightarrow> chains ts) @ chains rs"

definition infos :: "route list \<Rightarrow> route_info list" where
  "infos rs = map last (chains rs)"

fun prune :: "(route_info \<Rightarrow> bool) \<Rightarrow> route list \<Rightarrow> route list" where
  "prune ok [] = []"
| "prune ok (Route r cs # rs) =
     (if ok r then Route r (map_option (prune ok) cs) # prune ok rs else prune ok rs)"

lemma chains_not_Nil: "c \<in> set (chains rs) \<Longrightarrow> c \<noteq> []"
  by (induction rs rule: chains.induct) auto

lemma chains_append [route_simps]: "chains (rs @ ts) = chains rs @ chains ts"
proof (induction rs)
  case Nil
  show ?case by simp
next
  case (Cons r rs)
  then show ?case by (cases r) simp
qed

lemma infos_Nil [route_simps]: "infos [] = []"
  by (simp add: infos_def)

lemma infos_Cons [route_simps]:
  "infos (Route r cs # rs) = r # (case cs of None \<Rightarrow> [] | Some ts \<Rightarrow> infos ts) @ infos rs"
  by (auto simp: infos_def comp_def dest: chains_not_Nil split: option.splits)

text \<open>Pruning keeps exactly the positions all of whose records pass the test, in order.\<close>

lemma chains_prune: "chains (prune ok rs) = filter (list_all ok) (chains rs)"
proof (induction rs rule: chains.induct)
  case 1
  show ?case by simp
next
  case (2 r cs rs)
  show ?case
  proof (cases "ok r")
    case True
    with 2 show ?thesis
      by (cases cs) (simp_all add: filter_map comp_def)
  next
    case False
    with 2 show ?thesis
      by (cases cs) (simp_all add: filter_map comp_def)
  qed
qed

lemma prune_prune: "prune ok (prune ok' rs) = prune (\<lambda>r. ok r \<and> ok' r) rs"
proof (induction "\<lambda>r. ok r \<and> ok' r" rs rule: prune.induct)
  case 1
  show ?case by simp
next
  case (2 r cs rs)
  then show ?case
    by (cases cs) auto
qed

lemma prune_id: "list_all ok (infos rs) \<Longrightarrow> prune ok rs = rs"
proof (induction ok rs rule: prune.induct)
  case (1 ok)
  show ?case by simp
next
  case (2 ok r cs rs)
  then show ?case
    by (cases cs) (auto simp: route_simps)
qed

lemma infos_prune_subset: "set (infos (prune ok rs)) \<subseteq> set (infos rs) \<inter> {r. ok r}"
proof (induction rs rule: chains.induct)
  case 1
  show ?case by (simp add: route_simps)
next
  case (2 r cs rs)
  then show ?case
    by (cases cs) (auto simp: route_simps)
qed

section \<open>The interface of a menu policy\<close>

text \<open>
  What a menu filter relies on: a test of a route against what a user was granted, which only
  grants more when more is granted. The client's lemmas are proved here once, for any policy.
\<close>

locale menu_policy =
  fixes ok :: "'p list \<Rightarrow> route_info \<Rightarrow> bool"
  assumes ok_mono: "set ps \<subseteq> set qs \<Longrightarrow> ok ps r \<Longrightarrow> ok qs r"
begin

lemma visible_mono:
  assumes "set ps \<subseteq> set qs"
  shows "subseq (chains (prune (ok ps) rs)) (chains (prune (ok qs) rs))"
  unfolding chains_prune
  by (rule subseq_filter_mono) (auto elim!: list_all_mono_set dest: ok_mono [OF assms])

lemma visible_cong:
  assumes "set ps = set qs"
  shows "prune (ok ps) rs = prune (ok qs) rs"
proof -
  have "ok ps = ok qs"
    using ok_mono assms by blast
  then show ?thesis by simp
qed

lemma narrow_wide:
  assumes "set ps \<subseteq> set qs"
  shows "prune (ok ps) (prune (ok qs) rs) = prune (ok ps) rs"
proof -
  have "(\<lambda>r. ok ps r \<and> ok qs r) = ok ps"
    using ok_mono [OF assms] by blast
  then show ?thesis by (simp add: prune_prune)
qed

end

end
