(* ===== verification/RouteConfig.thy ===== *)
theory RouteConfig
  imports Routes
begin

text \<open>
  The two route tables of \<open>src/config/router.config.js\<close>, route by route, and what can be read off
  them: the paths and names they declare and where their redirects lead. Titles are message keys
  or, for the monitoring and management pages, the literal Chinese text. Commented-out routes of
  the source are not part of the tables.
\<close>

section \<open>The tables\<close>

definition route_dashboard :: route where
  "route_dashboard =
    Route
      (no_route\<lparr>r_path := ''/dashboard'',
        r_name := Some ''dashboard'',
        r_redirect := Some ''/dashboard/workplace'',
        r_component := Layout ''RouteView'',
        r_meta := Some (no_meta\<lparr>m_title := Some ''menu.dashboard'', m_keepAlive := Some True, m_icon := Some ''bxAnaalyse'', m_permission := Some (PermList [''dashboard''])\<rparr>)\<rparr>)
      (Some [Route
         (no_route\<lparr>r_path := (''/dashboard/analysis/:pageNo([1-9]'' @ utf8 [0x5C] @ ''d*)?''),
           r_name := Some ''Analysis'',
           r_component := Import ''@/views/dashboard/Analysis'',
           r_meta := Some (no_meta\<lparr>m_title := Some ''menu.dashboard.analysis'', m_keepAlive := Some False, m_permission := Some (PermList [''dashboard''])\<rparr>)\<rparr>)
         None,
       Route
         (no_route\<lparr>r_path := ''https://www.baidu.com/'',
           r_name := Some ''Monitor'',
           r_meta := Some (no_meta\<lparr>m_title := Some ''menu.dashboard.monitor'', m_target := Some ''_blank''\<rparr>)\<rparr>)
         None,
       Route
         (no_route\<lparr>r_path := ''/dashboard/workplace'',
           r_name := Some ''Workplace'',
           r_component := Import ''@/views/dashboard/Workplace'',
           r_meta := Some (no_meta\<lparr>m_title := Some ''menu.dashboard.workplace'', m_keepAlive := Some True, m_permission := Some (PermList [''dashboard''])\<rparr>)\<rparr>)
         None])"

definition route_form :: route where
  "route_form =
    Route
      (no_route\<lparr>r_path := ''/form'',
        r_redirect := Some ''/form/base-form'',
        r_component := Layout ''RouteView'',
        r_meta := Some (no_meta\<lparr>m_title := Some ''menu.form'', m_icon := Some ''form'', m_permission := Some (PermList [''form''])\<rparr>)\<rparr>)
      (Some [Route
         (no_route\<lparr>r_path := ''/form/base-form'',
           r_name := Some ''BaseForm'',
           r_component := Import ''@/views/form/basicForm'',
           r_meta := Some (no_meta\<lparr>m_title := Some ''menu.form.basic-form'', m_keepAlive := Some True, m_permission := Some (PermList [''form''])\<rparr>)\<rparr>)
         None,
       Route
         (no_route\<lparr>r_path := ''/form/step-form'',
           r_name := Some ''StepForm'',
           r_component := Import ''@/views/form/stepForm/StepForm'',
           r_meta := Some (no_meta\<lparr>m_title := Some ''menu.form.step-form'', m_keepAlive := Some True, m_permission := Some (PermList [''form''])\<rparr>)\<rparr>)
         None,
       Route
         (no_route\<lparr>r_path := ''/form/advanced-form'',
           r_name := Some ''AdvanceForm'',
           r_component := Import ''@/views/form/advancedForm/AdvancedForm'',
           r_meta := Some (no_meta\<lparr>m_title := Some ''menu.form.advanced-form'', m_keepAlive := Some True, m_permission := Some (PermList [''form''])\<rparr>)\<rparr>)
         None])"

definition route_list :: route where
  "route_list =
    Route
      (no_route\<lparr>r_path := ''/list'',
        r_name := Some ''list'',
        r_component := Layout ''RouteView'',
        r_redirect := Some ''/list/table-list'',
        r_meta := Some (no_meta\<lparr>m_title := Some ''menu.list'', m_icon := Some ''table'', m_permission := Some (PermList [''table''])\<rparr>)\<rparr>)
      (Some [Route
         (no_route\<lparr>r_path := (''/list/table-list/:pageNo([1-9]'' @ utf8 [0x5C] @ ''d*)?''),
           r_name := Some ''TableListWrapper'',
           r_hideChildrenInMenu := Some True,
           r_component := Import ''@/views/list/TableList'',
           r_meta := Some (no_meta\<lparr>m_title := Some ''menu.list.table-list'', m_keepAlive := Some True, m_permission := Some (PermList [''table''])\<rparr>)\<rparr>)
         None,
       Route
         (no_route\<lparr>r_path := ''/list/basic-list'',
           r_name := Some ''BasicList'',
           r_component := Import ''@/views/list/BasicList'',
           r_meta := Some (no_meta\<lparr>m_title := Some ''menu.list.basic-list'', m_keepAlive := Some True, m_permission := Some (PermList [''table''])\<rparr>)\<rparr>)
         None,
       Route
         (no_route\<lparr>r_path := ''/list/card'',
           r_name := Some ''CardList'',
           r_component := Import ''@/views/list/CardList'',
           r_meta := Some (no_meta\<lparr>m_title := Some ''menu.list.card-list'', m_keepAlive := Some True, m_permission := Some (PermList [''table''])\<rparr>)\<rparr>)
         None,
       Route
         (no_route\<lparr>r_path := ''/list/search'',
           r_name := Some ''SearchList'',
           r_component := Import ''@/views/list/search/SearchLayout'',
           r_redirect := Some ''/list/search/article'',
           r_meta := Some (no_meta\<lparr>m_title := Some ''menu.list.search-list'', m_keepAlive := Some True, m_permission := Some (PermList [''table''])\<rparr>)\<rparr>)
         (Some [Route
            (no_route\<lparr>r_path := ''/list/search/article'',
              r_name := Some ''SearchArticles'',
              r_component := Import ''../views/list/search/Article'',
              r_meta := Some (no_meta\<lparr>m_title := Some ''menu.list.search-list.articles'', m_permission := Some (PermList [''table''])\<rparr>)\<rparr>)
            None,
          Route
            (no_route\<lparr>r_path := ''/list/search/project'',
              r_name := Some ''SearchProjects'',
              r_component := Import ''../views/list/search/Projects'',
              r_meta := Some (no_meta\<lparr>m_title := Some ''menu.list.search-list.projects'', m_permission := Some (PermList [''table''])\<rparr>)\<rparr>)
            None,
          Route
            (no_route\<lparr>r_path := ''/list/search/application'',
              r_name := Some ''SearchApplications'',
              r_component := Import ''../views/list/search/Applications'',
              r_meta := Some (no_meta\<lparr>m_title := Some ''menu.list.search-list.applications'', m_permission := Some (PermList [''table''])\<rparr>)\<rparr>)
            None])])"

definition route_profile :: route where
  "route_profile =
    Route
      (no_route\<lparr>r_path := ''/profile'',
        r_name := Some ''profile'',
        r_component := Layout ''RouteView'',
        r_redirect := Some ''/profile/basic'',
        r_meta := Some (no_meta\<lparr>m_title := Some ''menu.profile'', m_icon := Some ''profile'', m_permission := Some (PermList [''profile''])\<rparr>)\<rparr>)
      (Some [Route
         (no_route\<lparr>r_path := ''/profile/basic'',
           r_name := Some ''ProfileBasic'',
           r_component := Import ''@/views/profile/basic'',
           r_meta := Some (no_meta\<lparr>m_title := Some ''menu.profile.basic'', m_permission := Some (PermList [''profile''])\<rparr>)\<rparr>)
         None,
       Route
         (no_route\<lparr>r_path := ''/profile/advanced'',
           r_name := Some ''ProfileAdvanced'',
           r_component := Import ''@/views/profile/advanced/Advanced'',
           r_meta := Some (no_meta\<lparr>m_title := Some ''menu.profile.advanced'', m_permission := Some (PermList [''profile''])\<rparr>)\<rparr>)
         None])"

definition route_result :: route where
  "route_result =
    Route
      (no_route\<lparr>r_path := ''/result'',
        r_name := Some ''result'',
        r_component := Layout ''RouteView'',
        r_redirect := Some ''/result/success'',
        r_meta := Some (no_meta\<lparr>m_title := Some ''menu.result'', m_icon := Some ''check-circle-o'', m_permission := Some (PermList [''result''])\<rparr>)\<rparr>)
      (Some [Route
         (no_route\<lparr>r_path := ''/result/success'',
           r_name := Some ''ResultSuccess'',
           r_component := Import ''@/views/result/Success'',
           r_meta := Some (no_meta\<lparr>m_title := Some ''menu.result.success'', m_keepAlive := Some False, m_hiddenHeaderContent := Some True, m_permission := Some (PermList [''result''])\<rparr>)\<rparr>)
         None,
       Route
         (no_route\<lparr>r_path := ''/result/fail'',
           r_name := Some ''ResultFail'',
           r_component := Import ''@/views/result/Error'',
           r_meta := Some (no_meta\<lparr>m_title := Some ''menu.result.fail'', m_keepAlive := Some False, m_hiddenHeaderContent := Some True, m_permission := Some (PermList [''result''])\<rparr>)\<rparr>)
         None])"

definition route_account :: route where
  "route_account =
    Route
      (no_route\<lparr>r_path := ''/account'',
        r_component := Layout ''RouteView'',
        r_redirect := Some ''/account/center'',
        r_name := Some ''account'',
        r_meta := Some (no_meta\<lparr>m_title := Some ''menu.account'', m_icon := Some ''user'', m_keepAlive := Some True, m_permission := Some (PermList [''user''])\<rparr>)\<rparr>)
      (Some [Route
         (no_route\<lparr>r_path := ''/account/center'',
           r_name := Some ''center'',
           r_component := Import ''@/views/account/center'',
           r_meta := Some (no_meta\<lparr>m_title := Some ''menu.account.center'', m_keepAlive := Some True, m_permission := Some (PermList [''user''])\<rparr>)\<rparr>)
         None,
       Route
         (no_route\<lparr>r_path := ''/account/settings'',
           r_name := Some ''settings'',
           r_component := Import ''@/views/account/settings/Index'',
           r_meta := Some (no_meta\<lparr>m_title := Some ''menu.account.settings'', m_hideHeader := Some True, m_permission := Some (PermList [''user''])\<rparr>),
           r_redirect := Some ''/account/settings/basic'',
           r_hideChildrenInMenu := Some True\<rparr>)
         (Some [Route
            (no_route\<lparr>r_path := ''/account/settings/basic'',
              r_name := Some ''BasicSettings'',
              r_component := Import ''@/views/account/settings/BasicSetting'',
              r_meta := Some (no_meta\<lparr>m_title := Some ''account.settings.menuMap.basic'', m_hidden := Some True, m_permission := Some (PermList [''user''])\<rparr>)\<rparr>)
            None,
          Route
            (no_route\<lparr>r_path := ''/account/settings/security'',
              r_name := Some ''SecuritySettings'',
              r_component := Import ''@/views/account/settings/Security'',
              r_meta := Some (no_meta\<lparr>m_title := Some ''account.settings.menuMap.security'', m_hidden := Some True, m_keepAlive := Some True, m_permission := Some (PermList [''user''])\<rparr>)\<rparr>)
            None,
          Route
            (no_route\<lparr>r_path := ''/account/settings/custom'',
              r_name := Some ''CustomSettings'',
              r_component := Import ''@/views/account/settings/Custom'',
              r_meta := Some (no_meta\<lparr>m_title := Some ''account.settings.menuMap.custom'', m_hidden := Some True, m_keepAlive := Some True, m_permission := Some (PermList [''user''])\<rparr>)\<rparr>)
            None,
          Route
            (no_route\<lparr>r_path := ''/account/settings/binding'',
              r_name := Some ''BindingSettings'',
              r_component := Import ''@/views/account/settings/Binding'',
              r_meta := Some (no_meta\<lparr>m_title := Some ''account.settings.menuMap.binding'', m_hidden := Some True, m_keepAlive := Some True, m_permission := Some (PermList [''user''])\<rparr>)\<rparr>)
            None,
          Route
            (no_route\<lparr>r_path := ''/account/settings/notification'',
              r_name := Some ''NotificationSettings'',
              r_component := Import ''@/views/account/settings/Notification'',
              r_meta := Some (no_meta\<lparr>m_title := Some ''account.settings.menuMap.notification'', m_hidden := Some True, m_keepAlive := Some True, m_permission := Some (PermList [''user''])\<rparr>)\<rparr>)
            None])])"

definition route_monitor :: route where
  "route_monitor =
    Route
      (no_route\<lparr>r_path := ''/monitor'',
        r_name := Some ''Monitor'',
        r_component := Layout ''RouteView'',
        r_meta := Some (no_meta\<lparr>m_title := Some (utf8 [0x76D1, 0x63A7]), m_icon := Some ''bar-chart''\<rparr>)\<rparr>)
      (Some [Route
         (no_route\<lparr>r_path := ''/monitor/server'',
           r_name := Some ''MonitorServer'',
           r_component := Import ''@/views/monitor/server'',
           r_meta := Some (no_meta\<lparr>m_title := Some (utf8 [0x670D, 0x52A1, 0x5668])\<rparr>)\<rparr>)
         None,
       Route
         (no_route\<lparr>r_path := ''/monitor/switch'',
           r_name := Some ''MonitorSwitch'',
           r_component := Import ''@/views/monitor/switch'',
           r_meta := Some (no_meta\<lparr>m_title := Some (utf8 [0x4EA4, 0x6362, 0x673A])\<rparr>)\<rparr>)
         None,
       Route
         (no_route\<lparr>r_path := ''/monitor/link'',
           r_name := Some ''MonitorLink'',
           r_component := Import ''@/views/monitor/link'',
           r_meta := Some (no_meta\<lparr>m_title := Some (utf8 [0x94FE, 0x8DEF])\<rparr>)\<rparr>)
         None,
       Route
         (no_route\<lparr>r_path := ''/monitor/sfci'',
           r_name := Some ''MonitorSFCI'',
           r_component := Import ''@/views/monitor/sfci'',
           r_meta := Some (no_meta\<lparr>m_title := Some ''SFCI''\<rparr>)\<rparr>)
         None,
       Route
         (no_route\<lparr>r_path := ''/monitor/sfc'',
           r_name := Some ''MonitorSFC'',
           r_component := Import ''@/views/monitor/sfci'',
           r_meta := Some (no_meta\<lparr>m_title := Some ''SFC''\<rparr>)\<rparr>)
         None,
       Route
         (no_route\<lparr>r_path := ''/monitor/vnfi'',
           r_name := Some ''MonitorVNFI'',
           r_component := Import ''@/views/monitor/sfci'',
           r_meta := Some (no_meta\<lparr>m_title := Some ''VNFI''\<rparr>)\<rparr>)
         None])"

definition route_manager :: route where
  "route_manager =
    Route
      (no_route\<lparr>r_path := ''/manager'',
        r_name := Some ''Manager'',
        r_component := Layout ''RouteView'',
        r_meta := Some (no_meta\<lparr>m_title := Some (utf8 [0x7BA1, 0x7406]), m_icon := Some ''bar-chart''\<rparr>)\<rparr>)
      (Some [Route
         (no_route\<lparr>r_path := ''/manager/add_sfc'',
           r_name := Some ''ManagerAddSFC'',
           r_component := Import ''@/views/manager/add_sfc'',
           r_meta := Some (no_meta\<lparr>m_title := Some (utf8 [0x6DFB, 0x52A0] @ ''SFC'')\<rparr>)\<rparr>)
         None])"

definition asyncRouterMap :: "route list" where
  "asyncRouterMap =
    [Route
      (no_route\<lparr>r_path := ''/'',
        r_name := Some ''index'',
        r_component := Layout ''BasicLayout'',
        r_meta := Some (no_meta\<lparr>m_title := Some ''menu.home''\<rparr>),
        r_redirect := Some ''/dashboard/workplace''\<rparr>)
      (Some [route_dashboard, route_form, route_list, route_profile, route_result, route_account, route_monitor, route_manager]),
     Route
       (no_route\<lparr>r_path := ''*'',
         r_redirect := Some ''/404'',
         r_hidden := Some True\<rparr>)
       None]"

definition constantRouterMap :: "route list" where
  "constantRouterMap =
    [Route
       (no_route\<lparr>r_path := ''/user'',
         r_component := Layout ''UserLayout'',
         r_redirect := Some ''/user/login'',
         r_hidden := Some True\<rparr>)
       (Some [Route
          (no_route\<lparr>r_path := ''login'',
            r_name := Some ''login'',
            r_component := Import ''@/views/user/Login''\<rparr>)
          None,
        Route
          (no_route\<lparr>r_path := ''register'',
            r_name := Some ''register'',
            r_component := Import ''@/views/user/Register''\<rparr>)
          None,
        Route
          (no_route\<lparr>r_path := ''register-result'',
            r_name := Some ''registerResult'',
            r_component := Import ''@/views/user/RegisterResult''\<rparr>)
          None,
        Route
          (no_route\<lparr>r_path := ''recover'',
            r_name := Some ''recover'',
            r_component := NoComponent\<rparr>)
          None]),
     Route
       (no_route\<lparr>r_path := ''/404'',
         r_component := Import ''@/views/exception/404''\<rparr>)
       None]"

lemmas route_tables = route_dashboard_def route_form_def route_list_def route_profile_def route_result_def route_account_def route_monitor_def route_manager_def asyncRouterMap_def constantRouterMap_def

section \<open>Paths, names and redirects\<close>

text \<open>How vue-router reads the tables: a child path that is not absolute continues its parent's,
  and a trailing \<open>/:param\<close> of a path matches the path without it.\<close>

definition join_path :: "string \<Rightarrow> string \<Rightarrow> string" where
  "join_path base p =
     (if prefix ''/'' p \<or> prefix ''http'' p \<or> base = [] then p else base @ ''/'' @ p)"

fun full_paths :: "string \<Rightarrow> route list \<Rightarrow> string list" where
  "full_paths base [] = []"
| "full_paths base (Route r cs # rs) =
     join_path base (r_path r) #
     (case cs of None \<Rightarrow> [] | Some ts \<Rightarrow> full_paths (join_path base (r_path r)) ts) @
     full_paths base rs"

definition path_matches :: "string \<Rightarrow> string \<Rightarrow> bool" where
  "path_matches target p \<longleftrightarrow> p = target \<or> prefix (target @ ''/:'') p"

definition redirects :: "route list \<Rightarrow> string list" where
  "redirects rs = List.map_filter r_redirect (infos rs)"

definition route_names :: "route list \<Rightarrow> string list" where
  "route_names rs = List.map_filter r_name (infos rs)"

fun unmatched :: "string list \<Rightarrow> string list \<Rightarrow> string list" where
  "unmatched ps [] = []"
| "unmatched ps (t # ts) =
     (if list_ex (path_matches t) ps then unmatched ps ts else t # unmatched ps ts)"

text \<open>The redirects of a table that lead nowhere in it.\<close>

definition dangling :: "route list \<Rightarrow> string list" where
  "dangling rs = unmatched (full_paths [] rs) (redirects rs)"

fun repeated :: "'a list \<Rightarrow> 'a list" where
  "repeated [] = []"
| "repeated (x # xs) = (if x \<in> set xs then x # repeated xs else repeated xs)"

lemma repeated_Nil_iff: "repeated xs = [] \<longleftrightarrow> distinct xs"
  by (induction xs) auto

lemma infos_append [route_simps]: "infos (rs @ ts) = infos rs @ infos ts"
  by (simp add: infos_def route_simps)

lemma redirects_append [route_simps]: "redirects (rs @ ts) = redirects rs @ redirects ts"
  by (simp add: redirects_def route_simps List.map_filter_def)

lemma redirects_Nil [route_simps]: "redirects [] = []"
  by (simp add: redirects_def route_simps List.map_filter_simps)

lemma redirects_Cons [route_simps]:
  "redirects (Route r cs # rs) =
     (case r_redirect r of None \<Rightarrow> [] | Some t \<Rightarrow> [t]) @
     (case cs of None \<Rightarrow> [] | Some ts \<Rightarrow> redirects ts) @ redirects rs"
  by (auto simp: redirects_def route_simps List.map_filter_def split: option.splits)

lemma full_paths_append [route_simps]:
  "full_paths b (rs @ ts) = full_paths b rs @ full_paths b ts"
proof (induction rs)
  case Nil
  show ?case by simp
next
  case (Cons r rs)
  then show ?case by (cases r) simp
qed

lemma unmatched_append: "unmatched ps (ts @ us) = unmatched ps ts @ unmatched ps us"
  by (induction ts) auto

lemma unmatched_Nil_mono:
  assumes "unmatched ps ts = []" and "set ps \<subseteq> set qs"
  shows "unmatched qs ts = []"
  using assms(1)
proof (induction ts)
  case Nil
  show ?case by simp
next
  case (Cons t ts)
  with assms(2) show ?case by (auto simp: list_ex_iff split: if_splits)
qed

lemmas table_eval = route_tables route_simps no_route_def

lemma route_names_tables:
  "route_names (constantRouterMap @ asyncRouterMap) =
     [''login'', ''register'', ''registerResult'', ''recover'', ''index'',
      ''dashboard'', ''Analysis'', ''Monitor'', ''Workplace'', ''BaseForm'',
      ''StepForm'', ''AdvanceForm'', ''list'', ''TableListWrapper'', ''BasicList'',
      ''CardList'', ''SearchList'', ''SearchArticles'', ''SearchProjects'', ''SearchApplications'',
      ''profile'', ''ProfileBasic'', ''ProfileAdvanced'', ''result'', ''ResultSuccess'',
      ''ResultFail'', ''account'', ''center'', ''settings'', ''BasicSettings'',
      ''SecuritySettings'', ''CustomSettings'', ''BindingSettings'', ''NotificationSettings'', ''Monitor'',
      ''MonitorServer'', ''MonitorSwitch'', ''MonitorLink'', ''MonitorSFCI'', ''MonitorSFC'',
      ''MonitorVNFI'', ''Manager'', ''ManagerAddSFC'']"
  by (simp add: route_names_def table_eval List.map_filter_simps)

lemma redirects_tables:
  "redirects (constantRouterMap @ asyncRouterMap) =
     [''/user/login'', ''/dashboard/workplace'', ''/dashboard/workplace'', ''/form/base-form'', ''/list/table-list'',
      ''/list/search/article'', ''/profile/basic'', ''/result/success'', ''/account/center'', ''/account/settings/basic'',
      ''/404'']"
  by (simp add: table_eval)

lemma full_paths_tables:
  "full_paths [] (constantRouterMap @ asyncRouterMap) =
     [''/user'', ''/user/login'', ''/user/register'', ''/user/register-result'', ''/user/recover'',
      ''/404'', ''/'', ''/dashboard'', (''/dashboard/analysis/:pageNo([1-9]'' @ utf8 [0x5C] @ ''d*)?''), ''https://www.baidu.com/'',
      ''/dashboard/workplace'', ''/form'', ''/form/base-form'', ''/form/step-form'', ''/form/advanced-form'',
      ''/list'', (''/list/table-list/:pageNo([1-9]'' @ utf8 [0x5C] @ ''d*)?''), ''/list/basic-list'', ''/list/card'', ''/list/search'',
      ''/list/search/article'', ''/list/search/project'', ''/list/search/application'', ''/profile'', ''/profile/basic'',
      ''/profile/advanced'', ''/result'', ''/result/success'', ''/result/fail'', ''/account'',
      ''/account/center'', ''/account/settings'', ''/account/settings/basic'', ''/account/settings/security'', ''/account/settings/custom'',
      ''/account/settings/binding'', ''/account/settings/notification'', ''/monitor'', ''/monitor/server'', ''/monitor/switch'',
      ''/monitor/link'', ''/monitor/sfci'', ''/monitor/sfc'', ''/monitor/vnfi'', ''/manager'',
      ''/manager/add_sfc'', ''*'']"
  by (simp add: table_eval join_path_def)

text \<open>In the complete tables every redirect leads to a declared path, no two routes declare the
  same path, and exactly one name is declared twice: both the external link of the dashboard and
  the monitoring section are called \<open>Monitor\<close>.\<close>

theorem route_tables_consistent:
  "dangling (constantRouterMap @ asyncRouterMap) = [] \<and>
   distinct (full_paths [] (constantRouterMap @ asyncRouterMap)) \<and>
   repeated (route_names (constantRouterMap @ asyncRouterMap)) = [''Monitor'']"
proof (intro conjI)
  show "dangling (constantRouterMap @ asyncRouterMap) = []"
    by (simp add: dangling_def redirects_tables full_paths_tables path_matches_def)
  show "distinct (full_paths [] (constantRouterMap @ asyncRouterMap))"
    by (simp add: full_paths_tables)
  show "repeated (route_names (constantRouterMap @ asyncRouterMap)) = [''Monitor'']"
    by (simp add: route_names_tables)
qed

end
