(* ===== verification/RoutePermission.thy ===== *)
theory RoutePermission
  imports RouteConfig Account
begin

text \<open>
  The store module \<open>src/store/modules/permission.js\<close>: which routes of the static table a role may
  see, and the module's state. Reading \<open>length\<close> of an absent permission list, or a field of an
  absent role, throws; inside a promise executor that is a rejection.
\<close>

section \<open>The filter\<close>

fun permission_loop :: "permission_spec \<Rightarrow> string list \<Rightarrow> bool" where
  "permission_loop spec [] = False"
| "permission_loop spec (p # ps) =
     (let flag = spec_includes spec p in if flag then True else permission_loop spec ps)"

definition hasPermission :: "string list option \<Rightarrow> route_info \<Rightarrow> js_error + bool" where
  "hasPermission permission route =
     (case r_meta route of
        None \<Rightarrow> Inr True
      | Some meta \<Rightarrow>
          (case m_permission meta of
             None \<Rightarrow> Inr True
           | Some spec \<Rightarrow>
               (if spec_truthy spec
                then (case permission of
                        None \<Rightarrow> Inl TypeError
                      | Some ps \<Rightarrow> Inr (permission_loop spec ps))
                else Inr True)))"

definition hasRole :: "role \<Rightarrow> route_info \<Rightarrow> bool" where
  "hasRole roles route =
     (case r_meta route of
        None \<Rightarrow> True
      | Some meta \<Rightarrow> (case m_roles meta of None \<Rightarrow> True | Some rs \<Rightarrow> ro_id roles \<in> set rs))"

fun filterAsyncRouter :: "route list \<Rightarrow> string list option \<Rightarrow> js_error + route list" where
  "filterAsyncRouter [] pl = Inr []"
| "filterAsyncRouter (Route r cs # rs) pl =
     (case hasPermission pl r of
        Inl e \<Rightarrow> Inl e
      | Inr False \<Rightarrow> filterAsyncRouter rs pl
      | Inr True \<Rightarrow>
          both
            (case cs of
               None \<Rightarrow> Inr None
             | Some ts \<Rightarrow>
                 (if ts = [] then Inr (Some [])
                  else map_sum id Some (filterAsyncRouter ts pl)))
            (filterAsyncRouter rs pl)
            (\<lambda>cs' rs'. Route r cs' # rs'))"

section \<open>The module\<close>

record permission_state =
  routers :: "route list"
  addRouters :: "route list"

definition init_permission_state :: permission_state where
  "init_permission_state = \<lparr>routers = constantRouterMap, addRouters = []\<rparr>"

definition SET_ROUTERS :: "permission_state \<Rightarrow> route list \<Rightarrow> permission_state" where
  [store_simps]: "SET_ROUTERS state rs =
     state\<lparr>addRouters := rs, routers := constantRouterMap @ rs\<rparr>"

text \<open>The action gets \<open>data.roles\<close>, absent when the response carried no role. It filters a deep
  copy, so the table itself is a constant of the model.\<close>

definition GenerateRoutes :: "permission_state \<Rightarrow> role option \<Rightarrow> permission_state \<times> unit promise" where
  [store_simps]: "GenerateRoutes state roles =
     (case roles of
        None \<Rightarrow> (state, Rejected TypeError)
      | Some ro \<Rightarrow>
          (case filterAsyncRouter asyncRouterMap (ro_permissionList ro) of
             Inl e \<Rightarrow> (state, Rejected e)
           | Inr accessedRouters \<Rightarrow> (SET_ROUTERS state accessedRouters, Resolved ())))"

section \<open>The policy it implements\<close>

text \<open>The loop is a search: a route is granted when it names no permission, or one the user has.\<close>

definition permitted :: "string list \<Rightarrow> route_info \<Rightarrow> bool" where
  "permitted ps route =
     (case Option.bind (r_meta route) m_permission of
        None \<Rightarrow> True
      | Some spec \<Rightarrow> \<not> spec_truthy spec \<or> (\<exists>p \<in> set ps. spec_includes spec p))"

lemma permission_loop_iff: "permission_loop spec ps \<longleftrightarrow> (\<exists>p \<in> set ps. spec_includes spec p)"
  by (induction ps) (auto simp: Let_def)

lemma hasPermission_permitted: "hasPermission (Some ps) r = Inr (permitted ps r)"
  by (auto simp: hasPermission_def permitted_def permission_loop_iff split: option.splits)

lemma permitted_mono: "set ps \<subseteq> set qs \<Longrightarrow> permitted ps r \<Longrightarrow> permitted qs r"
  by (auto simp: permitted_def split: option.splits)

interpretation role_menu: menu_policy permitted
  by unfold_locales (rule permitted_mono)

lemma filterAsyncRouter_prune: "filterAsyncRouter rs (Some ps) = Inr (prune (permitted ps) rs)"
proof (induction rs "Some ps" rule: filterAsyncRouter.induct)
  case 1
  show ?case by simp
next
  case (2 r cs rs)
  show ?case
  proof (cases "permitted ps r")
    case True
    with 2 show ?thesis
      by (auto simp: hasPermission_permitted split: option.splits list.splits)
  next
    case False
    with 2 show ?thesis by (simp add: hasPermission_permitted)
  qed
qed

text \<open>With no permission list at all the filter throws at the first route that names one.\<close>

lemma filterAsyncRouter_undefined: "filterAsyncRouter asyncRouterMap None = Inl TypeError"
  unfolding asyncRouterMap_def route_dashboard_def
  by (simp add: hasPermission_def no_route_def no_meta_def)

text \<open>C7: the menu filter of \<open>filterAsyncRouter\<close> never throws once a permission list is there, and it
  keeps a position of the route tree exactly when the user is granted every route on the way
  from the root down to it. No route is reordered, duplicated or moved below another parent.\<close>

theorem filterAsyncRouter_keeps_granted_positions:
  "\<exists>rs'. filterAsyncRouter rs (Some ps) = Inr rs' \<and>
     chains rs' = filter (list_all (permitted ps)) (chains rs)"
  by (simp add: filterAsyncRouter_prune chains_prune)

text \<open>C32: granting more permissions never hides a route: the menu of the smaller list is a
  subsequence of the menu of the larger one, and filtering the larger menu again with the
  smaller list gives the smaller menu.\<close>

theorem filterAsyncRouter_monotone:
  assumes "set ps \<subseteq> set qs"
    and "filterAsyncRouter rs (Some ps) = Inr small" and "filterAsyncRouter rs (Some qs) = Inr large"
  shows "subseq (chains small) (chains large) \<and> filterAsyncRouter large (Some ps) = Inr small"
  using assms(2,3) role_menu.visible_mono [OF assms(1)] role_menu.narrow_wide [OF assms(1)]
  by (auto simp: filterAsyncRouter_prune)

theorem filterAsyncRouter_monotone_witness:
  "\<exists>small large.
     filterAsyncRouter asyncRouterMap (Some [''form'']) = Inr small \<and>
     filterAsyncRouter asyncRouterMap (Some [''table'', ''form'']) = Inr large \<and>
     subseq (chains small) (chains large) \<and> filterAsyncRouter large (Some [''form'']) = Inr small"
proof -
  have "set [''form''] \<subseteq> set [''table'', ''form'']" by simp
  from filterAsyncRouter_monotone [OF this filterAsyncRouter_prune filterAsyncRouter_prune]
  show ?thesis using filterAsyncRouter_prune by blast
qed

text \<open>\<open>GenerateRoutes\<close> leaves the module with the constant routes followed by the granted part of the
  static table, whatever was generated before, and rejects without touching the state when the
  role or its permission list is missing.\<close>

lemma GenerateRoutes_result:
  "GenerateRoutes st roles =
     (case Option.bind roles ro_permissionList of
        None \<Rightarrow> (st, Rejected TypeError)
      | Some ps \<Rightarrow>
          (st\<lparr>addRouters := prune (permitted ps) asyncRouterMap,
              routers := constantRouterMap @ prune (permitted ps) asyncRouterMap\<rparr>, Resolved ()))"
proof (cases "Option.bind roles ro_permissionList")
  case None
  then show ?thesis
    by (cases roles) (simp_all add: GenerateRoutes_def filterAsyncRouter_undefined)
next
  case (Some ps)
  then show ?thesis
    by (cases roles) (simp_all add: store_simps filterAsyncRouter_prune)
qed

section \<open>The static table under the filter\<close>

text \<open>Every section of the table asks for one permission throughout, or for none.\<close>

definition granted :: "string list \<Rightarrow> string \<Rightarrow> route \<Rightarrow> route list" where
  "granted ps p r = (if p \<in> set ps then [r] else [])"

lemma prune_append [route_simps]: "prune ok (rs @ ts) = prune ok rs @ prune ok ts"
proof (induction rs)
  case Nil
  show ?case by simp
next
  case (Cons r rs)
  then show ?case by (cases r) simp
qed

lemma prune_sections:
  "prune (permitted ps) [route_dashboard] = granted ps ''dashboard'' route_dashboard"
  "prune (permitted ps) [route_form] = granted ps ''form'' route_form"
  "prune (permitted ps) [route_list] = granted ps ''table'' route_list"
  "prune (permitted ps) [route_profile] = granted ps ''profile'' route_profile"
  "prune (permitted ps) [route_result] = granted ps ''result'' route_result"
  "prune (permitted ps) [route_account] = granted ps ''user'' route_account"
  "prune (permitted ps) [route_monitor] = [route_monitor]"
  "prune (permitted ps) [route_manager] = [route_manager]"
  by (simp_all add: granted_def route_tables permitted_def no_route_def no_meta_def)

definition visible_sections :: "string list \<Rightarrow> route list" where
  "visible_sections ps =
     granted ps ''dashboard'' route_dashboard @ granted ps ''form'' route_form @
     granted ps ''table'' route_list @ granted ps ''profile'' route_profile @
     granted ps ''result'' route_result @ granted ps ''user'' route_account @
     [route_monitor, route_manager]"

lemma prune_all_sections:
  "prune (permitted ps)
     [route_dashboard, route_form, route_list, route_profile, route_result, route_account,
      route_monitor, route_manager] = visible_sections ps"
  (is "prune _ ?all = _")
proof -
  have "?all = [route_dashboard] @ [route_form] @ [route_list] @ [route_profile] @
      [route_result] @ [route_account] @ [route_monitor] @ [route_manager]"
    by simp
  then show ?thesis
    by (simp only: prune_append prune_sections visible_sections_def) simp
qed

definition index_route :: "route list \<Rightarrow> route" where
  "index_route sections =
     (case asyncRouterMap of Route r cs # rest \<Rightarrow> Route r (Some sections) | [] \<Rightarrow> Route no_route None)"

lemma prune_asyncRouterMap:
  "prune (permitted ps) asyncRouterMap = index_route (visible_sections ps) # tl asyncRouterMap"
  by (simp add: asyncRouterMap_def index_route_def prune_all_sections permitted_def
      no_route_def no_meta_def)

text \<open>What each permission opens in the static table: the dashboard, form, list, profile, result
  and account sections as a whole, each with its own permission; the monitoring and management
  sections, which name none, are open to every role.\<close>

theorem GenerateRoutes_sections:
  "filterAsyncRouter asyncRouterMap (Some ps) =
     Inr (index_route (visible_sections ps) # tl asyncRouterMap)"
  by (simp add: filterAsyncRouter_prune prune_asyncRouterMap)

lemma section_redirects_closed:
  "unmatched (full_paths ''/'' [r]) (redirects [r]) = []"
  if "r \<in> {route_dashboard, route_form, route_list, route_profile, route_result, route_account,
           route_monitor, route_manager}"
  using that
  by (elim insertE emptyE; simp add: table_eval join_path_def path_matches_def)

lemma full_paths_member:
  "r \<in> set rs \<Longrightarrow> set (full_paths b [r]) \<subseteq> set (full_paths b rs)"
proof (induction rs)
  case Nil
  then show ?case by simp
next
  case (Cons x rs)
  have "full_paths b (x # rs) = full_paths b [x] @ full_paths b rs"
    using full_paths_append [of b "[x]" rs] by simp
  with Cons show ?case by auto
qed

lemma unmatched_sections:
  assumes "\<And>r. r \<in> set rs \<Longrightarrow> unmatched (full_paths b [r]) (redirects [r]) = []"
    and "set (full_paths b rs) \<subseteq> set qs"
  shows "unmatched qs (redirects rs) = []"
  using assms
proof (induction rs)
  case Nil
  show ?case by (simp add: route_simps)
next
  case (Cons x rs)
  have split: "full_paths b (x # rs) = full_paths b [x] @ full_paths b rs"
    using full_paths_append [of b "[x]" rs] by simp
  have "unmatched qs (redirects [x]) = []"
    by (rule unmatched_Nil_mono [OF Cons.prems(1)]) (use Cons.prems(2) split in auto)
  moreover have "unmatched qs (redirects rs) = []"
    using Cons.prems split by (intro Cons.IH) auto
  moreover have "redirects (x # rs) = redirects [x] @ redirects rs"
    using redirects_append [of "[x]" rs] by simp
  ultimately show ?case by (simp add: unmatched_append)
qed

lemma section_paths_no_workplace:
  "\<not> list_ex (path_matches ''/dashboard/workplace'') (full_paths ''/'' [r])"
  if "r \<in> {route_form, route_list, route_profile, route_result, route_account,
           route_monitor, route_manager}"
  using that
  by (elim insertE emptyE; simp add: table_eval join_path_def path_matches_def)

lemma no_workplace_path:
  assumes "set rs \<subseteq> {route_form, route_list, route_profile, route_result, route_account,
      route_monitor, route_manager}"
  shows "\<not> list_ex (path_matches ''/dashboard/workplace'') (full_paths ''/'' rs)"
  using assms
proof (induction rs)
  case Nil
  show ?case by simp
next
  case (Cons x rs)
  moreover have "full_paths ''/'' (x # rs) = full_paths ''/'' [x] @ full_paths ''/'' rs"
    using full_paths_append [of "''/''" "[x]" rs] by simp
  ultimately show ?case
    using section_paths_no_workplace [of x] by simp
qed

lemma workplace_path_iff:
  "list_ex (path_matches ''/dashboard/workplace'') (full_paths ''/'' (visible_sections ps)) \<longleftrightarrow>
     ''dashboard'' \<in> set ps"
proof (cases "''dashboard'' \<in> set ps")
  case True
  have "list_ex (path_matches ''/dashboard/workplace'') (full_paths ''/'' [route_dashboard])"
    by (simp add: table_eval join_path_def path_matches_def)
  moreover have "set (full_paths ''/'' [route_dashboard]) \<subseteq> set (full_paths ''/'' (visible_sections ps))"
    by (rule full_paths_member) (simp add: visible_sections_def granted_def True)
  ultimately show ?thesis
    using True by (auto simp: list_ex_iff)
next
  case False
  then have "set (visible_sections ps) \<subseteq> {route_form, route_list, route_profile, route_result,
      route_account, route_monitor, route_manager}"
    by (auto simp: visible_sections_def granted_def)
  with False show ?thesis
    using no_workplace_path by blast
qed

lemma set_visible_sections:
  "set (visible_sections ps) \<subseteq> {route_dashboard, route_form, route_list, route_profile,
     route_result, route_account, route_monitor, route_manager}"
  by (auto simp: visible_sections_def granted_def)

lemma dangling_sections:
  "dangling (constantRouterMap @ index_route sections # tl asyncRouterMap) =
     unmatched
       ([''/user'', ''/user/login'', ''/user/register'', ''/user/register-result'', ''/user/recover'',
         ''/404'', ''/''] @ full_paths ''/'' sections @ [''*''])
       ([''/user/login'', ''/dashboard/workplace''] @ redirects sections @ [''/404''])"
  by (simp add: dangling_def index_route_def asyncRouterMap_def constantRouterMap_def route_simps
      no_route_def join_path_def)

text \<open>After filtering, every redirect of the router's tables still leads to a declared path,
  with one exception: without the dashboard permission the root route keeps its redirect to
  \<open>/dashboard/workplace\<close>, which is then no longer a route.\<close>

theorem GenerateRoutes_dangling_redirect:
  "dangling (routers (fst (GenerateRoutes st (Some ro)))) =
     (if ''dashboard'' \<in> set ps then [] else [''/dashboard/workplace''])"
  if "ro_permissionList ro = Some ps"
proof -
  let ?qs = "[''/user'', ''/user/login'', ''/user/register'', ''/user/register-result'',
      ''/user/recover'', ''/404'', ''/''] @ full_paths ''/'' (visible_sections ps) @ [''*'']"
  have "routers (fst (GenerateRoutes st (Some ro))) =
      constantRouterMap @ index_route (visible_sections ps) # tl asyncRouterMap"
    using that by (simp add: GenerateRoutes_result prune_asyncRouterMap)
  moreover have "unmatched ?qs (redirects (visible_sections ps)) = []"
    by (rule unmatched_sections [where b = "''/''"], rule section_redirects_closed)
      (use set_visible_sections in auto)
  ultimately show ?thesis
    by (simp add: dangling_sections unmatched_append workplace_path_iff path_matches_def
        list_ex_append)
qed

theorem GenerateRoutes_dangling_redirect_witness:
  "dangling (routers (fst (GenerateRoutes init_permission_state
     (Some \<lparr>ro_id = ''guest'', ro_name = ''guest'', ro_permissions = Some [],
            ro_permissionList = Some [''form'']\<rparr>)))) = [''/dashboard/workplace'']"
  by (subst GenerateRoutes_dangling_redirect [where ps = "[''form'']"]) simp_all

end
