(* ===== verification/Guard.thy ===== *)
theory Guard
  imports UserStore RoutePermission
begin

text \<open>
  The navigation guard \<open>src/permission.js\<close>: what \<open>router.beforeEach\<close> decides for a navigation, and
  what it does to the store and the router on the way. The outcomes of the requests it makes are
  arguments. vue-router itself is not in the repository: its route table is the list of records
  handed to it, \<open>addRoute\<close> appends to it, and turning a path into a location is a parameter.
  The progress bar, the document title and the notification have no influence and are left out,
  but for a flag that says whether the notification was shown.
\<close>

section \<open>Data\<close>

record location =
  l_path :: string
  l_fullPath :: string
  l_name :: "string option"
  l_redirect :: "string option"

record 'm site =
  s_stored :: 'm
  s_user :: user_state
  s_permission :: permission_state
  s_router :: "route list"

definition fresh_site :: "'m storage_ops \<Rightarrow> 'm \<Rightarrow> 'm site" where
  "fresh_site S m =
     (let a = Initializer S (fresh_app m) in
      \<lparr>s_stored = stored a, s_user = user a, s_permission = init_permission_state,
       s_router = constantRouterMap\<rparr>)"

record requests =
  rq_info :: "js_error + user_info option"
  rq_greeting :: string
  rq_logout :: "js_error + unit"

text \<open>What \<open>next\<close> is called with: nothing, the same location again (replacing the entry), another path,
  the login page with the page to return to; or it is never called.\<close>

datatype decision = Proceed | Again | ToPath string | ToLogin string | Stuck

definition allowList :: "string list" where
  "allowList = [''login'', ''register'', ''registerResult'']"

definition loginRoutePath :: string where
  "loginRoutePath = ''/user/login''"

definition defaultRoutePath :: string where
  "defaultRoutePath = ''/dashboard/workplace''"

section \<open>The guard\<close>

text \<open>\<open>router.addRoute(r)\<close> for every generated route.\<close>

definition add_routes :: "'m site \<Rightarrow> 'm site" where
  "add_routes st = st\<lparr>s_router := s_router st @ addRouters (s_permission st)\<rparr>"

text \<open>The callback after a successful \<open>GetInfo\<close>. An error inside the inner \<open>then\<close>, or a rejection of
  \<open>GenerateRoutes\<close>, is not seen by the outer \<open>catch\<close>, because the inner promise is not returned.\<close>

definition after_info :: "location \<Rightarrow> location \<Rightarrow> user_info \<Rightarrow> 'm site \<Rightarrow> 'm site \<times> decision" where
  "after_info to from res st =
     (let (perm, p) = GenerateRoutes (s_permission st) (ui_role res);
          st = st\<lparr>s_permission := perm\<rparr>
      in (case p of
            Resolved _ \<Rightarrow>
              (let st = add_routes st in
               (case decodeURIComponent (str_default (l_redirect from) (l_path to)) of
                  None \<Rightarrow> (st, Stuck)
                | Some redirect \<Rightarrow>
                    (if l_path to = redirect then (st, Again) else (st, ToPath redirect))))
          | _ \<Rightarrow> (st, Stuck)))"

definition after_failure ::
    "'m storage_ops \<Rightarrow> requests \<Rightarrow> location \<Rightarrow> 'm site \<Rightarrow> 'm site \<times> decision" where
  "after_failure S rq to st =
     (let ((m, u), p) = Logout S (rq_logout rq) (s_stored st, s_user st);
          st = st\<lparr>s_stored := m, s_user := u\<rparr>
      in (case p of Resolved _ \<Rightarrow> (st, ToLogin (l_fullPath to)) | _ \<Rightarrow> (st, Stuck)))"

definition beforeEach ::
    "'m storage_ops \<Rightarrow> requests \<Rightarrow> location \<Rightarrow> location \<Rightarrow> 'm site \<Rightarrow> 'm site \<times> decision" where
  "beforeEach S rq to from st =
     (if js_truthy (s_get S (s_stored st) ACCESS_TOKEN) then
        (if l_path to = loginRoutePath then (st, ToPath defaultRoutePath)
         else
           (case us_roles (s_user st) of
              Roles _ \<Rightarrow> (st, Proceed)
            | NoRoles \<Rightarrow>
                (let (u, p) = GetInfo (rq_greeting rq) (rq_info rq) (s_user st);
                     st = st\<lparr>s_user := u\<rparr>
                 in (case p of
                       Resolved res \<Rightarrow> after_info to from res st
                     | Rejected _ \<Rightarrow> after_failure S rq to st
                     | Pending \<Rightarrow> (st, Stuck)))))
      else if l_name to \<in> Some ` set allowList then (st, Proceed)
      else (st, ToLogin (l_fullPath to)))"

text \<open>The navigation as a whole: the guard runs again for every location \<open>next\<close> names, until it calls
  \<open>next()\<close> or never calls it. The page the user is on stays the same meanwhile. \<open>rq k\<close> are the
  outcomes of the requests of the \<open>k\<close>-th run.\<close>

fun navigate ::
    "nat \<Rightarrow> 'm storage_ops \<Rightarrow> (string \<Rightarrow> string option \<Rightarrow> location) \<Rightarrow> (nat \<Rightarrow> requests) \<Rightarrow>
     location \<Rightarrow> location \<Rightarrow> 'm site \<Rightarrow> ('m site \<times> location \<times> bool) option" where
  "navigate 0 S locate rq to from st = None"
| "navigate (Suc n) S locate rq to from st =
     (case beforeEach S (rq n) to from st of
        (st', Proceed) \<Rightarrow> Some (st', to, True)
      | (st', Stuck) \<Rightarrow> Some (st', to, False)
      | (st', Again) \<Rightarrow> navigate n S locate rq to from st'
      | (st', ToPath p) \<Rightarrow> navigate n S locate rq (locate p None) from st'
      | (st', ToLogin r) \<Rightarrow> navigate n S locate rq (locate loginRoutePath (Some r)) from st')"

section \<open>Lemmas\<close>

definition logged_in :: "'m storage_ops \<Rightarrow> 'm site \<Rightarrow> bool" where
  "logged_in S st \<longleftrightarrow> js_truthy (s_get S (s_stored st) ACCESS_TOKEN)"

definition has_role :: "'m site \<Rightarrow> bool" where
  "has_role st \<longleftrightarrow> us_roles (s_user st) \<noteq> NoRoles"

text \<open>The user-info response as far as the guard depends on it: the granted permissions.\<close>

definition granted_by :: "requests \<Rightarrow> string list option" where
  "granted_by rq =
     (case rq_info rq of
        Inr (Some result) \<Rightarrow>
          (case Option.bind (ui_role result) ro_permissions of
             Some (p # ps) \<Rightarrow> Some (map p_permissionId (p # ps))
           | _ \<Rightarrow> None)
      | _ \<Rightarrow> None)"

lemma GetInfo_granted:
  assumes "granted_by rq = Some ps"
  shows "\<exists>u res ro. GetInfo g (rq_info rq) s = (u, Resolved res) \<and> us_roles u = Roles ro \<and>
    ui_role res = Some ro \<and> ro_permissionList ro = Some ps"
  using assms
  by (auto simp: granted_by_def store_simps Let_def permission_ids_complete
      split: sum.splits option.splits list.splits bind_splits)

lemma GetInfo_not_granted:
  assumes "granted_by rq = None"
  shows "\<exists>u e. GetInfo g (rq_info rq) s = (u, Rejected e) \<and> us_roles u = us_roles s"
  using assms
  by (auto simp: granted_by_def store_simps Let_def
      split: sum.splits option.splits list.splits bind_splits)

lemma beforeEach_logged_out:
  "\<not> logged_in S st \<Longrightarrow> beforeEach S rq to from st =
     (st, if l_name to \<in> Some ` set allowList then Proceed else ToLogin (l_fullPath to))"
  by (simp add: beforeEach_def logged_in_def)

lemma beforeEach_login_page:
  "logged_in S st \<Longrightarrow> l_path to = loginRoutePath \<Longrightarrow>
     beforeEach S rq to from st = (st, ToPath defaultRoutePath)"
  by (simp add: beforeEach_def logged_in_def)

lemma beforeEach_role:
  "logged_in S st \<Longrightarrow> l_path to \<noteq> loginRoutePath \<Longrightarrow> has_role st \<Longrightarrow>
     beforeEach S rq to from st = (st, Proceed)"
  by (cases "us_roles (s_user st)") (simp_all add: beforeEach_def logged_in_def has_role_def)

lemma beforeEach_granted:
  assumes "logged_in S st" "l_path to \<noteq> loginRoutePath" "\<not> has_role st" "granted_by rq = Some ps"
  shows "\<exists>st'. beforeEach S rq to from st =
      (st', case decodeURIComponent (str_default (l_redirect from) (l_path to)) of
              None \<Rightarrow> Stuck
            | Some r \<Rightarrow> if l_path to = r then Again else ToPath r) \<and>
    logged_in S st' \<and> has_role st' \<and>
    s_router st' = s_router st @ prune (permitted ps) asyncRouterMap"
proof -
  obtain u res ro where g: "GetInfo (rq_greeting rq) (rq_info rq) (s_user st) = (u, Resolved res)"
    and "us_roles u = Roles ro" "ui_role res = Some ro" "ro_permissionList ro = Some ps"
    using GetInfo_granted [OF assms(4)] by blast
  with assms(1-3) show ?thesis
    by (auto simp: beforeEach_def logged_in_def has_role_def after_info_def GenerateRoutes_result
        add_routes_def Let_def split: option.splits)
qed

lemma beforeEach_not_granted:
  assumes "storage_laws S" "logged_in S st" "l_path to \<noteq> loginRoutePath" "\<not> has_role st"
    and "granted_by rq = None"
  shows "\<exists>st'. beforeEach S rq to from st =
      (st', case rq_logout rq of Inl _ \<Rightarrow> Stuck | Inr _ \<Rightarrow> ToLogin (l_fullPath to)) \<and>
    (rq_logout rq = Inr () \<longrightarrow> \<not> logged_in S st') \<and> \<not> has_role st' \<and> s_router st' = s_router st"
proof -
  obtain u e where g: "GetInfo (rq_greeting rq) (rq_info rq) (s_user st) = (u, Rejected e)"
    and "us_roles u = us_roles (s_user st)"
    using GetInfo_not_granted [OF assms(5)] by blast
  with assms(2-4) show ?thesis
    by (cases "rq_logout rq")
      (auto simp: beforeEach_def logged_in_def has_role_def after_failure_def Logout_def Let_def
        SET_ROLES_def SET_TOKEN_def get_remove [OF assms(1)])
qed

text \<open>Where a navigation ends with respect to the token.\<close>

lemma beforeEach_stuck:
  assumes "beforeEach S rq to from st = (st', Stuck)"
  shows "logged_in S st'"
  using assms
  by (auto simp: beforeEach_def logged_in_def after_info_def after_failure_def Logout_def add_routes_def Let_def
      split: roles_value.splits prod.splits promise.splits option.splits sum.splits if_splits)

lemma beforeEach_proceeds:
  assumes "beforeEach S rq to from st = (st', Proceed)"
  shows "logged_in S st' \<or> l_name to \<in> Some ` set allowList"
  using assms
  by (auto simp: beforeEach_def logged_in_def after_info_def after_failure_def Let_def
      split: roles_value.splits prod.splits promise.splits option.splits if_splits)

lemma navigate_guarded:
  "navigate n S locate rq to from st = Some (st', to', entered) \<Longrightarrow>
     logged_in S st' \<or> entered \<and> l_name to' \<in> Some ` set allowList"
proof (induction n arbitrary: to st)
  case (Suc n)
  obtain st1 d where "beforeEach S (rq n) to from st = (st1, d)" by fastforce
  with Suc show ?case
    by (cases d) (auto dest: beforeEach_stuck beforeEach_proceeds)
qed simp

section \<open>What the guard guarantees\<close>

text \<open>A router for witnesses: two kinds of pages, the login page and all others.\<close>

definition sample_locate :: "string \<Rightarrow> string option \<Rightarrow> location" where
  "sample_locate p r =
     \<lparr>l_path = p, l_fullPath = p,
      l_name = (if p = loginRoutePath then Some ''login'' else None), l_redirect = r\<rparr>"

definition sample_permission :: "string \<Rightarrow> permission" where
  "sample_permission p =
     \<lparr>p_roleId = ''r'', p_permissionId = p, p_permissionName = p, p_actions = [],
      p_actionEntitySet = None, p_actionList = None\<rparr>"

definition sample_requests :: "string list \<Rightarrow> requests" where
  "sample_requests ps =
     \<lparr>rq_info = Inr (Some \<lparr>ui_id = ''1'', ui_name = ''n'', ui_username = ''u'', ui_avatar = ''a'',
        ui_role = Some \<lparr>ro_id = ''r'', ro_name = ''r'',
          ro_permissions = Some (map sample_permission ps), ro_permissionList = None\<rparr>\<rparr>),
      rq_greeting = [], rq_logout = Inr ()\<rparr>"

lemma granted_by_sample: "ps \<noteq> [] \<Longrightarrow> granted_by (sample_requests ps) = Some ps"
  by (cases ps) (simp_all add: granted_by_def sample_requests_def sample_permission_def comp_def)

definition sample_site :: "(string \<times> jsval) list site" where
  "sample_site = fresh_site alist_storage [(ACCESS_TOKEN, JStr ''t'')]"

lemma sample_site_state: "logged_in alist_storage sample_site" "\<not> has_role sample_site"
proof -
  have "s_get alist_storage [(ACCESS_TOKEN, JStr ''t'')] ACCESS_TOKEN = JStr ''t''"
    by (simp add: alist_storage_def)
  then show "logged_in alist_storage sample_site" "\<not> has_role sample_site"
    by (simp_all add: sample_site_def fresh_site_def logged_in_def has_role_def Let_def
        Initializer_token [OF alist_storage_laws])
      (simp_all add: fresh_app_def init_user_def)
qed

text \<open>C5: a navigation the guard lets through ends with a token in storage or on a page of the allow
  list, whatever the requests returned meanwhile.\<close>

theorem guard_protects_pages:
  assumes "beforeEach S rq to from st = (st', Proceed)"
  shows "logged_in S st' \<or> l_name to \<in> Some ` set allowList"
  using assms
  by (auto simp: beforeEach_def logged_in_def after_info_def after_failure_def Let_def
      split: roles_value.splits prod.splits promise.splits option.splits if_splits)

theorem guard_protects_pages_witness:
  "\<not> logged_in alist_storage (fresh_site alist_storage []) \<and>
   l_name (sample_locate loginRoutePath None) \<in> Some ` set allowList"
proof -
  have out: "\<not> logged_in alist_storage (fresh_site alist_storage [])"
    by (simp add: fresh_site_def logged_in_def Let_def Initializer_token [OF alist_storage_laws])
      (simp add: fresh_app_def alist_storage_def)
  have "beforeEach alist_storage (sample_requests []) (sample_locate loginRoutePath None)
      (sample_locate ''/'' None) (fresh_site alist_storage []) = (fresh_site alist_storage [], Proceed)"
    by (simp add: beforeEach_logged_out [OF out] sample_locate_def allowList_def)
  from guard_protects_pages [OF this] out show ?thesis by simp
qed

text \<open>C10: the first navigation of a logged-in user with a granted role fetches the role, hands exactly
  the granted part of the static table to the router, and goes to the page asked for (the one in
  the \<open>redirect\<close> query if there is one); it stays stuck only if that text is malformed.\<close>

theorem guard_first_visit:
  assumes "logged_in S st" "l_path to \<noteq> loginRoutePath" "\<not> has_role st" "granted_by rq = Some ps"
  shows "\<exists>st'. beforeEach S rq to from st =
      (st', case decodeURIComponent (str_default (l_redirect from) (l_path to)) of
              None \<Rightarrow> Stuck
            | Some r \<Rightarrow> if l_path to = r then Again else ToPath r) \<and>
    logged_in S st' \<and> has_role st' \<and>
    s_router st' = s_router st @ prune (permitted ps) asyncRouterMap"
  by (rule beforeEach_granted [OF assms])

theorem guard_first_visit_witness:
  "\<exists>st'. beforeEach alist_storage (sample_requests [''form'']) (sample_locate ''/form'' None)
       (sample_locate ''/'' None) sample_site = (st', Again) \<and>
     s_router st' = s_router sample_site @ prune (permitted [''form'']) asyncRouterMap"
proof -
  let ?from = "sample_locate ''/'' None" and ?to = "sample_locate ''/form'' None"
  have l: "l_path ?to \<noteq> loginRoutePath"
    by (simp add: sample_locate_def loginRoutePath_def)
  have g: "granted_by (sample_requests [''form'']) = Some [''form'']"
    by (simp only: granted_by_sample list.distinct simp_thms)
  note visit = guard_first_visit [OF sample_site_state(1) l sample_site_state(2) g, of ?from]
  obtain st' where "beforeEach alist_storage (sample_requests [''form'']) ?to ?from sample_site =
      (st', case decodeURIComponent (str_default (l_redirect ?from) (l_path ?to)) of
              None \<Rightarrow> Stuck
            | Some r \<Rightarrow> if l_path ?to = r then Again else ToPath r)"
    and router: "s_router st' = s_router sample_site @ prune (permitted [''form'']) asyncRouterMap"
    by (rule exE [OF visit], elim conjE)
  moreover have "decodeURIComponent (str_default (l_redirect (sample_locate ''/'' None))
      (l_path (sample_locate ''/form'' None))) = Some ''/form''"
    by (simp add: sample_locate_def decode_plain)
  ultimately have "beforeEach alist_storage (sample_requests [''form''])
        (sample_locate ''/form'' None) (sample_locate ''/'' None) sample_site = (st', Again)"
    by (simp add: sample_locate_def)
  with router show ?thesis by (intro exI conjI)
qed

text \<open>When the guard never calls \<open>next\<close>: on the first visit without a role, if the page to go back to is a
  malformed text, or if there is no role and the log-out that follows fails.\<close>

definition first_visit_hangs :: "requests \<Rightarrow> location \<Rightarrow> location \<Rightarrow> bool" where
  "first_visit_hangs rq from to \<longleftrightarrow>
     (case granted_by rq of
        None \<Rightarrow> (case rq_logout rq of Inl _ \<Rightarrow> True | Inr _ \<Rightarrow> False)
      | Some _ \<Rightarrow> decodeURIComponent (str_default (l_redirect from) (l_path to)) = None)"

text \<open>Of a navigation with four runs, the numbers of the requests count down; the log-in page is left in the
  run before the first visit.\<close>

definition navigation_hangs ::
    "'m storage_ops \<Rightarrow> (string \<Rightarrow> string option \<Rightarrow> location) \<Rightarrow> (nat \<Rightarrow> requests) \<Rightarrow> location \<Rightarrow> location \<Rightarrow>
     'm site \<Rightarrow> bool" where
  "navigation_hangs S locate rq to from st \<longleftrightarrow>
     logged_in S st \<and> \<not> has_role st \<and>
     (if l_path to = loginRoutePath then first_visit_hangs (rq 2) from (locate defaultRoutePath None)
      else first_visit_hangs (rq 3) from to)"

text \<open>The navigation comes to an end, and whether it is let through.\<close>

definition ends :: "('m site \<times> location \<times> bool) option \<Rightarrow> bool \<Rightarrow> bool" where
  "ends r entered \<longleftrightarrow> (\<exists>st' to'. r = Some (st', to', entered))"

lemma ends_logged_out:
  assumes "\<And>r. l_name (locate loginRoutePath r) = Some ''login''" "\<not> logged_in S st"
  shows "ends (navigate (Suc (Suc m)) S locate rq to from st) True"
  using assms(1) by (simp add: beforeEach_logged_out [OF assms(2)] ends_def allowList_def)

lemma ends_role:
  assumes "l_path (locate defaultRoutePath None) \<noteq> loginRoutePath" "logged_in S st" "has_role st"
  shows "ends (navigate (Suc (Suc m)) S locate rq to from st) True"
  using assms by (cases "l_path to = loginRoutePath") (simp_all add: beforeEach_login_page beforeEach_role ends_def)

lemma ends_no_role:
  fixes m :: nat
  assumes "storage_laws S"
    and path: "l_path (locate defaultRoutePath None) \<noteq> loginRoutePath"
    and login: "\<And>r. l_name (locate loginRoutePath r) = Some ''login''"
    and st: "logged_in S st" "l_path to \<noteq> loginRoutePath" "\<not> has_role st"
  shows "ends (navigate (Suc (Suc (Suc m))) S locate rq to from st)
    (\<not> first_visit_hangs (rq (Suc (Suc m))) from to)"
proof -
  let ?n = "Suc (Suc m)"
  note unfold = navigate.simps(2) [of ?n S locate rq to "from" st]
  show ?thesis
  proof (cases "granted_by (rq ?n)")
    case (Some ps)
    obtain st' where b: "beforeEach S (rq ?n) to from st =
        (st', case decodeURIComponent (str_default (l_redirect from) (l_path to)) of
              None \<Rightarrow> Stuck
            | Some r \<Rightarrow> if l_path to = r then Again else ToPath r)"
      and st': "logged_in S st'" "has_role st'"
      using beforeEach_granted [OF st Some, of "from"] by blast
    have next_ends: "ends (navigate ?n S locate rq to' from st') True" for to'
      using path st' by (rule ends_role)
    show ?thesis
      unfolding unfold b
      by (cases "decodeURIComponent (str_default (l_redirect from) (l_path to))")
        (use next_ends Some in \<open>simp_all add: first_visit_hangs_def del: navigate.simps\<close>, simp add: ends_def)
  next
    case None
    obtain st' where b: "beforeEach S (rq ?n) to from st =
        (st', case rq_logout (rq ?n) of Inl _ \<Rightarrow> Stuck | Inr _ \<Rightarrow> ToLogin (l_fullPath to))"
      and out: "rq_logout (rq ?n) = Inr () \<longrightarrow> \<not> logged_in S st'"
      using beforeEach_not_granted [OF assms(1) st None, of "from"] by blast
    show ?thesis
    proof (cases "rq_logout (rq ?n)")
      case (Inl e)
      with None show ?thesis
        unfolding unfold b by (simp add: first_visit_hangs_def ends_def del: navigate.simps)
    next
      case (Inr u)
      with out have "\<not> logged_in S st'" by simp
      with login have "ends (navigate ?n S locate rq to' from st') True" for to'
        by (rule ends_logged_out)
      with Inr None show ?thesis
        unfolding unfold b by (simp add: first_visit_hangs_def del: navigate.simps)
    qed
  qed
qed

lemma navigation_ends_with:
  assumes "storage_laws S" "l_path (locate defaultRoutePath None) \<noteq> loginRoutePath"
    and "\<And>r. l_name (locate loginRoutePath r) = Some ''login''"
  shows "ends (navigate 4 S locate rq to from st) (\<not> navigation_hangs S locate rq to from st)"
proof -
  have four: "(4::nat) = Suc (Suc (Suc (Suc 0)))" by simp
  have num: "(2::nat) = Suc (Suc 0)" "(3::nat) = Suc (Suc (Suc 0))" by simp_all
  note unfold = navigate.simps(2) [of "Suc (Suc (Suc 0))" S locate rq to "from" st]
  consider (out) "\<not> logged_in S st" | (role) "logged_in S st" "has_role st"
    | (login) "logged_in S st" "\<not> has_role st" "l_path to = loginRoutePath"
    | (no_role) "logged_in S st" "\<not> has_role st" "l_path to \<noteq> loginRoutePath"
    by blast
  then show ?thesis
  proof cases
    case out
    then show ?thesis
      unfolding four using ends_logged_out [where locate = locate, OF assms(3) out]
      by (simp add: navigation_hangs_def del: navigate.simps)
  next
    case role
    then show ?thesis
      unfolding four using ends_role [where locate = locate, OF assms(2) role]
      by (simp add: navigation_hangs_def del: navigate.simps)
  next
    case login
    from ends_no_role [where locate = locate and m = 0 and rq = rq,
        OF assms login(1) assms(2) login(2)] login
    show ?thesis
      unfolding four unfold beforeEach_login_page [OF login(1,3)]
      by (simp add: navigation_hangs_def num del: navigate.simps)
  next
    case no_role
    from ends_no_role [where locate = locate and m = "Suc 0" and rq = rq,
        OF assms no_role(1,3,2)] no_role
    show ?thesis
      unfolding four by (simp add: navigation_hangs_def num del: navigate.simps)
  qed
qed

text \<open>C6: every navigation comes to an end within four runs of the guard: there is no redirect loop. It hangs,
  without the guard ever calling \<open>next\<close>, exactly if the visitor has a token but no role yet and, on the first
  visit (of the page asked for, or of the default page when that was the log-in page), either a role is granted
  but the text of the page to go back to is malformed, or no role is granted and the log-out request fails too;
  then the token is still there. Otherwise it is let through, with a token or on a page of the allow list. (Of
  the router this uses that the default page is not the log-in page and that the log-in page has its
  name.)\<close>

theorem navigation_ends:
  assumes "storage_laws S" "l_path (locate defaultRoutePath None) \<noteq> loginRoutePath"
    and "\<And>r. l_name (locate loginRoutePath r) = Some ''login''"
  shows "\<exists>st' to' entered. navigate 4 S locate rq to from st = Some (st', to', entered) \<and>
    (entered \<longleftrightarrow> \<not> navigation_hangs S locate rq to from st) \<and>
    (if entered then logged_in S st' \<or> l_name to' \<in> Some ` set allowList else logged_in S st')"
proof -
  from navigation_ends_with [where locate = locate, OF assms]
  obtain st' to' where "navigate 4 S locate rq to from st = Some (st', to', \<not> navigation_hangs S locate rq to from st)"
    unfolding ends_def by blast
  then show ?thesis using navigate_guarded [of 4 S locate rq to "from" st] by auto
qed

theorem navigation_ends_witness:
  "\<exists>st' to'. navigate 4 alist_storage sample_locate (\<lambda>k. sample_requests [''form''])
     (sample_locate loginRoutePath None) (sample_locate ''/'' None) sample_site = Some (st', to', True)"
proof -
  let ?rq = "\<lambda>k::nat. sample_requests [''form'']" and ?from = "sample_locate ''/'' None"
  have d: "l_path (sample_locate defaultRoutePath None) \<noteq> loginRoutePath"
    "l_name (sample_locate loginRoutePath r) = Some ''login''" for r
    by (simp_all add: sample_locate_def defaultRoutePath_def loginRoutePath_def)
  have "\<not> navigation_hangs alist_storage sample_locate ?rq (sample_locate loginRoutePath None) ?from sample_site"
    using granted_by_sample [of "[''form'']"]
    by (simp add: navigation_hangs_def first_visit_hangs_def sample_locate_def defaultRoutePath_def decode_plain)
  with navigation_ends [where locate = sample_locate, OF alist_storage_laws d, of ?rq "sample_locate loginRoutePath None"
      ?from sample_site]
  show ?thesis by auto
qed

text \<open>A logout and a login as somebody else, in the same page and both successful.\<close>

definition switch_user :: "'m storage_ops \<Rightarrow> jsval \<Rightarrow> 'm site \<Rightarrow> 'm site" where
  "switch_user S t st =
     (let (m1, u1) = fst (Logout S (Inr ()) (s_stored st, s_user st));
          (m2, u2) = fst (Login S (Inr (Some \<lparr>lr_token = t\<rparr>)) (m1, u1))
      in st\<lparr>s_stored := m2, s_user := u2\<rparr>)"

text \<open>C26: the routes of one user stay in the router for the next. After a first visit, a logout and a login
  as somebody else in the same page, the next visit adds that user's routes behind those of the
  first; nothing takes the first user's routes out again.\<close>

theorem previous_routes_remain:
  assumes "storage_laws S" "js_truthy t"
    and "logged_in S st" "\<not> has_role st" "l_path to \<noteq> loginRoutePath" "l_path to' \<noteq> loginRoutePath"
    and "granted_by rq = Some ps" "granted_by rq' = Some qs"
    and "beforeEach S rq to from st = (st1, d1)"
    and "beforeEach S rq' to' from' (switch_user S t st1) = (st2, d2)"
  shows "s_router st2 =
    s_router st @ prune (permitted ps) asyncRouterMap @ prune (permitted qs) asyncRouterMap"
proof -
  have r1: "s_router st1 = s_router st @ prune (permitted ps) asyncRouterMap"
    using beforeEach_granted [OF assms(3,5,4,7), of "from"] assms(9) by auto
  have sw: "logged_in S (switch_user S t st1)" "\<not> has_role (switch_user S t st1)"
    "s_router (switch_user S t st1) = s_router st1"
    using assms(2)
    by (simp_all add: switch_user_def store_simps logged_in_def has_role_def Let_def
        get_set [OF assms(1)])
  from beforeEach_granted [OF sw(1) assms(6) sw(2) assms(8), of "from'"] assms(10) r1 sw(3)
  show ?thesis by auto
qed

theorem previous_routes_remain_witness:
  "s_router (fst (beforeEach alist_storage (sample_requests [''user'']) (sample_locate ''/'' None)
       (sample_locate ''/'' None) (switch_user alist_storage (JStr ''g'')
         (fst (beforeEach alist_storage (sample_requests [''form'']) (sample_locate ''/'' None)
            (sample_locate ''/'' None) sample_site))))) =
   s_router sample_site @ prune (permitted [''form'']) asyncRouterMap @
     prune (permitted [''user'']) asyncRouterMap"
proof -
  let ?l = "sample_locate ''/'' None"
  have l: "l_path ?l \<noteq> loginRoutePath" by (simp add: sample_locate_def loginRoutePath_def)
  have t: "js_truthy (JStr ''g'')" by simp
  have g: "granted_by (sample_requests [''form'']) = Some [''form'']"
    "granted_by (sample_requests [''user'']) = Some [''user'']"
    by (simp_all only: granted_by_sample list.distinct simp_thms)
  show ?thesis
    by (rule previous_routes_remain [OF alist_storage_laws t sample_site_state l l g
          surjective_pairing surjective_pairing])
qed

end
