(* ===== verification/NavTree.thy ===== *)
theory NavTree
  imports RouteConfig
begin

text \<open>
  The dynamic menu of \<open>src/router/generator-routers.js\<close>: the flat list the backend returns is hung
  into a tree by parent id (\<open>listToTree\<close>), the tree is turned into route records (\<open>generator\<close>),
  and both are composed by \<open>generatorDynamicRouter\<close>. An absent field is \<open>None\<close>, JavaScript's
  \<open>undefined\<close>. \<open>listToTree\<close> recurses over the ids of the data and ends only when they are
  acyclic, so it is a partial function; a run that never ends is \<open>None\<close>, which in the browser is
  a stack overflow.
\<close>

section \<open>Data\<close>

record nav_meta =
  nm_title :: "string option"
  nm_icon :: "string option"
  nm_show :: "bool option"
  nm_hideHeader :: "bool option"
  nm_hideChildren :: "bool option"
  nm_hiddenHeaderContent :: "bool option"
  nm_target :: "string option"

definition no_nav_meta :: nav_meta where
  "no_nav_meta = \<lparr>nm_title = None, nm_icon = None, nm_show = None, nm_hideHeader = None,
     nm_hideChildren = None, nm_hiddenHeaderContent = None, nm_target = None\<rparr>"

record nav_item =
  ni_id :: int
  ni_parentId :: int
  ni_name :: "string option"
  ni_key :: "string option"
  ni_path :: "string option"
  ni_component :: "string option"
  ni_redirect :: "string option"
  ni_meta :: "nav_meta option"

definition no_nav :: nav_item where
  "no_nav = \<lparr>ni_id = 0, ni_parentId = 0, ni_name = None, ni_key = None, ni_path = None,
     ni_component = None, ni_redirect = None, ni_meta = None\<rparr>"

datatype nav = Nav (item: nav_item) (kids: "nav list option")

section \<open>From the list to the tree\<close>

definition with_key :: "nav_item \<Rightarrow> nav_item" where
  "with_key x = x\<lparr>ni_key := str_or (ni_key x) (ni_name x)\<rparr>"

text \<open>The second argument is the part of the list the \<open>forEach\<close> has still to visit. A child with
  no children of its own loses the property again.\<close>

partial_function (option) listToTree ::
    "nav_item list \<Rightarrow> nav_item list \<Rightarrow> int \<Rightarrow> nav list option" where
  "listToTree list rest parentId =
     (case rest of
        [] \<Rightarrow> Some []
      | x # items \<Rightarrow>
          (if ni_parentId x = parentId
           then Option.bind (listToTree list list (ni_id x)) (\<lambda>ch.
                Option.bind (listToTree list items parentId) (\<lambda>sibs.
                  Some (Nav (with_key x) (if ch = [] then None else Some ch) # sibs)))
           else listToTree list items parentId))"

section \<open>From the tree to route records\<close>

definition import_views :: "string option \<Rightarrow> component" where
  "import_views view = Import (''@/views/'' @ (case view of None \<Rightarrow> ''undefined'' | Some c \<Rightarrow> c))"

definition constantRouterComponents :: "(string \<times> component) list" where
  "constantRouterComponents =
    [(''BasicLayout'', Layout ''BasicLayout''),
     (''BlankLayout'', Layout ''BlankLayout''),
     (''RouteView'', Layout ''RouteView''),
     (''PageView'', Layout ''PageView''),
     (''403'', Import ''@/views/exception/403''),
     (''404'', Import ''@/views/exception/404''),
     (''500'', Import ''@/views/exception/500''),
     (''Workplace'', Import ''@/views/dashboard/Workplace''),
     (''Analysis'', Import ''@/views/dashboard/Analysis''),
     (''BasicForm'', Import ''@/views/form/basicForm''),
     (''StepForm'', Import ''@/views/form/stepForm/StepForm''),
     (''AdvanceForm'', Import ''@/views/form/advancedForm/AdvancedForm''),
     (''TableList'', Import ''@/views/list/TableList''),
     (''StandardList'', Import ''@/views/list/BasicList''),
     (''CardList'', Import ''@/views/list/CardList''),
     (''SearchLayout'', Import ''@/views/list/search/SearchLayout''),
     (''SearchArticles'', Import ''@/views/list/search/Article''),
     (''SearchProjects'', Import ''@/views/list/search/Projects''),
     (''SearchApplications'', Import ''@/views/list/search/Applications''),
     (''ProfileBasic'', Import ''@/views/profile/basic''),
     (''ProfileAdvanced'', Import ''@/views/profile/advanced/Advanced''),
     (''ResultSuccess'', Import ''@/views/result/Success''),
     (''ResultFail'', Import ''@/views/result/Error''),
     (''Exception403'', Import ''@/views/exception/403''),
     (''Exception404'', Import ''@/views/exception/404''),
     (''Exception500'', Import ''@/views/exception/500''),
     (''AccountCenter'', Import ''@/views/account/center''),
     (''AccountSettings'', Import ''@/views/account/settings/Index''),
     (''BasicSetting'', Import ''@/views/account/settings/BasicSetting''),
     (''SecuritySettings'', Import ''@/views/account/settings/Security''),
     (''CustomSettings'', Import ''@/views/account/settings/Custom''),
     (''BindingSettings'', Import ''@/views/account/settings/Binding''),
     (''NotificationSettings'', Import ''@/views/account/settings/Notification'')]"

text \<open>Indexing the object also finds what it inherits from \<open>Object.prototype\<close>.\<close>

definition object_prototype :: "string list" where
  "object_prototype =
    [''constructor'', ''toString'', ''toLocaleString'', ''valueOf'', ''hasOwnProperty'',
     ''isPrototypeOf'', ''propertyIsEnumerable'', ''__proto__'', ''__defineGetter__'',
     ''__defineSetter__'', ''__lookupGetter__'', ''__lookupSetter__'']"

definition lookup_component :: "string option \<Rightarrow> component option" where
  "lookup_component key =
     (case key of
        None \<Rightarrow> None
      | Some k \<Rightarrow>
          (case map_of constantRouterComponents k of
             Some c \<Rightarrow> Some c
           | None \<Rightarrow> (if k \<in> set object_prototype then Some (Inherited k) else None)))"

definition route_component :: "nav_item \<Rightarrow> component" where
  "route_component x =
     (case lookup_component (str_or (ni_component x) (ni_key x)) of
        Some c \<Rightarrow> c
      | None \<Rightarrow> import_views (ni_component x))"

definition route_path :: "string option \<Rightarrow> nav_item \<Rightarrow> string" where
  "route_path parent x =
     (let path = str_default (ni_path x)
            (str_default parent [] @ ''/'' @ (case ni_key x of None \<Rightarrow> ''undefined'' | Some k \<Rightarrow> k))
      in if prefix ''http'' path then path else replace_first ''//'' ''/'' path)"

definition route_record :: "string option \<Rightarrow> nav_item \<Rightarrow> route_info" where
  "route_record parent x =
     (let meta = (case ni_meta x of None \<Rightarrow> no_nav_meta | Some m \<Rightarrow> m) in
      no_route\<lparr>
        r_path := route_path parent x,
        r_name := Some (str_default (ni_name x) (str_default (ni_key x) [])),
        r_component := route_component x,
        r_meta := Some (no_meta\<lparr>
          m_title := nm_title meta,
          m_icon := (if truthy (nm_icon meta) then nm_icon meta else None),
          m_hiddenHeaderContent := nm_hiddenHeaderContent meta,
          m_target := nm_target meta,
          m_permission := map_option PermString (ni_name x)\<rparr>),
        r_hidden := (if nm_show meta = Some False then Some True else None),
        r_hideChildrenInMenu := (if is_true (nm_hideChildren meta) then Some True else None),
        r_redirect := (if truthy (ni_redirect x) then ni_redirect x else None)\<rparr>)"

fun generator :: "nav list \<Rightarrow> string option \<Rightarrow> route list" where
  "generator [] parent = []"
| "generator (Nav x ch # items) parent =
     Route (route_record parent x)
       (case ch of
          None \<Rightarrow> None
        | Some cs \<Rightarrow>
            (if cs = [] then None else Some (generator cs (Some (route_path parent x)))))
     # generator items parent"

section \<open>Composition\<close>

definition notFoundRouter :: route where
  "notFoundRouter =
     Route (no_route\<lparr>r_path := ''*'', r_redirect := Some ''/404'', r_hidden := Some True\<rparr>) None"

definition rootRouter :: nav_item where
  "rootRouter =
     no_nav\<lparr>ni_key := Some '''', ni_name := Some ''index'', ni_path := Some '''',
       ni_component := Some ''BasicLayout'', ni_redirect := Some ''/dashboard'',
       ni_meta := Some (no_nav_meta\<lparr>nm_title := Some (utf8 [0x9996, 0x9875])\<rparr>)\<rparr>"

text \<open>The response is the outcome of the nav request; its \<open>result\<close> may be absent, and then
  \<open>listToTree\<close> throws. A stack overflow inside the \<open>then\<close> callback is a thrown error too, and
  ends in the \<open>catch\<close>.\<close>

definition generatorDynamicRouter :: "js_error + nav_item list option \<Rightarrow> route list promise" where
  "generatorDynamicRouter response =
     (case response of
        Inl e \<Rightarrow> Rejected e
      | Inr None \<Rightarrow> Rejected TypeError
      | Inr (Some result) \<Rightarrow>
          (case listToTree result result 0 of
             None \<Rightarrow> Rejected RangeError
           | Some childrenNav \<Rightarrow>
               Resolved (generator [Nav rootRouter (Some childrenNav)] None @ [notFoundRouter])))"

section \<open>When \<open>listToTree\<close> ends\<close>

definition child_rel :: "nav_item list \<Rightarrow> (int \<times> int) set" where
  "child_rel list = (\<lambda>x. (ni_id x, ni_parentId x)) ` set list"

lemma child_relI: "x \<in> set list \<Longrightarrow> (ni_id x, ni_parentId x) \<in> child_rel list"
  by (simp add: child_rel_def)

lemma child_relE:
  assumes "(q, p) \<in> child_rel list"
  obtains x where "x \<in> set list" and "ni_id x = q" and "ni_parentId x = p"
  using assms by (auto simp: child_rel_def)

lemma finite_child_rel: "finite (child_rel list)"
  by (simp add: child_rel_def)

lemmas listToTree_Nil = listToTree.simps [of list "[]" p for list p, simplified]
lemmas listToTree_Cons = listToTree.simps [of list "x # xs" p for list x xs p, simplified]

lemma listToTree_acc:
  assumes "listToTree list rest p = Some t"
  shows "\<forall>x \<in> set rest. ni_parentId x = p \<longrightarrow> ni_id x \<in> Wellfounded.acc (child_rel list)"
proof (rule listToTree.raw_induct
    [where P = "\<lambda>list rest p t. \<forall>x \<in> set rest. ni_parentId x = p \<longrightarrow>
       ni_id x \<in> Wellfounded.acc (child_rel list)", OF _ assms])
  fix f list rest p t
  assume IH: "\<And>list rest p t. f list rest p = Some t \<Longrightarrow>
      \<forall>x \<in> set rest. ni_parentId x = p \<longrightarrow> ni_id x \<in> Wellfounded.acc (child_rel list)"
    and eq: "(case rest of [] \<Rightarrow> Some []
       | x # items \<Rightarrow>
           (if ni_parentId x = p
            then Option.bind (f list list (ni_id x)) (\<lambda>ch. Option.bind (f list items p) (\<lambda>sibs.
                   Some (Nav (with_key x) (if ch = [] then None else Some ch) # sibs)))
            else f list items p)) = Some t"
  show "\<forall>x \<in> set rest. ni_parentId x = p \<longrightarrow> ni_id x \<in> Wellfounded.acc (child_rel list)"
  proof (cases rest)
    case Nil
    then show ?thesis by simp
  next
    case (Cons x items)
    with eq obtain sibs where sibs: "f list items p = Some sibs"
      by (auto split: if_splits simp: bind_eq_Some_conv)
    have x: "ni_id x \<in> Wellfounded.acc (child_rel list)" if "ni_parentId x = p"
    proof -
      from that Cons eq obtain ch where "f list list (ni_id x) = Some ch"
        by (auto simp: bind_eq_Some_conv)
      note below = IH [OF this]
      show ?thesis
      proof (rule accI)
        fix q assume "(q, ni_id x) \<in> child_rel list"
        then show "q \<in> Wellfounded.acc (child_rel list)"
          using below by (blast elim: child_relE)
      qed
    qed
    show ?thesis
    proof (intro ballI impI)
      fix y assume "y \<in> set rest" and "ni_parentId y = p"
      with Cons x IH [OF sibs] show "ni_id y \<in> Wellfounded.acc (child_rel list)"
        by (metis set_ConsD)
    qed
  qed
qed

lemma acc_listToTree:
  assumes "p \<in> Wellfounded.acc (child_rel list)"
  shows "\<exists>t. listToTree list list p = Some t"
  using assms
proof (induction p rule: acc_induct_rule)
  case (1 p)
  have "set rest \<subseteq> set list \<Longrightarrow> \<exists>t. listToTree list rest p = Some t" for rest
  proof (induction rest)
    case Nil
    show ?case by (simp add: listToTree_Nil)
  next
    case (Cons x rest)
    then obtain t where t: "listToTree list rest p = Some t" by auto
    show ?case
    proof (cases "ni_parentId x = p")
      case True
      with Cons.prems have "(ni_id x, p) \<in> child_rel list"
        by (auto simp: child_rel_def)
      then obtain ch where "listToTree list list (ni_id x) = Some ch"
        using 1 by blast
      with True t show ?thesis by (simp add: listToTree_Cons)
    next
      case False
      with t show ?thesis by (simp add: listToTree_Cons)
    qed
  qed
  then show ?case by blast
qed

lemma listToTree_ends_acc:
  "(\<exists>t. listToTree list list p = Some t) \<longleftrightarrow> p \<in> Wellfounded.acc (child_rel list)"
proof
  assume "\<exists>t. listToTree list list p = Some t"
  then obtain t where t: "listToTree list list p = Some t" ..
  show "p \<in> Wellfounded.acc (child_rel list)"
  proof (rule accI)
    fix q assume "(q, p) \<in> child_rel list"
    then show "q \<in> Wellfounded.acc (child_rel list)"
      using listToTree_acc [OF t] by (blast elim: child_relE)
  qed
qed (rule acc_listToTree)

definition cycle_below :: "nav_item list \<Rightarrow> int \<Rightarrow> bool" where
  "cycle_below list p \<longleftrightarrow>
     (\<exists>q. (q, p) \<in> (child_rel list)\<^sup>* \<and> (q, q) \<in> (child_rel list)\<^sup>+)"

lemma acc_no_cycle:
  assumes "p \<in> Wellfounded.acc r"
  shows "(p, p) \<notin> r\<^sup>+"
  using assms
proof (induction p rule: acc_induct_rule)
  case (1 p)
  show ?case
  proof
    assume "(p, p) \<in> r\<^sup>+"
    then obtain q where q: "(q, p) \<in> r" and "(p, q) \<in> r\<^sup>*"
      by (meson tranclD2)
    then have "(q, q) \<in> r\<^sup>+" by (meson rtrancl_into_trancl2)
    with 1 q show False by blast
  qed
qed

lemma no_cycle_acc:
  assumes "finite r" and "\<And>q. (q, p) \<in> r\<^sup>* \<Longrightarrow> (q, q) \<notin> r\<^sup>+"
  shows "p \<in> Wellfounded.acc r"
proof -
  let ?S = "{q. (q, p) \<in> r\<^sup>*}"
  let ?r = "r \<inter> ?S \<times> ?S"
  have "acyclic ?r"
  proof (rule acyclicI, rule allI, rule notI)
    fix x assume x: "(x, x) \<in> ?r\<^sup>+"
    then have "(x, x) \<in> r\<^sup>+" by (rule trancl_mono) simp
    moreover from x obtain y where "(x, y) \<in> ?r" by (meson tranclD)
    ultimately show False using assms(2) [of x] by simp
  qed
  then have wf: "wf ?r"
    using assms(1) by (simp add: finite_acyclic_wf)
  have "q \<in> ?S \<longrightarrow> q \<in> Wellfounded.acc r" for q
    using wf
  proof (induction q rule: wf_induct_rule)
    case (less q)
    show ?case
    proof
      assume q: "q \<in> ?S"
      show "q \<in> Wellfounded.acc r"
      proof (rule accI)
        fix y assume y: "(y, q) \<in> r"
        with q have "y \<in> ?S" by (auto intro: converse_rtrancl_into_rtrancl)
        with less y q show "y \<in> Wellfounded.acc r" by simp
      qed
    qed
  qed
  then show ?thesis by simp
qed

lemma listToTree_ends:
  "(\<exists>t. listToTree list list p = Some t) \<longleftrightarrow> \<not> cycle_below list p"
proof -
  have "(\<exists>q. (q, p) \<in> (child_rel list)\<^sup>* \<and> (q, q) \<in> (child_rel list)\<^sup>+) \<Longrightarrow>
      p \<notin> Wellfounded.acc (child_rel list)"
    using acc_downwards acc_no_cycle by metis
  then show ?thesis
    unfolding listToTree_ends_acc cycle_below_def
    using no_cycle_acc [OF finite_child_rel, of p list] by blast
qed

text \<open>C12: \<open>listToTree\<close> returns on a backend list exactly when no chain of parent ids that can be
  followed down from the starting id contains a cycle; on any other list it recurses for ever.\<close>

theorem listToTree_ends_iff:
  "(\<exists>t. listToTree list list p = Some t) \<longleftrightarrow> \<not> cycle_below list p"
  by (rule listToTree_ends)

section \<open>What the tree holds\<close>

text \<open>The runs of \<open>listToTree\<close> that end, as a big-step relation.\<close>

inductive hung :: "nav_item list \<Rightarrow> int \<Rightarrow> nav_item list \<Rightarrow> nav list \<Rightarrow> bool" for list where
  hung_Nil: "hung list p [] []"
| hung_skip: "ni_parentId x \<noteq> p \<Longrightarrow> hung list p xs t \<Longrightarrow> hung list p (x # xs) t"
| hung_take: "ni_parentId x = p \<Longrightarrow> hung list (ni_id x) list ch \<Longrightarrow> hung list p xs sibs \<Longrightarrow>
    hung list p (x # xs) (Nav (with_key x) (if ch = [] then None else Some ch) # sibs)"

lemma hung_listToTree: "hung list p rest t \<Longrightarrow> listToTree list rest p = Some t"
  by (induction rule: hung.induct) (simp_all add: listToTree_Nil listToTree_Cons)

lemma listToTree_hung:
  assumes "listToTree list rest p = Some t"
  shows "hung list p rest t"
proof (rule listToTree.raw_induct [where P = "\<lambda>list rest p t. hung list p rest t", OF _ assms])
  fix f list rest p t
  assume IH: "\<And>list rest p t. f list rest p = Some t \<Longrightarrow> hung list p rest t"
    and eq: "(case rest of [] \<Rightarrow> Some []
       | x # items \<Rightarrow>
           (if ni_parentId x = p
            then Option.bind (f list list (ni_id x)) (\<lambda>ch. Option.bind (f list items p) (\<lambda>sibs.
                   Some (Nav (with_key x) (if ch = [] then None else Some ch) # sibs)))
            else f list items p)) = Some t"
  show "hung list p rest t"
  proof (cases rest)
    case Nil
    with eq show ?thesis by (simp add: hung_Nil)
  next
    case (Cons x items)
    show ?thesis
    proof (cases "ni_parentId x = p")
      case True
      with Cons eq obtain ch sibs where "f list list (ni_id x) = Some ch" "f list items p = Some sibs"
        and "t = Nav (with_key x) (if ch = [] then None else Some ch) # sibs"
        by (auto simp: bind_eq_Some_conv)
      with IH True Cons show ?thesis by (simp only: hung_take)
    next
      case False
      with Cons eq IH show ?thesis by (simp add: hung_skip)
    qed
  qed
qed

fun flat :: "nav list \<Rightarrow> nav_item list" where
  "flat [] = []"
| "flat (Nav x cs # ts) = x # (case cs of None \<Rightarrow> [] | Some us \<Rightarrow> flat us) @ flat ts"

lemma flat_kids [simp]: "(case (if ch = [] then None else Some ch) of None \<Rightarrow> [] | Some us \<Rightarrow> flat us) = flat ch"
  by simp

lemma ni_id_with_key [simp]: "ni_id (with_key x) = ni_id x"
  and ni_parentId_with_key [simp]: "ni_parentId (with_key x) = ni_parentId x"
  and ni_name_with_key [simp]: "ni_name (with_key x) = ni_name x"
  and ni_path_with_key [simp]: "ni_path (with_key x) = ni_path x"
  by (simp_all add: with_key_def)

lemma hung_roots:
  "hung list p rest t \<Longrightarrow> map item t = map with_key (filter (\<lambda>x. ni_parentId x = p) rest)"
  by (induction rule: hung.induct) auto

text \<open>The items below an id, by way of some item of the part of the list still to visit.\<close>

definition below :: "nav_item list \<Rightarrow> nav_item list \<Rightarrow> int \<Rightarrow> nav_item set" where
  "below list rest p =
     {x. \<exists>y \<in> set rest. ni_parentId y = p \<and>
        (x = y \<or> x \<in> set list \<and> (ni_parentId x, ni_id y) \<in> (child_rel list)\<^sup>*)}"

lemma below_Nil: "below list [] p = {}"
  by (simp add: below_def)

lemma below_Cons:
  "below list (y # rest) p =
     (if ni_parentId y = p
      then insert y {x \<in> set list. (ni_parentId x, ni_id y) \<in> (child_rel list)\<^sup>*} else {}) \<union>
     below list rest p"
  by (auto simp: below_def)

lemma below_all:
  "below list list p = {x \<in> set list. (ni_parentId x, p) \<in> (child_rel list)\<^sup>*}" (is "?l = ?r")
proof
  show "?l \<subseteq> ?r"
    by (auto simp: below_def dest: child_relI intro: rtrancl_into_rtrancl)
  show "?r \<subseteq> ?l"
  proof
    fix x assume "x \<in> ?r"
    then have x: "x \<in> set list" and p: "(ni_parentId x, p) \<in> (child_rel list)\<^sup>*" by auto
    from p show "x \<in> ?l"
    proof (cases rule: rtranclE)
      case base
      with x show ?thesis by (auto simp: below_def)
    next
      case (step q)
      then obtain y where "y \<in> set list" "ni_id y = q" "ni_parentId y = p"
        by (blast elim: child_relE)
      with step x show ?thesis by (auto simp: below_def)
    qed
  qed
qed

lemma hung_flat_set: "hung list p rest t \<Longrightarrow> set (flat t) = with_key ` below list rest p"
proof (induction rule: hung.induct)
  case (hung_Nil p)
  show ?case by (simp add: below_Nil)
next
  case (hung_skip x p xs t)
  then show ?case by (simp add: below_Cons)
next
  case (hung_take x p ch xs sibs)
  then show ?case by (simp add: below_Cons below_all image_Un)
qed

lemma child_rel_single_valued:
  assumes "distinct (map ni_id list)"
  shows "single_valued (child_rel list)"
  using assms by (auto simp: single_valued_def child_rel_def distinct_map dest: inj_onD)

text \<open>Two different siblings have nothing in common below them, unless there is a cycle.\<close>

lemma siblings_apart:
  assumes "distinct (map ni_id list)" and "p \<in> Wellfounded.acc (child_rel list)"
    and "x \<in> set list" "y \<in> set list" "x \<noteq> y" "ni_parentId x = p" "ni_parentId y = p"
    and "(z, ni_id x) \<in> (child_rel list)\<^sup>*" "(z, ni_id y) \<in> (child_rel list)\<^sup>*"
  shows False
proof -
  let ?r = "child_rel list"
  have no: "(ni_id a, ni_id b) \<notin> ?r\<^sup>*"
    if "a \<in> set list" "b \<in> set list" "a \<noteq> b" "ni_parentId a = p" "ni_parentId b = p" for a b
  proof
    assume path: "(ni_id a, ni_id b) \<in> ?r\<^sup>*"
    have "ni_id a \<noteq> ni_id b"
      using that(1-3) assms(1) by (auto simp: distinct_map dest: inj_onD)
    with path obtain q where "(ni_id a, q) \<in> ?r" "(q, ni_id b) \<in> ?r\<^sup>*"
      by (meson converse_rtranclE)
    moreover have "(ni_id a, p) \<in> ?r" "(ni_id b, p) \<in> ?r"
      using that child_relI by metis+
    ultimately have "(p, p) \<in> ?r\<^sup>+"
      using child_rel_single_valued [OF assms(1)]
      by (metis rtrancl_into_trancl1 single_valuedD)
    with acc_no_cycle [OF assms(2)] show False by simp
  qed
  show False
    using single_valued_confluent [OF child_rel_single_valued [OF assms(1)] assms(8,9)]
      no assms(3-7) by metis
qed

lemma hung_distinct:
  assumes "hung list p rest t"
    and "distinct (map ni_id list)" "p \<in> Wellfounded.acc (child_rel list)"
    and "set rest \<subseteq> set list" "distinct rest"
  shows "distinct (map ni_id (flat t))"
  using assms
proof (induction rule: hung.induct)
  case (hung_Nil p)
  show ?case by simp
next
  case (hung_skip x p xs t)
  then show ?case by simp
next
  case (hung_take x p ch xs sibs)
  let ?r = "child_rel list"
  have x: "x \<in> set list" and xs: "set xs \<subseteq> set list" and "x \<notin> set xs"
    using hung_take.prems by auto
  have inj: "inj_on ni_id (set list)" and dl: "distinct list"
    using hung_take.prems(1) by (simp_all add: distinct_map)
  have xp: "(ni_id x, p) \<in> ?r"
    using child_relI [OF x] hung_take.hyps(1) by simp
  then have acc_x: "ni_id x \<in> Wellfounded.acc ?r"
    using hung_take.prems(2) by (blast dest: acc_downward)
  have sub: "below list xs p \<subseteq> set list" "below list list (ni_id x) \<subseteq> set list"
    using xs by (auto simp: below_def)
  have apart: "z \<notin> below list xs p" if "z = x \<or> z \<in> below list list (ni_id x)" for z
  proof
    assume "z \<in> below list xs p"
    then obtain y where y: "y \<in> set xs" "ni_parentId y = p"
      and z: "z = y \<or> z \<in> set list \<and> (ni_parentId z, ni_id y) \<in> ?r\<^sup>*"
      by (auto simp: below_def)
    have zx: "(ni_id z, ni_id x) \<in> ?r\<^sup>*"
      using that by (auto simp: below_all dest: child_relI intro: converse_rtrancl_into_rtrancl)
    have zy: "(ni_id z, ni_id y) \<in> ?r\<^sup>*"
      using z by (auto dest: child_relI intro: converse_rtrancl_into_rtrancl)
    show False
      using siblings_apart [OF hung_take.prems(1,2) x _ _ hung_take.hyps(1) y(2) zx zy]
        y(1) xs \<open>x \<notin> set xs\<close> by blast
  qed
  have x_ch: "x \<notin> below list list (ni_id x)"
  proof
    assume "x \<in> below list list (ni_id x)"
    then have "(ni_id x, ni_id x) \<in> ?r\<^sup>+"
      using child_relI [OF x] by (auto simp: below_all intro: rtrancl_into_trancl2)
    with acc_no_cycle [OF acc_x] show False by simp
  qed
  have ids: "ni_id ` set (flat ch) = ni_id ` below list list (ni_id x)"
    "ni_id ` set (flat sibs) = ni_id ` below list xs p"
    using hung_take.hyps by (auto simp: hung_flat_set image_image)
  have "ni_id x \<notin> ni_id ` below list list (ni_id x)"
    using x_ch inj_on_image_mem_iff [OF inj x sub(2)] by simp
  moreover have "ni_id x \<notin> ni_id ` below list xs p"
    using apart [of x] inj_on_image_mem_iff [OF inj x sub(1)] by simp
  moreover have "ni_id ` below list list (ni_id x) \<inter> ni_id ` below list xs p = {}"
    using apart inj_on_image_Int [OF inj sub(2,1)] by blast
  moreover have "distinct (map ni_id (flat ch))"
    using hung_take.IH(1) hung_take.prems(1) acc_x dl by blast
  moreover have "distinct (map ni_id (flat sibs))"
    using hung_take.IH(2) hung_take.prems by simp
  ultimately show ?case
    using ids by simp
qed

text \<open>C13: with distinct ids, the tree \<open>listToTree\<close> builds holds every item whose chain of parents
  leads to the starting id, each exactly once; items with an unknown parent are dropped. The roots
  are the items with that parent, in the order of the list.\<close>

theorem listToTree_holds_descendants:
  assumes "distinct (map ni_id list)" and "listToTree list list p = Some t"
  shows "distinct (map ni_id (flat t)) \<and>
    set (flat t) = with_key ` {x \<in> set list. (ni_parentId x, p) \<in> (child_rel list)\<^sup>*} \<and>
    map item t = map with_key (filter (\<lambda>x. ni_parentId x = p) list)"
proof (intro conjI)
  have h: "hung list p list t"
    using assms(2) by (rule listToTree_hung)
  have "p \<in> Wellfounded.acc (child_rel list)"
    using assms(2) listToTree_ends_acc by blast
  then show "distinct (map ni_id (flat t))"
    using hung_distinct [OF h assms(1)] assms(1) by (simp add: distinct_map)
  show "set (flat t) = with_key ` {x \<in> set list. (ni_parentId x, p) \<in> (child_rel list)\<^sup>*}"
    using hung_flat_set [OF h] by (simp add: below_all)
  show "map item t = map with_key (filter (\<lambda>x. ni_parentId x = p) list)"
    using h by (rule hung_roots)
qed

definition sample_nav :: "nav_item list" where
  "sample_nav =
     [no_nav\<lparr>ni_id := 2, ni_parentId := 1, ni_name := Some ''workplace''\<rparr>,
      no_nav\<lparr>ni_id := 1, ni_parentId := 0, ni_name := Some ''dashboard''\<rparr>,
      no_nav\<lparr>ni_id := 9, ni_parentId := 7, ni_name := Some ''orphan''\<rparr>]"

lemma listToTree_sample_nav:
  "listToTree sample_nav sample_nav 0 =
     Some [Nav (with_key (sample_nav ! 1)) (Some [Nav (with_key (sample_nav ! 0)) None])]"
  by (simp add: sample_nav_def no_nav_def listToTree_Nil listToTree_Cons)

theorem listToTree_holds_descendants_witness:
  "\<exists>t. listToTree sample_nav sample_nav 0 = Some t \<and> distinct (map ni_id (flat t)) \<and>
     map item t = map with_key (filter (\<lambda>x. ni_parentId x = 0) sample_nav)"
proof -
  have "distinct (map ni_id sample_nav)"
    by (simp add: sample_nav_def no_nav_def)
  from listToTree_holds_descendants [OF this listToTree_sample_nav] listToTree_sample_nav
  show ?thesis by blast
qed

section \<open>What the generated routes look like\<close>

text \<open>One route per item of the tree, in order, whatever the data.\<close>

lemma generator_names:
  "map r_name (infos (generator ts parent)) =
     map (\<lambda>x. Some (str_default (ni_name x) (str_default (ni_key x) []))) (flat ts)"
proof (induction ts parent rule: generator.induct)
  case (1 parent)
  show ?case by (simp add: route_simps)
next
  case (2 x ch items parent)
  then show ?case
    by (cases ch) (auto simp: route_simps route_record_def Let_def)
qed

text \<open>The paths of a tree whose items bring none of their own: the keys from the root down,
  joined by slashes.\<close>

fun key_paths :: "string \<Rightarrow> nav list \<Rightarrow> string list" where
  "key_paths base [] = []"
| "key_paths base (Nav x ch # ts) =
     (let p = base @ ''/'' @ the (ni_key x)
      in p # (case ch of None \<Rightarrow> [] | Some cs \<Rightarrow> key_paths p cs) @ key_paths base ts)"

definition plain_item :: "nav_item \<Rightarrow> bool" where
  "plain_item x \<longleftrightarrow>
     \<not> truthy (ni_path x) \<and> truthy (ni_key x) \<and> CHR ''/'' \<notin> set (the (ni_key x))"

lemma plain_itemE:
  assumes "plain_item x"
  obtains k where "ni_key x = Some k" "k \<noteq> []" "CHR ''/'' \<notin> set k"
  using assms by (cases "ni_key x") (auto simp: plain_item_def)

text \<open>No double slash inside, none at the end.\<close>

definition clean_path :: "string \<Rightarrow> bool" where
  "clean_path p \<longleftrightarrow> \<not> sublist ''//'' p \<and> \<not> suffix ''/'' p"

lemma sublist_slashes_append_key:
  assumes "CHR ''/'' \<notin> set k" "k \<noteq> []"
  shows "sublist ''//'' (base @ ''/'' @ k) \<longleftrightarrow> sublist ''//'' (base @ ''/'')"
proof (induction base)
  case Nil
  obtain c cs where k: "k = c # cs" "c \<noteq> CHR ''/''" "CHR ''/'' \<notin> set cs"
    using assms by (cases k) auto
  have "\<not> sublist ''//'' k"
    using assms(1) set_mono_sublist by fastforce
  with k show ?case by (simp add: sublist_Cons_right)
next
  case (Cons b base)
  then show ?case
    by (cases base) (use assms(2) in \<open>auto simp: sublist_Cons_right neq_Nil_conv\<close>)
qed

lemma sublist_slashes_snoc: "sublist ''//'' (p @ ''/'') \<longleftrightarrow> sublist ''//'' p \<or> suffix ''/'' p"
proof (induction p)
  case Nil
  show ?case by (simp add: sublist_Cons_right)
next
  case (Cons b p)
  then show ?case
    by (cases p) (auto simp: sublist_Cons_right suffix_Cons)
qed

lemma clean_path_extend:
  assumes "clean_path base" "CHR ''/'' \<notin> set k" "k \<noteq> []"
  shows "clean_path (base @ ''/'' @ k)" and "\<not> sublist ''//'' (base @ ''/'' @ k)"
proof -
  show s: "\<not> sublist ''//'' (base @ ''/'' @ k)"
    using assms(1) sublist_slashes_append_key [OF assms(2,3)]
    by (simp only: sublist_slashes_snoc clean_path_def) simp
  have "\<not> suffix ''/'' (base @ ''/'' @ k)"
  proof
    assume "suffix ''/'' (base @ ''/'' @ k)"
    then obtain zs where "base @ ''/'' @ k = zs @ ''/''"
      by (auto simp: suffix_def)
    then have "last (base @ ''/'' @ k) = last (zs @ ''/'')" by metis
    with assms(3) have "last k = CHR ''/''" by simp
    with assms(2,3) show False using last_in_set by metis
  qed
  with s show "clean_path (base @ ''/'' @ k)" by (simp add: clean_path_def)
qed

lemma route_path_plain:
  assumes "plain_item x" "clean_path base" "prefix ''/'' (base @ ''/'')"
  shows "route_path (Some base) x = base @ ''/'' @ the (ni_key x)"
proof -
  obtain k where k: "ni_key x = Some k" "k \<noteq> []" "CHR ''/'' \<notin> set k"
    using assms(1) by (cases "ni_key x") (auto simp: plain_item_def)
  let ?p = "base @ ''/'' @ k"
  have path: "str_default (ni_path x) ?p = ?p"
    using assms(1) by (cases "ni_path x") (auto simp: plain_item_def)
  have "replace_first ''//'' ''/'' ?p = ?p"
    by (rule replace_first_absent) (use clean_path_extend(2) [OF assms(2) k(3,2)] in simp_all)
  moreover have "str_default (Some base) [] = base"
    by simp
  ultimately show ?thesis
    by (simp only: route_path_def k(1) option.case path Let_def option.sel if_cancel)
qed

text \<open>Directly below the root route the parent path is a lone slash, and the doubled one is mended.\<close>

lemma route_path_below_root:
  assumes "plain_item x"
  shows "route_path (Some ''/'') x = ''/'' @ the (ni_key x)"
proof -
  obtain k where k: "ni_key x = Some k"
    using assms by (cases "ni_key x") (auto simp: plain_item_def)
  have "str_default (ni_path x) p = p" for p
    using assms by (cases "ni_path x") (auto simp: plain_item_def)
  with k show ?thesis by (simp add: route_path_def Let_def)
qed

lemma generator_key_paths:
  assumes "list_all plain_item (flat ts)" "clean_path base" "prefix ''/'' (base @ ''/'')"
  shows "map r_path (infos (generator ts (Some base))) = key_paths base ts"
  using assms
proof (induction ts "Some base" arbitrary: base rule: generator.induct)
  case 1
  show ?case by (simp add: route_simps)
next
  case (2 x ch items base)
  have x: "plain_item x" and items: "list_all plain_item (flat items)"
    using "2.prems"(1) by auto
  let ?p = "base @ ''/'' @ the (ni_key x)"
  have path: "route_path (Some base) x = ?p"
    by (rule route_path_plain [OF x "2.prems"(2,3)])
  have kids: "map r_path (infos (generator cs (Some ?p))) = key_paths ?p cs"
    if "ch = Some cs" for cs
  proof (cases "cs = []")
    case True
    then show ?thesis by (simp add: route_simps)
  next
    case False
    have "clean_path ?p"
      using x by (rule plain_itemE) (use clean_path_extend(1) [OF "2.prems"(2)] in simp)
    moreover have "prefix ''/'' (?p @ ''/'')"
      using "2.prems"(3) by (cases base) simp_all
    ultimately have "clean_path ?p" "prefix ''/'' (?p @ ''/'')" .
    with "2.hyps"(1) [OF that False] "2.prems"(1) that path show ?thesis by simp
  qed
  show ?case
    using kids "2.hyps"(2) [OF items "2.prems"(2,3)] path
    by (cases ch) (auto simp: route_simps route_record_def Let_def)
qed

text \<open>C17: for a backend tree whose items bring no path of their own and whose keys contain no slash, the
  paths \<open>generatorDynamicRouter\<close> produces are, in order, the root path, then for every item the keys
  from its top-level ancestor down to it, each preceded by one slash, and the catch-all path last.\<close>

theorem generatorDynamicRouter_paths:
  assumes "listToTree result result 0 = Some t" and "list_all plain_item (flat t)"
  shows "\<exists>rs. generatorDynamicRouter (Inr (Some result)) = Resolved rs \<and>
    map r_path (infos rs) = ''/'' # key_paths [] t @ [''*'']"
proof -
  have root: "route_path None rootRouter = ''/''"
    by (simp add: route_path_def rootRouter_def no_nav_def)
  have "map r_path (infos (generator ts (Some ''/''))) = key_paths [] ts"
    if "list_all plain_item (flat ts)" for ts
    using that
  proof (induction ts)
    case Nil
    show ?case by (simp add: route_simps)
  next
    case (Cons n ts)
    obtain x ch where n: "n = Nav x ch" by (cases n)
    with Cons.prems have x: "plain_item x" by simp
    have "clean_path []" by (simp add: clean_path_def)
    then have "clean_path (''/'' @ the (ni_key x))"
      using plain_itemE [OF x] clean_path_extend(1) [of "[]"] by (metis append_Nil option.sel)
    then have "map r_path (infos (generator cs (Some (''/'' @ the (ni_key x))))) =
        key_paths (''/'' @ the (ni_key x)) cs" if "ch = Some cs" for cs
      using generator_key_paths [of cs "''/'' @ the (ni_key x)"] Cons.prems n that by auto
    with Cons n show ?case
      by (cases ch) (auto simp: route_simps route_record_def Let_def route_path_below_root [OF x])
  qed
  from this [OF assms(2)] show ?thesis
    using assms(1) root
    by (auto simp: generatorDynamicRouter_def route_simps route_record_def Let_def
        notFoundRouter_def no_route_def)
qed

theorem generatorDynamicRouter_paths_witness:
  "\<exists>rs. generatorDynamicRouter (Inr (Some sample_nav)) = Resolved rs \<and>
    map r_path (infos rs) = [''/'', ''/dashboard'', ''/dashboard/workplace'', ''*'']"
proof -
  have "list_all plain_item
      (flat [Nav (with_key (sample_nav ! 1)) (Some [Nav (with_key (sample_nav ! 0)) None])])"
    by (simp add: sample_nav_def no_nav_def plain_item_def with_key_def str_or_def)
  from generatorDynamicRouter_paths [OF listToTree_sample_nav this] show ?thesis
    by (simp add: sample_nav_def no_nav_def with_key_def str_or_def)
qed

text \<open>\<open>generatorDynamicRouter\<close> always settles: it rejects with the request's error, with a
  TypeError on a response without a result and with a RangeError on cyclic data; otherwise it
  resolves with one route per item of the tree, in order and under the item's name (or key),
  between the root route and the catch-all one.\<close>

theorem generatorDynamicRouter_settles:
  "case generatorDynamicRouter response of
     Pending \<Rightarrow> False
   | Rejected e \<Rightarrow> response = Inl e \<or> response = Inr None \<and> e = TypeError \<or>
       e = RangeError \<and> (\<exists>result. response = Inr (Some result) \<and> cycle_below result 0)
   | Resolved rs \<Rightarrow>
       (\<exists>result t. response = Inr (Some result) \<and> listToTree result result 0 = Some t \<and>
          map r_name (infos rs) =
            Some ''index'' # map (\<lambda>x. Some (str_default (ni_name x) (str_default (ni_key x) []))) (flat t)
            @ [None])"
proof (cases response)
  case (Inl e)
  then show ?thesis by (simp add: generatorDynamicRouter_def)
next
  case (Inr r)
  show ?thesis
  proof (cases r)
    case None
    with Inr show ?thesis by (simp add: generatorDynamicRouter_def)
  next
    case (Some result)
    show ?thesis
    proof (cases "listToTree result result 0")
      case None
      with Inr Some show ?thesis
        using listToTree_ends [of result 0] by (auto simp: generatorDynamicRouter_def)
    next
      case (Some t)
      have "map r_name (infos (generator [Nav rootRouter (Some t)] None @ [notFoundRouter])) =
          Some ''index'' # map (\<lambda>x. Some (str_default (ni_name x) (str_default (ni_key x) []))) (flat t) @ [None]"
        by (auto simp: route_simps generator_names notFoundRouter_def no_route_def rootRouter_def
            no_nav_def route_record_def Let_def)
      with Inr Some \<open>r = Some result\<close> show ?thesis
        by (auto simp: generatorDynamicRouter_def)
    qed
  qed
qed

end
