(* ===== verification/AsyncRouter.thy ===== *)
theory AsyncRouter
  imports NavTree RoutePermission
begin

text \<open>
  The alternative permission store \<open>store/modules/async-router.js\<close>, which takes the routes from the
  backend's menu. It has the state of the static one; its action waits for the dynamic router.
\<close>

text \<open>Only the fulfilment of \<open>generatorDynamicRouter\<close> is waited for: a rejection reaches nobody, and the
  action's own promise stays pending.\<close>

definition async_GenerateRoutes ::
    "permission_state \<Rightarrow> js_error + nav_item list option \<Rightarrow> permission_state \<times> unit promise" where
  "async_GenerateRoutes state response =
     (case generatorDynamicRouter response of
        Resolved rs \<Rightarrow> (SET_ROUTERS state rs, Resolved ())
      | _ \<Rightarrow> (state, Pending))"

text \<open>With the menu of the backend as the source of the routes, the store's action settles exactly when
  the menu request succeeds with a menu in which no cycle can be
  reached from the root; on a failed request, an
  answer without a result or a cyclic menu it stays pending for ever and the store is unchanged.\<close>

theorem async_GenerateRoutes_settles_iff:
  "(settled (snd (async_GenerateRoutes state response)) \<longleftrightarrow>
      (\<exists>result. response = Inr (Some result) \<and> \<not> cycle_below result 0)) \<and>
   (settled (snd (async_GenerateRoutes state response)) \<or> fst (async_GenerateRoutes state response) = state)"
proof (cases response)
  case (Inl e)
  then show ?thesis by (simp add: async_GenerateRoutes_def generatorDynamicRouter_def)
next
  case (Inr r)
  show ?thesis
  proof (cases r)
    case None
    with Inr show ?thesis by (simp add: async_GenerateRoutes_def generatorDynamicRouter_def)
  next
    case (Some result)
    with Inr show ?thesis
      using listToTree_ends [of result 0]
      by (auto simp: async_GenerateRoutes_def generatorDynamicRouter_def split: option.splits)
  qed
qed

end
