(* ===== verification/MockUser.thy ===== *)
theory MockUser
  imports NavTree Account
begin

text \<open>
  The answers of the mock account service \<open>src/mock/services/user.js\<close>: the administrator's user
  record with its permissions, and the flat menu the dynamic router hangs into a tree. Fields the
  frontend never reads (telephone, login times and the like) are left out of the records; the
  texts are the source's, Chinese ones as code points.
\<close>

section \<open>The user record\<close>

definition mock_permission_dashboard :: permission where
  "mock_permission_dashboard = \<lparr>
    p_roleId = ''admin'',
    p_permissionId = ''dashboard'',
    p_permissionName = (utf8 [0x4EEA, 0x8868, 0x76D8]),
    p_actions = (''[{\"action\":\"add\",\"defaultCheck\":false,\"describe\":\"'' @
      utf8 [0x65B0, 0x589E] @ ''\"},{\"action\":\"query\",\"defaultCheck\":false,\"describe\":\"'' @
      utf8 [0x67E5, 0x8BE2] @ ''\"},{\"action\":\"get\",\"defaultCheck\":false,\"describe\":\"'' @
      utf8 [0x8BE6, 0x60C5] @ ''\"},{\"action\":\"update\",\"defaultCheck\":false,\"describe\":\"'' @
      utf8 [0x4FEE, 0x6539] @ ''\"},{\"action\":\"delete\",\"defaultCheck\":false,\"describe\":\"'' @
      utf8 [0x5220, 0x9664] @ ''\"}]''),
    p_actionEntitySet = Some [\<lparr>ae_action = ''add'', ae_describe = (utf8 [0x65B0, 0x589E]), ae_defaultCheck = False\<rparr>,
        \<lparr>ae_action = ''query'', ae_describe = (utf8 [0x67E5, 0x8BE2]), ae_defaultCheck = False\<rparr>,
        \<lparr>ae_action = ''get'', ae_describe = (utf8 [0x8BE6, 0x60C5]), ae_defaultCheck = False\<rparr>,
        \<lparr>ae_action = ''update'', ae_describe = (utf8 [0x4FEE, 0x6539]), ae_defaultCheck = False\<rparr>,
        \<lparr>ae_action = ''delete'', ae_describe = (utf8 [0x5220, 0x9664]), ae_defaultCheck = False\<rparr>],
    p_actionList = None\<rparr>"

definition mock_permission_exception :: permission where
  "mock_permission_exception = \<lparr>
    p_roleId = ''admin'',
    p_permissionId = ''exception'',
    p_permissionName = (utf8 [0x5F02, 0x5E38, 0x9875, 0x9762, 0x6743, 0x9650]),
    p_actions = (''[{\"action\":\"add\",\"defaultCheck\":false,\"describe\":\"'' @
      utf8 [0x65B0, 0x589E] @ ''\"},{\"action\":\"query\",\"defaultCheck\":false,\"describe\":\"'' @
      utf8 [0x67E5, 0x8BE2] @ ''\"},{\"action\":\"get\",\"defaultCheck\":false,\"describe\":\"'' @
      utf8 [0x8BE6, 0x60C5] @ ''\"},{\"action\":\"update\",\"defaultCheck\":false,\"describe\":\"'' @
      utf8 [0x4FEE, 0x6539] @ ''\"},{\"action\":\"delete\",\"defaultCheck\":false,\"describe\":\"'' @
      utf8 [0x5220, 0x9664] @ ''\"}]''),
    p_actionEntitySet = Some [\<lparr>ae_action = ''add'', ae_describe = (utf8 [0x65B0, 0x589E]), ae_defaultCheck = False\<rparr>,
        \<lparr>ae_action = ''query'', ae_describe = (utf8 [0x67E5, 0x8BE2]), ae_defaultCheck = False\<rparr>,
        \<lparr>ae_action = ''get'', ae_describe = (utf8 [0x8BE6, 0x60C5]), ae_defaultCheck = False\<rparr>,
        \<lparr>ae_action = ''update'', ae_describe = (utf8 [0x4FEE, 0x6539]), ae_defaultCheck = False\<rparr>,
        \<lparr>ae_action = ''delete'', ae_describe = (utf8 [0x5220, 0x9664]), ae_defaultCheck = False\<rparr>],
    p_actionList = None\<rparr>"

definition mock_permission_result :: permission where
  "mock_permission_result = \<lparr>
    p_roleId = ''admin'',
    p_permissionId = ''result'',
    p_permissionName = (utf8 [0x7ED3, 0x679C, 0x6743, 0x9650]),
    p_actions = (''[{\"action\":\"add\",\"defaultCheck\":false,\"describe\":\"'' @
      utf8 [0x65B0, 0x589E] @ ''\"},{\"action\":\"query\",\"defaultCheck\":false,\"describe\":\"'' @
      utf8 [0x67E5, 0x8BE2] @ ''\"},{\"action\":\"get\",\"defaultCheck\":false,\"describe\":\"'' @
      utf8 [0x8BE6, 0x60C5] @ ''\"},{\"action\":\"update\",\"defaultCheck\":false,\"describe\":\"'' @
      utf8 [0x4FEE, 0x6539] @ ''\"},{\"action\":\"delete\",\"defaultCheck\":false,\"describe\":\"'' @
      utf8 [0x5220, 0x9664] @ ''\"}]''),
    p_actionEntitySet = Some [\<lparr>ae_action = ''add'', ae_describe = (utf8 [0x65B0, 0x589E]), ae_defaultCheck = False\<rparr>,
        \<lparr>ae_action = ''query'', ae_describe = (utf8 [0x67E5, 0x8BE2]), ae_defaultCheck = False\<rparr>,
        \<lparr>ae_action = ''get'', ae_describe = (utf8 [0x8BE6, 0x60C5]), ae_defaultCheck = False\<rparr>,
        \<lparr>ae_action = ''update'', ae_describe = (utf8 [0x4FEE, 0x6539]), ae_defaultCheck = False\<rparr>,
        \<lparr>ae_action = ''delete'', ae_describe = (utf8 [0x5220, 0x9664]), ae_defaultCheck = False\<rparr>],
    p_actionList = None\<rparr>"

definition mock_permission_profile :: permission where
  "mock_permission_profile = \<lparr>
    p_roleId = ''admin'',
    p_permissionId = ''profile'',
    p_permissionName = (utf8 [0x8BE6, 0x7EC6, 0x9875, 0x6743, 0x9650]),
    p_actions = (''[{\"action\":\"add\",\"defaultCheck\":false,\"describe\":\"'' @
      utf8 [0x65B0, 0x589E] @ ''\"},{\"action\":\"query\",\"defaultCheck\":false,\"describe\":\"'' @
      utf8 [0x67E5, 0x8BE2] @ ''\"},{\"action\":\"get\",\"defaultCheck\":false,\"describe\":\"'' @
      utf8 [0x8BE6, 0x60C5] @ ''\"},{\"action\":\"update\",\"defaultCheck\":false,\"describe\":\"'' @
      utf8 [0x4FEE, 0x6539] @ ''\"},{\"action\":\"delete\",\"defaultCheck\":false,\"describe\":\"'' @
      utf8 [0x5220, 0x9664] @ ''\"}]''),
    p_actionEntitySet = Some [\<lparr>ae_action = ''add'', ae_describe = (utf8 [0x65B0, 0x589E]), ae_defaultCheck = False\<rparr>,
        \<lparr>ae_action = ''query'', ae_describe = (utf8 [0x67E5, 0x8BE2]), ae_defaultCheck = False\<rparr>,
        \<lparr>ae_action = ''get'', ae_describe = (utf8 [0x8BE6, 0x60C5]), ae_defaultCheck = False\<rparr>,
        \<lparr>ae_action = ''update'', ae_describe = (utf8 [0x4FEE, 0x6539]), ae_defaultCheck = False\<rparr>,
        \<lparr>ae_action = ''delete'', ae_describe = (utf8 [0x5220, 0x9664]), ae_defaultCheck = False\<rparr>],
    p_actionList = None\<rparr>"

definition mock_permission_table :: permission where
  "mock_permission_table = \<lparr>
    p_roleId = ''admin'',
    p_permissionId = ''table'',
    p_permissionName = (utf8 [0x8868, 0x683C, 0x6743, 0x9650]),
    p_actions = (''[{\"action\":\"add\",\"defaultCheck\":false,\"describe\":\"'' @
      utf8 [0x65B0, 0x589E] @ ''\"},{\"action\":\"import\",\"defaultCheck\":false,\"describe\":\"'' @
      utf8 [0x5BFC, 0x5165] @ ''\"},{\"action\":\"get\",\"defaultCheck\":false,\"describe\":\"'' @
      utf8 [0x8BE6, 0x60C5] @ ''\"},{\"action\":\"update\",\"defaultCheck\":false,\"describe\":\"'' @
      utf8 [0x4FEE, 0x6539] @ ''\"}]''),
    p_actionEntitySet = Some [\<lparr>ae_action = ''add'', ae_describe = (utf8 [0x65B0, 0x589E]), ae_defaultCheck = False\<rparr>,
        \<lparr>ae_action = ''import'', ae_describe = (utf8 [0x5BFC, 0x5165]), ae_defaultCheck = False\<rparr>,
        \<lparr>ae_action = ''get'', ae_describe = (utf8 [0x8BE6, 0x60C5]), ae_defaultCheck = False\<rparr>,
        \<lparr>ae_action = ''update'', ae_describe = (utf8 [0x4FEE, 0x6539]), ae_defaultCheck = False\<rparr>],
    p_actionList = None\<rparr>"

definition mock_permission_form :: permission where
  "mock_permission_form = \<lparr>
    p_roleId = ''admin'',
    p_permissionId = ''form'',
    p_permissionName = (utf8 [0x8868, 0x5355, 0x6743, 0x9650]),
    p_actions = (''[{\"action\":\"add\",\"defaultCheck\":false,\"describe\":\"'' @
      utf8 [0x65B0, 0x589E] @ ''\"},{\"action\":\"get\",\"defaultCheck\":false,\"describe\":\"'' @
      utf8 [0x8BE6, 0x60C5] @ ''\"},{\"action\":\"query\",\"defaultCheck\":false,\"describe\":\"'' @
      utf8 [0x67E5, 0x8BE2] @ ''\"},{\"action\":\"update\",\"defaultCheck\":false,\"describe\":\"'' @
      utf8 [0x4FEE, 0x6539] @ ''\"},{\"action\":\"delete\",\"defaultCheck\":false,\"describe\":\"'' @
      utf8 [0x5220, 0x9664] @ ''\"}]''),
    p_actionEntitySet = Some [\<lparr>ae_action = ''add'', ae_describe = (utf8 [0x65B0, 0x589E]), ae_defaultCheck = False\<rparr>,
        \<lparr>ae_action = ''get'', ae_describe = (utf8 [0x8BE6, 0x60C5]), ae_defaultCheck = False\<rparr>,
        \<lparr>ae_action = ''query'', ae_describe = (utf8 [0x67E5, 0x8BE2]), ae_defaultCheck = False\<rparr>,
        \<lparr>ae_action = ''update'', ae_describe = (utf8 [0x4FEE, 0x6539]), ae_defaultCheck = False\<rparr>,
        \<lparr>ae_action = ''delete'', ae_describe = (utf8 [0x5220, 0x9664]), ae_defaultCheck = False\<rparr>],
    p_actionList = None\<rparr>"

definition mock_permission_order :: permission where
  "mock_permission_order = \<lparr>
    p_roleId = ''admin'',
    p_permissionId = ''order'',
    p_permissionName = (utf8 [0x8BA2, 0x5355, 0x7BA1, 0x7406]),
    p_actions = (''[{\"action\":\"add\",\"defaultCheck\":false,\"describe\":\"'' @
      utf8 [0x65B0, 0x589E] @ ''\"},{\"action\":\"query\",\"defaultCheck\":false,\"describe\":\"'' @
      utf8 [0x67E5, 0x8BE2] @ ''\"},{\"action\":\"get\",\"defaultCheck\":false,\"describe\":\"'' @
      utf8 [0x8BE6, 0x60C5] @ ''\"},{\"action\":\"update\",\"defaultCheck\":false,\"describe\":\"'' @
      utf8 [0x4FEE, 0x6539] @ ''\"},{\"action\":\"delete\",\"defaultCheck\":false,\"describe\":\"'' @
      utf8 [0x5220, 0x9664] @ ''\"}]''),
    p_actionEntitySet = Some [\<lparr>ae_action = ''add'', ae_describe = (utf8 [0x65B0, 0x589E]), ae_defaultCheck = False\<rparr>,
        \<lparr>ae_action = ''query'', ae_describe = (utf8 [0x67E5, 0x8BE2]), ae_defaultCheck = False\<rparr>,
        \<lparr>ae_action = ''get'', ae_describe = (utf8 [0x8BE6, 0x60C5]), ae_defaultCheck = False\<rparr>,
        \<lparr>ae_action = ''update'', ae_describe = (utf8 [0x4FEE, 0x6539]), ae_defaultCheck = False\<rparr>,
        \<lparr>ae_action = ''delete'', ae_describe = (utf8 [0x5220, 0x9664]), ae_defaultCheck = False\<rparr>],
    p_actionList = None\<rparr>"

definition mock_permission_permission :: permission where
  "mock_permission_permission = \<lparr>
    p_roleId = ''admin'',
    p_permissionId = ''permission'',
    p_permissionName = (utf8 [0x6743, 0x9650, 0x7BA1, 0x7406]),
    p_actions = (''[{\"action\":\"add\",\"defaultCheck\":false,\"describe\":\"'' @
      utf8 [0x65B0, 0x589E] @ ''\"},{\"action\":\"get\",\"defaultCheck\":false,\"describe\":\"'' @
      utf8 [0x8BE6, 0x60C5] @ ''\"},{\"action\":\"update\",\"defaultCheck\":false,\"describe\":\"'' @
      utf8 [0x4FEE, 0x6539] @ ''\"},{\"action\":\"delete\",\"defaultCheck\":false,\"describe\":\"'' @
      utf8 [0x5220, 0x9664] @ ''\"}]''),
    p_actionEntitySet = Some [\<lparr>ae_action = ''add'', ae_describe = (utf8 [0x65B0, 0x589E]), ae_defaultCheck = False\<rparr>,
        \<lparr>ae_action = ''get'', ae_describe = (utf8 [0x8BE6, 0x60C5]), ae_defaultCheck = False\<rparr>,
        \<lparr>ae_action = ''update'', ae_describe = (utf8 [0x4FEE, 0x6539]), ae_defaultCheck = False\<rparr>,
        \<lparr>ae_action = ''delete'', ae_describe = (utf8 [0x5220, 0x9664]), ae_defaultCheck = False\<rparr>],
    p_actionList = None\<rparr>"

definition mock_permission_role :: permission where
  "mock_permission_role = \<lparr>
    p_roleId = ''admin'',
    p_permissionId = ''role'',
    p_permissionName = (utf8 [0x89D2, 0x8272, 0x7BA1, 0x7406]),
    p_actions = (''[{\"action\":\"add\",\"defaultCheck\":false,\"describe\":\"'' @
      utf8 [0x65B0, 0x589E] @ ''\"},{\"action\":\"get\",\"defaultCheck\":false,\"describe\":\"'' @
      utf8 [0x8BE6, 0x60C5] @ ''\"},{\"action\":\"update\",\"defaultCheck\":false,\"describe\":\"'' @
      utf8 [0x4FEE, 0x6539] @ ''\"},{\"action\":\"delete\",\"defaultCheck\":false,\"describe\":\"'' @
      utf8 [0x5220, 0x9664] @ ''\"}]''),
    p_actionEntitySet = Some [\<lparr>ae_action = ''add'', ae_describe = (utf8 [0x65B0, 0x589E]), ae_defaultCheck = False\<rparr>,
        \<lparr>ae_action = ''get'', ae_describe = (utf8 [0x8BE6, 0x60C5]), ae_defaultCheck = False\<rparr>,
        \<lparr>ae_action = ''update'', ae_describe = (utf8 [0x4FEE, 0x6539]), ae_defaultCheck = False\<rparr>,
        \<lparr>ae_action = ''delete'', ae_describe = (utf8 [0x5220, 0x9664]), ae_defaultCheck = False\<rparr>],
    p_actionList = None\<rparr>"

definition mock_permission_table2 :: permission where
  "mock_permission_table2 = \<lparr>
    p_roleId = ''admin'',
    p_permissionId = ''table'',
    p_permissionName = (utf8 [0x684C, 0x5B50, 0x7BA1, 0x7406]),
    p_actions = (''[{\"action\":\"add\",\"defaultCheck\":false,\"describe\":\"'' @
      utf8 [0x65B0, 0x589E] @ ''\"},{\"action\":\"get\",\"defaultCheck\":false,\"describe\":\"'' @
      utf8 [0x8BE6, 0x60C5] @ ''\"},{\"action\":\"query\",\"defaultCheck\":false,\"describe\":\"'' @
      utf8 [0x67E5, 0x8BE2] @ ''\"},{\"action\":\"update\",\"defaultCheck\":false,\"describe\":\"'' @
      utf8 [0x4FEE, 0x6539] @ ''\"},{\"action\":\"delete\",\"defaultCheck\":false,\"describe\":\"'' @
      utf8 [0x5220, 0x9664] @ ''\"}]''),
    p_actionEntitySet = Some [\<lparr>ae_action = ''add'', ae_describe = (utf8 [0x65B0, 0x589E]), ae_defaultCheck = False\<rparr>,
        \<lparr>ae_action = ''get'', ae_describe = (utf8 [0x8BE6, 0x60C5]), ae_defaultCheck = False\<rparr>,
        \<lparr>ae_action = ''query'', ae_describe = (utf8 [0x67E5, 0x8BE2]), ae_defaultCheck = False\<rparr>,
        \<lparr>ae_action = ''update'', ae_describe = (utf8 [0x4FEE, 0x6539]), ae_defaultCheck = False\<rparr>,
        \<lparr>ae_action = ''delete'', ae_describe = (utf8 [0x5220, 0x9664]), ae_defaultCheck = False\<rparr>],
    p_actionList = None\<rparr>"

definition mock_permission_user :: permission where
  "mock_permission_user = \<lparr>
    p_roleId = ''admin'',
    p_permissionId = ''user'',
    p_permissionName = (utf8 [0x7528, 0x6237, 0x7BA1, 0x7406]),
    p_actions = (''[{\"action\":\"add\",\"defaultCheck\":false,\"describe\":\"'' @
      utf8 [0x65B0, 0x589E] @ ''\"},{\"action\":\"import\",\"defaultCheck\":false,\"describe\":\"'' @
      utf8 [0x5BFC, 0x5165] @ ''\"},{\"action\":\"get\",\"defaultCheck\":false,\"describe\":\"'' @
      utf8 [0x8BE6, 0x60C5] @ ''\"},{\"action\":\"update\",\"defaultCheck\":false,\"describe\":\"'' @
      utf8 [0x4FEE, 0x6539] @ ''\"},{\"action\":\"delete\",\"defaultCheck\":false,\"describe\":\"'' @
      utf8 [0x5220, 0x9664] @ ''\"},{\"action\":\"export\",\"defaultCheck\":false,\"describe\":\"'' @
      utf8 [0x5BFC, 0x51FA] @ ''\"}]''),
    p_actionEntitySet = Some [\<lparr>ae_action = ''add'', ae_describe = (utf8 [0x65B0, 0x589E]), ae_defaultCheck = False\<rparr>,
        \<lparr>ae_action = ''import'', ae_describe = (utf8 [0x5BFC, 0x5165]), ae_defaultCheck = False\<rparr>,
        \<lparr>ae_action = ''get'', ae_describe = (utf8 [0x8BE6, 0x60C5]), ae_defaultCheck = False\<rparr>,
        \<lparr>ae_action = ''update'', ae_describe = (utf8 [0x4FEE, 0x6539]), ae_defaultCheck = False\<rparr>,
        \<lparr>ae_action = ''delete'', ae_describe = (utf8 [0x5220, 0x9664]), ae_defaultCheck = False\<rparr>,
        \<lparr>ae_action = ''export'', ae_describe = (utf8 [0x5BFC, 0x51FA]), ae_defaultCheck = False\<rparr>],
    p_actionList = None\<rparr>"

definition mock_permission_support :: permission where
  "mock_permission_support = \<lparr>
    p_roleId = ''admin'',
    p_permissionId = ''support'',
    p_permissionName = (utf8 [0x8D85, 0x7EA7, 0x6A21, 0x5757]),
    p_actions = (''[{\"action\":\"add\",\"defaultCheck\":false,\"describe\":\"'' @
      utf8 [0x65B0, 0x589E] @ ''\"},{\"action\":\"import\",\"defaultCheck\":false,\"describe\":\"'' @
      utf8 [0x5BFC, 0x5165] @ ''\"},{\"action\":\"get\",\"defaultCheck\":false,\"describe\":\"'' @
      utf8 [0x8BE6, 0x60C5] @ ''\"},{\"action\":\"update\",\"defaultCheck\":false,\"describe\":\"'' @
      utf8 [0x4FEE, 0x6539] @ ''\"},{\"action\":\"delete\",\"defaultCheck\":false,\"describe\":\"'' @
      utf8 [0x5220, 0x9664] @ ''\"},{\"action\":\"export\",\"defaultCheck\":false,\"describe\":\"'' @
      utf8 [0x5BFC, 0x51FA] @ ''\"}]''),
    p_actionEntitySet = Some [\<lparr>ae_action = ''add'', ae_describe = (utf8 [0x65B0, 0x589E]), ae_defaultCheck = False\<rparr>,
        \<lparr>ae_action = ''import'', ae_describe = (utf8 [0x5BFC, 0x5165]), ae_defaultCheck = False\<rparr>,
        \<lparr>ae_action = ''get'', ae_describe = (utf8 [0x8BE6, 0x60C5]), ae_defaultCheck = False\<rparr>,
        \<lparr>ae_action = ''update'', ae_describe = (utf8 [0x4FEE, 0x6539]), ae_defaultCheck = False\<rparr>,
        \<lparr>ae_action = ''delete'', ae_describe = (utf8 [0x5220, 0x9664]), ae_defaultCheck = False\<rparr>,
        \<lparr>ae_action = ''export'', ae_describe = (utf8 [0x5BFC, 0x51FA]), ae_defaultCheck = False\<rparr>],
    p_actionList = None\<rparr>"

definition roleObj :: role where
  "roleObj = \<lparr>
    ro_id = ''admin'',
    ro_name = (utf8 [0x7BA1, 0x7406, 0x5458]),
    ro_permissions = Some ([mock_permission_dashboard,
      mock_permission_exception,
      mock_permission_result,
      mock_permission_profile,
      mock_permission_table,
      mock_permission_form,
      mock_permission_order,
      mock_permission_permission,
      mock_permission_role,
      mock_permission_table2,
      mock_permission_user] @ [mock_permission_support]),
    ro_permissionList = None\<rparr>"

definition userInfo :: user_info where
  "userInfo = \<lparr>
    ui_id = ''4291d7da9005377ec9aec4a71ea837f'',
    ui_name = (utf8 [0x5929, 0x91CE, 0x8FDC, 0x5B50]),
    ui_username = ''admin'',
    ui_avatar = ''/avatar2.jpg'',
    ui_role = Some roleObj\<rparr>"

definition nav_dashboard :: nav_item where
  "nav_dashboard = no_nav\<lparr>
    ni_name := Some ''dashboard'',
    ni_parentId := 0,
    ni_id := 1,
    ni_meta := Some (no_nav_meta\<lparr>nm_icon := Some ''dashboard'', nm_title := Some (utf8 [0x4EEA, 0x8868, 0x76D8]), nm_show := Some True\<rparr>),
    ni_component := Some ''RouteView'',
    ni_redirect := Some ''/dashboard/workplace''\<rparr>"

definition nav_workplace :: nav_item where
  "nav_workplace = no_nav\<lparr>
    ni_name := Some ''workplace'',
    ni_parentId := 1,
    ni_id := 7,
    ni_meta := Some (no_nav_meta\<lparr>nm_title := Some (utf8 [0x5DE5, 0x4F5C, 0x53F0]), nm_show := Some True\<rparr>),
    ni_component := Some ''Workplace''\<rparr>"

definition nav_monitor :: nav_item where
  "nav_monitor = no_nav\<lparr>
    ni_name := Some ''monitor'',
    ni_path := Some ''https://www.baidu.com/'',
    ni_parentId := 1,
    ni_id := 3,
    ni_meta := Some (no_nav_meta\<lparr>nm_title := Some (utf8 [0x76D1, 0x63A7, 0x9875, 0xFF08, 0x5916, 0x90E8, 0xFF09]), nm_target := Some ''_blank'', nm_show := Some True\<rparr>)\<rparr>"

definition nav_Analysis :: nav_item where
  "nav_Analysis = no_nav\<lparr>
    ni_name := Some ''Analysis'',
    ni_parentId := 1,
    ni_id := 2,
    ni_meta := Some (no_nav_meta\<lparr>nm_title := Some (utf8 [0x5206, 0x6790, 0x9875]), nm_show := Some True\<rparr>),
    ni_component := Some ''Analysis'',
    ni_path := Some ''/dashboard/analysis''\<rparr>"

definition nav_form :: nav_item where
  "nav_form = no_nav\<lparr>
    ni_name := Some ''form'',
    ni_parentId := 0,
    ni_id := 10,
    ni_meta := Some (no_nav_meta\<lparr>nm_icon := Some ''form'', nm_title := Some (utf8 [0x8868, 0x5355, 0x9875])\<rparr>),
    ni_redirect := Some ''/form/base-form'',
    ni_component := Some ''RouteView''\<rparr>"

definition nav_basic_form :: nav_item where
  "nav_basic_form = no_nav\<lparr>
    ni_name := Some ''basic-form'',
    ni_parentId := 10,
    ni_id := 6,
    ni_meta := Some (no_nav_meta\<lparr>nm_title := Some (utf8 [0x57FA, 0x7840, 0x8868, 0x5355])\<rparr>),
    ni_component := Some ''BasicForm''\<rparr>"

definition nav_step_form :: nav_item where
  "nav_step_form = no_nav\<lparr>
    ni_name := Some ''step-form'',
    ni_parentId := 10,
    ni_id := 5,
    ni_meta := Some (no_nav_meta\<lparr>nm_title := Some (utf8 [0x5206, 0x6B65, 0x8868, 0x5355])\<rparr>),
    ni_component := Some ''StepForm''\<rparr>"

definition nav_advanced_form :: nav_item where
  "nav_advanced_form = no_nav\<lparr>
    ni_name := Some ''advanced-form'',
    ni_parentId := 10,
    ni_id := 4,
    ni_meta := Some (no_nav_meta\<lparr>nm_title := Some (utf8 [0x9AD8, 0x7EA7, 0x8868, 0x5355])\<rparr>),
    ni_component := Some ''AdvanceForm''\<rparr>"

definition nav_list :: nav_item where
  "nav_list = no_nav\<lparr>
    ni_name := Some ''list'',
    ni_parentId := 0,
    ni_id := 10010,
    ni_meta := Some (no_nav_meta\<lparr>nm_icon := Some ''table'', nm_title := Some (utf8 [0x5217, 0x8868, 0x9875]), nm_show := Some True\<rparr>),
    ni_redirect := Some ''/list/table-list'',
    ni_component := Some ''RouteView''\<rparr>"

definition nav_table_list :: nav_item where
  "nav_table_list = no_nav\<lparr>
    ni_name := Some ''table-list'',
    ni_parentId := 10010,
    ni_id := 10011,
    ni_path := Some (''/list/table-list/:pageNo([1-9]'' @ utf8 [0x5C] @ ''d*)?''),
    ni_meta := Some (no_nav_meta\<lparr>nm_title := Some (utf8 [0x67E5, 0x8BE2, 0x8868, 0x683C]), nm_show := Some True\<rparr>),
    ni_component := Some ''TableList''\<rparr>"

definition nav_basic_list :: nav_item where
  "nav_basic_list = no_nav\<lparr>
    ni_name := Some ''basic-list'',
    ni_parentId := 10010,
    ni_id := 10012,
    ni_meta := Some (no_nav_meta\<lparr>nm_title := Some (utf8 [0x6807, 0x51C6, 0x5217, 0x8868]), nm_show := Some True\<rparr>),
    ni_component := Some ''StandardList''\<rparr>"

definition nav_card :: nav_item where
  "nav_card = no_nav\<lparr>
    ni_name := Some ''card'',
    ni_parentId := 10010,
    ni_id := 10013,
    ni_meta := Some (no_nav_meta\<lparr>nm_title := Some (utf8 [0x5361, 0x7247, 0x5217, 0x8868]), nm_show := Some True\<rparr>),
    ni_component := Some ''CardList''\<rparr>"

definition nav_search :: nav_item where
  "nav_search = no_nav\<lparr>
    ni_name := Some ''search'',
    ni_parentId := 10010,
    ni_id := 10014,
    ni_meta := Some (no_nav_meta\<lparr>nm_title := Some (utf8 [0x641C, 0x7D22, 0x5217, 0x8868]), nm_show := Some True\<rparr>),
    ni_redirect := Some ''/list/search/article'',
    ni_component := Some ''SearchLayout''\<rparr>"

definition nav_article :: nav_item where
  "nav_article = no_nav\<lparr>
    ni_name := Some ''article'',
    ni_parentId := 10014,
    ni_id := 10015,
    ni_meta := Some (no_nav_meta\<lparr>nm_title := Some (utf8 [0x641C, 0x7D22, 0x5217, 0x8868, 0xFF08, 0x6587, 0x7AE0, 0xFF09]), nm_show := Some True\<rparr>),
    ni_component := Some ''SearchArticles''\<rparr>"

definition nav_project :: nav_item where
  "nav_project = no_nav\<lparr>
    ni_name := Some ''project'',
    ni_parentId := 10014,
    ni_id := 10016,
    ni_meta := Some (no_nav_meta\<lparr>nm_title := Some (utf8 [0x641C, 0x7D22, 0x5217, 0x8868, 0xFF08, 0x9879, 0x76EE, 0xFF09]), nm_show := Some True\<rparr>),
    ni_component := Some ''SearchProjects''\<rparr>"

definition nav_application :: nav_item where
  "nav_application = no_nav\<lparr>
    ni_name := Some ''application'',
    ni_parentId := 10014,
    ni_id := 10017,
    ni_meta := Some (no_nav_meta\<lparr>nm_title := Some (utf8 [0x641C, 0x7D22, 0x5217, 0x8868, 0xFF08, 0x5E94, 0x7528, 0xFF09]), nm_show := Some True\<rparr>),
    ni_component := Some ''SearchApplications''\<rparr>"

definition nav_profile :: nav_item where
  "nav_profile = no_nav\<lparr>
    ni_name := Some ''profile'',
    ni_parentId := 0,
    ni_id := 10018,
    ni_meta := Some (no_nav_meta\<lparr>nm_title := Some (utf8 [0x8BE6, 0x60C5, 0x9875]), nm_icon := Some ''profile'', nm_show := Some True\<rparr>),
    ni_redirect := Some ''/profile/basic'',
    ni_component := Some ''RouteView''\<rparr>"

definition nav_basic :: nav_item where
  "nav_basic = no_nav\<lparr>
    ni_name := Some ''basic'',
    ni_parentId := 10018,
    ni_id := 10019,
    ni_meta := Some (no_nav_meta\<lparr>nm_title := Some (utf8 [0x57FA, 0x7840, 0x8BE6, 0x60C5, 0x9875]), nm_show := Some True\<rparr>),
    ni_component := Some ''ProfileBasic''\<rparr>"

definition nav_advanced :: nav_item where
  "nav_advanced = no_nav\<lparr>
    ni_name := Some ''advanced'',
    ni_parentId := 10018,
    ni_id := 10020,
    ni_meta := Some (no_nav_meta\<lparr>nm_title := Some (utf8 [0x9AD8, 0x7EA7, 0x8BE6, 0x60C5, 0x9875]), nm_show := Some True\<rparr>),
    ni_component := Some ''ProfileAdvanced''\<rparr>"

definition nav_result :: nav_item where
  "nav_result = no_nav\<lparr>
    ni_name := Some ''result'',
    ni_parentId := 0,
    ni_id := 10021,
    ni_meta := Some (no_nav_meta\<lparr>nm_title := Some (utf8 [0x7ED3, 0x679C, 0x9875]), nm_icon := Some ''check-circle-o'', nm_show := Some True\<rparr>),
    ni_redirect := Some ''/result/success'',
    ni_component := Some ''PageView''\<rparr>"

definition nav_success :: nav_item where
  "nav_success = no_nav\<lparr>
    ni_name := Some ''success'',
    ni_parentId := 10021,
    ni_id := 10022,
    ni_meta := Some (no_nav_meta\<lparr>nm_title := Some (utf8 [0x6210, 0x529F]), nm_hiddenHeaderContent := Some True, nm_show := Some True\<rparr>),
    ni_component := Some ''ResultSuccess''\<rparr>"

definition nav_fail :: nav_item where
  "nav_fail = no_nav\<lparr>
    ni_name := Some ''fail'',
    ni_parentId := 10021,
    ni_id := 10023,
    ni_meta := Some (no_nav_meta\<lparr>nm_title := Some (utf8 [0x5931, 0x8D25]), nm_hiddenHeaderContent := Some True, nm_show := Some True\<rparr>),
    ni_component := Some ''ResultFail''\<rparr>"

definition nav_exception :: nav_item where
  "nav_exception = no_nav\<lparr>
    ni_name := Some ''exception'',
    ni_parentId := 0,
    ni_id := 10024,
    ni_meta := Some (no_nav_meta\<lparr>nm_title := Some (utf8 [0x5F02, 0x5E38, 0x9875]), nm_icon := Some ''warning'', nm_show := Some True\<rparr>),
    ni_redirect := Some ''/exception/403'',
    ni_component := Some ''RouteView''\<rparr>"

definition nav_403 :: nav_item where
  "nav_403 = no_nav\<lparr>
    ni_name := Some ''403'',
    ni_parentId := 10024,
    ni_id := 10025,
    ni_meta := Some (no_nav_meta\<lparr>nm_title := Some ''403'', nm_show := Some True\<rparr>),
    ni_component := Some ''Exception403''\<rparr>"

definition nav_404 :: nav_item where
  "nav_404 = no_nav\<lparr>
    ni_name := Some ''404'',
    ni_parentId := 10024,
    ni_id := 10026,
    ni_meta := Some (no_nav_meta\<lparr>nm_title := Some ''404'', nm_show := Some True\<rparr>),
    ni_component := Some ''Exception404''\<rparr>"

definition nav_500 :: nav_item where
  "nav_500 = no_nav\<lparr>
    ni_name := Some ''500'',
    ni_parentId := 10024,
    ni_id := 10027,
    ni_meta := Some (no_nav_meta\<lparr>nm_title := Some ''500'', nm_show := Some True\<rparr>),
    ni_component := Some ''Exception500''\<rparr>"

definition nav_account :: nav_item where
  "nav_account = no_nav\<lparr>
    ni_name := Some ''account'',
    ni_parentId := 0,
    ni_id := 10028,
    ni_meta := Some (no_nav_meta\<lparr>nm_title := Some (utf8 [0x4E2A, 0x4EBA, 0x9875]), nm_icon := Some ''user'', nm_show := Some True\<rparr>),
    ni_redirect := Some ''/account/center'',
    ni_component := Some ''RouteView''\<rparr>"

definition nav_center :: nav_item where
  "nav_center = no_nav\<lparr>
    ni_name := Some ''center'',
    ni_parentId := 10028,
    ni_id := 10029,
    ni_meta := Some (no_nav_meta\<lparr>nm_title := Some (utf8 [0x4E2A, 0x4EBA, 0x4E2D, 0x5FC3]), nm_show := Some True\<rparr>),
    ni_component := Some ''AccountCenter''\<rparr>"

definition nav_settings :: nav_item where
  "nav_settings = no_nav\<lparr>
    ni_name := Some ''settings'',
    ni_parentId := 10028,
    ni_id := 10030,
    ni_meta := Some (no_nav_meta\<lparr>nm_title := Some (utf8 [0x4E2A, 0x4EBA, 0x8BBE, 0x7F6E]), nm_hideHeader := Some True, nm_hideChildren := Some True, nm_show := Some True\<rparr>),
    ni_redirect := Some ''/account/settings/basic'',
    ni_component := Some ''AccountSettings''\<rparr>"

definition nav_BasicSettings :: nav_item where
  "nav_BasicSettings = no_nav\<lparr>
    ni_name := Some ''BasicSettings'',
    ni_path := Some ''/account/settings/basic'',
    ni_parentId := 10030,
    ni_id := 10031,
    ni_meta := Some (no_nav_meta\<lparr>nm_title := Some (utf8 [0x57FA, 0x672C, 0x8BBE, 0x7F6E]), nm_show := Some False\<rparr>),
    ni_component := Some ''BasicSetting''\<rparr>"

definition nav_SecuritySettings :: nav_item where
  "nav_SecuritySettings = no_nav\<lparr>
    ni_name := Some ''SecuritySettings'',
    ni_path := Some ''/account/settings/security'',
    ni_parentId := 10030,
    ni_id := 10032,
    ni_meta := Some (no_nav_meta\<lparr>nm_title := Some (utf8 [0x5B89, 0x5168, 0x8BBE, 0x7F6E]), nm_show := Some False\<rparr>),
    ni_component := Some ''SecuritySettings''\<rparr>"

definition nav_CustomSettings :: nav_item where
  "nav_CustomSettings = no_nav\<lparr>
    ni_name := Some ''CustomSettings'',
    ni_path := Some ''/account/settings/custom'',
    ni_parentId := 10030,
    ni_id := 10033,
    ni_meta := Some (no_nav_meta\<lparr>nm_title := Some (utf8 [0x4E2A, 0x6027, 0x5316, 0x8BBE, 0x7F6E]), nm_show := Some False\<rparr>),
    ni_component := Some ''CustomSettings''\<rparr>"

definition nav_BindingSettings :: nav_item where
  "nav_BindingSettings = no_nav\<lparr>
    ni_name := Some ''BindingSettings'',
    ni_path := Some ''/account/settings/binding'',
    ni_parentId := 10030,
    ni_id := 10034,
    ni_meta := Some (no_nav_meta\<lparr>nm_title := Some (utf8 [0x8D26, 0x6237, 0x7ED1, 0x5B9A]), nm_show := Some False\<rparr>),
    ni_component := Some ''BindingSettings''\<rparr>"

definition nav_NotificationSettings :: nav_item where
  "nav_NotificationSettings = no_nav\<lparr>
    ni_name := Some ''NotificationSettings'',
    ni_path := Some ''/account/settings/notification'',
    ni_parentId := 10030,
    ni_id := 10034,
    ni_meta := Some (no_nav_meta\<lparr>nm_title := Some (utf8 [0x65B0, 0x6D88, 0x606F, 0x901A, 0x77E5]), nm_show := Some False\<rparr>),
    ni_component := Some ''NotificationSettings''\<rparr>"

definition userNav :: "nav_item list" where
  "userNav =
     [nav_dashboard, nav_workplace, nav_monitor, nav_Analysis, nav_form, nav_basic_form,
      nav_step_form, nav_advanced_form, nav_list, nav_table_list, nav_basic_list, nav_card,
      nav_search, nav_article, nav_project, nav_application, nav_profile, nav_basic,
      nav_advanced, nav_result, nav_success, nav_fail, nav_exception, nav_403, nav_404,
      nav_500, nav_account, nav_center, nav_settings, nav_BasicSettings,
      nav_SecuritySettings, nav_CustomSettings, nav_BindingSettings,
      nav_NotificationSettings]"

section \<open>Consistency of the permissions\<close>

text \<open>\<open>JSON.stringify\<close> on an action entity set; the texts hold nothing that needs escaping.\<close>

definition entity_json :: "action_entity \<Rightarrow> string" where
  "entity_json e =
     ''{\"action\":\"'' @ ae_action e @ ''\",\"defaultCheck\":'' @
     (if ae_defaultCheck e then ''true'' else ''false'') @ '',\"describe\":\"'' @ ae_describe e @ ''\"}''"

fun join_with :: "string \<Rightarrow> string list \<Rightarrow> string" where
  "join_with sep [] = []"
| "join_with sep [s] = s"
| "join_with sep (s # t # ss) = s @ sep @ join_with sep (t # ss)"

definition actions_json :: "action_entity list \<Rightarrow> string" where
  "actions_json es = ''['' @ join_with '','' (map entity_json es) @ '']''"

lemmas mock_permissions = mock_permission_dashboard_def mock_permission_exception_def mock_permission_result_def mock_permission_profile_def mock_permission_table_def mock_permission_form_def mock_permission_order_def mock_permission_permission_def mock_permission_role_def mock_permission_table2_def mock_permission_user_def mock_permission_support_def

lemmas mock_navs = nav_dashboard_def nav_workplace_def nav_monitor_def nav_Analysis_def nav_form_def nav_basic_form_def nav_step_form_def nav_advanced_form_def nav_list_def nav_table_list_def nav_basic_list_def nav_card_def nav_search_def nav_article_def nav_project_def nav_application_def nav_profile_def nav_basic_def nav_advanced_def nav_result_def nav_success_def nav_fail_def nav_exception_def nav_403_def nav_404_def nav_500_def nav_account_def nav_center_def nav_settings_def nav_BasicSettings_def nav_SecuritySettings_def nav_CustomSettings_def nav_BindingSettings_def nav_NotificationSettings_def

text \<open>In every permission of the mock administrator the serialized \<open>actions\<close> string is the JSON
  text of its action entity set.\<close>

theorem mock_actions_serialized:
  "list_all (\<lambda>p. map_option actions_json (p_actionEntitySet p) = Some (p_actions p))
     (the (ro_permissions roleObj))"
  by (simp add: roleObj_def mock_permissions actions_json_def entity_json_def)

section \<open>The menu of the mock service\<close>

lemma mock_nav_ids:
  "ni_id nav_dashboard = 1" "ni_parentId nav_dashboard = 0"
  "ni_id nav_workplace = 7" "ni_parentId nav_workplace = 1"
  "ni_id nav_monitor = 3" "ni_parentId nav_monitor = 1"
  "ni_id nav_Analysis = 2" "ni_parentId nav_Analysis = 1"
  "ni_id nav_form = 10" "ni_parentId nav_form = 0"
  "ni_id nav_basic_form = 6" "ni_parentId nav_basic_form = 10"
  "ni_id nav_step_form = 5" "ni_parentId nav_step_form = 10"
  "ni_id nav_advanced_form = 4" "ni_parentId nav_advanced_form = 10"
  "ni_id nav_list = 10010" "ni_parentId nav_list = 0"
  "ni_id nav_table_list = 10011" "ni_parentId nav_table_list = 10010"
  "ni_id nav_basic_list = 10012" "ni_parentId nav_basic_list = 10010"
  "ni_id nav_card = 10013" "ni_parentId nav_card = 10010"
  "ni_id nav_search = 10014" "ni_parentId nav_search = 10010"
  "ni_id nav_article = 10015" "ni_parentId nav_article = 10014"
  "ni_id nav_project = 10016" "ni_parentId nav_project = 10014"
  "ni_id nav_application = 10017" "ni_parentId nav_application = 10014"
  "ni_id nav_profile = 10018" "ni_parentId nav_profile = 0"
  "ni_id nav_basic = 10019" "ni_parentId nav_basic = 10018"
  "ni_id nav_advanced = 10020" "ni_parentId nav_advanced = 10018"
  "ni_id nav_result = 10021" "ni_parentId nav_result = 0"
  "ni_id nav_success = 10022" "ni_parentId nav_success = 10021"
  "ni_id nav_fail = 10023" "ni_parentId nav_fail = 10021"
  "ni_id nav_exception = 10024" "ni_parentId nav_exception = 0"
  "ni_id nav_403 = 10025" "ni_parentId nav_403 = 10024"
  "ni_id nav_404 = 10026" "ni_parentId nav_404 = 10024"
  "ni_id nav_500 = 10027" "ni_parentId nav_500 = 10024"
  "ni_id nav_account = 10028" "ni_parentId nav_account = 0"
  "ni_id nav_center = 10029" "ni_parentId nav_center = 10028"
  "ni_id nav_settings = 10030" "ni_parentId nav_settings = 10028"
  "ni_id nav_BasicSettings = 10031" "ni_parentId nav_BasicSettings = 10030"
  "ni_id nav_SecuritySettings = 10032" "ni_parentId nav_SecuritySettings = 10030"
  "ni_id nav_CustomSettings = 10033" "ni_parentId nav_CustomSettings = 10030"
  "ni_id nav_BindingSettings = 10034" "ni_parentId nav_BindingSettings = 10030"
  "ni_id nav_NotificationSettings = 10034" "ni_parentId nav_NotificationSettings = 10030"
  by (simp_all add: mock_navs no_nav_def)

lemma userNav_unfold:
  "listToTree userNav userNav p = listToTree userNav
     [nav_dashboard, nav_workplace, nav_monitor, nav_Analysis, nav_form, nav_basic_form,
      nav_step_form, nav_advanced_form, nav_list, nav_table_list, nav_basic_list,
      nav_card, nav_search, nav_article, nav_project, nav_application, nav_profile,
      nav_basic, nav_advanced, nav_result, nav_success, nav_fail, nav_exception, nav_403,
      nav_404, nav_500, nav_account, nav_center, nav_settings, nav_BasicSettings,
      nav_SecuritySettings, nav_CustomSettings, nav_BindingSettings,
      nav_NotificationSettings] p"
  by (simp add: userNav_def)

definition userNav_tree :: "nav list" where
  "userNav_tree =
    [Nav (with_key nav_dashboard) (Some
       [Nav (with_key nav_workplace) None,
        Nav (with_key nav_monitor) None,
        Nav (with_key nav_Analysis) None]),
     Nav (with_key nav_form) (Some
       [Nav (with_key nav_basic_form) None,
        Nav (with_key nav_step_form) None,
        Nav (with_key nav_advanced_form) None]),
     Nav (with_key nav_list) (Some
       [Nav (with_key nav_table_list) None,
        Nav (with_key nav_basic_list) None,
        Nav (with_key nav_card) None,
        Nav (with_key nav_search) (Some
          [Nav (with_key nav_article) None,
           Nav (with_key nav_project) None,
           Nav (with_key nav_application) None])]),
     Nav (with_key nav_profile) (Some
       [Nav (with_key nav_basic) None,
        Nav (with_key nav_advanced) None]),
     Nav (with_key nav_result) (Some
       [Nav (with_key nav_success) None,
        Nav (with_key nav_fail) None]),
     Nav (with_key nav_exception) (Some
       [Nav (with_key nav_403) None,
        Nav (with_key nav_404) None,
        Nav (with_key nav_500) None]),
     Nav (with_key nav_account) (Some
       [Nav (with_key nav_center) None,
        Nav (with_key nav_settings) (Some
          [Nav (with_key nav_BasicSettings) None,
           Nav (with_key nav_SecuritySettings) None,
           Nav (with_key nav_CustomSettings) None,
           Nav (with_key nav_BindingSettings) None,
           Nav (with_key nav_NotificationSettings) None])])]"

lemma listToTree_userNav: "listToTree userNav userNav 0 = Some userNav_tree"
  by (simp add: userNav_unfold listToTree_Nil listToTree_Cons mock_nav_ids userNav_tree_def)

text \<open>The paths of the routes the mock menu becomes.\<close>

definition userNav_routes :: "route list" where
  "userNav_routes = generator [Nav rootRouter (Some userNav_tree)] None @ [notFoundRouter]"

lemma generatorDynamicRouter_userNav:
  "generatorDynamicRouter (Inr (Some userNav)) = Resolved userNav_routes"
  by (simp add: generatorDynamicRouter_def listToTree_userNav userNav_routes_def)

lemmas nav_eval = userNav_tree_def mock_navs no_nav_def no_nav_meta_def with_key_def str_or_def
  route_record_def route_path_def rootRouter_def notFoundRouter_def no_route_def Let_def

lemma full_paths_userNav:
  "full_paths [] userNav_routes =
    [''/'', ''/dashboard'', ''/dashboard/workplace'', ''https://www.baidu.com/'',
      ''/dashboard/analysis'', ''/form'', ''/form/basic-form'', ''/form/step-form'',
      ''/form/advanced-form'', ''/list'', (''/list/table-list/:pageNo([1-9]'' @ utf8 [0x5C] @ ''d*)?''), ''/list/basic-list'',
      ''/list/card'', ''/list/search'', ''/list/search/article'', ''/list/search/project'',
      ''/list/search/application'', ''/profile'', ''/profile/basic'', ''/profile/advanced'',
      ''/result'', ''/result/success'', ''/result/fail'', ''/exception'',
      ''/exception/403'', ''/exception/404'', ''/exception/500'', ''/account'',
      ''/account/center'', ''/account/settings'', ''/account/settings/basic'', ''/account/settings/security'',
      ''/account/settings/custom'', ''/account/settings/binding'', ''/account/settings/notification'', ''*'']"
  by (simp add: userNav_routes_def nav_eval join_path_def full_paths_append utf8_def utf8_char_def)

lemma redirects_userNav:
  "redirects userNav_routes =
    [''/dashboard'', ''/dashboard/workplace'', ''/form/base-form'', ''/list/table-list'',
      ''/list/search/article'', ''/profile/basic'', ''/result/success'', ''/exception/403'',
      ''/account/center'', ''/account/settings/basic'', ''/404'']"
  by (simp add: userNav_routes_def nav_eval route_simps)

lemma nav_components_1:
  "route_component (with_key nav_dashboard) = Layout ''RouteView''"
  "route_component (with_key nav_workplace) = Import ''@/views/dashboard/Workplace''"
  "route_component (with_key nav_monitor) = Import ''@/views/undefined''"
  "route_component (with_key nav_Analysis) = Import ''@/views/dashboard/Analysis''"
  "route_component (with_key nav_form) = Layout ''RouteView''"
  "route_component (with_key nav_basic_form) = Import ''@/views/form/basicForm''"
  "route_component (with_key nav_step_form) = Import ''@/views/form/stepForm/StepForm''"
  "route_component (with_key nav_advanced_form) = Import ''@/views/form/advancedForm/AdvancedForm''"
  "route_component (with_key nav_list) = Layout ''RouteView''"
  by (simp_all add: route_component_def mock_navs no_nav_def with_key_def str_or_def rootRouter_def
      lookup_component_def constantRouterComponents_def import_views_def object_prototype_def)

lemma nav_components_2:
  "route_component (with_key nav_table_list) = Import ''@/views/list/TableList''"
  "route_component (with_key nav_basic_list) = Import ''@/views/list/BasicList''"
  "route_component (with_key nav_card) = Import ''@/views/list/CardList''"
  "route_component (with_key nav_search) = Import ''@/views/list/search/SearchLayout''"
  "route_component (with_key nav_article) = Import ''@/views/list/search/Article''"
  "route_component (with_key nav_project) = Import ''@/views/list/search/Projects''"
  "route_component (with_key nav_application) = Import ''@/views/list/search/Applications''"
  "route_component (with_key nav_profile) = Layout ''RouteView''"
  "route_component (with_key nav_basic) = Import ''@/views/profile/basic''"
  by (simp_all add: route_component_def mock_navs no_nav_def with_key_def str_or_def rootRouter_def
      lookup_component_def constantRouterComponents_def import_views_def object_prototype_def)

lemma nav_components_3:
  "route_component (with_key nav_advanced) = Import ''@/views/profile/advanced/Advanced''"
  "route_component (with_key nav_result) = Layout ''PageView''"
  "route_component (with_key nav_success) = Import ''@/views/result/Success''"
  "route_component (with_key nav_fail) = Import ''@/views/result/Error''"
  "route_component (with_key nav_exception) = Layout ''RouteView''"
  "route_component (with_key nav_403) = Import ''@/views/exception/403''"
  "route_component (with_key nav_404) = Import ''@/views/exception/404''"
  "route_component (with_key nav_500) = Import ''@/views/exception/500''"
  "route_component (with_key nav_account) = Layout ''RouteView''"
  by (simp_all add: route_component_def mock_navs no_nav_def with_key_def str_or_def rootRouter_def
      lookup_component_def constantRouterComponents_def import_views_def object_prototype_def)

lemma nav_components_4:
  "route_component (with_key nav_center) = Import ''@/views/account/center''"
  "route_component (with_key nav_settings) = Import ''@/views/account/settings/Index''"
  "route_component (with_key nav_BasicSettings) = Import ''@/views/account/settings/BasicSetting''"
  "route_component (with_key nav_SecuritySettings) = Import ''@/views/account/settings/Security''"
  "route_component (with_key nav_CustomSettings) = Import ''@/views/account/settings/Custom''"
  "route_component (with_key nav_BindingSettings) = Import ''@/views/account/settings/Binding''"
  "route_component (with_key nav_NotificationSettings) = Import ''@/views/account/settings/Notification''"
  "route_component rootRouter = Layout ''BasicLayout''"
  by (simp_all add: route_component_def mock_navs no_nav_def with_key_def str_or_def rootRouter_def
      lookup_component_def constantRouterComponents_def import_views_def object_prototype_def)

lemmas mock_nav_components = nav_components_1 nav_components_2 nav_components_3 nav_components_4

lemma mock_nav_names:
  "ni_name nav_dashboard = Some ''dashboard''"
  "ni_name nav_workplace = Some ''workplace''"
  "ni_name nav_monitor = Some ''monitor''"
  "ni_name nav_Analysis = Some ''Analysis''"
  "ni_name nav_form = Some ''form''"
  "ni_name nav_basic_form = Some ''basic-form''"
  "ni_name nav_step_form = Some ''step-form''"
  "ni_name nav_advanced_form = Some ''advanced-form''"
  "ni_name nav_list = Some ''list''"
  "ni_name nav_table_list = Some ''table-list''"
  "ni_name nav_basic_list = Some ''basic-list''"
  "ni_name nav_card = Some ''card''"
  "ni_name nav_search = Some ''search''"
  "ni_name nav_article = Some ''article''"
  "ni_name nav_project = Some ''project''"
  "ni_name nav_application = Some ''application''"
  "ni_name nav_profile = Some ''profile''"
  "ni_name nav_basic = Some ''basic''"
  "ni_name nav_advanced = Some ''advanced''"
  "ni_name nav_result = Some ''result''"
  "ni_name nav_success = Some ''success''"
  "ni_name nav_fail = Some ''fail''"
  "ni_name nav_exception = Some ''exception''"
  "ni_name nav_403 = Some ''403''"
  "ni_name nav_404 = Some ''404''"
  "ni_name nav_500 = Some ''500''"
  "ni_name nav_account = Some ''account''"
  "ni_name nav_center = Some ''center''"
  "ni_name nav_settings = Some ''settings''"
  "ni_name nav_BasicSettings = Some ''BasicSettings''"
  "ni_name nav_SecuritySettings = Some ''SecuritySettings''"
  "ni_name nav_CustomSettings = Some ''CustomSettings''"
  "ni_name nav_BindingSettings = Some ''BindingSettings''"
  "ni_name nav_NotificationSettings = Some ''NotificationSettings''"
  "ni_name rootRouter = Some ''index''"
  by (simp_all add: mock_navs no_nav_def rootRouter_def)

lemma r_component_route_record [simp]: "r_component (route_record p x) = route_component x"
  and r_name_route_record [simp]:
    "r_name (route_record p x) = Some (str_default (ni_name x) (str_default (ni_key x) []))"
  by (simp_all add: route_record_def Let_def)

lemma unresolved_userNav:
  "map r_name (filter (\<lambda>r. r_component r = Import ''@/views/undefined'') (infos userNav_routes)) =
     [Some ''monitor'']"
  by (simp add: userNav_routes_def userNav_tree_def route_simps mock_nav_components mock_nav_names
      notFoundRouter_def no_route_def)

text \<open>With the mock menu the dynamic router resolves, but the tables it yields together with the
  constant routes have one redirect that leads nowhere, \<open>/form/base-form\<close> (the page is generated as
  \<open>/form/basic-form\<close>), and one route, the external \<open>monitor\<close> link, whose lazy component imports the
  non-existent view \<open>undefined\<close>.\<close>

theorem userNav_menu_defects:
  "\<exists>rs. generatorDynamicRouter (Inr (Some userNav)) = Resolved rs \<and>
     dangling (constantRouterMap @ rs) = [''/form/base-form''] \<and>
     map r_name (filter (\<lambda>r. r_component r = Import ''@/views/undefined'') (infos rs)) =
       [Some ''monitor'']"
proof -
  have "full_paths [] constantRouterMap = [''/user'', ''/user/login'', ''/user/register'',
      ''/user/register-result'', ''/user/recover'', ''/404'']"
    and "redirects constantRouterMap = [''/user/login'']"
    by (simp_all add: table_eval join_path_def)
  then have "dangling (constantRouterMap @ userNav_routes) = [''/form/base-form'']"
    by (simp add: dangling_def full_paths_append redirects_append full_paths_userNav
        redirects_userNav path_matches_def)
  with generatorDynamicRouter_userNav unresolved_userNav show ?thesis
    by (intro exI [of _ userNav_routes] conjI)
qed

end
