(* ===== verification/MockRoles.thy ===== *)
theory MockRoles
  imports MockUser
begin

text \<open>
  The organisation tree, the roles and the permissions that the mock service
  \<open>src/mock/services/other.js\<close> answers with, as data; the texts are the source's, Chinese ones as
  code points. The \<open>dataAccess\<close> of a permission, always \<open>null\<close>, is left out.
\<close>

section \<open>Data\<close>

datatype org =
  Org (org_key: string) (org_title: string) (org_icon: "string option") (org_group: "bool option")
    (org_children: "org list option")

record listed_role =
  lr_id :: string
  lr_name :: string
  lr_describe :: string
  lr_status :: int
  lr_creatorId :: string
  lr_createTime :: int
  lr_deleted :: int
  lr_permissions :: "permission list"

record listed_permission =
  lp_id :: string
  lp_name :: string
  lp_describe :: "string option"
  lp_status :: int
  lp_actionData :: string
  lp_sptDaTypes :: "string option"
  lp_optionalFields :: "string option"
  lp_parents :: "string option"
  lp_type :: "string option"
  lp_deleted :: int
  lp_actions :: "string list"

record 'a listing =
  li_data :: "'a list"
  li_pageSize :: int
  li_pageNo :: int
  li_totalPage :: int
  li_totalCount :: int

section \<open>The answers\<close>

definition orgTree :: "org list" where
  "orgTree =
    [Org ''key-01'' ((utf8 [0x7814, 0x53D1, 0x4E2D, 0x5FC3])) (Some ''mail'') (None) (Some
       [Org ''key-01-01'' ((utf8 [0x540E, 0x7AEF, 0x7EC4])) None (Some True) (Some
          [Org ''key-01-01-01'' (''JAVA'') None (None) None,
           Org ''key-01-01-02'' (''PHP'') None (None) None,
           Org ''key-01-01-03'' (''Golang'') None (None) None]),
        Org ''key-01-02'' ((utf8 [0x524D, 0x7AEF, 0x7EC4])) None (Some True) (Some
          [Org ''key-01-02-01'' (''React'') None (None) None,
           Org ''key-01-02-02'' (''Vue'') None (None) None,
           Org ''key-01-02-03'' (''Angular'') None (None) None])]),
     Org ''key-02'' ((utf8 [0x8D22, 0x52A1, 0x90E8])) (Some ''dollar'') (None) (Some
       [Org ''key-02-01'' ((utf8 [0x4F1A, 0x8BA1, 0x6838, 0x7B97])) None (None) None,
        Org ''key-02-02'' ((utf8 [0x6210, 0x672C, 0x63A7, 0x5236])) None (None) None,
        Org ''key-02-03'' ((utf8 [0x5185, 0x90E8, 0x63A7, 0x5236])) None (None) (Some
          [Org ''key-02-03-01'' ((utf8 [0x8D22, 0x52A1, 0x5236, 0x5EA6, 0x5EFA, 0x8BBE])) None (None) None,
           Org ''key-02-03-02'' ((utf8 [0x4F1A, 0x8BA1, 0x6838, 0x7B97])) None (None) None])])]"

definition grant_admin_comment :: permission where
  "grant_admin_comment = \<lparr>
    p_roleId = ''admin'',
    p_permissionId = ''comment'',
    p_permissionName = (utf8 [0x8BC4, 0x8BBA, 0x7BA1, 0x7406]),
    p_actions = (''[{\"action\":\"add\",\"defaultCheck\":false,\"describe\":\"'' @
      utf8 [0x65B0, 0x589E] @ ''\"},{\"action\":\"query\",\"defaultCheck\":false,\"describe\":\"'' @
      utf8 [0x67E5, 0x8BE2] @ ''\"},{\"action\":\"get\",\"defaultCheck\":false,\"describe\":\"'' @
      utf8 [0x8BE6, 0x60C5] @ ''\"},{\"action\":\"edit\",\"defaultCheck\":false,\"describe\":\"'' @
      utf8 [0x4FEE, 0x6539] @ ''\"},{\"action\":\"delete\",\"defaultCheck\":false,\"describe\":\"'' @
      utf8 [0x5220, 0x9664] @ ''\"}]''),
    p_actionEntitySet = Some [\<lparr>ae_action = ''add'', ae_describe = (utf8 [0x65B0, 0x589E]), ae_defaultCheck = False\<rparr>,
        \<lparr>ae_action = ''query'', ae_describe = (utf8 [0x67E5, 0x8BE2]), ae_defaultCheck = False\<rparr>,
        \<lparr>ae_action = ''get'', ae_describe = (utf8 [0x8BE6, 0x60C5]), ae_defaultCheck = False\<rparr>,
        \<lparr>ae_action = ''edit'', ae_describe = (utf8 [0x4FEE, 0x6539]), ae_defaultCheck = False\<rparr>,
        \<lparr>ae_action = ''delete'', ae_describe = (utf8 [0x5220, 0x9664]), ae_defaultCheck = False\<rparr>],
    p_actionList = Some [''delete'', ''edit'']\<rparr>"

definition grant_admin_member :: permission where
  "grant_admin_member = \<lparr>
    p_roleId = ''admin'',
    p_permissionId = ''member'',
    p_permissionName = (utf8 [0x4F1A, 0x5458, 0x7BA1, 0x7406]),
    p_actions = (''[{\"action\":\"add\",\"defaultCheck\":false,\"describe\":\"'' @
      utf8 [0x65B0, 0x589E] @ ''\"},{\"action\":\"query\",\"defaultCheck\":false,\"describe\":\"'' @
      utf8 [0x67E5, 0x8BE2] @ ''\"},{\"action\":\"get\",\"defaultCheck\":false,\"describe\":\"'' @
      utf8 [0x8BE6, 0x60C5] @ ''\"},{\"action\":\"edit\",\"defaultCheck\":false,\"describe\":\"'' @
      utf8 [0x4FEE, 0x6539] @ ''\"},{\"action\":\"delete\",\"defaultCheck\":false,\"describe\":\"'' @
      utf8 [0x5220, 0x9664] @ ''\"}]''),
    p_actionEntitySet = Some [\<lparr>ae_action = ''add'', ae_describe = (utf8 [0x65B0, 0x589E]), ae_defaultCheck = False\<rparr>,
        \<lparr>ae_action = ''query'', ae_describe = (utf8 [0x67E5, 0x8BE2]), ae_defaultCheck = False\<rparr>,
        \<lparr>ae_action = ''get'', ae_describe = (utf8 [0x8BE6, 0x60C5]), ae_defaultCheck = False\<rparr>,
        \<lparr>ae_action = ''edit'', ae_describe = (utf8 [0x4FEE, 0x6539]), ae_defaultCheck = False\<rparr>,
        \<lparr>ae_action = ''delete'', ae_describe = (utf8 [0x5220, 0x9664]), ae_defaultCheck = False\<rparr>],
    p_actionList = Some [''query'', ''get'', ''edit'', ''delete'']\<rparr>"

definition grant_admin_menu :: permission where
  "grant_admin_menu = \<lparr>
    p_roleId = ''admin'',
    p_permissionId = ''menu'',
    p_permissionName = (utf8 [0x83DC, 0x5355, 0x7BA1, 0x7406]),
    p_actions = (''[{\"action\":\"add\",\"defaultCheck\":false,\"describe\":\"'' @
      utf8 [0x65B0, 0x589E] @ ''\"},{\"action\":\"import\",\"defaultCheck\":false,\"describe\":\"'' @
      utf8 [0x5BFC, 0x5165] @ ''\"},{\"action\":\"get\",\"defaultCheck\":false,\"describe\":\"'' @
      utf8 [0x8BE6, 0x60C5] @ ''\"},{\"action\":\"edit\",\"defaultCheck\":false,\"describe\":\"'' @
      utf8 [0x4FEE, 0x6539] @ ''\"}]''),
    p_actionEntitySet = Some [\<lparr>ae_action = ''add'', ae_describe = (utf8 [0x65B0, 0x589E]), ae_defaultCheck = False\<rparr>,
        \<lparr>ae_action = ''import'', ae_describe = (utf8 [0x5BFC, 0x5165]), ae_defaultCheck = False\<rparr>,
        \<lparr>ae_action = ''get'', ae_describe = (utf8 [0x8BE6, 0x60C5]), ae_defaultCheck = False\<rparr>,
        \<lparr>ae_action = ''edit'', ae_describe = (utf8 [0x4FEE, 0x6539]), ae_defaultCheck = False\<rparr>],
    p_actionList = Some [''add'', ''import'']\<rparr>"

definition grant_admin_order :: permission where
  "grant_admin_order = \<lparr>
    p_roleId = ''admin'',
    p_permissionId = ''order'',
    p_permissionName = (utf8 [0x8BA2, 0x5355, 0x7BA1, 0x7406]),
    p_actions = (''[{\"action\":\"add\",\"defaultCheck\":false,\"describe\":\"'' @
      utf8 [0x65B0, 0x589E] @ ''\"},{\"action\":\"query\",\"defaultCheck\":false,\"describe\":\"'' @
      utf8 [0x67E5, 0x8BE2] @ ''\"},{\"action\":\"get\",\"defaultCheck\":false,\"describe\":\"'' @
      utf8 [0x8BE6, 0x60C5] @ ''\"},{\"action\":\"edit\",\"defaultCheck\":false,\"describe\":\"'' @
      utf8 [0x4FEE, 0x6539] @ ''\"},{\"action\":\"delete\",\"defaultCheck\":false,\"describe\":\"'' @
      utf8 [0x5220, 0x9664] @ ''\"}]''),
    p_actionEntitySet = Some [\<lparr>ae_action = ''add'', ae_describe = (utf8 [0x65B0, 0x589E]), ae_defaultCheck = False\<rparr>,
        \<lparr>ae_action = ''query'', ae_describe = (utf8 [0x67E5, 0x8BE2]), ae_defaultCheck = False\<rparr>,
        \<lparr>ae_action = ''get'', ae_describe = (utf8 [0x8BE6, 0x60C5]), ae_defaultCheck = False\<rparr>,
        \<lparr>ae_action = ''edit'', ae_describe = (utf8 [0x4FEE, 0x6539]), ae_defaultCheck = False\<rparr>,
        \<lparr>ae_action = ''delete'', ae_describe = (utf8 [0x5220, 0x9664]), ae_defaultCheck = False\<rparr>],
    p_actionList = Some [''query'', ''add'', ''get'']\<rparr>"

definition grant_admin_permission :: permission where
  "grant_admin_permission = \<lparr>
    p_roleId = ''admin'',
    p_permissionId = ''permission'',
    p_permissionName = (utf8 [0x6743, 0x9650, 0x7BA1, 0x7406]),
    p_actions = (''[{\"action\":\"add\",\"defaultCheck\":false,\"describe\":\"'' @
      utf8 [0x65B0, 0x589E] @ ''\"},{\"action\":\"get\",\"defaultCheck\":false,\"describe\":\"'' @
      utf8 [0x8BE6, 0x60C5] @ ''\"},{\"action\":\"edit\",\"defaultCheck\":false,\"describe\":\"'' @
      utf8 [0x4FEE, 0x6539] @ ''\"},{\"action\":\"delete\",\"defaultCheck\":false,\"describe\":\"'' @
      utf8 [0x5220, 0x9664] @ ''\"}]''),
    p_actionEntitySet = Some [\<lparr>ae_action = ''add'', ae_describe = (utf8 [0x65B0, 0x589E]), ae_defaultCheck = False\<rparr>,
        \<lparr>ae_action = ''get'', ae_describe = (utf8 [0x8BE6, 0x60C5]), ae_defaultCheck = False\<rparr>,
        \<lparr>ae_action = ''edit'', ae_describe = (utf8 [0x4FEE, 0x6539]), ae_defaultCheck = False\<rparr>,
        \<lparr>ae_action = ''delete'', ae_describe = (utf8 [0x5220, 0x9664]), ae_defaultCheck = False\<rparr>],
    p_actionList = Some [''add'', ''get'', ''edit'', ''delete'']\<rparr>"

definition grant_admin_role :: permission where
  "grant_admin_role = \<lparr>
    p_roleId = ''admin'',
    p_permissionId = ''role'',
    p_permissionName = (utf8 [0x89D2, 0x8272, 0x7BA1, 0x7406]),
    p_actions = (''[{\"action\":\"add\",\"defaultCheck\":false,\"describe\":\"'' @
      utf8 [0x65B0, 0x589E] @ ''\"},{\"action\":\"get\",\"defaultCheck\":false,\"describe\":\"'' @
      utf8 [0x8BE6, 0x60C5] @ ''\"},{\"action\":\"edit\",\"defaultCheck\":false,\"describe\":\"'' @
      utf8 [0x4FEE, 0x6539] @ ''\"},{\"action\":\"delete\",\"defaultCheck\":false,\"describe\":\"'' @
      utf8 [0x5220, 0x9664] @ ''\"}]''),
    p_actionEntitySet = Some [\<lparr>ae_action = ''add'', ae_describe = (utf8 [0x65B0, 0x589E]), ae_defaultCheck = False\<rparr>,
        \<lparr>ae_action = ''get'', ae_describe = (utf8 [0x8BE6, 0x60C5]), ae_defaultCheck = False\<rparr>,
        \<lparr>ae_action = ''edit'', ae_describe = (utf8 [0x4FEE, 0x6539]), ae_defaultCheck = False\<rparr>,
        \<lparr>ae_action = ''delete'', ae_describe = (utf8 [0x5220, 0x9664]), ae_defaultCheck = False\<rparr>],
    p_actionList = None\<rparr>"

definition grant_admin_test :: permission where
  "grant_admin_test = \<lparr>
    p_roleId = ''admin'',
    p_permissionId = ''test'',
    p_permissionName = (utf8 [0x6D4B, 0x8BD5, 0x6743, 0x9650]),
    p_actions = ''[]'',
    p_actionEntitySet = Some [],
    p_actionList = None\<rparr>"

definition grant_admin_user :: permission where
  "grant_admin_user = \<lparr>
    p_roleId = ''admin'',
    p_permissionId = ''user'',
    p_permissionName = (utf8 [0x7528, 0x6237, 0x7BA1, 0x7406]),
    p_actions = (''[{\"action\":\"add\",\"defaultCheck\":false,\"describe\":\"'' @
      utf8 [0x65B0, 0x589E] @ ''\"},{\"action\":\"import\",\"defaultCheck\":false,\"describe\":\"'' @
      utf8 [0x5BFC, 0x5165] @ ''\"},{\"action\":\"get\",\"defaultCheck\":false,\"describe\":\"'' @
      utf8 [0x8BE6, 0x60C5] @ ''\"},{\"action\":\"edit\",\"defaultCheck\":false,\"describe\":\"'' @
      utf8 [0x4FEE, 0x6539] @ ''\"},{\"action\":\"delete\",\"defaultCheck\":false,\"describe\":\"'' @
      utf8 [0x5220, 0x9664] @ ''\"},{\"action\":\"export\",\"defaultCheck\":false,\"describe\":\"'' @
      utf8 [0x5BFC, 0x51FA] @ ''\"}]''),
    p_actionEntitySet = Some [\<lparr>ae_action = ''add'', ae_describe = (utf8 [0x65B0, 0x589E]), ae_defaultCheck = False\<rparr>,
        \<lparr>ae_action = ''import'', ae_describe = (utf8 [0x5BFC, 0x5165]), ae_defaultCheck = False\<rparr>,
        \<lparr>ae_action = ''get'', ae_describe = (utf8 [0x8BE6, 0x60C5]), ae_defaultCheck = False\<rparr>,
        \<lparr>ae_action = ''edit'', ae_describe = (utf8 [0x4FEE, 0x6539]), ae_defaultCheck = False\<rparr>,
        \<lparr>ae_action = ''delete'', ae_describe = (utf8 [0x5220, 0x9664]), ae_defaultCheck = False\<rparr>,
        \<lparr>ae_action = ''export'', ae_describe = (utf8 [0x5BFC, 0x51FA]), ae_defaultCheck = False\<rparr>],
    p_actionList = Some [''add'', ''get'']\<rparr>"

definition role_admin :: listed_role where
  "role_admin = \<lparr>
    lr_id = ''admin'',
    lr_name = (utf8 [0x7BA1, 0x7406, 0x5458]),
    lr_describe = (utf8 [0x62E5, 0x6709, 0x6240, 0x6709, 0x6743, 0x9650]),
    lr_status = 1,
    lr_creatorId = ''system'',
    lr_createTime = 1497160610259,
    lr_deleted = 0,
    lr_permissions =
      [grant_admin_comment, grant_admin_member, grant_admin_menu, grant_admin_order,
       grant_admin_permission, grant_admin_role, grant_admin_test, grant_admin_user]\<rparr>"

definition grant_svip_comment :: permission where
  "grant_svip_comment = \<lparr>
    p_roleId = ''admin'',
    p_permissionId = ''comment'',
    p_permissionName = (utf8 [0x8BC4, 0x8BBA, 0x7BA1, 0x7406]),
    p_actions = (''[{\"action\":\"add\",\"defaultCheck\":false,\"describe\":\"'' @
      utf8 [0x65B0, 0x589E] @ ''\"},{\"action\":\"query\",\"defaultCheck\":false,\"describe\":\"'' @
      utf8 [0x67E5, 0x8BE2] @ ''\"},{\"action\":\"get\",\"defaultCheck\":false,\"describe\":\"'' @
      utf8 [0x8BE6, 0x60C5] @ ''\"},{\"action\":\"edit\",\"defaultCheck\":false,\"describe\":\"'' @
      utf8 [0x4FEE, 0x6539] @ ''\"},{\"action\":\"delete\",\"defaultCheck\":false,\"describe\":\"'' @
      utf8 [0x5220, 0x9664] @ ''\"}]''),
    p_actionEntitySet = Some [\<lparr>ae_action = ''add'', ae_describe = (utf8 [0x65B0, 0x589E]), ae_defaultCheck = False\<rparr>,
        \<lparr>ae_action = ''query'', ae_describe = (utf8 [0x67E5, 0x8BE2]), ae_defaultCheck = False\<rparr>,
        \<lparr>ae_action = ''get'', ae_describe = (utf8 [0x8BE6, 0x60C5]), ae_defaultCheck = False\<rparr>,
        \<lparr>ae_action = ''edit'', ae_describe = (utf8 [0x4FEE, 0x6539]), ae_defaultCheck = False\<rparr>,
        \<lparr>ae_action = ''delete'', ae_describe = (utf8 [0x5220, 0x9664]), ae_defaultCheck = False\<rparr>],
    p_actionList = Some [''add'', ''get'', ''delete'']\<rparr>"

definition grant_svip_member :: permission where
  "grant_svip_member = \<lparr>
    p_roleId = ''admin'',
    p_permissionId = ''member'',
    p_permissionName = (utf8 [0x4F1A, 0x5458, 0x7BA1, 0x7406]),
    p_actions = (''[{\"action\":\"add\",\"defaultCheck\":false,\"describe\":\"'' @
      utf8 [0x65B0, 0x589E] @ ''\"},{\"action\":\"query\",\"defaultCheck\":false,\"describe\":\"'' @
      utf8 [0x67E5, 0x8BE2] @ ''\"},{\"action\":\"get\",\"defaultCheck\":false,\"describe\":\"'' @
      utf8 [0x8BE6, 0x60C5] @ ''\"},{\"action\":\"edit\",\"defaultCheck\":false,\"describe\":\"'' @
      utf8 [0x4FEE, 0x6539] @ ''\"},{\"action\":\"delete\",\"defaultCheck\":false,\"describe\":\"'' @
      utf8 [0x5220, 0x9664] @ ''\"}]''),
    p_actionEntitySet = Some [\<lparr>ae_action = ''add'', ae_describe = (utf8 [0x65B0, 0x589E]), ae_defaultCheck = False\<rparr>,
        \<lparr>ae_action = ''query'', ae_describe = (utf8 [0x67E5, 0x8BE2]), ae_defaultCheck = False\<rparr>,
        \<lparr>ae_action = ''get'', ae_describe = (utf8 [0x8BE6, 0x60C5]), ae_defaultCheck = False\<rparr>],
    p_actionList = Some [''add'', ''query'', ''get'']\<rparr>"

definition grant_svip_menu :: permission where
  "grant_svip_menu = \<lparr>
    p_roleId = ''admin'',
    p_permissionId = ''menu'',
    p_permissionName = (utf8 [0x83DC, 0x5355, 0x7BA1, 0x7406]),
    p_actions = (''[{\"action\":\"add\",\"defaultCheck\":false,\"describe\":\"'' @
      utf8 [0x65B0, 0x589E] @ ''\"},{\"action\":\"import\",\"defaultCheck\":false,\"describe\":\"'' @
      utf8 [0x5BFC, 0x5165] @ ''\"},{\"action\":\"get\",\"defaultCheck\":false,\"describe\":\"'' @
      utf8 [0x8BE6, 0x60C5] @ ''\"},{\"action\":\"edit\",\"defaultCheck\":false,\"describe\":\"'' @
      utf8 [0x4FEE, 0x6539] @ ''\"}]''),
    p_actionEntitySet = Some [\<lparr>ae_action = ''add'', ae_describe = (utf8 [0x65B0, 0x589E]), ae_defaultCheck = False\<rparr>,
        \<lparr>ae_action = ''import'', ae_describe = (utf8 [0x5BFC, 0x5165]), ae_defaultCheck = False\<rparr>,
        \<lparr>ae_action = ''get'', ae_describe = (utf8 [0x8BE6, 0x60C5]), ae_defaultCheck = False\<rparr>],
    p_actionList = Some [''add'', ''get'']\<rparr>"

definition grant_svip_order :: permission where
  "grant_svip_order = \<lparr>
    p_roleId = ''admin'',
    p_permissionId = ''order'',
    p_permissionName = (utf8 [0x8BA2, 0x5355, 0x7BA1, 0x7406]),
    p_actions = (''[{\"action\":\"add\",\"defaultCheck\":false,\"describe\":\"'' @
      utf8 [0x65B0, 0x589E] @ ''\"},{\"action\":\"query\",\"defaultCheck\":false,\"describe\":\"'' @
      utf8 [0x67E5, 0x8BE2] @ ''\"},{\"action\":\"get\",\"defaultCheck\":false,\"describe\":\"'' @
      utf8 [0x8BE6, 0x60C5] @ ''\"},{\"action\":\"edit\",\"defaultCheck\":false,\"describe\":\"'' @
      utf8 [0x4FEE, 0x6539] @ ''\"},{\"action\":\"delete\",\"defaultCheck\":false,\"describe\":\"'' @
      utf8 [0x5220, 0x9664] @ ''\"}]''),
    p_actionEntitySet = Some [\<lparr>ae_action = ''add'', ae_describe = (utf8 [0x65B0, 0x589E]), ae_defaultCheck = False\<rparr>,
        \<lparr>ae_action = ''query'', ae_describe = (utf8 [0x67E5, 0x8BE2]), ae_defaultCheck = False\<rparr>,
        \<lparr>ae_action = ''get'', ae_describe = (utf8 [0x8BE6, 0x60C5]), ae_defaultCheck = False\<rparr>,
        \<lparr>ae_action = ''edit'', ae_describe = (utf8 [0x4FEE, 0x6539]), ae_defaultCheck = False\<rparr>],
    p_actionList = Some [''add'', ''query'']\<rparr>"

definition grant_svip_permission :: permission where
  "grant_svip_permission = \<lparr>
    p_roleId = ''admin'',
    p_permissionId = ''permission'',
    p_permissionName = (utf8 [0x6743, 0x9650, 0x7BA1, 0x7406]),
    p_actions = (''[{\"action\":\"add\",\"defaultCheck\":false,\"describe\":\"'' @
      utf8 [0x65B0, 0x589E] @ ''\"},{\"action\":\"get\",\"defaultCheck\":false,\"describe\":\"'' @
      utf8 [0x8BE6, 0x60C5] @ ''\"},{\"action\":\"edit\",\"defaultCheck\":false,\"describe\":\"'' @
      utf8 [0x4FEE, 0x6539] @ ''\"},{\"action\":\"delete\",\"defaultCheck\":false,\"describe\":\"'' @
      utf8 [0x5220, 0x9664] @ ''\"}]''),
    p_actionEntitySet = Some [\<lparr>ae_action = ''add'', ae_describe = (utf8 [0x65B0, 0x589E]), ae_defaultCheck = False\<rparr>,
        \<lparr>ae_action = ''get'', ae_describe = (utf8 [0x8BE6, 0x60C5]), ae_defaultCheck = False\<rparr>,
        \<lparr>ae_action = ''edit'', ae_describe = (utf8 [0x4FEE, 0x6539]), ae_defaultCheck = False\<rparr>],
    p_actionList = Some [''add'', ''get'', ''edit'']\<rparr>"

definition grant_svip_role :: permission where
  "grant_svip_role = \<lparr>
    p_roleId = ''admin'',
    p_permissionId = ''role'',
    p_permissionName = (utf8 [0x89D2, 0x8272, 0x7BA1, 0x7406]),
    p_actions = (''[{\"action\":\"add\",\"defaultCheck\":false,\"describe\":\"'' @
      utf8 [0x65B0, 0x589E] @ ''\"},{\"action\":\"get\",\"defaultCheck\":false,\"describe\":\"'' @
      utf8 [0x8BE6, 0x60C5] @ ''\"},{\"action\":\"edit\",\"defaultCheck\":false,\"describe\":\"'' @
      utf8 [0x4FEE, 0x6539] @ ''\"},{\"action\":\"delete\",\"defaultCheck\":false,\"describe\":\"'' @
      utf8 [0x5220, 0x9664] @ ''\"}]''),
    p_actionEntitySet = Some [\<lparr>ae_action = ''add'', ae_describe = (utf8 [0x65B0, 0x589E]), ae_defaultCheck = False\<rparr>,
        \<lparr>ae_action = ''edit'', ae_describe = (utf8 [0x4FEE, 0x6539]), ae_defaultCheck = False\<rparr>,
        \<lparr>ae_action = ''delete'', ae_describe = (utf8 [0x5220, 0x9664]), ae_defaultCheck = False\<rparr>],
    p_actionList = None\<rparr>"

definition grant_svip_test :: permission where
  "grant_svip_test = \<lparr>
    p_roleId = ''admin'',
    p_permissionId = ''test'',
    p_permissionName = (utf8 [0x6D4B, 0x8BD5, 0x6743, 0x9650]),
    p_actions = ''[]'',
    p_actionEntitySet = Some [],
    p_actionList = Some [''add'', ''edit'']\<rparr>"

definition grant_svip_user :: permission where
  "grant_svip_user = \<lparr>
    p_roleId = ''admin'',
    p_permissionId = ''user'',
    p_permissionName = (utf8 [0x7528, 0x6237, 0x7BA1, 0x7406]),
    p_actions = (''[{\"action\":\"add\",\"defaultCheck\":false,\"describe\":\"'' @
      utf8 [0x65B0, 0x589E] @ ''\"},{\"action\":\"import\",\"defaultCheck\":false,\"describe\":\"'' @
      utf8 [0x5BFC, 0x5165] @ ''\"},{\"action\":\"get\",\"defaultCheck\":false,\"describe\":\"'' @
      utf8 [0x8BE6, 0x60C5] @ ''\"},{\"action\":\"edit\",\"defaultCheck\":false,\"describe\":\"'' @
      utf8 [0x4FEE, 0x6539] @ ''\"},{\"action\":\"delete\",\"defaultCheck\":false,\"describe\":\"'' @
      utf8 [0x5220, 0x9664] @ ''\"},{\"action\":\"export\",\"defaultCheck\":false,\"describe\":\"'' @
      utf8 [0x5BFC, 0x51FA] @ ''\"}]''),
    p_actionEntitySet = Some [\<lparr>ae_action = ''add'', ae_describe = (utf8 [0x65B0, 0x589E]), ae_defaultCheck = False\<rparr>,
        \<lparr>ae_action = ''import'', ae_describe = (utf8 [0x5BFC, 0x5165]), ae_defaultCheck = False\<rparr>,
        \<lparr>ae_action = ''get'', ae_describe = (utf8 [0x8BE6, 0x60C5]), ae_defaultCheck = False\<rparr>,
        \<lparr>ae_action = ''edit'', ae_describe = (utf8 [0x4FEE, 0x6539]), ae_defaultCheck = False\<rparr>],
    p_actionList = Some [''add'']\<rparr>"

definition role_svip :: listed_role where
  "role_svip = \<lparr>
    lr_id = ''svip'',
    lr_name = ''SVIP'',
    lr_describe = (utf8 [0x8D85, 0x7EA7, 0x4F1A, 0x5458]),
    lr_status = 1,
    lr_creatorId = ''system'',
    lr_createTime = 1532417744846,
    lr_deleted = 0,
    lr_permissions =
      [grant_svip_comment, grant_svip_member, grant_svip_menu, grant_svip_order,
       grant_svip_permission, grant_svip_role, grant_svip_test, grant_svip_user]\<rparr>"

definition grant_user_comment :: permission where
  "grant_user_comment = \<lparr>
    p_roleId = ''user'',
    p_permissionId = ''comment'',
    p_permissionName = (utf8 [0x8BC4, 0x8BBA, 0x7BA1, 0x7406]),
    p_actions = (''[{\"action\":\"query\",\"defaultCheck\":false,\"describe\":\"'' @
      utf8 [0x67E5, 0x8BE2] @ ''\"},{\"action\":\"get\",\"defaultCheck\":false,\"describe\":\"'' @
      utf8 [0x8BE6, 0x60C5] @ ''\"}]''),
    p_actionEntitySet = Some [\<lparr>ae_action = ''query'', ae_describe = (utf8 [0x67E5, 0x8BE2]), ae_defaultCheck = False\<rparr>,
        \<lparr>ae_action = ''get'', ae_describe = (utf8 [0x8BE6, 0x60C5]), ae_defaultCheck = False\<rparr>],
    p_actionList = Some [''query'']\<rparr>"

definition grant_user_marketing :: permission where
  "grant_user_marketing = \<lparr>
    p_roleId = ''user'',
    p_permissionId = ''marketing'',
    p_permissionName = (utf8 [0x8425, 0x9500, 0x7BA1, 0x7406]),
    p_actions = ''[]'',
    p_actionEntitySet = Some [],
    p_actionList = None\<rparr>"

definition grant_user_member :: permission where
  "grant_user_member = \<lparr>
    p_roleId = ''user'',
    p_permissionId = ''member'',
    p_permissionName = (utf8 [0x4F1A, 0x5458, 0x7BA1, 0x7406]),
    p_actions = (''[{\"action\":\"query\",\"defaultCheck\":false,\"describe\":\"'' @
      utf8 [0x67E5, 0x8BE2] @ ''\"},{\"action\":\"get\",\"defaultCheck\":false,\"describe\":\"'' @
      utf8 [0x8BE6, 0x60C5] @ ''\"}]''),
    p_actionEntitySet = Some [\<lparr>ae_action = ''query'', ae_describe = (utf8 [0x67E5, 0x8BE2]), ae_defaultCheck = False\<rparr>,
        \<lparr>ae_action = ''get'', ae_describe = (utf8 [0x8BE6, 0x60C5]), ae_defaultCheck = False\<rparr>],
    p_actionList = None\<rparr>"

definition grant_user_menu :: permission where
  "grant_user_menu = \<lparr>
    p_roleId = ''user'',
    p_permissionId = ''menu'',
    p_permissionName = (utf8 [0x83DC, 0x5355, 0x7BA1, 0x7406]),
    p_actions = ''[]'',
    p_actionEntitySet = Some [],
    p_actionList = None\<rparr>"

definition grant_user_order :: permission where
  "grant_user_order = \<lparr>
    p_roleId = ''user'',
    p_permissionId = ''order'',
    p_permissionName = (utf8 [0x8BA2, 0x5355, 0x7BA1, 0x7406]),
    p_actions = (''[{\"action\":\"query\",\"defaultCheck\":false,\"describe\":\"'' @
      utf8 [0x67E5, 0x8BE2] @ ''\"},{\"action\":\"get\",\"defaultCheck\":false,\"describe\":\"'' @
      utf8 [0x8BE6, 0x60C5] @ ''\"}]''),
    p_actionEntitySet = Some [\<lparr>ae_action = ''query'', ae_describe = (utf8 [0x67E5, 0x8BE2]), ae_defaultCheck = False\<rparr>,
        \<lparr>ae_action = ''get'', ae_describe = (utf8 [0x8BE6, 0x60C5]), ae_defaultCheck = False\<rparr>],
    p_actionList = None\<rparr>"

definition grant_user_permission :: permission where
  "grant_user_permission = \<lparr>
    p_roleId = ''user'',
    p_permissionId = ''permission'',
    p_permissionName = (utf8 [0x6743, 0x9650, 0x7BA1, 0x7406]),
    p_actions = ''[]'',
    p_actionEntitySet = Some [],
    p_actionList = None\<rparr>"

definition grant_user_role :: permission where
  "grant_user_role = \<lparr>
    p_roleId = ''user'',
    p_permissionId = ''role'',
    p_permissionName = (utf8 [0x89D2, 0x8272, 0x7BA1, 0x7406]),
    p_actions = ''[]'',
    p_actionEntitySet = Some [],
    p_actionList = None\<rparr>"

definition grant_user_test :: permission where
  "grant_user_test = \<lparr>
    p_roleId = ''user'',
    p_permissionId = ''test'',
    p_permissionName = (utf8 [0x6D4B, 0x8BD5, 0x6743, 0x9650]),
    p_actions = ''[]'',
    p_actionEntitySet = Some [],
    p_actionList = None\<rparr>"

definition grant_user_user :: permission where
  "grant_user_user = \<lparr>
    p_roleId = ''user'',
    p_permissionId = ''user'',
    p_permissionName = (utf8 [0x7528, 0x6237, 0x7BA1, 0x7406]),
    p_actions = ''[]'',
    p_actionEntitySet = Some [],
    p_actionList = None\<rparr>"

definition role_user :: listed_role where
  "role_user = \<lparr>
    lr_id = ''user'',
    lr_name = (utf8 [0x666E, 0x901A, 0x4F1A, 0x5458]),
    lr_describe = (utf8 [0x666E, 0x901A, 0x7528, 0x6237, 0xFF0C, 0x53EA, 0x80FD, 0x67E5, 0x8BE2]),
    lr_status = 1,
    lr_creatorId = ''system'',
    lr_createTime = 1497160610259,
    lr_deleted = 0,
    lr_permissions =
      [grant_user_comment, grant_user_marketing, grant_user_member, grant_user_menu,
       grant_user_order, grant_user_permission, grant_user_role, grant_user_test,
       grant_user_user]\<rparr>"

definition roles_answer :: "listed_role listing" where
  "roles_answer = \<lparr>
    li_data = [role_admin, role_svip, role_user],
    li_pageSize = 10, li_pageNo = 0, li_totalPage = 1, li_totalCount = 5\<rparr>"

definition all_marketing :: listed_permission where
  "all_marketing = \<lparr>
    lp_id = ''marketing'',
    lp_name = (utf8 [0x8425, 0x9500, 0x7BA1, 0x7406]),
    lp_describe = None,
    lp_status = 1,
    lp_actionData = (''[{\"action\":\"query\",\"defaultCheck\":false,\"describe\":\"'' @
      utf8 [0x67E5, 0x8BE2] @ ''\"},{\"action\":\"get\",\"defaultCheck\":false,\"describe\":\"'' @
      utf8 [0x8BE6, 0x60C5] @ ''\"},{\"action\":\"add\",\"defaultCheck\":false,\"describe\":\"'' @
      utf8 [0x65B0, 0x589E] @ ''\"},{\"action\":\"edit\",\"defaultCheck\":false,\"describe\":\"'' @
      utf8 [0x4FEE, 0x6539] @ ''\"},{\"action\":\"delete\",\"defaultCheck\":false,\"describe\":\"'' @
      utf8 [0x5220, 0x9664] @ ''\"}]''),
    lp_sptDaTypes = None,
    lp_optionalFields = None,
    lp_parents = None,
    lp_type = None,
    lp_deleted = 0,
    lp_actions = [''add'', ''query'', ''get'', ''edit'', ''delete'']\<rparr>"

definition all_member :: listed_permission where
  "all_member = \<lparr>
    lp_id = ''member'',
    lp_name = (utf8 [0x4F1A, 0x5458, 0x7BA1, 0x7406]),
    lp_describe = None,
    lp_status = 1,
    lp_actionData = (''[{\"action\":\"query\",\"defaultCheck\":false,\"describe\":\"'' @
      utf8 [0x67E5, 0x8BE2] @ ''\"},{\"action\":\"get\",\"defaultCheck\":false,\"describe\":\"'' @
      utf8 [0x8BE6, 0x60C5] @ ''\"},{\"action\":\"add\",\"defaultCheck\":false,\"describe\":\"'' @
      utf8 [0x65B0, 0x589E] @ ''\"},{\"action\":\"edit\",\"defaultCheck\":false,\"describe\":\"'' @
      utf8 [0x4FEE, 0x6539] @ ''\"},{\"action\":\"delete\",\"defaultCheck\":false,\"describe\":\"'' @
      utf8 [0x5220, 0x9664] @ ''\"}]''),
    lp_sptDaTypes = None,
    lp_optionalFields = Some ''[]'',
    lp_parents = None,
    lp_type = Some ''default'',
    lp_deleted = 0,
    lp_actions = [''add'', ''query'', ''get'', ''edit'', ''delete'']\<rparr>"

definition all_menu :: listed_permission where
  "all_menu = \<lparr>
    lp_id = ''menu'',
    lp_name = (utf8 [0x83DC, 0x5355, 0x7BA1, 0x7406]),
    lp_describe = None,
    lp_status = 1,
    lp_actionData = (''[{\"action\":\"add\",\"defaultCheck\":false,\"describe\":\"'' @
      utf8 [0x65B0, 0x589E] @ ''\"},{\"action\":\"import\",\"defaultCheck\":false,\"describe\":\"'' @
      utf8 [0x5BFC, 0x5165] @ ''\"},{\"action\":\"get\",\"defaultCheck\":false,\"describe\":\"'' @
      utf8 [0x67E5, 0x8BE2] @ ''\"},{\"action\":\"edit\",\"defaultCheck\":false,\"describe\":\"'' @
      utf8 [0x4FEE, 0x6539] @ ''\"}]''),
    lp_sptDaTypes = None,
    lp_optionalFields = Some ''[]'',
    lp_parents = None,
    lp_type = Some ''default'',
    lp_deleted = 0,
    lp_actions = [''add'', ''import'', ''get'', ''edit'']\<rparr>"

definition all_order :: listed_permission where
  "all_order = \<lparr>
    lp_id = ''order'',
    lp_name = (utf8 [0x8BA2, 0x5355, 0x7BA1, 0x7406]),
    lp_describe = None,
    lp_status = 1,
    lp_actionData = (''[{\"action\":\"query\",\"defaultCheck\":false,\"describe\":\"'' @
      utf8 [0x67E5, 0x8BE2] @ ''\"},{\"action\":\"get\",\"defaultCheck\":false,\"describe\":\"'' @
      utf8 [0x8BE6, 0x60C5] @ ''\"},{\"action\":\"add\",\"defaultCheck\":false,\"describe\":\"'' @
      utf8 [0x65B0, 0x589E] @ ''\"},{\"action\":\"edit\",\"defaultCheck\":false,\"describe\":\"'' @
      utf8 [0x4FEE, 0x6539] @ ''\"},{\"action\":\"delete\",\"defaultCheck\":false,\"describe\":\"'' @
      utf8 [0x5220, 0x9664] @ ''\"}]''),
    lp_sptDaTypes = None,
    lp_optionalFields = Some ''[]'',
    lp_parents = None,
    lp_type = Some ''default'',
    lp_deleted = 0,
    lp_actions = [''add'', ''query'', ''get'', ''edit'', ''delete'']\<rparr>"

definition all_permission :: listed_permission where
  "all_permission = \<lparr>
    lp_id = ''permission'',
    lp_name = (utf8 [0x6743, 0x9650, 0x7BA1, 0x7406]),
    lp_describe = None,
    lp_status = 1,
    lp_actionData = (''[{\"action\":\"add\",\"defaultCheck\":false,\"describe\":\"'' @
      utf8 [0x65B0, 0x589E] @ ''\"},{\"action\":\"get\",\"defaultCheck\":false,\"describe\":\"'' @
      utf8 [0x67E5, 0x8BE2] @ ''\"},{\"action\":\"edit\",\"defaultCheck\":false,\"describe\":\"'' @
      utf8 [0x4FEE, 0x6539] @ ''\"},{\"action\":\"delete\",\"defaultCheck\":false,\"describe\":\"'' @
      utf8 [0x5220, 0x9664] @ ''\"}]''),
    lp_sptDaTypes = None,
    lp_optionalFields = Some ''[]'',
    lp_parents = None,
    lp_type = Some ''default'',
    lp_deleted = 0,
    lp_actions = [''add'', ''get'', ''edit'', ''delete'']\<rparr>"

definition all_role :: listed_permission where
  "all_role = \<lparr>
    lp_id = ''role'',
    lp_name = (utf8 [0x89D2, 0x8272, 0x7BA1, 0x7406]),
    lp_describe = None,
    lp_status = 1,
    lp_actionData = (''[{\"action\":\"add\",\"defaultCheck\":false,\"describe\":\"'' @
      utf8 [0x65B0, 0x589E] @ ''\"},{\"action\":\"get\",\"defaultCheck\":false,\"describe\":\"'' @
      utf8 [0x67E5, 0x8BE2] @ ''\"},{\"action\":\"edit\",\"defaultCheck\":false,\"describe\":\"'' @
      utf8 [0x4FEE, 0x6539] @ ''\"},{\"action\":\"delete\",\"defaultCheck\":false,\"describe\":\"'' @
      utf8 [0x5220, 0x9664] @ ''\"}]''),
    lp_sptDaTypes = None,
    lp_optionalFields = Some ''[]'',
    lp_parents = None,
    lp_type = Some ''default'',
    lp_deleted = 0,
    lp_actions = [''add'', ''get'', ''edit'', ''delete'']\<rparr>"

definition all_test :: listed_permission where
  "all_test = \<lparr>
    lp_id = ''test'',
    lp_name = (utf8 [0x6D4B, 0x8BD5, 0x6743, 0x9650]),
    lp_describe = None,
    lp_status = 1,
    lp_actionData = (''[{\"action\":\"add\",\"defaultCheck\":false,\"describe\":\"'' @
      utf8 [0x65B0, 0x589E] @ ''\"},{\"action\":\"get\",\"defaultCheck\":false,\"describe\":\"'' @
      utf8 [0x8BE6, 0x60C5] @ ''\"}]''),
    lp_sptDaTypes = None,
    lp_optionalFields = Some ''[]'',
    lp_parents = None,
    lp_type = Some ''default'',
    lp_deleted = 0,
    lp_actions = [''add'', ''get'']\<rparr>"

definition all_user :: listed_permission where
  "all_user = \<lparr>
    lp_id = ''user'',
    lp_name = (utf8 [0x7528, 0x6237, 0x7BA1, 0x7406]),
    lp_describe = None,
    lp_status = 1,
    lp_actionData = (''[{\"action\":\"query\",\"defaultCheck\":false,\"describe\":\"'' @
      utf8 [0x67E5, 0x8BE2] @ ''\"},{\"action\":\"get\",\"defaultCheck\":false,\"describe\":\"'' @
      utf8 [0x8BE6, 0x60C5] @ ''\"},{\"action\":\"add\",\"defaultCheck\":false,\"describe\":\"'' @
      utf8 [0x65B0, 0x589E] @ ''\"},{\"action\":\"edit\",\"defaultCheck\":false,\"describe\":\"'' @
      utf8 [0x4FEE, 0x6539] @ ''\"},{\"action\":\"delete\",\"defaultCheck\":false,\"describe\":\"'' @
      utf8 [0x5220, 0x9664] @ ''\"},{\"action\":\"import\",\"defaultCheck\":false,\"describe\":\"'' @
      utf8 [0x5BFC, 0x5165] @ ''\"},{\"action\":\"export\",\"defaultCheck\":false,\"describe\":\"'' @
      utf8 [0x5BFC, 0x51FA] @ ''\"}]''),
    lp_sptDaTypes = None,
    lp_optionalFields = Some ''[]'',
    lp_parents = None,
    lp_type = Some ''default'',
    lp_deleted = 0,
    lp_actions = [''add'', ''get'']\<rparr>"

definition permissionNoPager :: "listed_permission list" where
  "permissionNoPager =
    [all_marketing, all_member, all_menu, all_order, all_permission, all_role, all_test,
     all_user]"

definition paged_marketing :: listed_permission where
  "paged_marketing = \<lparr>
    lp_id = ''marketing'',
    lp_name = (utf8 [0x8425, 0x9500, 0x7BA1, 0x7406]),
    lp_describe = None,
    lp_status = 1,
    lp_actionData = (''[{\"action\":\"query\",\"defaultCheck\":false,\"describe\":\"'' @
      utf8 [0x67E5, 0x8BE2] @ ''\"},{\"action\":\"get\",\"defaultCheck\":false,\"describe\":\"'' @
      utf8 [0x8BE6, 0x60C5] @ ''\"},{\"action\":\"add\",\"defaultCheck\":false,\"describe\":\"'' @
      utf8 [0x65B0, 0x589E] @ ''\"},{\"action\":\"edit\",\"defaultCheck\":false,\"describe\":\"'' @
      utf8 [0x4FEE, 0x6539] @ ''\"},{\"action\":\"delete\",\"defaultCheck\":false,\"describe\":\"'' @
      utf8 [0x5220, 0x9664] @ ''\"}]''),
    lp_sptDaTypes = None,
    lp_optionalFields = None,
    lp_parents = None,
    lp_type = None,
    lp_deleted = 0,
    lp_actions = [''add'', ''query'', ''get'', ''edit'', ''delete'']\<rparr>"

definition paged_member :: listed_permission where
  "paged_member = \<lparr>
    lp_id = ''member'',
    lp_name = (utf8 [0x4F1A, 0x5458, 0x7BA1, 0x7406]),
    lp_describe = None,
    lp_status = 1,
    lp_actionData = (''[{\"action\":\"query\",\"defaultCheck\":false,\"describe\":\"'' @
      utf8 [0x67E5, 0x8BE2] @ ''\"},{\"action\":\"get\",\"defaultCheck\":false,\"describe\":\"'' @
      utf8 [0x8BE6, 0x60C5] @ ''\"},{\"action\":\"add\",\"defaultCheck\":false,\"describe\":\"'' @
      utf8 [0x65B0, 0x589E] @ ''\"},{\"action\":\"edit\",\"defaultCheck\":false,\"describe\":\"'' @
      utf8 [0x4FEE, 0x6539] @ ''\"},{\"action\":\"delete\",\"defaultCheck\":false,\"describe\":\"'' @
      utf8 [0x5220, 0x9664] @ ''\"}]''),
    lp_sptDaTypes = None,
    lp_optionalFields = Some ''[]'',
    lp_parents = None,
    lp_type = Some ''default'',
    lp_deleted = 0,
    lp_actions = [''add'', ''query'', ''get'', ''edit'', ''delete'']\<rparr>"

definition paged_menu :: listed_permission where
  "paged_menu = \<lparr>
    lp_id = ''menu'',
    lp_name = (utf8 [0x83DC, 0x5355, 0x7BA1, 0x7406]),
    lp_describe = None,
    lp_status = 1,
    lp_actionData = (''[{\"action\":\"add\",\"defaultCheck\":false,\"describe\":\"'' @
      utf8 [0x65B0, 0x589E] @ ''\"},{\"action\":\"import\",\"defaultCheck\":false,\"describe\":\"'' @
      utf8 [0x5BFC, 0x5165] @ ''\"},{\"action\":\"get\",\"defaultCheck\":false,\"describe\":\"'' @
      utf8 [0x67E5, 0x8BE2] @ ''\"},{\"action\":\"edit\",\"defaultCheck\":false,\"describe\":\"'' @
      utf8 [0x4FEE, 0x6539] @ ''\"}]''),
    lp_sptDaTypes = None,
    lp_optionalFields = Some ''[]'',
    lp_parents = None,
    lp_type = Some ''default'',
    lp_deleted = 0,
    lp_actions = [''add'', ''import'', ''get'', ''edit'']\<rparr>"

definition paged_order :: listed_permission where
  "paged_order = \<lparr>
    lp_id = ''order'',
    lp_name = (utf8 [0x8BA2, 0x5355, 0x7BA1, 0x7406]),
    lp_describe = None,
    lp_status = 1,
    lp_actionData = (''[{\"action\":\"query\",\"defaultCheck\":false,\"describe\":\"'' @
      utf8 [0x67E5, 0x8BE2] @ ''\"},{\"action\":\"get\",\"defaultCheck\":false,\"describe\":\"'' @
      utf8 [0x8BE6, 0x60C5] @ ''\"},{\"action\":\"add\",\"defaultCheck\":false,\"describe\":\"'' @
      utf8 [0x65B0, 0x589E] @ ''\"},{\"action\":\"edit\",\"defaultCheck\":false,\"describe\":\"'' @
      utf8 [0x4FEE, 0x6539] @ ''\"},{\"action\":\"delete\",\"defaultCheck\":false,\"describe\":\"'' @
      utf8 [0x5220, 0x9664] @ ''\"}]''),
    lp_sptDaTypes = None,
    lp_optionalFields = Some ''[]'',
    lp_parents = None,
    lp_type = Some ''default'',
    lp_deleted = 0,
    lp_actions = [''add'', ''query'', ''get'', ''edit'', ''delete'']\<rparr>"

definition paged_permission :: listed_permission where
  "paged_permission = \<lparr>
    lp_id = ''permission'',
    lp_name = (utf8 [0x6743, 0x9650, 0x7BA1, 0x7406]),
    lp_describe = None,
    lp_status = 1,
    lp_actionData = (''[{\"action\":\"add\",\"defaultCheck\":false,\"describe\":\"'' @
      utf8 [0x65B0, 0x589E] @ ''\"},{\"action\":\"get\",\"defaultCheck\":false,\"describe\":\"'' @
      utf8 [0x67E5, 0x8BE2] @ ''\"},{\"action\":\"edit\",\"defaultCheck\":false,\"describe\":\"'' @
      utf8 [0x4FEE, 0x6539] @ ''\"},{\"action\":\"delete\",\"defaultCheck\":false,\"describe\":\"'' @
      utf8 [0x5220, 0x9664] @ ''\"}]''),
    lp_sptDaTypes = None,
    lp_optionalFields = Some ''[]'',
    lp_parents = None,
    lp_type = Some ''default'',
    lp_deleted = 0,
    lp_actions = [''add'', ''get'', ''edit'', ''delete'']\<rparr>"

definition paged_role :: listed_permission where
  "paged_role = \<lparr>
    lp_id = ''role'',
    lp_name = (utf8 [0x89D2, 0x8272, 0x7BA1, 0x7406]),
    lp_describe = None,
    lp_status = 1,
    lp_actionData = (''[{\"action\":\"add\",\"defaultCheck\":false,\"describe\":\"'' @
      utf8 [0x65B0, 0x589E] @ ''\"},{\"action\":\"get\",\"defaultCheck\":false,\"describe\":\"'' @
      utf8 [0x67E5, 0x8BE2] @ ''\"},{\"action\":\"edit\",\"defaultCheck\":false,\"describe\":\"'' @
      utf8 [0x4FEE, 0x6539] @ ''\"},{\"action\":\"delete\",\"defaultCheck\":false,\"describe\":\"'' @
      utf8 [0x5220, 0x9664] @ ''\"}]''),
    lp_sptDaTypes = None,
    lp_optionalFields = Some ''[]'',
    lp_parents = None,
    lp_type = Some ''default'',
    lp_deleted = 0,
    lp_actions = [''add'', ''get'', ''edit'', ''delete'']\<rparr>"

definition paged_test :: listed_permission where
  "paged_test = \<lparr>
    lp_id = ''test'',
    lp_name = (utf8 [0x6D4B, 0x8BD5, 0x6743, 0x9650]),
    lp_describe = None,
    lp_status = 1,
    lp_actionData = (''[{\"action\":\"add\",\"defaultCheck\":false,\"describe\":\"'' @
      utf8 [0x65B0, 0x589E] @ ''\"},{\"action\":\"get\",\"defaultCheck\":false,\"describe\":\"'' @
      utf8 [0x8BE6, 0x60C5] @ ''\"}]''),
    lp_sptDaTypes = None,
    lp_optionalFields = Some ''[]'',
    lp_parents = None,
    lp_type = Some ''default'',
    lp_deleted = 0,
    lp_actions = [''add'', ''get'']\<rparr>"

definition paged_user :: listed_permission where
  "paged_user = \<lparr>
    lp_id = ''user'',
    lp_name = (utf8 [0x7528, 0x6237, 0x7BA1, 0x7406]),
    lp_describe = None,
    lp_status = 1,
    lp_actionData = (''[{\"action\":\"add\",\"describe\":\"'' @
      utf8 [0x65B0, 0x589E] @ ''\",\"defaultCheck\":false},{\"action\":\"get\",\"describe\":\"'' @
      utf8 [0x67E5, 0x8BE2] @ ''\",\"defaultCheck\":false}]''),
    lp_sptDaTypes = None,
    lp_optionalFields = Some ''[]'',
    lp_parents = None,
    lp_type = Some ''default'',
    lp_deleted = 0,
    lp_actions = [''add'', ''get'']\<rparr>"

definition permissions_answer :: "listed_permission listing" where
  "permissions_answer = \<lparr>
    li_data = [paged_marketing, paged_member, paged_menu, paged_order, paged_permission, paged_role, paged_test, paged_user],
    li_pageSize = 10, li_pageNo = 0, li_totalPage = 1, li_totalCount = 5\<rparr>"

lemmas role_grants =
  grant_admin_comment_def grant_admin_member_def grant_admin_menu_def grant_admin_order_def
  grant_admin_permission_def grant_admin_role_def grant_admin_test_def grant_admin_user_def
  grant_svip_comment_def grant_svip_member_def grant_svip_menu_def grant_svip_order_def
  grant_svip_permission_def grant_svip_role_def grant_svip_test_def grant_svip_user_def
  grant_user_comment_def grant_user_marketing_def grant_user_member_def grant_user_menu_def
  grant_user_order_def grant_user_permission_def grant_user_role_def grant_user_test_def
  grant_user_user_def

lemmas listed_roles =
  role_admin_def role_svip_def role_user_def

lemmas listed_permissions =
  all_marketing_def all_member_def all_menu_def all_order_def all_permission_def
  all_role_def all_test_def all_user_def paged_marketing_def paged_member_def paged_menu_def
  paged_order_def paged_permission_def paged_role_def paged_test_def paged_user_def

section \<open>Consistency\<close>

text \<open>The permissions of a role whose \<open>actions\<close> text is not the JSON text of their action entities, and
  those that belong to another role.\<close>

fun unserialized :: "permission list \<Rightarrow> string list" where
  "unserialized [] = []"
| "unserialized (p # ps) =
     (if map_option actions_json (p_actionEntitySet p) = Some (p_actions p) then unserialized ps
      else p_permissionId p # unserialized ps)"

fun foreign :: "string \<Rightarrow> permission list \<Rightarrow> string list" where
  "foreign r [] = []"
| "foreign r (p # ps) = (if p_roleId p = r then foreign r ps else p_permissionId p # foreign r ps)"

lemma serialized_admin: "unserialized (lr_permissions role_admin) = []"
  by (simp add: role_admin_def role_grants actions_json_def entity_json_def)

lemma serialized_user: "unserialized (lr_permissions role_user) = []"
  by (simp add: role_user_def role_grants actions_json_def entity_json_def)

lemma unserialized_svip:
  "unserialized (lr_permissions role_svip) = [''member'', ''menu'', ''order'', ''permission'', ''role'', ''user'']"
  by (simp add: role_svip_def role_grants actions_json_def entity_json_def)

text \<open>The mock roles are consistent but for the second one: each permission belongs to its role and
  carries its actions twice, as objects and as the JSON text of these, except that the permissions of
  \<open>svip\<close> all belong to \<open>admin\<close>, that six of their texts name more actions than their objects, and
  that the list announces five roles where there are three.\<close>

theorem mock_roles_defects:
  "map (\<lambda>r. (lr_id r, unserialized (lr_permissions r), length (foreign (lr_id r) (lr_permissions r))))
      (li_data roles_answer) =
     [(''admin'', [], 0),
      (''svip'', [''member'', ''menu'', ''order'', ''permission'', ''role'', ''user''], 8),
      (''user'', [], 0)] \<and>
   li_totalCount roles_answer = 5"
  by (simp add: roles_answer_def serialized_admin serialized_user unserialized_svip)
    (simp add: listed_roles role_grants)

end
