(* ===== verification/Numbers.thy ===== *)
theory Numbers
  imports Prelude
begin

text \<open>
  Numbers as the frontend handles them. A JavaScript number is an integer here, \<open>None\<close> standing for
  \<open>undefined\<close> and for \<open>NaN\<close>: every number the modelled code computes with is an integer
  below \<open>2^53\<close>, where JavaScript's numbers are exact.
\<close>

text \<open>\<open>a || b\<close> on numbers: zero, \<open>NaN\<close> and \<open>undefined\<close> are falsy.\<close>

definition num_truthy :: "int option \<Rightarrow> bool" where
  "num_truthy a = (case a of None \<Rightarrow> False | Some n \<Rightarrow> n \<noteq> 0)"

definition num_or :: "int option \<Rightarrow> int option \<Rightarrow> int option" where
  "num_or a b = (if num_truthy a then a else b)"

lemma num_truthy_simps [simp]: "\<not> num_truthy None" "num_truthy (Some n) \<longleftrightarrow> n \<noteq> 0"
  by (simp_all add: num_truthy_def)

lemma num_or_simps [simp]: "num_or None b = b" "num_or (Some n) b = (if n \<noteq> 0 then Some n else b)"
  by (simp_all add: num_or_def)

text \<open>A comparison is false as soon as one side is \<open>NaN\<close>.\<close>

definition num_le :: "int option \<Rightarrow> int option \<Rightarrow> bool" where
  "num_le a b = (case (a, b) of (Some m, Some n) \<Rightarrow> m \<le> n | _ \<Rightarrow> False)"

definition num_less :: "int option \<Rightarrow> int option \<Rightarrow> bool" where
  "num_less a b = (case (a, b) of (Some m, Some n) \<Rightarrow> m < n | _ \<Rightarrow> False)"

definition num_op :: "(int \<Rightarrow> int \<Rightarrow> int) \<Rightarrow> int option \<Rightarrow> int option \<Rightarrow> int option" where
  "num_op f a b = (case (a, b) of (Some m, Some n) \<Rightarrow> Some (f m n) | _ \<Rightarrow> None)"

lemma num_rel_simps [simp]:
  "num_le (Some m) (Some n) \<longleftrightarrow> m \<le> n" "\<not> num_le None b" "\<not> num_le a None"
  "num_less (Some m) (Some n) \<longleftrightarrow> m < n" "\<not> num_less None b" "\<not> num_less a None"
  "num_op f (Some m) (Some n) = Some (f m n)" "num_op f None b = None" "num_op f a None = None"
  by (simp_all add: num_le_def num_less_def num_op_def split: option.splits)

text \<open>\<open>Math.ceil(a / b)\<close> for integers; a division by zero gives no integer.\<close>

definition ceil_div :: "int \<Rightarrow> int \<Rightarrow> int option" where
  "ceil_div a b = (if b = 0 then None else Some (- ((- a) div b)))"

lemma ceil_div_covers:
  assumes "0 < b"
  shows "\<exists>q. ceil_div a b = Some q \<and> (q - 1) * b < a \<and> a \<le> q * b"
proof -
  let ?q = "(- a) div b"
  have "b * ?q + (- a) mod b = - a" "0 \<le> (- a) mod b" "(- a) mod b < b"
    using assms by simp_all
  then have "- (b * ?q) < a + b" "a \<le> - (b * ?q)" by linarith+
  then show ?thesis
    using assms by (simp add: ceil_div_def algebra_simps)
qed

section \<open>\<open>parseInt\<close>\<close>

definition is_space :: "char \<Rightarrow> bool" where
  "is_space c \<longleftrightarrow> of_char c \<in> {9, 10, 11, 12, 13, 32 :: nat}"

definition digit_value :: "char \<Rightarrow> nat option" where
  "digit_value c =
     (let n = of_char c :: nat in
      if 48 \<le> n \<and> n \<le> 57 then Some (n - 48)
      else if 97 \<le> n \<and> n \<le> 102 then Some (n - 87)
      else if 65 \<le> n \<and> n \<le> 70 then Some (n - 55)
      else None)"

text \<open>The value of the longest prefix of digits below the radix; \<open>None\<close> when there is no digit.\<close>

fun digits_value :: "nat \<Rightarrow> int option \<Rightarrow> string \<Rightarrow> int option" where
  "digits_value r acc [] = acc"
| "digits_value r acc (c # cs) =
     (case digit_value c of
        None \<Rightarrow> acc
      | Some d \<Rightarrow>
          (if d < r
           then digits_value r (Some ((case acc of None \<Rightarrow> 0 | Some a \<Rightarrow> a) * int r + int d)) cs
           else acc))"

definition parse_unsigned :: "string \<Rightarrow> int option" where
  "parse_unsigned s =
     (case s of
        CHR ''0'' # x # cs \<Rightarrow>
          (if x \<in> {CHR ''x'', CHR ''X''} then digits_value 16 None cs else digits_value 10 None s)
      | _ \<Rightarrow> digits_value 10 None s)"

definition parseInt :: "string \<Rightarrow> int option" where
  "parseInt s =
     (case dropWhile is_space s of
        [] \<Rightarrow> None
      | c # cs \<Rightarrow>
          (if c = CHR ''-'' then map_option uminus (parse_unsigned cs)
           else if c = CHR ''+'' then parse_unsigned cs
           else parse_unsigned (c # cs)))"

text \<open>The decimal text of a natural number, as \<open>String(n)\<close> writes it.\<close>

fun decimal :: "nat \<Rightarrow> string" where
  "decimal n = (if n < 10 then [char_of (48 + n)] else decimal (n div 10) @ [char_of (48 + n mod 10)])"

declare decimal.simps [simp del]

lemma digit_value_decimal: "d < 10 \<Longrightarrow> digit_value (char_of (48 + d :: nat)) = Some d"
  by (simp add: digit_value_def of_char_of)

lemma digits_value_append:
  "list_all (\<lambda>c. \<exists>d. digit_value c = Some d \<and> d < r) s \<Longrightarrow>
     digits_value r acc (s @ t) = digits_value r (digits_value r acc s) t"
  by (induction s arbitrary: acc) auto

lemma decimal_digits: "list_all (\<lambda>c. \<exists>d. digit_value c = Some d \<and> d < 10) (decimal n)"
proof (induction n rule: decimal.induct)
  case (1 n)
  then show ?case
    by (subst decimal.simps) (auto simp: digit_value_decimal)
qed

lemma digits_value_decimal: "digits_value 10 None (decimal n) = Some (int n)"
proof (induction n rule: decimal.induct)
  case (1 n)
  show ?case
  proof (cases "n < 10")
    case True
    then show ?thesis by (subst decimal.simps) (simp add: digit_value_decimal)
  next
    case False
    with 1 show ?thesis
      by (subst decimal.simps)
        (simp add: digits_value_append decimal_digits digit_value_decimal zmod_int zdiv_int)
  qed
qed

lemma decimal_not_Nil [simp]: "decimal n \<noteq> []"
  by (subst decimal.simps) simp

lemma digit_not_special: "digit_value c = Some d \<Longrightarrow> d < 10 \<Longrightarrow>
    c \<noteq> CHR ''x'' \<and> c \<noteq> CHR ''X'' \<and> c \<noteq> CHR ''-'' \<and> c \<noteq> CHR ''+'' \<and> \<not> is_space c"
  by (auto simp: digit_value_def is_space_def Let_def split: if_splits)

lemma parse_unsigned_digits:
  "list_all (\<lambda>c. \<exists>d. digit_value c = Some d \<and> d < 10) s \<Longrightarrow> parse_unsigned s = digits_value 10 None s"
  by (auto simp: parse_unsigned_def dest: digit_not_special split: list.splits char.splits bool.splits)

text \<open>Parsing what \<open>String(n)\<close> printed gives the number back.\<close>

lemma parseInt_decimal: "parseInt (decimal n) = Some (int n)"
proof -
  obtain c cs where n: "decimal n = c # cs" by (cases "decimal n") simp_all
  with decimal_digits [of n] obtain d where "digit_value c = Some d" "d < 10" by auto
  then have "\<not> is_space c" "c \<noteq> CHR ''-''" "c \<noteq> CHR ''+''"
    using digit_not_special by blast+
  with n have "parseInt (decimal n) = parse_unsigned (decimal n)"
    by (simp add: parseInt_def)
  then show ?thesis
    by (simp add: parse_unsigned_digits [OF decimal_digits] digits_value_decimal)
qed

end
