(* ===== verification/MockServer.thy ===== *)
theory MockServer
  imports Browser Numbers
begin

text \<open>
  The mock backend: \<open>mock/util.js\<close>, \<open>mock/services/auth.js\<close> and the service list of
  \<open>mock/services/manage.js\<close>. One response object is shared by all handlers, so it is the state here.
  What \<open>Mock.mock\<close> draws at random is an argument. \<open>JSON.parse\<close> is modelled for objects
  whose members are all strings, which is what the texts built here are unless the query contains a
  backslash.
\<close>

section \<open>The shared response\<close>

record 'd response_body =
  rb_message :: string
  rb_timestamp :: int
  rb_result :: "'d option"
  rb_code :: int
  rb_status :: "int option"
  rb_headers :: "(string \<times> string) list option"

definition responseBody :: "'d response_body" where
  "responseBody = \<lparr>rb_message = [], rb_timestamp = 0, rb_result = None, rb_code = 0,
     rb_status = None, rb_headers = None\<rparr>"

definition builder ::
    "int \<Rightarrow> 'd response_body \<Rightarrow> 'd \<Rightarrow> string option \<Rightarrow> int \<Rightarrow> (string \<times> string) list \<Rightarrow> 'd response_body" where
  "builder now b data message code headers =
     (let b = b\<lparr>rb_result := Some data\<rparr>;
          b = (case message of None \<Rightarrow> b | Some msg \<Rightarrow> b\<lparr>rb_message := msg\<rparr>);
          b = (if code \<noteq> 0 then b\<lparr>rb_code := code, rb_status := Some code\<rparr> else b);
          b = (if headers \<noteq> [] then b\<lparr>rb_headers := Some headers\<rparr> else b)
      in b\<lparr>rb_timestamp := now\<rparr>)"

section \<open>Query parameters\<close>

definition replace_all :: "char \<Rightarrow> string \<Rightarrow> string \<Rightarrow> string" where
  "replace_all c rep s = concat (map (\<lambda>d. if d = c then rep else [d]) s)"

text \<open>The rest of a JSON string after its opening quote, and what follows the closing one.\<close>

definition simple_escape :: "char \<Rightarrow> char option" where
  "simple_escape c =
     (if c \<in> {CHR 0x22, CHR 0x5C, CHR ''/''} then Some c
      else if c = CHR ''b'' then Some (CHR 0x08)
      else if c = CHR ''f'' then Some (CHR 0x0C)
      else if c = CHR ''n'' then Some (CHR 0x0A)
      else if c = CHR ''r'' then Some (CHR 0x0D)
      else if c = CHR ''t'' then Some (CHR 0x09)
      else None)"

definition unicode_escape :: "string \<Rightarrow> nat option" where
  "unicode_escape cs =
     (case map hex_digit cs of
        [Some a, Some b, Some c, Some d] \<Rightarrow> Some (4096 * a + 256 * b + 16 * c + d)
      | _ \<Rightarrow> None)"

fun json_string :: "string \<Rightarrow> (string \<times> string) option" where
  "json_string [] = None"
| "json_string [c] = (if c = CHR 0x22 then Some ([], []) else None)"
| "json_string (c # d # cs) =
     (if c = CHR 0x22 then Some ([], d # cs)
      else if c = CHR 0x5C then
        (if d = CHR ''u'' then
           (case unicode_escape (take 4 cs) of
              None \<Rightarrow> None
            | Some n \<Rightarrow> map_option (\<lambda>(s, r). (utf8 [n] @ s, r)) (json_string (drop 4 cs)))
         else
           (case simple_escape d of
              None \<Rightarrow> None
            | Some e \<Rightarrow> map_option (\<lambda>(s, r). (e # s, r)) (json_string cs)))
      else if (of_char c :: nat) < 32 then None
      else map_option (\<lambda>(s, r). (c # s, r)) (json_string (d # cs)))"

lemma json_string_shorter: "json_string s = Some (t, r) \<Longrightarrow> length r < length s"
proof (induction s arbitrary: t r rule: json_string.induct)
  case (3 c d cs)
  then show ?case
    by (fastforce split: if_splits option.splits)
qed (auto split: if_splits)

text \<open>The members of an object, after the opening brace.\<close>

function json_members :: "string \<Rightarrow> (string \<times> string) list option" where
  "json_members s =
     (case s of
        [] \<Rightarrow> None
      | c # cs \<Rightarrow>
          (if c \<noteq> CHR 0x22 then None
           else (case json_string cs of
                   None \<Rightarrow> None
                 | Some (k, r) \<Rightarrow>
                     (if take 2 r \<noteq> [CHR '':'', CHR 0x22] then None
                      else (case json_string (drop 2 r) of
                              None \<Rightarrow> None
                            | Some (v, r') \<Rightarrow>
                                (if r' = ''}'' then Some [(k, v)]
                                 else if take 1 r' = '','' then map_option ((#) (k, v)) (json_members (drop 1 r'))
                                 else None))))))"
  by pat_completeness auto
termination
  by (relation "measure length") (auto dest!: json_string_shorter)

declare json_members.simps [simp del]

definition syntax_error :: js_error where
  "syntax_error = CodeError ''SyntaxError''"

text \<open>The part of the address between the first and the second question mark; later members win.\<close>

definition getQueryParameters :: "string \<Rightarrow> js_error + (string \<Rightarrow> string option)" where
  "getQueryParameters url =
     (case split_on (CHR ''?'') url of
        _ # search # _ \<Rightarrow>
          (if search = [] then Inr (\<lambda>k. None)
           else (case decodeURIComponent search of
                   None \<Rightarrow> Inl URIError
                 | Some s \<Rightarrow>
                     (case json_members (CHR 0x22 #
                         replace_all (CHR ''='') [CHR 0x22, CHR '':'', CHR 0x22]
                           (replace_all (CHR ''&'') [CHR 0x22, CHR '','', CHR 0x22]
                             (replace_all (CHR 0x22) [CHR 0x5C, CHR 0x22] s)) @ [CHR 0x22, CHR ''}'']) of
                        None \<Rightarrow> Inl syntax_error
                      | Some kvs \<Rightarrow> Inr (map_of (rev kvs)))))
      | _ \<Rightarrow> Inr (\<lambda>k. None))"

section \<open>The service list\<close>

definition totalCount :: int where
  "totalCount = 5701"

text \<open>\<open>a % b\<close> takes the sign of \<open>a\<close>.\<close>

definition js_rem :: "int \<Rightarrow> int \<Rightarrow> int option" where
  "js_rem a b = (if b = 0 then None else Some (sgn a * (\<bar>a\<bar> mod \<bar>b\<bar>)))"

definition num_text :: "int option \<Rightarrow> string" where
  "num_text n =
     (case n of None \<Rightarrow> ''NaN''
      | Some k \<Rightarrow> (if k < 0 then CHR ''-'' # decimal (nat (- k)) else decimal (nat k)))"

record service_row =
  sv_key :: "int option"
  sv_id :: "int option"
  sv_no :: string
  sv_description :: string
  sv_callNo :: int
  sv_status :: int
  sv_updatedAt :: string
  sv_editable :: bool

record service_page =
  sp_pageSize :: "int option"
  sp_pageNo :: "int option"
  sp_totalCount :: int
  sp_totalPage :: "int option"
  sp_data :: "service_row list"

text \<open>What is drawn for the \<open>i\<close>-th row: call count, status and time.\<close>

type_synonym service_draw = "nat \<Rightarrow> int \<times> int \<times> string"

definition service_row_of :: "service_draw \<Rightarrow> int option \<Rightarrow> nat \<Rightarrow> service_row" where
  "service_row_of draw key i =
     (let tmpKey = num_op (+) key (Some (int i)); (callNo, status, updatedAt) = draw i in
      \<lparr>sv_key = tmpKey, sv_id = tmpKey, sv_no = ''No '' @ num_text tmpKey,
       sv_description = utf8 [0x8FD9, 0x662F, 0x4E00, 0x6BB5, 0x63CF, 0x8FF0],
       sv_callNo = callNo, sv_status = status, sv_updatedAt = updatedAt, sv_editable = False\<rparr>)"

text \<open>\<open>Math.ceil(totalCount / 0)\<close> is infinite: no page number reaches it, as no number reaches \<open>NaN\<close>.
  A loop up to \<open>NaN\<close> makes no step.\<close>

definition serverList :: "service_draw \<Rightarrow> (string \<Rightarrow> string option) \<Rightarrow> service_page" where
  "serverList draw parameters =
     (let pageNo = Option.bind (parameters ''pageNo'') parseInt;
          pageSize = Option.bind (parameters ''pageSize'') parseInt;
          totalPage = Option.bind pageSize (ceil_div totalCount);
          key = num_op (*) (num_op (-) pageNo (Some 1)) pageSize;
          rest = (if num_le totalPage pageNo then Option.bind pageSize (js_rem totalCount) else pageSize);
          count = (case rest of None \<Rightarrow> 0 | Some n \<Rightarrow> nat n)
      in \<lparr>sp_pageSize = pageSize, sp_pageNo = pageNo, sp_totalCount = totalCount, sp_totalPage = totalPage,
          sp_data = map (service_row_of draw key) [1..<Suc count]\<rparr>)"

section \<open>Accounts\<close>

definition usernames :: "string list" where
  "usernames = [''admin'', ''super'']"

definition passwords :: "string list" where
  "passwords = [''8914de686ab28dc22f30d3d8e107ff6c'', ''21232f297a57a5a743894a0e4a801fc3'']"

record login_body =
  lb_username :: "string option"
  lb_password :: "string option"

record login_user =
  lu_id :: string
  lu_name :: string
  lu_username :: string
  lu_password :: string
  lu_avatar :: string
  lu_status :: int
  lu_telephone :: string
  lu_lastLoginIp :: string
  lu_lastLoginTime :: int
  lu_creatorId :: string
  lu_createTime :: int
  lu_deleted :: int
  lu_roleId :: string
  lu_lang :: string
  lu_token :: string

text \<open>The results of the handlers. \<open>FixedData\<close> stands for those that always answer the same.\<close>

datatype 'd mock_result =
    LoginAgain
  | LoggedIn login_user
  | EmptyObject
  | Captcha int
  | StepCode int
  | ServicePage service_page
  | FixedData 'd

definition credentials_ok :: "login_body \<Rightarrow> bool" where
  "credentials_ok body \<longleftrightarrow>
     lb_username body \<in> Some ` set usernames \<and> lb_password body \<in> Some ` set passwords"

definition login_message :: string where
  "login_message = utf8 [0x8D26, 0x6237, 0x6216, 0x5BC6, 0x7801, 0x9519, 0x8BEF]"

definition logout_message :: string where
  "logout_message = utf8 [0x5B, 0x6D4B, 0x8BD5, 0x63A5, 0x53E3, 0x5D, 0x20, 0x6CE8, 0x9500, 0x6210, 0x529F]"

definition login ::
    "int \<Rightarrow> string \<times> string \<times> string \<Rightarrow> login_body \<Rightarrow> 'd mock_result response_body \<Rightarrow>
     'd mock_result response_body" where
  "login now draw body b =
     (let (gid, name, header) = draw in
      if \<not> credentials_ok body then builder now b LoginAgain (Some login_message) 401 []
      else builder now b
        (LoggedIn \<lparr>lu_id = gid, lu_name = name, lu_username = ''admin'', lu_password = [],
           lu_avatar = ''https://gw.alipayobjects.com/zos/rmsportal/jZUIxmJycoymBprLOUbT.png'',
           lu_status = 1, lu_telephone = [], lu_lastLoginIp = ''27.154.74.117'',
           lu_lastLoginTime = 1534837621348, lu_creatorId = ''admin'', lu_createTime = 1497160610259,
           lu_deleted = 0, lu_roleId = ''admin'', lu_lang = ''zh-CN'',
           lu_token = ''4291d7da9005377ec9aec4a71ea837f''\<rparr>)
        (Some []) 200 [(''Custom-Header'', header)])"

definition logout :: "int \<Rightarrow> 'd mock_result response_body \<Rightarrow> 'd mock_result response_body" where
  "logout now b = builder now b EmptyObject (Some logout_message) 0 []"

definition smsCaptcha :: "int \<Rightarrow> int \<Rightarrow> 'd mock_result response_body \<Rightarrow> 'd mock_result response_body" where
  "smsCaptcha now n b = builder now b (Captcha n) None 0 []"

definition twofactor :: "int \<Rightarrow> int \<Rightarrow> 'd mock_result response_body \<Rightarrow> 'd mock_result response_body" where
  "twofactor now n b = builder now b (StepCode n) None 0 []"

text \<open>A request to the mock server. The list handler may throw on its address; nothing is built then.\<close>

datatype 'd mock_request =
    LoginReq "string \<times> string \<times> string" login_body
  | LogoutReq
  | SmsReq int
  | TwoFactorReq int
  | ServiceReq service_draw string
  | FixedReq 'd

fun serve :: "'d mock_result response_body \<Rightarrow> int \<times> 'd mock_request \<Rightarrow> 'd mock_result response_body" where
  "serve b (now, LoginReq draw body) = login now draw body b"
| "serve b (now, LogoutReq) = logout now b"
| "serve b (now, SmsReq n) = smsCaptcha now n b"
| "serve b (now, TwoFactorReq n) = twofactor now n b"
| "serve b (now, ServiceReq draw url) =
     (case getQueryParameters url of
        Inl e \<Rightarrow> b
      | Inr parameters \<Rightarrow> builder now b (ServicePage (serverList draw parameters)) None 0 [])"
| "serve b (now, FixedReq d) = builder now b (FixedData d) None 0 []"

definition serve_all :: "(int \<times> 'd mock_request) list \<Rightarrow> 'd mock_result response_body" where
  "serve_all rqs = foldl serve responseBody rqs"

section \<open>The status of a response\<close>

fun last_login :: "bool option \<Rightarrow> (int \<times> 'd mock_request) list \<Rightarrow> bool option" where
  "last_login r [] = r"
| "last_login r ((_, LoginReq _ body) # rqs) = last_login (Some (credentials_ok body)) rqs"
| "last_login r (_ # rqs) = last_login r rqs"

definition login_status :: "bool option \<Rightarrow> int option" where
  "login_status r = map_option (\<lambda>ok. if ok then 200 else 401) r"

lemma serve_status:
  "rb_status b = login_status r \<and> rb_code b = (case login_status r of None \<Rightarrow> 0 | Some c \<Rightarrow> c) \<Longrightarrow>
     rb_status (foldl serve b rqs) = login_status (last_login r rqs) \<and>
     rb_code (foldl serve b rqs) = (case login_status (last_login r rqs) of None \<Rightarrow> 0 | Some c \<Rightarrow> c)"
proof (induction r rqs arbitrary: b rule: last_login.induct)
  case (2 r u draw body rqs)
  show ?case
    by (simp, rule "2.IH") (simp add: login_def builder_def login_status_def Let_def split: prod.splits)
qed (auto simp: login_status_def logout_def smsCaptcha_def twofactor_def builder_def Let_def
    split: sum.splits)

text \<open>The mock server answers every request with the status of the most recent login: after a failed
  login all later answers carry code and status 401, whatever the request, until a login succeeds.
  Only before the first login is there no status at all.\<close>

theorem mock_status_is_last_login:
  "rb_status (serve_all rqs) = login_status (last_login None rqs) \<and>
   rb_code (serve_all rqs) = (case login_status (last_login None rqs) of None \<Rightarrow> 0 | Some c \<Rightarrow> c)"
  unfolding serve_all_def
  by (rule serve_status) (simp add: responseBody_def login_status_def)

section \<open>Reading back a query\<close>

text \<open>A text that neither the address nor the JSON around it gives a meaning to.\<close>

definition plain_char :: "char \<Rightarrow> bool" where
  "plain_char c \<longleftrightarrow> 32 \<le> (of_char c :: nat) \<and>
     c \<notin> {CHR ''%'', CHR ''&'', CHR ''='', CHR ''?'', CHR 0x22, CHR 0x5C}"

abbreviation plain :: "string \<Rightarrow> bool" where
  "plain s \<equiv> list_all plain_char s"

abbreviation QUOTE :: char where "QUOTE \<equiv> CHR 0x22"

fun query_text :: "(string \<times> string) list \<Rightarrow> string" where
  "query_text [] = []"
| "query_text [(k, v)] = k @ ''='' @ v"
| "query_text ((k, v) # kvs) = k @ ''='' @ v @ ''&'' @ query_text kvs"

fun json_text :: "(string \<times> string) list \<Rightarrow> string" where
  "json_text [] = []"
| "json_text [(k, v)] = k @ [QUOTE, CHR '':'', QUOTE] @ v"
| "json_text ((k, v) # kvs) =
     k @ [QUOTE, CHR '':'', QUOTE] @ v @ [QUOTE, CHR '','', QUOTE] @ json_text kvs"

definition plain_pairs :: "(string \<times> string) list \<Rightarrow> bool" where
  "plain_pairs kvs \<longleftrightarrow> list_all (\<lambda>(k, v). plain k \<and> plain v) kvs"

lemma plain_pairs_simps [simp]:
  "plain_pairs []" "plain_pairs ((k, v) # kvs) \<longleftrightarrow> plain k \<and> plain v \<and> plain_pairs kvs"
  by (simp_all add: plain_pairs_def)

lemma replace_all_simps [simp]:
  "replace_all c rep [] = []"
  "replace_all c rep (d # s) = (if d = c then rep else [d]) @ replace_all c rep s"
  "replace_all c rep (s @ t) = replace_all c rep s @ replace_all c rep t"
  by (simp_all add: replace_all_def)

lemma replace_all_plain:
  "plain s \<Longrightarrow> \<not> plain_char c \<Longrightarrow> replace_all c rep s = s"
  by (induction s) auto

lemma not_plain [simp]:
  "\<not> plain_char (CHR ''%'')" "\<not> plain_char (CHR ''&'')" "\<not> plain_char (CHR ''='')"
  "\<not> plain_char (CHR ''?'')" "\<not> plain_char (CHR 0x22)" "\<not> plain_char (CHR 0x5C)"
  by (simp_all add: plain_char_def)

lemma plain_notin: "plain s \<Longrightarrow> \<not> plain_char c \<Longrightarrow> c \<notin> set s"
  by (auto simp: list_all_iff)

lemma query_to_json:
  "plain_pairs kvs \<Longrightarrow>
     replace_all (CHR ''='') [QUOTE, CHR '':'', QUOTE]
       (replace_all (CHR ''&'') [QUOTE, CHR '','', QUOTE]
         (replace_all QUOTE [CHR 0x5C, QUOTE] (query_text kvs))) = json_text kvs"
  by (induction kvs rule: query_text.induct) (auto simp: replace_all_plain)

lemma json_string_plain: "plain s \<Longrightarrow> json_string (s @ QUOTE # r) = Some (s, r)"
proof (induction s)
  case Nil
  then show ?case by (cases r) simp_all
next
  case (Cons c s)
  then have c: "c \<noteq> QUOTE" "c \<noteq> CHR 0x5C" "\<not> (of_char c :: nat) < 32"
    by (simp_all add: plain_char_def)
  obtain d ds where "s @ QUOTE # r = d # ds" by (cases "s @ QUOTE # r") simp_all
  with Cons c show ?case by simp
qed

lemma json_members_text:
  "plain_pairs kvs \<Longrightarrow> kvs \<noteq> [] \<Longrightarrow> json_members (QUOTE # json_text kvs @ [QUOTE, CHR ''}'']) = Some kvs"
proof (induction kvs rule: json_text.induct)
  case (2 k v)
  then show ?case
    by (subst json_members.simps) (simp add: json_string_plain)
next
  case (3 k v kv kvs)
  then show ?case
    by (subst json_members.simps) (simp add: json_string_plain)
qed simp

lemma query_text_chars: "plain_pairs kvs \<Longrightarrow> CHR ''%'' \<notin> set (query_text kvs) \<and> CHR ''?'' \<notin> set (query_text kvs)"
  by (induction kvs rule: query_text.induct) (auto dest: plain_notin [where c = "CHR ''%''"] plain_notin [where c = "CHR ''?''"])

lemma query_text_not_Nil: "kvs \<noteq> [] \<Longrightarrow> query_text kvs \<noteq> []"
  by (cases kvs rule: query_text.cases) simp_all

lemma getQueryParameters_search:
  assumes "CHR ''?'' \<notin> set path" "CHR ''?'' \<notin> set search" "search \<noteq> []"
    and "decodeURIComponent search = Some s"
  shows "getQueryParameters (path @ CHR ''?'' # search) =
    (case json_members (QUOTE #
         replace_all (CHR ''='') [QUOTE, CHR '':'', QUOTE]
           (replace_all (CHR ''&'') [QUOTE, CHR '','', QUOTE]
             (replace_all QUOTE [CHR 0x5C, QUOTE] s)) @ [QUOTE, CHR ''}'']) of
       None \<Rightarrow> Inl syntax_error
     | Some kvs \<Rightarrow> Inr (map_of (rev kvs)))"
  using assms by (simp add: getQueryParameters_def split_on_append split_on_no_sep)

text \<open>C39: the query of a request to the demo server is read back as it was written, if it has at least one pair
  and names and values are plain, that is without the characters that the reading gives a meaning to; of two
  values for one name the later one counts.\<close>

theorem query_roundtrip:
  assumes "CHR ''?'' \<notin> set path" "plain_pairs kvs" "kvs \<noteq> []"
  shows "getQueryParameters (path @ CHR ''?'' # query_text kvs) = Inr (map_of (rev kvs))"
  using assms
  by (simp add: getQueryParameters_search query_text_chars query_text_not_Nil decode_plain query_to_json
      json_members_text)

theorem query_roundtrip_witness:
  "getQueryParameters (''/service'' @ CHR ''?'' # query_text [(''pageNo'', ''2''), (''pageSize'', ''10'')]) =
     Inr (map_of [(''pageSize'', ''10''), (''pageNo'', ''2'')])"
  using query_roundtrip [of "''/service''" "[(''pageNo'', ''2''), (''pageSize'', ''10'')]"]
  by (simp add: plain_char_def)

lemma separator_bytes [simp]: "char_of (61 :: nat) = CHR ''=''" "char_of (38 :: nat) = CHR ''&''"
  by code_simp+

lemma decode_append: "CHR ''%'' \<notin> set s \<Longrightarrow> decodeURIComponent (s @ t) = map_option ((@) s) (decodeURIComponent t)"
  by (induction s) (cases "decodeURIComponent t"; auto)+

text \<open>The query is decoded before it is taken apart, so an encoded separator in a value separates: an
  encoded equals sign makes the handler throw, and an encoded ampersand starts another parameter.\<close>

theorem encoded_separators_split:
  assumes "plain k" "plain v" "plain k'" "plain v'" "CHR ''?'' \<notin> set path"
  shows "getQueryParameters (path @ CHR ''?'' # k @ ''='' @ v @ ''%3D'' @ v') = Inl syntax_error \<and>
    getQueryParameters (path @ CHR ''?'' # k @ ''='' @ v @ ''%26'' @ k' @ ''='' @ v') =
      Inr (map_of [(k', v'), (k, v)])"
proof
  have none: "CHR ''%'' \<notin> set x \<and> CHR ''?'' \<notin> set x" if "plain x" for x
    using that by (simp add: plain_notin)
  have dec: "decodeURIComponent (k @ ''='' @ v @ ''%3D'' @ v') = Some (k @ ''='' @ v @ ''='' @ v')"
    using assms(1-4) by (simp add: decode_append none decode_plain hex_digit_def)
  have quoted: "replace_all (CHR ''='') [QUOTE, CHR '':'', QUOTE]
      (replace_all (CHR ''&'') [QUOTE, CHR '','', QUOTE]
        (replace_all QUOTE [CHR 0x5C, QUOTE] (k @ ''='' @ v @ ''='' @ v'))) =
      k @ [QUOTE, CHR '':'', QUOTE] @ v @ [QUOTE, CHR '':'', QUOTE] @ v'"
    using assms(1-4) by (simp add: replace_all_plain)
  have json: "json_members (QUOTE # (k @ [QUOTE, CHR '':'', QUOTE] @ v @
      [QUOTE, CHR '':'', QUOTE] @ v') @ [QUOTE, CHR ''}'']) = None"
    using assms(1-4) by (subst json_members.simps) (simp add: json_string_plain)
  have "CHR ''?'' \<notin> set (k @ ''='' @ v @ ''%3D'' @ v')" using assms by (simp add: none)
  from getQueryParameters_search [OF assms(5) this _ dec] quoted json
  show "getQueryParameters (path @ CHR ''?'' # k @ ''='' @ v @ ''%3D'' @ v') = Inl syntax_error"
    by (simp only: quoted json append_is_Nil_conv list.distinct option.case simp_thms)
  have dec: "decodeURIComponent (k @ ''='' @ v @ ''%26'' @ k' @ ''='' @ v') =
      Some (query_text [(k, v), (k', v')])"
    using assms(1-4) by (simp add: decode_append none decode_plain hex_digit_def)
  have pairs: "plain_pairs [(k, v), (k', v')]" using assms by simp
  have "CHR ''?'' \<notin> set (k @ ''='' @ v @ ''%26'' @ k' @ ''='' @ v')" using assms by (simp add: none)
  from getQueryParameters_search [OF assms(5) this _ dec] json_members_text [OF pairs]
  show "getQueryParameters (path @ CHR ''?'' # k @ ''='' @ v @ ''%26'' @ k' @ ''='' @ v') =
      Inr (map_of [(k', v'), (k, v)])"
    by (simp only: query_to_json [OF pairs] append_is_Nil_conv list.distinct option.case simp_thms
        rev.simps append.simps)
qed

theorem encoded_separators_split_witness:
  "getQueryParameters (''/role'' @ CHR ''?'' # ''q'' @ ''='' @ ''a'' @ ''%3D'' @ ''b'') = Inl syntax_error"
  using encoded_separators_split [of "''q''" "''a''" "''x''" "''b''" "''/role''"]
  by (simp add: plain_char_def)

section \<open>What the service list serves\<close>

text \<open>The keys of the rows served for a page, and the number of pages the reply announces.\<close>

definition page_query :: "nat \<Rightarrow> nat \<Rightarrow> string \<Rightarrow> string option" where
  "page_query p s = [''pageNo'' \<mapsto> decimal p, ''pageSize'' \<mapsto> decimal s]"

definition page_keys :: "service_draw \<Rightarrow> nat \<Rightarrow> nat \<Rightarrow> int option list" where
  "page_keys draw p s = map sv_key (sp_data (serverList draw (page_query p s)))"

definition page_count :: "nat \<Rightarrow> nat" where
  "page_count s = (5701 + s - 1) div s"

lemma ceil_div_nat:
  assumes "0 < b"
  shows "ceil_div (int a) (int b) = Some (int ((a + b - 1) div b))"
proof -
  let ?q = "(- int a) div int b"
  have "int b * ?q + (- int a) mod int b = - int a" "0 \<le> (- int a) mod int b" "(- int a) mod int b < int b"
    using assms by simp_all
  then have "(int a + int b - 1) div int b = - ?q"
    using int_div_pos_eq [of "int a + int b - 1" "int b" "- ?q" "int b - 1 - (- int a) mod int b"]
    by (simp add: algebra_simps)
  moreover have "int ((a + b - 1) div b) = (int a + int b - 1) div int b"
    using assms by (simp add: zdiv_int of_nat_diff)
  ultimately show ?thesis using assms by (simp add: ceil_div_def)
qed

lemma page_keys_eq:
  assumes "0 < s" "0 < p"
  shows "page_keys draw p s =
    map (\<lambda>i. Some (int ((p - 1) * s + i))) [1..<Suc (if page_count s \<le> p then 5701 mod s else s)]"
proof -
  have "ceil_div totalCount (int s) = Some (int (page_count s))"
    using ceil_div_nat [OF assms(1), of 5701] by (simp add: totalCount_def page_count_def)
  moreover have "js_rem totalCount (int s) = Some (int (5701 mod s))"
    using assms(1) by (simp add: js_rem_def totalCount_def zmod_int)
  moreover have "(int p - 1) * int s + int i = int ((p - 1) * s + i)" for i
    using assms(2) by (simp add: of_nat_diff)
  ultimately show ?thesis
    using assms
    by (simp add: page_keys_def serverList_def page_query_def parseInt_decimal service_row_of_def Let_def
        split_beta comp_def del: upt_Suc)
qed

lemma map_plus_upt: "map (\<lambda>i. k + i) [a..<b] = [k + a..<k + b :: nat]"
  by (induction b) auto

lemma concat_pages:
  "concat (map (\<lambda>p. map (\<lambda>i. (p - 1) * s + i) [1..<Suc s]) [1..<Suc n]) = [1..<Suc (n * s)]"
proof (induction n)
  case (Suc n)
  have "map (\<lambda>i. n * s + i) [1..<Suc s] = [Suc (n * s)..<Suc (n * s + s)]"
    by (simp add: map_plus_upt del: upt_Suc)
  moreover have "[1..<Suc (n * s) + s] = [1..<Suc (n * s)] @ [Suc (n * s)..<Suc (n * s) + s]"
    by (rule upt_add_eq_append) simp
  ultimately show ?case using Suc by (simp add: upt_Suc_append [of "Suc 0" "Suc n"] add.commute del: upt_Suc)
qed simp

lemma page_count_not_dividing:
  assumes "0 < s" "5701 mod s \<noteq> 0"
  shows "page_count s = Suc (5701 div s)"
proof -
  have sum: "5701 + s - 1 = (5701 mod s + s - 1) + 5701 div s * s"
    using assms by simp
  have "(5701 mod s + s - 1) div s = 1"
    using assms by (intro div_nat_eqI) (auto simp: less_imp_diff_less)
  moreover have "page_count s = 5701 div s + (5701 mod s + s - 1) div s"
    unfolding page_count_def sum by (rule div_mult_self1) (use assms in simp)
  ultimately show ?thesis by simp
qed

text \<open>With a page size that does not divide the number of rows, the pages of the service list, put
  one after the other, are all 5701 rows once each and in order.\<close>

theorem service_pages_complete:
  assumes "0 < s" "5701 mod s \<noteq> 0"
  shows "concat (map (\<lambda>p. page_keys draw p s) [1..<Suc (page_count s)]) =
    map (\<lambda>i. Some (int i)) [1..<5702]"
proof -
  define d r where "d = 5701 div s" and "r = 5701 mod s"
  have count: "page_count s = Suc d" and sum: "d * s + r = 5701"
    using page_count_not_dividing [OF assms] by (simp_all add: d_def r_def)
  have "map (\<lambda>p. page_keys draw p s) [1..<Suc d] =
      map (\<lambda>p. map (\<lambda>i. Some (int i)) (map (\<lambda>i. (p - 1) * s + i) [1..<Suc s])) [1..<Suc d]"
    by (rule map_cong [OF refl])
      (simp add: page_keys_eq [OF assms(1)] count comp_def del: upt_Suc)
  then have full: "concat (map (\<lambda>p. page_keys draw p s) [1..<Suc d]) =
      map (\<lambda>i. Some (int i)) [1..<Suc (d * s)]"
    using arg_cong [OF concat_pages [of s d], of "map (\<lambda>i. Some (int i))"]
    by (simp only: map_concat map_map comp_def)
  have "page_keys draw (Suc d) s = map (\<lambda>i. Some (int i)) (map (\<lambda>i. d * s + i) [1..<Suc r])"
    by (simp add: page_keys_eq [OF assms(1)] count r_def comp_def del: upt_Suc)
  then have rest: "page_keys draw (Suc d) s = map (\<lambda>i. Some (int i)) [Suc (d * s)..<5702]"
    using sum by (simp add: map_plus_upt del: upt_Suc)
  have "[1..<5702] = [1..<Suc (d * s)] @ [Suc (d * s)..<5702]"
    using upt_add_eq_append [of 1 "Suc (d * s)" r] sum by simp
  with full rest show ?thesis
    by (simp add: count upt_Suc_append [of "Suc 0" "Suc d"] del: upt_Suc)
qed

theorem service_pages_complete_witness:
  "concat (map (\<lambda>p. page_keys (\<lambda>i. (1, 0, [])) p 10) [1..<Suc (page_count 10)]) =
     map (\<lambda>i. Some (int i)) [1..<5702]"
  by (rule service_pages_complete) simp_all

text \<open>With a page size that divides the number of rows the last page of the service list is empty,
  and a page past the end is not: it lists rows whose numbers are past the last one.\<close>

theorem service_pages_defects:
  assumes "0 < s"
  shows "(5701 mod s = 0 \<longrightarrow> page_keys draw (page_count s) s = []) \<and>
    length (page_keys draw (page_count s + k) s) = 5701 mod s \<and>
    list_all (num_less (Some 5701)) (page_keys draw (page_count s + Suc k) s)"
proof (intro conjI impI)
  have "5701 + s - 1 < (page_count s + 1) * s"
    using assms by (simp add: page_count_def dividend_less_div_times)
  then have covers: "5701 \<le> page_count s * s" by simp
  then have pos: "0 < page_count s" by (cases "page_count s") simp_all
  show "length (page_keys draw (page_count s + k) s) = 5701 mod s"
    using assms pos by (simp add: page_keys_eq)
  show "page_keys draw (page_count s) s = []" if "5701 mod s = 0"
    using assms pos that by (simp add: page_keys_eq)
  have "5701 < (page_count s + k) * s + i" if "0 < i" for i
    using covers that by (simp add: add_mult_distrib)
  then show "list_all (num_less (Some 5701)) (page_keys draw (page_count s + Suc k) s)"
    using assms by (simp add: page_keys_eq list_all_iff del: of_nat_add of_nat_mult upt_Suc)
qed

theorem service_pages_defects_witness:
  "page_keys (\<lambda>i. (1, 0, [])) (page_count 1) 1 = [] \<and>
   length (page_keys (\<lambda>i. (1, 0, [])) (page_count 10 + 5) 10) = 1"
  using service_pages_defects [of 1 "\<lambda>i. (1, 0, [])" 0] service_pages_defects [of 10 "\<lambda>i. (1, 0, [])" 5]
  by simp

end
