(* ===== verification/STable.thy ===== *)
theory STable
  imports Browser Numbers
begin

text \<open>
  The table component \<open>components/Table/index.js\<close>: its props, its local data, its watchers and
  methods. Loading is asynchronous. A call of \<open>loadData\<close> leaves a request in flight, and the reply
  arrives as a separate step, in whatever order. The watchers run after the step that changed what
  they watch. Rendering is left out but for the decisions it takes: whether the alert bar is shown
  and which row selection the inner table gets.
\<close>

section \<open>Props and local data\<close>

record column =
  c_title :: string
  c_dataIndex :: string
  c_needTotal :: bool

record pagination =
  pn_current :: "int option"
  pn_pageSize :: "int option"
  pn_total :: "int option"
  pn_showSizeChanger :: "bool option"
  pn_hideOnSinglePage :: bool

text \<open>\<open>localPagination\<close> is an object or \<open>false\<close>. A property read from \<open>false\<close> is
  undefined, and \<open>Object.assign({}, false)\<close> is an empty object.\<close>

datatype pager = NoPager | Pager pagination

definition no_pagination :: pagination where
  "no_pagination = \<lparr>pn_current = None, pn_pageSize = None, pn_total = None,
     pn_showSizeChanger = None, pn_hideOnSinglePage = False\<rparr>"

definition pager_fields :: "pager \<Rightarrow> pagination" where
  "pager_fields p = (case p of NoPager \<Rightarrow> no_pagination | Pager pn \<Rightarrow> pn)"

record sorter =
  so_field :: "string option"
  so_order :: "string option"

text \<open>The \<open>alert\<close> prop: \<open>null\<close>, a boolean, or an object with its \<open>show\<close> flag and a
  \<open>clear\<close> entry that is absent, a boolean or a function.\<close>

datatype alert_clear = NoClear | ClearFlag bool | ClearFunction

datatype alert = NoAlert | AlertFlag bool | AlertObject bool alert_clear

text \<open>The \<open>rowSelection\<close> prop: \<open>null\<close> or an object, with or without \<open>selectedRowKeys\<close>.\<close>

datatype row_selection = NoSelection | Selection bool

record table_props =
  t_pagination :: "pagination option"
  t_pageNum :: int
  t_pageSize :: int
  t_showSizeChanger :: bool
  t_showPagination :: jsval
  t_pageURI :: bool
  t_columns :: "column list option"
  t_alert :: alert
  t_rowSelection :: row_selection

text \<open>The defaults of the props, for given columns.\<close>

definition default_props :: "column list option \<Rightarrow> table_props" where
  "default_props columns = \<lparr>t_pagination = None, t_pageNum = 1, t_pageSize = 10, t_showSizeChanger = True,
     t_showPagination = JStr ''auto'', t_pageURI = False, t_columns = columns, t_alert = NoAlert,
     t_rowSelection = NoSelection\<rparr>"

text \<open>What a data source is asked, an object built with \<open>Object.assign\<close>, and what it replies.\<close>

datatype param_value = PNum "int option" | PText string | PList "string list"

type_synonym params = "string \<Rightarrow> param_value option"

record 'r page =
  pg_data :: "'r list option"
  pg_pageSize :: "int option"
  pg_pageNo :: "int option"
  pg_totalPage :: "int option"
  pg_totalCount :: "int option"

record 'r table_state =
  needTotalList :: "(column \<times> int) list"
  selectedRows :: "'r list"
  selectedRowKeys :: "string list"
  localLoading :: bool
  localDataSource :: "'r list"
  localPagination :: pager
  filters :: "string \<Rightarrow> string list option"
  sorter :: sorter
  in_flight :: "(pagination option \<times> params) list"
  watched_current :: "int option"
  page_routes :: "int option list"

definition init_table :: "table_props \<Rightarrow> 'r table_state" where
  "init_table P =
     (let lp = (case t_pagination P of None \<Rightarrow> no_pagination | Some pn \<Rightarrow> pn) in
      \<lparr>needTotalList = [], selectedRows = [], selectedRowKeys = [], localLoading = False,
       localDataSource = [], localPagination = Pager lp, filters = (\<lambda>k. None),
       sorter = \<lparr>so_field = None, so_order = None\<rparr>, in_flight = [],
       watched_current = pn_current lp, page_routes = []\<rparr>)"

text \<open>\<open>['auto', true].includes(this.showPagination)\<close>\<close>

definition paged :: "table_props \<Rightarrow> bool" where
  "paged P \<longleftrightarrow> t_showPagination P \<in> {JStr ''auto'', JBool True}"

section \<open>Methods\<close>

definition initTotalList :: "column list option \<Rightarrow> (column \<times> int) list" where
  [table_simps]: "initTotalList columns =
     (case columns of None \<Rightarrow> [] | Some cs \<Rightarrow> map (\<lambda>c. (c, 0)) (filter c_needTotal cs))"

definition request_params ::
    "table_props \<Rightarrow> pagination option \<Rightarrow> (string \<Rightarrow> string list option) \<Rightarrow> sorter \<Rightarrow> pager \<Rightarrow> params" where
  "request_params P pg flt srt lp =
     (let own = (if js_truthy (t_showPagination P) then pager_fields lp else no_pagination);
          pageNo = num_or (Option.bind pg pn_current) (num_or (pn_current own) (Some (t_pageNum P)));
          pageSize = num_or (Option.bind pg pn_pageSize) (num_or (pn_pageSize own) (Some (t_pageSize P)));
          base = [''pageNo'' \<mapsto> PNum pageNo, ''pageSize'' \<mapsto> PNum pageSize];
          base = (if truthy (so_field srt) then base(''sortField'' \<mapsto> PText (the (so_field srt))) else base);
          base = (if truthy (so_order srt) then base(''sortOrder'' \<mapsto> PText (the (so_order srt))) else base)
      in base ++ (\<lambda>k. map_option PList (flt k)))"

text \<open>\<open>loadData\<close> up to the call of the data source.\<close>

definition loadData ::
    "table_props \<Rightarrow> pagination option \<Rightarrow> (string \<Rightarrow> string list option) \<Rightarrow> sorter \<Rightarrow> bool \<Rightarrow>
     'r table_state \<Rightarrow> 'r table_state" where
  [table_simps]: "loadData P pg flt srt showLoading st =
     st\<lparr>filters := flt, sorter := srt, localLoading := showLoading,
        in_flight := in_flight st @ [(pg, request_params P pg flt srt (localPagination st))]\<rparr>"

text \<open>The \<open>then\<close> callback of \<open>loadData\<close>; \<open>pg\<close> is what the request was made with. A reply
  without \<open>data\<close> throws after the pagination was taken over.\<close>

definition loaded ::
    "table_props \<Rightarrow> pagination option \<Rightarrow> 'r page \<Rightarrow> 'r table_state \<Rightarrow> 'r table_state \<times> js_error option" where
  [table_simps]: "loaded P pg r st =
     (let old = pager_fields (localPagination st);
          lp = old\<lparr>pn_current := pg_pageNo r, pn_total := pg_totalCount r,
                   pn_showSizeChanger := Some (t_showSizeChanger P),
                   pn_pageSize := num_or (Option.bind pg pn_pageSize) (pn_pageSize old)\<rparr>;
          st = st\<lparr>localPagination := (if js_truthy (t_showPagination P) then Pager lp else NoPager)\<rparr>
      in (case pg_data r of
            None \<Rightarrow> (st, Some TypeError)
          | Some rows \<Rightarrow>
              (if rows = [] \<and> js_truthy (t_showPagination P) \<and> num_less (Some 1) (pn_current lp) then
                 (let st = st\<lparr>localPagination :=
                               Pager (lp\<lparr>pn_current := map_option (\<lambda>c. c - 1) (pn_current lp)\<rparr>)\<rparr>
                  in (loadData P None (filters st) (sorter st) True st, None))
               else
                 (let st = (if paged P \<and> num_le (pg_totalCount r) (num_op (*) (pg_pageNo r) (pn_pageSize lp))
                            then st\<lparr>localPagination := Pager (lp\<lparr>pn_hideOnSinglePage := True\<rparr>)\<rparr> else st)
                  in (st\<lparr>localDataSource := rows, localLoading := False\<rparr>, None)))))"

definition created :: "table_props \<Rightarrow> string option \<Rightarrow> 'r table_state \<Rightarrow> 'r table_state" where
  [table_simps]: "created P route_pageNo st =
     (let wanted = (if t_pageURI P \<and> truthy route_pageNo then parseInt (the route_pageNo) else None);
          lp = (if paged P
                then Pager ((pager_fields (localPagination st))
                       \<lparr>pn_current := num_or wanted (Some (t_pageNum P)), pn_pageSize := Some (t_pageSize P),
                        pn_showSizeChanger := Some (t_showSizeChanger P)\<rparr>)
                else NoPager);
          st = st\<lparr>localPagination := lp, needTotalList := initTotalList (t_columns P)\<rparr>
      in loadData P None (filters st) (sorter st) True st)"

definition refresh :: "table_props \<Rightarrow> bool \<Rightarrow> bool \<Rightarrow> 'r table_state \<Rightarrow> 'r table_state" where
  [table_simps]: "refresh P bool showLoading st =
     (let st = (if bool
                then st\<lparr>localPagination :=
                       Pager (no_pagination\<lparr>pn_current := Some 1, pn_pageSize := Some (t_pageSize P)\<rparr>)\<rparr>
                else st)
      in loadData P None (filters st) (sorter st) showLoading st)"

text \<open>The totals of the selected rows. A cell that is no number makes the running sum \<open>NaN\<close>, and
  the code then starts again from zero. \<open>cell\<close> is \<open>lodash.get\<close>, as text.\<close>

fun total_of :: "('r \<Rightarrow> string \<Rightarrow> string) \<Rightarrow> string \<Rightarrow> int \<Rightarrow> 'r list \<Rightarrow> int" where
  "total_of cell index acc [] = acc"
| "total_of cell index acc (r # rs) =
     total_of cell index
       (case parseInt (cell r index) of None \<Rightarrow> 0 | Some n \<Rightarrow> acc + n) rs"

definition updateSelect ::
    "('r \<Rightarrow> string \<Rightarrow> string) \<Rightarrow> string list \<Rightarrow> 'r list \<Rightarrow> 'r table_state \<Rightarrow> 'r table_state" where
  [table_simps]: "updateSelect cell ks rs st =
     st\<lparr>selectedRows := rs, selectedRowKeys := ks,
        needTotalList := map (\<lambda>(c, _). (c, total_of cell (c_dataIndex c) 0 rs)) (needTotalList st)\<rparr>"

text \<open>\<open>clearSelected\<close> also tells the owner of the table, which is not part of this state.\<close>

definition clearSelected ::
    "('r \<Rightarrow> string \<Rightarrow> string) \<Rightarrow> table_props \<Rightarrow> 'r table_state \<Rightarrow> 'r table_state" where
  [table_simps]: "clearSelected cell P st =
     (if t_rowSelection P \<noteq> NoSelection then updateSelect cell [] [] st else st)"

section \<open>Rendering decisions\<close>

text \<open>\<open>showAlert\<close>. With the \<open>show\<close> flag set the code reads a property of the row selection, which
  may be \<open>null\<close>; whatever that gives, the last operand \<open>|| this.alert\<close> is the object itself.\<close>

definition showAlert :: "table_props \<Rightarrow> js_error + bool" where
  "showAlert P =
     (case t_alert P of
        NoAlert \<Rightarrow> Inr False
      | AlertFlag b \<Rightarrow> Inr b
      | AlertObject False _ \<Rightarrow> Inr True
      | AlertObject True _ \<Rightarrow>
          (case t_rowSelection P of
             NoSelection \<Rightarrow> Inl TypeError
           | Selection _ \<Rightarrow> Inr True))"

text \<open>The row selection handed to the inner table: none, the owner's, or the owner's with the rows and
  the change handler of the component.\<close>

datatype selection_prop = SelNone | SelOwner | SelRebound

definition selection_prop :: "table_props \<Rightarrow> js_error + selection_prop" where
  "selection_prop P =
     (case showAlert P of
        Inl e \<Rightarrow> Inl e
      | Inr shown \<Rightarrow>
          Inr (case t_rowSelection P of
                 NoSelection \<Rightarrow> SelNone
               | Selection _ \<Rightarrow> (if shown then SelRebound else SelOwner)))"

text \<open>The link that clears the selection, and what a click on it does: the callback (the owner's, or
  \<open>clearSelected\<close>) and then \<open>clearSelected\<close>.\<close>

datatype clear_callback = ClearOwn | ClearOwner

definition clear_item :: "table_props \<Rightarrow> 'r table_state \<Rightarrow> clear_callback option" where
  "clear_item P st =
     (let shown = (\<lambda>cb. if selectedRowKeys st = [] then None else Some cb) in
      (case t_alert P of
         AlertObject _ (ClearFlag True) \<Rightarrow> shown ClearOwn
       | AlertObject _ ClearFunction \<Rightarrow> shown ClearOwner
       | _ \<Rightarrow> None))"

definition clear_click ::
    "('r \<Rightarrow> string \<Rightarrow> string) \<Rightarrow> table_props \<Rightarrow> ('r table_state \<Rightarrow> 'r table_state) \<Rightarrow> clear_callback \<Rightarrow>
     'r table_state \<Rightarrow> 'r table_state" where
  "clear_click cell P owner cb st =
     clearSelected cell P (case cb of ClearOwn \<Rightarrow> clearSelected cell P st | ClearOwner \<Rightarrow> owner st)"

section \<open>Watchers and events\<close>

text \<open>The inner table calls \<open>loadData\<close> with a fourth argument of its own, an object, in the place of
  \<open>showLoading\<close>; it is truthy.\<close>

text \<open>The watcher of \<open>localPagination.current\<close>, run when the value differs from the last one seen.\<close>

definition watch_current :: "table_props \<Rightarrow> 'r table_state \<Rightarrow> 'r table_state" where
  [table_simps]: "watch_current P st =
     (let cur = pn_current (pager_fields (localPagination st)) in
      if cur = watched_current st then st
      else st\<lparr>watched_current := cur,
              page_routes := (if t_pageURI P then page_routes st @ [cur] else page_routes st),
              needTotalList := initTotalList (t_columns P),
              selectedRowKeys := [], selectedRows := []\<rparr>)"

text \<open>\<open>Object.assign(this.localPagination, ...)\<close>: without effect on \<open>false\<close>.\<close>

definition assign_pager :: "(pagination \<Rightarrow> pagination) \<Rightarrow> 'r table_state \<Rightarrow> 'r table_state" where
  [table_simps]: "assign_pager f st =
     (case localPagination st of NoPager \<Rightarrow> st | Pager pn \<Rightarrow> st\<lparr>localPagination := Pager (f pn)\<rparr>)"

datatype 'r table_event =
    Change pagination "string \<Rightarrow> string list option" sorter
  | Refresh bool bool
  | Reply nat "'r page"
  | Fail nat
  | Select "string list" "'r list"
  | Clear
  | PageNum int
  | PageSize int
  | SizeChanger bool

definition drop_nth :: "nat \<Rightarrow> 'a list \<Rightarrow> 'a list" where
  "drop_nth i xs = take i xs @ drop (Suc i) xs"

fun handle ::
    "('r \<Rightarrow> string \<Rightarrow> string) \<Rightarrow> table_props \<times> 'r table_state \<Rightarrow> 'r table_event \<Rightarrow> table_props \<times> 'r table_state" where
  "handle cell (P, st) (Change pg flt srt) = (P, loadData P (Some pg) flt srt True st)"
| "handle cell (P, st) (Refresh b l) = (P, refresh P b l st)"
| "handle cell (P, st) (Reply i r) =
     (if i < length (in_flight st)
      then (P, fst (loaded P (fst (in_flight st ! i)) r (st\<lparr>in_flight := drop_nth i (in_flight st)\<rparr>)))
      else (P, st))"
| "handle cell (P, st) (Fail i) = (P, st\<lparr>in_flight := drop_nth i (in_flight st)\<rparr>)"
| "handle cell (P, st) (Select ks rs) = (P, updateSelect cell ks rs st)"
| "handle cell (P, st) Clear = (P, clearSelected cell P st)"
| "handle cell (P, st) (PageNum n) =
     (P\<lparr>t_pageNum := n\<rparr>, assign_pager (\<lambda>pn. pn\<lparr>pn_current := Some n\<rparr>) st)"
| "handle cell (P, st) (PageSize n) =
     (P\<lparr>t_pageSize := n\<rparr>, assign_pager (\<lambda>pn. pn\<lparr>pn_pageSize := Some n\<rparr>) st)"
| "handle cell (P, st) (SizeChanger b) =
     (P\<lparr>t_showSizeChanger := b\<rparr>, assign_pager (\<lambda>pn. pn\<lparr>pn_showSizeChanger := Some b\<rparr>) st)"

definition table_step ::
    "('r \<Rightarrow> string \<Rightarrow> string) \<Rightarrow> table_props \<times> 'r table_state \<Rightarrow> 'r table_event \<Rightarrow> table_props \<times> 'r table_state" where
  "table_step cell s e = (let (P, st) = handle cell s e in (P, watch_current P st))"

definition table_run ::
    "('r \<Rightarrow> string \<Rightarrow> string) \<Rightarrow> table_props \<times> 'r table_state \<Rightarrow> 'r table_event list \<Rightarrow> table_props \<times> 'r table_state" where
  "table_run cell = foldl (table_step cell)"

definition mounted_table :: "table_props \<Rightarrow> string option \<Rightarrow> table_props \<times> 'r table_state" where
  "mounted_table P route_pageNo = (P, watch_current P (created P route_pageNo (init_table P)))"

section \<open>Data sources\<close>

definition num_of :: "param_value option \<Rightarrow> int option" where
  "num_of v = (case v of Some (PNum n) \<Rightarrow> n | _ \<Rightarrow> None)"

definition slice_of :: "nat \<Rightarrow> nat \<Rightarrow> 'r list \<Rightarrow> 'r list" where
  "slice_of s p rows = take s (drop ((p - 1) * s) rows)"

text \<open>The last page that has rows; the first page if there are none.\<close>

definition last_page :: "nat \<Rightarrow> 'r list \<Rightarrow> nat" where
  "last_page s rows = max 1 ((length rows + s - 1) div s)"

lemma slice_of_Nil_iff:
  assumes "0 < s" "1 < p"
  shows "slice_of s p rows = [] \<longleftrightarrow> last_page s rows < p"
proof -
  have "slice_of s p rows = [] \<longleftrightarrow> length rows \<le> (p - 1) * s"
    using assms(1) by (simp add: slice_of_def)
  also have "\<dots> \<longleftrightarrow> length rows + s - 1 < p * s"
    using assms by (cases p) auto
  also have "\<dots> \<longleftrightarrow> (length rows + s - 1) div s < p"
    using assms(1) by (simp add: div_less_iff_less_mult)
  finally show ?thesis using assms(2) by (simp add: last_page_def)
qed

text \<open>A source that serves the pages of a list: it echoes page number and size, counts all rows and
  replies with the rows of that page.\<close>

locale page_source =
  fixes source :: "params \<Rightarrow> 'r page"
    and rows :: "'r list"
  assumes serves: "num_of (q ''pageNo'') = Some (int p) \<Longrightarrow> num_of (q ''pageSize'') = Some (int s) \<Longrightarrow>
      0 < p \<Longrightarrow> 0 < s \<Longrightarrow>
      pg_pageNo (source q) = Some (int p) \<and> pg_totalCount (source q) = Some (int (length rows)) \<and>
      pg_data (source q) = Some (slice_of s p rows)"

text \<open>Requests are answered one after the other, each by the source, until none is in flight.\<close>

fun settle ::
    "nat \<Rightarrow> (params \<Rightarrow> 'r page) \<Rightarrow> ('r \<Rightarrow> string \<Rightarrow> string) \<Rightarrow> table_props \<times> 'r table_state \<Rightarrow>
     table_props \<times> 'r table_state" where
  "settle 0 source cell s = s"
| "settle (Suc n) source cell s =
     (case in_flight (snd s) of
        [] \<Rightarrow> s
      | (pg, q) # _ \<Rightarrow> settle n source cell (table_step cell s (Reply 0 (source q))))"

text \<open>The one request in flight asks for page \<open>p\<close> of size \<open>s\<close>, and no filter overrides that.\<close>

definition asks :: "'r table_state \<Rightarrow> nat \<Rightarrow> nat \<Rightarrow> bool" where
  "asks st p s \<longleftrightarrow> (\<exists>pg q. in_flight st = [(pg, q)] \<and>
     num_of (q ''pageNo'') = Some (int p) \<and> num_of (q ''pageSize'') = Some (int s) \<and>
     num_or (Option.bind pg pn_pageSize) (pn_pageSize (pager_fields (localPagination st))) = Some (int s)) \<and>
     filters st ''pageNo'' = None \<and> filters st ''pageSize'' = None"

text \<open>The table displays page \<open>p\<close> of the rows, and it is at rest as well.\<close>

definition displays :: "'r table_state \<Rightarrow> 'r list \<Rightarrow> nat \<Rightarrow> nat \<Rightarrow> bool" where
  "displays st rows p s \<longleftrightarrow> \<not> localLoading st \<and> localDataSource st = slice_of s p rows \<and>
     (\<exists>pn. localPagination st = Pager pn \<and> pn_current pn = Some (int p) \<and>
        pn_pageSize pn = Some (int s) \<and> pn_total pn = Some (int (length rows))) \<and>
     filters st ''pageNo'' = None \<and> filters st ''pageSize'' = None"

definition shows_page :: "'r table_state \<Rightarrow> 'r list \<Rightarrow> nat \<Rightarrow> nat \<Rightarrow> bool" where
  "shows_page st rows p s \<longleftrightarrow> in_flight st = [] \<and> displays st rows p s"

lemma watch_current_keeps [simp]:
  "in_flight (watch_current P st) = in_flight st"
  "localLoading (watch_current P st) = localLoading st"
  "localDataSource (watch_current P st) = localDataSource st"
  "localPagination (watch_current P st) = localPagination st"
  "filters (watch_current P st) = filters st"
  by (simp_all add: watch_current_def Let_def)

lemma asks_watch [simp]: "asks (watch_current P st) p s = asks st p s"
  by (simp add: asks_def)

lemma shows_watch [simp]: "shows_page (watch_current P st) rows p s = shows_page st rows p s"
  by (simp add: shows_page_def displays_def)

lemma paged_truthy [simp]: "paged P \<Longrightarrow> js_truthy (t_showPagination P)"
  by (auto simp: paged_def)

context page_source
begin

lemma reply_empty:
  assumes "asks st p s" "paged P" "0 < s" "1 < p" "last_page s rows < p"
  shows "\<exists>st'. table_step cell (P, st) (Reply 0 (source (snd (hd (in_flight st))))) = (P, st') \<and>
    asks st' (p - 1) s"
proof -
  obtain pg q where q: "in_flight st = [(pg, q)]" "num_of (q ''pageNo'') = Some (int p)"
    "num_of (q ''pageSize'') = Some (int s)"
    "num_or (Option.bind pg pn_pageSize) (pn_pageSize (pager_fields (localPagination st))) = Some (int s)"
    and f: "filters st ''pageNo'' = None" "filters st ''pageSize'' = None"
    using assms(1) by (auto simp: asks_def)
  have "slice_of s p rows = []"
    using assms(3-5) by (simp add: slice_of_Nil_iff)
  with serves [OF q(2,3)] q f assms(2-4) show ?thesis
    by (auto simp: table_step_def loaded_def loadData_def Let_def drop_nth_def pager_fields_def
        asks_def request_params_def num_of_def map_add_def of_nat_diff)
qed

lemma reply_displays:
  assumes "i < length (in_flight st)" "in_flight st ! i = (pg, q)"
    and "num_of (q ''pageNo'') = Some (int p)" "num_of (q ''pageSize'') = Some (int s)"
    and "num_or (Option.bind pg pn_pageSize) (pn_pageSize (pager_fields (localPagination st))) = Some (int s)"
    and "filters st ''pageNo'' = None" "filters st ''pageSize'' = None"
    and "paged P" "0 < s" "0 < p" "p \<le> last_page s rows"
  shows "\<exists>st'. table_step cell (P, st) (Reply i (source q)) = (P, st') \<and>
    displays st' rows p s \<and> in_flight st' = drop_nth i (in_flight st) \<and> filters st' = filters st"
proof -
  have "\<not> (slice_of s p rows = [] \<and> 1 < p)"
    using assms(9,11) slice_of_Nil_iff [of s p rows] by auto
  with serves [OF assms(3,4,10,9)] assms show ?thesis
    by (auto simp: table_step_def loaded_def Let_def displays_def)
qed

lemma reply_rows:
  assumes "asks st p s" "paged P" "0 < s" "0 < p" "p \<le> last_page s rows"
  shows "\<exists>st'. table_step cell (P, st) (Reply 0 (source (snd (hd (in_flight st))))) = (P, st') \<and>
    shows_page st' rows p s"
  using assms reply_displays [where i = 0 and st = st and P = P]
  by (fastforce simp: asks_def shows_page_def drop_nth_def)

text \<open>A table that asks for some page ends, after at most that many replies, with the page it asked
  for or the last page that has rows.\<close>

lemma settles:
  assumes "asks st p s" "paged P" "0 < s" "0 < p" "p \<le> n"
  shows "\<exists>st'. settle n source cell (P, st) = (P, st') \<and>
    shows_page st' rows (min p (last_page s rows)) s"
  using assms(1,4,5)
proof (induction n arbitrary: p st)
  case 0
  then show ?case by simp
next
  case (Suc n)
  obtain pg q where q: "in_flight st = [(pg, q)]"
    using Suc.prems(1) by (auto simp: asks_def)
  show ?case
  proof (cases "p \<le> last_page s rows")
    case True
    then obtain st' where st': "table_step cell (P, st) (Reply 0 (source q)) = (P, st')"
        "shows_page st' rows p s"
      using reply_rows [OF Suc.prems(1) assms(2,3) Suc.prems(2)] q by auto
    have "settle n source cell (P, st') = (P, st')"
      using st'(2) by (cases n) (simp_all add: shows_page_def)
    with st' q True show ?thesis by (simp add: min_absorb1)
  next
    case False
    moreover have "1 \<le> last_page s rows" by (simp add: last_page_def)
    ultimately obtain st' where st': "table_step cell (P, st) (Reply 0 (source q)) = (P, st')"
        "asks st' (p - 1) s" "0 < p - 1"
      using reply_empty [OF Suc.prems(1) assms(2,3)] q by auto
    have "p - 1 \<le> n" using Suc.prems(3) by simp
    from Suc.IH [OF st'(2,3) this] obtain st'' where
      "settle n source cell (P, st') = (P, st'')"
      "shows_page st'' rows (min (p - 1) (last_page s rows)) s"
      by auto
    moreover have "min (p - 1) (last_page s rows) = min p (last_page s rows)"
      using False by simp
    ultimately show ?thesis using st'(1) q by auto
  qed
qed

end

section \<open>Loading\<close>

text \<open>The requests the methods make.\<close>

lemma refresh_asks:
  assumes "shows_page st rows p s" "paged P" "0 < s" "0 < p"
  shows "asks (refresh P False l st) p s"
  using assms
  by (auto simp: asks_def shows_page_def displays_def table_simps Let_def request_params_def num_of_def map_add_def
      pager_fields_def)

lemma created_asks:
  assumes "paged P" "t_pageURI P = False" "t_pageNum P = int p" "t_pageSize P = int s" "0 < p" "0 < s"
  shows "asks (created P r (init_table P)) p s"
  using assms
  by (auto simp: asks_def init_table_def table_simps Let_def request_params_def num_of_def map_add_def
      pager_fields_def split: option.splits)

lemma change_asks:
  assumes "in_flight st = []" "paged P" "pn_current pg = Some (int p)" "pn_pageSize pg = Some (int s)"
    and "0 < p" "0 < s" "flt ''pageNo'' = None" "flt ''pageSize'' = None"
  shows "asks (loadData P (Some pg) flt srt l st) p s"
  using assms
  by (auto simp: asks_def table_simps Let_def request_params_def num_of_def map_add_def)

section \<open>Selection and totals\<close>

text \<open>The numbers in the rows behind the last cell that is no number.\<close>

definition trailing_numbers :: "('r \<Rightarrow> string \<Rightarrow> string) \<Rightarrow> string \<Rightarrow> 'r list \<Rightarrow> int list" where
  "trailing_numbers cell index rs =
     map the (rev (takeWhile (\<lambda>v. v \<noteq> None) (rev (map (\<lambda>r. parseInt (cell r index)) rs))))"

lemma trailing_numbers_snoc:
  "trailing_numbers cell index (rs @ [r]) =
     (case parseInt (cell r index) of None \<Rightarrow> [] | Some n \<Rightarrow> trailing_numbers cell index rs @ [n])"
  by (simp add: trailing_numbers_def split: option.splits)

lemma total_of_append: "total_of cell index acc (rs @ ss) = total_of cell index (total_of cell index acc rs) ss"
  by (induction rs arbitrary: acc) (simp_all split: option.splits)

lemma total_of_trailing: "total_of cell index 0 rs = sum_list (trailing_numbers cell index rs)"
proof (induction rs rule: rev_induct)
  case Nil
  then show ?case by (simp add: trailing_numbers_def)
next
  case (snoc r rs)
  then show ?case by (simp add: total_of_append trailing_numbers_snoc split: option.splits)
qed

text \<open>Selecting rows sets the total of every column that wants one to the sum of its numbers in the
  rows behind the last selected row whose cell is no number; the numbers in front of that row are lost.\<close>

theorem updateSelect_totals:
  "needTotalList (updateSelect cell ks rs st) =
     map (\<lambda>c. (c, sum_list (trailing_numbers cell (c_dataIndex c) rs))) (map fst (needTotalList st))"
  by (simp add: updateSelect_def total_of_trailing split_beta comp_def)

text \<open>What holds between events: the watcher has seen the current page, and the totals are those of the
  selected rows, for the columns that want one.\<close>

definition current_page :: "'r table_state \<Rightarrow> int option" where
  "current_page st = pn_current (pager_fields (localPagination st))"

definition totals_of ::
    "('r \<Rightarrow> string \<Rightarrow> string) \<Rightarrow> column list option \<Rightarrow> 'r list \<Rightarrow> (column \<times> int) list" where
  "totals_of cell columns rs = map (\<lambda>(c, _). (c, total_of cell (c_dataIndex c) 0 rs)) (initTotalList columns)"

definition table_inv ::
    "('r \<Rightarrow> string \<Rightarrow> string) \<Rightarrow> column list option \<Rightarrow> table_props \<times> 'r table_state \<Rightarrow> bool" where
  "table_inv cell columns = (\<lambda>(P, st). t_columns P = columns \<and> watched_current st = current_page st \<and>
     needTotalList st = totals_of cell columns (selectedRows st))"

lemma totals_of_Nil: "totals_of cell columns [] = initTotalList columns"
  by (simp add: totals_of_def initTotalList_def split: option.splits)

lemma loaded_selection:
  "selectedRows (fst (loaded P pg r st)) = selectedRows st"
  "selectedRowKeys (fst (loaded P pg r st)) = selectedRowKeys st"
  "needTotalList (fst (loaded P pg r st)) = needTotalList st"
  "watched_current (fst (loaded P pg r st)) = watched_current st"
  by (simp_all add: loaded_def loadData_def Let_def split: option.splits)

lemma handle_keeps:
  "handle cell (P, st) e = (P', st') \<Longrightarrow>
     t_columns P' = t_columns P \<and> watched_current st' = watched_current st \<and>
     (needTotalList st = totals_of cell (t_columns P) (selectedRows st) \<longrightarrow>
      needTotalList st' = totals_of cell (t_columns P) (selectedRows st'))"
  by (cases e)
    (auto simp: loaded_selection refresh_def loadData_def assign_pager_def clearSelected_def
      updateSelect_def totals_of_def comp_def split_beta Let_def split: if_splits pager.splits)

lemma table_step_inv: "table_inv cell columns s \<Longrightarrow> table_inv cell columns (table_step cell s e)"
  by (cases s, cases "handle cell s e")
    (auto simp: table_inv_def table_step_def watch_current_def current_page_def totals_of_Nil Let_def
      dest: handle_keeps)

lemma table_run_inv: "table_inv cell columns s \<Longrightarrow> table_inv cell columns (table_run cell s es)"
  by (induction es arbitrary: s) (simp_all add: table_run_def table_step_inv)

lemma mounted_inv: "table_inv cell (t_columns P) (mounted_table P r)"
  by (simp add: table_inv_def mounted_table_def watch_current_def created_def loadData_def init_table_def
      current_page_def totals_of_Nil Let_def)

lemma page_change_inv:
  assumes "table_inv cell columns s"
  shows "current_page (snd (table_step cell s e)) = current_page (snd s) \<or>
    selectedRows (snd (table_step cell s e)) = [] \<and> selectedRowKeys (snd (table_step cell s e)) = []"
  using assms
  by (cases s, cases "handle cell s e")
    (auto simp: table_inv_def table_step_def watch_current_def current_page_def Let_def
      dest: handle_keeps)

text \<open>The sum of the numbers behind the last cell that is no number, for each of the columns that want a total;
  if all cells are numbers it is the sum of all of them.\<close>

definition column_totals ::
    "('r \<Rightarrow> string \<Rightarrow> string) \<Rightarrow> column list option \<Rightarrow> 'r list \<Rightarrow> (column \<times> int) list" where
  "column_totals cell columns rs =
     (case columns of
        None \<Rightarrow> []
      | Some cs \<Rightarrow> [(c, sum_list (trailing_numbers cell (c_dataIndex c) rs)). c \<leftarrow> cs, c_needTotal c])"

lemma trailing_numbers_all:
  assumes "map (\<lambda>r. parseInt (cell r index)) rs = map Some ns"
  shows "trailing_numbers cell index rs = ns"
proof -
  have all: "takeWhile (\<lambda>v. v \<noteq> None) (map Some xs) = map Some xs" for xs :: "int list"
    by (induction xs) simp_all
  have "rev (map Some ns) = map Some (rev ns)" by (rule rev_map)
  then show ?thesis
    unfolding trailing_numbers_def assms by (simp only: all) (simp add: rev_map comp_def)
qed

lemma totals_of_columns: "totals_of cell columns rs = column_totals cell columns rs"
proof (cases columns)
  case (Some cs)
  have "map (\<lambda>(c, _). (c, total_of cell (c_dataIndex c) 0 rs)) (initTotalList (Some cs)) = column_totals cell (Some cs) rs"
    unfolding initTotalList_def column_totals_def by (induction cs) (simp_all add: total_of_trailing)
  then show ?thesis by (simp add: totals_of_def Some)
qed (simp add: totals_of_def column_totals_def initTotalList_def)

text \<open>C15: whatever events a table has seen since it was mounted, the totals it shows are those of the rows
  that are selected: for each column that wants a total, in the order of the columns, the sum of the numbers in
  the selected rows, as far as they stand behind the last selected row whose cell is no number (one such cell
  makes the code start again from zero). The rows and keys that are selected are those of a selection, from the
  moment it is made.\<close>

theorem totals_match_selection:
  "let before = table_run cell (mounted_table P r) es; t = snd before;
       selected = snd (table_step cell before (Select ks rs))
   in needTotalList t =
        (case t_columns P of
           None \<Rightarrow> []
         | Some cs \<Rightarrow> [(c, sum_list (trailing_numbers cell (c_dataIndex c) (selectedRows t))). c \<leftarrow> cs, c_needTotal c]) \<and>
      selectedRows selected = rs \<and> selectedRowKeys selected = ks"
proof -
  have inv: "table_inv cell (t_columns P) (table_run cell (mounted_table P r) es)"
    using table_run_inv [OF mounted_inv] .
  then have "needTotalList (snd (table_run cell (mounted_table P r) es)) =
      column_totals cell (t_columns P) (selectedRows (snd (table_run cell (mounted_table P r) es)))"
    by (simp add: table_inv_def totals_of_columns split_beta)
  moreover from inv have "selectedRows (snd (table_step cell (table_run cell (mounted_table P r) es) (Select ks rs))) = rs"
    "selectedRowKeys (snd (table_step cell (table_run cell (mounted_table P r) es) (Select ks rs))) = ks"
    by (cases "table_run cell (mounted_table P r) es",
        simp add: table_inv_def table_step_def watch_current_def current_page_def updateSelect_def Let_def)+
  ultimately show ?thesis by (simp add: column_totals_def Let_def)
qed

text \<open>A selection does not outlive its page: after any event that leaves the table on another page than
  before, no row is selected.\<close>

theorem page_change_clears_selection:
  "let before = table_run cell (mounted_table P r) es; after = table_step cell before e in
     current_page (snd after) = current_page (snd before) \<or>
     selectedRows (snd after) = [] \<and> selectedRowKeys (snd after) = []"
  using page_change_inv [OF table_run_inv [OF mounted_inv]] by (simp add: Let_def)

section \<open>The alert bar\<close>

text \<open>The alert bar is hidden exactly when the \<open>alert\<close> prop is \<open>null\<close> or \<open>false\<close>: the
  \<open>show\<close> flag of an alert object does not hide it. Its only effect is that \<open>show: true\<close> without
  a row selection makes rendering throw.\<close>

theorem show_flag_ignored:
  "(showAlert P = Inr False \<longleftrightarrow> t_alert P = NoAlert \<or> t_alert P = AlertFlag False) \<and>
   showAlert (P\<lparr>t_alert := AlertObject False c\<rparr>) = Inr True \<and>
   (showAlert P = Inl TypeError \<longleftrightarrow>
      t_rowSelection P = NoSelection \<and> (\<exists>c. t_alert P = AlertObject True c))"
  by (cases "t_alert P") (auto simp: showAlert_def split: bool.splits row_selection.splits)

section \<open>Failed requests\<close>

fun stops_loading :: "'r table_event \<Rightarrow> bool" where
  "stops_loading (Reply i r) = True"
| "stops_loading (Refresh b l) = (\<not> l)"
| "stops_loading _ = False"

lemma loading_step:
  "localLoading (snd s) \<Longrightarrow> \<not> stops_loading e \<Longrightarrow> localLoading (snd (table_step cell s e))"
  by (cases s; cases e)
    (simp_all add: table_step_def refresh_def loadData_def assign_pager_def clearSelected_def
      updateSelect_def Let_def split: pager.splits)

lemma loading_run:
  "localLoading (snd s) \<Longrightarrow> \<not> list_ex stops_loading es \<Longrightarrow> localLoading (snd (table_run cell s es))"
  by (induction es arbitrary: s) (simp_all add: table_run_def loading_step)

text \<open>A failed request leaves the table loading: nothing but the reply to some request or a silent
  refresh stops the loading indicator, in particular not the failure of all requests.\<close>

theorem failure_keeps_loading:
  assumes "\<not> list_ex stops_loading es"
  shows "localLoading (snd (table_run cell (mounted_table P r) es))"
  using assms by (intro loading_run) (simp_all add: mounted_table_def created_def loadData_def Let_def)

theorem failure_keeps_loading_witness:
  "localLoading (snd (table_run (\<lambda>_ _. []) (mounted_table (default_props None) None) [Fail 0, PageNum 2, Fail 0]))"
  by (rule failure_keeps_loading) simp

end
