(* ===== verification/Monitor.thy ===== *)
theory Monitor
  imports STable
begin

text \<open>
  The monitor pages \<open>views/monitor/server.vue\<close>, \<open>link.vue\<close>, \<open>switch.vue\<close> and
  \<open>sfci.vue\<close>: the data source each hands to its table, which fetches all rows and cuts the page
  out of them, and the refresh every two seconds. The four sources are the same but for the request.
\<close>

section \<open>The data source\<close>

text \<open>\<open>xs.slice(start, end)\<close>; a negative index counts from the end, \<open>NaN\<close> is zero.\<close>

definition slice_index :: "nat \<Rightarrow> int option \<Rightarrow> nat" where
  "slice_index n i =
     (case i of
        None \<Rightarrow> 0
      | Some k \<Rightarrow> (if k < 0 then nat (int n + k) else min n (nat k)))"

definition js_slice :: "'a list \<Rightarrow> int option \<Rightarrow> int option \<Rightarrow> 'a list" where
  "js_slice xs start end =
     (let a = slice_index (length xs) start; b = slice_index (length xs) end in take (b - a) (drop a xs))"

definition page_loader :: "'r list \<Rightarrow> params \<Rightarrow> 'r page" where
  "page_loader res q =
     (let pageNo = num_of (q ''pageNo''); pageSize = num_of (q ''pageSize'');
          start = num_op (*) (num_op (-) pageNo (Some 1)) pageSize;
          end = num_op (+) start pageSize
      in \<lparr>pg_data = Some (js_slice res start end),
          pg_pageSize = pageSize,
          pg_pageNo = pageNo,
          pg_totalPage = Option.bind pageSize (ceil_div (int (length res))),
          pg_totalCount = Some (int (length res))\<rparr>)"

lemma js_slice_page:
  "0 < p \<Longrightarrow> js_slice rows (Some ((int p - 1) * int s)) (Some ((int p - 1) * int s + int s)) = slice_of s p rows"
proof -
  assume "0 < p"
  then have "(int p - 1) * int s = int ((p - 1) * s)" by (simp add: of_nat_diff)
  moreover have "take (min (length rows) (k + s) - min (length rows) k) (drop (min (length rows) k) rows) =
      take s (drop k rows)" for k
    by (cases "k \<le> length rows") (auto simp: min_def)
  ultimately show ?thesis
    by (simp add: js_slice_def slice_index_def slice_of_def nat_add_distrib del: of_nat_mult)
qed

interpretation monitor: page_source "page_loader rows" rows
  by unfold_locales (auto simp: page_loader_def js_slice_page)

section \<open>The pages\<close>

text \<open>A monitor page opens with the props of its template: only the columns differ from the defaults. The
  refresh of the interval timer is \<open>refresh(false, false)\<close>.\<close>

definition monitor_table :: "column list \<Rightarrow> table_props \<times> 'r table_state" where
  "monitor_table columns = mounted_table (default_props (Some columns)) None"

definition monitor_tick :: "'r table_event" where
  "monitor_tick = Refresh False False"

lemma paged_default [simp]: "paged (default_props columns)"
  by (simp add: paged_def default_props_def)

text \<open>A monitor page opens on the first ten rows of what the controller reports and counts all of
  them, after one reply.\<close>

theorem monitor_opens:
  "\<exists>st. settle 1 (page_loader rows) cell (monitor_table columns) = (default_props (Some columns), st) \<and>
     shows_page st rows 1 10"
proof -
  let ?P = "default_props (Some columns)"
  have "asks (created ?P None (init_table ?P)) 1 10"
    by (rule created_asks) (simp_all add: default_props_def paged_def)
  then have "asks (watch_current ?P (created ?P None (init_table ?P))) 1 10" by simp
  from monitor.settles [OF this paged_default, of 1 rows cell] show ?thesis
    by (simp add: monitor_table_def mounted_table_def last_page_def)
qed

text \<open>A refresh of a monitor page shows the same page of the rows the controller reports now; if there
  are so few rows left that the page is gone, it goes back, page by page, to the last one that has
  rows, and at worst to the first.\<close>

theorem monitor_refresh:
  assumes "shows_page st rows p s" "paged P" "0 < s" "0 < p"
  shows "\<exists>st'. settle p (page_loader rows') cell (table_step cell (P, st) monitor_tick) = (P, st') \<and>
    shows_page st' rows' (min p (last_page s rows')) s"
proof -
  have "asks (watch_current P (refresh P False False st)) p s"
    using refresh_asks [OF assms, of False] by simp
  from monitor.settles [OF this assms(2-4) order_refl, of rows' cell] show ?thesis
    by (simp add: table_step_def monitor_tick_def)
qed

theorem monitor_refresh_witness:
  "\<exists>st'. settle 2 (page_loader [CHR ''a'']) (\<lambda>_ _. [])
       (table_step (\<lambda>_ _. []) (default_props None,
          (init_table (default_props None))\<lparr>localDataSource := ''b'',
             localPagination := Pager \<lparr>pn_current = Some 2, pn_pageSize = Some 1, pn_total = Some 2,
               pn_showSizeChanger = None, pn_hideOnSinglePage = False\<rparr>\<rparr>) monitor_tick) =
       (default_props None, st') \<and> shows_page st' [CHR ''a''] 1 1"
proof -
  let ?st = "(init_table (default_props None))\<lparr>localDataSource := ''b'',
      localPagination := Pager \<lparr>pn_current = Some 2, pn_pageSize = Some 1, pn_total = Some 2,
        pn_showSizeChanger = None, pn_hideOnSinglePage = False\<rparr>\<rparr>"
  have "shows_page ?st ''ab'' 2 1"
    by (simp add: shows_page_def displays_def init_table_def slice_of_def Let_def)
  from monitor_refresh [OF this paged_default, of "''a''" "\<lambda>_ _. []"] show ?thesis
    by (simp add: last_page_def)
qed

text \<open>C16: replies that overtake each other: a user asks for one page and then for another, and the reply to
  the second request comes first. When both are in, the table is back on the page asked for first,
  though the other one was the user's last choice.\<close>

theorem overtaken_reply_wins:
  assumes "in_flight st = []" "paged P" "0 < s"
    and "0 < p" "p \<le> last_page s rows" "0 < p'" "p' \<le> last_page s rows"
    and "pn_current pg = Some (int p)" "pn_pageSize pg = Some (int s)"
    and "pn_current pg' = Some (int p')" "pn_pageSize pg' = Some (int s)"
  shows "let asked = table_run cell (P, st) [Change pg (\<lambda>k. None) so, Change pg' (\<lambda>k. None) so];
             reply = (\<lambda>i. Reply i (page_loader rows (snd (in_flight (snd asked) ! i))))
         in shows_page (snd (table_run cell asked [reply 1, reply 0])) rows p s"
proof -
  define q where "q = request_params P (Some pg) (\<lambda>k. None) so (localPagination st)"
  define q' where "q' = request_params P (Some pg') (\<lambda>k. None) so (localPagination st)"
  obtain st1 where st1: "table_run cell (P, st) [Change pg (\<lambda>k. None) so, Change pg' (\<lambda>k. None) so] = (P, st1)"
    and flight: "in_flight st1 = [(Some pg, q), (Some pg', q')]" and "filters st1 = (\<lambda>k. None)"
    using assms(1) by (simp add: table_run_def table_step_def loadData_def q_def q'_def)
  have q: "num_of (q ''pageNo'') = Some (int p)" "num_of (q ''pageSize'') = Some (int s)"
    "num_of (q' ''pageNo'') = Some (int p')" "num_of (q' ''pageSize'') = Some (int s)"
    using assms(3-11)
    by (simp_all add: q_def q'_def request_params_def num_of_def Let_def map_add_def)
  obtain st2 where st2: "table_step cell (P, st1) (Reply 1 (page_loader rows q')) = (P, st2)"
    "in_flight st2 = [(Some pg, q)]" "filters st2 = (\<lambda>k. None)"
    using monitor.reply_displays [where i = 1 and st = st1 and P = P and q = q' and cell = cell
        and pg = "Some pg'" and p = p' and s = s and rows = rows]
      flight q assms \<open>filters st1 = _\<close>
    by (auto simp: drop_nth_def)
  obtain st3 where st3: "table_step cell (P, st2) (Reply 0 (page_loader rows q)) = (P, st3)"
    "shows_page st3 rows p s"
    using monitor.reply_displays [where i = 0 and st = st2 and P = P and q = q and cell = cell
        and pg = "Some pg" and p = p and s = s and rows = rows]
      st2 q assms
    by (auto simp: drop_nth_def shows_page_def)
  from st1 flight st2(1) st3 show ?thesis
    by (simp add: table_run_def Let_def)
qed

theorem overtaken_reply_wins_witness:
  "let pg = (\<lambda>p. no_pagination\<lparr>pn_current := Some p, pn_pageSize := Some 1\<rparr>);
       so = \<lparr>so_field = None, so_order = None\<rparr>;
       asked = table_run (\<lambda>_ _. []) (default_props None, init_table (default_props None))
         [Change (pg 2) (\<lambda>k. None) so, Change (pg 1) (\<lambda>k. None) so];
       reply = (\<lambda>i. Reply i (page_loader ''ab'' (snd (in_flight (snd asked) ! i))))
   in shows_page (snd (table_run (\<lambda>_ _. []) asked [reply 1, reply 0])) ''ab'' 2 1"
  unfolding Let_def
  by (rule overtaken_reply_wins [where p' = 1, unfolded Let_def])
    (simp_all add: init_table_def last_page_def Let_def)

end
