(* ===== verification/Request.thy ===== *)
theory Request
  imports UserStore
begin

text \<open>
  The HTTP layer: the interceptors of \<open>utils/request.js\<close>, the plugin of \<open>utils/axios.js\<close>, and the
  calls of \<open>src/api/\<close>. What the server answers is an argument. axios itself, which is not in the
  repository, runs the interceptors: the request one on the configuration, and the error handler on
  every failed response.
\<close>

section \<open>The clients and their interceptors\<close>

datatype base_url = ApiPrefix | ApiEnvironment

record client =
  cl_baseURL :: base_url
  cl_timeout :: nat

definition request :: client where
  "request = \<lparr>cl_baseURL = ApiPrefix, cl_timeout = 6000\<rparr>"

definition request2 :: client where
  "request2 = \<lparr>cl_baseURL = ApiEnvironment, cl_timeout = 6000\<rparr>"

record problem =
  pr_message :: string
  pr_isLogin :: bool

text \<open>A failed request: the response that came, or none at all. Its body is an object or a text, of which the
  two members matter that the handler reads, or \<open>null\<close>, which is \<open>None\<close>.\<close>

record error_response =
  er_status :: nat
  er_data :: "problem option"

type_synonym http_error = "error_response option"

datatype notice = Forbidden string | Unauthorized

record 'm session =
  ss_stored :: 'm
  ss_user :: user_state
  ss_notices :: "notice list"
  ss_logouts :: nat
  ss_reloads :: nat

text \<open>The request interceptor adds the token to the headers.\<close>

definition add_token :: "'m storage_ops \<Rightarrow> 'm \<Rightarrow> (string \<Rightarrow> jsval option) \<Rightarrow> string \<Rightarrow> jsval option" where
  "add_token S m headers =
     (let token = s_get S m ACCESS_TOKEN in
      if js_truthy token then headers(''Access-Token'' \<mapsto> token) else headers)"

definition api_error :: "http_error \<Rightarrow> js_error" where
  "api_error err = ApiError (map_option er_status err)"

definition notify :: "notice \<Rightarrow> 'm session \<Rightarrow> 'm session" where
  "notify n st = st\<lparr>ss_notices := ss_notices st @ [n]\<rparr>"

text \<open>The error handler: the session, whether it dispatches a logout, and what it rejects with. The body is
  \<open>None\<close> when the server answered \<open>null\<close>, which makes the handler throw before it has shown
  anything; an empty body is the empty text, whose \<open>message\<close> is undefined.\<close>

definition errorHandler ::
    "'m storage_ops \<Rightarrow> http_error \<Rightarrow> 'm session \<Rightarrow> 'm session \<times> bool \<times> js_error" where
  "errorHandler S err st =
     (case err of
        None \<Rightarrow> (st, False, api_error err)
      | Some response \<Rightarrow>
          (let token = s_get S (ss_stored st) ACCESS_TOKEN in
           if er_status response = 403 then
             (case er_data response of
                None \<Rightarrow> (st, False, TypeError)
              | Some d \<Rightarrow> (notify (Forbidden (pr_message d)) st, False, api_error err))
           else if er_status response = 401 then
             (case er_data response of
                None \<Rightarrow> (st, False, TypeError)
              | Some d \<Rightarrow>
                  (if \<not> pr_isLogin d then (notify Unauthorized st, js_truthy token, api_error err)
                   else (st, False, api_error err)))
           else (st, False, api_error err)))"

text \<open>A dispatched logout sends a request of its own, whose failure goes through the same handler.
  \<open>out k\<close> answers the \<open>k\<close>-th logout request of the session. When one succeeds, the page is
  reloaded; a failed one leaves its promise unsettled. The result says whether the chain has ended.\<close>

fun logout_chain ::
    "nat \<Rightarrow> 'm storage_ops \<Rightarrow> (nat \<Rightarrow> http_error + unit) \<Rightarrow> 'm session \<Rightarrow> 'm session \<times> bool" where
  "logout_chain 0 S out st = (st, False)"
| "logout_chain (Suc n) S out st =
     (let answer = out (ss_logouts st);
          st = st\<lparr>ss_logouts := Suc (ss_logouts st)\<rparr>
      in (case answer of
            Inr _ \<Rightarrow>
              (let (m, u) = fst (Logout S (Inr ()) (ss_stored st, ss_user st)) in
               (st\<lparr>ss_stored := m, ss_user := u, ss_reloads := Suc (ss_reloads st)\<rparr>, True))
          | Inl err \<Rightarrow>
              (let (st, again, e) = errorHandler S err st;
                   (m, u) = fst (Logout S (Inl e) (ss_stored st, ss_user st));
                   st = st\<lparr>ss_stored := m, ss_user := u\<rparr>
               in if again then logout_chain n S out st else (st, True))))"

section \<open>The plugin\<close>

record vue_axios =
  va_installed :: bool
  va_http :: "client option"
  va_errors :: nat

definition install :: "client option \<Rightarrow> vue_axios \<Rightarrow> vue_axios" where
  "install instance v =
     (if va_installed v then v
      else
        (let v = v\<lparr>va_installed := True\<rparr> in
         (case instance of
            None \<Rightarrow> v\<lparr>va_errors := Suc (va_errors v)\<rparr>
          | Some c \<Rightarrow> v\<lparr>va_http := Some c\<rparr>)))"

definition installer :: "vue_axios \<Rightarrow> vue_axios" where
  "installer v = install (Some request2) (install (Some request) v)"

section \<open>The calls\<close>

datatype http_method = Get | Post | Put

datatype payload = NoPayload | Params | Body

record api_call =
  ac_client :: client
  ac_url :: string
  ac_method :: http_method
  ac_payload :: payload
  ac_json :: bool

definition call :: "client \<Rightarrow> http_method \<Rightarrow> string \<Rightarrow> payload \<Rightarrow> api_call" where
  "call c met url p = \<lparr>ac_client = c, ac_url = url, ac_method = met, ac_payload = p, ac_json = False\<rparr>"

definition api_login :: api_call where "api_login = call request Post ''/auth/login'' Body"
definition api_getSmsCaptcha :: api_call where "api_getSmsCaptcha = call request Post ''/account/sms'' Body"
definition api_getInfo :: api_call where
  "api_getInfo = (call request Get ''/user/info'' NoPayload)\<lparr>ac_json := True\<rparr>"
definition api_getCurrentUserNav :: api_call where
  "api_getCurrentUserNav = call request Get ''/user/nav'' NoPayload"
definition api_logout :: api_call where
  "api_logout = (call request Post ''/auth/logout'' NoPayload)\<lparr>ac_json := True\<rparr>"
definition api_get2step :: api_call where "api_get2step = call request Post ''/auth/2step-code'' Body"

definition api_getUserList :: api_call where "api_getUserList = call request Get ''/user'' Params"
definition api_getRoleList :: api_call where "api_getRoleList = call request Get ''/role'' Params"
definition api_getServiceList :: api_call where "api_getServiceList = call request Get ''/service'' Params"
definition api_getPermissions :: api_call where
  "api_getPermissions = call request Get ''/permission/no-pager'' Params"
definition api_getOrgTree :: api_call where "api_getOrgTree = call request Get ''/org/tree'' Params"

text \<open>An identifier of zero stands for a new record.\<close>

definition api_saveService :: "int \<Rightarrow> api_call" where
  "api_saveService i = call request (if i = 0 then Post else Put) ''/service'' Body"
definition api_saveSub :: "int \<Rightarrow> api_call" where
  "api_saveSub i = call request (if i = 0 then Post else Put) ''/sub'' Body"

definition api_getServerSet :: api_call where
  "api_getServerSet = call request2 Get ''/measure/servers/'' NoPayload"
definition api_getLinks :: api_call where "api_getLinks = call request2 Get ''/measure/links/'' NoPayload"
definition api_getSwitches :: api_call where
  "api_getSwitches = call request2 Get ''/measure/switches/'' NoPayload"
definition api_getSFCIs :: api_call where "api_getSFCIs = call request2 Get ''/measure/sfcis/'' NoPayload"

section \<open>What the handler guarantees\<close>

text \<open>A 401 with a body that is not the one of a failed login.\<close>

definition unauthorized :: "http_error + unit \<Rightarrow> bool" where
  "unauthorized a =
     (case a of
        Inl (Some r) \<Rightarrow> er_status r = 401 \<and> (case er_data r of None \<Rightarrow> False | Some d \<Rightarrow> \<not> pr_isLogin d)
      | _ \<Rightarrow> False)"

lemma errorHandler_again:
  "fst (snd (errorHandler S err st)) \<longleftrightarrow>
     unauthorized (Inl err) \<and> js_truthy (s_get S (ss_stored st) ACCESS_TOKEN)"
  by (simp add: errorHandler_def unauthorized_def notify_def Let_def split: option.splits)

lemma errorHandler_keeps [simp]:
  "ss_stored (fst (errorHandler S err st)) = ss_stored st"
  "ss_user (fst (errorHandler S err st)) = ss_user st"
  "ss_logouts (fst (errorHandler S err st)) = ss_logouts st"
  "ss_reloads (fst (errorHandler S err st)) = ss_reloads st"
  by (simp_all add: errorHandler_def notify_def Let_def split: option.splits)

lemma errorHandler_notices:
  "unauthorized (Inl err) \<Longrightarrow> ss_notices (fst (errorHandler S err st)) = ss_notices st @ [Unauthorized]"
  by (auto simp: errorHandler_def unauthorized_def notify_def Let_def split: option.splits)

text \<open>Every failed request is rejected, with its own status unless it is a 401 or 403 with the body \<open>null\<close>,
  and only a 401 that is not a failed login logs the user out, and only if there is a token.\<close>

lemma errorHandler_outcome:
  "errorHandler S err st =
     (fst (errorHandler S err st),
      unauthorized (Inl err) \<and> js_truthy (s_get S (ss_stored st) ACCESS_TOKEN),
      if err \<in> (\<lambda>c. Some \<lparr>er_status = c, er_data = None\<rparr>) ` {401, 403} then TypeError else api_error err)"
  by (cases err; cases "the err")
    (auto simp: errorHandler_def unauthorized_def notify_def Let_def split: option.splits)

text \<open>One more logout request in a chain.\<close>

lemma logout_chain_unauthorized:
  assumes "unauthorized (out (ss_logouts st))" "js_truthy (s_get S (ss_stored st) ACCESS_TOKEN)"
  shows "\<exists>st'. (\<forall>n. logout_chain (Suc n) S out st = logout_chain n S out st') \<and>
    ss_stored st' = ss_stored st \<and> ss_user st' = ss_user st \<and> ss_logouts st' = Suc (ss_logouts st) \<and>
    ss_notices st' = ss_notices st @ [Unauthorized]"
proof -
  obtain err where err: "out (ss_logouts st) = Inl err"
    using assms(1) by (cases "out (ss_logouts st)") (auto simp: unauthorized_def)
  let ?st = "st\<lparr>ss_logouts := Suc (ss_logouts st)\<rparr>"
  obtain st1 again e where h: "errorHandler S err ?st = (st1, again, e)"
    by (metis prod_cases3)
  have "again" using errorHandler_again [of S err ?st] assms err h by simp
  moreover have "ss_stored st1 = ss_stored st" "ss_user st1 = ss_user st"
    "ss_logouts st1 = Suc (ss_logouts st)" "ss_notices st1 = ss_notices st @ [Unauthorized]"
    using errorHandler_keeps [of S err ?st] errorHandler_notices [of err S ?st] assms(1) err h
    by simp_all
  ultimately show ?thesis
    using err h by (auto simp: Logout_def Let_def)
qed

lemma logout_chain_ends:
  assumes "\<not> unauthorized (out (ss_logouts st))"
  shows "snd (logout_chain (Suc n) S out st)"
proof (cases "out (ss_logouts st)")
  case (Inl err)
  obtain st1 again e where h:
      "errorHandler S err (st\<lparr>ss_logouts := Suc (ss_logouts st)\<rparr>) = (st1, again, e)"
    by (metis prod_cases3)
  with errorHandler_again [of S err "st\<lparr>ss_logouts := Suc (ss_logouts st)\<rparr>"] assms Inl
  have "\<not> again" by simp
  with Inl h show ?thesis by (simp add: Let_def split_beta)
next
  case (Inr u)
  then show ?thesis by (simp add: Let_def split_beta)
qed

lemma logout_chain_all:
  assumes "js_truthy (s_get S (ss_stored st) ACCESS_TOKEN)" "\<forall>k<n. unauthorized (out (ss_logouts st + k))"
  shows "\<not> snd (logout_chain n S out st) \<and>
    ss_notices (fst (logout_chain n S out st)) = ss_notices st @ replicate n Unauthorized \<and>
    ss_logouts (fst (logout_chain n S out st)) = ss_logouts st + n"
  using assms
proof (induction n arbitrary: st)
  case (Suc n)
  have first: "unauthorized (out (ss_logouts st))" using Suc.prems(2) by (metis add_0_right zero_less_Suc)
  obtain st' where st': "\<forall>n. logout_chain (Suc n) S out st = logout_chain n S out st'"
    "ss_stored st' = ss_stored st" "ss_logouts st' = Suc (ss_logouts st)"
    "ss_notices st' = ss_notices st @ [Unauthorized]"
    using logout_chain_unauthorized [of out st S, OF first Suc.prems(1)] by blast
  have "\<forall>k<n. unauthorized (out (ss_logouts st' + k))"
    using Suc.prems(2) st'(3) by auto
  with Suc.IH [of st'] Suc.prems(1) st' show ?case by simp
qed simp

lemma logout_chain_until:
  assumes "js_truthy (s_get S (ss_stored st) ACCESS_TOKEN)" "\<not> unauthorized (out (ss_logouts st + k))"
  shows "\<exists>n. snd (logout_chain n S out st)"
  using assms
proof (induction k arbitrary: st)
  case 0
  then have "snd (logout_chain (Suc 0) S out st)" by (intro logout_chain_ends) simp
  then show ?case ..
next
  case (Suc k)
  show ?case
  proof (cases "unauthorized (out (ss_logouts st))")
    case True
    then obtain st' where st': "\<forall>n. logout_chain (Suc n) S out st = logout_chain n S out st'"
      "ss_stored st' = ss_stored st" "ss_logouts st' = Suc (ss_logouts st)"
      using logout_chain_unauthorized [of out st S] Suc.prems(1) by auto
    then have "\<exists>n. snd (logout_chain n S out st')"
      using Suc.IH [of st'] Suc.prems by simp
    with st'(1) show ?thesis by metis
  next
    case False
    then have "snd (logout_chain (Suc 0) S out st)" by (rule logout_chain_ends)
    then show ?thesis ..
  qed
qed

text \<open>C14: a logged-in user whose token is refused is logged out in a chain of requests: the logout request
  that is refused as well triggers another logout. The chain ends exactly if some answer is not such
  a refusal. As long as every answer is one, each round sends one more logout request and shows one more
  notification, so against a server that refuses the token for every request there is no end to them.\<close>

theorem logout_chain_ends_iff:
  assumes "js_truthy (s_get S (ss_stored st) ACCESS_TOKEN)"
  shows "((\<exists>n. snd (logout_chain n S out st)) \<longleftrightarrow> (\<exists>k. \<not> unauthorized (out (ss_logouts st + k)))) \<and>
    (\<forall>n. (\<forall>k<n. unauthorized (out (ss_logouts st + k))) \<longrightarrow>
       ss_logouts (fst (logout_chain n S out st)) = ss_logouts st + n \<and>
       ss_notices (fst (logout_chain n S out st)) = ss_notices st @ replicate n Unauthorized)"
proof (intro conjI allI impI iffI)
  assume "\<exists>n. snd (logout_chain n S out st)"
  then show "\<exists>k. \<not> unauthorized (out (ss_logouts st + k))" using logout_chain_all [OF assms] by blast
next
  assume "\<exists>k. \<not> unauthorized (out (ss_logouts st + k))"
  then show "\<exists>n. snd (logout_chain n S out st)" using logout_chain_until [OF assms] by blast
qed (use logout_chain_all [OF assms] in blast)+

definition sample_session :: "(string \<times> jsval) list session" where
  "sample_session = \<lparr>ss_stored = [(ACCESS_TOKEN, JStr ''t'')], ss_user = init_user, ss_notices = [],
     ss_logouts = 0, ss_reloads = 0\<rparr>"

theorem logout_chain_ends_iff_witness:
  "let out = (\<lambda>k. Inl (Some \<lparr>er_status = 401, er_data = Some \<lparr>pr_message = [], pr_isLogin = False\<rparr>\<rparr>)) in
   \<not> (\<exists>n. snd (logout_chain n alist_storage out sample_session)) \<and>
   ss_notices (fst (logout_chain 3 alist_storage out sample_session)) = [Unauthorized, Unauthorized, Unauthorized]"
proof -
  let ?out = "\<lambda>k. Inl (Some \<lparr>er_status = 401, er_data = Some \<lparr>pr_message = [], pr_isLogin = False\<rparr>\<rparr>)"
  have "js_truthy (s_get alist_storage (ss_stored sample_session) ACCESS_TOKEN)"
    by (simp add: sample_session_def alist_storage_def)
  note chain = logout_chain_ends_iff [OF this, of ?out]
  have all: "unauthorized (?out k)" for k :: nat by (simp add: unauthorized_def)
  from chain all have "ss_notices (fst (logout_chain 3 alist_storage ?out sample_session)) =
      ss_notices sample_session @ replicate 3 Unauthorized" by blast
  moreover have "replicate 3 Unauthorized = [Unauthorized, Unauthorized, Unauthorized]"
    by (simp add: eval_nat_numeral)
  ultimately show ?thesis
    using chain all unfolding Let_def by (simp only:) (simp add: sample_session_def del: logout_chain.simps)
qed

end
