(* ===== verification/PermissionUI.thy ===== *)
theory PermissionUI
  imports UserStore Routes
begin

text \<open>
  Permissions inside a page: the \<open>$auth\<close> helper of \<open>core/permission/permission.js\<close> and the
  \<open>v-action\<close> directive of \<open>core/directives/action.js\<close>.
\<close>

section \<open>\<open>$auth\<close>\<close>

text \<open>\<open>getters.roles.permissions\<close>: without a role the getter is an empty array, which has no such
  property.\<close>

definition role_permissions :: "roles_value \<Rightarrow> permission list option" where
  "role_permissions rv = (case rv of NoRoles \<Rightarrow> None | Roles ro \<Rightarrow> ro_permissions ro)"

definition auth :: "roles_value \<Rightarrow> string \<Rightarrow> js_error + bool" where
  "auth rv permissions =
     (let parts = split_on (CHR ''.'') permissions;
          permission = hd parts;
          action = (case tl parts of [] \<Rightarrow> None | a # _ \<Rightarrow> Some a)
      in (case role_permissions rv of
            None \<Rightarrow> Inl TypeError
          | Some permissionList \<Rightarrow>
              (case find (\<lambda>val. p_permissionId val = permission) permissionList of
                 None \<Rightarrow> Inl TypeError
               | Some p \<Rightarrow>
                   (case p_actionList p of
                      None \<Rightarrow> Inl TypeError
                    | Some actions \<Rightarrow> Inr (list_ex (\<lambda>val. Some val = action) actions)))))"

section \<open>\<open>v-action\<close>\<close>

record element =
  el_attached :: bool
  el_displayed :: bool

text \<open>\<open>el.parentNode && el.parentNode.removeChild(el) || (el.style.display = 'none')\<close>\<close>

definition hide :: "element \<Rightarrow> element" where
  "hide el = (if el_attached el then el\<lparr>el_attached := False\<rparr> else el\<lparr>el_displayed := False\<rparr>)"

text \<open>The directive's \<open>inserted\<close> hook. A string literal is no \<open>String\<close> object, so the route's
  permission is used as it is: a list, or a string whose \<open>includes\<close> looks for a part of it.\<close>

fun action_loop :: "permission_spec \<Rightarrow> string \<Rightarrow> permission list \<Rightarrow> element \<Rightarrow> element" where
  "action_loop spec actionName [] el = el"
| "action_loop spec actionName (p # ps) el =
     action_loop spec actionName ps
       (if \<not> spec_includes spec (p_permissionId p) then el
        else (case p_actionList p of
                None \<Rightarrow> el
              | Some actions \<Rightarrow> (if actionName \<notin> set actions then hide el else el)))"

definition action_directive ::
    "roles_value \<Rightarrow> permission_spec option \<Rightarrow> string \<Rightarrow> element \<Rightarrow> js_error + element" where
  "action_directive rv spec actionName el =
     (case role_permissions rv of
        None \<Rightarrow> Inl TypeError
      | Some [] \<Rightarrow> Inr el
      | Some (p # ps) \<Rightarrow>
          (case spec of
             None \<Rightarrow> Inl TypeError
           | Some sp \<Rightarrow> Inr (action_loop sp actionName (p # ps) el)))"

section \<open>What they decide\<close>

lemma find_Some_first:
  "find P xs = Some x \<Longrightarrow> x \<in> set xs \<and> P x"
  by (induction xs) (auto split: if_splits)

lemma split_pair: "CHR ''.'' \<notin> set p \<Longrightarrow> CHR ''.'' \<notin> set a \<Longrightarrow> split_on (CHR ''.'') (p @ ''.'' @ a) = [p, a]"
  by (simp add: split_on_append split_on_no_sep)

lemma auth_pair:
  assumes "CHR ''.'' \<notin> set p" "CHR ''.'' \<notin> set a"
  shows "auth rv (p @ ''.'' @ a) =
    (case Option.bind (role_permissions rv) (find (\<lambda>val. p_permissionId val = p)) of
       None \<Rightarrow> Inl TypeError
     | Some per \<Rightarrow> (case p_actionList per of None \<Rightarrow> Inl TypeError | Some acts \<Rightarrow> Inr (a \<in> set acts)))"
  using split_pair [OF assms]
  by (auto simp: auth_def Let_def list_ex_iff split: option.splits bind_splits)

lemma with_actions_simps [simp]:
  "p_permissionId (with_actions per) = p_permissionId per"
  "p_actionEntitySet (with_actions per) = p_actionEntitySet per"
  "p_actionEntitySet per = Some (e # es) \<Longrightarrow>
     p_actionList (with_actions per) = Some (map ae_action (e # es))"
  by (simp_all add: with_actions_def split: option.splits list.splits)

lemma find_with_actions:
  "find (\<lambda>val. p_permissionId val = p) (map with_actions ps) =
     map_option with_actions (find (\<lambda>val. p_permissionId val = p) ps)"
  by (induction ps) auto

text \<open>Once the user information has been fetched, \<open>$auth('p.a')\<close> is true exactly if \<open>a\<close> is among
  the actions of the first permission called \<open>p\<close>. For a permission the user does not have at all it
  does not answer false but throws.\<close>

theorem auth_after_GetInfo:
  assumes "GetInfo g (Inr (Some result)) s = (s', Resolved res)"
    and "ui_role result = Some ro" "ro_permissions ro = Some ps"
    and "CHR ''.'' \<notin> set p" "CHR ''.'' \<notin> set a"
  shows "auth (us_roles s') (p @ ''.'' @ a) =
    (case find (\<lambda>per. p_permissionId per = p) ps of
       None \<Rightarrow> Inl TypeError
     | Some per \<Rightarrow>
         (case p_actionList (with_actions per) of
            None \<Rightarrow> Inl TypeError
          | Some acts \<Rightarrow> Inr (a \<in> set acts)))"
proof -
  have "role_permissions (us_roles s') = Some (map with_actions ps)"
    using assms(1-3)
    by (auto simp: store_simps Let_def role_permissions_def with_permission_list_def split: list.splits)
  then show ?thesis
    by (simp add: auth_pair [OF assms(4,5), simplified] find_with_actions split: option.splits)
qed

text \<open>A user with one permission and one action in it, for witnesses.\<close>

definition form_permission :: permission where
  "form_permission = \<lparr>p_roleId = ''r'', p_permissionId = ''form'', p_permissionName = ''form'', p_actions = [],
     p_actionEntitySet = Some [\<lparr>ae_action = ''edit'', ae_describe = [], ae_defaultCheck = False\<rparr>],
     p_actionList = None\<rparr>"

definition form_role :: role where
  "form_role = \<lparr>ro_id = ''r'', ro_name = [], ro_permissions = Some [form_permission],
     ro_permissionList = None\<rparr>"

definition form_user :: user_info where
  "form_user = \<lparr>ui_id = [], ui_name = [], ui_username = [], ui_avatar = [], ui_role = Some form_role\<rparr>"

theorem auth_after_GetInfo_witness:
  "auth (us_roles (fst (GetInfo [] (Inr (Some form_user)) init_user))) (''form'' @ ''.'' @ ''edit'') = Inr True \<and>
   auth (us_roles (fst (GetInfo [] (Inr (Some form_user)) init_user))) (''user'' @ ''.'' @ ''edit'') = Inl TypeError"
proof -
  let ?s = "fst (GetInfo [] (Inr (Some form_user)) init_user)"
  obtain res where res: "GetInfo [] (Inr (Some form_user)) init_user = (?s, Resolved res)"
    by (simp add: form_user_def form_role_def store_simps Let_def)
  have "ui_role form_user = Some form_role" "ro_permissions form_role = Some [form_permission]"
    by (simp_all add: form_user_def form_role_def)
  note auth = auth_after_GetInfo [OF res this]
  show ?thesis
  proof
    show "auth (us_roles ?s) (''form'' @ ''.'' @ ''edit'') = Inr True"
      by (subst auth) (simp_all add: form_permission_def with_actions_def)
    show "auth (us_roles ?s) (''user'' @ ''.'' @ ''edit'') = Inl TypeError"
      by (subst auth) (simp_all add: form_permission_def)
  qed
qed

lemma action_loop_attached:
  "el_attached (action_loop spec a ps el) \<longleftrightarrow>
     el_attached el \<and>
     list_all (\<lambda>p. \<not> spec_includes spec (p_permissionId p) \<or>
       (case p_actionList p of None \<Rightarrow> True | Some acts \<Rightarrow> a \<in> set acts)) ps"
  by (induction ps arbitrary: el) (auto simp: hide_def split: option.splits)

text \<open>The directive removes an element exactly if some permission of the user that the route asks for
  has an action list without the action. An element stays, contrary to the comment above the
  directive, when the user has none of the permissions the route asks for.\<close>

theorem action_directive_removes_iff:
  assumes "role_permissions rv = Some ps" "el_attached el"
  shows "(case action_directive rv (Some spec) a el of
      Inl e \<Rightarrow> False
    | Inr el' \<Rightarrow> el_attached el' \<longleftrightarrow>
        filter (\<lambda>p. spec_includes spec (p_permissionId p) \<and>
          (case p_actionList p of None \<Rightarrow> False | Some acts \<Rightarrow> a \<notin> set acts)) ps = [])"
  using assms
  by (auto simp: action_directive_def action_loop_attached filter_empty_conv list_all_iff
      simp del: action_loop.simps split: list.splits option.splits)

theorem action_directive_removes_iff_witness:
  "(case action_directive (Roles \<lparr>ro_id = ''r'', ro_name = [],
        ro_permissions = Some [with_actions form_permission], ro_permissionList = None\<rparr>)
      (Some (PermList [''form''])) ''delete'' \<lparr>el_attached = True, el_displayed = True\<rparr> of
    Inl e \<Rightarrow> False
  | Inr el \<Rightarrow> \<not> el_attached el)"
proof -
  let ?rv = "Roles \<lparr>ro_id = ''r'', ro_name = [], ro_permissions = Some [with_actions form_permission],
      ro_permissionList = None\<rparr>"
  have "role_permissions ?rv = Some [with_actions form_permission]" by (simp add: role_permissions_def)
  from action_directive_removes_iff [OF this, of "\<lparr>el_attached = True, el_displayed = True\<rparr>"
      "PermList [''form'']" "''delete''"]
  show ?thesis
    by (simp add: with_actions_def form_permission_def split: sum.splits)
qed

end
