(* ===== verification/TextUtil.thy ===== *)
theory TextUtil
  imports Prelude "HOL-Library.Word"
begin

text \<open>
  Text helpers: the width functions of \<open>components/_util/util.js\<close>, on the 16-bit code units that
  \<open>split('')\<close> and \<open>charCodeAt\<close> work with, and the \<open>NumberFormat\<close> filter of
  \<open>utils/filter.js\<close>.
\<close>

section \<open>Width of a text\<close>

type_synonym code_units = "16 word list"

definition unit_width :: "16 word \<Rightarrow> nat" where
  "unit_width charCode = (if 0 \<le> charCode \<and> charCode \<le> 128 then 1 else 2)"

definition getStrFullLength :: "code_units \<Rightarrow> nat" where
  "getStrFullLength str = foldl (\<lambda>pre cur. pre + unit_width cur) 0 str"

text \<open>\<open>showLength\<close> runs on even where nothing is appended any more.\<close>

definition cut_step :: "int \<Rightarrow> nat \<times> code_units \<Rightarrow> 16 word \<Rightarrow> nat \<times> code_units" where
  "cut_step maxLength = (\<lambda>(showLength, pre) cur.
     (let showLength = showLength + unit_width cur in
      (showLength, if int showLength \<le> maxLength then pre @ [cur] else pre)))"

definition cutStrByFullLength :: "code_units \<Rightarrow> int \<Rightarrow> code_units" where
  "cutStrByFullLength str maxLength = snd (foldl (cut_step maxLength) (0, []) str)"

lemma unit_width_pos: "0 < unit_width c"
  by (simp add: unit_width_def)

lemma full_length_sum: "getStrFullLength s = sum_list (map unit_width s)"
proof -
  have "foldl (\<lambda>pre cur. pre + unit_width cur) n s = n + sum_list (map unit_width s)" for n
    by (induction s arbitrary: n) simp_all
  then show ?thesis by (simp add: getStrFullLength_def)
qed

lemma full_length_Cons: "getStrFullLength (c # s) = unit_width c + getStrFullLength s"
  by (simp add: full_length_sum)

lemma full_length_Nil [simp]: "getStrFullLength [] = 0"
  by (simp add: full_length_sum)

text \<open>The units that still fit, as a recursion.\<close>

fun fitting :: "int \<Rightarrow> code_units \<Rightarrow> code_units" where
  "fitting n [] = []"
| "fitting n (c # s) = (if int (unit_width c) \<le> n then c # fitting (n - int (unit_width c)) s else [])"

lemma cut_step_full: "maxLength < int n \<Longrightarrow> snd (foldl (cut_step maxLength) (n, pre) str) = pre"
  by (induction str arbitrary: n) (simp_all add: cut_step_def Let_def)

lemma cut_fitting:
  "snd (foldl (cut_step maxLength) (n, pre) str) = pre @ fitting (maxLength - int n) str"
proof (induction str arbitrary: n pre)
  case (Cons c str)
  show ?case
  proof (cases "int (n + unit_width c) \<le> maxLength")
    case True
    with Cons [of "n + unit_width c" "pre @ [c]"] show ?thesis
      by (simp add: cut_step_def Let_def algebra_simps)
  next
    case False
    then show ?thesis using cut_step_full [of maxLength "n + unit_width c" pre str]
      by (simp add: cut_step_def Let_def)
  qed
qed simp

lemma cut_eq_fitting: "cutStrByFullLength str n = fitting n str"
  using cut_fitting [of n 0 "[]" str] by (simp add: cutStrByFullLength_def)

lemma fitting_prefix: "prefix (fitting n str) str"
  by (induction n str rule: fitting.induct) auto

lemma fitting_width: "0 \<le> n \<Longrightarrow> int (getStrFullLength (fitting n str)) \<le> n"
  by (induction n str rule: fitting.induct) (auto simp: full_length_Cons)

lemma fitting_all:
  "0 \<le> n \<Longrightarrow> filter (\<lambda>p. int (getStrFullLength p) \<le> n) (prefixes str) = prefixes (fitting n str)"
proof (induction n str rule: fitting.induct)
  case (2 n c s)
  show ?case
  proof (cases "int (unit_width c) \<le> n")
    case True
    have "filter (\<lambda>p. int (getStrFullLength p) \<le> n) (map ((#) c) (prefixes s)) =
        map ((#) c) (filter (\<lambda>p. int (getStrFullLength p) \<le> n - int (unit_width c)) (prefixes s))"
      by (simp add: filter_map comp_def full_length_Cons algebra_simps)
    with 2 True show ?thesis by simp
  next
    case False
    then have "filter (\<lambda>p. int (getStrFullLength p) \<le> n) (map ((#) c) (prefixes s)) = []"
      by (auto simp: filter_empty_conv full_length_Cons)
    with 2 False show ?thesis by simp
  qed
qed simp

text \<open>C34: cutting a text to a width keeps its longest beginning that fits: the result is a beginning of the
  text, it is no wider than allowed, and the beginnings of the text that fit are those of the result.\<close>

theorem cut_is_longest_fitting:
  assumes "0 \<le> n"
  shows "prefix (cutStrByFullLength str n) str \<and>
    int (getStrFullLength (cutStrByFullLength str n)) \<le> n \<and>
    filter (\<lambda>p. int (getStrFullLength p) \<le> n) (prefixes str) = prefixes (cutStrByFullLength str n)"
  using assms by (simp add: cut_eq_fitting fitting_prefix fitting_width fitting_all)

theorem cut_is_longest_fitting_witness:
  "prefixes (cutStrByFullLength [65, 0x4E2D, 66] 3) =
     filter (\<lambda>p. int (getStrFullLength p) \<le> 3) (prefixes [65, 0x4E2D, 66])"
  using cut_is_longest_fitting [of 3 "[65, 0x4E2D, 66]"] by simp

lemma fitting_append:
  "fitting (int (getStrFullLength s) + n) (s @ t) = s @ fitting n t" if "0 \<le> n"
  using that by (induction s) (simp_all add: full_length_Cons)

text \<open>A character outside the basic plane is cut in half: the first of its two units is kept when
  there is room for one of them only.\<close>

theorem cut_splits_pairs:
  assumes "0xD800 \<le> hi" "0xDC00 \<le> lo"
  shows "cutStrByFullLength (str @ [hi, lo]) (int (getStrFullLength str) + 2) = str @ [hi]"
proof -
  have "unit_width hi = 2" "unit_width lo = 2"
    using assms by (auto simp: unit_width_def dest: order_trans)
  then show ?thesis by (simp add: cut_eq_fitting fitting_append)
qed

theorem cut_splits_pairs_witness:
  "cutStrByFullLength ([65] @ [0xD83D, 0xDE00]) (int (getStrFullLength [65]) + 2) = [65] @ [0xD83D]"
  by (rule cut_splits_pairs) simp_all

section \<open>Numbers\<close>

definition is_digit :: "char \<Rightarrow> bool" where
  "is_digit c \<longleftrightarrow> (of_char c :: nat) \<in> {48..57}"

text \<open>\<open>/(\d)(?=(?:\d{3})+$)/g\<close>: a digit is followed by a comma if behind it, up to the end of the text,
  there are only digits, in groups of three.\<close>

definition groups_ahead :: "string \<Rightarrow> bool" where
  "groups_ahead s \<longleftrightarrow> s \<noteq> [] \<and> length s mod 3 = 0 \<and> list_all is_digit s"

fun insert_commas :: "string \<Rightarrow> string" where
  "insert_commas [] = []"
| "insert_commas (c # s) = (if is_digit c \<and> groups_ahead s then c # CHR '','' # insert_commas s else c # insert_commas s)"

text \<open>The filter, on the value's text; a missing value or zero is written as a zero.\<close>

definition NumberFormat :: "string option \<Rightarrow> string" where
  "NumberFormat value = (if truthy value then insert_commas (the value) else ''0'')"

text \<open>Groups of three from the right.\<close>

fun grouped :: "string \<Rightarrow> string" where
  "grouped (a # b # c # d # s) = a # b # c # CHR '','' # grouped (d # s)"
| "grouped s = s"

lemma groups_ahead_snoc3:
  "is_digit x \<Longrightarrow> is_digit y \<Longrightarrow> is_digit z \<Longrightarrow>
     groups_ahead (s @ [x, y, z]) \<longleftrightarrow> s = [] \<or> groups_ahead s"
  by (auto simp: groups_ahead_def)

lemma insert_commas_snoc3:
  assumes "is_digit x" "is_digit y" "is_digit z"
  shows "list_all is_digit us \<Longrightarrow> us \<noteq> [] \<Longrightarrow>
    insert_commas (us @ [x, y, z]) = insert_commas us @ CHR '','' # [x, y, z]"
proof (induction us)
  case (Cons c us)
  have xyz: "insert_commas [x, y, z] = [x, y, z]" by (simp add: groups_ahead_def)
  show ?case
  proof (cases "us = []")
    case True
    with Cons xyz assms show ?thesis
      by (simp add: groups_ahead_def del: insert_commas.simps) (simp add: groups_ahead_def xyz)
  next
    case False
    with Cons assms show ?thesis by (simp add: groups_ahead_snoc3)
  qed
qed simp

lemma insert_commas_grouped: "list_all is_digit ds \<Longrightarrow> insert_commas ds = rev (grouped (rev ds))"
proof (induction "length ds" arbitrary: ds rule: less_induct)
  case less
  show ?case
  proof (cases "length ds \<le> 3")
    case True
    then consider "ds = []" | a where "ds = [a]" | a b where "ds = [a, b]" | a b c where "ds = [a, b, c]"
      by (cases ds rule: grouped.cases) auto
    then show ?thesis by cases (simp_all add: groups_ahead_def)
  next
    case False
    then obtain z y x r where r: "rev ds = z # y # x # r" "r \<noteq> []"
      by (cases "rev ds" rule: grouped.cases)
        (auto dest: arg_cong [where f = length])
    then have ds: "ds = rev r @ [x, y, z]" by (metis append.assoc append_Cons append_Nil rev.simps(2) rev_rev_ident)
    with less.prems have "list_all is_digit (rev r)" "is_digit x" "is_digit y" "is_digit z"
      by simp_all
    moreover have "insert_commas (rev r) = rev (grouped (rev (rev r)))"
      using less.hyps [of "rev r"] ds calculation(1) by simp
    moreover have "grouped (z # y # x # r) = z # y # x # CHR '','' # grouped r"
      using r(2) by (cases r) simp_all
    ultimately show ?thesis using ds r insert_commas_snoc3 [of x y z "rev r"] by simp
  qed
qed

text \<open>C35: a whole number is written with a comma between each group of three digits, counted from the
  right.\<close>

theorem NumberFormat_groups:
  assumes "list_all is_digit ds" "ds \<noteq> []"
  shows "NumberFormat (Some ds) = rev (grouped (rev ds))"
  using assms by (simp add: NumberFormat_def insert_commas_grouped)

theorem NumberFormat_groups_witness: "NumberFormat (Some ''1234567'') = ''1,234,567''"
  using NumberFormat_groups [of "''1234567''"] by (simp add: is_digit_def)

lemma insert_commas_dot: "insert_commas (ds @ CHR ''.'' # fs) = ds @ CHR ''.'' # insert_commas fs"
  by (induction ds) (simp_all add: groups_ahead_def is_digit_def)

text \<open>In a number with a fraction the commas go into the fraction, grouped from its end, and none into
  the whole part, which is what the comment in the code says is grouped.\<close>

theorem NumberFormat_fraction:
  assumes "list_all is_digit fs"
  shows "NumberFormat (Some (ds @ ''.'' @ fs)) = ds @ ''.'' @ rev (grouped (rev fs))"
  using assms by (simp add: NumberFormat_def insert_commas_dot insert_commas_grouped)

theorem NumberFormat_fraction_witness: "NumberFormat (Some (''1234'' @ ''.'' @ ''5678'')) = ''1234.5,678''"
  using NumberFormat_fraction [of "''5678''" "''1234''"] by (simp add: is_digit_def)

end
