(* ===== verification/Messages.thy ===== *)
theory Messages
  imports Locales RouteConfig
begin

text \<open>
  The messages of the two languages, \<open>src/locales/lang/\<close>: one definition for each file, merged the
  way the files spread one another. The locale objects of moment and of the component library, which
  the language files pass on, are not in the repository; the name of the moment locale is kept.
  Looking a message up, \<open>i18nRender\<close>, is vue-i18n's: the language in force, then the fallback, then
  the key itself.
\<close>

type_synonym messages = "(string \<times> string) list"

record language =
  momentName :: string
  texts :: messages

section \<open>en-US\<close>

definition en_global :: messages where
  "en_global =
    [(''submit'', ''Submit''),
     (''save'', ''Save''),
     (''submit.ok'', ''Submit successfully''),
     (''save.ok'', ''Saved successfully'')]"

definition en_menu :: messages where
  "en_menu =
    [(''menu.welcome'', ''Welcome''),
     (''menu.home'', ''Home''),
     (''menu.dashboard'', ''Dashboard''),
     (''menu.dashboard.analysis'', ''Analysis''),
     (''menu.dashboard.monitor'', ''Monitor''),
     (''menu.dashboard.workplace'', ''Workplace''),
     (''menu.form'', ''Form''),
     (''menu.form.basic-form'', ''Basic Form''),
     (''menu.form.step-form'', ''Step Form''),
     (''menu.form.step-form.info'', ''Step Form(write transfer information)''),
     (''menu.form.step-form.confirm'', ''Step Form(confirm transfer information)''),
     (''menu.form.step-form.result'', ''Step Form(finished)''),
     (''menu.form.advanced-form'', ''Advanced Form''),
     (''menu.list'', ''List''),
     (''menu.list.table-list'', ''Search Table''),
     (''menu.list.basic-list'', ''Basic List''),
     (''menu.list.card-list'', ''Card List''),
     (''menu.list.search-list'', ''Search List''),
     (''menu.list.search-list.articles'', ''Search List(articles)''),
     (''menu.list.search-list.projects'', ''Search List(projects)''),
     (''menu.list.search-list.applications'', ''Search List(applications)''),
     (''menu.profile'', ''Profile''),
     (''menu.profile.basic'', ''Basic Profile''),
     (''menu.profile.advanced'', ''Advanced Profile''),
     (''menu.result'', ''Result''),
     (''menu.result.success'', ''Success''),
     (''menu.result.fail'', ''Fail''),
     (''menu.exception'', ''Exception''),
     (''menu.exception.not-permission'', ''403''),
     (''menu.exception.not-find'', ''404''),
     (''menu.exception.server-error'', ''500''),
     (''menu.exception.trigger'', ''Trigger''),
     (''menu.account'', ''Account''),
     (''menu.account.center'', ''Account Center''),
     (''menu.account.settings'', ''Account Settings''),
     (''menu.account.trigger'', ''Trigger Error''),
     (''menu.account.logout'', ''Logout'')]"

definition en_setting :: messages where
  "en_setting =
    [(''app.setting.pagestyle'', ''Page style setting''),
     (''app.setting.pagestyle.light'', ''Light style''),
     (''app.setting.pagestyle.dark'', ''Dark style''),
     (''app.setting.pagestyle.realdark'', ''RealDark style''),
     (''app.setting.themecolor'', ''Theme Color''),
     (''app.setting.navigationmode'', ''Navigation Mode''),
     (''app.setting.content-width'', ''Content Width''),
     (''app.setting.fixedheader'', ''Fixed Header''),
     (''app.setting.fixedsidebar'', ''Fixed Sidebar''),
     (''app.setting.sidemenu'', ''Side Menu Layout''),
     (''app.setting.topmenu'', ''Top Menu Layout''),
     (''app.setting.content-width.fixed'', ''Fixed''),
     (''app.setting.content-width.fluid'', ''Fluid''),
     (''app.setting.othersettings'', ''Other Settings''),
     (''app.setting.weakmode'', ''Weak Mode''),
     (''app.setting.copy'', ''Copy Setting''),
     (''app.setting.loading'', ''Loading theme''),
     (''app.setting.copyinfo'',
       (''copy success'' @
       utf8 [0xFF0C] @
       ''please replace defaultSettings in src/config/defaultSettings.js'')),
     (''app.setting.production.hint'',
       ''Setting panel shows in development environment only, please manually modify''),
     (''app.setting.themecolor.daybreak'', ''Daybreak Blue''),
     (''app.setting.themecolor.dust'', ''Dust Red''),
     (''app.setting.themecolor.volcano'', ''Volcano''),
     (''app.setting.themecolor.sunset'', ''Sunset Orange''),
     (''app.setting.themecolor.cyan'', ''Cyan''),
     (''app.setting.themecolor.green'', ''Polar Green''),
     (''app.setting.themecolor.geekblue'', ''Geek Blue''),
     (''app.setting.themecolor.purple'', ''Golden Purple'')]"

definition en_user :: messages where
  "en_user =
    [(''user.login.userName'', ''userName''),
     (''user.login.password'', ''password''),
     (''user.login.username.placeholder'', ''Account: admin''),
     (''user.login.password.placeholder'', ''password: admin or ant.design''),
     (''user.login.message-invalid-credentials'',
       (''Invalid username or password'' @ utf8 [0xFF08] @ ''admin/ant.design'' @ utf8 [0xFF09])),
     (''user.login.message-invalid-verification-code'', ''Invalid verification code''),
     (''user.login.tab-login-credentials'', ''Credentials''),
     (''user.login.tab-login-mobile'', ''Mobile number''),
     (''user.login.mobile.placeholder'', ''Mobile number''),
     (''user.login.mobile.verification-code.placeholder'', ''Verification code''),
     (''user.login.remember-me'', ''Remember me''),
     (''user.login.forgot-password'', ''Forgot your password?''),
     (''user.login.sign-in-with'', ''Sign in with''),
     (''user.login.signup'', ''Sign up''),
     (''user.login.login'', ''Login''),
     (''user.register.register'', ''Register''),
     (''user.register.email.placeholder'', ''Email''),
     (''user.register.password.placeholder'', ''Password ''),
     (''user.register.password.popover-message'',
       ''Please enter at least 6 characters. Please do not use passwords that are easy to guess. ''),
     (''user.register.confirm-password.placeholder'', ''Confirm password''),
     (''user.register.get-verification-code'', ''Get code''),
     (''user.register.sign-in'', ''Already have an account?''),
     (''user.register-result.msg'',
       (''Account'' @ utf8 [0xFF1A] @ ''registered at {email}'')),
     (''user.register-result.activation-email'',
       ''The activation email has been sent to your email address and is valid for 24 hours. Please log in to the email in time and click on the link in the email to activate the account.''),
     (''user.register-result.back-home'', ''Back to home''),
     (''user.register-result.view-mailbox'', ''View mailbox''),
     (''user.email.required'', ''Please enter your email!''),
     (''user.email.wrong-format'', ''The email address is in the wrong format!''),
     (''user.userName.required'', ''Please enter account name or email address''),
     (''user.password.required'', ''Please enter your password!''),
     (''user.password.twice.msg'', ''The passwords entered twice do not match!''),
     (''user.password.strength.msg'', ''The password is not strong enough''),
     (''user.password.strength.strong'', ''Strength: strong''),
     (''user.password.strength.medium'', ''Strength: medium''),
     (''user.password.strength.low'', ''Strength: low''),
     (''user.password.strength.short'', ''Strength: too short''),
     (''user.confirm-password.required'', ''Please confirm your password!''),
     (''user.phone-number.required'', ''Please enter your phone number!''),
     (''user.phone-number.wrong-format'', ''Please enter a valid phone number''),
     (''user.verification-code.required'', ''Please enter the verification code!'')]"

definition en_analysis :: messages where
  "en_analysis =
    [(''dashboard.analysis.test'', ''Gongzhuan No.{no} shop''),
     (''dashboard.analysis.introduce'', ''Introduce''),
     (''dashboard.analysis.total-sales'', ''Total Sales''),
     (''dashboard.analysis.day-sales'', ''Daily Sales''),
     (''dashboard.analysis.visits'', ''Visits''),
     (''dashboard.analysis.visits-trend'', ''Visits Trend''),
     (''dashboard.analysis.visits-ranking'', ''Visits Ranking''),
     (''dashboard.analysis.day-visits'', ''Daily Visits''),
     (''dashboard.analysis.week'', ''WoW Change''),
     (''dashboard.analysis.day'', ''DoD Change''),
     (''dashboard.analysis.payments'', ''Payments''),
     (''dashboard.analysis.conversion-rate'', ''Conversion Rate''),
     (''dashboard.analysis.operational-effect'', ''Operational Effect''),
     (''dashboard.analysis.sales-trend'', ''Stores Sales Trend''),
     (''dashboard.analysis.sales-ranking'', ''Sales Ranking''),
     (''dashboard.analysis.all-year'', ''All Year''),
     (''dashboard.analysis.all-month'', ''All Month''),
     (''dashboard.analysis.all-week'', ''All Week''),
     (''dashboard.analysis.all-day'', ''All day''),
     (''dashboard.analysis.search-users'', ''Search Users''),
     (''dashboard.analysis.per-capita-search'', ''Per Capita Search''),
     (''dashboard.analysis.online-top-search'', ''Online Top Search''),
     (''dashboard.analysis.the-proportion-of-sales'', ''The Proportion Of Sales''),
     (''dashboard.analysis.dropdown-option-one'', ''Operation one''),
     (''dashboard.analysis.dropdown-option-two'', ''Operation two''),
     (''dashboard.analysis.channel.all'', ''ALL''),
     (''dashboard.analysis.channel.online'', ''Online''),
     (''dashboard.analysis.channel.stores'', ''Stores''),
     (''dashboard.analysis.sales'', ''Sales''),
     (''dashboard.analysis.traffic'', ''Traffic''),
     (''dashboard.analysis.table.rank'', ''Rank''),
     (''dashboard.analysis.table.search-keyword'', ''Keyword''),
     (''dashboard.analysis.table.users'', ''Users''),
     (''dashboard.analysis.table.weekly-range'', ''Weekly Range'')]"

definition en_basicForm :: messages where
  "en_basicForm =
    [(''form.basic-form.basic.title'', ''Basic form''),
     (''form.basic-form.basic.description'',
       ''Form pages are used to collect or verify information to users, and basic forms are common in scenarios where there are fewer data items.''),
     (''form.basic-form.title.label'', ''Title''),
     (''form.basic-form.title.placeholder'', ''Give the target a name''),
     (''form.basic-form.title.required'', ''Please enter a title''),
     (''form.basic-form.date.label'', ''Start and end date''),
     (''form.basic-form.placeholder.start'', ''Start date''),
     (''form.basic-form.placeholder.end'', ''End date''),
     (''form.basic-form.date.required'', ''Please select the start and end date''),
     (''form.basic-form.goal.label'', ''Goal description''),
     (''form.basic-form.goal.placeholder'', ''Please enter your work goals''),
     (''form.basic-form.goal.required'', ''Please enter a description of the goal''),
     (''form.basic-form.standard.label'', ''Metrics''),
     (''form.basic-form.standard.placeholder'', ''Please enter a metric''),
     (''form.basic-form.standard.required'', ''Please enter a metric''),
     (''form.basic-form.client.label'', ''Client''),
     (''form.basic-form.label.tooltip'', ''Target service object''),
     (''form.basic-form.client.placeholder'',
       ''Please describe your customer service, internal customers directly @ Name / job number''),
     (''form.basic-form.client.required'', ''Please describe the customers you serve''),
     (''form.basic-form.invites.label'', ''Inviting critics''),
     (''form.basic-form.invites.placeholder'',
       ''Please direct @ Name / job number, you can invite up to 5 people''),
     (''form.basic-form.weight.label'', ''Weight''),
     (''form.basic-form.weight.placeholder'', ''Please enter weight''),
     (''form.basic-form.public.label'', ''Target disclosure''),
     (''form.basic-form.label.help'', ''Customers and invitees are shared by default''),
     (''form.basic-form.radio.public'', ''Public''),
     (''form.basic-form.radio.partially-public'', ''Partially public''),
     (''form.basic-form.radio.private'', ''Private''),
     (''form.basic-form.publicUsers.placeholder'', ''Open to''),
     (''form.basic-form.option.A'', ''Colleague A''),
     (''form.basic-form.option.B'', ''Colleague B''),
     (''form.basic-form.option.C'', ''Colleague C''),
     (''form.basic-form.email.required'', ''Please enter your email!''),
     (''form.basic-form.email.wrong-format'', ''The email address is in the wrong format!''),
     (''form.basic-form.userName.required'', ''Please enter your userName!''),
     (''form.basic-form.password.required'', ''Please enter your password!''),
     (''form.basic-form.password.twice'', ''The passwords entered twice do not match!''),
     (''form.basic-form.strength.msg'',
       (''Please enter at least 6 characters and don'' @
       utf8 [0x27] @
       ''t use passwords that are easy to guess.'')),
     (''form.basic-form.strength.strong'', ''Strength: strong''),
     (''form.basic-form.strength.medium'', ''Strength: medium''),
     (''form.basic-form.strength.short'', ''Strength: too short''),
     (''form.basic-form.confirm-password.required'', ''Please confirm your password!''),
     (''form.basic-form.phone-number.required'', ''Please enter your phone number!''),
     (''form.basic-form.phone-number.wrong-format'', ''Malformed phone number!''),
     (''form.basic-form.verification-code.required'',
       ''Please enter the verification code!''),
     (''form.basic-form.form.get-captcha'', ''Get Captcha''),
     (''form.basic-form.captcha.second'', ''sec''),
     (''form.basic-form.form.optional'', '' (optional) ''),
     (''form.basic-form.form.submit'', ''Submit''),
     (''form.basic-form.form.save'', ''Save''),
     (''form.basic-form.email.placeholder'', ''Email''),
     (''form.basic-form.password.placeholder'', ''Password''),
     (''form.basic-form.confirm-password.placeholder'', ''Confirm password''),
     (''form.basic-form.phone-number.placeholder'', ''Phone number''),
     (''form.basic-form.verification-code.placeholder'', ''Verification code'')]"

definition en_success :: messages where
  "en_success =
    [(''result.success.title'', ''Submission Success''),
     (''result.success.description'',
       (''The submission results page is used to feed back the results of a series of operational tasks. If it is a simple operation, use the Message global prompt feedback. This text area can show a simple supplementary explanation. If there is a similar requirement for displaying '' @
       utf8 [0x201C] @
       ''documents'' @
       utf8 [0x201D] @
       '', the following gray area can present more complicated content.'')),
     (''result.success.operate-title'', ''Project Name''),
     (''result.success.operate-id'', ''Project ID''),
     (''result.success.principal'', ''Principal''),
     (''result.success.operate-time'', ''Effective time''),
     (''result.success.step1-title'', ''Create project''),
     (''result.success.step1-operator'', ''Qu Lili''),
     (''result.success.step2-title'', ''Departmental preliminary review''),
     (''result.success.step2-operator'', ''Zhou Maomao''),
     (''result.success.step2-extra'', ''Urge''),
     (''result.success.step3-title'', ''Financial review''),
     (''result.success.step4-title'', ''Finish''),
     (''result.success.btn-return'', ''Back List''),
     (''result.success.btn-project'', ''View Project''),
     (''result.success.btn-print'', ''Print'')]"

definition en_fail :: messages where
  "en_fail =
    [(''result.fail.error.title'', ''Submission Failed''),
     (''result.fail.error.description'',
       ''Please check and modify the following information before resubmitting.''),
     (''result.fail.error.hint-title'',
       ''The content you submitted has the following error:''),
     (''result.fail.error.hint-text1'', ''Your account has been frozen''),
     (''result.fail.error.hint-btn1'', ''Thaw immediately''),
     (''result.fail.error.hint-text2'', ''Your account is not yet eligible to apply''),
     (''result.fail.error.hint-btn2'', ''Upgrade immediately''),
     (''result.fail.error.btn-text'', ''Return to modify'')]"

definition en_settings :: messages where
  "en_settings =
    [(''account.settings.menuMap.basic'', ''Basic Settings''),
     (''account.settings.menuMap.security'', ''Security Settings''),
     (''account.settings.menuMap.custom'', ''Custom Settings''),
     (''account.settings.menuMap.binding'', ''Account Binding''),
     (''account.settings.menuMap.notification'', ''New Message Notification''),
     (''account.settings.basic.avatar'', ''Avatar''),
     (''account.settings.basic.change-avatar'', ''Change avatar''),
     (''account.settings.basic.email'', ''Email''),
     (''account.settings.basic.email-message'', ''Please input your email!''),
     (''account.settings.basic.nickname'', ''Nickname''),
     (''account.settings.basic.nickname-message'', ''Please input your Nickname!''),
     (''account.settings.basic.profile'', ''Personal profile''),
     (''account.settings.basic.profile-message'', ''Please input your personal profile!''),
     (''account.settings.basic.profile-placeholder'', ''Brief introduction to yourself''),
     (''account.settings.basic.country'', ''Country/Region''),
     (''account.settings.basic.country-message'', ''Please input your country!''),
     (''account.settings.basic.geographic'', ''Province or city''),
     (''account.settings.basic.geographic-message'', ''Please input your geographic info!''),
     (''account.settings.basic.address'', ''Street Address''),
     (''account.settings.basic.address-message'', ''Please input your address!''),
     (''account.settings.basic.phone'', ''Phone Number''),
     (''account.settings.basic.phone-message'', ''Please input your phone!''),
     (''account.settings.basic.update'', ''Update Information''),
     (''account.settings.basic.update.success'', ''Update basic information successfully''),
     (''account.settings.security.strong'', ''Strong''),
     (''account.settings.security.medium'', ''Medium''),
     (''account.settings.security.weak'', ''Weak''),
     (''account.settings.security.password'', ''Account Password''),
     (''account.settings.security.password-description'',
       (''Current password strength'' @ utf8 [0xFF1A])),
     (''account.settings.security.phone'', ''Security Phone''),
     (''account.settings.security.phone-description'', (''Bound phone'' @ utf8 [0xFF1A])),
     (''account.settings.security.question'', ''Security Question''),
     (''account.settings.security.question-description'',
       ''The security question is not set, and the security policy can effectively protect the account security''),
     (''account.settings.security.email'', ''Backup Email''),
     (''account.settings.security.email-description'', (''Bound Email'' @ utf8 [0xFF1A])),
     (''account.settings.security.mfa'', ''MFA Device''),
     (''account.settings.security.mfa-description'',
       ''Unbound MFA device, after binding, can be confirmed twice''),
     (''account.settings.security.modify'', ''Modify''),
     (''account.settings.security.set'', ''Set''),
     (''account.settings.security.bind'', ''Bind''),
     (''account.settings.binding.taobao'', ''Binding Taobao''),
     (''account.settings.binding.taobao-description'', ''Currently unbound Taobao account''),
     (''account.settings.binding.alipay'', ''Binding Alipay''),
     (''account.settings.binding.alipay-description'', ''Currently unbound Alipay account''),
     (''account.settings.binding.dingding'', ''Binding DingTalk''),
     (''account.settings.binding.dingding-description'',
       ''Currently unbound DingTalk account''),
     (''account.settings.binding.bind'', ''Bind''),
     (''account.settings.notification.password'', ''Account Password''),
     (''account.settings.notification.password-description'',
       ''Messages from other users will be notified in the form of a station letter''),
     (''account.settings.notification.messages'', ''System Messages''),
     (''account.settings.notification.messages-description'',
       ''System messages will be notified in the form of a station letter''),
     (''account.settings.notification.todo'', ''To-do Notification''),
     (''account.settings.notification.todo-description'',
       ''The to-do list will be notified in the form of a letter from the station''),
     (''account.settings.settings.open'', ''Open''),
     (''account.settings.settings.close'', ''Close'')]"

definition en_dashboard :: messages where
  "en_dashboard = en_analysis"

definition en_form :: messages where
  "en_form = en_basicForm"

definition en_result :: messages where
  "en_result = en_success @ en_fail"

definition en_account :: messages where
  "en_account = en_settings"

definition en_US :: language where
  "en_US = \<lparr>
    momentName = ''eu'',
    texts =
      [(''message'', ''-''),
       (''layouts.usermenu.dialog.title'', ''Message''),
       (''layouts.usermenu.dialog.content'', ''Are you sure you would like to logout?''),
       (''layouts.userLayout.title'', ''Ant Design is the most influential web design specification in Xihu district'')] @
      en_global @ en_menu @ en_setting @ en_user @ en_dashboard @ en_form @ en_result @ en_account\<rparr>"

section \<open>zh-CN\<close>

definition zh_global :: messages where
  "zh_global =
    [(''submit'', (utf8 [0x63D0, 0x4EA4])),
     (''save'', (utf8 [0x4FDD, 0x5B58])),
     (''submit.ok'', (utf8 [0x63D0, 0x4EA4, 0x6210, 0x529F])),
     (''save.ok'', (utf8 [0x4FDD, 0x5B58, 0x6210, 0x529F]))]"

definition zh_menu :: messages where
  "zh_menu =
    [(''menu.welcome'', (utf8 [0x6B22, 0x8FCE])),
     (''menu.home'', (utf8 [0x4E3B, 0x9875])),
     (''menu.dashboard'', (utf8 [0x4EEA, 0x8868, 0x76D8])),
     (''menu.dashboard.analysis'', (utf8 [0x5206, 0x6790, 0x9875])),
     (''menu.dashboard.monitor'', (utf8 [0x76D1, 0x63A7, 0x9875])),
     (''menu.dashboard.workplace'', (utf8 [0x5DE5, 0x4F5C, 0x53F0])),
     (''menu.form'', (utf8 [0x8868, 0x5355, 0x9875])),
     (''menu.form.basic-form'', (utf8 [0x57FA, 0x7840, 0x8868, 0x5355])),
     (''menu.form.step-form'', (utf8 [0x5206, 0x6B65, 0x8868, 0x5355])),
     (''menu.form.step-form.info'',
       (utf8 [0x5206, 0x6B65, 0x8868, 0x5355, 0xFF08, 0x586B, 0x5199, 0x8F6C, 0x8D26, 0x4FE1, 0x606F, 0xFF09])),
     (''menu.form.step-form.confirm'',
       (utf8 [0x5206, 0x6B65, 0x8868, 0x5355, 0xFF08, 0x786E, 0x8BA4, 0x8F6C, 0x8D26, 0x4FE1, 0x606F, 0xFF09])),
     (''menu.form.step-form.result'',
       (utf8 [0x5206, 0x6B65, 0x8868, 0x5355, 0xFF08, 0x5B8C, 0x6210, 0xFF09])),
     (''menu.form.advanced-form'', (utf8 [0x9AD8, 0x7EA7, 0x8868, 0x5355])),
     (''menu.list'', (utf8 [0x5217, 0x8868, 0x9875])),
     (''menu.list.table-list'', (utf8 [0x67E5, 0x8BE2, 0x8868, 0x683C])),
     (''menu.list.basic-list'', (utf8 [0x6807, 0x51C6, 0x5217, 0x8868])),
     (''menu.list.card-list'', (utf8 [0x5361, 0x7247, 0x5217, 0x8868])),
     (''menu.list.search-list'', (utf8 [0x641C, 0x7D22, 0x5217, 0x8868])),
     (''menu.list.search-list.articles'',
       (utf8 [0x641C, 0x7D22, 0x5217, 0x8868, 0xFF08, 0x6587, 0x7AE0, 0xFF09])),
     (''menu.list.search-list.projects'',
       (utf8 [0x641C, 0x7D22, 0x5217, 0x8868, 0xFF08, 0x9879, 0x76EE, 0xFF09])),
     (''menu.list.search-list.applications'',
       (utf8 [0x641C, 0x7D22, 0x5217, 0x8868, 0xFF08, 0x5E94, 0x7528, 0xFF09])),
     (''menu.profile'', (utf8 [0x8BE6, 0x60C5, 0x9875])),
     (''menu.profile.basic'', (utf8 [0x57FA, 0x7840, 0x8BE6, 0x60C5, 0x9875])),
     (''menu.profile.advanced'', (utf8 [0x9AD8, 0x7EA7, 0x8BE6, 0x60C5, 0x9875])),
     (''menu.result'', (utf8 [0x7ED3, 0x679C, 0x9875])),
     (''menu.result.success'', (utf8 [0x6210, 0x529F, 0x9875])),
     (''menu.result.fail'', (utf8 [0x5931, 0x8D25, 0x9875])),
     (''menu.exception'', (utf8 [0x5F02, 0x5E38, 0x9875])),
     (''menu.exception.not-permission'', ''403''),
     (''menu.exception.not-find'', ''404''),
     (''menu.exception.server-error'', ''500''),
     (''menu.exception.trigger'', (utf8 [0x89E6, 0x53D1, 0x9519, 0x8BEF])),
     (''menu.account'', (utf8 [0x4E2A, 0x4EBA, 0x9875])),
     (''menu.account.center'', (utf8 [0x4E2A, 0x4EBA, 0x4E2D, 0x5FC3])),
     (''menu.account.settings'', (utf8 [0x4E2A, 0x4EBA, 0x8BBE, 0x7F6E])),
     (''menu.account.trigger'', (utf8 [0x89E6, 0x53D1, 0x62A5, 0x9519])),
     (''menu.account.logout'', (utf8 [0x9000, 0x51FA, 0x767B, 0x5F55]))]"

definition zh_setting :: messages where
  "zh_setting =
    [(''app.setting.pagestyle'', (utf8 [0x6574, 0x4F53, 0x98CE, 0x683C, 0x8BBE, 0x7F6E])),
     (''app.setting.pagestyle.light'',
       (utf8 [0x4EAE, 0x8272, 0x83DC, 0x5355, 0x98CE, 0x683C])),
     (''app.setting.pagestyle.dark'',
       (utf8 [0x6697, 0x8272, 0x83DC, 0x5355, 0x98CE, 0x683C])),
     (''app.setting.pagestyle.realdark'', (utf8 [0x6697, 0x9ED1, 0x6A21, 0x5F0F])),
     (''app.setting.themecolor'', (utf8 [0x4E3B, 0x9898, 0x8272])),
     (''app.setting.navigationmode'', (utf8 [0x5BFC, 0x822A, 0x6A21, 0x5F0F])),
     (''app.setting.content-width'', (utf8 [0x5185, 0x5BB9, 0x533A, 0x57DF, 0x5BBD, 0x5EA6])),
     (''app.setting.fixedheader'', (utf8 [0x56FA, 0x5B9A] @ '' Header'')),
     (''app.setting.fixedsidebar'', (utf8 [0x56FA, 0x5B9A, 0x4FA7, 0x8FB9, 0x680F])),
     (''app.setting.sidemenu'', (utf8 [0x4FA7, 0x8FB9, 0x83DC, 0x5355, 0x5E03, 0x5C40])),
     (''app.setting.topmenu'', (utf8 [0x9876, 0x90E8, 0x83DC, 0x5355, 0x5E03, 0x5C40])),
     (''app.setting.content-width.fixed'', ''Fixed''),
     (''app.setting.content-width.fluid'', ''Fluid''),
     (''app.setting.othersettings'', (utf8 [0x5176, 0x4ED6, 0x8BBE, 0x7F6E])),
     (''app.setting.weakmode'', (utf8 [0x8272, 0x5F31, 0x6A21, 0x5F0F])),
     (''app.setting.copy'', (utf8 [0x62F7, 0x8D1D, 0x8BBE, 0x7F6E])),
     (''app.setting.loading'', (utf8 [0x52A0, 0x8F7D, 0x4E3B, 0x9898, 0x4E2D])),
     (''app.setting.copyinfo'',
       (utf8 [0x62F7, 0x8D1D, 0x8BBE, 0x7F6E, 0x6210, 0x529F] @ '' src/config/defaultSettings.js'')),
     (''app.setting.production.hint'',
       (utf8 [0x914D, 0x7F6E, 0x680F, 0x53EA, 0x5728, 0x5F00, 0x53D1, 0x73AF, 0x5883, 0x7528, 0x4E8E, 0x9884, 0x89C8, 0xFF0C, 0x751F, 0x4EA7, 0x73AF, 0x5883, 0x4E0D, 0x4F1A, 0x5C55, 0x73B0, 0xFF0C, 0x8BF7, 0x62F7, 0x8D1D, 0x540E, 0x624B, 0x52A8, 0x4FEE, 0x6539, 0x914D, 0x7F6E, 0x6587, 0x4EF6])),
     (''app.setting.themecolor.daybreak'', (utf8 [0x62C2, 0x6653, 0x84DD])),
     (''app.setting.themecolor.dust'', (utf8 [0x8584, 0x66AE])),
     (''app.setting.themecolor.volcano'', (utf8 [0x706B, 0x5C71])),
     (''app.setting.themecolor.sunset'', (utf8 [0x65E5, 0x66AE])),
     (''app.setting.themecolor.cyan'', (utf8 [0x660E, 0x9752])),
     (''app.setting.themecolor.green'', (utf8 [0x6781, 0x5149, 0x7EFF])),
     (''app.setting.themecolor.geekblue'', (utf8 [0x6781, 0x5BA2, 0x84DD])),
     (''app.setting.themecolor.purple'', (utf8 [0x9171, 0x7D2B]))]"

definition zh_user :: messages where
  "zh_user =
    [(''user.login.userName'', (utf8 [0x7528, 0x6237, 0x540D])),
     (''user.login.password'', (utf8 [0x5BC6, 0x7801])),
     (''user.login.username.placeholder'', (utf8 [0x8D26, 0x6237] @ '': admin'')),
     (''user.login.password.placeholder'',
       (utf8 [0x5BC6, 0x7801] @ '': admin or ant.design'')),
     (''user.login.message-invalid-credentials'',
       (utf8 [0x8D26, 0x6237, 0x6216, 0x5BC6, 0x7801, 0x9519, 0x8BEF, 0xFF08] @
       ''admin/ant.design'' @
       utf8 [0xFF09])),
     (''user.login.message-invalid-verification-code'',
       (utf8 [0x9A8C, 0x8BC1, 0x7801, 0x9519, 0x8BEF])),
     (''user.login.tab-login-credentials'',
       (utf8 [0x8D26, 0x6237, 0x5BC6, 0x7801, 0x767B, 0x5F55])),
     (''user.login.tab-login-mobile'', (utf8 [0x624B, 0x673A, 0x53F7, 0x767B, 0x5F55])),
     (''user.login.mobile.placeholder'', (utf8 [0x624B, 0x673A, 0x53F7])),
     (''user.login.mobile.verification-code.placeholder'', (utf8 [0x9A8C, 0x8BC1, 0x7801])),
     (''user.login.remember-me'', (utf8 [0x81EA, 0x52A8, 0x767B, 0x5F55])),
     (''user.login.forgot-password'', (utf8 [0x5FD8, 0x8BB0, 0x5BC6, 0x7801])),
     (''user.login.sign-in-with'', (utf8 [0x5176, 0x4ED6, 0x767B, 0x5F55, 0x65B9, 0x5F0F])),
     (''user.login.signup'', (utf8 [0x6CE8, 0x518C, 0x8D26, 0x6237])),
     (''user.login.login'', (utf8 [0x767B, 0x5F55])),
     (''user.register.register'', (utf8 [0x6CE8, 0x518C])),
     (''user.register.email.placeholder'', (utf8 [0x90AE, 0x7BB1])),
     (''user.register.password.placeholder'',
       (utf8 [0x8BF7, 0x81F3, 0x5C11, 0x8F93, 0x5165] @
       '' 6 '' @
       utf8 [0x4E2A, 0x5B57, 0x7B26, 0x3002, 0x8BF7, 0x4E0D, 0x8981, 0x4F7F, 0x7528, 0x5BB9, 0x6613, 0x88AB, 0x731C, 0x5230, 0x7684, 0x5BC6, 0x7801, 0x3002])),
     (''user.register.password.popover-message'',
       (utf8 [0x8BF7, 0x81F3, 0x5C11, 0x8F93, 0x5165] @
       '' 6 '' @
       utf8 [0x4E2A, 0x5B57, 0x7B26, 0x3002, 0x8BF7, 0x4E0D, 0x8981, 0x4F7F, 0x7528, 0x5BB9, 0x6613, 0x88AB, 0x731C, 0x5230, 0x7684, 0x5BC6, 0x7801, 0x3002])),
     (''user.register.confirm-password.placeholder'',
       (utf8 [0x786E, 0x8BA4, 0x5BC6, 0x7801])),
     (''user.register.get-verification-code'',
       (utf8 [0x83B7, 0x53D6, 0x9A8C, 0x8BC1, 0x7801])),
     (''user.register.sign-in'',
       (utf8 [0x4F7F, 0x7528, 0x5DF2, 0x6709, 0x8D26, 0x6237, 0x767B, 0x5F55])),
     (''user.register-result.msg'',
       (utf8 [0x4F60, 0x7684, 0x8D26, 0x6237, 0xFF1A] @
       ''{email} '' @
       utf8 [0x6CE8, 0x518C, 0x6210, 0x529F])),
     (''user.register-result.activation-email'',
       (utf8 [0x6FC0, 0x6D3B, 0x90AE, 0x4EF6, 0x5DF2, 0x53D1, 0x9001, 0x5230, 0x4F60, 0x7684, 0x90AE, 0x7BB1, 0x4E2D, 0xFF0C, 0x90AE, 0x4EF6, 0x6709, 0x6548, 0x671F, 0x4E3A] @
       ''24'' @
       utf8 [0x5C0F, 0x65F6, 0x3002, 0x8BF7, 0x53CA, 0x65F6, 0x767B, 0x5F55, 0x90AE, 0x7BB1, 0xFF0C, 0x70B9, 0x51FB, 0x90AE, 0x4EF6, 0x4E2D, 0x7684, 0x94FE, 0x63A5, 0x6FC0, 0x6D3B, 0x5E10, 0x6237, 0x3002])),
     (''user.register-result.back-home'', (utf8 [0x8FD4, 0x56DE, 0x9996, 0x9875])),
     (''user.register-result.view-mailbox'', (utf8 [0x67E5, 0x770B, 0x90AE, 0x7BB1])),
     (''user.email.required'',
       (utf8 [0x8BF7, 0x8F93, 0x5165, 0x90AE, 0x7BB1, 0x5730, 0x5740, 0xFF01])),
     (''user.email.wrong-format'',
       (utf8 [0x90AE, 0x7BB1, 0x5730, 0x5740, 0x683C, 0x5F0F, 0x9519, 0x8BEF, 0xFF01])),
     (''user.userName.required'',
       (utf8 [0x8BF7, 0x8F93, 0x5165, 0x5E10, 0x6237, 0x540D, 0x6216, 0x90AE, 0x7BB1, 0x5730, 0x5740])),
     (''user.password.required'', (utf8 [0x8BF7, 0x8F93, 0x5165, 0x5BC6, 0x7801, 0xFF01])),
     (''user.password.twice.msg'',
       (utf8 [0x4E24, 0x6B21, 0x8F93, 0x5165, 0x7684, 0x5BC6, 0x7801, 0x4E0D, 0x5339, 0x914D] @ ''!'')),
     (''user.password.strength.msg'',
       (utf8 [0x5BC6, 0x7801, 0x5F3A, 0x5EA6, 0x4E0D, 0x591F] @ '' '')),
     (''user.password.strength.strong'', (utf8 [0x5F3A, 0x5EA6, 0xFF1A, 0x5F3A])),
     (''user.password.strength.medium'', (utf8 [0x5F3A, 0x5EA6, 0xFF1A, 0x4E2D])),
     (''user.password.strength.low'', (utf8 [0x5F3A, 0x5EA6, 0xFF1A, 0x4F4E])),
     (''user.password.strength.short'', (utf8 [0x5F3A, 0x5EA6, 0xFF1A, 0x592A, 0x77ED])),
     (''user.confirm-password.required'',
       (utf8 [0x8BF7, 0x786E, 0x8BA4, 0x5BC6, 0x7801, 0xFF01])),
     (''user.phone-number.required'',
       (utf8 [0x8BF7, 0x8F93, 0x5165, 0x6B63, 0x786E, 0x7684, 0x624B, 0x673A, 0x53F7])),
     (''user.phone-number.wrong-format'',
       (utf8 [0x624B, 0x673A, 0x53F7, 0x683C, 0x5F0F, 0x9519, 0x8BEF, 0xFF01])),
     (''user.verification-code.required'',
       (utf8 [0x8BF7, 0x8F93, 0x5165, 0x9A8C, 0x8BC1, 0x7801, 0xFF01]))]"

definition zh_analysis :: messages where
  "zh_analysis =
    [(''dashboard.analysis.test'',
       (utf8 [0x5DE5, 0x4E13, 0x8DEF] @ '' {no} '' @ utf8 [0x53F7, 0x5E97])),
     (''dashboard.analysis.introduce'', (utf8 [0x6307, 0x6807, 0x8BF4, 0x660E])),
     (''dashboard.analysis.total-sales'', (utf8 [0x603B, 0x9500, 0x552E, 0x989D])),
     (''dashboard.analysis.day-sales'',
       (utf8 [0x65E5, 0x5747, 0x9500, 0x552E, 0x989D, 0xFFE5])),
     (''dashboard.analysis.visits'', (utf8 [0x8BBF, 0x95EE, 0x91CF])),
     (''dashboard.analysis.visits-trend'', (utf8 [0x8BBF, 0x95EE, 0x91CF, 0x8D8B, 0x52BF])),
     (''dashboard.analysis.visits-ranking'',
       (utf8 [0x95E8, 0x5E97, 0x8BBF, 0x95EE, 0x91CF, 0x6392, 0x540D])),
     (''dashboard.analysis.day-visits'', (utf8 [0x65E5, 0x8BBF, 0x95EE, 0x91CF])),
     (''dashboard.analysis.week'', (utf8 [0x5468, 0x540C, 0x6BD4])),
     (''dashboard.analysis.day'', (utf8 [0x65E5, 0x540C, 0x6BD4])),
     (''dashboard.analysis.payments'', (utf8 [0x652F, 0x4ED8, 0x7B14, 0x6570])),
     (''dashboard.analysis.conversion-rate'', (utf8 [0x8F6C, 0x5316, 0x7387])),
     (''dashboard.analysis.operational-effect'',
       (utf8 [0x8FD0, 0x8425, 0x6D3B, 0x52A8, 0x6548, 0x679C])),
     (''dashboard.analysis.sales-trend'', (utf8 [0x9500, 0x552E, 0x8D8B, 0x52BF])),
     (''dashboard.analysis.sales-ranking'',
       (utf8 [0x95E8, 0x5E97, 0x9500, 0x552E, 0x989D, 0x6392, 0x540D])),
     (''dashboard.analysis.all-year'', (utf8 [0x5168, 0x5E74])),
     (''dashboard.analysis.all-month'', (utf8 [0x672C, 0x6708])),
     (''dashboard.analysis.all-week'', (utf8 [0x672C, 0x5468])),
     (''dashboard.analysis.all-day'', (utf8 [0x4ECA, 0x65E5])),
     (''dashboard.analysis.search-users'', (utf8 [0x641C, 0x7D22, 0x7528, 0x6237, 0x6570])),
     (''dashboard.analysis.per-capita-search'',
       (utf8 [0x4EBA, 0x5747, 0x641C, 0x7D22, 0x6B21, 0x6570])),
     (''dashboard.analysis.online-top-search'',
       (utf8 [0x7EBF, 0x4E0A, 0x70ED, 0x95E8, 0x641C, 0x7D22])),
     (''dashboard.analysis.the-proportion-of-sales'',
       (utf8 [0x9500, 0x552E, 0x989D, 0x7C7B, 0x522B, 0x5360, 0x6BD4])),
     (''dashboard.analysis.dropdown-option-one'', (utf8 [0x64CD, 0x4F5C, 0x4E00])),
     (''dashboard.analysis.dropdown-option-two'', (utf8 [0x64CD, 0x4F5C, 0x4E8C])),
     (''dashboard.analysis.channel.all'', (utf8 [0x5168, 0x90E8, 0x6E20, 0x9053])),
     (''dashboard.analysis.channel.online'', (utf8 [0x7EBF, 0x4E0A])),
     (''dashboard.analysis.channel.stores'', (utf8 [0x95E8, 0x5E97])),
     (''dashboard.analysis.sales'', (utf8 [0x9500, 0x552E, 0x989D])),
     (''dashboard.analysis.traffic'', (utf8 [0x5BA2, 0x6D41, 0x91CF])),
     (''dashboard.analysis.table.rank'', (utf8 [0x6392, 0x540D])),
     (''dashboard.analysis.table.search-keyword'',
       (utf8 [0x641C, 0x7D22, 0x5173, 0x952E, 0x8BCD])),
     (''dashboard.analysis.table.users'', (utf8 [0x7528, 0x6237, 0x6570])),
     (''dashboard.analysis.table.weekly-range'', (utf8 [0x5468, 0x6DA8, 0x5E45]))]"

definition zh_basicForm :: messages where
  "zh_basicForm =
    [(''form.basic-form.basic.title'', (utf8 [0x57FA, 0x7840, 0x8868, 0x5355])),
     (''form.basic-form.basic.description'',
       (utf8 [0x8868, 0x5355, 0x9875, 0x7528, 0x4E8E, 0x5411, 0x7528, 0x6237, 0x6536, 0x96C6, 0x6216, 0x9A8C, 0x8BC1, 0x4FE1, 0x606F, 0xFF0C, 0x57FA, 0x7840, 0x8868, 0x5355, 0x5E38, 0x89C1, 0x4E8E, 0x6570, 0x636E, 0x9879, 0x8F83, 0x5C11, 0x7684, 0x8868, 0x5355, 0x573A, 0x666F, 0x3002])),
     (''form.basic-form.title.label'', (utf8 [0x6807, 0x9898])),
     (''form.basic-form.title.placeholder'',
       (utf8 [0x7ED9, 0x76EE, 0x6807, 0x8D77, 0x4E2A, 0x540D, 0x5B57])),
     (''form.basic-form.title.required'', (utf8 [0x8BF7, 0x8F93, 0x5165, 0x6807, 0x9898])),
     (''form.basic-form.date.label'', (utf8 [0x8D77, 0x6B62, 0x65E5, 0x671F])),
     (''form.basic-form.placeholder.start'', (utf8 [0x5F00, 0x59CB, 0x65E5, 0x671F])),
     (''form.basic-form.placeholder.end'', (utf8 [0x7ED3, 0x675F, 0x65E5, 0x671F])),
     (''form.basic-form.date.required'',
       (utf8 [0x8BF7, 0x9009, 0x62E9, 0x8D77, 0x6B62, 0x65E5, 0x671F])),
     (''form.basic-form.goal.label'', (utf8 [0x76EE, 0x6807, 0x63CF, 0x8FF0])),
     (''form.basic-form.goal.placeholder'',
       (utf8 [0x8BF7, 0x8F93, 0x5165, 0x4F60, 0x7684, 0x9636, 0x6BB5, 0x6027, 0x5DE5, 0x4F5C, 0x76EE, 0x6807])),
     (''form.basic-form.goal.required'',
       (utf8 [0x8BF7, 0x8F93, 0x5165, 0x76EE, 0x6807, 0x63CF, 0x8FF0])),
     (''form.basic-form.standard.label'', (utf8 [0x8861, 0x91CF, 0x6807, 0x51C6])),
     (''form.basic-form.standard.placeholder'',
       (utf8 [0x8BF7, 0x8F93, 0x5165, 0x8861, 0x91CF, 0x6807, 0x51C6])),
     (''form.basic-form.standard.required'',
       (utf8 [0x8BF7, 0x8F93, 0x5165, 0x8861, 0x91CF, 0x6807, 0x51C6])),
     (''form.basic-form.client.label'', (utf8 [0x5BA2, 0x6237])),
     (''form.basic-form.client.required'',
       (utf8 [0x8BF7, 0x63CF, 0x8FF0, 0x4F60, 0x670D, 0x52A1, 0x7684, 0x5BA2, 0x6237])),
     (''form.basic-form.label.tooltip'',
       (utf8 [0x76EE, 0x6807, 0x7684, 0x670D, 0x52A1, 0x5BF9, 0x8C61])),
     (''form.basic-form.client.placeholder'',
       (utf8 [0x8BF7, 0x63CF, 0x8FF0, 0x4F60, 0x670D, 0x52A1, 0x7684, 0x5BA2, 0x6237, 0xFF0C, 0x5185, 0x90E8, 0x5BA2, 0x6237, 0x76F4, 0x63A5] @
       '' @'' @
       utf8 [0x59D3, 0x540D, 0xFF0F, 0x5DE5, 0x53F7])),
     (''form.basic-form.invites.label'', (utf8 [0x9080, 0x8BC4, 0x4EBA])),
     (''form.basic-form.invites.placeholder'',
       (utf8 [0x8BF7, 0x76F4, 0x63A5] @
       '' @'' @
       utf8 [0x59D3, 0x540D, 0xFF0F, 0x5DE5, 0x53F7, 0xFF0C, 0x6700, 0x591A, 0x53EF, 0x9080, 0x8BF7] @
       '' 5 '' @
       utf8 [0x4EBA])),
     (''form.basic-form.weight.label'', (utf8 [0x6743, 0x91CD])),
     (''form.basic-form.weight.placeholder'', (utf8 [0x8BF7, 0x8F93, 0x5165])),
     (''form.basic-form.public.label'', (utf8 [0x76EE, 0x6807, 0x516C, 0x5F00])),
     (''form.basic-form.label.help'',
       (utf8 [0x5BA2, 0x6237, 0x3001, 0x9080, 0x8BC4, 0x4EBA, 0x9ED8, 0x8BA4, 0x88AB, 0x5206, 0x4EAB])),
     (''form.basic-form.radio.public'', (utf8 [0x516C, 0x5F00])),
     (''form.basic-form.radio.partially-public'', (utf8 [0x90E8, 0x5206, 0x516C, 0x5F00])),
     (''form.basic-form.radio.private'', (utf8 [0x4E0D, 0x516C, 0x5F00])),
     (''form.basic-form.publicUsers.placeholder'', (utf8 [0x516C, 0x5F00, 0x7ED9])),
     (''form.basic-form.option.A'', (utf8 [0x540C, 0x4E8B, 0x4E00])),
     (''form.basic-form.option.B'', (utf8 [0x540C, 0x4E8B, 0x4E8C])),
     (''form.basic-form.option.C'', (utf8 [0x540C, 0x4E8B, 0x4E09])),
     (''form.basic-form.email.required'',
       (utf8 [0x8BF7, 0x8F93, 0x5165, 0x90AE, 0x7BB1, 0x5730, 0x5740, 0xFF01])),
     (''form.basic-form.email.wrong-format'',
       (utf8 [0x90AE, 0x7BB1, 0x5730, 0x5740, 0x683C, 0x5F0F, 0x9519, 0x8BEF, 0xFF01])),
     (''form.basic-form.userName.required'',
       (utf8 [0x8BF7, 0x8F93, 0x5165, 0x7528, 0x6237, 0x540D] @ ''!'')),
     (''form.basic-form.password.required'',
       (utf8 [0x8BF7, 0x8F93, 0x5165, 0x5BC6, 0x7801, 0xFF01])),
     (''form.basic-form.password.twice'',
       (utf8 [0x4E24, 0x6B21, 0x8F93, 0x5165, 0x7684, 0x5BC6, 0x7801, 0x4E0D, 0x5339, 0x914D] @ ''!'')),
     (''form.basic-form.strength.msg'',
       (utf8 [0x8BF7, 0x81F3, 0x5C11, 0x8F93, 0x5165] @
       '' 6 '' @
       utf8 [0x4E2A, 0x5B57, 0x7B26, 0x3002, 0x8BF7, 0x4E0D, 0x8981, 0x4F7F, 0x7528, 0x5BB9, 0x6613, 0x88AB, 0x731C, 0x5230, 0x7684, 0x5BC6, 0x7801, 0x3002])),
     (''form.basic-form.strength.strong'', (utf8 [0x5F3A, 0x5EA6, 0xFF1A, 0x5F3A])),
     (''form.basic-form.strength.medium'', (utf8 [0x5F3A, 0x5EA6, 0xFF1A, 0x4E2D])),
     (''form.basic-form.strength.short'', (utf8 [0x5F3A, 0x5EA6, 0xFF1A, 0x592A, 0x77ED])),
     (''form.basic-form.confirm-password.required'',
       (utf8 [0x8BF7, 0x786E, 0x8BA4, 0x5BC6, 0x7801, 0xFF01])),
     (''form.basic-form.phone-number.required'',
       (utf8 [0x8BF7, 0x8F93, 0x5165, 0x624B, 0x673A, 0x53F7, 0xFF01])),
     (''form.basic-form.phone-number.wrong-format'',
       (utf8 [0x624B, 0x673A, 0x53F7, 0x683C, 0x5F0F, 0x9519, 0x8BEF, 0xFF01])),
     (''form.basic-form.verification-code.required'',
       (utf8 [0x8BF7, 0x8F93, 0x5165, 0x9A8C, 0x8BC1, 0x7801, 0xFF01])),
     (''form.basic-form.form.get-captcha'', (utf8 [0x83B7, 0x53D6, 0x9A8C, 0x8BC1, 0x7801])),
     (''form.basic-form.captcha.second'', (utf8 [0x79D2])),
     (''form.basic-form.form.optional'', (utf8 [0xFF08, 0x9009, 0x586B, 0xFF09])),
     (''form.basic-form.form.submit'', (utf8 [0x63D0, 0x4EA4])),
     (''form.basic-form.form.save'', (utf8 [0x4FDD, 0x5B58])),
     (''form.basic-form.email.placeholder'', (utf8 [0x90AE, 0x7BB1])),
     (''form.basic-form.password.placeholder'',
       (utf8 [0x81F3, 0x5C11] @
       ''6'' @
       utf8 [0x4F4D, 0x5BC6, 0x7801, 0xFF0C, 0x533A, 0x5206, 0x5927, 0x5C0F, 0x5199])),
     (''form.basic-form.confirm-password.placeholder'',
       (utf8 [0x786E, 0x8BA4, 0x5BC6, 0x7801])),
     (''form.basic-form.phone-number.placeholder'', (utf8 [0x624B, 0x673A, 0x53F7])),
     (''form.basic-form.verification-code.placeholder'', (utf8 [0x9A8C, 0x8BC1, 0x7801]))]"

definition zh_success :: messages where
  "zh_success =
    [(''result.success.title'', (utf8 [0x63D0, 0x4EA4, 0x6210, 0x529F])),
     (''result.success.description'',
       (utf8 [0x63D0, 0x4EA4, 0x7ED3, 0x679C, 0x9875, 0x7528, 0x4E8E, 0x53CD, 0x9988, 0x4E00, 0x7CFB, 0x5217, 0x64CD, 0x4F5C, 0x4EFB, 0x52A1, 0x7684, 0x5904, 0x7406, 0x7ED3, 0x679C, 0xFF0C] @
       '' '' @
       utf8 [0x5982, 0x679C, 0x4EC5, 0x662F, 0x7B80, 0x5355, 0x64CD, 0x4F5C, 0xFF0C, 0x4F7F, 0x7528] @
       '' Message '' @
       utf8 [0x5168, 0x5C40, 0x63D0, 0x793A, 0x53CD, 0x9988, 0x5373, 0x53EF, 0x3002] @
       '' '' @
       utf8 [0x672C, 0x6587, 0x5B57, 0x533A, 0x57DF, 0x53EF, 0x4EE5, 0x5C55, 0x793A, 0x7B80, 0x5355, 0x7684, 0x8865, 0x5145, 0x8BF4, 0x660E, 0xFF0C, 0x5982, 0x679C, 0x6709, 0x7C7B, 0x4F3C, 0x5C55, 0x793A] @
       '' '' @
       utf8 [0x201C, 0x5355, 0x636E, 0x201D, 0x7684, 0x9700, 0x6C42, 0xFF0C, 0x4E0B, 0x9762, 0x8FD9, 0x4E2A, 0x7070, 0x8272, 0x533A, 0x57DF, 0x53EF, 0x4EE5, 0x5448, 0x73B0, 0x6BD4, 0x8F83, 0x590D, 0x6742, 0x7684, 0x5185, 0x5BB9, 0x3002])),
     (''result.success.operate-title'', (utf8 [0x9879, 0x76EE, 0x540D, 0x79F0])),
     (''result.success.operate-id'', (utf8 [0x9879, 0x76EE] @ '' ID'')),
     (''result.success.principal'', (utf8 [0x8D1F, 0x8D23, 0x4EBA])),
     (''result.success.operate-time'', (utf8 [0x751F, 0x6548, 0x65F6, 0x95F4])),
     (''result.success.step1-title'', (utf8 [0x521B, 0x5EFA, 0x9879, 0x76EE])),
     (''result.success.step1-operator'', (utf8 [0x66F2, 0x4E3D, 0x4E3D])),
     (''result.success.step2-title'', (utf8 [0x90E8, 0x95E8, 0x521D, 0x5BA1])),
     (''result.success.step2-operator'', (utf8 [0x5468, 0x6BDB, 0x6BDB])),
     (''result.success.step2-extra'', (utf8 [0x50AC, 0x4E00, 0x4E0B])),
     (''result.success.step3-title'', (utf8 [0x8D22, 0x52A1, 0x590D, 0x6838])),
     (''result.success.step4-title'', (utf8 [0x5B8C, 0x6210])),
     (''result.success.btn-return'', (utf8 [0x8FD4, 0x56DE, 0x5217, 0x8868])),
     (''result.success.btn-project'', (utf8 [0x67E5, 0x770B, 0x9879, 0x76EE])),
     (''result.success.btn-print'', (utf8 [0x6253, 0x5370]))]"

definition zh_fail :: messages where
  "zh_fail =
    [(''result.fail.error.title'', (utf8 [0x63D0, 0x4EA4, 0x5931, 0x8D25])),
     (''result.fail.error.description'',
       (utf8 [0x8BF7, 0x6838, 0x5BF9, 0x5E76, 0x4FEE, 0x6539, 0x4EE5, 0x4E0B, 0x4FE1, 0x606F, 0x540E, 0xFF0C, 0x518D, 0x91CD, 0x65B0, 0x63D0, 0x4EA4, 0x3002])),
     (''result.fail.error.hint-title'',
       (utf8 [0x60A8, 0x63D0, 0x4EA4, 0x7684, 0x5185, 0x5BB9, 0x6709, 0x5982, 0x4E0B, 0x9519, 0x8BEF, 0xFF1A])),
     (''result.fail.error.hint-text1'',
       (utf8 [0x60A8, 0x7684, 0x8D26, 0x6237, 0x5DF2, 0x88AB, 0x51BB, 0x7ED3])),
     (''result.fail.error.hint-btn1'', (utf8 [0x7ACB, 0x5373, 0x89E3, 0x51BB])),
     (''result.fail.error.hint-text2'',
       (utf8 [0x60A8, 0x7684, 0x8D26, 0x6237, 0x8FD8, 0x4E0D, 0x5177, 0x5907, 0x7533, 0x8BF7, 0x8D44, 0x683C])),
     (''result.fail.error.hint-btn2'', (utf8 [0x7ACB, 0x5373, 0x5347, 0x7EA7])),
     (''result.fail.error.btn-text'', (utf8 [0x8FD4, 0x56DE, 0x4FEE, 0x6539]))]"

definition zh_settings :: messages where
  "zh_settings =
    [(''account.settings.menuMap.basic'', (utf8 [0x57FA, 0x672C, 0x8BBE, 0x7F6E])),
     (''account.settings.menuMap.security'', (utf8 [0x5B89, 0x5168, 0x8BBE, 0x7F6E])),
     (''account.settings.menuMap.custom'', (utf8 [0x4E2A, 0x6027, 0x5316])),
     (''account.settings.menuMap.binding'', (utf8 [0x8D26, 0x53F7, 0x7ED1, 0x5B9A])),
     (''account.settings.menuMap.notification'',
       (utf8 [0x65B0, 0x6D88, 0x606F, 0x901A, 0x77E5])),
     (''account.settings.basic.avatar'', (utf8 [0x5934, 0x50CF])),
     (''account.settings.basic.change-avatar'', (utf8 [0x66F4, 0x6362, 0x5934, 0x50CF])),
     (''account.settings.basic.email'', (utf8 [0x90AE, 0x7BB1])),
     (''account.settings.basic.email-message'',
       (utf8 [0x8BF7, 0x8F93, 0x5165, 0x60A8, 0x7684, 0x90AE, 0x7BB1] @ ''!'')),
     (''account.settings.basic.nickname'', (utf8 [0x6635, 0x79F0])),
     (''account.settings.basic.nickname-message'',
       (utf8 [0x8BF7, 0x8F93, 0x5165, 0x60A8, 0x7684, 0x6635, 0x79F0] @ ''!'')),
     (''account.settings.basic.profile'', (utf8 [0x4E2A, 0x4EBA, 0x7B80, 0x4ECB])),
     (''account.settings.basic.profile-message'',
       (utf8 [0x8BF7, 0x8F93, 0x5165, 0x4E2A, 0x4EBA, 0x7B80, 0x4ECB] @ ''!'')),
     (''account.settings.basic.profile-placeholder'',
       (utf8 [0x4E2A, 0x4EBA, 0x7B80, 0x4ECB])),
     (''account.settings.basic.country'',
       (utf8 [0x56FD, 0x5BB6] @ ''/'' @ utf8 [0x5730, 0x533A])),
     (''account.settings.basic.country-message'',
       (utf8 [0x8BF7, 0x8F93, 0x5165, 0x60A8, 0x7684, 0x56FD, 0x5BB6, 0x6216, 0x5730, 0x533A] @ ''!'')),
     (''account.settings.basic.geographic'', (utf8 [0x6240, 0x5728, 0x7701, 0x5E02])),
     (''account.settings.basic.geographic-message'',
       (utf8 [0x8BF7, 0x8F93, 0x5165, 0x60A8, 0x7684, 0x6240, 0x5728, 0x7701, 0x5E02] @ ''!'')),
     (''account.settings.basic.address'', (utf8 [0x8857, 0x9053, 0x5730, 0x5740])),
     (''account.settings.basic.address-message'',
       (utf8 [0x8BF7, 0x8F93, 0x5165, 0x60A8, 0x7684, 0x8857, 0x9053, 0x5730, 0x5740] @ ''!'')),
     (''account.settings.basic.phone'', (utf8 [0x8054, 0x7CFB, 0x7535, 0x8BDD])),
     (''account.settings.basic.phone-message'',
       (utf8 [0x8BF7, 0x8F93, 0x5165, 0x60A8, 0x7684, 0x8054, 0x7CFB, 0x7535, 0x8BDD] @ ''!'')),
     (''account.settings.basic.update'',
       (utf8 [0x66F4, 0x65B0, 0x57FA, 0x672C, 0x4FE1, 0x606F])),
     (''account.settings.basic.update.success'',
       (utf8 [0x66F4, 0x65B0, 0x57FA, 0x672C, 0x4FE1, 0x606F, 0x6210, 0x529F])),
     (''account.settings.security.strong'', (utf8 [0x5F3A])),
     (''account.settings.security.medium'', (utf8 [0x4E2D])),
     (''account.settings.security.weak'', (utf8 [0x5F31])),
     (''account.settings.security.password'', (utf8 [0x8D26, 0x6237, 0x5BC6, 0x7801])),
     (''account.settings.security.password-description'',
       (utf8 [0x5F53, 0x524D, 0x5BC6, 0x7801, 0x5F3A, 0x5EA6, 0xFF1A])),
     (''account.settings.security.phone'', (utf8 [0x5BC6, 0x4FDD, 0x624B, 0x673A])),
     (''account.settings.security.phone-description'',
       (utf8 [0x5DF2, 0x7ED1, 0x5B9A, 0x624B, 0x673A, 0xFF1A])),
     (''account.settings.security.question'', (utf8 [0x5BC6, 0x4FDD, 0x95EE, 0x9898])),
     (''account.settings.security.question-description'',
       (utf8 [0x672A, 0x8BBE, 0x7F6E, 0x5BC6, 0x4FDD, 0x95EE, 0x9898, 0xFF0C, 0x5BC6, 0x4FDD, 0x95EE, 0x9898, 0x53EF, 0x6709, 0x6548, 0x4FDD, 0x62A4, 0x8D26, 0x6237, 0x5B89, 0x5168])),
     (''account.settings.security.email'', (utf8 [0x5907, 0x7528, 0x90AE, 0x7BB1])),
     (''account.settings.security.email-description'',
       (utf8 [0x5DF2, 0x7ED1, 0x5B9A, 0x90AE, 0x7BB1, 0xFF1A])),
     (''account.settings.security.mfa'', (''MFA '' @ utf8 [0x8BBE, 0x5907])),
     (''account.settings.security.mfa-description'',
       (utf8 [0x672A, 0x7ED1, 0x5B9A] @
       '' MFA '' @
       utf8 [0x8BBE, 0x5907, 0xFF0C, 0x7ED1, 0x5B9A, 0x540E, 0xFF0C, 0x53EF, 0x4EE5, 0x8FDB, 0x884C, 0x4E8C, 0x6B21, 0x786E, 0x8BA4])),
     (''account.settings.security.modify'', (utf8 [0x4FEE, 0x6539])),
     (''account.settings.security.set'', (utf8 [0x8BBE, 0x7F6E])),
     (''account.settings.security.bind'', (utf8 [0x7ED1, 0x5B9A])),
     (''account.settings.binding.taobao'', (utf8 [0x7ED1, 0x5B9A, 0x6DD8, 0x5B9D])),
     (''account.settings.binding.taobao-description'',
       (utf8 [0x5F53, 0x524D, 0x672A, 0x7ED1, 0x5B9A, 0x6DD8, 0x5B9D, 0x8D26, 0x53F7])),
     (''account.settings.binding.alipay'', (utf8 [0x7ED1, 0x5B9A, 0x652F, 0x4ED8, 0x5B9D])),
     (''account.settings.binding.alipay-description'',
       (utf8 [0x5F53, 0x524D, 0x672A, 0x7ED1, 0x5B9A, 0x652F, 0x4ED8, 0x5B9D, 0x8D26, 0x53F7])),
     (''account.settings.binding.dingding'', (utf8 [0x7ED1, 0x5B9A, 0x9489, 0x9489])),
     (''account.settings.binding.dingding-description'',
       (utf8 [0x5F53, 0x524D, 0x672A, 0x7ED1, 0x5B9A, 0x9489, 0x9489, 0x8D26, 0x53F7])),
     (''account.settings.binding.bind'', (utf8 [0x7ED1, 0x5B9A])),
     (''account.settings.notification.password'', (utf8 [0x8D26, 0x6237, 0x5BC6, 0x7801])),
     (''account.settings.notification.password-description'',
       (utf8 [0x5176, 0x4ED6, 0x7528, 0x6237, 0x7684, 0x6D88, 0x606F, 0x5C06, 0x4EE5, 0x7AD9, 0x5185, 0x4FE1, 0x7684, 0x5F62, 0x5F0F, 0x901A, 0x77E5])),
     (''account.settings.notification.messages'', (utf8 [0x7CFB, 0x7EDF, 0x6D88, 0x606F])),
     (''account.settings.notification.messages-description'',
       (utf8 [0x7CFB, 0x7EDF, 0x6D88, 0x606F, 0x5C06, 0x4EE5, 0x7AD9, 0x5185, 0x4FE1, 0x7684, 0x5F62, 0x5F0F, 0x901A, 0x77E5])),
     (''account.settings.notification.todo'', (utf8 [0x5F85, 0x529E, 0x4EFB, 0x52A1])),
     (''account.settings.notification.todo-description'',
       (utf8 [0x5F85, 0x529E, 0x4EFB, 0x52A1, 0x5C06, 0x4EE5, 0x7AD9, 0x5185, 0x4FE1, 0x7684, 0x5F62, 0x5F0F, 0x901A, 0x77E5])),
     (''account.settings.settings.open'', (utf8 [0x5F00])),
     (''account.settings.settings.close'', (utf8 [0x5173]))]"

definition zh_dashboard :: messages where
  "zh_dashboard = zh_analysis"

definition zh_form :: messages where
  "zh_form = zh_basicForm"

definition zh_result :: messages where
  "zh_result = zh_success @ zh_fail"

definition zh_account :: messages where
  "zh_account = zh_settings"

definition zh_CN :: language where
  "zh_CN = \<lparr>
    momentName = ''zh-cn'',
    texts =
      [(''message'', ''-''),
       (''layouts.usermenu.dialog.title'', (utf8 [0x4FE1, 0x606F])),
       (''layouts.usermenu.dialog.content'', (utf8 [0x60A8, 0x786E, 0x5B9A, 0x8981, 0x6CE8, 0x9500, 0x5417, 0xFF1F])),
       (''layouts.userLayout.title'', (''Ant Design '' @ utf8 [0x662F, 0x897F, 0x6E56, 0x533A, 0x6700, 0x5177, 0x5F71, 0x54CD, 0x529B, 0x7684] @ '' Web '' @ utf8 [0x8BBE, 0x8BA1, 0x89C4, 0x8303]))] @
      zh_global @ zh_menu @ zh_setting @ zh_user @ zh_dashboard @ zh_form @ zh_result @ zh_account\<rparr>"

section \<open>Looking up a message\<close>

text \<open>In an object spread the later entry of a key wins.\<close>

definition message :: "language \<Rightarrow> string \<Rightarrow> string option" where
  "message l key = map_of (rev (texts l)) key"

definition language_of :: "string \<Rightarrow> language option" where
  "language_of l = (if l = ''en-US'' then Some en_US else if l = ''zh-CN'' then Some zh_CN else None)"

definition i18nRender :: "i18n_state \<Rightarrow> string \<Rightarrow> string" where
  "i18nRender s key =
     (let look = (\<lambda>l. if l \<in> set (i18n_messages s) then Option.bind (language_of l) (\<lambda>m. message m key) else None) in
      (case look (i18n_locale s) of
         Some t \<Rightarrow> t
       | None \<Rightarrow> (case look defaultLang of Some t \<Rightarrow> t | None \<Rightarrow> key)))"

section \<open>The two languages\<close>

lemma same_keys_leaf:
  "map fst en_global = map fst zh_global" "map fst en_menu = map fst zh_menu"
  "map fst en_setting = map fst zh_setting" "map fst en_user = map fst zh_user"
  "map fst en_analysis = map fst zh_analysis"
  "map fst en_success = map fst zh_success" "map fst en_fail = map fst zh_fail"
  "map fst en_settings = map fst zh_settings"
  by (simp_all only: en_global_def zh_global_def en_menu_def zh_menu_def en_setting_def zh_setting_def
      en_user_def zh_user_def en_analysis_def zh_analysis_def en_success_def zh_success_def en_fail_def zh_fail_def en_settings_def zh_settings_def
      list.map fst_conv)

text \<open>One file lists its keys in another order.\<close>

lemma same_keys_basicForm: "set (map fst en_basicForm) = set (map fst zh_basicForm)"
  unfolding en_basicForm_def zh_basicForm_def list.map fst_conv list.set
  by (simp only: insert_commute)

lemma same_keys: "set (map fst (texts en_US)) = set (map fst (texts zh_CN))"
  by (simp del: set_map add: same_keys_basicForm en_US_def zh_CN_def same_keys_leaf en_dashboard_def zh_dashboard_def en_form_def zh_form_def
      en_result_def zh_result_def en_account_def zh_account_def)

lemma message_None_iff: "message l key = None \<longleftrightarrow> key \<notin> set (map fst (texts l))"
  by (simp add: message_def map_of_eq_None_iff)

lemma same_messages: "message en_US key = None \<longleftrightarrow> message zh_CN key = None"
  unfolding message_None_iff same_keys ..

text \<open>The two languages have the same keys, so that a key is shown raw in one
  exactly when it is in the other: once Chinese is loaded and in force, no text falls back to English.\<close>

theorem no_fallback_text:
  assumes "i18n_locale s = ''zh-CN''" "''zh-CN'' \<in> set (i18n_messages s)"
  shows "i18nRender s key = (case message zh_CN key of Some t \<Rightarrow> t | None \<Rightarrow> key)"
  using assms same_messages [of key]
  by (auto simp: i18nRender_def Let_def defaultLang_def language_of_def split: option.splits)

theorem no_fallback_text_witness:
  "i18nRender (import_done init_i18n ''zh-CN'') ''save.ok'' = (case message zh_CN ''save.ok'' of Some t \<Rightarrow> t | None \<Rightarrow> ''save.ok'')"
  by (rule no_fallback_text) (simp_all add: import_done_def setLocaleMessage_def setI18nLanguage_def init_i18n_def Let_def)

section \<open>Menu titles\<close>

definition titles :: "route list \<Rightarrow> string list" where
  "titles rs = List.map_filter (\<lambda>i. Option.bind (r_meta i) m_title) (infos rs)"

text \<open>The titles a language has no message for.\<close>

fun untranslated :: "language \<Rightarrow> string list \<Rightarrow> string list" where
  "untranslated l [] = []"
| "untranslated l (t # ts) =
     (if message l t = None then t # untranslated l ts else untranslated l ts)"

lemma titles_async: "titles asyncRouterMap =
     [''menu.home'', ''menu.dashboard'', ''menu.dashboard.analysis'',
      ''menu.dashboard.monitor'', ''menu.dashboard.workplace'', ''menu.form'',
      ''menu.form.basic-form'', ''menu.form.step-form'', ''menu.form.advanced-form'',
      ''menu.list'', ''menu.list.table-list'', ''menu.list.basic-list'',
      ''menu.list.card-list'', ''menu.list.search-list'', ''menu.list.search-list.articles'',
      ''menu.list.search-list.projects'', ''menu.list.search-list.applications'', ''menu.profile'',
      ''menu.profile.basic'', ''menu.profile.advanced'', ''menu.result'',
      ''menu.result.success'', ''menu.result.fail'', ''menu.account'',
      ''menu.account.center'', ''menu.account.settings'', ''account.settings.menuMap.basic'',
      ''account.settings.menuMap.security'', ''account.settings.menuMap.custom'', ''account.settings.menuMap.binding'',
      ''account.settings.menuMap.notification'', (utf8 [0x76D1, 0x63A7]), (utf8 [0x670D, 0x52A1, 0x5668]),
      (utf8 [0x4EA4, 0x6362, 0x673A]), (utf8 [0x94FE, 0x8DEF]), ''SFCI'',
      ''SFC'', ''VNFI'', (utf8 [0x7BA1, 0x7406]),
      (utf8 [0x6DFB, 0x52A0] @ ''SFC'')]"
  by (simp add: titles_def table_eval no_meta_def List.map_filter_simps)

text \<open>Every key starts with a small letter.\<close>

definition key_start :: "string \<Rightarrow> bool" where
  "key_start k \<longleftrightarrow> (case k of [] \<Rightarrow> False | c # _ \<Rightarrow> c \<in> set ''madfrslu'')"

lemma key_start_simps: "key_start (c # cs) \<longleftrightarrow> c \<in> set ''madfrslu''" "\<not> key_start []"
  by (simp_all add: key_start_def)

lemma keys_start_small: "list_all (key_start \<circ> fst) (texts en_US)"
  by (simp add: en_US_def en_global_def en_menu_def en_setting_def en_dashboard_def en_analysis_def
      en_user_def en_form_def en_basicForm_def en_result_def en_success_def en_fail_def en_account_def
      en_settings_def key_start_simps)

lemma not_key_start: "\<not> key_start t \<Longrightarrow> message en_US t = None"
  using keys_start_small by (force simp: message_None_iff list_all_iff)

lemma not_key_start_utf8: "2048 \<le> c \<Longrightarrow> c < 65536 \<Longrightarrow> \<not> key_start (utf8 (c # cs) @ s)"
proof
  assume "2048 \<le> c" "c < 65536" "key_start (utf8 (c # cs) @ s)"
  then have c: "c div 4096 < 16" and "char_of (224 + c div 4096) \<in> set ''madfrslu''"
    by (auto simp: utf8_def utf8_char_def key_start_def)
  then have "(of_char (char_of (224 + c div 4096) :: char) :: nat) \<in> of_char ` set ''madfrslu''"
    by (intro imageI)
  with c show False by (simp add: of_char_of)
qed

lemma untranslated_known:
  "set ks \<subseteq> set (map fst (texts l)) \<Longrightarrow> untranslated l (ks @ ts) = untranslated l ts"
  by (induction ks) (auto simp: message_None_iff)

lemma take_split: "ts = take a ts @ take b (drop a ts) @ drop (b + a) ts"
  by (metis append_take_drop_id drop_drop)

lemma menu_titles: "set (take 26 (titles asyncRouterMap)) \<subseteq> set (map fst (texts en_US))"
proof -
  have "set (take 26 (titles asyncRouterMap)) \<subseteq> set (map fst en_menu)"
    unfolding titles_async by (simp add: en_menu_def)
  then show ?thesis by (auto simp: en_US_def)
qed

lemma settings_titles: "set (take 5 (drop 26 (titles asyncRouterMap))) \<subseteq> set (map fst (texts en_US))"
proof -
  have "set (take 5 (drop 26 (titles asyncRouterMap))) \<subseteq> set (map fst en_settings)"
    unfolding titles_async by (simp add: en_settings_def)
  then show ?thesis by (auto simp: en_US_def en_account_def)
qed

text \<open>Of the titles of the permission-controlled routes exactly those of the monitoring and managing
  sections have no message, in either language: these titles are Chinese texts and short names, and
  are shown as they are whatever the language.\<close>

theorem untranslated_titles:
  "untranslated en_US (titles asyncRouterMap) =
     [utf8 [0x76D1, 0x63A7], utf8 [0x670D, 0x52A1, 0x5668], utf8 [0x4EA4, 0x6362, 0x673A],
      utf8 [0x94FE, 0x8DEF], ''SFCI'', ''SFC'', ''VNFI'', utf8 [0x7BA1, 0x7406],
      utf8 [0x6DFB, 0x52A0] @ ''SFC''] \<and>
   untranslated zh_CN (titles asyncRouterMap) = untranslated en_US (titles asyncRouterMap)"
proof
  have "untranslated zh_CN ts = untranslated en_US ts" for ts
    by (induction ts) (simp_all add: same_messages)
  then show "untranslated zh_CN (titles asyncRouterMap) = untranslated en_US (titles asyncRouterMap)" .
  show "untranslated en_US (titles asyncRouterMap) =
     [utf8 [0x76D1, 0x63A7], utf8 [0x670D, 0x52A1, 0x5668], utf8 [0x4EA4, 0x6362, 0x673A],
      utf8 [0x94FE, 0x8DEF], ''SFCI'', ''SFC'', ''VNFI'', utf8 [0x7BA1, 0x7406],
      utf8 [0x6DFB, 0x52A0] @ ''SFC'']"
  proof -
    let ?ts = "titles asyncRouterMap"
    have "untranslated en_US ?ts =
        untranslated en_US (take 26 ?ts @ take 5 (drop 26 ?ts) @ drop (5 + 26) ?ts)"
      by (rule arg_cong [OF take_split])
    then have "untranslated en_US ?ts = untranslated en_US (drop 31 ?ts)"
      by (simp add: untranslated_known [OF menu_titles] untranslated_known [OF settings_titles])
    also have "\<dots> = drop 31 ?ts"
      unfolding titles_async
      by (simp add: not_key_start key_start_simps not_key_start_utf8 [where s = "[]", simplified]
          not_key_start_utf8)
    also have "\<dots> =
     [utf8 [0x76D1, 0x63A7], utf8 [0x670D, 0x52A1, 0x5668], utf8 [0x4EA4, 0x6362, 0x673A],
      utf8 [0x94FE, 0x8DEF], ''SFCI'', ''SFC'', ''VNFI'', utf8 [0x7BA1, 0x7406],
      utf8 [0x6DFB, 0x52A0] @ ''SFC'']"
      unfolding titles_async by simp
    finally show ?thesis .
  qed
qed

end
