(* ===== verification/Machines.thy ===== *)
theory Machines
  imports Main
begin

text \<open>
  State machines driven by events: the runs in which every event is one the state allows, and what
  carries over from single steps to runs. The pages and components with handlers are such machines; a
  theory interprets the locale that fits its own step function.
\<close>

fun enabled_run :: "('s \<Rightarrow> 'e \<Rightarrow> bool) \<Rightarrow> ('s \<Rightarrow> 'e \<Rightarrow> 's) \<Rightarrow> 's \<Rightarrow> 'e list \<Rightarrow> bool" where
  "enabled_run ok step s [] = True"
| "enabled_run ok step s (e # es) = (ok s e \<and> enabled_run ok step (step s e) es)"

lemma enabled_run_append:
  "enabled_run ok step s (es @ es') = (enabled_run ok step s es \<and> enabled_run ok step (foldl step s es) es')"
  by (induction es arbitrary: s) simp_all

lemma enabled_run_always [simp]: "enabled_run (\<lambda>_ _. True) step s es"
  by (induction es arbitrary: s) simp_all

section \<open>Invariants\<close>

locale machine =
  fixes ok :: "'s \<Rightarrow> 'e \<Rightarrow> bool"
    and step :: "'s \<Rightarrow> 'e \<Rightarrow> 's"
    and inv :: "'s \<Rightarrow> bool"
  assumes keeps: "inv s \<Longrightarrow> ok s e \<Longrightarrow> inv (step s e)"
begin

lemma run_inv: "inv s \<Longrightarrow> enabled_run ok step s es \<Longrightarrow> inv (foldl step s es)"
  by (induction es arbitrary: s) (simp_all add: keeps)

end

section \<open>Refinement\<close>

text \<open>A machine whose states show those of an abstract one, step by step.\<close>

locale refinement = machine ok step inv
  for ok :: "'s \<Rightarrow> 'e \<Rightarrow> bool" and step :: "'s \<Rightarrow> 'e \<Rightarrow> 's" and inv :: "'s \<Rightarrow> bool" +
  fixes abs :: "'s \<Rightarrow> 'a"
    and astep :: "'a \<Rightarrow> 'e \<Rightarrow> 'a"
  assumes simulates: "inv s \<Longrightarrow> ok s e \<Longrightarrow> abs (step s e) = astep (abs s) e"
begin

lemma run_refines:
  "inv s \<Longrightarrow> enabled_run ok step s es \<Longrightarrow> abs (foldl step s es) = foldl astep (abs s) es"
  by (induction es arbitrary: s) (simp_all add: keeps simulates)

end

section \<open>Progress\<close>

text \<open>Some events work something off, and one of them is possible as long as there is something left.\<close>

locale working_off = machine ok step inv
  for ok :: "'s \<Rightarrow> 'e \<Rightarrow> bool" and step :: "'s \<Rightarrow> 'e \<Rightarrow> 's" and inv :: "'s \<Rightarrow> bool" +
  fixes own :: "'e \<Rightarrow> bool"
    and rank :: "'s \<Rightarrow> nat"
  assumes less: "inv s \<Longrightarrow> ok s e \<Longrightarrow> own e \<Longrightarrow> rank (step s e) < rank s"
    and possible: "inv s \<Longrightarrow> 0 < rank s \<Longrightarrow> \<exists>e. ok s e \<and> own e"
begin

lemma run_bounded:
  "inv s \<Longrightarrow> enabled_run ok step s es \<Longrightarrow> list_all own es \<Longrightarrow> rank (foldl step s es) + length es \<le> rank s"
proof (induction es arbitrary: s)
  case (Cons e es)
  then have "rank (step s e) < rank s" "rank (foldl step (step s e) es) + length es \<le> rank (step s e)"
    by (simp_all add: keeps less)
  then show ?case by simp
qed simp

text \<open>A longest run of such events has worked everything off.\<close>

lemma run_ends:
  assumes "inv s" "enabled_run ok step s es" "list_all own es"
    "\<And>e. \<not> (ok (foldl step s es) e \<and> own e)"
  shows "rank (foldl step s es) = 0"
  using possible [OF run_inv [OF assms(1,2)]] assms(4) by blast

end

end
