(* ===== verification/MultiTab.thy ===== *)
theory MultiTab
  imports Prelude Machines
begin

text \<open>
  The bar of open tabs, \<open>components/MultiTab/MultiTab.vue\<close>, with the plugin of
  \<open>components/MultiTab/index.js\<close> that controls it from other pages. The paths the component pushes are
  listed in the state; what the router makes of them comes back as a change of the current route.
\<close>

section \<open>State and methods\<close>

text \<open>A page is the route it was opened with. Routes of the same record share one \<open>meta\<close> object, so a
  page holds a reference, and the custom titles are kept in a store.\<close>

record tab_page =
  pg_fullPath :: string
  pg_path :: string
  pg_meta :: nat

record tabs =
  fullPathList :: "string list"
  pages :: "tab_page list"
  activeKey :: "string option"
  customTitle :: "nat \<Rightarrow> string option"
  messages_shown :: nat
  pushed :: "string option list"
  watched_key :: "string option"

definition selectedLastPath :: "tabs \<Rightarrow> tabs" where
  "selectedLastPath t =
     t\<lparr>activeKey := (if fullPathList t = [] then None else Some (last (fullPathList t)))\<rparr>"

definition remove :: "string option \<Rightarrow> tabs \<Rightarrow> tabs" where
  "remove targetKey t =
     (let t = t\<lparr>pages := filter (\<lambda>p. Some (pg_fullPath p) \<noteq> targetKey) (pages t),
                fullPathList := filter (\<lambda>path. Some path \<noteq> targetKey) (fullPathList t)\<rparr>
      in if activeKey t \<notin> Some ` set (fullPathList t) then selectedLastPath t else t)"

definition say :: "tabs \<Rightarrow> tabs" where
  "say t = t\<lparr>messages_shown := Suc (messages_shown t)\<rparr>"

definition closeThat :: "string option \<Rightarrow> tabs \<Rightarrow> tabs" where
  "closeThat e t = (if 1 < length (fullPathList t) then remove e t else say t)"

text \<open>\<open>indexOf\<close> is \<open>-1\<close> for a path that is not in the list.\<close>

fun indexOf :: "string list \<Rightarrow> string \<Rightarrow> int" where
  "indexOf [] e = -1"
| "indexOf (x # xs) e = (if x = e then 0 else (let i = indexOf xs e in if i < 0 then -1 else i + 1))"

text \<open>\<open>forEach\<close> walks the array it was called on, while \<open>remove\<close> replaces the component's list.\<close>

definition remove_where :: "(int \<Rightarrow> bool) \<Rightarrow> tabs \<Rightarrow> tabs" where
  "remove_where P t =
     foldl (\<lambda>t (item, index). if P (int index) then remove (Some item) t else t) t
       (zip (fullPathList t) [0..<length (fullPathList t)])"

definition closeLeft :: "string \<Rightarrow> tabs \<Rightarrow> tabs" where
  "closeLeft e t =
     (let currentIndex = indexOf (fullPathList t) e in
      if 0 < currentIndex then remove_where (\<lambda>index. index < currentIndex) t else say t)"

definition closeRight :: "string \<Rightarrow> tabs \<Rightarrow> tabs" where
  "closeRight e t =
     (let currentIndex = indexOf (fullPathList t) e in
      if currentIndex < int (length (fullPathList t)) - 1
      then remove_where (\<lambda>index. currentIndex < index) t else say t)"

definition closeAll :: "string \<Rightarrow> tabs \<Rightarrow> tabs" where
  "closeAll e t =
     (let currentIndex = indexOf (fullPathList t) e in remove_where (\<lambda>index. index \<noteq> currentIndex) t)"

text \<open>The handlers of the event bus. \<open>rename\<close> looks for the first page with the path; that there is
  none makes it throw, which it catches itself.\<close>

definition on_open :: "string option \<Rightarrow> tabs \<Rightarrow> js_error + tabs" where
  "on_open val t =
     (if \<not> truthy val then Inl (CodeError ''multi-tab: open tab err'') else Inr (t\<lparr>activeKey := val\<rparr>))"

definition on_close :: "string option \<Rightarrow> tabs \<Rightarrow> tabs" where
  "on_close val t = (if \<not> truthy val then closeThat (activeKey t) t else closeThat val t)"

definition on_rename :: "string \<Rightarrow> string \<Rightarrow> tabs \<Rightarrow> tabs" where
  "on_rename key name t =
     (case find (\<lambda>item. pg_path item = key) (pages t) of
        None \<Rightarrow> t
      | Some item \<Rightarrow> t\<lparr>customTitle := (customTitle t)(pg_meta item \<mapsto> name)\<rparr>)"

definition created_tabs :: "tab_page \<Rightarrow> (nat \<Rightarrow> string option) \<Rightarrow> tabs" where
  "created_tabs route titles =
     selectedLastPath \<lparr>fullPathList = [pg_fullPath route], pages = [route], activeKey = Some [],
       customTitle = titles, messages_shown = 0, pushed = [], watched_key = Some []\<rparr>"

text \<open>The watcher of the current route.\<close>

definition route_changed :: "tab_page \<Rightarrow> tabs \<Rightarrow> tabs" where
  "route_changed newVal t =
     (let t = t\<lparr>activeKey := Some (pg_fullPath newVal)\<rparr> in
      if indexOf (fullPathList t) (pg_fullPath newVal) < 0
      then t\<lparr>fullPathList := fullPathList t @ [pg_fullPath newVal], pages := pages t @ [newVal]\<rparr>
      else t)"

text \<open>The watcher of \<open>activeKey\<close>, after each event that changed it.\<close>

definition watch_key :: "tabs \<Rightarrow> tabs" where
  "watch_key t =
     (if activeKey t = watched_key t then t
      else t\<lparr>watched_key := activeKey t, pushed := pushed t @ [activeKey t]\<rparr>)"

section \<open>Events\<close>

datatype tab_event =
    RouteChanged tab_page
  | Pick string
  | Edit string
  | Open "string option"
  | Close "string option"
  | Rename string string
  | CloseThat string
  | CloseLeft string
  | CloseRight string
  | CloseAll string

fun tab_handler :: "tabs \<Rightarrow> tab_event \<Rightarrow> tabs" where
  "tab_handler t (RouteChanged r) = route_changed r t"
| "tab_handler t (Pick key) = t\<lparr>activeKey := Some key\<rparr>"
| "tab_handler t (Edit key) = remove (Some key) t"
| "tab_handler t (Open val) = (case on_open val t of Inl e \<Rightarrow> t | Inr t' \<Rightarrow> t')"
| "tab_handler t (Close val) = on_close val t"
| "tab_handler t (Rename key name) = on_rename key name t"
| "tab_handler t (CloseThat e) = closeThat (Some e) t"
| "tab_handler t (CloseLeft e) = closeLeft e t"
| "tab_handler t (CloseRight e) = closeRight e t"
| "tab_handler t (CloseAll e) = closeAll e t"

definition tab_step :: "tabs \<Rightarrow> tab_event \<Rightarrow> tabs" where
  "tab_step t e = watch_key (tab_handler t e)"

text \<open>What the rendered bar lets a user do: the close buttons are there when more than one tab is, and
  the context menu and the buttons belong to an open tab. The plugin may do anything.\<close>

fun enabled :: "tabs \<Rightarrow> tab_event \<Rightarrow> bool" where
  "enabled t (Pick key) = (key \<in> set (fullPathList t))"
| "enabled t (Edit key) = (key \<in> set (fullPathList t) \<and> 1 < length (pages t))"
| "enabled t (CloseThat e) = (e \<in> set (fullPathList t))"
| "enabled t (CloseLeft e) = (e \<in> set (fullPathList t))"
| "enabled t (CloseRight e) = (e \<in> set (fullPathList t))"
| "enabled t (CloseAll e) = (e \<in> set (fullPathList t))"
| "enabled t _ = True"

inductive tab_reachable :: "tabs \<Rightarrow> bool" where
  tabs_created: "tab_reachable (watch_key (created_tabs route titles))"
| tabs_step: "tab_reachable t \<Longrightarrow> enabled t e \<Longrightarrow> tab_reachable (tab_step t e)"

section \<open>The abstract bar\<close>

text \<open>The tabs in order and the active one.\<close>

type_synonym bar = "string list \<times> string option"

definition bar_of :: "tabs \<Rightarrow> bar" where
  "bar_of t = (fullPathList t, activeKey t)"

definition keep_tabs :: "(string \<Rightarrow> bool) \<Rightarrow> bar \<Rightarrow> bar" where
  "keep_tabs P b =
     (let l = filter P (fst b) in
      (l, if snd b \<in> Some ` set l then snd b else if l = [] then None else Some (last l)))"

fun bar_step :: "bar \<Rightarrow> tab_event \<Rightarrow> bar" where
  "bar_step (l, a) (RouteChanged r) =
     (if pg_fullPath r \<in> set l then l else l @ [pg_fullPath r], Some (pg_fullPath r))"
| "bar_step (l, a) (Pick key) = (l, Some key)"
| "bar_step (l, a) (Edit key) = keep_tabs (\<lambda>x. x \<noteq> key) (l, a)"
| "bar_step (l, a) (Open val) = (l, if truthy val then val else a)"
| "bar_step (l, a) (Close val) =
     (if 1 < length l then keep_tabs (\<lambda>x. Some x \<noteq> (if truthy val then val else a)) (l, a) else (l, a))"
| "bar_step (l, a) (Rename key name) = (l, a)"
| "bar_step (l, a) (CloseThat e) = (if 1 < length l then keep_tabs (\<lambda>x. x \<noteq> e) (l, a) else (l, a))"
| "bar_step (l, a) (CloseLeft e) =
     (if hd l = e then (l, a) else keep_tabs (\<lambda>x. x \<in> set (dropWhile (\<lambda>x. x \<noteq> e) l)) (l, a))"
| "bar_step (l, a) (CloseRight e) =
     (if last l = e then (l, a)
      else keep_tabs (\<lambda>x. x = e \<or> x \<in> set (takeWhile (\<lambda>x. x \<noteq> e) l)) (l, a))"
| "bar_step (l, a) (CloseAll e) = (if l = [e] then (l, a) else keep_tabs (\<lambda>x. x = e) (l, a))"

section \<open>Removing several tabs\<close>

definition tabs_in_sync :: "tabs \<Rightarrow> bool" where
  "tabs_in_sync t \<longleftrightarrow> distinct (fullPathList t) \<and> map pg_fullPath (pages t) = fullPathList t"

text \<open>The items a test on the index picks out.\<close>

fun picked :: "(int \<Rightarrow> bool) \<Rightarrow> nat \<Rightarrow> 'a list \<Rightarrow> 'a list" where
  "picked P m [] = []"
| "picked P m (x # xs) = (if P (int m) then x # picked P (Suc m) xs else picked P (Suc m) xs)"

lemma picked_append: "picked P m (xs @ ys) = picked P m xs @ picked P (m + length xs) ys"
  by (induction xs arbitrary: m) simp_all

lemma picked_all: "(\<And>i. m \<le> i \<Longrightarrow> i < m + length xs \<Longrightarrow> P (int i)) \<Longrightarrow> picked P m xs = xs"
  by (induction xs arbitrary: m) simp_all

lemma picked_none: "(\<And>i. m \<le> i \<Longrightarrow> i < m + length xs \<Longrightarrow> \<not> P (int i)) \<Longrightarrow> picked P m xs = []"
  by (induction xs arbitrary: m) simp_all

definition remove_list :: "string list \<Rightarrow> tabs \<Rightarrow> tabs" where
  "remove_list rs t = foldl (\<lambda>t x. remove (Some x) t) t rs"

lemma remove_where_picked: "remove_where P t = remove_list (picked P 0 (fullPathList t)) t"
proof -
  have "foldl (\<lambda>t (item, index). if P (int index) then remove (Some item) t else t) u
      (zip l [m..<m + length l]) = remove_list (picked P m l) u" for u l m
  proof (induction l arbitrary: u m)
    case (Cons x l)
    have "[m..<m + length (x # l)] = m # [Suc m..<Suc m + length l]"
      by (simp add: upt_conv_Cons del: upt_Suc)
    then show ?case
      using Cons.IH [of _ "Suc m", unfolded add_Suc] by (simp add: remove_list_def del: upt_Suc)
  qed (simp add: remove_list_def)
  from this [of t "fullPathList t" 0] show ?thesis by (simp add: remove_where_def)
qed

lemma remove_bar: "bar_of (remove k t) = keep_tabs (\<lambda>x. Some x \<noteq> k) (bar_of t)"
  by (simp add: bar_of_def keep_tabs_def remove_def selectedLastPath_def Let_def)

lemma last_filter: "xs \<noteq> [] \<Longrightarrow> Q (last xs) \<Longrightarrow> last (filter Q xs) = last xs"
  by (induction xs rule: rev_induct) auto

lemma keep_tabs_twice:
  "keep_tabs Q (keep_tabs P (l, a)) = keep_tabs (\<lambda>x. P x \<and> Q x) (l, a)"
proof -
  define m where "m = filter P l"
  define n where "n = filter Q m"
  have n: "filter (\<lambda>x. P x \<and> Q x) l = n" by (simp add: m_def n_def)
  have sub: "set n \<subseteq> set m" by (auto simp: n_def)
  have m_last: "last m = last n" if "last m \<in> set n"
    using that last_filter [of m Q] by (cases "m = []") (auto simp: n_def)
  have "keep_tabs Q (m, if a \<in> Some ` set m then a else if m = [] then None else Some (last m)) =
    (n, if a \<in> Some ` set n then a else if n = [] then None else Some (last n))"
  proof (cases "a \<in> Some ` set m")
    case True
    then show ?thesis by (simp add: keep_tabs_def Let_def n_def [symmetric])
  next
    case False
    then have "a \<notin> Some ` set n" using sub by blast
    moreover have "m = [] \<Longrightarrow> n = []" by (simp add: n_def)
    moreover have "n \<noteq> []" if "last m \<in> set n" using that by auto
    ultimately show ?thesis
      using False m_last by (auto simp: keep_tabs_def Let_def n_def [symmetric])
  qed
  moreover have "keep_tabs P (l, a) = (m, if a \<in> Some ` set m then a else if m = [] then None else Some (last m))"
    unfolding keep_tabs_def Let_def m_def fst_conv snd_conv by (rule refl)
  moreover have "keep_tabs (\<lambda>x. P x \<and> Q x) (l, a) =
      (n, if a \<in> Some ` set n then a else if n = [] then None else Some (last n))"
    unfolding keep_tabs_def Let_def fst_conv snd_conv n by (rule refl)
  ultimately show ?thesis by (simp only:)
qed

lemma keep_tabs_cong: "filter P l = filter Q l \<Longrightarrow> keep_tabs P (l, a) = keep_tabs Q (l, a)"
  by (simp add: keep_tabs_def)

lemma remove_list_bar:
  "rs \<noteq> [] \<Longrightarrow> bar_of (remove_list rs t) = keep_tabs (\<lambda>x. x \<notin> set rs) (bar_of t)"
proof (induction rs arbitrary: t rule: rev_induct)
  case (snoc r rs)
  show ?case
  proof (cases "rs = []")
    case True
    then show ?thesis by (simp add: remove_list_def remove_bar)
  next
    case False
    obtain l a where b: "bar_of t = (l, a)" by (cases "bar_of t")
    have "bar_of (remove_list (rs @ [r]) t) =
        keep_tabs (\<lambda>x. x \<noteq> r) (keep_tabs (\<lambda>x. x \<notin> set rs) (l, a))"
      using snoc False b by (simp add: remove_list_def remove_bar)
    then show ?thesis unfolding keep_tabs_twice by (simp add: b conj_commute)
  qed
qed simp

lemma pages_filter:
  "filter P (map pg_fullPath ps) = map pg_fullPath (filter (\<lambda>p. P (pg_fullPath p)) ps)"
  by (simp add: filter_map comp_def)

lemma remove_in_sync:
  assumes "tabs_in_sync t"
  shows "tabs_in_sync (remove k t)"
proof -
  let ?P = "\<lambda>x. Some x \<noteq> k"
  have f: "fullPathList (remove k t) = filter ?P (fullPathList t)"
    "pages (remove k t) = filter (\<lambda>p. ?P (pg_fullPath p)) (pages t)"
    by (simp_all add: remove_def selectedLastPath_def Let_def)
  moreover have "map pg_fullPath (filter (\<lambda>p. ?P (pg_fullPath p)) (pages t)) = filter ?P (fullPathList t)"
    using assms pages_filter [of ?P "pages t"] by (simp add: tabs_in_sync_def)
  moreover have "distinct (filter ?P (fullPathList t))" using assms by (simp add: tabs_in_sync_def)
  ultimately show ?thesis by (simp only: tabs_in_sync_def)
qed

lemma remove_list_in_sync: "tabs_in_sync t \<Longrightarrow> tabs_in_sync (remove_list rs t)"
  by (induction rs arbitrary: t) (simp_all add: remove_list_def remove_in_sync)

lemma remove_keeps [simp]:
  "watched_key (remove k t) = watched_key t" "pushed (remove k t) = pushed t"
  by (simp_all add: remove_def selectedLastPath_def Let_def)

section \<open>Refinement\<close>

lemma indexOf_split: "e \<notin> set A \<Longrightarrow> indexOf (A @ e # B) e = int (length A)"
  by (induction A) (auto simp: Let_def)

lemma while_split:
  "e \<notin> set A \<Longrightarrow> takeWhile (\<lambda>x. x \<noteq> e) (A @ e # B) = A"
  "e \<notin> set A \<Longrightarrow> dropWhile (\<lambda>x. x \<noteq> e) (A @ e # B) = e # B"
  by (induction A) auto

lemma indexOf_absent: "indexOf l e < 0 \<longleftrightarrow> e \<notin> set l"
  by (induction l) (auto simp: Let_def)

lemma split_at:
  assumes "distinct l" "e \<in> set l"
  obtains A B where "l = A @ e # B" "e \<notin> set A" "e \<notin> set B" "set A \<inter> set B = {}"
    "takeWhile (\<lambda>x. x \<noteq> e) l = A" "dropWhile (\<lambda>x. x \<noteq> e) l = e # B"
proof -
  obtain A B where l: "l = A @ e # B" "e \<notin> set A"
    using assms(2) by (meson split_list_first)
  with assms(1) have "e \<notin> set B" "set A \<inter> set B = {}" by auto
  moreover have "takeWhile (\<lambda>x. x \<noteq> e) l = A" "dropWhile (\<lambda>x. x \<noteq> e) l = e # B"
    using l by (simp_all add: while_split)
  ultimately show thesis using that l by blast
qed

lemma bar_of_say [simp]: "bar_of (say t) = bar_of t"
  by (simp add: bar_of_def say_def)

lemma handler_bar:
  assumes "tabs_in_sync t" "enabled t e" "fullPathList t \<noteq> []"
  shows "bar_of (tab_handler t e) = bar_step (bar_of t) e"
proof -
  obtain l a where b: "bar_of t = (l, a)" by (cases "bar_of t")
  then have l: "fullPathList t = l" "activeKey t = a" by (simp_all add: bar_of_def)
  have "distinct l" using assms(1) l(1) unfolding tabs_in_sync_def by blast
  note l = l this
  show ?thesis
  proof (cases e)
    case (RouteChanged r)
    then show ?thesis using b l
      by (simp add: route_changed_def bar_of_def Let_def indexOf_absent)
  next
    case (CloseLeft x)
    with assms(2) l obtain A B where s: "l = A @ x # B" "x \<notin> set A" "x \<notin> set B" "set A \<inter> set B = {}"
        "dropWhile (\<lambda>y. y \<noteq> x) l = x # B"
      by (auto elim: split_at)
    have "closeLeft x t = remove_list A t" if "A \<noteq> []"
      using l s that
      by (simp add: closeLeft_def indexOf_split remove_where_picked picked_append picked_all picked_none)
    moreover have "closeLeft x t = say t" if "A = []"
      using l s that by (simp add: closeLeft_def)
    moreover have "keep_tabs (\<lambda>y. y \<notin> set A) (l, a) = keep_tabs (\<lambda>y. y \<in> set (x # B)) (l, a)"
      using s by (intro keep_tabs_cong filter_cong) auto
    moreover have "hd l = x \<longleftrightarrow> A = []"
      using s by (cases A) auto
    ultimately show ?thesis
      using CloseLeft b s(5) by (cases "A = []") (simp_all add: remove_list_bar)
  next
    case (CloseRight x)
    with assms(2) l obtain A B where s: "l = A @ x # B" "x \<notin> set A" "x \<notin> set B" "set A \<inter> set B = {}"
        "takeWhile (\<lambda>y. y \<noteq> x) l = A"
      by (auto elim: split_at)
    have "closeRight x t = remove_list B t" if "B \<noteq> []"
      using l s that
      by (simp add: closeRight_def indexOf_split remove_where_picked picked_append picked_all picked_none)
    moreover have "closeRight x t = say t" if "B = []"
      using l s that by (simp add: closeRight_def indexOf_split)
    moreover have "keep_tabs (\<lambda>y. y \<notin> set B) (l, a) = keep_tabs (\<lambda>y. y = x \<or> y \<in> set A) (l, a)"
      using s by (intro keep_tabs_cong filter_cong) auto
    moreover have "last l = x \<longleftrightarrow> B = []"
      using s by (cases B rule: rev_cases) auto
    ultimately show ?thesis
      using CloseRight b s(5) by (cases "B = []") (simp_all add: remove_list_bar)
  next
    case (CloseAll x)
    with assms(2) l obtain A B where s: "l = A @ x # B" "x \<notin> set A" "x \<notin> set B" "set A \<inter> set B = {}"
      by (auto elim: split_at)
    have "closeAll x t = remove_list (A @ B) t"
      using l s
      by (simp add: closeAll_def indexOf_split remove_where_picked picked_append picked_all)
    moreover have "keep_tabs (\<lambda>y. y \<notin> set (A @ B)) (l, a) = keep_tabs (\<lambda>y. y = x) (l, a)"
      using s by (intro keep_tabs_cong filter_cong) auto
    moreover have "l = [x] \<longleftrightarrow> A @ B = []"
      using s by (cases A) auto
    moreover have "bar_of (remove_list [] t) = (l, a)"
      using b by (simp add: remove_list_def)
    ultimately show ?thesis
      using CloseAll b by (cases "A @ B = []") (simp_all add: remove_list_bar del: append_is_Nil_conv set_append)
  qed (use b l assms(3) in \<open>auto simp: remove_bar [unfolded bar_of_def] on_open_def on_close_def on_rename_def closeThat_def bar_of_def
        say_def split: option.splits\<close>)
qed

lemma keeps_some:
  assumes "distinct l" "1 < length l"
  shows "filter (\<lambda>x. Some x \<noteq> k) l \<noteq> []"
proof
  assume e: "filter (\<lambda>x. Some x \<noteq> k) l = []"
  obtain x y r where l: "l = x # y # r" using assms(2) by (cases l; cases "tl l") auto
  from e l have "Some x = k" "Some y = k" by (auto split: if_splits)
  with assms(1) l show False by auto
qed

lemma keep_tabs_nonempty:
  "\<exists>x \<in> set l. P x \<Longrightarrow> fst (keep_tabs P (l, a)) \<noteq> [] \<and> snd (keep_tabs P (l, a)) \<noteq> None"
  by (auto simp: keep_tabs_def Let_def filter_empty_conv)

lemma dropWhile_has: "e \<in> set l \<Longrightarrow> e \<in> set (dropWhile (\<lambda>x. x \<noteq> e) l)"
  by (induction l) auto

lemma bar_step_nonempty:
  assumes "distinct l" "l \<noteq> []" "a \<noteq> None" "enabled t e" "fullPathList t = l" "length (pages t) = length l"
  shows "fst (bar_step (l, a) e) \<noteq> [] \<and> snd (bar_step (l, a) e) \<noteq> None"
proof -
  have other: "\<exists>x \<in> set l. Some x \<noteq> k" if "1 < length l" for k
    using keeps_some [OF assms(1) that, of k] by (simp add: filter_empty_conv)
  then have other': "\<exists>x \<in> set l. x \<noteq> k" if "1 < length l" for k
    using that by (metis option.inject)
  show ?thesis
  proof (cases e)
    case (Edit k)
    then show ?thesis using assms other' [of k] keep_tabs_nonempty [of l "\<lambda>x. x \<noteq> k"] by simp
  next
    case (Close v)
    then show ?thesis
      using assms other keep_tabs_nonempty [of l "\<lambda>x. Some x \<noteq> (if truthy v then v else a)" a] by simp
  next
    case (CloseThat k)
    then show ?thesis using assms other' [of k] keep_tabs_nonempty [of l "\<lambda>x. x \<noteq> k"] by simp
  next
    case (CloseLeft k)
    then have "k \<in> set l" using assms by simp
    then show ?thesis
      using CloseLeft assms dropWhile_has [of k l]
        keep_tabs_nonempty [of l "\<lambda>x. x \<in> set (dropWhile (\<lambda>x. x \<noteq> k) l)" a]
      by (cases "hd l = k") (simp_all, blast)
  next
    case (CloseRight k)
    then have "k \<in> set l" using assms by simp
    then show ?thesis
      using CloseRight assms
        keep_tabs_nonempty [of l "\<lambda>x. x = k \<or> x \<in> set (takeWhile (\<lambda>x. x \<noteq> k) l)" a]
      by (cases "last l = k") auto
  next
    case (CloseAll k)
    then have "k \<in> set l" using assms by simp
    then show ?thesis using CloseAll assms keep_tabs_nonempty [of l "\<lambda>x. x = k" a] by (cases "l = [k]") auto
  qed (use assms in \<open>auto simp: truthy_def split: option.splits\<close>)
qed

lemma handler_in_sync:
  assumes "tabs_in_sync t"
  shows "tabs_in_sync (tab_handler t e)"
proof (cases e)
  case (RouteChanged r)
  then show ?thesis using assms
    by (simp add: tabs_in_sync_def route_changed_def Let_def indexOf_absent)
next
  case (Rename key name)
  then show ?thesis using assms by (simp add: on_rename_def tabs_in_sync_def split: option.splits)
qed (use assms remove_in_sync [OF assms] remove_list_in_sync [OF assms] in
  \<open>simp_all add: on_open_def on_close_def closeThat_def closeLeft_def closeRight_def closeAll_def
     remove_where_picked Let_def, simp_all add: say_def tabs_in_sync_def\<close>)

lemma watch_key_keeps [simp]:
  "bar_of (watch_key t) = bar_of t" "tabs_in_sync (watch_key t) = tabs_in_sync t"
  "fullPathList (watch_key t) = fullPathList t" "pages (watch_key t) = pages t"
  "activeKey (watch_key t) = activeKey t" "watched_key (watch_key t) = activeKey t"
  by (simp_all add: watch_key_def bar_of_def tabs_in_sync_def)

text \<open>What holds of the bar between events.\<close>

definition bar_inv :: "tabs \<Rightarrow> bool" where
  "bar_inv t \<longleftrightarrow> tabs_in_sync t \<and> fullPathList t \<noteq> [] \<and> activeKey t \<noteq> None \<and> watched_key t = activeKey t"

lemma tab_step_bar: "bar_inv t \<Longrightarrow> enabled t e \<Longrightarrow> bar_of (tab_step t e) = bar_step (bar_of t) e"
  by (simp add: bar_inv_def tab_step_def handler_bar)

lemma tab_step_inv:
  assumes "bar_inv t" "enabled t e"
  shows "bar_inv (tab_step t e)"
proof -
  have d: "distinct (fullPathList t)" and len: "length (pages t) = length (fullPathList t)"
    using assms(1) unfolding bar_inv_def tabs_in_sync_def by (blast, metis length_map)
  have "fst (bar_of (tab_step t e)) \<noteq> [] \<and> snd (bar_of (tab_step t e)) \<noteq> None"
    unfolding tab_step_bar [OF assms] using bar_step_nonempty [OF d _ _ assms(2) refl len] assms(1)
    by (simp add: bar_of_def bar_inv_def)
  then show ?thesis using assms(1) handler_in_sync by (simp add: bar_inv_def tab_step_def bar_of_def)
qed

interpretation tab_bar: refinement enabled tab_step bar_inv bar_of bar_step
  by unfold_locales (fact tab_step_inv, fact tab_step_bar)

lemma reachable_bar: "tab_reachable t \<Longrightarrow> bar_inv t"
  by (induction rule: tab_reachable.induct)
    (simp_all add: tab_step_inv, simp add: bar_inv_def created_tabs_def selectedLastPath_def tabs_in_sync_def)

section \<open>Properties\<close>

text \<open>C27: A tab bar, as any sequence of route changes, clicks, plugin calls and context-menu commands leaves
  it, is never empty and always has an active key; its list of paths has no duplicate and is the list of the
  paths of its pages, in the same order; and the active key is the one the watcher has last seen.\<close>

theorem tab_bar_invariant:
  assumes "tab_reachable t"
  shows "fullPathList t \<noteq> [] \<and> distinct (fullPathList t) \<and>
    map pg_fullPath (pages t) = fullPathList t \<and> activeKey t \<noteq> None \<and> watched_key t = activeKey t"
  using reachable_bar [OF assms] by (simp_all add: bar_inv_def tabs_in_sync_def)

text \<open>C18: The tab bar refines the list of its tabs with the active one: every sequence of events that
  the rendered bar enables acts on them as on the abstract bar. Closing keeps the order of the other tabs,
  and the tabs left or right of a tab, or all but it, go at once although the code removes them one by one
  and moves the active key in between.\<close>

theorem tab_bar_refines:
  assumes "tab_reachable t" "enabled_run enabled tab_step t es"
  shows "bar_of (foldl tab_step t es) = foldl bar_step (bar_of t) es"
  using reachable_bar [OF assms(1)] assms(2) by (rule tab_bar.run_refines)

text \<open>Three tabs, the context menu of the middle one.\<close>

definition three_tabs :: tabs where
  "three_tabs =
     (let p = (\<lambda>s. \<lparr>pg_fullPath = s, pg_path = s, pg_meta = 0\<rparr>) in
      tab_step (tab_step (watch_key (created_tabs (p ''/a'') (\<lambda>_. None))) (RouteChanged (p ''/b'')))
        (RouteChanged (p ''/c'')))"

lemma three_tabs_reachable: "tab_reachable three_tabs"
  unfolding three_tabs_def Let_def
  by (intro tabs_step tabs_created) simp_all

lemma three_tabs_bar: "bar_of three_tabs = ([''/a'', ''/b'', ''/c''], Some ''/c'')"
  by (simp add: three_tabs_def bar_of_def tab_step_def watch_key_def created_tabs_def selectedLastPath_def
      route_changed_def Let_def)

lemma tab_bar_invariant_witness: "fullPathList three_tabs \<noteq> []"
  using tab_bar_invariant [OF three_tabs_reachable] by blast

lemma tab_bar_refines_witness:
  "bar_of (tab_step (tab_step three_tabs (CloseRight ''/b'')) (Close None)) = ([''/a''], Some ''/a'')"
proof -
  have "enabled_run enabled tab_step three_tabs [CloseRight ''/b'', Close None]"
    using three_tabs_bar by (simp add: bar_of_def)
  from tab_bar_refines [OF three_tabs_reachable this] show ?thesis
    by (simp add: three_tabs_bar keep_tabs_def)
qed

text \<open>The context menu belongs to an open tab. For a path that has none, closing what is right of it would
  close every tab.\<close>

lemma closeRight_unknown:
  "bar_of (closeRight ''/x'' three_tabs) = ([], None)"
proof -
  have "fullPathList three_tabs = [''/a'', ''/b'', ''/c'']"
    using three_tabs_bar by (simp add: bar_of_def)
  then show ?thesis
    by (simp add: closeRight_def remove_where_picked remove_list_bar three_tabs_bar keep_tabs_def)
qed

text \<open>A rename sets the title on the \<open>meta\<close> object of the route record, which all tabs of that record
  share: two tabs of one page opened with different parameters are renamed together.\<close>

definition tab_title :: "tabs \<Rightarrow> tab_page \<Rightarrow> string option" where
  "tab_title t p = customTitle t (pg_meta p)"

lemma rename_is_shared:
  assumes "find (\<lambda>item. pg_path item = key) (pages t) = Some p" "pg_meta q = pg_meta p"
  shows "tab_title (on_rename key name t) q = Some name"
  using assms by (simp add: on_rename_def tab_title_def)

end
