(* ===== verification/Layout.thy ===== *)
theory Layout
  imports UserStore RoutePermission Machines
begin

text \<open>
  The frame of the application: \<open>layouts/BasicLayout.vue\<close> (menu, collapsing, the mobile mode,
  settings), \<open>layouts/RouteView.vue\<close>, the language menu \<open>components/SelectLang/index.jsx\<close>, the
  logout entry of \<open>components/GlobalHeader/AvatarDropdown.vue\<close>, the theme switch of
  \<open>views/account/settings/Custom.vue\<close> and the settings drawer of \<open>components/SettingDrawer\<close>.
  Watchers run after the handler that changed their source, once for all its changes.
\<close>

section \<open>Route view\<close>

datatype view = KeepAlive | Plain

definition route_view :: "bool \<Rightarrow> jsval \<Rightarrow> route_meta \<Rightarrow> view" where
  "route_view keepAlive getters_multiTab meta =
     (if \<not> js_truthy getters_multiTab \<and> m_keepAlive meta \<noteq> Some True then Plain
      else if keepAlive \<or> js_truthy getters_multiTab \<or> m_keepAlive meta = Some True
      then KeepAlive else Plain)"

text \<open>The prop of the view decides nothing.\<close>

lemma route_view_iff:
  "route_view keepAlive mt meta = KeepAlive \<longleftrightarrow> js_truthy mt \<or> m_keepAlive meta = Some True"
  by (simp add: route_view_def)

section \<open>The basic layout\<close>

type_synonym settings = "string \<Rightarrow> jsval option"

record layout_state =
  menus :: "route list"
  l_collapsed :: bool
  l_settings :: settings
  query :: "string \<Rightarrow> bool"
  l_isMobile :: bool
  seen_collapsed :: bool
  seen_isMobile :: bool

definition CONTENT_WIDTH_Fluid :: jsval where "CONTENT_WIDTH_Fluid = JStr ''Fluid''"
definition CONTENT_WIDTH_Fixed :: jsval where "CONTENT_WIDTH_Fixed = JStr ''Fixed''"

definition layout_settings :: "default_settings \<Rightarrow> settings" where
  "layout_settings d = map_of
     [(''layout'', d_layout d),
      (''contentWidth'', if d_layout d = JStr ''sidemenu'' then CONTENT_WIDTH_Fluid else d_contentWidth d),
      (''theme'', d_navTheme d),
      (''primaryColor'', d_primaryColor d),
      (''fixedHeader'', d_fixedHeader d),
      (''fixSiderbar'', d_fixSiderbar d),
      (''colorWeak'', d_colorWeak d),
      (''hideHintAlert'', JBool False),
      (''hideCopyButton'', JBool False)]"

definition menu_of :: "route list \<Rightarrow> route list" where
  "menu_of mainMenu =
     (case find (\<lambda>item. r_path (info item) = ''/'') mainMenu of
        None \<Rightarrow> []
      | Some routes \<Rightarrow> (case children routes of None \<Rightarrow> [] | Some cs \<Rightarrow> cs))"

definition created_layout :: "default_settings \<Rightarrow> permission_state \<Rightarrow> layout_state" where
  "created_layout d ps =
     \<lparr>menus = menu_of (addRouters ps), l_collapsed = False, l_settings = layout_settings d,
      query = (\<lambda>_. False), l_isMobile = False, seen_collapsed = False, seen_isMobile = False\<rparr>"

definition set_setting :: "string \<Rightarrow> jsval \<Rightarrow> layout_state \<Rightarrow> layout_state" where
  "set_setting k v l = l\<lparr>l_settings := (l_settings l)(k \<mapsto> v)\<rparr>"

definition handleMediaQuery :: "(string \<Rightarrow> bool) \<Rightarrow> layout_state \<Rightarrow> layout_state" where
  "handleMediaQuery val l =
     (let l = l\<lparr>query := val\<rparr> in
      if l_isMobile l \<and> \<not> val ''screen-xs'' then l\<lparr>l_isMobile := False\<rparr>
      else if \<not> l_isMobile l \<and> val ''screen-xs''
      then set_setting ''contentWidth'' CONTENT_WIDTH_Fluid (l\<lparr>l_isMobile := True, l_collapsed := False\<rparr>)
      else l)"

definition handleCollapse :: "bool \<Rightarrow> layout_state \<Rightarrow> layout_state" where
  "handleCollapse val l = l\<lparr>l_collapsed := val\<rparr>"

definition handleSettingChange :: "string option \<Rightarrow> jsval \<Rightarrow> layout_state \<Rightarrow> layout_state" where
  "handleSettingChange type val l =
     (let l = (if truthy type then set_setting (the type) val l else l) in
      if type = Some ''contentWidth'' then set_setting ''contentWidth'' val l
      else if type = Some ''layout''
      then (if val = JStr ''sidemenu'' then set_setting ''contentWidth'' CONTENT_WIDTH_Fluid l
            else set_setting ''contentWidth'' CONTENT_WIDTH_Fixed (set_setting ''fixSiderbar'' (JBool False) l))
      else l)"

text \<open>In Edge, the menu is collapsed after the first rendering and opened again 16 ms later.\<close>

definition edge_toggle :: "layout_state \<Rightarrow> layout_state" where
  "edge_toggle l = l\<lparr>l_collapsed := \<not> l_collapsed l\<rparr>"

text \<open>The two watchers, which commit to the store.\<close>

definition watch_collapsed ::
    "'m storage_ops \<Rightarrow> layout_state \<times> 'm \<times> app_state \<Rightarrow> layout_state \<times> 'm \<times> app_state" where
  "watch_collapsed S = (\<lambda>(l, ms).
     if l_collapsed l = seen_collapsed l then (l, ms)
     else (l\<lparr>seen_collapsed := l_collapsed l\<rparr>, commit_app S SidebarType (JBool (l_collapsed l)) ms))"

definition watch_isMobile ::
    "'m storage_ops \<Rightarrow> layout_state \<times> 'm \<times> app_state \<Rightarrow> layout_state \<times> 'm \<times> app_state" where
  "watch_isMobile S = (\<lambda>(l, ms).
     if l_isMobile l = seen_isMobile l then (l, ms)
     else (l\<lparr>seen_isMobile := l_isMobile l\<rparr>, commit_app S ToggleMobileType (JBool (l_isMobile l)) ms))"

datatype layout_event =
    MediaQuery "string \<Rightarrow> bool"
  | Collapse bool
  | SettingChange "string option" jsval
  | EdgeToggle

fun layout_handler :: "layout_event \<Rightarrow> layout_state \<Rightarrow> layout_state" where
  "layout_handler (MediaQuery val) = handleMediaQuery val"
| "layout_handler (Collapse val) = handleCollapse val"
| "layout_handler (SettingChange type val) = handleSettingChange type val"
| "layout_handler EdgeToggle = edge_toggle"

definition layout_step ::
    "'m storage_ops \<Rightarrow> layout_state \<times> 'm \<times> app_state \<Rightarrow> layout_event \<Rightarrow> layout_state \<times> 'm \<times> app_state" where
  "layout_step S x e = watch_isMobile S (watch_collapsed S (layout_handler e (fst x), snd x))"

definition layout_run ::
    "'m storage_ops \<Rightarrow> layout_state \<times> 'm \<times> app_state \<Rightarrow> layout_event list \<Rightarrow> layout_state \<times> 'm \<times> app_state" where
  "layout_run S = foldl (layout_step S)"

section \<open>The store follows the layout\<close>

text \<open>The mobile mode is that of the last media query, and the watchers keep the store on the values
  they last saw.\<close>

definition layout_inv :: "layout_state \<times> 'm \<times> app_state \<Rightarrow> bool" where
  "layout_inv x \<longleftrightarrow>
     (let l = fst x; a = snd (snd x) in
      l_isMobile l = query l ''screen-xs'' \<and>
      seen_isMobile l = l_isMobile l \<and> seen_collapsed l = l_collapsed l \<and>
      isMobile a = JBool (l_isMobile l) \<and> sideCollapsed a = JBool (l_collapsed l))"

lemma set_setting_keeps [simp]:
  "l_isMobile (set_setting k v l) = l_isMobile l" "l_collapsed (set_setting k v l) = l_collapsed l"
  "query (set_setting k v l) = query l" "seen_isMobile (set_setting k v l) = seen_isMobile l"
  "seen_collapsed (set_setting k v l) = seen_collapsed l" "menus (set_setting k v l) = menus l"
  by (simp_all add: set_setting_def)

lemma layout_handler_mobile:
  "l_isMobile l = query l ''screen-xs'' \<Longrightarrow>
     l_isMobile (layout_handler e l) = query (layout_handler e l) ''screen-xs''"
  by (cases e) (simp_all add: handleMediaQuery_def handleCollapse_def handleSettingChange_def
      edge_toggle_def Let_def)

lemma layout_handler_seen:
  "seen_isMobile (layout_handler e l) = seen_isMobile l"
  "seen_collapsed (layout_handler e l) = seen_collapsed l"
  by (cases e; simp add: handleMediaQuery_def handleCollapse_def handleSettingChange_def
      edge_toggle_def Let_def)+

lemma watchers_inv:
  assumes "l_isMobile l = query l ''screen-xs''" "isMobile a = JBool (seen_isMobile l)"
    "sideCollapsed a = JBool (seen_collapsed l)"
  shows "layout_inv (watch_isMobile S (watch_collapsed S (l, m, a)))"
  using assms by (simp add: layout_inv_def watch_isMobile_def watch_collapsed_def)

lemma layout_step_inv:
  assumes "layout_inv x"
  shows "layout_inv (layout_step S x e)"
proof -
  obtain l m a where x: "x = (l, m, a)" by (cases x)
  from assms have i: "l_isMobile l = query l ''screen-xs''" "seen_isMobile l = l_isMobile l"
    "seen_collapsed l = l_collapsed l" "isMobile a = JBool (l_isMobile l)"
    "sideCollapsed a = JBool (l_collapsed l)"
    by (simp_all add: x layout_inv_def Let_def)
  show ?thesis
    unfolding layout_step_def x fst_conv snd_conv
    by (rule watchers_inv) (simp_all add: layout_handler_mobile i layout_handler_seen)
qed

interpretation frame: machine "\<lambda>_ _. True" "layout_step S" layout_inv for S
  by unfold_locales (rule layout_step_inv)

lemma layout_run_inv: "layout_inv x \<Longrightarrow> layout_inv (layout_run S x es)"
  by (simp add: layout_run_def frame.run_inv)

text \<open>In a freshly started application the store and the layout agree after every sequence of layout
  events: the store's mobile flag is that of the last media query and its collapse flag is the menu's.\<close>

theorem layout_in_step_with_store:
  assumes "isMobile a = JBool False" "sideCollapsed a = JBool False"
  shows "layout_inv (layout_run S (created_layout d ps, m, a) es)"
  using assms by (intro layout_run_inv) (simp add: layout_inv_def created_layout_def)

lemma layout_in_step_with_store_witness:
  "layout_inv (layout_run alist_storage (created_layout defaultSettings init_permission_state, [], init_app)
     [Collapse True, MediaQuery (\<lambda>s. s = ''screen-xs'')])"
  by (rule layout_in_step_with_store) (simp_all add: init_app_def)

text \<open>The assumption on the collapse flag is needed: a layout created again, as after a logout and a login,
  starts open while the store still says that the menu is collapsed.\<close>

lemma new_layout_ignores_store:
  "\<not> layout_inv (created_layout d ps, snd (layout_run S (created_layout d ps, m, a) [Collapse True]))"
  by (simp add: layout_inv_def created_layout_def layout_run_def layout_step_def watch_isMobile_def
      watch_collapsed_def handleCollapse_def)

text \<open>A visit of the mobile width loses the width the user chose for the content.\<close>

lemma mobile_resets_width:
  assumes "\<not> l_isMobile l" "mob ''screen-xs''" "\<not> desk ''screen-xs''"
  shows "l_settings (handleMediaQuery desk (handleMediaQuery mob l)) ''contentWidth'' = Some CONTENT_WIDTH_Fluid"
  using assms by (simp add: handleMediaQuery_def set_setting_def)

text \<open>A change of one setting other than the layout touches no other setting; a change of the layout also
  sets the width, and a layout other than the side menu unfixes the side bar.\<close>

lemma handleSettingChange_settings:
  assumes "type \<noteq> []" "type \<noteq> ''layout''"
  shows "l_settings (handleSettingChange (Some type) v l) = (l_settings l)(type \<mapsto> v)"
  using assms by (simp add: handleSettingChange_def set_setting_def Let_def)

lemma handleSettingChange_layout:
  "l_settings (handleSettingChange (Some ''layout'') v l) =
     (if v = JStr ''sidemenu''
      then (l_settings l)(''layout'' \<mapsto> v, ''contentWidth'' \<mapsto> CONTENT_WIDTH_Fluid)
      else (l_settings l)(''layout'' \<mapsto> v, ''fixSiderbar'' \<mapsto> JBool False, ''contentWidth'' \<mapsto> CONTENT_WIDTH_Fixed))"
  by (simp add: handleSettingChange_def set_setting_def Let_def)

text \<open>The menu is that of the generated routes: \<open>GenerateRoutes\<close> keeps the root section.\<close>

lemma menu_of_generated: "menu_of (addRouters (SET_ROUTERS ps rs)) = menu_of rs"
  by (simp add: SET_ROUTERS_def)

section \<open>The language menu\<close>

definition offered_locales :: "string list" where
  "offered_locales = [''zh-CN'', ''zh-TW'', ''en-US'', ''pt-BR'']"

definition changeLang ::
    "'m storage_ops \<Rightarrow> string \<Rightarrow> 'm \<times> app_state \<times> i18n_state \<Rightarrow> 'm \<times> app_state \<times> i18n_state" where
  "changeLang S key x = fst (setLang S key x)"

lemma changeLang_unfold:
  "changeLang S key (m, s, i) =
     (let m1 = s_set S (s_set S m APP_LANGUAGE (JStr key) None) LANG_KEY (JStr key) None;
          s1 = s\<lparr>lang := JStr key, antLocale := []\<rparr> in
      if i18n_locale i \<noteq> key
      then (if key \<notin> set (loadedLanguages i) then (m1, s1, i\<lparr>importing := importing i @ [key]\<rparr>)
            else (m1, s1, i\<lparr>i18n_locale := key, html_lang := Some key\<rparr>))
      else (m1, s1, i))"
  by (simp add: changeLang_def setLang_def loadLanguageAsync_def setI18nLanguage_def Let_def)

text \<open>Two of the four languages of the menu have no messages. Choosing one of them leaves the displayed
  language as it is, but records the choice in the store and in storage, under both keys.\<close>

theorem unavailable_language:
  assumes "storage_laws S" "key \<in> set offered_locales" "key \<notin> set language_files"
    "i18n_locale i \<in> set language_files" "set (loadedLanguages i) \<subseteq> set language_files"
  shows "key \<in> {''zh-TW'', ''pt-BR''} \<and>
     (case changeLang S key (m, s, i) of (m', s', i') \<Rightarrow>
        i18n_locale (import_ended i' key) = i18n_locale i \<and>
        loadedLanguages (import_ended i' key) = loadedLanguages i \<and> i18n_messages (import_ended i' key) = i18n_messages i \<and>
        lang s' = JStr key \<and> s_get S m' LANG_KEY = JStr key \<and> s_get S m' APP_LANGUAGE = JStr key)"
proof -
  have "i18n_locale i \<noteq> key" "key \<notin> set (loadedLanguages i)" using assms by auto
  then show ?thesis
    using assms by (auto simp: changeLang_unfold offered_locales_def language_files_def import_ended_def
        get_set [OF assms(1)] APP_LANGUAGE_def LANG_KEY_def Let_def)
qed

lemma unavailable_language_witness:
  "lang (fst (snd (changeLang alist_storage ''zh-TW'' ([], init_app, init_i18n)))) = JStr ''zh-TW''"
  using unavailable_language [OF alist_storage_laws, of "''zh-TW''" init_i18n "[]" init_app]
  by (simp add: offered_locales_def language_files_def init_i18n_def defaultLang_def split: prod.splits)

section \<open>Leaving and theming\<close>

text \<open>Confirmed logout: the login page is pushed when the action has resolved.\<close>

definition handleLogout ::
    "'m storage_ops \<Rightarrow> js_error + unit \<Rightarrow> 'm \<times> user_state \<Rightarrow> ('m \<times> user_state) \<times> string option" where
  "handleLogout S response ms =
     (let (ms', p) = Logout S response ms in
      (ms', case p of Resolved _ \<Rightarrow> Some ''login'' | _ \<Rightarrow> None))"

lemma handleLogout_leaves_iff:
  "snd (handleLogout S response ms) = Some ''login'' \<longleftrightarrow> (\<exists>u. response = Inr u)"
  by (cases ms; cases response) (simp_all add: handleLogout_def Logout_def)

definition theme_switch ::
    "'m storage_ops \<Rightarrow> bool \<Rightarrow> 'm \<times> app_state \<Rightarrow> 'm \<times> app_state" where
  "theme_switch S checked ms =
     (if checked then commit_app S ToggleNavTheme (JStr ''dark'') ms
      else commit_app S ToggleNavTheme (JStr ''light'') ms)"

definition colorList :: "(string \<times> string) list" where
  "colorList =
     [(utf8 [0x8584, 0x66AE], ''#F5222D''),
      (utf8 [0x706B, 0x5C71], ''#FA541C''),
      (utf8 [0x65E5, 0x66AE], ''#FAAD14''),
      (utf8 [0x660E, 0x9752], ''#13C2C2''),
      (utf8 [0x6781, 0x5149, 0x7EFF], ''#52C41A''),
      (utf8 [0x62C2, 0x6653, 0x84DD, 0xFF08, 0x9ED8, 0x8BA4, 0xFF09], ''#1890FF''),
      (utf8 [0x6781, 0x5BA2, 0x84DD], ''#2F54EB''),
      (utf8 [0x9171, 0x7D2B], ''#722ED1'')]"

definition colorFilter :: "string \<Rightarrow> string option" where
  "colorFilter c = map_option fst (find (\<lambda>o'. snd o' = c) colorList)"

text \<open>The default colour of the settings is written in lower case and named by none.\<close>

lemma default_color_unnamed:
  "d_primaryColor defaultSettings = JStr ''#1890ff'' \<and> colorFilter ''#1890ff'' = None"
  by (simp add: defaultSettings_def colorFilter_def colorList_def)

section \<open>The settings drawer\<close>

text \<open>The component of \<open>components/SettingDrawer\<close> mixes in nothing and has no such data, so that
  \<open>this.primaryColor\<close>, \<open>this.layoutMode\<close> and \<open>this.colorWeak\<close> are undefined. It
  dispatches actions by name; a name no module defines is reported on the console and changes nothing.\<close>

definition store_actions :: "string list" where
  "store_actions = [''setLang'', ''Login'', ''GetInfo'', ''Logout'', ''GenerateRoutes'']"

record drawer =
  visible :: bool
  dispatched :: "(string \<times> jsval) list"
  weak_class :: bool
  themes :: "jsval list"

definition dispatch :: "string \<Rightarrow> jsval \<Rightarrow> drawer \<Rightarrow> drawer" where
  "dispatch a v d = d\<lparr>dispatched := dispatched d @ [(a, v)]\<rparr>"

definition updateTheme :: "jsval \<Rightarrow> drawer \<Rightarrow> drawer" where
  "updateTheme newPrimaryColor d = d\<lparr>themes := themes d @ [newPrimaryColor]\<rparr>"

definition updateColorWeak :: "jsval \<Rightarrow> drawer \<Rightarrow> drawer" where
  "updateColorWeak colorWeak d = d\<lparr>weak_class := js_truthy colorWeak\<rparr>"

datatype drawer_event =
    ShowDrawer | OnClose | Toggle
  | OnColorWeak bool | OnMultiTab bool | HandleMenuTheme string | HandleLayout string
  | HandleContentWidthChange string | ChangeColor string | HandleFixedHeader bool
  | HandleFixedHeaderHidden bool | HandleFixSiderbar bool

definition mounted_drawer :: "jsval \<Rightarrow> jsval \<Rightarrow> default_settings \<Rightarrow> drawer" where
  "mounted_drawer primaryColor colorWeak config =
     (let d = updateTheme primaryColor \<lparr>visible = False, dispatched = [], weak_class = False, themes = []\<rparr> in
      if colorWeak \<noteq> d_colorWeak config then updateColorWeak colorWeak d else d)"

definition handleFixSiderbar :: "jsval \<Rightarrow> bool \<Rightarrow> drawer \<Rightarrow> drawer" where
  "handleFixSiderbar layoutMode fixed d =
     (if layoutMode = JStr ''topmenu'' then dispatch ''ToggleFixSiderbar'' (JBool False) d
      else dispatch ''ToggleFixSiderbar'' (JBool fixed) d)"

fun drawer_step :: "jsval \<Rightarrow> jsval \<Rightarrow> drawer \<Rightarrow> drawer_event \<Rightarrow> drawer" where
  "drawer_step primaryColor layoutMode d ShowDrawer = d\<lparr>visible := True\<rparr>"
| "drawer_step primaryColor layoutMode d OnClose = d\<lparr>visible := False\<rparr>"
| "drawer_step primaryColor layoutMode d Toggle = d\<lparr>visible := \<not> visible d\<rparr>"
| "drawer_step primaryColor layoutMode d (OnColorWeak checked) =
     updateColorWeak (JBool checked) (dispatch ''ToggleWeak'' (JBool checked) d)"
| "drawer_step primaryColor layoutMode d (OnMultiTab checked) = dispatch ''ToggleMultiTab'' (JBool checked) d"
| "drawer_step primaryColor layoutMode d (HandleMenuTheme t) = dispatch ''ToggleTheme'' (JStr t) d"
| "drawer_step primaryColor layoutMode d (HandleLayout mode) =
     handleFixSiderbar layoutMode False (dispatch ''ToggleLayoutMode'' (JStr mode) d)"
| "drawer_step primaryColor layoutMode d (HandleContentWidthChange t) =
     dispatch ''ToggleContentWidth'' (JStr t) d"
| "drawer_step primaryColor layoutMode d (ChangeColor c) =
     (if primaryColor \<noteq> JStr c then updateTheme (JStr c) (dispatch ''ToggleColor'' (JStr c) d) else d)"
| "drawer_step primaryColor layoutMode d (HandleFixedHeader fixed) =
     dispatch ''ToggleFixedHeader'' (JBool fixed) d"
| "drawer_step primaryColor layoutMode d (HandleFixedHeaderHidden autoHidden) =
     dispatch ''ToggleFixedHeaderHidden'' (JBool autoHidden) d"
| "drawer_step primaryColor layoutMode d (HandleFixSiderbar fixed) = handleFixSiderbar layoutMode fixed d"

lemma drawer_step_dispatched:
  "x \<in> fst ` set (dispatched (drawer_step p l d e)) \<Longrightarrow> x \<in> fst ` set (dispatched d) \<or> x \<notin> set store_actions"
  by (cases e) (auto simp: dispatch_def updateTheme_def updateColorWeak_def handleFixSiderbar_def
      store_actions_def split: if_splits)

text \<open>None of the drawer's actions exists: whatever is clicked in it, the store is asked for nothing it
  knows.\<close>

lemma drawer_dispatches_unknown:
  "x \<in> fst ` set (dispatched (foldl (drawer_step p l) (mounted_drawer pc w d) es)) \<Longrightarrow> x \<notin> set store_actions"
proof (induction es rule: rev_induct)
  case Nil
  then show ?case by (simp add: mounted_drawer_def updateTheme_def updateColorWeak_def Let_def split: if_splits)
next
  case (snoc e es)
  from snoc.prems have "x \<in> fst ` set (dispatched (drawer_step p l (foldl (drawer_step p l) (mounted_drawer pc w d) es) e))"
    by (simp only: foldl_append foldl_Cons foldl_Nil)
  from drawer_step_dispatched [OF this] snoc.IH show ?case by argo
qed

end
