(* ===== verification/Captcha.thy ===== *)
theory Captcha
  imports Request
begin

text \<open>
  Asking for a text-message code, the same handler in \<open>views/user/Login.vue\<close> and
  \<open>views/user/Register.vue\<close>: the button is disabled, an interval counts down from 60 and enables it
  again, and a failed request clears its interval and enables the button at once. Intervals and requests
  in flight are part of the state, so that runs where several of them overlap are runs of the model.
\<close>

section \<open>State and handlers\<close>

record captcha =
  ca_time :: int
  smsSendBtn :: bool
  intervals :: "nat list"
  requests :: "nat list"
  created_intervals :: nat
  ticks :: "nat \<Rightarrow> nat"

definition init_captcha :: captcha where
  "init_captcha = \<lparr>ca_time = 60, smsSendBtn = False, intervals = [], requests = [],
     created_intervals = 0, ticks = (\<lambda>_. 0)\<rparr>"

text \<open>The click, when the field of the telephone number is valid; every interval has a handle of its own, and
  the request belongs to the interval of the same click.\<close>

definition getCaptcha :: "captcha \<Rightarrow> captcha" where
  "getCaptcha s =
     (let interval = created_intervals s in
      s\<lparr>smsSendBtn := True, created_intervals := Suc interval, ticks := (ticks s)(interval := 0),
        intervals := intervals s @ [interval], requests := requests s @ [interval]\<rparr>)"

text \<open>The callback of an interval; how often it has run is counted.\<close>

definition tick :: "nat \<Rightarrow> captcha \<Rightarrow> captcha" where
  "tick interval s =
     (let s' = s\<lparr>ca_time := ca_time s - 1, ticks := (ticks s)(interval := Suc (ticks s interval))\<rparr> in
      if ca_time s \<le> 0
      then s'\<lparr>ca_time := 60, smsSendBtn := False, intervals := removeAll interval (intervals s)\<rparr>
      else s')"

definition captcha_sent :: "nat \<Rightarrow> captcha \<Rightarrow> captcha" where
  "captcha_sent interval s = s\<lparr>requests := removeAll interval (requests s)\<rparr>"

definition captcha_failed :: "nat \<Rightarrow> captcha \<Rightarrow> captcha" where
  "captcha_failed interval s =
     s\<lparr>requests := removeAll interval (requests s), intervals := removeAll interval (intervals s),
       ca_time := 60, smsSendBtn := False\<rparr>"

text \<open>The label of the button: the countdown while it is disabled.\<close>

definition countdown :: "captcha \<Rightarrow> int option" where
  "countdown s = (if \<not> smsSendBtn s then None else Some (ca_time s))"

section \<open>Runs\<close>

text \<open>A request is answered or times out before its interval has run more than \<open>limit\<close> times.\<close>

inductive captcha_step :: "nat \<Rightarrow> captcha \<Rightarrow> captcha \<Rightarrow> bool" for limit where
  click: "\<not> smsSendBtn s \<Longrightarrow> captcha_step limit s (getCaptcha s)"
| interval_runs: "i \<in> set (intervals s) \<Longrightarrow> i \<in> set (requests s) \<longrightarrow> ticks s i < limit \<Longrightarrow>
    captcha_step limit s (tick i s)"
| sent: "i \<in> set (requests s) \<Longrightarrow> captcha_step limit s (captcha_sent i s)"
| failed: "i \<in> set (requests s) \<Longrightarrow> captcha_step limit s (captcha_failed i s)"

inductive captcha_reachable :: "nat \<Rightarrow> captcha \<Rightarrow> bool" for limit where
  captcha_start: "captcha_reachable limit init_captcha"
| captcha_next: "captcha_reachable limit s \<Longrightarrow> captcha_step limit s s' \<Longrightarrow> captcha_reachable limit s'"

text \<open>Idle, or one interval whose runs and the time shown add up to a minute, with at most its own request
  in flight.\<close>

definition idle :: "captcha \<Rightarrow> bool" where
  "idle s \<longleftrightarrow> \<not> smsSendBtn s \<and> intervals s = [] \<and> requests s = [] \<and> ca_time s = 60"

definition counting :: "nat \<Rightarrow> captcha \<Rightarrow> bool" where
  "counting i s \<longleftrightarrow> smsSendBtn s \<and> intervals s = [i] \<and> (requests s = [] \<or> requests s = [i]) \<and>
     0 \<le> ca_time s \<and> ca_time s = 60 - int (ticks s i)"

lemma idle_click: "idle s \<Longrightarrow> counting (created_intervals s) (getCaptcha s)"
  by (simp add: idle_def counting_def getCaptcha_def Let_def)

lemma counting_tick:
  assumes "counting i s" "requests s = [i] \<longrightarrow> ticks s i < 60"
  shows "idle (tick i s) \<or> counting i (tick i s)"
  using assms by (auto simp: idle_def counting_def tick_def Let_def)

lemma counting_replies:
  assumes "counting i s" "i \<in> set (requests s)"
  shows "counting i (captcha_sent i s)" "idle (captcha_failed i s)"
  using assms by (auto simp: idle_def counting_def captcha_sent_def captcha_failed_def)

lemma captcha_reachable_inv:
  assumes "captcha_reachable limit s" "limit \<le> 60"
  shows "idle s \<or> (\<exists>i. counting i s)"
  using assms(1)
proof induction
  case captcha_start
  then show ?case by (simp add: idle_def init_captcha_def)
next
  case (captcha_next s s')
  from captcha_next.hyps(2) captcha_next.IH show ?case
  proof (cases rule: captcha_step.cases)
    case click
    with captcha_next.IH have "idle s" unfolding counting_def by blast
    from idle_click [OF this] show ?thesis unfolding click(1) by blast
  next
    case (interval_runs j)
    with captcha_next.IH obtain i where i: "counting i s" by (auto simp: idle_def)
    then have "j = i" "requests s = [i] \<longrightarrow> ticks s i < 60"
      using interval_runs assms(2) by (auto simp: counting_def)
    with i interval_runs(1) show ?thesis using counting_tick by blast
  next
    case (sent j)
    with captcha_next.IH obtain i where i: "counting i s" by (auto simp: idle_def)
    then have "j = i" using sent by (auto simp: counting_def)
    with i sent show ?thesis using counting_replies(1) by blast
  next
    case (failed j)
    with captcha_next.IH obtain i where i: "counting i s" by (auto simp: idle_def)
    then have "j = i" using failed by (auto simp: counting_def)
    with i failed show ?thesis using counting_replies(2) by blast
  qed
qed

text \<open>C30: as long as every request is settled before the sixty-first run of its interval, at most one
  countdown runs: the button is disabled exactly while it does, the countdown shown is between 0 and 60 and is
  60 less the times the interval has run (it ends with the run after the one that shows 0), and a code that is
  being sent belongs to it. The timeout of the client that sends the request, six seconds, is such a
  bound.\<close>

theorem one_countdown:
  assumes "captcha_reachable limit s" "limit \<le> 60"
  shows "(case countdown s of
      None \<Rightarrow> intervals s = [] \<and> requests s = [] \<and> ca_time s = 60
    | Some n \<Rightarrow> (\<exists>i. intervals s = [i] \<and> set (requests s) \<subseteq> {i} \<and> 0 \<le> n \<and> n = 60 - int (ticks s i))) \<and>
    cl_timeout request div 1000 \<le> 60"
proof -
  have "idle s \<or> (\<exists>i. counting i s)"
    using assms by (rule captcha_reachable_inv)
  then show ?thesis by (auto simp: idle_def counting_def countdown_def request_def)
qed

lemma clicked_reachable: "captcha_reachable limit (getCaptcha init_captcha)"
  by (rule captcha_next [OF captcha_start click]) (simp add: init_captcha_def)

lemma one_countdown_witness:
  "\<exists>i. intervals (getCaptcha init_captcha) = [i] \<and> set (requests (getCaptcha init_captcha)) \<subseteq> {i}"
  using one_countdown [OF clicked_reachable, of 60] by (auto simp: countdown_def getCaptcha_def init_captcha_def)

text \<open>The countdown ends: after the 61st run of its interval the button can be clicked again.\<close>

lemma countdown_ends:
  assumes "counting i s" "requests s = []"
  shows "idle ((tick i ^^ Suc (nat (ca_time s))) s)"
  using assms
proof (induction "nat (ca_time s)" arbitrary: s)
  case 0
  then have "ca_time s = 0" by (simp add: counting_def)
  with 0 show ?case by (simp add: idle_def counting_def tick_def Let_def)
next
  case (Suc n)
  then have "counting i (tick i s)" "requests (tick i s) = []" "nat (ca_time (tick i s)) = n"
    by (auto simp: counting_def tick_def Let_def)
  with Suc.hyps(1) [of "tick i s"] have "idle ((tick i ^^ Suc n) (tick i s))" by simp
  then show ?case using Suc.hyps(2) by (metis funpow_Suc_right comp_apply)
qed

text \<open>Without such a bound the handler is wrong: the failure of a request that outlives its countdown
  enables the button while the next countdown runs, so that a third click makes two intervals count down
  the same time, twice as fast.\<close>

definition late_run :: "captcha \<Rightarrow> captcha" where
  "late_run s =
     (let s = (tick 0 ^^ 61) (getCaptcha s);
          s = captcha_failed 0 (getCaptcha s)
      in getCaptcha s)"

lemma tick_running:
  "0 < ca_time s \<Longrightarrow>
     tick i s = s\<lparr>ca_time := ca_time s - 1, ticks := (ticks s)(i := Suc (ticks s i))\<rparr>"
  by (simp add: tick_def)

lemma captcha_reachable_ticks:
  assumes "captcha_reachable limit s" "i \<in> set (intervals s)" "int n \<le> ca_time s + 1" "ticks s i + n \<le> limit"
  shows "captcha_reachable limit ((tick i ^^ n) s)"
  using assms
proof (induction n arbitrary: s)
  case (Suc n)
  have step: "captcha_reachable limit (tick i s)"
    using Suc.prems by (intro captcha_next [OF Suc.prems(1) interval_runs]) auto
  show ?case
  proof (cases n)
    case 0
    then show ?thesis using step by simp
  next
    case (Suc k)
    then have "tick i s = s\<lparr>ca_time := ca_time s - 1, ticks := (ticks s)(i := Suc (ticks s i))\<rparr>"
      using Suc.prems by (intro tick_running) simp
    then have "captcha_reachable limit ((tick i ^^ n) (tick i s))"
      using Suc.prems by (intro Suc.IH [OF step]) simp_all
    then show ?thesis by (simp only: funpow_Suc_right comp_apply)
  qed
qed simp

lemma ticks_before_end:
  "int n \<le> ca_time s \<Longrightarrow>
     (tick i ^^ n) s = s\<lparr>ca_time := ca_time s - int n, ticks := (ticks s)(i := ticks s i + n)\<rparr>"
proof (induction n)
  case (Suc n)
  from Suc.prems have "int n \<le> ca_time s" by simp
  then have e: "(tick i ^^ n) s = s\<lparr>ca_time := ca_time s - int n, ticks := (ticks s)(i := ticks s i + n)\<rparr>"
    by (rule Suc.IH)
  have "(tick i ^^ Suc n) s = tick i ((tick i ^^ n) s)" by simp
  then show ?case
    unfolding e using Suc.prems
    by (subst (asm) tick_running) (simp, rule captcha.equality, simp_all add: fun_eq_iff)
qed simp

lemma ticks_to_end:
  assumes "ca_time s = int n"
  shows "(tick i ^^ Suc n) s =
    s\<lparr>ca_time := 60, ticks := (ticks s)(i := ticks s i + Suc n), smsSendBtn := False,
      intervals := removeAll i (intervals s)\<rparr>"
proof -
  have "(tick i ^^ Suc n) s = tick i ((tick i ^^ n) s)" by simp
  moreover have "(tick i ^^ n) s = s\<lparr>ca_time := 0, ticks := (ticks s)(i := ticks s i + n)\<rparr>"
    using assms by (simp add: ticks_before_end)
  moreover have "tick i (s\<lparr>ca_time := 0, ticks := (ticks s)(i := ticks s i + n)\<rparr>) =
      s\<lparr>ca_time := 60, ticks := (ticks s)(i := ticks s i + Suc n), smsSendBtn := False,
        intervals := removeAll i (intervals s)\<rparr>"
    by (simp add: tick_def)
  ultimately show ?thesis by (simp only:)
qed

lemma two_countdowns:
  assumes "61 \<le> limit"
  shows "captcha_reachable limit (late_run init_captcha)"
    "length (intervals (late_run init_captcha)) = 2"
proof -
  let ?s = "getCaptcha init_captcha"
  let ?t = "(tick 0 ^^ 61) ?s"
  have f: "?t = ?s\<lparr>ca_time := 60, ticks := (ticks ?s)(0 := 61), smsSendBtn := False, intervals := []\<rparr>"
    using ticks_to_end [of ?s 60 0] by (simp add: getCaptcha_def init_captcha_def Let_def del: funpow.simps)
  have t: "captcha_reachable limit ?t"
    using assms
    by (intro captcha_reachable_ticks clicked_reachable) (simp_all add: getCaptcha_def init_captcha_def Let_def)
  have u: "captcha_reachable limit (getCaptcha ?t)"
    by (rule captcha_next [OF t click]) (simp add: f)
  have g: "getCaptcha ?t = ?t\<lparr>smsSendBtn := True, created_intervals := 2,
      intervals := [1], requests := [0, 1], ticks := (ticks ?t)(1 := 0)\<rparr>"
    unfolding f by (simp add: getCaptcha_def init_captcha_def Let_def)
  have v: "captcha_reachable limit (captcha_failed 0 (getCaptcha ?t))"
    by (rule captcha_next [OF u failed])
      (simp only: g, simp)
  show "captcha_reachable limit (late_run init_captcha)"
    unfolding late_run_def Let_def
    by (rule captcha_next [OF v click]) (simp add: captcha_failed_def)
  show "length (intervals (late_run init_captcha)) = 2"
    unfolding late_run_def Let_def captcha_failed_def g by (simp add: getCaptcha_def)
qed

end
