(* ===== verification/Doubles.thy ===== *)
theory Doubles
  imports Complex_Main "HOL-Library.Log_Nat"
begin

text \<open>
  JavaScript's numbers where a computation is not exact: a finite double is the rational number it stands
  for, and an operation rounds its exact result to 53 binary digits, ties to even. Overflow and the subnormal
  range are outside of what the sources compute with.
\<close>

definition round_half_even :: "rat \<Rightarrow> int" where
  "round_half_even r =
     (let f = \<lfloor>r\<rfloor>; d = r - of_int f in
      if d < 1 / 2 \<or> d = 1 / 2 \<and> even f then f else f + 1)"

text \<open>The exponent of the leading binary digit.\<close>

definition leading :: "rat \<Rightarrow> int" where
  "leading x =
     (case quotient_of x of (n, d) \<Rightarrow>
        let k = bitlen \<bar>n\<bar> - bitlen d in
        if (if 0 \<le> k then \<bar>n\<bar> < d * 2 ^ nat k else \<bar>n\<bar> * 2 ^ nat (- k) < d) then k - 1 else k)"

definition scale :: "rat \<Rightarrow> int \<Rightarrow> rat" where
  "scale x e = (if 0 \<le> e then x * 2 ^ nat e else x / 2 ^ nat (- e))"

definition double :: "rat \<Rightarrow> rat" where
  "double x =
     (if x = 0 then 0
      else (let e = leading x - 52 in scale (of_int (round_half_even (scale x (- e)))) e))"

definition trunc :: "rat \<Rightarrow> int" where
  "trunc x = (if x < 0 then - \<lfloor>- x\<rfloor> else \<lfloor>x\<rfloor>)"

lemma round_half_even_int [simp]: "round_half_even (of_int n) = n"
  by (simp add: round_half_even_def)

lemma trunc_int [simp]: "trunc (of_int n) = n"
  by (cases "n < 0") (simp_all add: trunc_def)

lemma scale_back: "scale (scale x (- e)) e = x"
  by (cases "e = 0"; cases "0 < e") (auto simp: scale_def)

lemma bitlen_one: "bitlen 1 = 1"
  by code_simp

text \<open>Integers of at most 53 binary digits are doubles.\<close>

theorem double_int:
  assumes "\<bar>n\<bar> < 2 ^ 53"
  shows "double (of_int n) = of_int n"
proof (cases "n = 0")
  case False
  then have "2 ^ nat (bitlen \<bar>n\<bar> - 1) \<le> \<bar>n\<bar>" using bitlen_bounds [of "\<bar>n\<bar>"] by simp
  with assms have "(2 :: int) ^ nat (bitlen \<bar>n\<bar> - 1) < 2 ^ 53" by linarith
  then have "nat (bitlen \<bar>n\<bar> - 1) < 53" by (rule power_less_imp_less_exp [rotated]) simp
  moreover have "leading (of_int n) \<le> bitlen \<bar>n\<bar> - 1"
    by (simp add: leading_def quotient_of_int Let_def bitlen_one)
  ultimately have e: "leading (of_int n) - 52 \<le> 0" by linarith
  define k where "k = nat (- (leading (of_int n) - 52))"
  have "scale (of_int n) (- (leading (of_int n) - 52)) = of_int (n * 2 ^ k)"
    using e by (simp add: scale_def k_def)
  then have "of_int (round_half_even (scale (of_int n) (- (leading (of_int n) - 52)))) =
      scale (of_int n) (- (leading (of_int n) - 52))"
    by (simp only: round_half_even_int)
  then show ?thesis using False using scale_back [of "of_int n" "leading (of_int n) - 52"] by (simp add: double_def Let_def)
qed (simp add: double_def)

text \<open>The quotients of five by small counts, and their sums, as the machine has them.\<close>

lemma double_examples:
  "double (5 / 2) = 5 / 2"
  "double (5 / 3) = 7505999378950827 / 4503599627370496"
  "double (5 + 5 / 2 + 7505999378950827 / 4503599627370496) = 5160374573028693 / 562949953421312"
  by code_simp+

end
