(* ===== verification/Util.thy ===== *)
theory Util
  imports Doubles TextUtil
begin

text \<open>
  \<open>utils/util.js\<close>: greetings by the hour, the random welcome, the debounced scroll listener, the
  removal of the loading animation, and the score of a password, whose fractions are rounded as doubles are.
\<close>

section \<open>Greetings\<close>

definition timeFix :: "nat \<Rightarrow> string" where
  "timeFix hour =
     (if hour < 9 then utf8 [0x65E9, 0x4E0A, 0x597D]
      else if hour \<le> 11 then utf8 [0x4E0A, 0x5348, 0x597D]
      else if hour \<le> 13 then utf8 [0x4E2D, 0x5348, 0x597D]
      else if hour < 20 then utf8 [0x4E0B, 0x5348, 0x597D]
      else utf8 [0x665A, 0x4E0A, 0x597D])"

definition welcome_texts :: "string list" where
  "welcome_texts =
     [utf8 [0x4F11, 0x606F, 0x4E00, 0x4F1A, 0x513F, 0x5427],
      utf8 [0x51C6, 0x5907, 0x5403, 0x4EC0, 0x4E48, 0x5462] @ ''?'',
      utf8 [0x8981, 0x4E0D, 0x8981, 0x6253, 0x4E00, 0x628A] @ '' DOTA'',
      utf8 [0x6211, 0x731C, 0x4F60, 0x53EF, 0x80FD, 0x7D2F, 0x4E86]]"

text \<open>The argument is what \<open>Math.random\<close> returned, a number from 0 to below 1.\<close>

definition greeting :: "rat \<Rightarrow> string" where
  "greeting random = (let index = \<lfloor>random * of_nat (length welcome_texts)\<rfloor> in welcome_texts ! nat index)"

lemma greeting_in: "0 \<le> r \<Longrightarrow> r < 1 \<Longrightarrow> greeting r \<in> set welcome_texts"
proof -
  assume r: "0 \<le> r" "r < 1"
  then have "\<lfloor>r * of_nat (length welcome_texts)\<rfloor> < int (length welcome_texts)"
    by (simp add: floor_less_iff welcome_texts_def)
  moreover have "0 < length welcome_texts" by (simp add: welcome_texts_def)
  ultimately have "nat \<lfloor>r * of_nat (length welcome_texts)\<rfloor> < length welcome_texts" by linarith
  then show ?thesis unfolding greeting_def Let_def by (rule nth_mem)
qed

definition sum_of :: "int list \<Rightarrow> int" where
  "sum_of arr = foldl (\<lambda>s val. s + val) 0 arr"

lemma sum_of_sum_list: "sum_of arr = sum_list arr"
  by (simp add: sum_of_def fold_plus_sum_list_rev foldl_conv_fold add.commute fold_plus_sum_list_rev)

definition isIE :: "string \<Rightarrow> bool \<Rightarrow> bool" where
  "isIE userAgent activeX = (sublist ''MSIE'' userAgent \<or> activeX)"

text \<open>The removal is asked of the body for an element that need not be there.\<close>

definition removeLoadingAnimate :: "string \<Rightarrow> string set \<Rightarrow> js_error + string set" where
  "removeLoadingAnimate i body =
     (if i = [] then Inr body else if i \<in> body then Inr (body - {i}) else Inl TypeError)"

section \<open>The scroll listener\<close>

datatype direction = Up | Down

record scroll =
  beforeScrollTop :: int
  timers :: "nat list"
  timer :: nat
  next_timer :: nat
  reported :: "(direction \<times> int) list"

definition handleScrollHeader :: "int \<Rightarrow> scroll" where
  "handleScrollHeader pageYOffset = \<lparr>beforeScrollTop = pageYOffset, timers = [], timer = 0, next_timer = 1, reported = []\<rparr>"

definition on_scroll :: "scroll \<Rightarrow> scroll" where
  "on_scroll s =
     s\<lparr>timers := removeAll (timer s) (timers s) @ [next_timer s], timer := next_timer s,
       next_timer := Suc (next_timer s)\<rparr>"

text \<open>A timer ends, at the offset the page then has; the reports are kept with that offset.\<close>

definition scroll_timeout :: "nat \<Rightarrow> int \<Rightarrow> scroll \<Rightarrow> scroll" where
  "scroll_timeout i afterScrollTop s =
     (let s = s\<lparr>timers := removeAll i (timers s)\<rparr>; delta = afterScrollTop - beforeScrollTop s in
      if delta = 0 then s
      else s\<lparr>reported := reported s @ [(if 0 < delta then Down else Up, afterScrollTop)],
             beforeScrollTop := afterScrollTop\<rparr>)"

inductive scrolled :: "int \<Rightarrow> scroll \<Rightarrow> bool" for offset where
  scroll_start: "scrolled offset (handleScrollHeader offset)"
| scroll_event: "scrolled offset s \<Longrightarrow> scrolled offset (on_scroll s)"
| scroll_end: "scrolled offset s \<Longrightarrow> i \<in> set (timers s) \<Longrightarrow> scrolled offset (scroll_timeout i y s)"

text \<open>The reports tell the ways between the offsets they were made at.\<close>

fun told :: "int \<Rightarrow> (direction \<times> int) list \<Rightarrow> bool" where
  "told y [] = True"
| "told y ((d, y') # rs) = (y \<noteq> y' \<and> d = (if y < y' then Down else Up) \<and> told y' rs)"

lemma told_append: "told y (rs @ [(d, y')]) \<longleftrightarrow>
    told y rs \<and> (let z = (if rs = [] then y else snd (last rs)) in z \<noteq> y' \<and> d = (if z < y' then Down else Up))"
  by (induction y rs rule: told.induct) (auto simp: Let_def)

text \<open>At most one timer runs, the one the next event clears, and every report is the direction from the
  offset of the report before.\<close>

theorem scroll_reports:
  assumes "scrolled offset s"
  shows "(timers s = [] \<or> timers s = [timer s]) \<and> told offset (reported s)"
proof -
  have "(timers s = [] \<or> timers s = [timer s]) \<and> told offset (reported s) \<and>
      beforeScrollTop s = (if reported s = [] then offset else snd (last (reported s)))"
    using assms
  proof induction
    case scroll_start
    then show ?case by (simp add: handleScrollHeader_def)
  next
    case (scroll_event s)
    then show ?case by (auto simp: on_scroll_def)
  next
    case (scroll_end s i y)
    then show ?case by (auto simp: scroll_timeout_def told_append Let_def split: if_splits)
  qed
  then show ?thesis by blast
qed

section \<open>The score of a password\<close>

definition unit_in :: "nat \<Rightarrow> nat \<Rightarrow> 16 word \<Rightarrow> bool" where
  "unit_in a b c \<longleftrightarrow> a \<le> unat c \<and> unat c \<le> b"

definition digits :: "code_units \<Rightarrow> bool" where "digits pass \<longleftrightarrow> (\<exists>c \<in> set pass. unit_in 48 57 c)"
definition lower :: "code_units \<Rightarrow> bool" where "lower pass \<longleftrightarrow> (\<exists>c \<in> set pass. unit_in 97 122 c)"
definition upper :: "code_units \<Rightarrow> bool" where "upper pass \<longleftrightarrow> (\<exists>c \<in> set pass. unit_in 65 90 c)"

definition nonWords :: "code_units \<Rightarrow> bool" where
  "nonWords pass \<longleftrightarrow>
     (\<exists>c \<in> set pass. \<not> (unit_in 48 57 c \<or> unit_in 97 122 c \<or> unit_in 65 90 c \<or> unat c = 95))"

definition variationCount :: "code_units \<Rightarrow> nat" where
  "variationCount pass = length (filter (\<lambda>v. v) [digits pass, lower pass, upper pass, nonWords pass])"

text \<open>One round of the loop: the letter's count goes up and the score by five over it.\<close>

definition score_letter :: "(16 word \<Rightarrow> nat) \<times> rat \<Rightarrow> 16 word \<Rightarrow> (16 word \<Rightarrow> nat) \<times> rat" where
  "score_letter = (\<lambda>(letters, score) c.
     (let n = letters c + 1 in (letters(c := n), double (score + double (5 / of_nat n)))))"

text \<open>\<open>parseInt\<close> of a score reads the integer part of its decimal text, which has no exponent at this
  magnitude.\<close>

definition scorePassword :: "code_units option \<Rightarrow> int" where
  "scorePassword pass =
     (case pass of
        None \<Rightarrow> 0
      | Some p \<Rightarrow>
          if p = [] then 0
          else (let score = snd (foldl score_letter (\<lambda>_. 0, 0) p);
                    score = double (score + of_int ((int (variationCount p) - 1) * 10))
                in trunc score))"

lemma score_distinct:
  assumes "distinct p" "\<forall>c \<in> set p. letters c = 0" "0 \<le> k" "k + 5 * int (length p) < 2 ^ 53"
  shows "snd (foldl score_letter (letters, of_int k) p) = of_int (k + 5 * int (length p))"
  using assms
proof (induction p arbitrary: letters k)
  case (Cons c p)
  have 5: "double 5 = 5" using double_int [of 5] by simp
  have "double (of_int (k + 5)) = of_int (k + 5)" using Cons.prems by (intro double_int) simp
  then have "score_letter (letters, of_int k) c = (letters(c := 1), of_int (k + 5))"
    using Cons.prems by (simp add: score_letter_def Let_def 5)
  moreover have "snd (foldl score_letter (letters(c := 1), of_int (k + 5)) p) = of_int (k + 5 + 5 * int (length p))"
    using Cons.prems by (intro Cons.IH) auto
  ultimately show ?case by simp
qed simp

lemma variationCount_le: "variationCount p \<le> 4"
  unfolding variationCount_def using length_filter_le [of "\<lambda>v. v" "[digits p, lower p, upper p, nonWords p]"] by simp

text \<open>A password without a repeated letter scores five for each, and ten for each kind of letters after the
  first.\<close>

theorem scorePassword_distinct:
  assumes "distinct p" "p \<noteq> []" "length p < 2 ^ 50"
  shows "scorePassword (Some p) = 5 * int (length p) + 10 * (int (variationCount p) - 1)"
proof -
  have s: "snd (foldl score_letter (\<lambda>_. 0, 0) p) = of_int (5 * int (length p))"
    using score_distinct [of p "\<lambda>_. 0" 0] assms by simp
  have "double (of_int (5 * int (length p) + (int (variationCount p) - 1) * 10)) =
      of_int (5 * int (length p) + (int (variationCount p) - 1) * 10)"
  proof (rule double_int)
    have "int (length p) < 2 ^ 50" using assms(3) by simp
    then show "\<bar>5 * int (length p) + (int (variationCount p) - 1) * 10\<bar> < 2 ^ 53"
      using variationCount_le [of p] by simp
  qed
  moreover have "scorePassword (Some p) =
      trunc (double (of_int (5 * int (length p) + (int (variationCount p) - 1) * 10)))"
    using assms(2) by (simp only: scorePassword_def option.case Let_def s of_int_add [symmetric] if_False)
  ultimately show ?thesis by (simp only: trunc_int)
qed

end
