(* ===== verification/Regex.thy ===== *)
theory Regex
  imports Prelude "HOL-Library.Char_ord"
begin

text \<open>
  Regular expressions as the sources use them in validation, all anchored at both ends: their syntax,
  what they denote, a matcher by derivatives that computes \<open>RegExp.prototype.test\<close>, and facts that
  read the denotation off the combinators.
\<close>

section \<open>Syntax and denotation\<close>

datatype regex =
    Never
  | Empty
  | Class "char \<Rightarrow> bool"
  | Seq regex regex
  | Alt regex regex
  | Star regex

definition conc :: "string set \<Rightarrow> string set \<Rightarrow> string set" where
  "conc A B = {u @ v |u v. u \<in> A \<and> v \<in> B}"

inductive_set star :: "string set \<Rightarrow> string set" for A where
  star_nil: "[] \<in> star A"
| star_app: "u \<in> A \<Longrightarrow> v \<in> star A \<Longrightarrow> u @ v \<in> star A"

primrec denotes :: "regex \<Rightarrow> string set" where
  "denotes Never = {}"
| "denotes Empty = {[]}"
| "denotes (Class P) = {[c] |c. P c}"
| "denotes (Seq r s) = conc (denotes r) (denotes s)"
| "denotes (Alt r s) = denotes r \<union> denotes s"
| "denotes (Star r) = star (denotes r)"

section \<open>Matching\<close>

primrec nullable :: "regex \<Rightarrow> bool" where
  "nullable Never = False"
| "nullable Empty = True"
| "nullable (Class P) = False"
| "nullable (Seq r s) = (nullable r \<and> nullable s)"
| "nullable (Alt r s) = (nullable r \<or> nullable s)"
| "nullable (Star r) = True"

primrec deriv :: "char \<Rightarrow> regex \<Rightarrow> regex" where
  "deriv c Never = Never"
| "deriv c Empty = Never"
| "deriv c (Class P) = (if P c then Empty else Never)"
| "deriv c (Seq r s) = (if nullable r then Alt (Seq (deriv c r) s) (deriv c s) else Seq (deriv c r) s)"
| "deriv c (Alt r s) = Alt (deriv c r) (deriv c s)"
| "deriv c (Star r) = Seq (deriv c r) (Star r)"

fun test :: "regex \<Rightarrow> string \<Rightarrow> bool" where
  "test r [] = nullable r"
| "test r (c # cs) = test (deriv c r) cs"

lemma nullable_iff: "nullable r \<longleftrightarrow> [] \<in> denotes r"
  by (induction r) (auto simp: conc_def intro: star_nil)

lemma conc_cons:
  "c # w \<in> conc A B \<longleftrightarrow> (\<exists>u v. w = u @ v \<and> c # u \<in> A \<and> v \<in> B) \<or> [] \<in> A \<and> c # w \<in> B"
  by (auto simp: conc_def Cons_eq_append_conv)

lemma star_cons: "c # w \<in> star A \<longleftrightarrow> (\<exists>u v. w = u @ v \<and> c # u \<in> A \<and> v \<in> star A)"
proof
  assume "c # w \<in> star A"
  then show "\<exists>u v. w = u @ v \<and> c # u \<in> A \<and> v \<in> star A"
  proof (induction "c # w")
    case (star_app u v)
    then show ?case by (cases u) auto
  qed
next
  assume "\<exists>u v. w = u @ v \<and> c # u \<in> A \<and> v \<in> star A"
  then show "c # w \<in> star A" by (metis append_Cons star_app)
qed

lemma deriv_iff: "w \<in> denotes (deriv c r) \<longleftrightarrow> c # w \<in> denotes r"
proof (induction r arbitrary: w)
  case (Seq r s)
  have "w \<in> conc (denotes (deriv c r)) (denotes s) \<longleftrightarrow>
      (\<exists>u v. w = u @ v \<and> c # u \<in> denotes r \<and> v \<in> denotes s)"
    using Seq.IH(1) by (auto simp: conc_def)
  with Seq.IH(2) show ?case by (auto simp: conc_cons nullable_iff)
next
  case (Star r)
  then show ?case by (auto simp: conc_def star_cons)
qed auto

theorem test_iff: "test r w \<longleftrightarrow> w \<in> denotes r"
  by (induction w arbitrary: r) (simp_all add: nullable_iff deriv_iff)

section \<open>Combinators\<close>

definition lit :: "char \<Rightarrow> regex" where
  "lit c = Class (\<lambda>x. x = c)"

definition opt :: "regex \<Rightarrow> regex" where
  "opt r = Alt r Empty"

definition plus1 :: "regex \<Rightarrow> regex" where
  "plus1 r = Seq r (Star r)"

primrec repeat_n :: "regex \<Rightarrow> nat \<Rightarrow> regex" where
  "repeat_n r 0 = Empty"
| "repeat_n r (Suc n) = Seq r (repeat_n r n)"

text \<open>\<open>r{m,n}\<close>\<close>

primrec upto :: "regex \<Rightarrow> nat \<Rightarrow> regex" where
  "upto r 0 = Empty"
| "upto r (Suc n) = opt (Seq r (upto r n))"

definition between :: "regex \<Rightarrow> nat \<Rightarrow> nat \<Rightarrow> regex" where
  "between r m n = Seq (repeat_n r m) (upto r (n - m))"

lemma language_lit [simp]: "denotes (lit c) = {[c]}"
  by (auto simp: lit_def)

lemma language_opt [simp]: "denotes (opt r) = insert [] (denotes r)"
  by (auto simp: opt_def)

lemma conc_class: "w \<in> conc {[c] |c. P c} B \<longleftrightarrow> (\<exists>c v. w = c # v \<and> P c \<and> v \<in> B)"
  unfolding conc_def mem_Collect_eq
  by (metis append_Cons append_Nil)

lemma language_seq_class:
  "w \<in> denotes (Seq (Class P) r) \<longleftrightarrow> (\<exists>c v. w = c # v \<and> P c \<and> v \<in> denotes r)"
  by (simp add: conc_class)

lemma language_repeat_n: "w \<in> denotes (repeat_n (Class P) n) \<longleftrightarrow> length w = n \<and> list_all P w"
proof (induction n arbitrary: w)
  case (Suc n)
  then show ?case
    unfolding repeat_n.simps language_seq_class by (cases w) auto
qed auto

lemma language_upto: "w \<in> denotes (upto (Class P) n) \<longleftrightarrow> length w \<le> n \<and> list_all P w"
proof (induction n arbitrary: w)
  case (Suc n)
  then show ?case
    unfolding upto.simps language_opt insert_iff language_seq_class by (cases w) auto
qed auto

lemma language_between:
  assumes "m \<le> n"
  shows "w \<in> denotes (between (Class P) m n) \<longleftrightarrow> m \<le> length w \<and> length w \<le> n \<and> list_all P w"
proof
  assume "w \<in> denotes (between (Class P) m n)"
  then show "m \<le> length w \<and> length w \<le> n \<and> list_all P w"
    using assms by (auto simp: between_def conc_def language_repeat_n language_upto)
next
  assume w: "m \<le> length w \<and> length w \<le> n \<and> list_all P w"
  then have "list_all P (take m w)" "list_all P (drop m w)"
    by (metis append_take_drop_id list_all_append)+
  with w have "take m w \<in> denotes (repeat_n (Class P) m)" "drop m w \<in> denotes (upto (Class P) (n - m))"
    by (auto simp: language_repeat_n language_upto)
  then show "w \<in> denotes (between (Class P) m n)"
    unfolding between_def denotes.simps conc_def by (metis (mono_tags, lifting) append_take_drop_id mem_Collect_eq)
qed

lemma star_class: "w \<in> star {[c] |c. P c} \<longleftrightarrow> list_all P w"
proof
  assume "w \<in> star {[c] |c. P c}"
  then show "list_all P w" by induction auto
next
  assume "list_all P w"
  then show "w \<in> star {[c] |c. P c}"
  proof (induction w)
    case (Cons c w)
    then show ?case using star_app [of "[c]" _ w] by auto
  qed (simp add: star_nil)
qed

lemma language_plus1: "w \<in> denotes (plus1 (Class P)) \<longleftrightarrow> w \<noteq> [] \<and> list_all P w"
  unfolding plus1_def language_seq_class by (cases w) (auto simp: star_class)

section \<open>Character classes\<close>

definition digit_class :: "char \<Rightarrow> bool" where
  "digit_class c \<longleftrightarrow> CHR ''0'' \<le> c \<and> c \<le> CHR ''9''"

text \<open>\<open>[a-zA-Z0-9_-]\<close>\<close>

definition name_class :: "char \<Rightarrow> bool" where
  "name_class c \<longleftrightarrow> CHR ''a'' \<le> c \<and> c \<le> CHR ''z'' \<or> CHR ''A'' \<le> c \<and> c \<le> CHR ''Z'' \<or>
     digit_class c \<or> c = CHR ''_'' \<or> c = CHR ''-''"

end
