(* ===== verification/LoginForm.thy ===== *)
theory LoginForm
  imports UserStore Regex Machines
begin

text \<open>
  The login page, \<open>views/user/Login.vue\<close>, with the dialog of \<open>components/tools/TwoStepCaptcha.vue\<close>:
  the fields with their rules, the two tabs, the submit handler with its promise chain, and the state of the
  submit button. The text-message code is modelled in the theory \<open>Captcha\<close>, the \<open>Login\<close> and
  \<open>Logout\<close> actions in \<open>UserStore\<close>. The \<open>md5\<close> package is not part of the repository: it is an
  argument, and it throws for \<open>undefined\<close>, as its documentation says. How the form library decides
  whether the fields are valid is not modelled either: what it calls back with is part of the event.
\<close>

section \<open>Fields and patterns\<close>

text \<open>\<open>/^([a-zA-Z0-9_-])+@([a-zA-Z0-9_-])+((\.[a-zA-Z0-9_-]{2,3}){1,2})$/\<close> and
  \<open>/^1[34578]\d{9}$/\<close>\<close>

definition email_regex :: regex where
  "email_regex =
     Seq (plus1 (Class name_class))
       (Seq (lit CHR ''@'')
         (Seq (plus1 (Class name_class))
           (between (Seq (lit CHR ''.'') (between (Class name_class) 2 3)) 1 2)))"

definition login_mobile_regex :: regex where
  "login_mobile_regex =
     Seq (lit CHR ''1'') (Seq (Class (\<lambda>c. c \<in> set ''34578'')) (repeat_n (Class digit_class) 9))"

datatype field_rule =
    RequiredRule string
  | PatternRule regex string
  | ValidatorRule string
  | TypeRule string string

record form_field =
  ff_name :: string
  ff_rules :: "field_rule list"
  ff_triggers :: "string list"

definition login_fields :: "(string \<times> form_field list) list" where
  "login_fields =
     [(''tab1'',
       [\<lparr>ff_name = ''username'',
          ff_rules = [RequiredRule ''user.userName.required'', ValidatorRule ''handleUsernameOrEmail''],
          ff_triggers = [''change'']\<rparr>,
        \<lparr>ff_name = ''password'', ff_rules = [RequiredRule ''user.password.required''],
          ff_triggers = [''blur'']\<rparr>]),
      (''tab2'',
       [\<lparr>ff_name = ''mobile'',
          ff_rules = [RequiredRule ''user.login.mobile.placeholder'',
            PatternRule login_mobile_regex ''user.login.mobile.placeholder''],
          ff_triggers = [''change'']\<rparr>,
        \<lparr>ff_name = ''captcha'', ff_rules = [RequiredRule ''user.verification-code.required''],
          ff_triggers = [''blur'']\<rparr>])]"

text \<open>What the patterns accept.\<close>

lemma seq_lit: "w \<in> denotes (Seq (lit d) r) \<longleftrightarrow> (\<exists>v. w = d # v \<and> v \<in> denotes r)"
  unfolding lit_def language_seq_class by auto

lemma seq_split: "w \<in> denotes (Seq r s) \<longleftrightarrow> (\<exists>u v. w = u @ v \<and> u \<in> denotes r \<and> v \<in> denotes s)"
  by (simp add: conc_def)

lemma login_mobile_language:
  "test login_mobile_regex w \<longleftrightarrow>
     (\<exists>c v. w = CHR ''1'' # c # v \<and> c \<in> set ''34578'' \<and> length v = 9 \<and> list_all digit_class v)"
  unfolding test_iff login_mobile_regex_def seq_lit language_seq_class language_repeat_n by metis

definition email_group :: "string set" where
  "email_group = {CHR ''.'' # v |v. 2 \<le> length v \<and> length v \<le> 3 \<and> list_all name_class v}"

lemma language_email_group:
  "denotes (Seq (lit CHR ''.'') (between (Class name_class) 2 3)) = email_group"
  unfolding email_group_def by (rule set_eqI) (simp only: seq_lit mem_Collect_eq, auto simp: language_between)

lemma language_one_two:
  "w \<in> denotes (between r 1 2) \<longleftrightarrow> (\<exists>u v. w = u @ v \<and> u \<in> denotes r \<and> (v = [] \<or> v \<in> denotes r))"
  by (auto simp: between_def conc_def numeral_2_eq_2)

lemma email_language:
  "test email_regex w \<longleftrightarrow>
     (\<exists>u d g h. w = u @ CHR ''@'' # d @ g @ h \<and> u \<noteq> [] \<and> list_all name_class u \<and> d \<noteq> [] \<and>
        list_all name_class d \<and> g \<in> email_group \<and> (h = [] \<or> h \<in> email_group))"
  (is "_ \<longleftrightarrow> (\<exists>u d g h. w = u @ CHR ''@'' # d @ g @ h \<and> ?ok u d g h)")
proof
  assume "test email_regex w"
  then obtain u v where w: "w = u @ v" "u \<in> denotes (plus1 (Class name_class))"
    "v \<in> denotes (Seq (lit CHR ''@'') (Seq (plus1 (Class name_class))
      (between (Seq (lit CHR ''.'') (between (Class name_class) 2 3)) 1 2)))"
    unfolding test_iff email_regex_def seq_split [of _ "plus1 _" "Seq (lit _) _"] by blast
  from w(3) obtain v' where v: "v = CHR ''@'' # v'"
    "v' \<in> denotes (Seq (plus1 (Class name_class)) (between (Seq (lit CHR ''.'') (between (Class name_class) 2 3)) 1 2))"
    unfolding seq_lit [of _ "CHR ''@''"] by blast
  from v(2) obtain d t where d: "v' = d @ t" "d \<in> denotes (plus1 (Class name_class))"
    "t \<in> denotes (between (Seq (lit CHR ''.'') (between (Class name_class) 2 3)) 1 2)"
    unfolding seq_split [of _ "plus1 _"] by blast
  from d(3) obtain g h where g: "t = g @ h" "g \<in> email_group" "h = [] \<or> h \<in> email_group"
    unfolding language_one_two language_email_group by blast
  from w(2) d(2) have "?ok u d g h" unfolding language_plus1 using g by simp
  with w(1) v(1) d(1) g(1) show "\<exists>u d g h. w = u @ CHR ''@'' # d @ g @ h \<and> ?ok u d g h" by auto
next
  assume "\<exists>u d g h. w = u @ CHR ''@'' # d @ g @ h \<and> ?ok u d g h"
  then obtain u d g h where w: "w = u @ CHR ''@'' # d @ g @ h" "?ok u d g h" by metis
  have "g @ h \<in> denotes (between (Seq (lit CHR ''.'') (between (Class name_class) 2 3)) 1 2)"
    unfolding language_one_two language_email_group using w(2) by blast
  moreover have "d \<in> denotes (plus1 (Class name_class))" "u \<in> denotes (plus1 (Class name_class))"
    using w(2) by (simp_all add: language_plus1)
  ultimately show "test email_regex w"
    unfolding test_iff email_regex_def seq_split [of _ "plus1 _"] seq_lit [of _ "CHR ''@''"] w(1) by blast
qed

section \<open>State\<close>

record values_of =
  v_username :: "string option"
  v_password :: "string option"
  v_mobile :: "string option"
  v_captcha :: "string option"

datatype login_note = Welcome | Failure string

record 'm login_page =
  customActiveKey :: string
  outer_loginBtn :: bool
  isLoginError :: bool
  requiredTwoStepCaptcha :: bool
  stepCaptchaVisible :: bool
  loginBtn :: bool
  loginType :: nat
  validating :: "string list"
  logging_in :: "(string \<rightharpoonup> string option) list"
  cooling :: nat
  stuck :: nat
  routed :: "string list"
  shown_notes :: "login_note list"
  greetings :: nat
  lp_stored :: 'm
  lp_user :: user_state

definition init_login :: "'m \<Rightarrow> user_state \<Rightarrow> 'm login_page" where
  "init_login m u = \<lparr>customActiveKey = ''tab1'', outer_loginBtn = False, isLoginError = False,
     requiredTwoStepCaptcha = False, stepCaptchaVisible = False, loginBtn = False, loginType = 0,
     validating = [], logging_in = [], cooling = 0, stuck = 0, routed = [], shown_notes = [], greetings = 0,
     lp_stored = m, lp_user = u\<rparr>"

section \<open>Handlers\<close>

text \<open>A value that is not there is tested as the text \<open>undefined\<close>.\<close>

definition handleUsernameOrEmail :: "string option \<Rightarrow> 'm login_page \<Rightarrow> 'm login_page" where
  "handleUsernameOrEmail val s =
     (if test email_regex (case val of None \<Rightarrow> ''undefined'' | Some v \<Rightarrow> v)
      then s\<lparr>loginType := 0\<rparr> else s\<lparr>loginType := 1\<rparr>)"

definition handleTabClick :: "string \<Rightarrow> 'm login_page \<Rightarrow> 'm login_page" where
  "handleTabClick key s = s\<lparr>customActiveKey := key\<rparr>"

definition validateFieldsKey :: "string \<Rightarrow> string list" where
  "validateFieldsKey key = (if key = ''tab1'' then [''username'', ''password''] else [''mobile'', ''captcha''])"

definition handleSubmit :: "'m login_page \<Rightarrow> 'm login_page" where
  "handleSubmit s = s\<lparr>loginBtn := True, validating := validating s @ [customActiveKey s]\<rparr>"

text \<open>The values of the validated fields only, which the callback gets.\<close>

definition fields_values :: "string list \<Rightarrow> values_of \<Rightarrow> string \<rightharpoonup> string option" where
  "fields_values ks v = (\<lambda>k.
     if k \<notin> set ks then None
     else if k = ''username'' then Some (v_username v)
     else if k = ''password'' then Some (v_password v)
     else if k = ''mobile'' then Some (v_mobile v)
     else if k = ''captcha'' then Some (v_captcha v) else None)"

definition prop_of :: "(string \<rightharpoonup> string option) \<Rightarrow> string \<Rightarrow> string option" where
  "prop_of values k = (case values k of None \<Rightarrow> None | Some v \<Rightarrow> v)"

definition loginParams ::
    "(string option \<Rightarrow> js_error + string) \<Rightarrow> nat \<Rightarrow> (string \<rightharpoonup> string option) \<Rightarrow>
     js_error + (string \<rightharpoonup> string option)" where
  "loginParams md5 type values =
     (let ps = values(''username'' := None);
          ps = ps((if type = 0 then ''email'' else ''username'') \<mapsto> prop_of values ''username'')
      in case md5 (prop_of values ''password'') of
           Inl e \<Rightarrow> Inl e
         | Inr h \<Rightarrow> Inr (ps(''password'' \<mapsto> Some h)))"

text \<open>The callback of the validation. On the credentials tab the validator of the name has run before it.
  An exception in the callback leaves the button as it is.\<close>

definition validated ::
    "(string option \<Rightarrow> js_error + string) \<Rightarrow> bool \<Rightarrow> values_of \<Rightarrow> 'm login_page \<Rightarrow> 'm login_page" where
  "validated md5 err v s =
     (case validating s of
        [] \<Rightarrow> s
      | key # keys \<Rightarrow>
          (let s = s\<lparr>validating := keys\<rparr>;
               s = (if key = ''tab1'' then handleUsernameOrEmail (v_username v) s else s)
           in if \<not> err
              then (case loginParams md5 (loginType s) (fields_values (validateFieldsKey key) v) of
                      Inl e \<Rightarrow> s\<lparr>stuck := Suc (stuck s)\<rparr>
                    | Inr ps \<Rightarrow> s\<lparr>logging_in := logging_in s @ [ps]\<rparr>)
              else s\<lparr>cooling := Suc (cooling s)\<rparr>))"

definition cooled :: "'m login_page \<Rightarrow> 'm login_page" where
  "cooled s = (if cooling s = 0 then s else s\<lparr>cooling := cooling s - 1, loginBtn := False\<rparr>)"

definition loginSuccess :: "'m login_page \<Rightarrow> 'm login_page" where
  "loginSuccess s = s\<lparr>routed := routed s @ [''/''], greetings := Suc (greetings s), isLoginError := False\<rparr>"

definition default_failure :: string where
  "default_failure = utf8 [0x8BF7, 0x6C42, 0x51FA, 0x73B0, 0x9519, 0x8BEF, 0xFF0C, 0x8BF7, 0x7A0D, 0x540E, 0x518D, 0x8BD5]"

text \<open>The message of the response, if the rejection has a response with one.\<close>

definition requestFailed :: "string option \<Rightarrow> 'm login_page \<Rightarrow> 'm login_page" where
  "requestFailed message s =
     s\<lparr>isLoginError := True, shown_notes := shown_notes s @ [Failure (str_default message default_failure)]\<rparr>"

text \<open>The answer to the oldest login under way, with the promise chain behind it.\<close>

definition login_replied ::
    "'m storage_ops \<Rightarrow> js_error + login_result option \<Rightarrow> string option \<Rightarrow> 'm login_page \<Rightarrow> 'm login_page" where
  "login_replied S response message s =
     (case logging_in s of
        [] \<Rightarrow> s
      | _ # ps \<Rightarrow>
          (let (mu, p) = Login S response (lp_stored s, lp_user s);
               s = s\<lparr>logging_in := ps, lp_stored := fst mu, lp_user := snd mu\<rparr>;
               s = (case p of
                      Resolved _ \<Rightarrow> loginSuccess s
                    | Rejected _ \<Rightarrow> requestFailed message s
                    | Pending \<Rightarrow> s)
           in if settled p then s\<lparr>loginBtn := False\<rparr> else s))"

definition greeted :: "'m login_page \<Rightarrow> 'm login_page" where
  "greeted s = (if greetings s = 0 then s
     else s\<lparr>greetings := greetings s - 1, shown_notes := shown_notes s @ [Welcome]\<rparr>)"

definition step_code :: "js_error + bool \<Rightarrow> 'm login_page \<Rightarrow> 'm login_page" where
  "step_code r s = s\<lparr>requiredTwoStepCaptcha := (case r of Inl _ \<Rightarrow> False | Inr b \<Rightarrow> b)\<rparr>"

definition stepCaptchaSuccess :: "'m login_page \<Rightarrow> 'm login_page" where
  "stepCaptchaSuccess s = loginSuccess s"

definition stepCaptchaCancel :: "'m storage_ops \<Rightarrow> js_error + unit \<Rightarrow> 'm login_page \<Rightarrow> 'm login_page" where
  "stepCaptchaCancel S response s =
     (let (mu, p) = Logout S response (lp_stored s, lp_user s);
          s = s\<lparr>lp_stored := fst mu, lp_user := snd mu\<rparr>
      in case p of Resolved _ \<Rightarrow> s\<lparr>outer_loginBtn := False, stepCaptchaVisible := False\<rparr> | _ \<Rightarrow> s)"

section \<open>Runs\<close>

datatype login_event =
    StepCode "js_error + bool"
  | NameChange "string option"
  | TabClick string
  | Submit
  | Validated bool values_of
  | Cooled
  | Replied "js_error + login_result option" "string option"
  | Greeted
  | StepSuccess
  | StepCancel "js_error + unit"

text \<open>What can happen: the submit button is disabled while \<open>loginBtn\<close> holds, and a disabled button
  also keeps the enter key from submitting; the dialog reports nothing unless it is shown.\<close>

fun login_enabled :: "'m login_page \<Rightarrow> login_event \<Rightarrow> bool" where
  "login_enabled s (TabClick key) = (key = ''tab1'' \<or> key = ''tab2'')"
| "login_enabled s Submit = (\<not> loginBtn s)"
| "login_enabled s (Validated err v) = (validating s \<noteq> [])"
| "login_enabled s Cooled = (0 < cooling s)"
| "login_enabled s (Replied r msg) = (logging_in s \<noteq> [])"
| "login_enabled s Greeted = (0 < greetings s)"
| "login_enabled s StepSuccess = (requiredTwoStepCaptcha s \<and> stepCaptchaVisible s)"
| "login_enabled s (StepCancel r) = (requiredTwoStepCaptcha s \<and> stepCaptchaVisible s)"
| "login_enabled s _ = True"

fun login_step ::
    "(string option \<Rightarrow> js_error + string) \<Rightarrow> 'm storage_ops \<Rightarrow> 'm login_page \<Rightarrow> login_event \<Rightarrow> 'm login_page" where
  "login_step md5 S s (StepCode r) = step_code r s"
| "login_step md5 S s (NameChange v) = handleUsernameOrEmail v s"
| "login_step md5 S s (TabClick key) = handleTabClick key s"
| "login_step md5 S s Submit = handleSubmit s"
| "login_step md5 S s (Validated err v) = validated md5 err v s"
| "login_step md5 S s Cooled = cooled s"
| "login_step md5 S s (Replied r msg) = login_replied S r msg s"
| "login_step md5 S s Greeted = greeted s"
| "login_step md5 S s StepSuccess = stepCaptchaSuccess s"
| "login_step md5 S s (StepCancel r) = stepCaptchaCancel S r s"

inductive login_reachable ::
    "(string option \<Rightarrow> js_error + string) \<Rightarrow> 'm storage_ops \<Rightarrow> 'm login_page \<Rightarrow> bool" for md5 S where
  login_start: "login_reachable md5 S (init_login m u)"
| login_next: "login_reachable md5 S s \<Longrightarrow> login_enabled s e \<Longrightarrow> login_reachable md5 S (login_step md5 S s e)"

section \<open>The submit button\<close>

text \<open>What a submission is waiting for.\<close>

definition waiting :: "'m login_page \<Rightarrow> nat" where
  "waiting s = length (validating s) + length (logging_in s) + cooling s + stuck s"

definition login_inv :: "'m login_page \<Rightarrow> bool" where
  "login_inv s \<longleftrightarrow> waiting s = (if loginBtn s then 1 else 0) \<and> \<not> stepCaptchaVisible s"

lemma handleUsernameOrEmail_keeps [simp]:
  "validating (handleUsernameOrEmail v s) = validating s" "logging_in (handleUsernameOrEmail v s) = logging_in s"
  "cooling (handleUsernameOrEmail v s) = cooling s" "stuck (handleUsernameOrEmail v s) = stuck s"
  "loginBtn (handleUsernameOrEmail v s) = loginBtn s"
  "stepCaptchaVisible (handleUsernameOrEmail v s) = stepCaptchaVisible s"
  "greetings (handleUsernameOrEmail v s) = greetings s" "lp_user (handleUsernameOrEmail v s) = lp_user s"
  "lp_stored (handleUsernameOrEmail v s) = lp_stored s" "isLoginError (handleUsernameOrEmail v s) = isLoginError s"
  by (simp_all add: handleUsernameOrEmail_def)

lemma validated_inv: "login_inv s \<Longrightarrow> login_inv (validated md5 err v s)"
  by (cases "validating s")
    (auto simp: login_inv_def waiting_def validated_def Let_def split: sum.splits if_splits)

lemma Login_settles: "settled (snd (Login S r mu))"
  by (cases mu) (simp add: Login_def split: sum.splits option.splits)

lemma login_replied_inv: "login_inv s \<Longrightarrow> login_inv (login_replied S r msg s)"
  using Login_settles [of S r "(lp_stored s, lp_user s)"]
  by (cases "logging_in s")
    (auto simp: login_inv_def waiting_def login_replied_def Let_def loginSuccess_def requestFailed_def
      split: prod.splits promise.splits if_splits)

lemma login_step_inv:
  assumes "login_inv s" "login_enabled s e"
  shows "login_inv (login_step md5 S s e)"
proof (cases e)
  case (Validated err v)
  then show ?thesis using assms by (simp add: validated_inv)
next
  case (Replied r msg)
  then show ?thesis using assms by (simp add: login_replied_inv)
qed (use assms in \<open>auto simp: login_inv_def waiting_def step_code_def handleTabClick_def handleSubmit_def
      cooled_def greeted_def split: if_splits\<close>)

lemma login_reachable_inv: "login_reachable md5 S s \<Longrightarrow> login_inv s"
  by (induction rule: login_reachable.induct)
    (simp_all add: login_inv_def waiting_def init_login_def login_step_inv [unfolded login_inv_def waiting_def])

text \<open>A submission from the tab of the text-message code asks for the md5 of a password that form does not
  have.\<close>

lemma mobile_params_throw:
  assumes "md5 None = Inl e"
  shows "loginParams md5 type (fields_values (validateFieldsKey ''tab2'') v) = Inl e"
  using assms by (simp add: loginParams_def fields_values_def validateFieldsKey_def prop_of_def Let_def)

lemma credential_params:
  assumes "md5 (v_password v) = Inr h"
  shows "\<exists>ps. loginParams md5 type (fields_values (validateFieldsKey ''tab1'') v) = Inr ps \<and>
    ps ''password'' = Some (Some h) \<and> ps (if type = 0 then ''email'' else ''username'') = Some (v_username v) \<and>
    dom ps = {if type = 0 then ''email'' else ''username'', ''password''}"
  using assms
  by (auto simp: loginParams_def fields_values_def validateFieldsKey_def prop_of_def Let_def split: if_splits)

section \<open>Properties\<close>

text \<open>The steps a submission goes through; each of its events brings it nearer to the end.\<close>

definition login_rank :: "'m login_page \<Rightarrow> nat" where
  "login_rank s = 2 * length (validating s) + length (logging_in s) + cooling s"

fun of_submission :: "login_event \<Rightarrow> bool" where
  "of_submission (Validated err v) = True"
| "of_submission Cooled = True"
| "of_submission (Replied r msg) = True"
| "of_submission _ = False"

lemma validated_rank: "validating s \<noteq> [] \<Longrightarrow> login_rank (validated md5 err v s) < login_rank s"
  by (cases "validating s") (auto simp: login_rank_def validated_def Let_def split: sum.splits)

lemma login_replied_rank: "logging_in s \<noteq> [] \<Longrightarrow> login_rank (login_replied S r msg s) < login_rank s"
  by (cases "logging_in s")
    (auto simp: login_rank_def login_replied_def Let_def loginSuccess_def requestFailed_def
      split: prod.splits promise.splits)

lemma login_rank_less:
  "login_enabled s e \<Longrightarrow> of_submission e \<Longrightarrow> login_rank (login_step md5 S s e) < login_rank s"
  by (cases e) (simp_all add: validated_rank login_replied_rank, simp add: login_rank_def cooled_def)

lemma login_rank_possible: "0 < login_rank s \<Longrightarrow> \<exists>e. login_enabled s e \<and> of_submission e"
proof -
  assume "0 < login_rank s"
  then consider "validating s \<noteq> []" | "logging_in s \<noteq> []" | "0 < cooling s" by (auto simp: login_rank_def)
  then show ?thesis
  proof cases
    case 1
    then show ?thesis by (intro exI [of _ "Validated True v" for v]) simp
  next
    case 2
    then show ?thesis by (intro exI [of _ "Replied r None" for r]) simp
  next
    case 3
    then show ?thesis by (intro exI [of _ Cooled]) simp
  qed
qed

interpretation submission: working_off login_enabled "login_step md5 S" login_inv of_submission login_rank
  for md5 S
  by unfold_locales (rule login_step_inv, assumption+, rule login_rank_less, assumption+, rule login_rank_possible)

lemma free_button:
  assumes "login_inv s"
  shows "(loginBtn s \<longleftrightarrow> 0 < login_rank s + stuck s) \<and> waiting s \<le> 1 \<and> \<not> stepCaptchaVisible s"
  using assms by (auto simp: login_inv_def waiting_def login_rank_def split: if_splits)

text \<open>C24: The submit button is disabled exactly while a submission is under way or lost to an exception,
  and then there is only one. A submission takes at most as many further events as its rank says;
  some such event can happen until it is over, and then the button is free again unless the submission was
  lost. The dialog of the two-step verification is never shown, whatever the server says about it.\<close>

theorem login_button:
  assumes "login_reachable md5 S s"
  shows "(loginBtn s \<longleftrightarrow> 0 < login_rank s + stuck s) \<and> waiting s \<le> 1 \<and> \<not> stepCaptchaVisible s \<and>
    (\<forall>es. enabled_run login_enabled (login_step md5 S) s es \<and> list_all of_submission es \<longrightarrow>
       length es \<le> login_rank s \<and>
       ((\<exists>e. login_enabled (foldl (login_step md5 S) s es) e \<and> of_submission e) \<or>
        loginBtn (foldl (login_step md5 S) s es) = (0 < stuck (foldl (login_step md5 S) s es))))"
proof -
  have i: "login_inv s" using login_reachable_inv [OF assms] .
  have "length es \<le> login_rank s" "(\<exists>e. login_enabled (foldl (login_step md5 S) s es) e \<and> of_submission e) \<or>
      loginBtn (foldl (login_step md5 S) s es) = (0 < stuck (foldl (login_step md5 S) s es))"
    if "enabled_run login_enabled (login_step md5 S) s es" "list_all of_submission es" for es
    using submission.run_bounded [OF i that] submission.run_ends [OF i that]
      free_button [OF submission.run_inv [OF i that(1)]] by auto
  with free_button [OF i] show ?thesis by (intro conjI allI impI) simp_all
qed

text \<open>An md5 for the witnesses, which only has to throw for \<open>undefined\<close>.\<close>

definition some_md5 :: "string option \<Rightarrow> js_error + string" where
  "some_md5 p = (case p of None \<Rightarrow> Inl (CodeError ''Illegal argument'') | Some s \<Rightarrow> Inr (CHR ''#'' # s))"

definition submitted :: "string \<Rightarrow> (string \<times> jsval) list login_page" where
  "submitted tab = handleSubmit (handleTabClick tab (init_login [] init_user))"

lemma submitted_reachable:
  assumes "tab = ''tab1'' \<or> tab = ''tab2''"
  shows "login_reachable some_md5 alist_storage (submitted tab)"
proof -
  have "login_reachable some_md5 alist_storage
      (login_step some_md5 alist_storage (init_login [] init_user) (TabClick tab))"
    using assms by (intro login_next login_start) simp
  then have "login_reachable some_md5 alist_storage (login_step some_md5 alist_storage
      (login_step some_md5 alist_storage (init_login [] init_user) (TabClick tab)) Submit)"
    by (rule login_next) (simp add: handleTabClick_def init_login_def)
  then show ?thesis by (simp add: submitted_def)
qed

lemma login_button_witness: "loginBtn (submitted ''tab1'')"
  using login_button [OF submitted_reachable [OF disjI1 [OF refl]]]
  by (simp add: submitted_def handleSubmit_def login_rank_def)

lemma stuck_step: "stuck s \<le> stuck (login_step md5 S s e)"
  by (cases e)
    (auto simp: step_code_def handleTabClick_def handleSubmit_def validated_def cooled_def greeted_def
      login_replied_def loginSuccess_def requestFailed_def stepCaptchaSuccess_def stepCaptchaCancel_def
      Let_def split: list.splits sum.splits prod.splits promise.splits)

text \<open>What can follow a state.\<close>

inductive login_follows ::
    "(string option \<Rightarrow> js_error + string) \<Rightarrow> 'm storage_ops \<Rightarrow> 'm login_page \<Rightarrow> 'm login_page \<Rightarrow> bool"
  for md5 S s where
  follows_now: "login_follows md5 S s s"
| follows_step: "login_follows md5 S s t \<Longrightarrow> login_enabled t e \<Longrightarrow> login_follows md5 S s (login_step md5 S t e)"

lemma lost_submission:
  assumes "login_follows md5 S s t" "login_inv s" "0 < stuck s"
  shows "login_inv t \<and> 0 < stuck t \<and> lp_user t = lp_user s"
  using assms
proof (induction rule: login_follows.induct)
  case (follows_step t e)
  then have i: "login_inv t" "0 < stuck t" "lp_user t = lp_user s" by blast+
  then have w: "waiting t \<le> 1" "waiting t \<noteq> 0" "\<not> stepCaptchaVisible t" "loginBtn t"
    by (auto simp: login_inv_def waiting_def split: if_splits)
  then have "length (validating t) = 0" "length (logging_in t) = 0" "cooling t = 0"
    using i(2) unfolding waiting_def by linarith+
  with w have none: "validating t = []" "logging_in t = []" "cooling t = 0" "loginBtn t" "\<not> stepCaptchaVisible t"
    by simp_all
  have "0 < stuck (login_step md5 S t e)" using stuck_step [of t md5 S e] i(2) by simp
  moreover have "lp_user (login_step md5 S t e) = lp_user t"
    using follows_step.hyps(2) none
    by (cases e) (simp_all add: step_code_def handleTabClick_def greeted_def)
  ultimately show ?case using login_step_inv [OF i(1) follows_step.hyps(2)] i(3) by simp
qed simp

text \<open>C25: Logging in with a text-message code is impossible: the form of that tab has no password, md5
  throws for a missing one, and so a valid submission never reaches the server; the button stays disabled and
  the account untouched however the session goes on.\<close>

theorem mobile_login_lost:
  assumes "md5 None = Inl e" "login_reachable md5 S s" "validating s = [''tab2'']"
    "login_follows md5 S (login_step md5 S s (Validated False v)) t"
  shows "loginBtn t \<and> logging_in t = [] \<and> lp_user t = lp_user s"
proof -
  let ?s = "login_step md5 S s (Validated False v)"
  have s: "?s = s\<lparr>validating := [], stuck := Suc (stuck s)\<rparr>"
    using assms(3) by (simp add: validated_def mobile_params_throw [of md5 e, OF assms(1)] Let_def)
  have "login_enabled s (Validated False v)" using assms(3) by simp
  then have "login_inv ?s" using login_step_inv login_reachable_inv [OF assms(2)] by blast
  with lost_submission [OF assms(4)] s have "login_inv t" "0 < stuck t" "lp_user t = lp_user s"
    by simp_all
  then have "waiting t \<le> 1" "loginBtn t" by (auto simp: login_inv_def waiting_def split: if_splits)
  moreover have "length (logging_in t) = 0"
    using \<open>waiting t \<le> 1\<close> \<open>0 < stuck t\<close> unfolding waiting_def by linarith
  ultimately show ?thesis using \<open>lp_user t = lp_user s\<close> by simp
qed

lemma mobile_login_lost_witness:
  "loginBtn (login_step some_md5 alist_storage (submitted ''tab2'')
     (Validated False \<lparr>v_username = None, v_password = None, v_mobile = Some ''13800000000'',
        v_captcha = Some ''1234''\<rparr>))"
  using mobile_login_lost [OF _ submitted_reachable [OF disjI2 [OF refl]] _ follows_now, of
      "CodeError ''Illegal argument''"]
  by (simp add: some_md5_def submitted_def handleSubmit_def handleTabClick_def init_login_def)

text \<open>A valid submission of the credentials has one request under way.\<close>

lemma credentials_validated:
  assumes "login_reachable md5 S s" "validating s = [''tab1'']" "md5 (v_password v) = Inr h" "v_username v = Some name"
  shows "\<exists>ps. login_step md5 S s (Validated False v) =
      (handleUsernameOrEmail (v_username v) (s\<lparr>validating := []\<rparr>))\<lparr>logging_in := [ps]\<rparr> \<and>
    ps ''password'' = Some (Some h) \<and>
    ps (if test email_regex name then ''email'' else ''username'') = Some (Some name) \<and>
    dom ps = {if test email_regex name then ''email'' else ''username'', ''password''}"
proof -
  have "waiting s \<le> 1"
    using login_reachable_inv [OF assms(1)] by (simp add: login_inv_def)
  then have "length (logging_in s) = 0" using assms(2) by (simp add: waiting_def)
  then have l: "logging_in s = []" by simp
  let ?s = "handleUsernameOrEmail (v_username v) (s\<lparr>validating := []\<rparr>)"
  obtain ps where ps: "loginParams md5 (loginType ?s) (fields_values (validateFieldsKey ''tab1'') v) = Inr ps"
    "ps ''password'' = Some (Some h)"
    "ps (if loginType ?s = 0 then ''email'' else ''username'') = Some (v_username v)"
    "dom ps = {if loginType ?s = 0 then ''email'' else ''username'', ''password''}"
    using credential_params [of md5 v h "loginType ?s", OF assms(3)] by blast
  have "loginType ?s = (if test email_regex name then 0 else 1)"
    using assms(4) by (simp add: handleUsernameOrEmail_def)
  moreover have "login_step md5 S s (Validated False v) = ?s\<lparr>logging_in := [ps]\<rparr>"
    using assms(2) l ps(1) by (simp add: validated_def Let_def)
  ultimately show ?thesis
    using ps assms(4) by (intro exI [of _ ps]) (simp split: if_splits)
qed

text \<open>C19: A valid submission of the credentials sends the hash of the password with the name as e-mail
  address or as user name, an e-mail address exactly when the pattern says so; a successful answer stores its
  token, leads to the root page and clears the error, a failed one leaves the account as it is and shows the
  error; either way the button is free again.\<close>

theorem credentials_login:
  assumes "login_reachable md5 S s" "validating s = [''tab1'']" "md5 (v_password v) = Inr h" "v_username v = Some name"
  defines "s1 \<equiv> login_step md5 S s (Validated False v)"
  shows "(\<exists>ps. logging_in s1 = [ps] \<and> ps ''password'' = Some (Some h) \<and>
       ps (if test email_regex name then ''email'' else ''username'') = Some (Some name) \<and> card (dom ps) = 2) \<and>
     (let s2 = login_step md5 S s1 (Replied response msg) in
       (case response of
          Inr (Some result) \<Rightarrow>
            us_token (lp_user s2) = lr_token result \<and>
            lp_stored s2 = s_set S (lp_stored s) ACCESS_TOKEN (lr_token result) (Some token_ttl) \<and>
            routed s2 = routed s @ [''/''] \<and> \<not> isLoginError s2
        | _ \<Rightarrow> lp_user s2 = lp_user s \<and> lp_stored s2 = lp_stored s \<and> isLoginError s2) \<and>
       \<not> loginBtn s2)"
proof -
  obtain ps where ps: "s1 = (handleUsernameOrEmail (v_username v) (s\<lparr>validating := []\<rparr>))\<lparr>logging_in := [ps]\<rparr>"
    "ps ''password'' = Some (Some h)"
    "ps (if test email_regex name then ''email'' else ''username'') = Some (Some name)"
    "dom ps = {if test email_regex name then ''email'' else ''username'', ''password''}"
    using credentials_validated [OF assms(1-4)] unfolding s1_def by blast
  have "card (dom ps) = 2" unfolding ps(4) by simp
  moreover have "routed (handleUsernameOrEmail (v_username v) (s\<lparr>validating := []\<rparr>)) = routed s"
    by (simp add: handleUsernameOrEmail_def)
  ultimately show ?thesis
    using ps(2,3)
    by (simp add: ps(1) login_replied_def Login_def loginSuccess_def requestFailed_def SET_TOKEN_def Let_def
        split: sum.splits option.splits)
qed

lemma credentials_login_witness:
  "us_token (lp_user (login_step some_md5 alist_storage
     (login_step some_md5 alist_storage (submitted ''tab1'')
       (Validated False \<lparr>v_username = Some ''admin'', v_password = Some ''ant.design'', v_mobile = None, v_captcha = None\<rparr>))
     (Replied (Inr (Some \<lparr>lr_token = JStr ''t''\<rparr>)) None))) = JStr ''t''"
proof -
  have "validating (submitted ''tab1'') = [''tab1'']"
    by (simp add: submitted_def handleSubmit_def handleTabClick_def init_login_def)
  from credentials_login [OF submitted_reachable [OF disjI1 [OF refl]] this, where name = "''admin''"
      and v = "\<lparr>v_username = Some ''admin'', v_password = Some ''ant.design'', v_mobile = None, v_captcha = None\<rparr>"
      and h = "''#ant.design''" and response = "Inr (Some \<lparr>lr_token = JStr ''t''\<rparr>)" and msg = None]
  show ?thesis by (simp add: some_md5_def Let_def)
qed

text \<open>What the pattern takes for an e-mail address: dots before the at sign and top-level domains of more
  than three letters are not matched, and such an address is sent as a user name.\<close>

lemma email_examples:
  "test email_regex ''ann@example.com''" "\<not> test email_regex ''ann.lee@example.com''"
  "\<not> test email_regex ''ann@example.info''"
  by (simp_all add: email_regex_def plus1_def between_def lit_def opt_def name_class_def digit_class_def
      numeral_2_eq_2 numeral_3_eq_3)

section \<open>The dialog of the two-step verification\<close>

record two_step =
  ts_visible :: bool
  stepLoading :: bool
  ts_timers :: nat
  emitted :: "string list"

definition init_two_step :: "bool \<Rightarrow> two_step" where
  "init_two_step v = \<lparr>ts_visible = v, stepLoading = False, ts_timers = 0, emitted = []\<rparr>"

text \<open>With what the validation calls back; success is reported two seconds later.\<close>

definition handleStepOk :: "bool \<Rightarrow> two_step \<Rightarrow> two_step" where
  "handleStepOk err t =
     (let t = t\<lparr>stepLoading := True\<rparr> in
      if \<not> err then t\<lparr>ts_timers := Suc (ts_timers t)\<rparr>
      else t\<lparr>stepLoading := False, emitted := emitted t @ [''error'']\<rparr>)"

definition step_timer :: "two_step \<Rightarrow> two_step" where
  "step_timer t = (if ts_timers t = 0 then t
     else t\<lparr>ts_timers := ts_timers t - 1, stepLoading := False, emitted := emitted t @ [''success'']\<rparr>)"

definition handleCancel :: "two_step \<Rightarrow> two_step" where
  "handleCancel t = t\<lparr>ts_visible := False, emitted := emitted t @ [''cancel'']\<rparr>"

text \<open>A cancelled verification still succeeds when its timer runs.\<close>

lemma cancelled_succeeds:
  "emitted (step_timer (handleCancel (handleStepOk False (init_two_step True)))) = [''cancel'', ''success'']"
  by (simp add: step_timer_def handleCancel_def handleStepOk_def init_two_step_def)

end
