(* ===== verification/RegisterForm.thy ===== *)
theory RegisterForm
  imports Util LoginForm
begin

text \<open>
  The registration page, \<open>views/user/Register.vue\<close>: its fields and rules, the validators of the password
  fields with what they call back, the strength shown beside the password, and the submit handler. The
  text-message code works as on the login page (theory \<open>Captcha\<close>). Passwords are lists of code units.
\<close>

section \<open>Fields\<close>

text \<open>\<open>/^1[3456789]\d{9}$/\<close>\<close>

definition register_mobile_regex :: regex where
  "register_mobile_regex =
     Seq (lit CHR ''1'') (Seq (Class (\<lambda>c. c \<in> set ''3456789'')) (repeat_n (Class digit_class) 9))"

definition register_fields :: "form_field list" where
  "register_fields =
     [\<lparr>ff_name = ''email'', ff_rules = [RequiredRule ''user.email.required'', TypeRule ''email'' ''user.email.required''],
       ff_triggers = [''change'', ''blur'']\<rparr>,
      \<lparr>ff_name = ''password'', ff_rules = [RequiredRule ''user.password.required'', ValidatorRule ''handlePasswordLevel''],
       ff_triggers = [''change'', ''blur'']\<rparr>,
      \<lparr>ff_name = ''password2'', ff_rules = [RequiredRule ''user.password.required'', ValidatorRule ''handlePasswordCheck''],
       ff_triggers = [''change'', ''blur'']\<rparr>,
      \<lparr>ff_name = ''mobile'',
       ff_rules = [RequiredRule ''user.phone-number.required'',
         PatternRule register_mobile_regex ''user.phone-number.required'', ValidatorRule ''handlePhoneCheck''],
       ff_triggers = [''change'', ''blur'']\<rparr>,
      \<lparr>ff_name = ''captcha'', ff_rules = [RequiredRule (utf8 [0x8BF7, 0x8F93, 0x5165, 0x9A8C, 0x8BC1, 0x7801])],
       ff_triggers = [''blur'']\<rparr>]"

lemma register_mobile_language:
  "test register_mobile_regex w \<longleftrightarrow>
     (\<exists>c v. w = CHR ''1'' # c # v \<and> c \<in> set ''3456789'' \<and> length v = 9 \<and> list_all digit_class v)"
  unfolding test_iff register_mobile_regex_def seq_lit language_seq_class language_repeat_n by metis

text \<open>Every telephone number with which the login page asks for a code can be registered, but numbers
  that begin with 16 or 19 can be registered and are then refused by the login page.\<close>

lemma mobile_patterns:
  "test login_mobile_regex w \<Longrightarrow> test register_mobile_regex w"
  unfolding login_mobile_language register_mobile_language by auto

lemma mobile_refused:
  "test register_mobile_regex ''16600000000'' \<and> \<not> test login_mobile_regex ''16600000000''"
  by (simp add: login_mobile_regex_def register_mobile_regex_def lit_def eval_nat_numeral digit_class_def)

section \<open>State\<close>

definition levelNames :: "nat \<Rightarrow> string option" where
  "levelNames = map_of
     [(0, ''user.password.strength.short''), (1, ''user.password.strength.low''),
      (2, ''user.password.strength.medium''), (3, ''user.password.strength.strong'')]"

definition levelClass :: "nat \<Rightarrow> string option" where
  "levelClass = map_of [(0, ''error''), (1, ''error''), (2, ''warning''), (3, ''success'')]"

definition levelColor :: "nat \<Rightarrow> string option" where
  "levelColor = map_of [(0, ''#ff0000''), (1, ''#ff0000''), (2, ''#ff7e05''), (3, ''#52c41a'')]"

record register_page =
  level :: nat
  passwordLevel :: nat
  passwordLevelChecked :: bool
  percent :: nat
  registerBtn :: bool
  registered :: "string list list"

definition init_register :: register_page where
  "init_register = \<lparr>level = 0, passwordLevel = 0, passwordLevelChecked = False, percent = 10,
     registerBtn = False, registered = []\<rparr>"

section \<open>Validators\<close>

text \<open>What a validator passes to its callback, call by call: nothing, or an error.\<close>

type_synonym callbacks = "string option list"

definition handlePasswordLevel ::
    "code_units option \<Rightarrow> register_page \<Rightarrow> js_error + callbacks \<times> register_page" where
  "handlePasswordLevel val s =
     (case val of
        None \<Rightarrow> Inl TypeError
      | Some v \<Rightarrow>
          if v = [] then Inr ([None], s)
          else (let (cs, s) =
                  (if 6 \<le> length v
                   then (let s = (if 30 \<le> scorePassword (Some v) then s\<lparr>level := 1\<rparr> else s);
                             s = (if 60 \<le> scorePassword (Some v) then s\<lparr>level := 2\<rparr> else s);
                             s = (if 80 \<le> scorePassword (Some v) then s\<lparr>level := 3\<rparr> else s)
                         in ([], s))
                   else ([Some ''user.password.strength.msg''], s\<lparr>level := 0\<rparr>));
                  s = s\<lparr>passwordLevel := level s, percent := level s * 33\<rparr>
                in Inr (cs @ [None], s)))"

text \<open>The characters \<open>trim\<close> takes off.\<close>

definition is_blank :: "16 word \<Rightarrow> bool" where
  "is_blank c \<longleftrightarrow>
     unat c \<in> set [9, 10, 11, 12, 13, 32, 0xA0, 0x1680, 0x2028, 0x2029, 0x202F, 0x205F, 0x3000, 0xFEFF] \<or>
     0x2000 \<le> unat c \<and> unat c \<le> 0x200A"

definition trim :: "code_units \<Rightarrow> code_units" where
  "trim s = rev (dropWhile is_blank (rev (dropWhile is_blank s)))"

definition handlePasswordCheck :: "code_units option \<Rightarrow> code_units option \<Rightarrow> callbacks" where
  "handlePasswordCheck password val =
     (if val = None then [Some ''user.password.required''] else []) @
     (case (val, password) of
        (Some v, Some p) \<Rightarrow>
          if v \<noteq> [] \<and> p \<noteq> [] \<and> trim v \<noteq> trim p then [Some ''user.password.twice.msg''] else []
      | _ \<Rightarrow> []) @ [None]"

definition handlePhoneCheck :: "string option \<Rightarrow> callbacks" where
  "handlePhoneCheck val = [None]"

definition handlePasswordInputClick :: "bool \<Rightarrow> register_page \<Rightarrow> register_page" where
  "handlePasswordInputClick mobile s =
     (if \<not> mobile then s\<lparr>passwordLevelChecked := True\<rparr> else s\<lparr>passwordLevelChecked := False\<rparr>)"

definition register_handleSubmit :: "bool \<Rightarrow> string list \<Rightarrow> register_page \<Rightarrow> register_page" where
  "register_handleSubmit err values s =
     (if \<not> err then s\<lparr>passwordLevelChecked := False, registered := registered s @ [values]\<rparr> else s)"

definition register_requestFailed :: "register_page \<Rightarrow> register_page" where
  "register_requestFailed s = s\<lparr>registerBtn := False\<rparr>"

lemma handlePasswordCheck_passes:
  "handlePasswordCheck password val = [None] \<longleftrightarrow>
     (\<exists>v. val = Some v \<and> (v = [] \<or> password = None \<or> password = Some [] \<or> trim v = trim (the password)))"
  by (cases val; cases password) (auto simp: handlePasswordCheck_def)

section \<open>The strength shown\<close>

datatype register_event =
    Password "code_units option"
  | PasswordClick bool
  | RegisterSubmit bool "string list"
  | RegisterFailed

text \<open>A validator that throws leaves the state alone.\<close>

fun register_step :: "register_page \<Rightarrow> register_event \<Rightarrow> register_page" where
  "register_step s (Password val) = (case handlePasswordLevel val s of Inl e \<Rightarrow> s | Inr (cs, s') \<Rightarrow> s')"
| "register_step s (PasswordClick mobile) = handlePasswordInputClick mobile s"
| "register_step s (RegisterSubmit err values) = register_handleSubmit err values s"
| "register_step s RegisterFailed = register_requestFailed s"

definition register_run :: "register_event list \<Rightarrow> register_page" where
  "register_run es = foldl register_step init_register es"

text \<open>The level a password changes the shown one to, if it does.\<close>

definition own_level :: "code_units \<Rightarrow> nat option" where
  "own_level v =
     (if v = [] then None
      else if length v < 6 then Some 0
      else if 80 \<le> scorePassword (Some v) then Some 3
      else if 60 \<le> scorePassword (Some v) then Some 2
      else if 30 \<le> scorePassword (Some v) then Some 1
      else None)"

lemma handlePasswordLevel_level:
  assumes "v \<noteq> []"
  shows "\<exists>cs s'. handlePasswordLevel (Some v) s = Inr (cs, s') \<and>
    level s' = (case own_level v of None \<Rightarrow> level s | Some l \<Rightarrow> l) \<and>
    passwordLevel s' = level s' \<and> percent s' = 33 * level s'"
  using assms by (auto simp: handlePasswordLevel_def own_level_def Let_def)

lemma own_level_le: "own_level v = Some l \<Longrightarrow> l \<le> 3"
  by (auto simp: own_level_def split: if_splits)

lemma register_step_level:
  "(level (register_step s e), passwordLevel (register_step s e)) =
     (case e of
        Password (Some v) \<Rightarrow>
          if v = [] then (level s, passwordLevel s)
          else let l = (case own_level v of None \<Rightarrow> level s | Some l \<Rightarrow> l) in (l, l)
      | _ \<Rightarrow> (level s, passwordLevel s))"
proof (cases e)
  case (Password val)
  show ?thesis
  proof (cases val)
    case None
    then show ?thesis using Password by (simp add: handlePasswordLevel_def)
  next
    case (Some v)
    show ?thesis
    proof (cases "v = []")
      case False
      from handlePasswordLevel_level [OF this, of s] obtain cs s' where
        "handlePasswordLevel (Some v) s = Inr (cs, s')"
        "level s' = (case own_level v of None \<Rightarrow> level s | Some l \<Rightarrow> l)" "passwordLevel s' = level s'"
        by blast
      then show ?thesis using Password Some False by (simp add: Let_def)
    qed (simp add: Password Some handlePasswordLevel_def)
  qed
qed (simp_all add: handlePasswordInputClick_def register_handleSubmit_def register_requestFailed_def)

lemma register_run_level:
  "passwordLevel (register_run es) = level (register_run es) \<and> level (register_run es) \<le> 3"
proof (induction es rule: rev_induct)
  case Nil
  then show ?case by (simp add: register_run_def init_register_def)
next
  case (snoc e es)
  have "register_run (es @ [e]) = register_step (register_run es) e" by (simp add: register_run_def)
  then show ?case
    using snoc register_step_level [of "register_run es" e] own_level_le
    by (auto simp: Let_def split: register_event.splits option.splits if_splits)
qed

text \<open>C36: The computed properties of the page are defined in every state it can get into: the level is one
  that has a name, a class and a colour.\<close>

theorem strength_labels_defined:
  "levelNames (passwordLevel (register_run es)) \<noteq> None \<and>
   levelClass (passwordLevel (register_run es)) \<noteq> None \<and>
   levelColor (passwordLevel (register_run es)) \<noteq> None"
proof -
  have "passwordLevel (register_run es) \<le> 3" using register_run_level by metis
  then have "passwordLevel (register_run es) \<in> {0, 1, 2, 3}" by auto
  then show ?thesis by (auto simp: levelNames_def levelClass_def levelColor_def)
qed

text \<open>The level shown after a run is that of the last password that had one of its own.\<close>

fun last_level :: "register_event list \<Rightarrow> nat \<Rightarrow> nat" where
  "last_level [] l = l"
| "last_level (Password (Some v) # es) l = last_level es (case own_level v of None \<Rightarrow> l | Some k \<Rightarrow> k)"
| "last_level (_ # es) l = last_level es l"

lemma last_level_append: "last_level (es @ es') l = last_level es' (last_level es l)"
  by (induction es l rule: last_level.induct) auto

lemma level_is_last_own: "level (register_run es) = last_level es 0"
proof (induction es rule: rev_induct)
  case Nil
  then show ?case by (simp add: register_run_def init_register_def)
next
  case (snoc e es)
  have "register_run (es @ [e]) = register_step (register_run es) e" by (simp add: register_run_def)
  then show ?case
    using snoc register_step_level [of "register_run es" e]
    by (auto simp: last_level_append Let_def own_level_def split: register_event.splits option.splits if_splits)
qed

text \<open>The strength shown is that of the last password that has one of its own. A password of at least
  six characters with a score below 30 has none, so that it is shown with the strength of the one typed
  before.\<close>

theorem strength_is_last_own: "passwordLevel (register_run es) = last_level es 0"
  using register_run_level level_is_last_own by metis

lemma weak_shown_strong:
  "passwordLevel (register_run [Password (Some [65, 98, 99, 100, 101, 102, 103, 104, 49, 33]),
     Password (Some (replicate 6 97))]) = 3"
proof -
  have "scorePassword (Some (replicate 6 97)) = 12"
    "scorePassword (Some [65, 98, 99, 100, 101, 102, 103, 104, 49, 33]) = 80" by code_simp+
  then have "own_level (replicate 6 97) = None"
    "own_level [65, 98, 99, 100, 101, 102, 103, 104, 49, 33] = Some 3"
    by (simp_all add: own_level_def)
  then show ?thesis
    unfolding conjunct1 [OF register_run_level] level_is_last_own by simp
qed

text \<open>A field that was never touched has no value, and the length of that is asked for.\<close>

lemma untouched_password_throws: "handlePasswordLevel None s = Inl TypeError"
  by (simp add: handlePasswordLevel_def)

text \<open>A short password calls back twice, with the error and without one.\<close>

lemma short_password_callbacks:
  assumes "v \<noteq> []" "length v < 6"
  shows "\<exists>s'. handlePasswordLevel (Some v) s = Inr ([Some ''user.password.strength.msg'', None], s')"
  using assms by (simp add: handlePasswordLevel_def)

end
