(* ===== verification/EditTable.thy ===== *)
theory EditTable
  imports Numbers "HOL-Library.AList"
begin

text \<open>
  The member table of \<open>views/form/advancedForm/AdvancedForm.vue\<close>, whose rows are edited in place, with
  the validation of the whole page, and the in-place editing of \<open>views/other/TableInnerEditList.vue\<close>.
  Rows are JavaScript objects: association lists in the order their properties were added, because
  \<open>cancel\<close> walks the properties in this order.
\<close>

section \<open>Objects\<close>

datatype prop_value = Undef | Flag bool | Text string | Obj "(string \<times> prop_value) list"

type_synonym obj = "(string \<times> prop_value) list"

definition get_prop :: "obj \<Rightarrow> string \<Rightarrow> prop_value" where
  "get_prop o1 k = (case map_of o1 k of None \<Rightarrow> Undef | Some v \<Rightarrow> v)"

text \<open>Setting a property keeps its place, or adds it at the end.\<close>

definition set_prop :: "string \<Rightarrow> prop_value \<Rightarrow> obj \<Rightarrow> obj" where
  "set_prop k v o1 = AList.update k v o1"

fun truthy_prop :: "prop_value \<Rightarrow> bool" where
  "truthy_prop Undef = False"
| "truthy_prop (Flag b) = b"
| "truthy_prop (Text s) = (s \<noteq> [])"
| "truthy_prop (Obj p) = True"

lemma get_set_prop [simp]: "get_prop (set_prop k v o1) k' = (if k' = k then v else get_prop o1 k')"
  by (simp add: get_prop_def set_prop_def update_conv')

lemma keys_set_prop: "map fst (set_prop k v o1) = (if k \<in> set (map fst o1) then map fst o1 else map fst o1 @ [k])"
  by (simp add: set_prop_def update_keys)

section \<open>Editing a row\<close>

text \<open>\<open>toggle\<close>, the end of \<open>saveRow\<close>, \<open>handleChange\<close> and \<open>cancel\<close> on their target.\<close>

definition toggle_row :: "obj \<Rightarrow> obj" where
  "toggle_row target =
     (let target = set_prop ''_originalData'' (Obj target) target in
      set_prop ''editable'' (Flag (\<not> truthy_prop (get_prop target ''editable''))) target)"

definition saved_row :: "obj \<Rightarrow> obj" where
  "saved_row target = set_prop ''isNew'' (Flag False) (set_prop ''editable'' (Flag False) target)"

definition change_row :: "string \<Rightarrow> prop_value \<Rightarrow> obj \<Rightarrow> obj" where
  "change_row column val target = set_prop column val target"

text \<open>The loop of \<open>cancel\<close>: each property is copied from what \<open>_originalData\<close> holds by then.
  Reading a property of \<open>undefined\<close> throws and leaves the copies made so far.\<close>

fun restore :: "string list \<Rightarrow> obj \<Rightarrow> js_error option \<times> obj" where
  "restore [] target = (None, target)"
| "restore (k # ks) target =
     (case get_prop target ''_originalData'' of
        Undef \<Rightarrow> (Some TypeError, target)
      | Obj orig \<Rightarrow> restore ks (set_prop k (get_prop orig k) target)
      | _ \<Rightarrow> restore ks (set_prop k Undef target))"

definition cancel_row :: "obj \<Rightarrow> js_error option \<times> obj" where
  "cancel_row target =
     (case restore (map fst target) target of
        (Some e, target) \<Rightarrow> (Some e, target)
      | (None, target) \<Rightarrow> (None, set_prop ''_originalData'' Undef target))"

section \<open>The table\<close>

record member_form =
  members :: "obj list"
  memberLoading :: bool
  saving :: "prop_value list"
  form_errors :: "(string \<times> string \<times> string option) list"
  complaints :: nat
  received :: nat

definition initial_members :: "obj list" where
  "initial_members =
     [[(''key'', Text ''1''), (''name'', Text (utf8 [0x5C0F, 0x660E])), (''workId'', Text ''001''),
       (''editable'', Flag False), (''department'', Text (utf8 [0x884C, 0x653F, 0x90E8]))],
      [(''key'', Text ''2''), (''name'', Text (utf8 [0x674E, 0x8389])), (''workId'', Text ''002''),
       (''editable'', Flag False), (''department'', Text (''IT'' @ utf8 [0x90E8]))],
      [(''key'', Text ''3''), (''name'', Text (utf8 [0x738B, 0x5C0F, 0x5E05])), (''workId'', Text ''003''),
       (''editable'', Flag False), (''department'', Text (utf8 [0x8D22, 0x52A1, 0x90E8]))]]"

definition init_members :: member_form where
  "init_members = \<lparr>members = initial_members, memberLoading = False, saving = [], form_errors = [],
     complaints = 0, received = 0\<rparr>"

text \<open>The decimal text of a number that \<open>parseInt\<close> read.\<close>

definition key_text :: "int option \<Rightarrow> string" where
  "key_text n = (case n of None \<Rightarrow> ''NaN'' | Some i \<Rightarrow> if i < 0 then CHR ''-'' # decimal (nat (- i)) else decimal (nat i))"

definition text_of :: "prop_value \<Rightarrow> string" where
  "text_of v = (case v of Text s \<Rightarrow> s | Undef \<Rightarrow> ''undefined'' | Flag b \<Rightarrow> (if b then ''true'' else ''false'')
     | Obj p \<Rightarrow> ''[object Object]'')"

definition newMember :: "member_form \<Rightarrow> member_form" where
  "newMember f =
     (let key = (if members f = [] then ''1''
                 else key_text (map_option (\<lambda>n. n + 1) (parseInt (text_of (get_prop (last (members f)) ''key''))))) in
      f\<lparr>members := members f @
        [[(''key'', Text key), (''name'', Text []), (''workId'', Text []), (''department'', Text []),
          (''editable'', Flag True), (''isNew'', Flag True)]]\<rparr>)"

definition remove_member :: "prop_value \<Rightarrow> member_form \<Rightarrow> member_form" where
  "remove_member key f = f\<lparr>members := filter (\<lambda>item. get_prop item ''key'' \<noteq> key) (members f)\<rparr>"

text \<open>\<open>data.find(item => item.key === key)\<close> and a change of what it finds.\<close>

definition find_member :: "prop_value \<Rightarrow> obj list \<Rightarrow> obj option" where
  "find_member key rows = find (\<lambda>item. get_prop item ''key'' = key) rows"

fun update_member :: "prop_value \<Rightarrow> (obj \<Rightarrow> obj) \<Rightarrow> obj list \<Rightarrow> obj list" where
  "update_member key f [] = []"
| "update_member key f (r # rs) =
     (if get_prop r ''key'' = key then f r # rs else r # update_member key f rs)"

definition saveRow :: "obj \<Rightarrow> member_form \<Rightarrow> member_form" where
  "saveRow record f =
     (let f = f\<lparr>memberLoading := True\<rparr> in
      if \<not> truthy_prop (get_prop record ''name'') \<or> \<not> truthy_prop (get_prop record ''workId'') \<or>
         \<not> truthy_prop (get_prop record ''department'')
      then f\<lparr>memberLoading := False, complaints := Suc (complaints f)\<rparr>
      else f\<lparr>saving := saving f @ [get_prop record ''key'']\<rparr>)"

text \<open>The simulated request of 800 ms is done.\<close>

definition row_saved :: "prop_value \<Rightarrow> member_form \<Rightarrow> js_error option \<times> member_form" where
  "row_saved key f =
     (let f = f\<lparr>saving := remove1 key (saving f)\<rparr> in
      case find_member key (members f) of
        None \<Rightarrow> (Some TypeError, f)
      | Some target \<Rightarrow> (None, f\<lparr>members := update_member key saved_row (members f), memberLoading := False\<rparr>))"

definition toggle :: "prop_value \<Rightarrow> member_form \<Rightarrow> js_error option \<times> member_form" where
  "toggle key f =
     (case find_member key (members f) of
        None \<Rightarrow> (Some TypeError, f)
      | Some target \<Rightarrow> (None, f\<lparr>members := update_member key toggle_row (members f)\<rparr>))"

definition getRowByKey :: "prop_value \<Rightarrow> obj list option \<Rightarrow> member_form \<Rightarrow> obj option" where
  "getRowByKey key newData f = find_member key (case newData of None \<Rightarrow> members f | Some d \<Rightarrow> d)"

definition cancel :: "prop_value \<Rightarrow> member_form \<Rightarrow> js_error option \<times> member_form" where
  "cancel key f =
     (case find_member key (members f) of
        None \<Rightarrow> (Some TypeError, f)
      | Some target \<Rightarrow>
          (fst (cancel_row target), f\<lparr>members := update_member key (snd \<circ> cancel_row) (members f)\<rparr>))"

definition handleChange :: "prop_value \<Rightarrow> prop_value \<Rightarrow> string \<Rightarrow> member_form \<Rightarrow> member_form" where
  "handleChange val key column f =
     (case find_member key (members f) of
        None \<Rightarrow> f
      | Some target \<Rightarrow> f\<lparr>members := update_member key (change_row column val) (members f)\<rparr>)"

section \<open>The validation of the page\<close>

definition fieldLabels :: "(string \<times> string) list" where
  "fieldLabels =
     [(''name'', utf8 [0x4ED3, 0x5E93, 0x540D]),
      (''url'', utf8 [0x4ED3, 0x5E93, 0x57DF, 0x540D]),
      (''owner'', utf8 [0x4ED3, 0x5E93, 0x7BA1, 0x7406, 0x5458]),
      (''approver'', utf8 [0x5BA1, 0x6279, 0x4EBA]),
      (''dateRange'', utf8 [0x751F, 0x6548, 0x65E5, 0x671F]),
      (''type'', utf8 [0x4ED3, 0x5E93, 0x7C7B, 0x578B]),
      (''name2'', utf8 [0x4EFB, 0x52A1, 0x540D]),
      (''url2'', utf8 [0x4EFB, 0x52A1, 0x63CF, 0x8FF0]),
      (''owner2'', utf8 [0x6267, 0x884C, 0x4EBA]),
      (''approver2'', utf8 [0x8D23, 0x4EFB, 0x4EBA]),
      (''dateRange2'', utf8 [0x751F, 0x6548, 0x65E5, 0x671F]),
      (''type2'', utf8 [0x4EFB, 0x52A1, 0x7C7B, 0x578B])]"

text \<open>The fields the two forms decorate.\<close>

definition repository_fields :: "string list" where
  "repository_fields = [''name'', ''url'', ''owner'', ''approver'', ''dateRange'', ''type'']"

definition task_fields :: "string list" where
  "task_fields = [''name2'', ''url2'', ''owner2'', ''approver2'', ''dateRange2'', ''type2'']"

text \<open>The form library's errors of a form: for each field its messages, if it has any.\<close>

type_synonym field_errors = "(string \<times> string list option) list"

definition errorList :: "field_errors \<Rightarrow> (string \<times> string \<times> string option) list" where
  "errorList errors =
     map (\<lambda>(key, ms). (key, hd (the ms), map_of fieldLabels key)) (filter (\<lambda>(key, ms). ms \<noteq> None) errors)"

text \<open>Both forms are validated; the values are shown when both accept, else the errors of both are
  collected. The errors of the second form override those of the first.\<close>

definition validate :: "bool \<Rightarrow> bool \<Rightarrow> field_errors \<Rightarrow> field_errors \<Rightarrow> member_form \<Rightarrow> member_form" where
  "validate repository_ok task_ok repository_errors task_errors f =
     (let f = f\<lparr>form_errors := []\<rparr> in
      if repository_ok \<and> task_ok then f\<lparr>received := Suc (received f)\<rparr>
      else f\<lparr>form_errors := errorList (AList.updates (map fst task_errors) (map snd task_errors) repository_errors)\<rparr>)"

text \<open>The repository form's own check of the domain: a value that is not accepted calls back twice.\<close>

definition validate_url :: "string option \<Rightarrow> string option list" where
  "validate_url val =
     (let v = (case val of None \<Rightarrow> ''undefined'' | Some v \<Rightarrow> v) in
      (if \<not> (prefix ''user-'' v \<and> list_all (\<lambda>c. c \<noteq> CHR 0x0A \<and> c \<noteq> CHR 0x0D) (drop 5 v) \<and>
          \<not> sublist (utf8 [0x2028]) v \<and> \<not> sublist (utf8 [0x2029]) v)
       then [Some (utf8 [0x9700, 0x8981, 0x4EE5] @ '' user- '' @ utf8 [0x5F00, 0x5934])] else []) @ [None])"

section \<open>In-place editing without a copy\<close>

definition inner_handleChange :: "prop_value \<Rightarrow> string \<Rightarrow> obj \<Rightarrow> obj" where
  "inner_handleChange val dataIndex record = set_prop dataIndex val record"

definition inner_edit :: "obj \<Rightarrow> obj" where "inner_edit row = set_prop ''editable'' (Flag True) row"
definition inner_save :: "obj \<Rightarrow> obj" where "inner_save row = set_prop ''editable'' (Flag False) row"
definition inner_cancel :: "obj \<Rightarrow> obj" where "inner_cancel row = set_prop ''editable'' (Flag False) row"

section \<open>Cancelling restores the row\<close>

lemma obj_eqI:
  assumes "map fst a = map fst b" "distinct (map fst a)" "\<And>k. k \<in> set (map fst a) \<Longrightarrow> get_prop a k = get_prop b k"
  shows "a = b"
  using assms
proof (induction a arbitrary: b)
  case (Cons x a)
  then obtain y b' where b: "b = y # b'" "fst y = fst x" "map fst a = map fst b'" by (cases b) auto
  have "get_prop (x # a) (fst x) = get_prop b (fst x)" using Cons.prems(3) by simp
  then have "x = y" using b by (auto simp: get_prop_def prod_eq_iff)
  moreover have "a = b'"
  proof (rule Cons.IH)
    show "get_prop a k = get_prop b' k" if "k \<in> set (map fst a)" for k
    proof -
      have "fst x \<notin> set (map fst a)" using Cons.prems(2) unfolding list.map distinct.simps by (rule conjunct1)
      then have "k \<noteq> fst x" using that by blast
      then show ?thesis using Cons.prems(3) [of k] that b by (simp add: get_prop_def split_beta)
    qed
  qed (use Cons.prems b in auto)
  ultimately show ?case using b by simp
qed simp

text \<open>The properties before \<open>_originalData\<close> get their values of the copy.\<close>

lemma restore_before:
  assumes "get_prop t ''_originalData'' = Obj orig" "''_originalData'' \<notin> set ks"
  shows "\<exists>t'. restore (ks @ ks') t = restore ks' t' \<and>
    (\<forall>k. get_prop t' k = (if k \<in> set ks then get_prop orig k else get_prop t k)) \<and>
    (set ks \<subseteq> set (map fst t) \<longrightarrow> map fst t' = map fst t)"
  using assms
proof (induction ks arbitrary: t)
  case (Cons k ks)
  let ?t = "set_prop k (get_prop orig k) t"
  have "get_prop ?t ''_originalData'' = Obj orig" using Cons.prems by simp
  from Cons.IH [OF this] Cons.prems(2) obtain t' where t': "restore (ks @ ks') ?t = restore ks' t'"
    "\<forall>x. get_prop t' x = (if x \<in> set ks then get_prop orig x else get_prop ?t x)"
    "set ks \<subseteq> set (map fst ?t) \<longrightarrow> map fst t' = map fst ?t"
    by auto
  have "map fst t' = map fst t" if "set (k # ks) \<subseteq> set (map fst t)"
    using t'(3) that by (simp add: keys_set_prop)
  with t' Cons.prems(1) show ?case by (intro exI [of _ t']) auto
qed auto

lemma keys_changes:
  "fst ` set es \<subseteq> set (map fst t) \<Longrightarrow> map fst (fold (\<lambda>(c, v). change_row c v) es t) = map fst t"
proof (induction es arbitrary: t)
  case (Cons e es)
  obtain c v where e: "e = (c, v)" by (cases e)
  then have *: "map fst (change_row c v t) = map fst t" using Cons.prems by (simp add: change_row_def keys_set_prop)
  then have "fst ` set es \<subseteq> set (map fst (change_row c v t))" using Cons.prems by (metis image_subset_iff list.set_intros(2))
  from Cons.IH [OF this] e * show ?case by simp
qed simp

lemma get_prop_changes:
  "k \<notin> fst ` set es \<Longrightarrow> get_prop (fold (\<lambda>(c, v). change_row c v) es t) k = get_prop t k"
  by (induction es arbitrary: t) (auto simp: change_row_def)

text \<open>The names of a row's properties other than the copy, which the copy follows.\<close>

definition own_keys :: "obj \<Rightarrow> string list" where
  "own_keys r = filter (\<lambda>k. k \<noteq> ''_originalData'') (map fst r)"

lemma own_keys_last:
  assumes "''_originalData'' \<notin> set (map fst (butlast r))"
  shows "map fst r = own_keys r \<or> map fst r = own_keys r @ [''_originalData'']"
proof (cases r rule: rev_cases)
  case (snoc r' x)
  then have "own_keys r' = map fst r'" using assms by (auto simp: own_keys_def intro!: filter_True)
  then show ?thesis using snoc by (simp add: own_keys_def)
qed (simp add: own_keys_def)

lemma keys_toggle:
  assumes "''_originalData'' \<notin> set (map fst (butlast r))" "''editable'' \<in> set (map fst r)"
  shows "map fst (toggle_row r) = own_keys r @ [''_originalData'']"
proof -
  have o: "''_originalData'' \<notin> set (own_keys r)" by (simp add: own_keys_def)
  have "map fst (set_prop ''_originalData'' (Obj r) r) = own_keys r @ [''_originalData'']"
    using own_keys_last [OF assms(1)]
  proof
    assume "map fst r = own_keys r"
    then show ?thesis using o by (simp only: keys_set_prop if_False)
  next
    assume *: "map fst r = own_keys r @ [''_originalData'']"
    have "''_originalData'' \<in> set (own_keys r @ [''_originalData''])" by simp
    then show ?thesis unfolding keys_set_prop * by (rule if_P)
  qed
  moreover have "''editable'' \<in> set (own_keys r)" using assms(2) by (simp add: own_keys_def)
  ultimately show ?thesis by (simp add: toggle_row_def Let_def keys_set_prop)
qed

lemma get_prop_own:
  "get_prop (filter (\<lambda>(k, v). k \<noteq> ''_originalData'') r @ [(''_originalData'', Undef)]) k =
    (if k = ''_originalData'' then Undef else get_prop r k)"
proof -
  have "map_of (filter (\<lambda>(k, v). k \<noteq> ''_originalData'') r) k =
      (if k = ''_originalData'' then None else map_of r k)"
    by (induction r) auto
  then show ?thesis by (simp add: get_prop_def map_add_def split: option.splits)
qed

text \<open>Cancelling a row that holds a copy of \<open>r\<close> at its end gives \<open>r\<close>.\<close>

lemma cancel_copy:
  assumes "distinct (map fst r)" "map fst u = own_keys r @ [''_originalData'']" "get_prop u ''_originalData'' = Obj r"
  shows "cancel_row u = (None, filter (\<lambda>(k, v). k \<noteq> ''_originalData'') r @ [(''_originalData'', Undef)])"
proof -
  let ?o = "''_originalData''"
  have ks: "?o \<notin> set (own_keys r)" "distinct (own_keys r)" using assms(1) by (simp_all add: own_keys_def)
  from restore_before [OF assms(3) ks(1), of "[?o]"] obtain t' where
    t': "restore (own_keys r @ [?o]) u = restore [?o] t'"
      "\<forall>k. get_prop t' k = (if k \<in> set (own_keys r) then get_prop r k else get_prop u k)"
      "map fst t' = own_keys r @ [?o]"
    using assms(2) by auto
  let ?v = "set_prop ?o Undef (set_prop ?o (get_prop r ?o) t')"
  have keys: "map fst ?v = own_keys r @ [?o]" by (simp add: keys_set_prop t'(3))
  have "?v = filter (\<lambda>(k, v). k \<noteq> ?o) r @ [(?o, Undef)]"
  proof (rule obj_eqI)
    show "map fst ?v = map fst (filter (\<lambda>(k, v). k \<noteq> ?o) r @ [(?o, Undef)])"
      unfolding keys by (simp add: own_keys_def filter_map comp_def case_prod_unfold)
    show "distinct (map fst ?v)" unfolding keys using ks by simp
    show "get_prop ?v k = get_prop (filter (\<lambda>(k, v). k \<noteq> ?o) r @ [(?o, Undef)]) k" if "k \<in> set (map fst ?v)" for k
      using that t'(2) unfolding get_prop_own keys by auto
  qed
  moreover have "get_prop t' ?o = Obj r" using t'(2) ks(1) assms(3) by simp
  then have "cancel_row u = (None, ?v)" by (simp add: cancel_row_def assms(2) t'(1))
  ultimately show ?thesis by simp
qed

text \<open>C28: Starting to edit a row, changing any of its columns any number of times and cancelling gives the
  row as it was, with \<open>_originalData\<close> undefined, provided that property is not there yet or the last
  one the row got.\<close>

theorem cancel_restores:
  assumes "distinct (map fst r)" "''_originalData'' \<notin> set (map fst (butlast r))" "''editable'' \<in> set (map fst r)"
    "fst ` set es \<subseteq> set (map fst r) - {''_originalData''}"
  shows "cancel_row (fold (\<lambda>(c, v). change_row c v) es (toggle_row r)) =
    (None, filter (\<lambda>(k, v). k \<noteq> ''_originalData'') r @ [(''_originalData'', Undef)])"
proof (rule cancel_copy [OF assms(1)])
  have t: "map fst (toggle_row r) = own_keys r @ [''_originalData'']" using assms(2,3) by (rule keys_toggle)
  then show "map fst (fold (\<lambda>(c, v). change_row c v) es (toggle_row r)) = own_keys r @ [''_originalData'']"
    using keys_changes [of es "toggle_row r"] assms(4) by (auto simp: own_keys_def)
  show "get_prop (fold (\<lambda>(c, v). change_row c v) es (toggle_row r)) ''_originalData'' = Obj r"
    using get_prop_changes [of "''_originalData''" es "toggle_row r"] assms(4) by (auto simp: toggle_row_def Let_def)
qed

lemma cancel_restores_witness:
  "cancel_row (fold (\<lambda>(c, v). change_row c v) [(''name'', Text ''x'')] (toggle_row (hd initial_members))) =
    (None, hd initial_members @ [(''_originalData'', Undef)])"
proof -
  have "distinct (map fst (hd initial_members))" "''_originalData'' \<notin> set (map fst (butlast (hd initial_members)))"
    "''editable'' \<in> set (map fst (hd initial_members))"
    "fst ` set [(''name'', Text ''x'')] \<subseteq> set (map fst (hd initial_members)) - {''_originalData''}"
    by (simp_all add: initial_members_def)
  from cancel_restores [OF this] show ?thesis by (simp add: initial_members_def)
qed

text \<open>The proviso is needed: saving a row adds \<open>isNew\<close> behind \<open>_originalData\<close>. After one save and one
  more cancelled edit, the next cancel throws.\<close>

lemma cancel_throws:
  "let r = saved_row (toggle_row [(''key'', k), (''editable'', Flag False)]);
       r = snd (cancel_row (toggle_row r))
   in fst (cancel_row (toggle_row r)) = Some TypeError"
  by (simp add: saved_row_def toggle_row_def cancel_row_def set_prop_def get_prop_def Let_def)

section \<open>The keys of the rows\<close>

definition row_key :: "nat \<Rightarrow> obj \<Rightarrow> bool" where
  "row_key n r \<longleftrightarrow> (\<exists>rest. r = (''key'', Text (decimal n)) # rest \<and> ''key'' \<notin> set (map fst rest))"

definition row_ok :: "nat \<Rightarrow> obj \<Rightarrow> bool" where
  "row_ok n r \<longleftrightarrow> row_key n r \<and>
     (get_prop r ''_originalData'' = Undef \<or>
      (\<exists>orig. get_prop r ''_originalData'' = Obj orig \<and> get_prop orig ''key'' = Text (decimal n)))"

lemma row_key_get: "row_key n r \<Longrightarrow> get_prop r ''key'' = Text (decimal n)"
  by (auto simp: row_key_def get_prop_def)

lemma row_key_set: "row_key n r \<Longrightarrow> k \<noteq> ''key'' \<Longrightarrow> row_key n (set_prop k v r)"
  by (auto simp: row_key_def set_prop_def update_keys dom_update)

lemma row_key_set_key: "row_key n r \<Longrightarrow> row_key n (set_prop ''key'' (Text (decimal n)) r)"
  by (auto simp: row_key_def set_prop_def)

lemma row_ok_set: "row_ok n r \<Longrightarrow> k \<noteq> ''key'' \<Longrightarrow> k \<noteq> ''_originalData'' \<Longrightarrow> row_ok n (set_prop k v r)"
  by (simp add: row_ok_def row_key_set)

lemma row_ok_toggle: "row_ok n r \<Longrightarrow> row_ok n (toggle_row r)"
  by (auto simp: row_ok_def toggle_row_def Let_def row_key_set row_key_get)

lemma row_ok_saved: "row_ok n r \<Longrightarrow> row_ok n (saved_row r)"
  by (simp add: saved_row_def row_ok_set)

lemma restore_key:
  "row_key n r \<Longrightarrow> ''key'' \<notin> set ks \<Longrightarrow> row_key n (snd (restore ks r))"
  by (induction ks arbitrary: r) (auto simp: row_key_set split: prop_value.splits)

lemma restore_throws:
  "fst (restore ks r) \<noteq> None \<Longrightarrow> get_prop (snd (restore ks r)) ''_originalData'' = Undef"
  by (induction ks arbitrary: r) (auto split: prop_value.splits)

lemma row_ok_cancel:
  assumes "row_ok n r"
  shows "row_ok n (snd (cancel_row r))"
proof -
  have k: "row_key n r" using assms by (simp add: row_ok_def)
  then obtain rest where "r = (''key'', Text (decimal n)) # rest" "''key'' \<notin> set (map fst rest)"
    unfolding row_key_def by metis
  then have r: "map fst r = ''key'' # map fst rest" "''key'' \<notin> set (map fst rest)" by simp_all
  have "row_key n (snd (restore (map fst r) r))"
  proof (cases "get_prop r ''_originalData''")
    case (Obj orig)
    then have "row_key n (set_prop ''key'' (get_prop orig ''key'') r)"
      using assms k row_key_set_key by (auto simp: row_ok_def)
    then show ?thesis using Obj r restore_key by simp
  qed (use assms k r in \<open>auto simp: row_ok_def\<close>)
  moreover obtain e t where "restore (map fst r) r = (e, t)" by (cases "restore (map fst r) r")
  ultimately show ?thesis
    using restore_throws [of "map fst r" r]
    by (cases e) (auto simp: cancel_row_def row_ok_def row_key_set)
qed

definition keys_inv :: "obj list \<Rightarrow> bool" where
  "keys_inv rows \<longleftrightarrow> (\<exists>ns. sorted_wrt (<) ns \<and> list_all2 row_ok ns rows)"

lemma update_member_ok:
  assumes "list_all2 row_ok ns rows" "\<And>n r. row_ok n r \<Longrightarrow> row_ok n (f r)"
  shows "list_all2 row_ok ns (update_member key f rows)"
  using assms(1) by (induction rule: list_all2_induct) (auto simp: assms(2))

lemma keys_inv_update:
  "keys_inv rows \<Longrightarrow> (\<And>n r. row_ok n r \<Longrightarrow> row_ok n (f r)) \<Longrightarrow> keys_inv (update_member key f rows)"
  unfolding keys_inv_def using update_member_ok by blast

lemma keys_inv_filter:
  assumes "keys_inv rows"
  shows "keys_inv (filter P rows)"
proof -
  have "list_all2 row_ok ns rows \<Longrightarrow> sorted_wrt (<) ns \<Longrightarrow>
      \<exists>ns'. sorted_wrt (<) ns' \<and> set ns' \<subseteq> set ns \<and> list_all2 row_ok ns' (filter P rows)" for ns
  proof (induction rule: list_all2_induct)
    case (Cons n ns r rows)
    then obtain ns' where "sorted_wrt (<) ns'" "set ns' \<subseteq> set ns" "list_all2 row_ok ns' (filter P rows)"
      by auto
    with Cons show ?case
      by (cases "P r") (force intro: exI [of _ "n # ns'"], auto)
  qed simp
  with assms show ?thesis unfolding keys_inv_def by blast
qed

lemma keys_inv_new:
  assumes "keys_inv (members f)"
  shows "keys_inv (members (newMember f))"
proof (cases "members f = []")
  case True
  have "Text ''1'' = Text (decimal 1)" by code_simp
  with True show ?thesis
    by (auto simp: newMember_def keys_inv_def row_ok_def row_key_def get_prop_def intro!: exI [of _ "[1]"])
next
  case False
  obtain ns where ns: "sorted_wrt (<) ns" "list_all2 row_ok ns (members f)"
    using assms by (auto simp: keys_inv_def)
  then have "ns \<noteq> []" using False by auto
  with ns False have "row_ok (last ns) (last (members f))"
    by (metis last_conv_nth list_all2_conv_all_nth length_greater_0_conv diff_less zero_less_one)
  then have k: "parseInt (text_of (get_prop (last (members f)) ''key'')) = Some (int (last ns))"
    using row_key_get [of "last ns"] by (simp add: row_ok_def text_of_def parseInt_decimal)
  have t: "key_text (Some (int (last ns) + 1)) = decimal (Suc (last ns))"
    by (simp add: key_text_def nat_add_distrib)
  have "sorted_wrt (<) (ns @ [Suc (last ns)])"
  proof -
    have "n \<le> last ns" if "n \<in> set ns" for n
      using that ns(1) \<open>ns \<noteq> []\<close> by (induction ns rule: rev_induct) (auto simp: sorted_wrt_append)
    then show ?thesis using ns(1) by (auto simp: sorted_wrt_append less_Suc_eq_le)
  qed
  moreover have "members (newMember f) = members f @
      [[(''key'', Text (decimal (Suc (last ns)))), (''name'', Text []), (''workId'', Text []),
        (''department'', Text []), (''editable'', Flag True), (''isNew'', Flag True)]]"
    using False by (simp add: newMember_def k t)
  moreover have "row_ok (Suc (last ns)) [(''key'', Text (decimal (Suc (last ns)))), (''name'', Text []),
      (''workId'', Text []), (''department'', Text []), (''editable'', Flag True), (''isNew'', Flag True)]"
    by (simp add: row_ok_def row_key_def get_prop_def)
  ultimately show ?thesis
    unfolding keys_inv_def using ns(2) by (intro exI [of _ "ns @ [Suc (last ns)]"]) (simp add: list_all2_appendI)
qed

lemma keys_inv_distinct:
  assumes "keys_inv rows"
  shows "distinct (map (\<lambda>r. get_prop r ''key'') rows)"
proof -
  obtain ns where ns: "sorted_wrt (<) ns" "list_all2 row_ok ns rows" using assms by (auto simp: keys_inv_def)
  from ns(2) have "map (\<lambda>r. get_prop r ''key'') rows = map (\<lambda>n. Text (decimal n)) ns"
    by (induction rule: list_all2_induct) (auto simp: row_ok_def row_key_get)
  moreover have "inj_on (\<lambda>n. Text (decimal n)) (set ns)"
    by (rule inj_onI) (metis of_nat_eq_iff option.inject parseInt_decimal prop_value.inject(2))
  moreover have "distinct ns" using ns(1) by (induction ns) auto
  ultimately show ?thesis by (simp add: distinct_map)
qed

datatype member_event =
    NewMember
  | Remove prop_value
  | SaveRow obj
  | RowSaved prop_value
  | ToggleRow prop_value
  | CancelRow prop_value
  | Change prop_value prop_value string
  | Validate bool bool field_errors field_errors

fun member_step :: "member_form \<Rightarrow> member_event \<Rightarrow> member_form" where
  "member_step f NewMember = newMember f"
| "member_step f (Remove key) = remove_member key f"
| "member_step f (SaveRow row) = saveRow row f"
| "member_step f (RowSaved key) = snd (row_saved key f)"
| "member_step f (ToggleRow key) = snd (toggle key f)"
| "member_step f (CancelRow key) = snd (cancel key f)"
| "member_step f (Change v key column) = handleChange v key column f"
| "member_step f (Validate a b ae be) = validate a b ae be f"

text \<open>The inputs of the table change these columns.\<close>

fun possible :: "member_event \<Rightarrow> bool" where
  "possible (Change v key column) = (column \<in> {''name'', ''workId'', ''department''})"
| "possible _ = True"

lemma member_step_inv:
  assumes "keys_inv (members f)" "possible e"
  shows "keys_inv (members (member_step f e))"
proof (cases e)
  case NewMember
  then show ?thesis using assms by (simp add: keys_inv_new)
next
  case (Remove key)
  then show ?thesis using assms by (simp add: remove_member_def keys_inv_filter)
next
  case (SaveRow row)
  then show ?thesis using assms by (simp add: saveRow_def Let_def)
next
  case (RowSaved key)
  then show ?thesis using assms
    by (auto simp: row_saved_def Let_def row_ok_saved intro!: keys_inv_update split: option.splits)
next
  case (ToggleRow key)
  then show ?thesis using assms
    by (auto simp: toggle_def row_ok_toggle intro!: keys_inv_update split: option.splits)
next
  case (CancelRow key)
  then show ?thesis using assms
    by (auto simp: cancel_def row_ok_cancel intro!: keys_inv_update split: option.splits)
next
  case (Change v key column)
  then have "column \<noteq> ''key''" "column \<noteq> ''_originalData''" using assms(2) by auto
  then show ?thesis using assms Change
    by (auto simp: handleChange_def change_row_def row_ok_set intro!: keys_inv_update split: option.splits)
qed (use assms in \<open>simp add: validate_def Let_def\<close>)

text \<open>C20: No two members ever have the same key, whatever is added, removed, edited, saved and cancelled, in
  any order; so each of the buttons acts on the row it stands in.\<close>

theorem member_keys_distinct:
  assumes "list_all possible es"
  shows "distinct (map (\<lambda>r. get_prop r ''key'') (members (foldl member_step init_members es)))"
proof -
  have row: "row_ok n [(''key'', Text (decimal n)), (''name'', Text a), (''workId'', Text b),
      (''editable'', Flag False), (''department'', Text c)]" for n a b c
    by (simp add: row_ok_def row_key_def get_prop_def)
  have d: "''1'' = decimal 1" "''2'' = decimal 2" "''3'' = decimal 3" by code_simp+
  have "list_all2 row_ok [1, 2, 3] initial_members"
    unfolding initial_members_def d by (simp add: row del: One_nat_def)
  then have "keys_inv initial_members" unfolding keys_inv_def by (intro exI [of _ "[1, 2, 3]"]) simp
  then have start: "keys_inv (members init_members)" by (simp add: init_members_def)
  have "keys_inv (members f) \<Longrightarrow> list_all possible es \<Longrightarrow> keys_inv (members (foldl member_step f es))" for f es
    by (induction es arbitrary: f) (simp_all add: member_step_inv)
  from this [OF start assms] show ?thesis by (rule keys_inv_distinct)
qed

lemma member_keys_distinct_witness:
  "distinct (map (\<lambda>r. get_prop r ''key'') (members (foldl member_step init_members
     [NewMember, Remove (Text ''2''), NewMember, ToggleRow (Text ''1''), CancelRow (Text ''1'')])))"
  by (rule member_keys_distinct) simp

text \<open>Every error of a decorated field is listed with its label.\<close>

lemma errorList_labels:
  assumes "(k, msg, l) \<in> set (errorList errors)" "k \<in> set (repository_fields @ task_fields)"
  shows "\<exists>t. l = Some t"
  using assms by (auto simp: errorList_def repository_fields_def task_fields_def fieldLabels_def)

text \<open>In the list of \<open>TableInnerEditList\<close> giving up an edit keeps what was typed: it does what saving does.\<close>

lemma inner_cancel_saves:
  "c \<noteq> ''editable'' \<Longrightarrow>
     inner_cancel (inner_handleChange v c (inner_edit r)) = inner_save (inner_handleChange v c (inner_edit r)) \<and>
     get_prop (inner_cancel (inner_handleChange v c (inner_edit r))) c = v"
  by (simp add: inner_cancel_def inner_save_def inner_handleChange_def inner_edit_def)

end
