(* ===== verification/RouteConvert.thy ===== *)
theory RouteConvert
  imports Prelude "HOL-Library.Char_ord"
begin

text \<open>
  The conversion of relative paths of a route tree, \<open>utils/routeConvert.js\<close>. It works in place on a deep
  copy, so the nodes are objects in a store, and a queue of references drives the loop. The replacement text
  of \<open>String.replace\<close> is interpreted the way JavaScript does, dollar patterns included.
\<close>

section \<open>The replacement\<close>

definition word_char :: "char \<Rightarrow> bool" where
  "word_char c \<longleftrightarrow> CHR ''a'' \<le> c \<and> c \<le> CHR ''z'' \<or> CHR ''A'' \<le> c \<and> c \<le> CHR ''Z'' \<or>
     CHR ''0'' \<le> c \<and> c \<le> CHR ''9'' \<or> c = CHR ''_''"

text \<open>Where \<open>/(\w*)[/]*$/\<close> matches first: what is before, the group, and the slashes.\<close>

fun last_segment :: "string \<Rightarrow> string \<times> string \<times> string" where
  "last_segment s =
     (if list_all (\<lambda>c. c = CHR ''/'') (dropWhile word_char s)
      then ([], takeWhile word_char s, dropWhile word_char s)
      else (case s of
              [] \<Rightarrow> ([], [], [])
            | c # cs \<Rightarrow> (case last_segment cs of (b, g, t) \<Rightarrow> (c # b, g, t))))"

declare last_segment.simps [simp del]

text \<open>A replacement text, for a pattern with one group. The match ends the string, so that nothing
  follows it.\<close>

fun substitute :: "string \<Rightarrow> string \<Rightarrow> string \<Rightarrow> string \<Rightarrow> string" where
  "substitute before matched grp [] = []"
| "substitute before matched grp [d] = [d]"
| "substitute before matched grp (d # c # rest) =
     (if d \<noteq> CHR ''$'' then d # substitute before matched grp (c # rest)
      else if c = CHR ''$'' then CHR ''$'' # substitute before matched grp rest
      else if c = CHR ''&'' then matched @ substitute before matched grp rest
      else if c = CHR 0x60 then before @ substitute before matched grp rest
      else if c = CHR 0x27 then substitute before matched grp rest
      else if c = CHR ''1'' then grp @ substitute before matched grp rest
      else if c = CHR ''0'' \<and> rest \<noteq> [] \<and> hd rest = CHR ''1'' then grp @ substitute before matched grp (tl rest)
      else CHR ''$'' # substitute before matched grp (c # rest))"

text \<open>\<open>path.replace(/(\w*)[/]*$/, `$1/${child}`)\<close>\<close>

definition joined_path :: "string \<Rightarrow> string \<Rightarrow> string" where
  "joined_path path child =
     (case last_segment path of (b, g, t) \<Rightarrow> b @ substitute b (g @ t) g (''$1/'' @ child))"

definition is_relative :: "string \<Rightarrow> bool" where
  "is_relative path \<longleftrightarrow> (path = [] \<or> hd path \<noteq> CHR ''/'') \<and> \<not> prefix ''http'' path"

section \<open>The conversion\<close>

record node_store =
  node_path :: "nat \<Rightarrow> string"
  node_children :: "nat \<Rightarrow> nat list option"

definition convert_child :: "nat \<Rightarrow> node_store \<Rightarrow> nat \<Rightarrow> node_store" where
  "convert_child node h child =
     (if is_relative (node_path h child)
      then h\<lparr>node_path := (node_path h)(child := joined_path (node_path h node) (node_path h child))\<rparr>
      else h)"

text \<open>The body of the inner loop: what happens to the store, and what is appended to the queue.\<close>

definition visit :: "nat \<Rightarrow> node_store \<Rightarrow> node_store \<times> nat list" where
  "visit node h =
     (case node_children h node of
        None \<Rightarrow> (h, [])
      | Some [] \<Rightarrow> (h, [])
      | Some cs \<Rightarrow> (foldl (convert_child node) h cs, cs))"

text \<open>One level: as many nodes are taken off the queue as it had at the start of the level.\<close>

fun convert_level :: "nat \<Rightarrow> nat list \<times> node_store \<Rightarrow> nat list \<times> node_store" where
  "convert_level 0 s = s"
| "convert_level (Suc n) (queue, h) =
     (case queue of
        [] \<Rightarrow> (queue, h)
      | node # queue \<Rightarrow> (case visit node h of (h, cs) \<Rightarrow> convert_level n (queue @ cs, h)))"

partial_function (option) convert_loop :: "nat list \<Rightarrow> node_store \<Rightarrow> node_store option" where
  "convert_loop queue h =
     (if queue = [] then Some h
      else (case convert_level (length queue) (queue, h) of (queue, h) \<Rightarrow> convert_loop queue h))"

text \<open>\<open>None\<close> inside for \<open>null\<close>; the outer \<open>None\<close> is a loop that does not end.\<close>

definition convertRoutes :: "(nat list \<times> node_store) option \<Rightarrow> (nat list \<times> node_store) option option" where
  "convertRoutes nodes =
     (case nodes of
        None \<Rightarrow> Some None
      | Some (roots, h) \<Rightarrow> map_option (\<lambda>h'. Some (roots, h')) (convert_loop roots h))"

section \<open>Joining paths\<close>

definition strip_slashes :: "string \<Rightarrow> string" where
  "strip_slashes s = rev (dropWhile (\<lambda>c. c = CHR ''/'') (rev s))"

lemma last_segment_append: "last_segment s = (b, g, t) \<Longrightarrow> s = b @ g @ t"
proof (induction s arbitrary: b g t)
  case (Cons c s)
  show ?case
  proof (cases "list_all (\<lambda>c. c = CHR ''/'') (dropWhile word_char (c # s))")
    case True
    then have "last_segment (c # s) = ([], takeWhile word_char (c # s), dropWhile word_char (c # s))"
      unfolding last_segment.simps [of "c # s"] by (rule if_P)
    with Cons.prems have "b = []" "g = takeWhile word_char (c # s)" "t = dropWhile word_char (c # s)"
      by (simp_all only: prod.inject)
    then show ?thesis by (simp only: append_Nil takeWhile_dropWhile_id)
  next
    case False
    then obtain b' where "last_segment s = (b', g, t)" "b = c # b'"
      using Cons.prems by (subst (asm) last_segment.simps) (auto split: prod.splits)
    then show ?thesis using Cons.IH by simp
  qed
qed (subst (asm) last_segment.simps, simp)

lemma last_segment_slashes:
  "last_segment s = (b, g, t) \<Longrightarrow> list_all (\<lambda>c. c = CHR ''/'') t \<and> list_all word_char g \<and> (g = [] \<longrightarrow> b = [] \<or> last b \<noteq> CHR ''/'')"
proof (induction s arbitrary: b g t)
  case Nil
  then show ?case by (subst (asm) last_segment.simps) auto
next
  case (Cons c s)
  show ?case
  proof (cases "list_all (\<lambda>c. c = CHR ''/'') (dropWhile word_char (c # s))")
    case True
    then have "last_segment (c # s) = ([], takeWhile word_char (c # s), dropWhile word_char (c # s))"
      unfolding last_segment.simps [of "c # s"] by (rule if_P)
    with Cons.prems have e: "b = []" "g = takeWhile word_char (c # s)" "t = dropWhile word_char (c # s)"
      by (simp_all only: prod.inject)
    have "list_all word_char (takeWhile word_char (c # s))" by (auto simp: list_all_iff dest: set_takeWhileD)
    with True e show ?thesis by blast
  next
    case False
    then obtain b' where b: "last_segment s = (b', g, t)" "b = c # b'"
      using Cons.prems by (subst (asm) last_segment.simps) (auto split: prod.splits)
    have "c \<noteq> CHR ''/''" if "g = []" "b' = []"
    proof
      assume c: "c = CHR ''/''"
      have "s = t" using last_segment_append [OF b(1)] that by simp
      then have "list_all (\<lambda>c. c = CHR ''/'') (c # s)" using Cons.IH [OF b(1)] c by simp
      then have "list_all (\<lambda>c. c = CHR ''/'') (dropWhile word_char (c # s))"
        by (auto simp: list_all_iff dest: set_dropWhileD)
      with False show False by simp
    qed
    then show ?thesis using Cons.IH [OF b(1)] b(2) by auto
  qed
qed

lemma dropWhile_all: "list_all P xs \<Longrightarrow> dropWhile P (xs @ ys) = dropWhile P ys"
  by (induction xs) auto

lemma strip_slashes_segment:
  assumes "last_segment s = (b, g, t)"
  shows "strip_slashes s = b @ g"
proof -
  have p: "list_all (\<lambda>c. c = CHR ''/'') (rev t)" "list_all word_char g" "g = [] \<longrightarrow> b = [] \<or> last b \<noteq> CHR ''/''"
    using last_segment_slashes [OF assms] by (simp_all add: list_all_iff)
  have "\<not> word_char CHR ''/''" by (simp add: word_char_def)
  then have "b @ g = [] \<or> last (b @ g) \<noteq> CHR ''/''"
    using p(2,3) by (cases g rule: rev_cases) auto
  then have "dropWhile (\<lambda>c. c = CHR ''/'') (rev (b @ g)) = rev (b @ g)"
    by (cases "b @ g" rule: rev_cases) auto
  then show ?thesis
    using dropWhile_all [OF p(1), of "rev (b @ g)"] last_segment_append [OF assms] by (simp add: strip_slashes_def)
qed

lemma substitute_plain: "CHR ''$'' \<notin> set s \<Longrightarrow> substitute b m g s = s"
proof (induction s)
  case (Cons c s)
  then show ?case by (cases s) auto
qed simp

text \<open>A child path without a dollar sign is appended with one slash, whatever slashes the parent ends in.\<close>

theorem joined_path_plain:
  assumes "CHR ''$'' \<notin> set child"
  shows "joined_path path child = strip_slashes path @ CHR ''/'' # child"
proof -
  obtain b g t where l: "last_segment path = (b, g, t)" by (cases "last_segment path")
  have "substitute b (g @ t) g (CHR ''/'' # child) = CHR ''/'' # child"
    using assms by (intro substitute_plain) simp
  then show ?thesis using l strip_slashes_segment [OF l] by (simp add: joined_path_def)
qed

lemma joined_path_dollar: "joined_path ''/a/'' ''$&b'' = ''/a/a/b''"
  by (simp add: joined_path_def last_segment.simps word_char_def)

section \<open>Correctness\<close>

definition kids :: "(nat \<Rightarrow> nat list option) \<Rightarrow> nat \<Rightarrow> nat list" where
  "kids ch n = (case ch n of None \<Rightarrow> [] | Some cs \<Rightarrow> cs)"

text \<open>The levels below a list of nodes; in a finite tree without shared nodes there is no repetition
  in them and one is empty.\<close>

fun layers :: "(nat \<Rightarrow> nat list option) \<Rightarrow> nat \<Rightarrow> nat list \<Rightarrow> nat list" where
  "layers ch 0 q = []"
| "layers ch (Suc k) q = q @ layers ch k (concat (map (kids ch) q))"

fun ends_by :: "(nat \<Rightarrow> nat list option) \<Rightarrow> nat \<Rightarrow> nat list \<Rightarrow> bool" where
  "ends_by ch 0 q = (q = [])"
| "ends_by ch (Suc k) q = ends_by ch k (concat (map (kids ch) q))"

definition forest :: "(nat \<Rightarrow> nat list option) \<Rightarrow> nat \<Rightarrow> nat list \<Rightarrow> bool" where
  "forest ch k q \<longleftrightarrow> ends_by ch k q \<and> distinct (layers ch k q)"

lemma convert_children [simp]: "node_children (foldl (convert_child n) h cs) = node_children h"
  by (induction cs arbitrary: h) (simp_all add: convert_child_def)

lemma visit_eq: "visit n h = (foldl (convert_child n) h (kids (node_children h) n), kids (node_children h) n)"
  by (simp add: visit_def kids_def split: option.splits list.splits)

lemma visit_children [simp]: "node_children (fst (visit n h)) = node_children h"
  by (simp add: visit_eq)

definition convert_all :: "nat list \<Rightarrow> node_store \<Rightarrow> node_store" where
  "convert_all q h = foldl (\<lambda>h n. fst (visit n h)) h q"

lemma convert_all_children [simp]: "node_children (convert_all q h) = node_children h"
  by (induction q arbitrary: h) (simp_all add: convert_all_def)

lemma convert_level_eq:
  "convert_level (length q) (q @ r, h) = (r @ concat (map (kids (node_children h)) q), convert_all q h)"
proof (induction q arbitrary: r h)
  case (Cons n q)
  have "convert_level (length (n # q)) ((n # q) @ r, h) =
      convert_level (length q) (q @ (r @ kids (node_children h) n), fst (visit n h))"
    by (simp add: visit_eq)
  then show ?case by (simp add: Cons.IH convert_all_def)
qed (simp add: convert_all_def)

text \<open>What a child's path becomes.\<close>

definition child_path :: "string \<Rightarrow> string \<Rightarrow> string" where
  "child_path parent path = (if is_relative path then joined_path parent path else path)"

lemma convert_child_path:
  "node_path (convert_child n h c) x =
     (if x = c then child_path (node_path h n) (node_path h c) else node_path h x)"
  by (simp add: convert_child_def child_path_def)

lemma convert_child_paths:
  "distinct cs \<Longrightarrow> n \<notin> set cs \<Longrightarrow>
     node_path (foldl (convert_child n) h cs) x =
       (if x \<in> set cs then child_path (node_path h n) (node_path h x) else node_path h x)"
  by (induction cs arbitrary: h) (auto simp: convert_child_path)

lemma convert_all_paths:
  assumes "distinct (q @ concat (map (kids (node_children h)) q))"
  shows "node_path (convert_all q h) x =
    (case find (\<lambda>n. x \<in> set (kids (node_children h) n)) q of
       None \<Rightarrow> node_path h x
     | Some n \<Rightarrow> child_path (node_path h n) (node_path h x))"
  using assms
proof (induction q arbitrary: h)
  case (Cons n q)
  let ?cs = "kids (node_children h) n" and ?h = "fst (visit n h)"
  have d: "distinct ?cs" "n \<notin> set ?cs" using Cons.prems by auto
  have dq: "distinct (q @ concat (map (kids (node_children ?h)) q))"
    using Cons.prems by auto
  have p: "node_path ?h y = (if y \<in> set ?cs then child_path (node_path h n) (node_path h y) else node_path h y)" for y
    using convert_child_paths [OF d] by (simp add: visit_eq)
  have IH: "node_path (convert_all q ?h) x =
    (case find (\<lambda>m. x \<in> set (kids (node_children h) m)) q of
       None \<Rightarrow> node_path ?h x
     | Some m \<Rightarrow> child_path (node_path ?h m) (node_path ?h x))"
    using Cons.IH [of ?h] dq by simp
  have rest: "x \<notin> set ?cs \<and> m \<notin> set ?cs" if "find (\<lambda>m. x \<in> set (kids (node_children h) m)) q = Some m" for m
  proof -
    have "m \<in> set q" "x \<in> set (kids (node_children h) m)" using that by (auto simp: find_Some_iff)
    then show ?thesis using Cons.prems by auto
  qed
  have "convert_all (n # q) h = convert_all q ?h" by (simp add: convert_all_def)
  then show ?case
  proof (cases "find (\<lambda>m. x \<in> set (kids (node_children h) m)) q")
    case None
    with IH have e: "node_path (convert_all q ?h) x = node_path ?h x" by simp
    show ?thesis unfolding \<open>convert_all (n # q) h = convert_all q ?h\<close> e p using None by simp
  next
    case (Some m)
    with IH rest [OF Some] p show ?thesis
      unfolding \<open>convert_all (n # q) h = convert_all q ?h\<close> by simp
  qed
qed (simp add: convert_all_def)

lemma convert_all_child:
  assumes "distinct (q @ concat (map (kids (node_children h)) q))" "n \<in> set q" "c \<in> set (kids (node_children h) n)"
  shows "node_path (convert_all q h) c = child_path (node_path h n) (node_path h c)"
proof -
  obtain m where m: "find (\<lambda>n. c \<in> set (kids (node_children h) n)) q = Some m"
    using assms(2,3) by (cases "find (\<lambda>n. c \<in> set (kids (node_children h) n)) q") (auto simp: find_None_iff)
  then have "m \<in> set q" "c \<in> set (kids (node_children h) m)" by (auto simp: find_Some_iff)
  moreover have "distinct (concat (map (kids (node_children h)) q))" "distinct q" using assms(1) by auto
  ultimately have "m = n" using assms(2,3)
  proof (induction q)
    case (Cons y q)
    then show ?case by auto
  qed simp
  with m show ?thesis using convert_all_paths [OF assms(1), of c] by simp
qed

lemma convert_all_other:
  assumes "distinct (q @ concat (map (kids (node_children h)) q))" "x \<notin> set (concat (map (kids (node_children h)) q))"
  shows "node_path (convert_all q h) x = node_path h x"
proof -
  have "find (\<lambda>n. x \<in> set (kids (node_children h) n)) q = None"
    using assms(2) by (auto simp: find_None_iff)
  then show ?thesis using convert_all_paths [OF assms(1), of x] by simp
qed

text \<open>What the loop computes: parents before children, every node once.\<close>

definition converted :: "nat list \<Rightarrow> nat set \<Rightarrow> node_store \<Rightarrow> node_store \<Rightarrow> bool" where
  "converted roots nodes h h' \<longleftrightarrow>
     node_children h' = node_children h \<and>
     (\<forall>n. n \<notin> nodes \<or> n \<in> set roots \<longrightarrow> node_path h' n = node_path h n) \<and>
     (\<forall>n \<in> nodes. \<forall>c \<in> set (kids (node_children h) n).
        node_path h' c = child_path (node_path h' n) (node_path h c))"

lemma layers_roots: "ends_by ch k q \<Longrightarrow> set q \<subseteq> set (layers ch k q)"
  by (cases k) auto

lemma deeper_kids:
  assumes "ends_by ch k q" "distinct (layers ch k q)" "n \<in> set (layers ch k q)" "x \<in> set (kids ch n)"
  shows "x \<notin> set q"
proof -
  have sub: "set (concat (map (kids ch) (layers ch k q))) \<subseteq> set (layers ch k q) - set q"
    using assms(1,2)
  proof (induction k arbitrary: q)
    case (Suc k)
    let ?q1 = "concat (map (kids ch) q)"
    have "set ?q1 \<subseteq> set (layers ch k ?q1)" using Suc.prems(1) by (intro layers_roots) simp
    moreover have "set (concat (map (kids ch) (layers ch k ?q1))) \<subseteq> set (layers ch k ?q1) - set ?q1"
      using Suc.prems by (intro Suc.IH) simp_all
    moreover have "set q \<inter> set (layers ch k ?q1) = {}" using Suc.prems(2) by auto
    ultimately show ?case by auto
  qed simp
  have "x \<in> set (concat (map (kids ch) (layers ch k q)))" using assms(3,4) by auto
  with sub show ?thesis by blast
qed

lemma convert_loop_correct:
  "forest (node_children h) k q \<Longrightarrow>
     \<exists>h'. convert_loop q h = Some h' \<and> converted q (set (layers (node_children h) k q)) h h'"
proof (induction k arbitrary: q h)
  case 0
  then show ?case by (simp add: forest_def convert_loop.simps converted_def)
next
  case (Suc k)
  let ?ch = "node_children h"
  let ?q1 = "concat (map (kids ?ch) q)" and ?h1 = "convert_all q h"
  have f: "ends_by ?ch k ?q1" "distinct (layers ?ch k ?q1)" "distinct q" "set q \<inter> set (layers ?ch k ?q1) = {}"
    using Suc.prems by (auto simp: forest_def)
  have q1: "set ?q1 \<subseteq> set (layers ?ch k ?q1)" using f(1) by (rule layers_roots)
  have d: "distinct (q @ ?q1)"
  proof -
    have "distinct ?q1"
    proof (cases k)
      case 0
      then have "?q1 = []" using f(1) by (simp only: ends_by.simps)
      then show ?thesis by (simp only: distinct.simps)
    next
      case (Suc j)
      then show ?thesis using f(2) by (simp only: layers.simps distinct_append)
    qed
    then show ?thesis using f(3,4) q1 by auto
  qed
  have "forest (node_children ?h1) k ?q1" using f(1,2) by (simp add: forest_def)
  from Suc.IH [OF this] obtain h' where h': "convert_loop ?q1 ?h1 = Some h'"
    "converted ?q1 (set (layers ?ch k ?q1)) ?h1 h'" by auto
  have loop: "convert_loop q h = Some h'"
  proof (cases "q = []")
    case True
    then have "Some h' = Some h" using h'(1) by (simp add: convert_loop.simps convert_all_def)
    then show ?thesis using True by (simp add: convert_loop.simps)
  next
    case False
    then show ?thesis using convert_level_eq [of q "[]" h] h'(1) by (simp add: convert_loop.simps [of q])
  qed
  have c: "node_children h' = ?ch" using h'(2) by (simp add: converted_def)
  have unchanged: "node_path h' n = node_path h n"
    if "n \<notin> set (layers ?ch (Suc k) q) \<or> n \<in> set q" for n
  proof -
    have "n \<notin> set (layers ?ch k ?q1)" using that f(4) by auto
    then have "node_path h' n = node_path ?h1 n" "n \<notin> set ?q1"
      using h'(2) q1 by (auto simp: converted_def)
    then show ?thesis using convert_all_other [OF d] by simp
  qed
  have child: "node_path h' x = child_path (node_path h' n) (node_path h x)"
    if n: "n \<in> set (layers ?ch (Suc k) q)" and x: "x \<in> set (kids ?ch n)" for n x
  proof (cases "n \<in> set q")
    case True
    then have "x \<in> set ?q1" using x by auto
    then have "node_path h' x = node_path ?h1 x" using h'(2) by (simp add: converted_def)
    then show ?thesis
      using convert_all_child [OF d True x] unchanged [of n] True by simp
  next
    case False
    then have n1: "n \<in> set (layers ?ch k ?q1)" using n by simp
    then have "node_path h' x = child_path (node_path h' n) (node_path ?h1 x)"
      using h'(2) x by (simp add: converted_def)
    moreover have "x \<notin> set ?q1" using deeper_kids [OF f(1,2) n1 x] .
    ultimately show ?thesis using convert_all_other [OF d] by simp
  qed
  show ?case
    using loop c unchanged child by (auto simp: converted_def)
qed

text \<open>C22: On a finite route tree without shared nodes the conversion ends, keeps the tree, the paths of the
  roots and the absolute paths, and makes every relative path the converted path of its parent without its
  trailing slashes, a slash, and the path itself, provided that path has no dollar sign.\<close>

theorem convertRoutes_resolves:
  assumes "forest (node_children h) k roots" "\<And>n. CHR ''$'' \<notin> set (node_path h n)"
  shows "\<exists>h'. convertRoutes (Some (roots, h)) = Some (Some (roots, h')) \<and> node_children h' = node_children h \<and>
    (\<forall>n \<in> set roots. node_path h' n = node_path h n) \<and>
    (\<forall>n \<in> set (layers (node_children h) k roots). \<forall>c \<in> set (kids (node_children h) n).
       node_path h' c =
         (if is_relative (node_path h c) then strip_slashes (node_path h' n) @ CHR ''/'' # node_path h c
          else node_path h c))"
proof -
  obtain h' where h': "convert_loop roots h = Some h'"
    "converted roots (set (layers (node_children h) k roots)) h h'"
    using convert_loop_correct [OF assms(1)] by blast
  then show ?thesis
    by (intro exI [of _ h'])
      (simp add: convertRoutes_def converted_def child_path_def joined_path_plain [OF assms(2)])
qed

definition form_routes :: node_store where
  "form_routes = \<lparr>node_path =
       (\<lambda>n. if n = 0 then ''/form/'' else if n = 1 then ''base'' else if n = 2 then ''http://x'' else ''step''),
     node_children = (\<lambda>n. if n = 0 then Some [1, 2] else if n = 1 then Some [3] else None)\<rparr>"

lemma convertRoutes_resolves_witness:
  "\<exists>h'. convertRoutes (Some ([0], form_routes)) = Some (Some ([0], h')) \<and> node_path h' 3 = ''/form/base/step''"
proof -
  have f: "forest (node_children form_routes) 3 [0]"
    by (simp add: forest_def form_routes_def kids_def numeral_3_eq_3)
  have "CHR ''$'' \<notin> set (node_path form_routes n)" for n by (simp add: form_routes_def)
  from convertRoutes_resolves [OF f this] obtain h' where
    "convertRoutes (Some ([0], form_routes)) = Some (Some ([0], h'))"
    "node_path h' 0 = ''/form/''" "node_path h' 1 = strip_slashes (node_path h' 0) @ ''/base''"
    "node_path h' 3 = strip_slashes (node_path h' 1) @ ''/step''"
    by (auto simp: form_routes_def kids_def numeral_3_eq_3 is_relative_def)
  then show ?thesis by (auto simp: strip_slashes_def)
qed

end
