(* ===== verification/Dialog.thy ===== *)
theory Dialog
  imports Prelude "HOL-Library.AList"
begin

text \<open>
  The dialogs opened by \<open>this.$dialog(component, componentProps, modalProps)\<close>,
  \<open>components/Dialog.js\<close>: what the component's hooks decide, when the dialog closes, and the properties
  handed to the modal and to the component at each rendering.
\<close>

section \<open>Hooks\<close>

text \<open>The hook of the component: not a function (with its truth value), a function and the truth value it
  returns, or one that returns a promise.\<close>

datatype hook = NotFunction bool | Returns bool | ReturnsPromise

datatype hook_decision = Go | Stay | Wait

fun dialog_handle :: "hook \<Rightarrow> hook_decision" where
  "dialog_handle (Returns res) = (if res then Go else Stay)"
| "dialog_handle ReturnsPromise = Wait"
| "dialog_handle (NotFunction v) = (if v then Stay else Go)"

datatype button = CancelButton | OkButton

record dialog =
  dlg_visible :: bool
  dlg_emitted :: "string list"
  destroyed :: nat
  waiting_for :: "button list"

definition open_dialog :: dialog where
  "open_dialog = \<lparr>dlg_visible = True, dlg_emitted = [], destroyed = 0, waiting_for = []\<rparr>"

definition after_handle :: "button \<Rightarrow> dialog \<Rightarrow> dialog" where
  "after_handle b d =
     d\<lparr>dlg_visible := False,
       dlg_emitted := dlg_emitted d @ [''close'', case b of CancelButton \<Rightarrow> ''cancel'' | OkButton \<Rightarrow> ''ok''],
       destroyed := Suc (destroyed d)\<rparr>"

definition decide :: "button \<Rightarrow> hook \<Rightarrow> dialog \<Rightarrow> dialog" where
  "decide b h d =
     (case dialog_handle h of
        Go \<Rightarrow> after_handle b d
      | Stay \<Rightarrow> d
      | Wait \<Rightarrow> d\<lparr>waiting_for := waiting_for d @ [b]\<rparr>)"

definition handleClose :: "hook \<Rightarrow> dialog \<Rightarrow> dialog" where
  "handleClose onCancel d = decide CancelButton onCancel d"

text \<open>\<open>onOK || onOk\<close>: the second is looked at when the first is falsy.\<close>

definition handleOk :: "hook \<Rightarrow> hook \<Rightarrow> dialog \<Rightarrow> dialog" where
  "handleOk onOK onOk d = decide OkButton (if onOK = NotFunction False then onOk else onOK) d"

text \<open>A promise of a hook is fulfilled with a value of which only the truth counts, or rejected.\<close>

definition hook_settled :: "nat \<Rightarrow> bool option \<Rightarrow> dialog \<Rightarrow> dialog" where
  "hook_settled i r d =
     (if i < length (waiting_for d)
      then (let b = waiting_for d ! i;
                d = d\<lparr>waiting_for := take i (waiting_for d) @ drop (Suc i) (waiting_for d)\<rparr>
            in if r = Some True then after_handle b d else d)
      else d)"

datatype dialog_event = PressCancel | PressOk | Settle nat "bool option"

fun dialog_step :: "hook \<Rightarrow> hook \<Rightarrow> hook \<Rightarrow> dialog \<Rightarrow> dialog_event \<Rightarrow> dialog" where
  "dialog_step onCancel onOK onOk d PressCancel = handleClose onCancel d"
| "dialog_step onCancel onOK onOk d PressOk = handleOk onOK onOk d"
| "dialog_step onCancel onOK onOk d (Settle i r) = hook_settled i r d"

text \<open>The modal takes no click once the dialog is destroyed; promises are settled all the same.\<close>

fun dialog_run :: "hook \<Rightarrow> hook \<Rightarrow> hook \<Rightarrow> dialog \<Rightarrow> dialog_event list \<Rightarrow> dialog" where
  "dialog_run c k k' d [] = d"
| "dialog_run c k k' d (e # es) =
     (if 0 < destroyed d \<and> (e = PressCancel \<or> e = PressOk) then dialog_run c k k' d es
      else dialog_run c k k' (dialog_step c k k' d e) es)"

lemma decide_now: "h \<noteq> ReturnsPromise \<Longrightarrow> decide b h d = d \<or> decide b h d = after_handle b d"
  by (cases h) (simp_all add: decide_def)

lemma dialog_step_now:
  assumes "c \<noteq> ReturnsPromise" "k \<noteq> ReturnsPromise" "k' \<noteq> ReturnsPromise" "waiting_for d = []"
  shows "dialog_step c k k' d e = d \<or> (e = PressCancel \<or> e = PressOk) \<and> (\<exists>b. dialog_step c k k' d e = after_handle b d)"
proof (cases e)
  case PressCancel
  then show ?thesis using decide_now [OF assms(1), of CancelButton d] by (auto simp: handleClose_def)
next
  case PressOk
  have "(if k = NotFunction False then k' else k) \<noteq> ReturnsPromise" using assms by simp
  from decide_now [OF this, of OkButton d] PressOk show ?thesis by (auto simp: handleOk_def)
qed (simp add: hook_settled_def assms)

lemma dialog_run_inv:
  assumes "c \<noteq> ReturnsPromise" "k \<noteq> ReturnsPromise" "k' \<noteq> ReturnsPromise"
    "waiting_for d = []" "dlg_visible d = (destroyed d = 0)" "destroyed d \<le> 1" "length (dlg_emitted d) = 2 * destroyed d"
  shows "waiting_for (dialog_run c k k' d es) = [] \<and> destroyed (dialog_run c k k' d es) \<le> 1 \<and>
    dlg_visible (dialog_run c k k' d es) = (destroyed (dialog_run c k k' d es) = 0) \<and>
    length (dlg_emitted (dialog_run c k k' d es)) = 2 * destroyed (dialog_run c k k' d es)"
  using assms(4-)
proof (induction es arbitrary: d)
  case (Cons e es)
  show ?case
  proof (cases "0 < destroyed d \<and> (e = PressCancel \<or> e = PressOk)")
    case False
    have "waiting_for (dialog_step c k k' d e) = []" "destroyed (dialog_step c k k' d e) \<le> 1"
      "dlg_visible (dialog_step c k k' d e) = (destroyed (dialog_step c k k' d e) = 0)"
      "length (dlg_emitted (dialog_step c k k' d e)) = 2 * destroyed (dialog_step c k k' d e)"
      using dialog_step_now [OF assms(1-3) Cons.prems(1), of e] Cons.prems False
      by (auto simp: after_handle_def)
    from Cons.IH [OF this(1,3,2,4)] False show ?thesis unfolding dialog_run.simps by (simp only: if_False)
  qed (use Cons in simp)
qed simp

text \<open>A dialog whose hooks decide at once closes at most once, and tells so once.\<close>

theorem dialog_closes_once:
  assumes "c \<noteq> ReturnsPromise" "k \<noteq> ReturnsPromise" "k' \<noteq> ReturnsPromise"
  shows "destroyed (dialog_run c k k' open_dialog es) \<le> 1 \<and>
    length (dlg_emitted (dialog_run c k k' open_dialog es)) = 2 * destroyed (dialog_run c k k' open_dialog es) \<and>
    dlg_visible (dialog_run c k k' open_dialog es) = (destroyed (dialog_run c k k' open_dialog es) = 0)"
  using dialog_run_inv [OF assms, of open_dialog es] by (simp add: open_dialog_def)

lemma dialog_closes_once_witness:
  "destroyed (dialog_run (NotFunction False) (Returns True) (NotFunction False) open_dialog [PressOk, PressCancel]) \<le> 1"
  by (rule dialog_closes_once [THEN conjunct1]) simp_all

text \<open>With a promise nothing keeps the button from being pressed again while it is pending: two presses
  confirm twice.\<close>

lemma dialog_confirms_twice:
  "dlg_emitted (dialog_run (NotFunction False) ReturnsPromise (NotFunction False) open_dialog
     [PressOk, PressOk, Settle 0 (Some True), Settle 0 (Some True)]) = [''close'', ''ok'', ''close'', ''ok'']"
  by (simp add: open_dialog_def handleOk_def decide_def hook_settled_def after_handle_def Let_def)

section \<open>Rendering\<close>

datatype dval = DAtom string | DBool bool | DHandler string | DObj "(string \<times> dval) list"

type_synonym dprops = "(string \<times> dval) list"

fun dtruthy :: "dval option \<Rightarrow> bool" where
  "dtruthy None = False"
| "dtruthy (Some (DAtom s)) = (s \<noteq> [])"
| "dtruthy (Some (DBool b)) = b"
| "dtruthy (Some _) = True"

text \<open>\<open>Object.assign\<close>, and spreading \<open>props.k || props\<close>.\<close>

definition assign :: "dprops \<Rightarrow> dprops \<Rightarrow> dprops" where
  "assign o1 o2 = AList.updates (map fst o2) (map snd o2) o1"

definition part_or_all :: "string \<Rightarrow> dprops \<Rightarrow> dprops" where
  "part_or_all k props =
     (if dtruthy (map_of props k) then (case map_of props k of Some (DObj o1) \<Rightarrow> o1 | _ \<Rightarrow> []) else props)"

definition model_part :: "dprops \<Rightarrow> dprops" where
  "model_part props = (if dtruthy (map_of props ''model'') then [(''model'', the (map_of props ''model''))] else [])"

definition without_model :: "dprops \<Rightarrow> dprops" where
  "without_model props = (if dtruthy (map_of props ''model'') then AList.delete ''model'' props else props)"

text \<open>Both renderings take the model out of the object they were given, which the caller and the next
  rendering share.\<close>

definition modal_render :: "bool \<Rightarrow> dprops \<Rightarrow> dprops \<times> dprops" where
  "modal_render vis modalProps =
     (let m = model_part modalProps; modalProps = without_model modalProps in
      (assign m
        [(''attrs'', DObj (assign (part_or_all ''attrs'' modalProps) [(''visible'', DBool vis)])),
         (''on'', DObj (assign (part_or_all ''on'' modalProps)
           [(''ok'', DHandler ''handleOk''), (''cancel'', DHandler ''handleClose'')]))],
       modalProps))"

definition component_render :: "dprops \<Rightarrow> dprops \<times> dprops" where
  "component_render componentProps =
     (let m = model_part componentProps; componentProps = without_model componentProps in
      (assign m
        [(''ref'', DAtom ''_component''),
         (''attrs'', DObj (part_or_all ''attrs'' componentProps)),
         (''on'', DObj (part_or_all ''on'' componentProps))],
       componentProps))"

lemma map_of_assign: "map_of (assign o1 o2) k = (case map_of (rev o2) k of None \<Rightarrow> map_of o1 k | Some v \<Rightarrow> Some v)"
proof -
  have "map_of (AList.updates (map fst o2) (map snd o2) o1) = foldl (\<lambda>m (k, v). m(k \<mapsto> v)) (map_of o1) o2" for o1
    by (induction o2 arbitrary: o1) (auto simp: update_conv')
  moreover have "foldl (\<lambda>m (k, v). m(k \<mapsto> v)) m o2 k = (case map_of (rev o2) k of None \<Rightarrow> m k | Some v \<Rightarrow> Some v)" for m
    by (induction o2 arbitrary: m) (auto simp: map_of_append split: option.splits)
  ultimately show ?thesis by (simp add: assign_def)
qed

text \<open>Whatever the caller passes, the modal is as visible as the dialog and its two buttons are the
  dialog's.\<close>

lemma modal_render_controls:
  "\<exists>attrs on. map_of (fst (modal_render vis ps)) ''attrs'' = Some (DObj attrs) \<and>
     map_of attrs ''visible'' = Some (DBool vis) \<and>
     map_of (fst (modal_render vis ps)) ''on'' = Some (DObj on) \<and>
     map_of on ''ok'' = Some (DHandler ''handleOk'') \<and> map_of on ''cancel'' = Some (DHandler ''handleClose'')"
  by (simp add: modal_render_def Let_def map_of_assign)

text \<open>The model reaches the first rendering only: the second one finds it deleted.\<close>

lemma model_lost:
  assumes "dtruthy (map_of ps ''model'')"
  shows "map_of (fst (modal_render vis ps)) ''model'' = map_of ps ''model'' \<and>
    map_of (fst (modal_render vis' (snd (modal_render vis ps)))) ''model'' = None"
proof -
  have "map_of ps ''model'' = Some (the (map_of ps ''model''))" using assms by (cases "map_of ps ''model''") simp_all
  then show ?thesis using assms
  by (auto simp: modal_render_def Let_def map_of_assign model_part_def without_model_def delete_conv'
      split: option.splits)
qed

end
