(* ===== verification/ListPages.thy ===== *)
theory ListPages
  imports STable Machines
begin

text \<open>
  The list pages built on the table component: \<open>views/list/TableList.vue\<close> with the forms it opens
  (\<open>modules/CreateForm.vue\<close>, \<open>modules/StepByStepModal.vue\<close>), \<open>views/list/table/List.vue\<close>
  with its switchable selection, and the columns of \<open>views/other/TableInnerEditList.vue\<close>.
\<close>

section \<open>Columns and filters\<close>

text \<open>A column as the pages declare it: \<open>dataIndex\<close> may be missing, a slot may render the cell.\<close>

record view_column =
  vc_title :: "string option"
  vc_dataIndex :: "string option"
  vc_sorter :: bool
  vc_needTotal :: bool
  vc_slot :: "string option"

definition col :: "string \<Rightarrow> string option \<Rightarrow> bool \<Rightarrow> bool \<Rightarrow> string option \<Rightarrow> view_column" where
  "col t d s n slot = \<lparr>vc_title = Some t, vc_dataIndex = d, vc_sorter = s, vc_needTotal = n, vc_slot = slot\<rparr>"

text \<open>What the table component reads of a column.\<close>

definition to_column :: "view_column \<Rightarrow> column" where
  "to_column c = \<lparr>c_title = (case vc_title c of None \<Rightarrow> '''' | Some t \<Rightarrow> t),
     c_dataIndex = (case vc_dataIndex c of None \<Rightarrow> '''' | Some d \<Rightarrow> d), c_needTotal = vc_needTotal c\<rparr>"

definition rule_no :: string where "rule_no = utf8 [0x89C4, 0x5219, 0x7F16, 0x53F7]"
definition rule_desc :: string where "rule_desc = utf8 [0x63CF, 0x8FF0]"
definition call_count :: string where "call_count = utf8 [0x670D, 0x52A1, 0x8C03, 0x7528, 0x6B21, 0x6570]"
definition state_title :: string where "state_title = utf8 [0x72B6, 0x6001]"
definition updated_title :: string where "updated_title = utf8 [0x66F4, 0x65B0, 0x65F6, 0x95F4]"
definition action_title :: string where "action_title = utf8 [0x64CD, 0x4F5C]"

definition TableList_columns :: "view_column list" where
  "TableList_columns =
     [col ''#'' None False False (Some ''serial''),
      col rule_no (Some ''no'') False False None,
      col rule_desc (Some ''description'') False False (Some ''description''),
      col call_count (Some ''callNo'') True True None,
      col state_title (Some ''status'') False False (Some ''status''),
      col updated_title (Some ''updatedAt'') True False None,
      col action_title (Some ''action'') False False (Some ''action'')]"

definition List_columns :: "view_column list" where
  "List_columns =
     [col ''#'' None False False (Some ''serial''),
      col rule_no (Some ''no'') False False None,
      col rule_desc (Some ''description'') False False None,
      col call_count (Some ''callNo'') True True None,
      col state_title (Some ''status'') False True None,
      col updated_title (Some ''updatedAt'') True False None,
      col action_title (Some ''action'') False False (Some ''action'')]"

text \<open>The last column has its title under the key \<open>table\<close>, so it has none.\<close>

definition TableInnerEditList_columns :: "view_column list" where
  "TableInnerEditList_columns =
     [col rule_no (Some ''no'') False False None,
      col rule_desc (Some ''description'') False False (Some ''description''),
      col call_count (Some ''callNo'') True True (Some ''callNo''),
      col state_title (Some ''status'') False True (Some ''status''),
      col updated_title (Some ''updatedAt'') True False (Some ''updatedAt''),
      (col '''' (Some ''action'') False False (Some ''action''))\<lparr>vc_title := None\<rparr>]"

text \<open>The slots the pages fill. The inner-edit list fills one per column that names a slot, and the action
  slot again.\<close>

definition TableList_slots :: "string list" where
  "TableList_slots = [''serial'', ''status'', ''description'', ''action'']"

definition statusMap :: "int \<Rightarrow> (string \<times> string) option" where
  "statusMap = map_of
     [(0, (''default'', utf8 [0x5173, 0x95ED])),
      (1, (''processing'', utf8 [0x8FD0, 0x884C, 0x4E2D])),
      (2, (''success'', utf8 [0x5DF2, 0x4E0A, 0x7EBF])),
      (3, (''error'', utf8 [0x5F02, 0x5E38]))]"

definition statusFilter :: "int \<Rightarrow> js_error + string" where
  "statusFilter type = (case statusMap type of None \<Rightarrow> Inl TypeError | Some st \<Rightarrow> Inr (snd st))"

definition statusTypeFilter :: "int \<Rightarrow> js_error + string" where
  "statusTypeFilter type = (case statusMap type of None \<Rightarrow> Inl TypeError | Some st \<Rightarrow> Inr (fst st))"

lemma TableList_slots_filled:
  "\<forall>c \<in> set TableList_columns. \<forall>s. vc_slot c = Some s \<longrightarrow> s \<in> set TableList_slots"
  by (simp add: TableList_columns_def TableList_slots_def col_def)

text \<open>Only the number of calls is summed up in the alert of \<open>TableList\<close>.\<close>

lemma TableList_totals:
  "map (c_dataIndex \<circ> fst) (initTotalList (Some (map to_column TableList_columns))) = [''callNo'']"
  by (simp add: initTotalList_def TableList_columns_def to_column_def col_def)

section \<open>The list page\<close>

record 'r list_page =
  lp_visible :: bool
  lp_confirmLoading :: bool
  mdl :: "'r option"
  advanced :: bool
  queryParam :: params
  page_selectedRowKeys :: "string list"
  page_selectedRows :: "'r list"
  saving_ids :: "int list"
  form_resets :: nat
  infos_shown :: "string list"
  errors_shown :: "string list"
  page_table :: "'r table_state"

definition TableList_props :: table_props where
  "TableList_props = (default_props (Some (map to_column TableList_columns)))
     \<lparr>t_alert := AlertFlag True, t_rowSelection := Selection True\<rparr>"

definition created_page :: "'r list_page" where
  "created_page = \<lparr>lp_visible = False, lp_confirmLoading = False, mdl = None, advanced = False,
     queryParam = (\<lambda>_. None), page_selectedRowKeys = [], page_selectedRows = [], saving_ids = [],
     form_resets = 0, infos_shown = [], errors_shown = [],
     page_table = created TableList_props None (init_table TableList_props)\<rparr>"

text \<open>What is sent to the server for a request of the table: the query of the page wins.\<close>

definition requestParameters :: "params \<Rightarrow> params \<Rightarrow> params" where
  "requestParameters parameter query = parameter ++ query"

definition handleAdd :: "'r list_page \<Rightarrow> 'r list_page" where
  "handleAdd p = p\<lparr>mdl := None, lp_visible := True\<rparr>"

definition handleEdit :: "'r \<Rightarrow> 'r list_page \<Rightarrow> 'r list_page" where
  "handleEdit record p = p\<lparr>lp_visible := True, mdl := Some record\<rparr>"

text \<open>With what the form's validation calls back; saving takes a second.\<close>

definition list_handleOk :: "bool \<Rightarrow> int \<Rightarrow> 'r list_page \<Rightarrow> 'r list_page" where
  "list_handleOk errors i p =
     (let p = p\<lparr>lp_confirmLoading := True\<rparr> in
      if \<not> errors then p\<lparr>saving_ids := saving_ids p @ [i]\<rparr> else p\<lparr>lp_confirmLoading := False\<rparr>)"

definition updated_text :: string where "updated_text = utf8 [0x4FEE, 0x6539, 0x6210, 0x529F]"
definition added_text :: string where "added_text = utf8 [0x65B0, 0x589E, 0x6210, 0x529F]"

definition list_saved :: "'r list_page \<Rightarrow> 'r list_page" where
  "list_saved p =
     (case saving_ids p of
        [] \<Rightarrow> p
      | i # is \<Rightarrow>
          p\<lparr>saving_ids := is, lp_visible := False, lp_confirmLoading := False,
            form_resets := Suc (form_resets p),
            page_table := refresh TableList_props False True (page_table p),
            infos_shown := infos_shown p @ [if 0 < i then updated_text else added_text]\<rparr>)"

definition list_handleCancel :: "'r list_page \<Rightarrow> 'r list_page" where
  "list_handleCancel p = p\<lparr>lp_visible := False, form_resets := Suc (form_resets p)\<rparr>"

definition handleSub :: "string \<Rightarrow> int \<Rightarrow> 'r list_page \<Rightarrow> 'r list_page" where
  "handleSub no status p =
     (if status \<noteq> 0
      then p\<lparr>infos_shown := infos_shown p @ [no @ '' '' @ utf8 [0x8BA2, 0x9605, 0x6210, 0x529F]]\<rparr>
      else p\<lparr>errors_shown := errors_shown p @
        [no @ '' '' @ utf8 [0x8BA2, 0x9605, 0x5931, 0x8D25, 0xFF0C, 0x89C4, 0x5219, 0x5DF2, 0x5173, 0x95ED]]\<rparr>)"

definition onSelectChange :: "string list \<Rightarrow> 'r list \<Rightarrow> 'r list_page \<Rightarrow> 'r list_page" where
  "onSelectChange ks rs p = p\<lparr>page_selectedRowKeys := ks, page_selectedRows := rs\<rparr>"

definition toggleAdvanced :: "'r list_page \<Rightarrow> 'r list_page" where
  "toggleAdvanced p = p\<lparr>advanced := \<not> advanced p\<rparr>"

definition resetSearchForm :: "string \<Rightarrow> 'r list_page \<Rightarrow> 'r list_page" where
  "resetSearchForm now p = p\<lparr>queryParam := [''date'' \<mapsto> PText now]\<rparr>"

text \<open>The two buttons of the search form.\<close>

definition search_click :: "'r list_page \<Rightarrow> 'r list_page" where
  "search_click p = p\<lparr>page_table := refresh TableList_props True True (page_table p)\<rparr>"

definition reset_click :: "'r list_page \<Rightarrow> 'r list_page" where
  "reset_click p = p\<lparr>queryParam := (\<lambda>_. None)\<rparr>"

datatype 'r list_event =
    Add | EditRow 'r | Ok bool int | SaveDone | CancelForm | Sub string int
  | SelectRows "string list" "'r list" | ToggleAdvanced | ResetSearch string | SearchClick | ResetClick

fun list_step :: "'r list_page \<Rightarrow> 'r list_event \<Rightarrow> 'r list_page" where
  "list_step p Add = handleAdd p"
| "list_step p (EditRow r) = handleEdit r p"
| "list_step p (Ok errors i) = list_handleOk errors i p"
| "list_step p SaveDone = list_saved p"
| "list_step p CancelForm = list_handleCancel p"
| "list_step p (Sub no status) = handleSub no status p"
| "list_step p (SelectRows ks rs) = onSelectChange ks rs p"
| "list_step p ToggleAdvanced = toggleAdvanced p"
| "list_step p (ResetSearch now) = resetSearchForm now p"
| "list_step p SearchClick = search_click p"
| "list_step p ResetClick = reset_click p"

text \<open>The button of the form is loading while a save runs, and takes no click then.\<close>

inductive list_reachable :: "'r list_page \<Rightarrow> bool" where
  list_start: "list_reachable created_page"
| list_next: "list_reachable p \<Longrightarrow> (\<forall>errors i. e = Ok errors i \<longrightarrow> \<not> lp_confirmLoading p) \<Longrightarrow>
    list_reachable (list_step p e)"

lemma list_reachable_saving:
  "list_reachable p \<Longrightarrow> lp_confirmLoading p = (saving_ids p \<noteq> []) \<and> length (saving_ids p) \<le> 1"
proof (induction rule: list_reachable.induct)
  case list_start
  then show ?case by (simp add: created_page_def)
next
  case (list_next p e)
  then show ?case
    by (cases e)
      (auto simp: handleAdd_def handleEdit_def list_handleOk_def list_saved_def list_handleCancel_def handleSub_def
        onSelectChange_def toggleAdvanced_def resetSearchForm_def search_click_def reset_click_def Let_def
        split: list.splits)
qed



text \<open>A save that ends closes the form, also when another one was opened meanwhile, and resets what was
  typed there.\<close>

lemma save_closes_other_form:
  assumes "saving_ids p = [i]"
  shows "lp_visible (list_step (list_step p CancelForm) Add) \<and>
    \<not> lp_visible (list_step (list_step (list_step p CancelForm) Add) SaveDone)"
  using assms by (simp add: list_handleCancel_def handleAdd_def list_saved_def)

section \<open>The form in steps\<close>

definition stepForms :: "string list list" where
  "stepForms = [[''name'', ''desc''], [''target'', ''template'', ''type''], [''time'', ''frequency'']]"

text \<open>The fields shown while \<open>currentStep\<close> is a given number.\<close>

definition step_fields :: "nat \<Rightarrow> string list" where
  "step_fields n =
     (if n = 0 then [''name'', ''desc'']
      else if n = 1 then [''target'', ''template'', ''type'']
      else if n = 2 then [''time'', ''frequency''] else [])"

record step_modal =
  sm_visible :: bool
  sm_confirmLoading :: bool
  currentStep :: nat
  step_checks :: "(string list option \<times> nat) list"
  step_timers :: nat
  step_oks :: nat

definition init_step_modal :: step_modal where
  "init_step_modal = \<lparr>sm_visible = False, sm_confirmLoading = False, currentStep = 0, step_checks = [],
     step_timers = 0, step_oks = 0\<rparr>"

definition step_edit :: "step_modal \<Rightarrow> step_modal" where
  "step_edit m = m\<lparr>sm_visible := True\<rparr>"

text \<open>A validation under way: of which fields (of all, in the last step), and the step it leads to.\<close>

definition handleNext :: "nat \<Rightarrow> step_modal \<Rightarrow> step_modal" where
  "handleNext step m =
     (let next = step + 1 in
      if next \<le> 2 then m\<lparr>step_checks := step_checks m @ [(Some (stepForms ! currentStep m), next)]\<rparr>
      else m\<lparr>sm_confirmLoading := True, step_checks := step_checks m @ [(None, next)]\<rparr>)"

definition step_checked :: "bool \<Rightarrow> step_modal \<Rightarrow> step_modal" where
  "step_checked errors m =
     (case step_checks m of
        [] \<Rightarrow> m
      | (Some _, n) # cs \<Rightarrow>
          (if \<not> errors then m\<lparr>step_checks := cs, currentStep := n\<rparr> else m\<lparr>step_checks := cs\<rparr>)
      | (None, n) # cs \<Rightarrow>
          (if \<not> errors then m\<lparr>step_checks := cs, step_timers := Suc (step_timers m)\<rparr>
           else m\<lparr>step_checks := cs, sm_confirmLoading := False\<rparr>))"

definition step_finished :: "step_modal \<Rightarrow> step_modal" where
  "step_finished m = (if step_timers m = 0 then m
     else m\<lparr>step_timers := step_timers m - 1, sm_confirmLoading := False, step_oks := Suc (step_oks m)\<rparr>)"

definition backward :: "step_modal \<Rightarrow> step_modal" where
  "backward m = m\<lparr>currentStep := currentStep m - 1\<rparr>"

definition step_cancel :: "step_modal \<Rightarrow> step_modal" where
  "step_cancel m = m\<lparr>sm_visible := False, currentStep := 0\<rparr>"

datatype step_event = StepEdit | Next | Checked bool | Finished | Backward | StepCancelled

text \<open>The way back is offered from the second step on; the button ahead hands over the current step.\<close>

fun step_modal_step :: "step_modal \<Rightarrow> step_event \<Rightarrow> step_modal" where
  "step_modal_step m StepEdit = step_edit m"
| "step_modal_step m Next = handleNext (currentStep m) m"
| "step_modal_step m (Checked errors) = step_checked errors m"
| "step_modal_step m Finished = step_finished m"
| "step_modal_step m Backward = (if 0 < currentStep m then backward m else m)"
| "step_modal_step m StepCancelled = step_cancel m"

definition step_inv :: "step_modal \<Rightarrow> bool" where
  "step_inv m \<longleftrightarrow> currentStep m \<le> 2 \<and>
     list_all (\<lambda>c. fst c = None \<or> snd c \<le> 2) (step_checks m)"

lemma step_modal_inv: "step_inv m \<Longrightarrow> step_inv (step_modal_step m e)"
  by (cases e)
    (auto simp: step_inv_def step_edit_def handleNext_def step_checked_def step_finished_def backward_def
      step_cancel_def Let_def split: list.splits option.splits)

interpretation steps: machine "\<lambda>_ _. True" step_modal_step step_inv
  by unfold_locales (rule step_modal_inv)

text \<open>The form in steps always shows one of its three steps, and validates, to leave a step, the fields
  shown in it.\<close>

theorem step_modal_shows_step:
  "currentStep (foldl step_modal_step init_step_modal es) \<le> 2 \<and>
   step_fields (currentStep (foldl step_modal_step init_step_modal es)) =
     stepForms ! currentStep (foldl step_modal_step init_step_modal es)"
proof -
  have "step_inv (foldl step_modal_step init_step_modal es)"
    by (intro steps.run_inv) (simp_all add: step_inv_def init_step_modal_def)
  then have le: "currentStep (foldl step_modal_step init_step_modal es) \<le> 2" by (simp add: step_inv_def)
  moreover have "step_fields n = stepForms ! n" if "n \<le> 2" for n
  proof -
    have "n = 0 \<or> n = 1 \<or> n = 2" using that by auto
    then show ?thesis by (auto simp: step_fields_def stepForms_def)
  qed
  ultimately show ?thesis by blast
qed

text \<open>When the last step is done the modal reports it but stays open.\<close>

lemma step_modal_stays_open:
  "sm_visible (step_finished m) = sm_visible m \<and> currentStep (step_finished m) = currentStep m"
  by (simp add: step_finished_def)

section \<open>The list with a switchable alert\<close>

record list_options =
  lo_alert :: bool
  lo_rowSelection :: "string list option"

record select_page =
  sp_keys :: "string list"
  options :: list_options
  optionAlertShow :: bool

text \<open>The selection handed to the table holds the array of selected keys there was at this time.\<close>

definition tableOption :: "select_page \<Rightarrow> select_page" where
  "tableOption p =
     (if \<not> optionAlertShow p
      then p\<lparr>options := \<lparr>lo_alert = True, lo_rowSelection = Some (sp_keys p)\<rparr>, optionAlertShow := True\<rparr>
      else p\<lparr>options := \<lparr>lo_alert = False, lo_rowSelection = None\<rparr>, optionAlertShow := False\<rparr>)"

definition created_select :: select_page where
  "created_select = tableOption
     \<lparr>sp_keys = [], options = \<lparr>lo_alert = True, lo_rowSelection = Some []\<rparr>, optionAlertShow = False\<rparr>"

definition select_keys :: "string list \<Rightarrow> select_page \<Rightarrow> select_page" where
  "select_keys ks p = p\<lparr>sp_keys := ks\<rparr>"

text \<open>Switching the alert off and on again keeps the selection; a selection made in between does not reach
  the options.\<close>

lemma tableOption_twice:
  "optionAlertShow p \<Longrightarrow> lo_rowSelection (options (tableOption (tableOption p))) = Some (sp_keys p)"
  by (simp add: tableOption_def)

lemma selection_not_handed_on:
  "lo_rowSelection (options (select_keys ks created_select)) = Some []"
  by (simp add: created_select_def tableOption_def select_keys_def)

section \<open>Permission names\<close>

definition PERMISSION_ENUM :: "(string \<times> string) list" where
  "PERMISSION_ENUM =
     [(''add'', utf8 [0x65B0, 0x589E]), (''delete'', utf8 [0x5220, 0x9664]), (''edit'', utf8 [0x4FEE, 0x6539]),
      (''query'', utf8 [0x67E5, 0x8BE2]), (''get'', utf8 [0x8BE6, 0x60C5]), (''enable'', utf8 [0x542F, 0x7528]),
      (''disable'', utf8 [0x7981, 0x7528]), (''import'', utf8 [0x5BFC, 0x5165]), (''export'', utf8 [0x5BFC, 0x51FA])]"

text \<open>The label of an action, for actions that are not the name of something every object inherits.\<close>

definition permissionFilter :: "string \<Rightarrow> string option" where
  "permissionFilter key = map_of PERMISSION_ENUM key"

end
