(* ===== verification/RolePages.thy ===== *)
theory RolePages
  imports ListPages MockRoles
begin

text \<open>
  The pages for roles and permissions: \<open>views/other/UserList.vue\<close>, \<open>RoleList.vue\<close> with
  \<open>modules/RoleModal.vue\<close>, and \<open>PermissionList.vue\<close>, on the roles and permissions the server
  lists. \<open>JSON.parse\<close> of the options text is an argument: the text is the server's.
\<close>

section \<open>Columns\<close>

definition id_title :: string where "id_title = utf8 [0x552F, 0x4E00, 0x8BC6, 0x522B, 0x7801]"
definition role_title :: string where "role_title = utf8 [0x89D2, 0x8272, 0x540D, 0x79F0]"
definition created_title :: string where "created_title = utf8 [0x521B, 0x5EFA, 0x65F6, 0x95F4]"

definition UserList_columns :: "view_column list" where
  "UserList_columns =
     [col id_title (Some ''id'') False False None,
      col role_title (Some ''name'') False False None,
      col state_title (Some ''status'') False False (Some ''status''),
      col created_title (Some ''createTime'') True False (Some ''createTime''),
      col action_title (Some ''action'') False False (Some ''action'')]"

definition RoleList_columns :: "view_column list" where
  "RoleList_columns =
     [col id_title (Some ''id'') False False None,
      col role_title (Some ''name'') False False None,
      col state_title (Some ''status'') False False None,
      col created_title (Some ''createTime'') True False None,
      col action_title (Some ''action'') False False (Some ''action'')]"

definition PermissionList_columns :: "view_column list" where
  "PermissionList_columns =
     [col id_title (Some ''id'') False False None,
      col (utf8 [0x6743, 0x9650, 0x540D, 0x79F0]) (Some ''name'') False False None,
      col (utf8 [0x53EF, 0x64CD, 0x4F5C, 0x6743, 0x9650]) (Some ''actions'') False False (Some ''actions''),
      col state_title (Some ''status'') False False (Some ''status''),
      col action_title (Some ''action'') False False (Some ''action'')]"

definition STATUS :: "int \<Rightarrow> string option" where
  "STATUS = map_of [(1, utf8 [0x542F, 0x7528]), (2, utf8 [0x7981, 0x7528])]"

definition permission_statusFilter :: "int \<Rightarrow> string option" where
  "permission_statusFilter = map_of [(1, utf8 [0x6B63, 0x5E38]), (2, utf8 [0x7981, 0x7528])]"

section \<open>Options of a permission\<close>

record option_item =
  oi_label :: string
  oi_value :: string
  oi_defaultCheck :: "bool option"

text \<open>\<open>actionEntitySet.map(...)\<close>, which throws when the set is missing.\<close>

definition actionsOptions :: "permission \<Rightarrow> js_error + option_item list" where
  "actionsOptions permission =
     (case p_actionEntitySet permission of
        None \<Rightarrow> Inl TypeError
      | Some es \<Rightarrow> Inr (map (\<lambda>a. \<lparr>oi_label = ae_describe a, oi_value = ae_action a,
          oi_defaultCheck = Some (ae_defaultCheck a)\<rparr>) es))"

text \<open>\<open>map\<close> with a function that may throw.\<close>

fun map_throws :: "('a \<Rightarrow> js_error + 'b) \<Rightarrow> 'a list \<Rightarrow> js_error + 'b list" where
  "map_throws f [] = Inr []"
| "map_throws f (x # xs) = both (f x) (map_throws f xs) (#)"

lemma map_throws_Inr: "(\<And>x. x \<in> set xs \<Longrightarrow> f x = Inr (g x)) \<Longrightarrow> map_throws f xs = Inr (map g xs)"
  by (induction xs) auto

lemma map_throws_Inl: "x \<in> set xs \<Longrightarrow> f x = Inl e \<Longrightarrow> \<exists>e. map_throws f xs = Inl e"
proof (induction xs)
  case (Cons y xs)
  then show ?case by (cases "f y"; cases "map_throws f xs") auto
qed simp

section \<open>The user list\<close>

record user_list =
  ul_visible :: bool
  ul_permissions :: "(permission \<times> option_item list) list"
  expandedRowKeys :: "string list"
  ul_fields :: "string \<rightharpoonup> string list option"
  ul_picked :: "(string \<times> string \<times> string \<times> int) option"

definition init_user_list :: user_list where
  "init_user_list = \<lparr>ul_visible = False, ul_permissions = [], expandedRowKeys = [],
     ul_fields = (\<lambda>_. None), ul_picked = None\<rparr>"

text \<open>The answer to the list of roles expands all its rows.\<close>

definition roles_loaded :: "listed_role listing \<Rightarrow> user_list \<Rightarrow> user_list" where
  "roles_loaded res u = u\<lparr>expandedRowKeys := map lr_id (li_data res)\<rparr>"

definition groupKey :: "permission \<Rightarrow> string" where
  "groupKey permission = ''permissions.'' @ p_permissionId permission"

text \<open>The form is filled at the next tick, after the handler has come to its end.\<close>

definition user_handleEdit :: "listed_role \<Rightarrow> user_list \<Rightarrow> user_list" where
  "user_handleEdit record u =
     (let u = u\<lparr>ul_visible := True\<rparr>;
          checkboxGroup = map (\<lambda>p. (groupKey p, p_actionList p)) (lr_permissions record)
      in case map_throws (\<lambda>p. map_sum id (Pair p) (actionsOptions p)) (lr_permissions record) of
           Inl e \<Rightarrow> u
         | Inr ps \<Rightarrow>
             u\<lparr>ul_permissions := ps,
               ul_picked := Some (lr_id record, lr_name record, lr_describe record, lr_status record),
               ul_fields := ul_fields u ++ map_of (rev checkboxGroup)\<rparr>)"

definition handleExpand :: "bool \<Rightarrow> string \<Rightarrow> user_list \<Rightarrow> user_list" where
  "handleExpand expanded i u =
     (if expanded then u\<lparr>expandedRowKeys := expandedRowKeys u @ [i]\<rparr>
      else u\<lparr>expandedRowKeys := filter (\<lambda>item. i \<noteq> item) (expandedRowKeys u)\<rparr>)"

text \<open>Opening a row that is closed and closing one that is open keep the keys without repetition.\<close>

lemma handleExpand_distinct:
  "distinct (expandedRowKeys u) \<Longrightarrow> (expanded \<longrightarrow> i \<notin> set (expandedRowKeys u)) \<Longrightarrow>
     distinct (expandedRowKeys (handleExpand expanded i u)) \<and>
     (i \<in> set (expandedRowKeys (handleExpand expanded i u)) \<longleftrightarrow> expanded)"
  by (auto simp: handleExpand_def)

lemma groupKey_inj: "groupKey p = groupKey q \<longleftrightarrow> p_permissionId p = p_permissionId q"
  by (simp add: groupKey_def)

lemma map_of_rev_groups:
  assumes "distinct (map p_permissionId ps)" "p \<in> set ps"
  shows "map_of (rev (map (\<lambda>p. (groupKey p, p_actionList p)) ps)) (groupKey p) = Some (p_actionList p)"
proof -
  have "distinct (map groupKey ps)"
    using assms(1) by (induction ps) (auto simp: groupKey_inj)
  then have "distinct (map fst (rev (map (\<lambda>p. (groupKey p, p_actionList p)) ps)))"
    by (simp add: rev_map [symmetric] comp_def)
  then show ?thesis using assms(2) by simp
qed

text \<open>Editing a role whose permissions all have action entities offers, for every permission, one option
  per entity, and checks in the permission's own group exactly the actions of its list; a role with a
  permission without entities opens the dialog with what it held before.\<close>

theorem edit_role:
  assumes "distinct (map p_permissionId (lr_permissions r))"
  shows "ul_visible (user_handleEdit r u) \<and>
    (if \<forall>p \<in> set (lr_permissions r). p_actionEntitySet p \<noteq> None
     then map fst (ul_permissions (user_handleEdit r u)) = lr_permissions r \<and>
       (\<forall>(p, os) \<in> set (ul_permissions (user_handleEdit r u)).
          map oi_value os = map ae_action (the (p_actionEntitySet p)) \<and>
          ul_fields (user_handleEdit r u) (groupKey p) = Some (p_actionList p))
     else user_handleEdit r u = u\<lparr>ul_visible := True\<rparr>)"
proof (cases "\<forall>p \<in> set (lr_permissions r). p_actionEntitySet p \<noteq> None")
  case True
  define opts where "opts p = map (\<lambda>a. \<lparr>oi_label = ae_describe a, oi_value = ae_action a,
    oi_defaultCheck = Some (ae_defaultCheck a)\<rparr>) (the (p_actionEntitySet p))" for p :: permission
  have "map_throws (\<lambda>p. map_sum id (Pair p) (actionsOptions p)) (lr_permissions r) =
      Inr (map (\<lambda>p. (p, opts p)) (lr_permissions r))"
    by (rule map_throws_Inr) (use True in \<open>auto simp: actionsOptions_def opts_def\<close>)
  then have e: "user_handleEdit r u = u\<lparr>ul_visible := True, ul_permissions := map (\<lambda>p. (p, opts p)) (lr_permissions r),
      ul_picked := Some (lr_id r, lr_name r, lr_describe r, lr_status r),
      ul_fields := ul_fields u ++ map_of (rev (map (\<lambda>p. (groupKey p, p_actionList p)) (lr_permissions r)))\<rparr>"
    by (simp add: user_handleEdit_def Let_def)
  have "map oi_value (opts p) = map ae_action (the (p_actionEntitySet p))" for p :: permission
    by (simp add: opts_def)
  moreover have "(ul_fields u ++ map_of (rev (map (\<lambda>p. (groupKey p, p_actionList p)) (lr_permissions r)))) (groupKey p) =
      Some (p_actionList p)" if "p \<in> set (lr_permissions r)" for p
    using map_of_rev_groups [OF assms that] by (simp add: map_add_def)
  ultimately show ?thesis using True by (auto simp: e comp_def)
next
  case False
  then obtain p where "p \<in> set (lr_permissions r)" "p_actionEntitySet p = None" by blast
  then have "\<exists>e. map_throws (\<lambda>p. map_sum id (Pair p) (actionsOptions p)) (lr_permissions r) = Inl e"
    by (intro map_throws_Inl) (auto simp: actionsOptions_def)
  then show ?thesis using False by (auto simp: user_handleEdit_def Let_def)
qed

definition order_role :: listed_role where
  "order_role = \<lparr>lr_id = ''clerk'', lr_name = ''Clerk'', lr_describe = [], lr_status = 1, lr_creatorId = ''system'',
     lr_createTime = 0, lr_deleted = 0,
     lr_permissions = [\<lparr>p_roleId = ''clerk'', p_permissionId = ''order'', p_permissionName = ''Orders'', p_actions = [],
       p_actionEntitySet = Some [\<lparr>ae_action = ''add'', ae_describe = ''Add'', ae_defaultCheck = False\<rparr>,
         \<lparr>ae_action = ''query'', ae_describe = ''Query'', ae_defaultCheck = True\<rparr>],
       p_actionList = Some [''query'']\<rparr>]\<rparr>"

lemma edit_role_witness:
  "map fst (ul_permissions (user_handleEdit order_role init_user_list)) = lr_permissions order_role"
proof -
  have "distinct (map p_permissionId (lr_permissions order_role))" by (simp add: order_role_def)
  from edit_role [OF this, of init_user_list] show ?thesis by (simp add: order_role_def)
qed

section \<open>The role modal\<close>

record modal_permission =
  mp_id :: string
  mp_options :: "option_item list"
  mp_selected :: "string list"
  mp_checkedAll :: bool
  mp_indeterminate :: bool

record role_modal =
  rm_visible :: bool
  rm_confirmLoading :: bool
  rm_mdl :: "listed_role option"
  rm_permissions :: "modal_permission list"
  rm_saving :: nat
  rm_emitted :: "string list"

definition init_role_modal :: role_modal where
  "init_role_modal = \<lparr>rm_visible = False, rm_confirmLoading = False, rm_mdl = None, rm_permissions = [],
     rm_saving = 0, rm_emitted = []\<rparr>"

text \<open>\<open>JSON.parse(permission.actionData) || []\<close>: the text may be \<open>null\<close>, or no JSON at all.\<close>

definition load_permission ::
    "(string \<Rightarrow> js_error + action_entity list option) \<Rightarrow> listed_permission \<Rightarrow> js_error + modal_permission" where
  "load_permission parse p =
     (case parse (lp_actionData p) of
        Inl e \<Rightarrow> Inl e
      | Inr parsed \<Rightarrow>
          Inr \<lparr>mp_id = lp_id p,
            mp_options = map (\<lambda>o1. \<lparr>oi_label = ae_describe o1, oi_value = ae_action o1, oi_defaultCheck = None\<rparr>)
              (case parsed of None \<Rightarrow> [] | Some es \<Rightarrow> es),
            mp_selected = [], mp_checkedAll = False, mp_indeterminate = False\<rparr>)"

definition loadPermissions ::
    "(string \<Rightarrow> js_error + action_entity list option) \<Rightarrow> js_error + listed_permission list \<Rightarrow> role_modal \<Rightarrow> role_modal" where
  "loadPermissions parse res m =
     (case res of
        Inl e \<Rightarrow> m
      | Inr result \<Rightarrow>
          (case map_throws (load_permission parse) result of
             Inl e \<Rightarrow> m
           | Inr ps \<Rightarrow> m\<lparr>rm_permissions := ps\<rparr>))"

text \<open>The actions of a role by permission, the last one of an id counting.\<close>

definition permissionsAction :: "permission list \<Rightarrow> js_error + (string \<times> string list) list" where
  "permissionsAction ps =
     map_throws (\<lambda>p. case p_actionEntitySet p of
       None \<Rightarrow> Inl TypeError | Some es \<Rightarrow> Inr (p_permissionId p, map ae_action es)) ps"

definition select_actions :: "(string \<times> string list) list \<Rightarrow> modal_permission \<Rightarrow> modal_permission" where
  "select_actions acts p =
     p\<lparr>mp_selected := (case map_of (rev acts) (mp_id p) of None \<Rightarrow> [] | Some as \<Rightarrow> as)\<rparr>"

definition modal_edit :: "listed_role \<Rightarrow> role_modal \<Rightarrow> role_modal" where
  "modal_edit record m =
     (let m = m\<lparr>rm_mdl := Some record, rm_visible := True\<rparr> in
      case permissionsAction (lr_permissions record) of
        Inl e \<Rightarrow> m
      | Inr acts \<Rightarrow> m\<lparr>rm_permissions := map (select_actions acts) (rm_permissions m)\<rparr>)"

text \<open>\<open>add\<close> edits an object that has an id only, and so no permissions to go through.\<close>

definition modal_add :: "role_modal \<Rightarrow> role_modal" where
  "modal_add m = m\<lparr>rm_mdl := None, rm_visible := True\<rparr>"

definition modal_close :: "role_modal \<Rightarrow> role_modal" where
  "modal_close m = m\<lparr>rm_emitted := rm_emitted m @ [''close''], rm_visible := False\<rparr>"

definition modal_handleOk :: "bool \<Rightarrow> role_modal \<Rightarrow> role_modal" where
  "modal_handleOk err m =
     (if \<not> err then m\<lparr>rm_confirmLoading := True, rm_saving := Suc (rm_saving m)\<rparr> else m)"

definition modal_saved :: "role_modal \<Rightarrow> role_modal" where
  "modal_saved m = (if rm_saving m = 0 then m
     else modal_close (m\<lparr>rm_saving := rm_saving m - 1, rm_emitted := rm_emitted m @ [''ok''], rm_confirmLoading := False\<rparr>))"

definition modal_handleCancel :: "role_modal \<Rightarrow> role_modal" where
  "modal_handleCancel m = modal_close m"

definition onChangeCheck :: "modal_permission \<Rightarrow> modal_permission" where
  "onChangeCheck p =
     p\<lparr>mp_indeterminate := mp_selected p \<noteq> [] \<and> length (mp_selected p) < length (mp_options p),
       mp_checkedAll := (length (mp_selected p) = length (mp_options p))\<rparr>"

definition onChangeCheckAll :: "bool \<Rightarrow> modal_permission \<Rightarrow> modal_permission" where
  "onChangeCheckAll checked p =
     p\<lparr>mp_selected := (if checked then map oi_value (mp_options p) else []),
       mp_indeterminate := False, mp_checkedAll := checked\<rparr>"

text \<open>The two flags of a permission say whether all, or some but not all of its options are selected.\<close>

definition flags_ok :: "modal_permission \<Rightarrow> bool" where
  "flags_ok p \<longleftrightarrow>
     (mp_checkedAll p \<longleftrightarrow> set (mp_selected p) = set (map oi_value (mp_options p))) \<and>
     (mp_indeterminate p \<longleftrightarrow> mp_selected p \<noteq> [] \<and> set (mp_selected p) \<noteq> set (map oi_value (mp_options p)))"

text \<open>After a check of single actions, and after a check of all of them, the two flags of a permission
  that has options agree with its selection.\<close>

theorem checkbox_flags:
  assumes "mp_options p \<noteq> []" "distinct (map oi_value (mp_options p))"
    "distinct (mp_selected p)" "set (mp_selected p) \<subseteq> set (map oi_value (mp_options p))"
  shows "flags_ok (onChangeCheck p) \<and> flags_ok (onChangeCheckAll checked p)"
proof -
  let ?os = "map oi_value (mp_options p)"
  have c: "length (mp_selected p) = card (set (mp_selected p))" "length (mp_options p) = card (set ?os)"
    using distinct_card [OF assms(3)] distinct_card [OF assms(2)] by simp_all
  have eq: "length (mp_selected p) = length (mp_options p) \<longleftrightarrow> set (mp_selected p) = set ?os"
    unfolding c using assms(4) card_subset_eq [of "set ?os"] by auto
  moreover have "length (mp_selected p) < length (mp_options p) \<longleftrightarrow> set (mp_selected p) \<noteq> set ?os"
    using eq assms(4) card_mono [of "set ?os" "set (mp_selected p)"] unfolding c by auto
  ultimately have "flags_ok (onChangeCheck p)" by (simp add: flags_ok_def onChangeCheck_def)
  moreover have "flags_ok (onChangeCheckAll checked p)"
    using assms(1) by (simp add: flags_ok_def onChangeCheckAll_def)
  ultimately show ?thesis by blast
qed

definition two_options :: modal_permission where
  "two_options = \<lparr>mp_id = ''order'',
     mp_options = [\<lparr>oi_label = ''a'', oi_value = ''add'', oi_defaultCheck = None\<rparr>,
       \<lparr>oi_label = ''q'', oi_value = ''query'', oi_defaultCheck = None\<rparr>],
     mp_selected = [''query''], mp_checkedAll = False, mp_indeterminate = False\<rparr>"

lemma checkbox_flags_witness: "flags_ok (onChangeCheck two_options) \<and> flags_ok (onChangeCheckAll True two_options)"
  by (rule checkbox_flags) (simp_all add: two_options_def)

text \<open>Opening a role selects its actions but leaves the flags as they were.\<close>

lemma edit_leaves_flags: "flags_ok (select_actions acts p) \<longleftrightarrow>
    (mp_checkedAll p \<longleftrightarrow> set (mp_selected (select_actions acts p)) = set (map oi_value (mp_options p))) \<and>
    (mp_indeterminate p \<longleftrightarrow> mp_selected (select_actions acts p) \<noteq> [] \<and>
       set (mp_selected (select_actions acts p)) \<noteq> set (map oi_value (mp_options p)))"
  by (simp add: flags_ok_def select_actions_def)

lemma edit_flags_stale: "\<not> flags_ok (select_actions [(''order'', [''query''])] (two_options\<lparr>mp_selected := []\<rparr>))"
  by (simp add: flags_ok_def select_actions_def two_options_def)

section \<open>Roles and permissions\<close>

text \<open>The handler of the role list gives the permissions of the listed record itself their options.\<close>

definition role_handleEdit :: "listed_role \<Rightarrow> js_error + (permission \<times> option_item list) list" where
  "role_handleEdit record = map_throws (\<lambda>p. map_sum id (Pair p) (actionsOptions p)) (lr_permissions record)"

definition permission_actions :: "(string \<times> string) list" where
  "permission_actions =
     [(utf8 [0x65B0, 0x589E], ''add''), (utf8 [0x67E5, 0x8BE2], ''get''), (utf8 [0x4FEE, 0x6539], ''update''),
      (utf8 [0x5217, 0x8868], ''query''), (utf8 [0x5220, 0x9664], ''delete''), (utf8 [0x5BFC, 0x5165], ''import''),
      (utf8 [0x5BFC, 0x51FA], ''export'')]"

text \<open>The answer to the list of permissions, each with its options.\<close>

definition permissions_loaded ::
    "(string \<Rightarrow> js_error + action_entity list option) \<Rightarrow> listed_permission listing \<Rightarrow>
     js_error + (listed_permission \<times> action_entity list option) list" where
  "permissions_loaded parse res = map_throws (\<lambda>p. map_sum id (Pair p) (parse (lp_actionData p))) (li_data res)"

text \<open>Of the actions a permission can be given, \<open>update\<close> is one that the permissions of the roles do not
  know: they say \<open>edit\<close>.\<close>

lemma update_is_unknown: "''update'' \<in> snd ` set permission_actions \<and> permissionFilter ''update'' = None"
  by (simp add: permission_actions_def permissionFilter_def PERMISSION_ENUM_def)

end
