(* ===== verification/Widgets.thy ===== *)
theory Widgets
  imports TextUtil Numbers Machines "HOL-Library.AList"
begin

text \<open>
  Reusable components: the text area with a limit (\<open>components/TextArea/index.jsx\<close>), the cut text
  (\<open>components/Ellipsis/Ellipsis.vue\<close>), the row of tags (\<open>components/TagSelect/\<close>), the list of
  avatars (\<open>components/AvatarList/List.jsx\<close>), the loading screen
  (\<open>components/PageLoading/index.jsx\<close>) and the notices (\<open>components/NoticeIcon/NoticeIcon.vue\<close>).
  What a component emits is listed in its state.
\<close>

section \<open>The text area with a limit\<close>

text \<open>A value that is not given is \<open>undefined\<close>, for which the width functions take the empty text.\<close>

record text_area =
  ta_value :: "code_units option"
  limit :: int
  currentLimit :: nat
  ta_emitted :: "code_units list"

definition text_of_value :: "code_units option \<Rightarrow> code_units" where
  "text_of_value v = (case v of None \<Rightarrow> [] | Some s \<Rightarrow> s)"

definition calcLimitNum :: "code_units option \<Rightarrow> text_area \<Rightarrow> text_area" where
  "calcLimitNum val a = a\<lparr>currentLimit := getStrFullLength (text_of_value val)\<rparr>"

definition created_area :: "code_units option \<Rightarrow> int \<Rightarrow> text_area" where
  "created_area v n = calcLimitNum v \<lparr>ta_value = v, limit = n, currentLimit = 0, ta_emitted = []\<rparr>"

definition area_handleChange :: "code_units \<Rightarrow> text_area \<Rightarrow> text_area" where
  "area_handleChange value a =
     (let len = getStrFullLength value in
      if int len \<le> limit a then a\<lparr>currentLimit := len, ta_emitted := ta_emitted a @ [value]\<rparr>
      else (let str = cutStrByFullLength value (limit a) in
            a\<lparr>currentLimit := getStrFullLength str, ta_emitted := ta_emitted a @ [str]\<rparr>))"

text \<open>The parent passes another value; with \<open>v-model\<close> it is the one emitted last.\<close>

definition set_value :: "code_units option \<Rightarrow> text_area \<Rightarrow> text_area" where
  "set_value v a = (if ta_value a = v then a else calcLimitNum v (a\<lparr>ta_value := v\<rparr>))"

definition typed :: "text_area \<Rightarrow> code_units \<Rightarrow> text_area" where
  "typed a value = (let a = area_handleChange value a in set_value (Some (last (ta_emitted a))) a)"

lemma fitting_id: "int (getStrFullLength s) \<le> n \<Longrightarrow> fitting n s = s"
  by (induction n s rule: fitting.induct) (auto simp: full_length_Cons)

lemma area_handleChange_simps:
  "area_handleChange value a =
    a\<lparr>currentLimit := getStrFullLength (fitting (limit a) value),
      ta_emitted := ta_emitted a @ [fitting (limit a) value]\<rparr>"
  using fitting_id [of "value" "limit a"] by (simp add: area_handleChange_def Let_def cut_eq_fitting)

lemma typed_value:
  "ta_value (typed a v) = Some (fitting (limit a) v) \<and> limit (typed a v) = limit a \<and>
    currentLimit (typed a v) = getStrFullLength (fitting (limit a) v)"
  by (simp add: typed_def area_handleChange_simps set_value_def calcLimitNum_def text_of_value_def Let_def)

text \<open>Whatever is typed into a text area that is bound with \<open>v-model\<close>, its text is then the longest
  beginning of what was typed last that fits into the limit, and the counter is its width. Only a first
  value can be wider than the limit, until something is typed.\<close>

theorem text_area_within_limit:
  assumes "0 \<le> n" "vs \<noteq> []"
  shows "ta_value (foldl typed (created_area v n) vs) = Some (cutStrByFullLength (last vs) n) \<and>
    int (currentLimit (foldl typed (created_area v n) vs)) \<le> n \<and>
    currentLimit (foldl typed (created_area v n) vs) = getStrFullLength (cutStrByFullLength (last vs) n)"
proof -
  obtain us u where vs: "vs = us @ [u]" using assms(2) by (cases vs rule: rev_cases) auto
  have l: "limit (foldl typed a us) = limit a" for a
    by (induction us arbitrary: a) (simp_all add: typed_value)
  have "limit (created_area v n) = n" by (simp add: created_area_def calcLimitNum_def)
  with l have "limit (foldl typed (created_area v n) us) = n" by simp
  with typed_value [of "foldl typed (created_area v n) us" u] show ?thesis
    using assms(1) by (simp add: vs cut_eq_fitting fitting_width)
qed

lemma text_area_within_limit_witness:
  "ta_value (foldl typed (created_area None 3) [[65, 0x4E2D, 66]]) = Some [65, 0x4E2D]"
  using text_area_within_limit [of 3 "[[65, 0x4E2D, 66]]" None]
  by (simp add: cut_eq_fitting unit_width_def)

lemma first_value_over_limit: "currentLimit (created_area (Some [65, 66]) 1) = 2"
  by (simp add: created_area_def calcLimitNum_def text_of_value_def full_length_Cons unit_width_def)

section \<open>The cut text\<close>

text \<open>What is shown, and the full text as a tooltip.\<close>

definition getStrDom :: "code_units \<Rightarrow> nat \<Rightarrow> int \<Rightarrow> code_units" where
  "getStrDom str fullLength n = cutStrByFullLength str n @ (if n < int fullLength then [46, 46, 46] else [])"

definition ellipsis :: "bool \<Rightarrow> int \<Rightarrow> code_units \<Rightarrow> code_units \<times> code_units option" where
  "ellipsis tooltip n str =
     (let fullLength = getStrFullLength str in
      (getStrDom str fullLength n, if tooltip \<and> n < int fullLength then Some str else None))"

lemma ellipsis_fits: "int (getStrFullLength str) \<le> n \<Longrightarrow> fst (ellipsis t n str) = cutStrByFullLength str n"
  by (simp add: ellipsis_def getStrDom_def)

text \<open>The dots come on top of the width asked for.\<close>

lemma ellipsis_width:
  assumes "0 \<le> n"
  shows "int (getStrFullLength (fst (ellipsis t n str))) \<le> n + 3"
proof -
  have "getStrFullLength (s @ [46, 46, 46]) = getStrFullLength s + 3" for s
    by (simp add: full_length_sum unit_width_def)
  then show ?thesis using fitting_width [OF assms, of str] assms
    by (simp add: ellipsis_def getStrDom_def cut_eq_fitting Let_def)
qed

section \<open>The row of tags\<close>

text \<open>The value of an option is a text or a number; as the name of a property a number is its text.\<close>

datatype tag_value = StrTag string | NumTag nat

fun tag_key :: "tag_value \<Rightarrow> string" where
  "tag_key (StrTag s) = s"
| "tag_key (NumTag n) = decimal n"

fun tag_truthy :: "tag_value \<Rightarrow> bool" where
  "tag_truthy (StrTag s) = (s \<noteq> [])"
| "tag_truthy (NumTag n) = (n \<noteq> 0)"

record tag_option =
  to_value :: tag_value
  localChecked :: bool

record tag_select =
  tag_items :: "(string \<times> bool) list"
  localCheckAll :: bool
  tag_options :: "tag_option list"
  all_option :: bool
  tag_changes :: "(tag_value \<times> bool) list"

definition getItemsKey :: "tag_value list \<Rightarrow> (string \<times> bool) list" where
  "getItemsKey vs = foldl (\<lambda>totalItem v. AList.update (tag_key v) False totalItem) [] vs"

definition created_select_tags :: "tag_option list \<Rightarrow> tag_select" where
  "created_select_tags os = \<lparr>tag_items = getItemsKey (map to_value os), localCheckAll = False, tag_options = os,
     all_option = False, tag_changes = []\<rparr>"

text \<open>The name of the property that \<open>onChange\<close> sets: it filters the names of the items by identity with
  the value and uses the resulting array as a name. A number is identical to no name, and the empty array is
  the empty name.\<close>

definition changed_key :: "tag_value \<Rightarrow> (string \<times> bool) list \<Rightarrow> string" where
  "changed_key v items =
     (case v of StrTag k \<Rightarrow> if k \<in> set (map fst items) then k else [] | NumTag n \<Rightarrow> [])"

definition tags_onChange :: "tag_value \<Rightarrow> bool \<Rightarrow> tag_select \<Rightarrow> tag_select" where
  "tags_onChange v checked s =
     (let items = AList.update (changed_key v (tag_items s)) checked (tag_items s) in
      s\<lparr>tag_items := items, localCheckAll := list_all snd items\<rparr>)"

definition tags_onCheckAll :: "bool \<Rightarrow> tag_select \<Rightarrow> tag_select" where
  "tags_onCheckAll checked s =
     s\<lparr>tag_items := map (\<lambda>(k, v). (k, checked)) (tag_items s), localCheckAll := checked\<rparr>"

text \<open>The options watch the items of their parent. Only the properties the object was created with are
  reactive, so that a property added later triggers nothing.\<close>

definition option_watch :: "(string \<times> bool) list \<Rightarrow> tag_option \<Rightarrow> tag_option" where
  "option_watch val opt =
     (if tag_truthy (to_value opt) \<and> tag_key (to_value opt) \<in> set (map fst val)
      then opt\<lparr>localChecked := the (map_of val (tag_key (to_value opt)))\<rparr> else opt)"

definition tag_watchers :: "tag_select \<Rightarrow> tag_select \<Rightarrow> tag_select" where
  "tag_watchers old s =
     (let s = (if \<exists>opt \<in> set (tag_options s). map_of (tag_items s) (tag_key (to_value opt)) \<noteq>
                    map_of (tag_items old) (tag_key (to_value opt))
               then s\<lparr>tag_options := map (option_watch (tag_items s)) (tag_options s)\<rparr> else s)
      in if localCheckAll s \<noteq> localCheckAll old then s\<lparr>all_option := localCheckAll s\<rparr> else s)"

text \<open>Clicks on a tag and on the tag for all of them: each first toggles itself, then reports.\<close>

definition click_tag :: "nat \<Rightarrow> tag_select \<Rightarrow> tag_select" where
  "click_tag i s =
     (if i < length (tag_options s)
      then (let opt = tag_options s ! i; checked = \<not> localChecked opt in
            tag_watchers s
              (tags_onChange (to_value opt) checked
                (s\<lparr>tag_options := (tag_options s)[i := opt\<lparr>localChecked := checked\<rparr>],
                   tag_changes := tag_changes s @ [(to_value opt, checked)]\<rparr>)))
      else s)"

definition click_all :: "tag_select \<Rightarrow> tag_select" where
  "click_all s =
     (let checked = \<not> all_option s in
      tag_watchers s
        (tags_onCheckAll checked
          (s\<lparr>all_option := checked, tag_changes := tag_changes s @ [(StrTag ''total'', checked)]\<rparr>)))"

fun tag_step :: "tag_select \<Rightarrow> nat option \<Rightarrow> tag_select" where
  "tag_step s (Some i) = click_tag i s"
| "tag_step s None = click_all s"

text \<open>Texts as values, all different and none empty.\<close>

definition good_values :: "tag_value list \<Rightarrow> bool" where
  "good_values vs \<longleftrightarrow> vs \<noteq> [] \<and> distinct (map tag_key vs) \<and> (\<forall>v \<in> set vs. \<exists>t. v = StrTag t \<and> t \<noteq> [])"

definition tags_inv :: "tag_select \<Rightarrow> bool" where
  "tags_inv s \<longleftrightarrow> good_values (map to_value (tag_options s)) \<and>
     tag_items s = map (\<lambda>opt. (tag_key (to_value opt), localChecked opt)) (tag_options s) \<and>
     localCheckAll s = list_all localChecked (tag_options s) \<and> all_option s = localCheckAll s"

lemma update_items:
  "distinct (map f xs) \<Longrightarrow> k \<in> f ` set xs \<Longrightarrow>
     AList.update k c (map (\<lambda>x. (f x, g x)) xs) = map (\<lambda>x. (f x, if f x = k then c else g x)) xs"
proof (induction xs)
  case (Cons x xs)
  show ?case
  proof (cases "k = f x")
    case True
    then have "\<forall>y \<in> set xs. f y \<noteq> k" using Cons.prems(1) by (auto simp: image_iff)
    then show ?thesis using True by simp
  next
    case False
    then show ?thesis using Cons by simp
  qed
qed simp

lemma map_of_items:
  "distinct (map f xs) \<Longrightarrow> x \<in> set xs \<Longrightarrow> map_of (map (\<lambda>x. (f x, g x)) xs) (f x) = Some (g x)"
  by (induction xs) (auto simp: image_iff)

text \<open>Once the items are known, the options follow them, whether the watcher runs or not.\<close>

lemma option_watch_items:
  assumes "good_values (map to_value os)" "x \<in> set os"
  shows "option_watch (map (\<lambda>x. (tag_key (to_value x), g x)) os) x = x\<lparr>localChecked := g x\<rparr>"
proof -
  have "map_of (map (\<lambda>x. (tag_key (to_value x), g x)) os) (tag_key (to_value x)) = Some (g x)"
    using assms map_of_items [of "tag_key \<circ> to_value" os x g] by (simp add: good_values_def comp_def)
  moreover have "tag_truthy (to_value x)" using assms by (auto simp: good_values_def)
  ultimately show ?thesis using assms(2) by (auto simp: option_watch_def image_iff)
qed

lemma watchers_follow:
  assumes "good_values (map to_value (tag_options s))" "tag_items s = map (\<lambda>x. (tag_key (to_value x), g x)) (tag_options s)"
    "(\<forall>x \<in> set (tag_options s). map_of (tag_items s) (tag_key (to_value x)) =
        map_of (tag_items old) (tag_key (to_value x))) \<longrightarrow> (\<forall>x \<in> set (tag_options s). localChecked x = g x)"
    "all_option s = localCheckAll old \<or> all_option s = localCheckAll s" "localCheckAll s = list_all g (tag_options s)"
  shows "tags_inv (tag_watchers old s) \<and> map to_value (tag_options (tag_watchers old s)) = map to_value (tag_options s) \<and>
    tag_changes (tag_watchers old s) = tag_changes s"
proof -
  let ?os = "map (\<lambda>x. x\<lparr>localChecked := g x\<rparr>) (tag_options s)"
  have "map (option_watch (tag_items s)) (tag_options s) = ?os"
    using option_watch_items [OF assms(1)] unfolding assms(2) by simp
  moreover have "tag_options s = ?os" if "\<forall>x \<in> set (tag_options s). localChecked x = g x"
    using that by (simp add: map_idI)
  ultimately have "tag_watchers old s = s\<lparr>tag_options := ?os, all_option := localCheckAll s\<rparr>"
    using assms(3,4) by (auto simp: tag_watchers_def Let_def)
  then show ?thesis using assms(1,2,5)
    by (simp add: tags_inv_def list.pred_map comp_def)
qed

lemma click_tag_inv:
  assumes "tags_inv s"
  shows "tags_inv (click_tag i s) \<and> map to_value (tag_options (click_tag i s)) = map to_value (tag_options s)"
proof (cases "i < length (tag_options s)")
  case True
  define opt where "opt = tag_options s ! i"
  define k where "k = tag_key (to_value opt)"
  define c where "c = (\<not> localChecked opt)"
  define os where "os = (tag_options s)[i := opt\<lparr>localChecked := c\<rparr>]"
  define g where "g = (\<lambda>x :: tag_option. if tag_key (to_value x) = k then c else localChecked x)"
  have i: "good_values (map to_value (tag_options s))" "all_option s = localCheckAll s"
    "tag_items s = map (\<lambda>x. (tag_key (to_value x), localChecked x)) (tag_options s)"
    using assms by (simp_all add: tags_inv_def)
  have opt: "opt \<in> set (tag_options s)" using True by (simp add: opt_def)
  have same: "map h os = map h (tag_options s)" if "h (opt\<lparr>localChecked := c\<rparr>) = h opt" for h :: "tag_option \<Rightarrow> 'x"
    using True that list_update_id [of "map h (tag_options s)" i] by (simp add: os_def opt_def map_update)
  have d: "distinct (map (\<lambda>x. tag_key (to_value x)) (tag_options s))"
    using i(1) by (simp add: good_values_def comp_def)
  obtain v where v: "to_value opt = StrTag v" using i(1) opt by (auto simp: good_values_def)
  have "v \<in> set (map fst (tag_items s))" using opt v unfolding i(3) by force
  then have "changed_key (to_value opt) (tag_items s) = k" by (simp add: changed_key_def k_def v)
  then have items: "AList.update (changed_key (to_value opt) (tag_items s)) c (tag_items s) =
      map (\<lambda>x. (tag_key (to_value x), g x)) os"
    using update_items [OF d, of k c localChecked] opt same [of "\<lambda>x. (tag_key (to_value x), g x)"]
    by (simp add: i(3) g_def k_def)
  let ?s = "tags_onChange (to_value opt) c (s\<lparr>tag_options := os, tag_changes := tag_changes s @ [(to_value opt, c)]\<rparr>)"
  have "good_values (map to_value os)" using i(1) same [of to_value] by simp
  moreover have "localChecked x = g x" if "x \<in> set os" for x
  proof -
    obtain j where j: "j < length os" "x = os ! j" using \<open>x \<in> set os\<close> by (auto simp: in_set_conv_nth)
    show ?thesis
    proof (cases "j = i")
      case True
      then show ?thesis using j by (simp add: os_def g_def k_def)
    next
      case False
      then have "tag_key (to_value x) \<noteq> k"
        using d j True by (auto simp: os_def k_def opt_def distinct_conv_nth)
      then show ?thesis by (simp add: g_def)
    qed
  qed
  ultimately have "tags_inv (tag_watchers s ?s) \<and> map to_value (tag_options (tag_watchers s ?s)) = map to_value os"
    using watchers_follow [of ?s g s] items i(2)
    by (simp add: tags_onChange_def Let_def list.pred_map comp_def)
  then show ?thesis
    using True same [of to_value] by (simp add: click_tag_def Let_def opt_def os_def c_def)
qed (use assms in \<open>simp add: click_tag_def\<close>)

lemma click_all_inv:
  assumes "tags_inv s"
  shows "tags_inv (click_all s) \<and> map to_value (tag_options (click_all s)) = map to_value (tag_options s)"
proof -
  define c where "c = (\<not> all_option s)"
  have i: "good_values (map to_value (tag_options s))" "all_option s = localCheckAll s"
    "localCheckAll s = list_all localChecked (tag_options s)"
    "tag_items s = map (\<lambda>x. (tag_key (to_value x), localChecked x)) (tag_options s)"
    using assms by (simp_all add: tags_inv_def)
  let ?s = "tags_onCheckAll c (s\<lparr>all_option := c, tag_changes := tag_changes s @ [(StrTag ''total'', c)]\<rparr>)"
  have new: "map_of (map (\<lambda>x. (tag_key (to_value x), h x)) (tag_options s)) (tag_key (to_value x)) = Some (h x)"
    if "x \<in> set (tag_options s)" for x h
    using i(1) that map_of_items [of "tag_key \<circ> to_value" "tag_options s" x h] by (simp add: good_values_def comp_def)
  have items: "tag_items ?s = map (\<lambda>x. (tag_key (to_value x), c)) (tag_options s)"
    by (simp add: tags_onCheckAll_def i(4))
  have "list_all (\<lambda>x. c) (tag_options s) = c"
    using i(1) by (cases "tag_options s") (auto simp: good_values_def list_all_iff)
  moreover have "localChecked x = c"
    if "x \<in> set (tag_options s)" "map_of (tag_items ?s) (tag_key (to_value x)) = map_of (tag_items s) (tag_key (to_value x))" for x
    using that(2) new [OF that(1), of "\<lambda>x. c"] new [OF that(1), of localChecked]
    unfolding items i(4) by simp
  ultimately have "tags_inv (tag_watchers s ?s) \<and>
      map to_value (tag_options (tag_watchers s ?s)) = map to_value (tag_options ?s) \<and> tag_changes (tag_watchers s ?s) = tag_changes ?s"
    by (intro watchers_follow [of _ "\<lambda>x. c"]) (simp_all add: i(1,4) tags_onCheckAll_def)
  then show ?thesis by (simp add: click_all_def Let_def c_def tags_onCheckAll_def)
qed

interpretation tag_row: machine "\<lambda>_ _. True" tag_step tags_inv
proof unfold_locales
  show "tags_inv (tag_step s e)" if "tags_inv s" for s e
    using that click_tag_inv click_all_inv by (cases e) simp_all
qed

lemma created_tags_inv:
  assumes "good_values (map to_value os)" "list_all (\<lambda>opt. \<not> localChecked opt) os"
  shows "tags_inv (created_select_tags os)"
proof -
  have "foldl (\<lambda>t v. AList.update (tag_key v) False t) t vs = t @ map (\<lambda>v. (tag_key v, False)) vs"
    if "distinct (map fst t @ map tag_key vs)" for t vs
    using that
  proof (induction vs arbitrary: t)
    case (Cons v vs)
    then have "AList.update (tag_key v) False t = t @ [(tag_key v, False)]"
      by (induction t) auto
    with Cons.IH [of "t @ [(tag_key v, False)]"] Cons.prems show ?case by simp
  qed simp
  from this [of "[]" "map to_value os"] have "getItemsKey (map to_value os) = map (\<lambda>opt. (tag_key (to_value opt), False)) os"
    using assms(1) by (simp add: getItemsKey_def good_values_def comp_def)
  moreover have "os \<noteq> []" using assms(1) by (simp add: good_values_def)
  ultimately show ?thesis using assms
    by (cases os) (auto simp: tags_inv_def created_select_tags_def list_all_iff)
qed

text \<open>Whatever is clicked in a row of tags whose values are different texts, the tags agree with the items,
  and the tag for all of them is checked exactly when all of them are.\<close>

theorem tag_select_in_step:
  assumes "good_values (map to_value os)" "list_all (\<lambda>opt. \<not> localChecked opt) os"
  shows "let s = foldl tag_step (created_select_tags os) es in
     map to_value (tag_options s) = map to_value os \<and>
     (\<forall>opt \<in> set (tag_options s). map_of (tag_items s) (tag_key (to_value opt)) = Some (localChecked opt)) \<and>
     all_option s = list_all localChecked (tag_options s) \<and> localCheckAll s = all_option s"
proof -
  let ?s = "foldl tag_step (created_select_tags os) es"
  have i: "tags_inv ?s" by (rule tag_row.run_inv) (simp_all add: created_tags_inv assms)
  have "map to_value (tag_options (foldl tag_step s es)) = map to_value (tag_options s)" if "tags_inv s" for s
    using that
  proof (induction es arbitrary: s)
    case (Cons e es)
    have "tags_inv (tag_step s e)" "map to_value (tag_options (tag_step s e)) = map to_value (tag_options s)"
      using Cons.prems click_tag_inv click_all_inv by (cases e; simp)+
    with Cons.IH [of "tag_step s e"] show ?case by simp
  qed simp
  from this [OF created_tags_inv [OF assms]] have "map to_value (tag_options ?s) = map to_value os"
    by (simp add: created_select_tags_def)
  moreover have "map_of (tag_items ?s) (tag_key (to_value opt)) = Some (localChecked opt)"
    if "opt \<in> set (tag_options ?s)" for opt
    using i that map_of_items [of "tag_key \<circ> to_value" "tag_options ?s" opt localChecked]
    by (simp add: tags_inv_def good_values_def comp_def)
  ultimately show ?thesis using i by (simp add: tags_inv_def Let_def)
qed

lemma tag_select_in_step_witness:
  "let s = foldl tag_step (created_select_tags
       [\<lparr>to_value = StrTag ''a'', localChecked = False\<rparr>, \<lparr>to_value = StrTag ''b'', localChecked = False\<rparr>])
       [Some 0, Some 1]
   in all_option s = list_all localChecked (tag_options s)"
  using tag_select_in_step [of "[\<lparr>to_value = StrTag ''a'', localChecked = False\<rparr>,
      \<lparr>to_value = StrTag ''b'', localChecked = False\<rparr>]" "[Some 0, Some 1]"]
  by (simp only: Let_def) (simp add: good_values_def)

text \<open>With numbers as values no single click is recorded, so that the tag for all of them stays unchecked
  when each is checked.\<close>

lemma number_tags_not_recorded:
  "let s = foldl tag_step (created_select_tags
       [\<lparr>to_value = NumTag 1, localChecked = False\<rparr>, \<lparr>to_value = NumTag 2, localChecked = False\<rparr>])
       [Some 0, Some 1]
   in list_all localChecked (tag_options s) \<and> \<not> all_option s \<and> map_of (tag_items s) ''1'' = Some False"
  by code_simp

text \<open>An option that is created checked is not, for the row: the tag for all of them needs another click.\<close>

lemma checked_option_not_recorded:
  "tag_items (created_select_tags [\<lparr>to_value = StrTag ''a'', localChecked = True\<rparr>]) = [(''a'', False)]"
  by (simp add: created_select_tags_def getItemsKey_def)

section \<open>The list of avatars\<close>

datatype 'a avatar = Slot 'a | Excess int

definition getItems :: "int \<Rightarrow> 'a list \<Rightarrow> 'a avatar list" where
  "getItems maxLength items =
     (let totalSize = int (length items) in
      if 0 < maxLength then map Slot (take (nat maxLength) items) @ [Excess (totalSize - maxLength)]
      else map Slot items)"

definition excess_size :: "string \<Rightarrow> string" where
  "excess_size n = (if n = ''mini'' then ''small'' else n)"

definition avatar_list :: "int \<Rightarrow> 'a list \<Rightarrow> 'a avatar list option" where
  "avatar_list maxLength items = (if items \<noteq> [] then Some (getItems maxLength items) else None)"

lemma getItems_counts:
  assumes "0 < n" "n \<le> int (length xs)"
  shows "\<exists>k. getItems n xs = map Slot (take (nat n) xs) @ [Excess (int k)] \<and> nat n + k = length xs"
  using assms by (intro exI [of _ "length xs - nat n"]) (simp add: getItems_def Let_def of_nat_diff)

text \<open>The avatar with the number of the others is there even if there are none: a list that just fits ends
  with \<open>+0\<close>, a shorter one with a negative number.\<close>

lemma short_list_excess:
  "int (length xs) \<le> n \<Longrightarrow> 0 < n \<Longrightarrow> last (getItems n xs) = Excess (int (length xs) - n)"
  by (simp add: getItems_def)

section \<open>The loading screen\<close>

text \<open>A configuration holds the fields that are given; the merged properties of an instance.\<close>

record loading_config =
  cf_visible :: "bool option"
  cf_size :: "string option"
  cf_tip :: "string option"

record loading =
  ld_visible :: bool
  ld_size :: string
  ld_tip :: string

definition empty_config :: loading_config where
  "empty_config = \<lparr>cf_visible = None, cf_size = None, cf_tip = None\<rparr>"

definition merge_config :: "loading \<Rightarrow> loading_config \<Rightarrow> loading" where
  "merge_config d c = \<lparr>ld_visible = (case cf_visible c of None \<Rightarrow> ld_visible d | Some v \<Rightarrow> v),
     ld_size = (case cf_size c of None \<Rightarrow> ld_size d | Some v \<Rightarrow> v),
     ld_tip = (case cf_tip c of None \<Rightarrow> ld_tip d | Some v \<Rightarrow> v)\<rparr>"

definition newInstance :: "loading_config \<Rightarrow> loading" where
  "newInstance options = merge_config \<lparr>ld_visible = False, ld_size = ''large'', ld_tip = ''Loading...''\<rparr> options"

definition update_loading :: "loading \<Rightarrow> loading_config \<Rightarrow> loading \<Rightarrow> loading" where
  "update_loading cdProps config l =
     (let c = merge_config cdProps config;
          l = l\<lparr>ld_visible := ld_visible c\<rparr>;
          l = (if ld_tip c \<noteq> [] then l\<lparr>ld_tip := ld_tip c\<rparr> else l)
      in if ld_size c \<noteq> [] then l\<lparr>ld_size := ld_size c\<rparr> else l)"

definition show_loading :: "loading \<Rightarrow> loading_config \<Rightarrow> loading \<Rightarrow> loading" where
  "show_loading cdProps options = update_loading cdProps (options\<lparr>cf_visible := Some True\<rparr>)"

definition hide_loading :: "loading \<Rightarrow> loading \<Rightarrow> loading" where
  "hide_loading cdProps = update_loading cdProps (empty_config\<lparr>cf_visible := Some False\<rparr>)"

text \<open>The size and the tip of the spinner that is rendered, if any; the size is not handed on.\<close>

definition render_loading :: "loading \<Rightarrow> (string \<times> string) option" where
  "render_loading l =
     (if ld_visible l then Some (''large'', if ld_tip l \<noteq> [] then ld_tip l else ''Loading..'') else None)"

text \<open>The calls of the plugin; \<open>None\<close> hides.\<close>

fun loading_step :: "loading \<Rightarrow> loading \<Rightarrow> loading_config option \<Rightarrow> loading" where
  "loading_step cdProps l (Some options) = show_loading cdProps options l"
| "loading_step cdProps l None = hide_loading cdProps l"

text \<open>What is on the screen is decided by the last call alone, but for a tip that is given as empty.\<close>

theorem loading_last_call:
  assumes "ld_tip (merge_config d options) \<noteq> []"
  shows "render_loading (foldl (loading_step d) l (es @ [Some options])) =
      Some (''large'', ld_tip (merge_config d options)) \<and>
    render_loading (foldl (loading_step d) l (es @ [None])) = None"
  using assms
  by (simp add: render_loading_def show_loading_def hide_loading_def update_loading_def merge_config_def Let_def)

lemma loading_last_call_witness:
  "render_loading (foldl (loading_step (newInstance empty_config)) (newInstance empty_config)
     ([None] @ [Some (empty_config\<lparr>cf_tip := Some ''x''\<rparr>)])) = Some (''large'', ''x'')"
  using loading_last_call [of "newInstance empty_config" "empty_config\<lparr>cf_tip := Some ''x''\<rparr>"
      "newInstance empty_config" "[None]"]
  by (simp add: merge_config_def)

section \<open>Notices\<close>

text \<open>A click on the bell; every opening starts a timer of two seconds that is never cleared.\<close>

record notice_bell =
  nt_loading :: bool
  nt_visible :: bool
  nt_timers :: nat

definition init_notice :: notice_bell where
  "init_notice = \<lparr>nt_loading = False, nt_visible = False, nt_timers = 0\<rparr>"

definition fetchNotice :: "notice_bell \<Rightarrow> notice_bell" where
  "fetchNotice s =
     (let s = (if \<not> nt_visible s then s\<lparr>nt_loading := True, nt_timers := Suc (nt_timers s)\<rparr>
               else s\<lparr>nt_loading := False\<rparr>)
      in s\<lparr>nt_visible := \<not> nt_visible s\<rparr>)"

definition notice_loaded :: "notice_bell \<Rightarrow> notice_bell" where
  "notice_loaded s = (if nt_timers s = 0 then s else s\<lparr>nt_loading := False, nt_timers := nt_timers s - 1\<rparr>)"

fun notice_step :: "notice_bell \<Rightarrow> bool \<Rightarrow> notice_bell" where
  "notice_step s True = fetchNotice s"
| "notice_step s False = notice_loaded s"

interpretation bell: machine "\<lambda>_ _. True" notice_step "\<lambda>s. nt_loading s \<longrightarrow> nt_visible s \<and> 0 < nt_timers s"
proof unfold_locales
  show "nt_loading (notice_step s e) \<longrightarrow> nt_visible (notice_step s e) \<and> 0 < nt_timers (notice_step s e)"
    if "nt_loading s \<longrightarrow> nt_visible s \<and> 0 < nt_timers s" for s e
    using that by (cases e) (auto simp: fetchNotice_def notice_loaded_def Let_def)
qed

text \<open>The notices are loading only while they are shown, and then a timer ends it.\<close>

lemma notice_loading_ends:
  assumes "nt_loading (foldl notice_step init_notice es)"
  shows "nt_visible (foldl notice_step init_notice es) \<and> 0 < nt_timers (foldl notice_step init_notice es)"
  using bell.run_inv [of init_notice es] assms by (simp add: init_notice_def)

text \<open>Closed and opened again within two seconds, the notices stop loading with the first timer.\<close>

lemma first_timer_ends_second_loading:
  "let s = foldl notice_step init_notice [True, True, True] in
   nt_loading s \<and> nt_timers s = 2 \<and> \<not> nt_loading (notice_step s False)"
  by (simp add: init_notice_def fetchNotice_def notice_loaded_def)

end
