(* ===== verification/TreePage.thy ===== *)
theory TreePage
  imports ListPages MockRoles PermissionUI "HOL-Library.AList"
begin

text \<open>
  The organisation page: the menu made of a tree (\<open>components/Tree/Tree.jsx\<close>), the dialog for a new
  organisation (\<open>views/other/modules/OrgModal.vue\<close>) and the page around them and a table
  (\<open>views/other/TreeList.vue\<close>).
\<close>

section \<open>The menu of a tree\<close>

text \<open>What is rendered: an entry with its plus button, a group, or a submenu.\<close>

datatype menu_node =
    MenuItem string "string option" string
  | ItemGroup string string "menu_node list"
  | SubMenu string "string option" string "menu_node list"

definition renderIcon :: "string option \<Rightarrow> string option" where
  "renderIcon icon = (if truthy icon then icon else None)"

text \<open>The list of children decides, also when it is empty; a group without one is an entry.\<close>

fun renderItem :: "org \<Rightarrow> menu_node" where
  "renderItem (Org key title icon g None) = MenuItem key (renderIcon icon) title"
| "renderItem (Org key title icon g (Some cs)) =
     (if is_true g then ItemGroup key title (map renderItem cs)
      else SubMenu key (renderIcon icon) title (map renderItem cs))"

definition tree_render :: "org list \<Rightarrow> menu_node list" where
  "tree_render dataSource = map renderItem dataSource"

text \<open>The entries with their depths, in order, of both trees.\<close>

fun org_entries :: "nat \<Rightarrow> org \<Rightarrow> (nat \<times> string \<times> string) list" where
  "org_entries d (Org key title icon g None) = [(d, key, title)]"
| "org_entries d (Org key title icon g (Some cs)) =
     (d, key, title) # concat (map (org_entries (Suc d)) cs)"

fun menu_entries :: "nat \<Rightarrow> menu_node \<Rightarrow> (nat \<times> string \<times> string) list" where
  "menu_entries d (MenuItem key icon title) = [(d, key, title)]"
| "menu_entries d (ItemGroup key title ns) = (d, key, title) # concat (map (menu_entries (Suc d)) ns)"
| "menu_entries d (SubMenu key icon title ns) = (d, key, title) # concat (map (menu_entries (Suc d)) ns)"

fun org_leaves :: "org \<Rightarrow> (string \<times> string) list" where
  "org_leaves (Org key title icon g None) = [(key, title)]"
| "org_leaves (Org key title icon g (Some cs)) = concat (map org_leaves cs)"

text \<open>The entries that have a plus button.\<close>

fun menu_items :: "menu_node \<Rightarrow> (string \<times> string) list" where
  "menu_items (MenuItem key icon title) = [(key, title)]"
| "menu_items (ItemGroup key title ns) = concat (map menu_items ns)"
| "menu_items (SubMenu key icon title ns) = concat (map menu_items ns)"

lemma renderItem_entries: "menu_entries d (renderItem t) = org_entries d t"
proof (induction t arbitrary: d rule: renderItem.induct)
  case (2 key title icon g cs)
  have "map (menu_entries (Suc d) \<circ> renderItem) cs = map (org_entries (Suc d)) cs"
    using 2 by (cases "is_true g") simp_all
  then show ?case by (simp del: map_eq_conv)
qed simp

lemma renderItem_leaves: "menu_items (renderItem t) = org_leaves t"
proof (induction t rule: renderItem.induct)
  case (2 key title icon g cs)
  have "map (menu_items \<circ> renderItem) cs = map org_leaves cs"
    using 2 by (cases "is_true g") simp_all
  then show ?case by (simp del: map_eq_conv)
qed simp

text \<open>The menu shows every node of the tree once, at its depth and in its order, and offers a plus button
  exactly for the nodes without a list of children.\<close>

theorem tree_rendered:
  "concat (map (menu_entries d) (tree_render ts)) = concat (map (org_entries d) ts) \<and>
   concat (map menu_items (tree_render ts)) = concat (map org_leaves ts)"
  by (simp add: tree_render_def comp_def renderItem_entries renderItem_leaves)

text \<open>The organisations of the mock server: no node can be added below one that has nodes already.\<close>

lemma mock_org_leaves:
  "map fst (concat (map org_leaves orgTree)) =
     [''key-01-01-01'', ''key-01-01-02'', ''key-01-01-03'', ''key-01-02-01'', ''key-01-02-02'', ''key-01-02-03'',
      ''key-02-01'', ''key-02-02'', ''key-02-03-01'', ''key-02-03-02'']"
  by (simp add: orgTree_def)

section \<open>The tree component\<close>

record tree =
  localOpenKeys :: "string list"
  tree_emitted :: "(string \<times> string) list"

text \<open>The open keys are copied when the component is created; later changes stay in the component, so that
  \<open>.sync\<close> on the page has nothing to follow.\<close>

definition created_tree :: "string list \<Rightarrow> tree" where
  "created_tree openKeys = \<lparr>localOpenKeys = openKeys, tree_emitted = []\<rparr>"

definition handlePlus :: "string \<Rightarrow> tree \<Rightarrow> tree" where
  "handlePlus key t = t\<lparr>tree_emitted := tree_emitted t @ [(''add'', key)]\<rparr>"

definition menu_click :: "string \<Rightarrow> tree \<Rightarrow> tree" where
  "menu_click key t = t\<lparr>tree_emitted := tree_emitted t @ [(''click'', key)]\<rparr>"

definition open_change :: "string list \<Rightarrow> tree \<Rightarrow> tree" where
  "open_change val t = t\<lparr>localOpenKeys := val\<rparr>"

section \<open>The dialog\<close>

text \<open>The form keeps the values of its fields while the dialog is closed.\<close>

record org_modal =
  om_visible :: bool
  om_confirmLoading :: bool
  om_mdl :: "(string \<times> string) list"
  om_fields :: "(string \<times> string) list"
  om_saving :: nat
  om_emitted :: "string list"

definition init_org_modal :: org_modal where
  "init_org_modal = \<lparr>om_visible = False, om_confirmLoading = False, om_mdl = [], om_fields = [], om_saving = 0,
     om_emitted = []\<rparr>"

definition org_edit :: "(string \<times> string) list \<Rightarrow> org_modal \<Rightarrow> org_modal" where
  "org_edit record m = m\<lparr>om_mdl := record, om_visible := True,
     om_fields := fold (\<lambda>(k, v). AList.update k v) record (om_fields m)\<rparr>"

definition org_add :: "string \<Rightarrow> org_modal \<Rightarrow> org_modal" where
  "org_add key m = org_edit [(''parentId'', key)] m"

definition org_close :: "org_modal \<Rightarrow> org_modal" where
  "org_close m = m\<lparr>om_emitted := om_emitted m @ [''close''], om_visible := False\<rparr>"

definition org_handleOk :: "bool \<Rightarrow> org_modal \<Rightarrow> org_modal" where
  "org_handleOk err m = (if err then m else m\<lparr>om_confirmLoading := True, om_saving := Suc (om_saving m)\<rparr>)"

definition org_saved :: "org_modal \<Rightarrow> org_modal" where
  "org_saved m =
     (if om_saving m = 0 then m
      else org_close (m\<lparr>om_saving := om_saving m - 1, om_emitted := om_emitted m @ [''ok''],
             om_confirmLoading := False\<rparr>))"

definition org_handleCancel :: "org_modal \<Rightarrow> org_modal" where
  "org_handleCancel m = org_close m"

text \<open>What was typed as the name of one organisation is there when the next one is added.\<close>

lemma org_name_kept:
  assumes "map_of (om_fields m) ''orgName'' = Some n"
  shows "map_of (om_fields (org_add k (org_saved (org_handleOk False m)))) ''orgName'' = Some n \<and>
    map_of (om_fields (org_add k (org_saved (org_handleOk False m)))) ''parentId'' = Some k"
  using assms by (simp add: org_add_def org_edit_def org_saved_def org_handleOk_def org_close_def update_conv)

text \<open>A save that ends closes the dialog, also when it was opened for another organisation meanwhile.\<close>

lemma org_save_closes_other:
  "\<not> om_visible (org_saved (org_add k (org_handleCancel (org_handleOk False m))))"
  by (simp add: org_saved_def org_add_def org_edit_def org_handleCancel_def org_handleOk_def org_close_def)

section \<open>The page\<close>

record 'r tree_page =
  tp_openKeys :: "string list"
  tp_queryParam :: params
  tp_orgTree :: "org list"
  tp_tree :: tree
  tp_modal :: org_modal
  tp_infos :: "string list"
  tp_selectedRowKeys :: "string list"
  tp_selectedRows :: "'r list"
  tp_table :: "'r table_state"

definition TreeList_columns :: "view_column list" where
  "TreeList_columns =
     [col ''#'' (Some ''no'') False False None,
      col (utf8 [0x6210, 0x5458, 0x540D, 0x79F0]) (Some ''description'') False False None,
      col (utf8 [0x767B, 0x5F55, 0x6B21, 0x6570]) (Some ''callNo'') True True None,
      col state_title (Some ''status'') False True None,
      col updated_title (Some ''updatedAt'') True False None,
      col action_title (Some ''action'') False False (Some ''action'')]"

definition TreeList_props :: table_props where
  "TreeList_props = (default_props (Some (map to_column TreeList_columns)))
     \<lparr>t_alert := AlertFlag False, t_rowSelection := Selection True\<rparr>"

definition created_tree_page :: "'r tree_page" where
  "created_tree_page = \<lparr>tp_openKeys = [''key-01''], tp_queryParam = (\<lambda>_. None), tp_orgTree = [],
     tp_tree = created_tree [''key-01''], tp_modal = init_org_modal, tp_infos = [], tp_selectedRowKeys = [],
     tp_selectedRows = [], tp_table = created TreeList_props None (init_table TreeList_props)\<rparr>"

definition tree_answered :: "org list \<Rightarrow> 'r tree_page \<Rightarrow> 'r tree_page" where
  "tree_answered result p = p\<lparr>tp_orgTree := result\<rparr>"

text \<open>What the page asks the server for a request of its table.\<close>

definition tree_request :: "'r tree_page \<Rightarrow> params \<Rightarrow> params" where
  "tree_request p parameter = parameter ++ tp_queryParam p"

definition tree_handleClick :: "string \<Rightarrow> 'r tree_page \<Rightarrow> 'r tree_page" where
  "tree_handleClick key p =
     (let p = p\<lparr>tp_queryParam := [''key'' \<mapsto> PText key]\<rparr> in
      p\<lparr>tp_table := refresh TreeList_props True True (tp_table p)\<rparr>)"

definition tree_handleAdd :: "string \<Rightarrow> string \<Rightarrow> 'r tree_page \<Rightarrow> 'r tree_page" where
  "tree_handleAdd key title p =
     p\<lparr>tp_infos := tp_infos p @ [utf8 [0x63D0, 0x793A, 0xFF1A, 0x4F60, 0x70B9, 0x4E86] @ '' '' @ key @ '' - '' @ title @ '' ''],
       tp_modal := org_add key (tp_modal p)\<rparr>"

definition tree_onSelectChange :: "string list \<Rightarrow> 'r list \<Rightarrow> 'r tree_page \<Rightarrow> 'r tree_page" where
  "tree_onSelectChange ks rs p = p\<lparr>tp_selectedRowKeys := ks, tp_selectedRows := rs\<rparr>"

text \<open>A click on an entry of the menu asks for the first page of its rows, whatever page the table was on
  and whatever entry was chosen before; every later request asks for rows of the same entry.\<close>

theorem tree_click_asks:
  assumes "filters (tp_table p) ''pageNo'' = None"
  shows "let p' = tree_handleClick key p in
     (\<exists>q. in_flight (tp_table p') = in_flight (tp_table p) @ [(None, q)] \<and>
        tree_request p' q ''pageNo'' = Some (PNum (Some 1)) \<and> tree_request p' q ''key'' = Some (PText key)) \<and>
     (\<forall>q. tree_request p' q ''key'' = Some (PText key) \<and> (\<forall>k. k \<noteq> ''key'' \<longrightarrow> tree_request p' q k = q k))"
  using assms
  by (simp add: tree_handleClick_def tree_request_def refresh_def loadData_def request_params_def TreeList_props_def
      default_props_def pager_fields_def Let_def map_add_def num_or_def num_truthy_def)

lemma tree_click_asks_witness:
  "tree_request (tree_handleClick ''key-02'' (created_tree_page :: unit tree_page)) (\<lambda>_. None) ''key'' =
     Some (PText ''key-02'')"
  using tree_click_asks [of "created_tree_page :: unit tree_page" "''key-02''"]
  by (simp add: created_tree_page_def created_def init_table_def loadData_def Let_def)

section \<open>The actions of a row\<close>

text \<open>A row shows the edit link, and the entries to disable and to delete, by three calls of
  \<open>$auth\<close> in this order.\<close>

definition row_actions :: "roles_value \<Rightarrow> js_error + (bool \<times> bool \<times> bool)" where
  "row_actions rv =
     both (auth rv ''table.update'') (both (auth rv ''table.disable'') (auth rv ''table.delete'') Pair) Pair"

text \<open>An account without the permission for tables cannot see a row at all: rendering throws.\<close>

lemma row_actions_throw:
  assumes "role_permissions rv = Some ps" "''table'' \<notin> p_permissionId ` set ps"
  shows "row_actions rv = Inl TypeError"
proof -
  have "find (\<lambda>val. p_permissionId val = ''table'') ps = None"
    using assms(2) by (force simp: find_None_iff)
  then show ?thesis using auth_pair [of "''table''" "''update''" rv] assms(1) by (simp add: row_actions_def)
qed

text \<open>The account of the mock server has two permissions for tables. The first one decides, and it does not
  list the action \<open>delete\<close>, although the second one does.\<close>

lemma mock_table_permission:
  "find (\<lambda>val. p_permissionId val = ''table'') (the (ro_permissions roleObj)) = Some mock_permission_table"
  by (simp add: roleObj_def mock_permissions)

lemma mock_row_actions:
  assumes "GetInfo g (Inr (Some userInfo)) s = (s', Resolved res)"
  shows "row_actions (us_roles s') = Inr (True, False, False) \<and>
    (\<exists>per \<in> set (the (ro_permissions roleObj)). p_permissionId per = ''table'' \<and>
       ''delete'' \<in> set (the (p_actionList (with_actions per))))"
proof -
  have r: "ui_role userInfo = Some roleObj" "ro_permissions roleObj = Some (the (ro_permissions roleObj))"
    by (simp_all add: userInfo_def roleObj_def)
  have "role_permissions (us_roles s') = Some (map with_actions (the (ro_permissions roleObj)))"
    using assms r
    by (auto simp: store_simps Let_def role_permissions_def with_permission_list_def split: list.splits option.splits)
  then have "auth (us_roles s') (''table'' @ ''.'' @ a) = Inr (a \<in> {''add'', ''import'', ''get'', ''update''})"
    if "CHR ''.'' \<notin> set a" for a
    using auth_pair [OF _ that, of "''table''" "us_roles s'"]
    by (simp add: find_with_actions mock_table_permission with_actions_def) (simp add: mock_permission_table_def)
  from this [of "''update''"] this [of "''disable''"] this [of "''delete''"]
  have "row_actions (us_roles s') = Inr (True, False, False)" by (simp add: row_actions_def)
  moreover have "mock_permission_table2 \<in> set (the (ro_permissions roleObj))" by (simp add: roleObj_def)
  then have "\<exists>per \<in> set (the (ro_permissions roleObj)). p_permissionId per = ''table'' \<and>
      ''delete'' \<in> set (the (p_actionList (with_actions per)))"
    by (rule rev_bexI) (simp add: with_actions_def mock_permission_table2_def)
  ultimately show ?thesis ..
qed

end
