(* ===== verification/FormPages.thy ===== *)
theory FormPages
  imports EditTable Dialog MultiTab
begin

text \<open>
  Pages around forms: the form in three steps (\<open>views/form/stepForm/\<close>), the order of a service chain
  (\<open>views/manager/add_sfc.vue\<close>), the dialogs of the basic list (\<open>views/list/BasicList.vue\<close> with
  \<open>views/list/modules/TaskForm.vue\<close>), the big form (\<open>views/other/BigForm.vue\<close>), and the small
  state of the search layout (\<open>views/list/search/SearchLayout.vue\<close>), the account page
  (\<open>views/account/center/index.vue\<close>), the query list (\<open>views/list/QueryList.vue\<close>) and the test page
  (\<open>views/dashboard/TestWork.vue\<close>).
\<close>

section \<open>The form in steps\<close>

text \<open>The second step is a component of its own that exists while its tab is shown: it has a timer for the
  pending submission, which is cleared when the component is destroyed. \<open>s2_timers\<close> are the timers that
  run, \<open>s2_timer\<close> is the one the component remembers.\<close>

record step_two =
  s2_loading :: bool
  s2_timer :: nat
  s2_timers :: "nat list"
  s2_created :: nat

record step_form =
  sf_currentTab :: nat
  sf_step2 :: step_two

definition new_step_two :: step_two where
  "new_step_two = \<lparr>s2_loading = False, s2_timer = 0, s2_timers = [], s2_created = 0\<rparr>"

definition init_step_form :: step_form where
  "init_step_form = \<lparr>sf_currentTab = 0, sf_step2 = new_step_two\<rparr>"

definition destroyed_step_two :: "step_two \<Rightarrow> step_two" where
  "destroyed_step_two s = new_step_two\<lparr>s2_timers := removeAll (s2_timer s) (s2_timers s), s2_created := s2_created s\<rparr>"

text \<open>A change of the tab mounts and destroys the second step. Timers that are not cleared go on running.\<close>

definition go_to :: "nat \<Rightarrow> step_form \<Rightarrow> step_form" where
  "go_to n s =
     (if sf_currentTab s = 1 \<and> n \<noteq> 1
      then s\<lparr>sf_currentTab := n, sf_step2 := destroyed_step_two (sf_step2 s)\<rparr>
      else s\<lparr>sf_currentTab := n\<rparr>)"

definition nextStep :: "step_form \<Rightarrow> step_form" where
  "nextStep s = (if sf_currentTab s < 2 then go_to (sf_currentTab s + 1) s else s)"

definition prevStep :: "step_form \<Rightarrow> step_form" where
  "prevStep s = (if 0 < sf_currentTab s then go_to (sf_currentTab s - 1) s else s)"

definition finish :: "step_form \<Rightarrow> step_form" where
  "finish s = go_to 0 s"

definition step1_nextStep :: "bool \<Rightarrow> step_form \<Rightarrow> step_form" where
  "step1_nextStep err s = (if \<not> err then nextStep s else s)"

definition step2_nextStep :: "bool \<Rightarrow> step_form \<Rightarrow> step_form" where
  "step2_nextStep err s =
     (let t = (sf_step2 s)\<lparr>s2_loading := True\<rparr> in
      if \<not> err
      then s\<lparr>sf_step2 := t\<lparr>s2_timer := Suc (s2_created t), s2_timers := s2_timers t @ [Suc (s2_created t)],
               s2_created := Suc (s2_created t)\<rparr>\<rparr>
      else s\<lparr>sf_step2 := t\<lparr>s2_loading := False\<rparr>\<rparr>)"

definition step2_fired :: "nat \<Rightarrow> step_form \<Rightarrow> step_form" where
  "step2_fired i s =
     nextStep (s\<lparr>sf_step2 := (sf_step2 s)\<lparr>s2_timers := removeAll i (s2_timers (sf_step2 s)), s2_loading := False\<rparr>\<rparr>)"

datatype form_event = Next1 bool | Next2 bool | Fired nat | Prev2 | Finish3

text \<open>What the page shown offers: a loading button takes no click, and the timers are the running ones.\<close>

fun form_enabled :: "step_form \<Rightarrow> form_event \<Rightarrow> bool" where
  "form_enabled s (Next1 err) = (sf_currentTab s = 0)"
| "form_enabled s (Next2 err) = (sf_currentTab s = 1 \<and> \<not> s2_loading (sf_step2 s))"
| "form_enabled s (Fired i) = (i \<in> set (s2_timers (sf_step2 s)))"
| "form_enabled s Prev2 = (sf_currentTab s = 1)"
| "form_enabled s Finish3 = (sf_currentTab s = 2)"

fun form_step :: "step_form \<Rightarrow> form_event \<Rightarrow> step_form" where
  "form_step s (Next1 err) = step1_nextStep err s"
| "form_step s (Next2 err) = step2_nextStep err s"
| "form_step s (Fired i) = step2_fired i s"
| "form_step s Prev2 = prevStep s"
| "form_step s Finish3 = finish s"

text \<open>A submission is pending only in the second step, and then its timer is the one remembered.\<close>

definition form_inv :: "step_form \<Rightarrow> bool" where
  "form_inv s \<longleftrightarrow> sf_currentTab s \<le> 2 \<and>
     (let t = sf_step2 s in
      if sf_currentTab s = 1 \<and> s2_loading t then s2_timers t = [s2_timer t] else s2_timers t = [] \<and> \<not> s2_loading t)"

interpretation form_machine: machine form_enabled form_step form_inv
proof unfold_locales
  show "form_inv (form_step s e)" if "form_inv s" "form_enabled s e" for s e
    using that
    by (cases e)
      (auto simp: form_inv_def step1_nextStep_def step2_nextStep_def step2_fired_def nextStep_def prevStep_def
        finish_def go_to_def destroyed_step_two_def new_step_two_def Let_def split: if_splits)
qed

text \<open>The form shows one of its three steps. A submission is under way only in the second step, and leaving
  the step gives it up: no timer is left that could take the form on from another step.\<close>

theorem step_form_safe:
  assumes "enabled_run form_enabled form_step init_step_form es"
  shows "let s = foldl form_step init_step_form es in
     sf_currentTab s \<le> 2 \<and> (s2_timers (sf_step2 s) \<noteq> [] \<longleftrightarrow> s2_loading (sf_step2 s)) \<and>
     (s2_loading (sf_step2 s) \<longrightarrow> sf_currentTab s = 1) \<and>
     (sf_currentTab s = 1 \<longrightarrow> s2_timers (sf_step2 (form_step s Prev2)) = [])"
proof -
  let ?s = "foldl form_step init_step_form es"
  have "form_inv init_step_form" by (simp add: form_inv_def init_step_form_def new_step_two_def)
  then have i: "form_inv ?s" using assms by (rule form_machine.run_inv)
  then have "sf_currentTab ?s = 1 \<longrightarrow> form_inv (form_step ?s Prev2) \<and> sf_currentTab (form_step ?s Prev2) = 0"
    using form_machine.keeps [of ?s Prev2] by (simp add: prevStep_def go_to_def)
  with i show ?thesis by (auto simp: form_inv_def Let_def split: if_splits)
qed

lemma step_form_safe_witness:
  "s2_timers (sf_step2 (foldl form_step init_step_form [Next1 False, Next2 False])) \<noteq> [] \<and>
   sf_currentTab (foldl form_step init_step_form [Next1 False, Next2 False]) \<le> 2"
proof -
  have r: "enabled_run form_enabled form_step init_step_form [Next1 False, Next2 False]"
    by (simp add: init_step_form_def new_step_two_def step1_nextStep_def nextStep_def go_to_def)
  have "s2_loading (sf_step2 (foldl form_step init_step_form [Next1 False, Next2 False]))"
    by (simp add: init_step_form_def new_step_two_def step1_nextStep_def step2_nextStep_def nextStep_def go_to_def Let_def)
  with step_form_safe [OF r] show ?thesis by (simp add: Let_def)
qed

section \<open>The order of a service chain\<close>

text \<open>The fields that are bound to the form, with the options of their selections.\<close>

record sfc_field =
  sf_name :: string
  sf_label :: string
  sf_message :: string
  sf_options :: "(int \<times> string) list"

definition sfc_fields :: "sfc_field list" where
  "sfc_fields =
     [\<lparr>sf_name = ''type'', sf_label = utf8 [0x4E1A, 0x52A1, 0x7C7B, 0x578B],
       sf_message = utf8 [0x8BF7, 0x9009, 0x62E9, 0x4E1A, 0x52A1, 0x7C7B, 0x578B],
       sf_options = [(0, utf8 [0x9AD8, 0x5E26, 0x5BBD]),
         (1, utf8 [0x4F4E, 0x65F6, 0x5EF6]),
         (2, utf8 [0x9AD8, 0x53EF, 0x7528]),
         (3, utf8 [0x591A, 0x8FDE, 0x63A5]),
         (4, utf8 [0x5C3D, 0x529B, 0x800C, 0x4E3A])]\<rparr>,
      \<lparr>sf_name = ''mode'', sf_label = utf8 [0x6269, 0x7F29, 0x5BB9, 0x6A21, 0x5F0F],
       sf_message = utf8 [0x8BF7, 0x9009, 0x62E9, 0x6269, 0x7F29, 0x5BB9, 0x6A21, 0x5F0F],
       sf_options = [(0, utf8 [0x624B, 0x52A8]),
         (1, utf8 [0x81EA, 0x52A8])]\<rparr>,
      \<lparr>sf_name = ''routingMorphic'', sf_label = utf8 [0x8DEF, 0x7531, 0x6A21, 0x6001],
       sf_message = utf8 [0x8BF7, 0x9009, 0x62E9, 0x8DEF, 0x7531, 0x6A21, 0x6001],
       sf_options = [(0, ''IPV4''),
         (1, ''IPV6''),
         (2, ''NDN'')]\<rparr>,
      \<lparr>sf_name = ''vnfMorphic'', sf_label = ''VNF'' @ utf8 [0x8BBE, 0x5907, 0x6A21, 0x6001],
       sf_message = utf8 [0x8BF7, 0x9009, 0x62E9] @ ''VNF'' @ utf8 [0x8BBE, 0x5907, 0x6A21, 0x6001],
       sf_options = [(0, utf8 [0x81EA, 0x52A8]),
         (1, ''P4''),
         (2, ''x86'')]\<rparr>]"

definition vnf_options :: "(int \<times> string) list" where
  "vnf_options = [(0, utf8 [0x901F, 0x7387, 0x9650, 0x5236, 0x5668]), (1, utf8 [0x9632, 0x706B, 0x5899]), (2, ''Monitor'')]"

definition picked_fields :: "string list" where
  "picked_fields = [''type'', ''mode'', ''routingMorphic'', ''vnfMorphic'', ''vnfs'']"

record sfc_page =
  vnfs :: "int list"
  sfc_values :: "string \<rightharpoonup> int"
  sfc_logged :: "(string \<rightharpoonup> int) list"

text \<open>The form only takes values for fields bound to it.\<close>

definition setFieldsValue :: "(string \<rightharpoonup> int) \<Rightarrow> (string \<rightharpoonup> int) \<Rightarrow> string \<rightharpoonup> int" where
  "setFieldsValue vals old = (\<lambda>k. if k \<in> sf_name ` set sfc_fields \<and> vals k \<noteq> None then vals k else old k)"

definition mounted_sfc :: "(string \<rightharpoonup> int) option \<Rightarrow> sfc_page" where
  "mounted_sfc record =
     \<lparr>vnfs = [1],
      sfc_values = (case record of None \<Rightarrow> (\<lambda>_. None)
        | Some r \<Rightarrow> setFieldsValue (r |` set picked_fields) (\<lambda>_. None)),
      sfc_logged = []\<rparr>"

definition add_vnf :: "sfc_page \<Rightarrow> sfc_page" where
  "add_vnf s = s\<lparr>vnfs := vnfs s @ [1]\<rparr>"

definition remove_vnf :: "sfc_page \<Rightarrow> sfc_page" where
  "remove_vnf s = (if 1 < length (vnfs s) then s\<lparr>vnfs := butlast (vnfs s)\<rparr> else s)"

definition sfc_handleSubmit :: "sfc_page \<Rightarrow> sfc_page" where
  "sfc_handleSubmit s =
     (if \<forall>f \<in> set sfc_fields. sfc_values s (sf_name f) \<noteq> None
      then s\<lparr>sfc_logged := sfc_logged s @ [sfc_values s]\<rparr> else s)"

datatype sfc_event = AddVnf | RemoveVnf | Choose string int | SubmitSfc

fun sfc_step :: "sfc_page \<Rightarrow> sfc_event \<Rightarrow> sfc_page" where
  "sfc_step s AddVnf = add_vnf s"
| "sfc_step s RemoveVnf = remove_vnf s"
| "sfc_step s (Choose k v) = s\<lparr>sfc_values := setFieldsValue [k \<mapsto> v] (sfc_values s)\<rparr>"
| "sfc_step s SubmitSfc = sfc_handleSubmit s"

definition sfc_inv :: "sfc_page \<Rightarrow> bool" where
  "sfc_inv s \<longleftrightarrow> vnfs s \<noteq> [] \<and> set (vnfs s) \<subseteq> {1} \<and> dom (sfc_values s) \<subseteq> sf_name ` set sfc_fields \<and>
     (\<forall>vs \<in> set (sfc_logged s). dom vs = sf_name ` set sfc_fields)"

interpretation order: machine "\<lambda>_ _. True" sfc_step sfc_inv
proof unfold_locales
  have logged: "dom vs = sf_name ` set sfc_fields"
    if "dom vs \<subseteq> sf_name ` set sfc_fields" "\<forall>f \<in> set sfc_fields. vs (sf_name f) \<noteq> None" for vs :: "string \<rightharpoonup> int"
    using that by (intro antisym) (auto simp: dom_def)
  show "sfc_inv (sfc_step s e)" if "sfc_inv s" for s e
  proof (cases e)
    case RemoveVnf
    have "butlast xs \<noteq> [] \<longleftrightarrow> 1 < length xs" for xs :: "int list"
      by (cases xs rule: rev_cases) auto
    then show ?thesis using RemoveVnf that by (auto simp: sfc_inv_def remove_vnf_def dest: in_set_butlastD)
  next
    case SubmitSfc
    then show ?thesis using that logged by (auto simp: sfc_inv_def sfc_handleSubmit_def)
  next
    case (Choose k v)
    then show ?thesis using that by (auto simp: sfc_inv_def setFieldsValue_def dom_def)
  qed (use that in \<open>simp add: sfc_inv_def add_vnf_def\<close>)
qed

text \<open>C31: An order has at least one place for a network function, and is complete when it is submitted: all four
  selections have a value. Which functions were chosen is no part of it: their selections are bound to
  nothing, and the list only counts them.\<close>

theorem sfc_orders:
  "let s = foldl sfc_step (mounted_sfc record) es in
   vnfs s = replicate (length (vnfs s)) 1 \<and> 0 < length (vnfs s) \<and>
   (\<forall>vs \<in> set (sfc_logged s). dom vs = {''type'', ''mode'', ''routingMorphic'', ''vnfMorphic''})"
proof -
  have "sfc_inv (mounted_sfc record)"
    by (auto simp: sfc_inv_def mounted_sfc_def setFieldsValue_def dom_def split: option.splits)
  then have i: "sfc_inv (foldl sfc_step (mounted_sfc record) es)" by (rule order.run_inv) simp
  moreover have "sf_name ` set sfc_fields = {''type'', ''mode'', ''routingMorphic'', ''vnfMorphic''}"
    by (auto simp: sfc_fields_def)
  moreover have "xs = replicate (length xs) 1" if "set xs \<subseteq> {1}" for xs :: "int list"
    using that by (induction xs) auto
  ultimately show ?thesis by (simp add: sfc_inv_def Let_def)
qed

text \<open>A complete order with two places for functions.\<close>

definition sample_order :: "sfc_event list" where
  "sample_order = [AddVnf, Choose ''type'' 1, Choose ''mode'' 0, Choose ''routingMorphic'' 2,
     Choose ''vnfMorphic'' 1, Choose ''vnfs'' 1, SubmitSfc]"

lemma sfc_orders_witness:
  "\<exists>vs. sfc_logged (foldl sfc_step (mounted_sfc None) sample_order) = [vs] \<and>
     dom vs = {''type'', ''mode'', ''routingMorphic'', ''vnfMorphic''}"
proof -
  let ?s = "foldl sfc_step (mounted_sfc None) sample_order"
  have names: "sf_name ` set sfc_fields = {''type'', ''mode'', ''routingMorphic'', ''vnfMorphic''}"
    by (auto simp: sfc_fields_def)
  have "\<forall>f \<in> set sfc_fields. sf_name f \<in> {''type'', ''mode'', ''routingMorphic'', ''vnfMorphic''}"
    using names by blast
  then have "\<exists>vs. sfc_logged ?s = [vs]"
    by (simp add: sample_order_def mounted_sfc_def add_vnf_def sfc_handleSubmit_def setFieldsValue_def names) (auto split: if_splits)
  then obtain vs where "sfc_logged ?s = [vs]" ..
  with sfc_orders [of None sample_order] show ?thesis by (simp add: Let_def)
qed

section \<open>The dialogs of the basic list\<close>

text \<open>Both hooks of \<open>TaskForm\<close> return a promise that is fulfilled with \<open>true\<close>; none is called
  \<open>onOK\<close>.\<close>

definition task_onCancel :: hook where "task_onCancel = ReturnsPromise"
definition task_onOk :: hook where "task_onOk = ReturnsPromise"

definition task_dialog :: "dialog_event list \<Rightarrow> dialog" where
  "task_dialog = dialog_run task_onCancel (NotFunction False) task_onOk open_dialog"

text \<open>A click on the OK button closes the dialog and reports success, whatever the form holds: the required
  fields are not validated.\<close>

lemma task_ok_unvalidated:
  "dlg_emitted (task_dialog [PressOk, Settle 0 (Some True)]) = [''close'', ''ok''] \<and>
   \<not> dlg_visible (task_dialog [PressOk, Settle 0 (Some True)])"
  by (simp add: task_dialog_def task_onOk_def task_onCancel_def open_dialog_def handleOk_def decide_def
      hook_settled_def after_handle_def Let_def)

section \<open>The big form\<close>

text \<open>It starts with three members and appends ten empty ones.\<close>

definition big_mounted :: member_form where
  "big_mounted = (newMember ^^ 10) init_members"

lemma newMember_key:
  assumes "members f \<noteq> []" "get_prop (last (members f)) ''key'' = Text (decimal n)"
  shows "map (\<lambda>r. get_prop r ''key'') (members (newMember f)) =
      map (\<lambda>r. get_prop r ''key'') (members f) @ [Text (decimal (Suc n))]"
    "get_prop (last (members (newMember f))) ''key'' = Text (decimal (Suc n))" "members (newMember f) \<noteq> []"
  using assms
  by (simp_all add: newMember_def text_of_def parseInt_decimal key_text_def nat_add_distrib Let_def get_prop_def)

lemma newMember_keys:
  assumes "members f \<noteq> []" "get_prop (last (members f)) ''key'' = Text (decimal n)"
  shows "map (\<lambda>r. get_prop r ''key'') (members ((newMember ^^ k) f)) =
      map (\<lambda>r. get_prop r ''key'') (members f) @ map (Text \<circ> decimal) [Suc n..<Suc (n + k)] \<and>
    get_prop (last (members ((newMember ^^ k) f))) ''key'' = Text (decimal (n + k)) \<and>
    members ((newMember ^^ k) f) \<noteq> []"
proof (induction k)
  case (Suc k)
  then show ?case using newMember_key [of "(newMember ^^ k) f" "n + k"] by simp
qed (use assms in simp)

text \<open>The thirteen rows have the keys 1 to 13.\<close>

lemma big_form_keys: "map (\<lambda>r. get_prop r ''key'') (members big_mounted) = map (Text \<circ> decimal) [1..<14]"
proof -
  have m: "members init_members \<noteq> []" by (simp add: init_members_def initial_members_def)
  have d: "decimal 1 = ''1''" "decimal 2 = ''2''" "decimal 3 = ''3''" by code_simp+
  have k: "map (\<lambda>r. get_prop r ''key'') (members init_members) = map (Text \<circ> decimal) [1, 2, 3]"
    "get_prop (last (members init_members)) ''key'' = Text (decimal 3)"
    unfolding comp_def list.map d by (simp_all add: init_members_def initial_members_def get_prop_def)
  have "[1, 2, 3] @ [Suc 3..<Suc (3 + 10)] = [1..<14]" by (simp add: upt_rec)
  with newMember_keys [OF m k(2), of 10] show ?thesis
    unfolding big_mounted_def k(1) map_append [symmetric] by (simp only:)
qed

section \<open>The search layout\<close>

definition getActiveKey :: "string \<Rightarrow> string" where
  "getActiveKey path =
     (if path = ''/list/search/article'' then ''1''
      else if path = ''/list/search/project'' then ''2''
      else if path = ''/list/search/application'' then ''3'' else ''1'')"

definition search_target :: "string \<Rightarrow> string" where
  "search_target key =
     (if key = ''1'' then ''/list/search/article''
      else if key = ''2'' then ''/list/search/project''
      else if key = ''3'' then ''/list/search/application'' else ''/workplace'')"

text \<open>The tab a click leads to is the one that is then active.\<close>

lemma search_tabs: "key \<in> {''1'', ''2'', ''3''} \<Longrightarrow> getActiveKey (search_target key) = key"
  by (auto simp: search_target_def getActiveKey_def)

section \<open>The tags of an account\<close>

record tag_page =
  tags :: "string list"
  tagInputVisible :: bool
  tagInputValue :: string

definition init_tag_page :: tag_page where
  "init_tag_page = \<lparr>tags =
     [utf8 [0x5F88, 0x6709, 0x60F3, 0x6CD5, 0x7684],
      utf8 [0x4E13, 0x6CE8, 0x8BBE, 0x8BA1],
      utf8 [0x8FA3] @ ''~'',
      utf8 [0x5927, 0x957F, 0x817F],
      utf8 [0x5DDD, 0x59B9, 0x5B50],
      utf8 [0x6D77, 0x7EB3, 0x767E, 0x5DDD]],
     tagInputVisible = False, tagInputValue = []\<rparr>"

definition handleTagClose :: "string \<Rightarrow> tag_page \<Rightarrow> tag_page" where
  "handleTagClose removeTag s = s\<lparr>tags := filter (\<lambda>tag. tag \<noteq> removeTag) (tags s)\<rparr>"

definition showTagInput :: "tag_page \<Rightarrow> tag_page" where
  "showTagInput s = s\<lparr>tagInputVisible := True\<rparr>"

definition handleInputChange :: "string \<Rightarrow> tag_page \<Rightarrow> tag_page" where
  "handleInputChange v s = s\<lparr>tagInputValue := v\<rparr>"

definition handleTagInputConfirm :: "tag_page \<Rightarrow> tag_page" where
  "handleTagInputConfirm s =
     (let inputValue = tagInputValue s;
          ts = (if inputValue \<noteq> [] \<and> inputValue \<notin> set (tags s) then tags s @ [inputValue] else tags s)
      in s\<lparr>tags := ts, tagInputVisible := False, tagInputValue := []\<rparr>)"

datatype tag_event = CloseTag string | ShowInput | TypeTag string | ConfirmTag

fun tag_page_step :: "tag_page \<Rightarrow> tag_event \<Rightarrow> tag_page" where
  "tag_page_step s (CloseTag t) = handleTagClose t s"
| "tag_page_step s ShowInput = showTagInput s"
| "tag_page_step s (TypeTag v) = handleInputChange v s"
| "tag_page_step s ConfirmTag = handleTagInputConfirm s"

text \<open>The tags as the user sees them: a typed tag is added when it is new, a closed one disappears.\<close>

fun tag_list_step :: "string list \<times> string \<Rightarrow> tag_event \<Rightarrow> string list \<times> string" where
  "tag_list_step (ts, v) (CloseTag t) = (remove1 t ts, v)"
| "tag_list_step (ts, v) ShowInput = (ts, v)"
| "tag_list_step (ts, v) (TypeTag v') = (ts, v')"
| "tag_list_step (ts, v) ConfirmTag = (if v = [] \<or> v \<in> set ts then ts else ts @ [v], [])"

interpretation account_tags: refinement "\<lambda>_ _. True" tag_page_step "\<lambda>s. distinct (tags s) \<and> [] \<notin> set (tags s)"
  "\<lambda>s. (tags s, tagInputValue s)" tag_list_step
proof unfold_locales
  show "distinct (tags (tag_page_step s e)) \<and> [] \<notin> set (tags (tag_page_step s e))"
    if "distinct (tags s) \<and> [] \<notin> set (tags s)" for s e
    using that
    by (cases e) (auto simp: handleTagClose_def showTagInput_def handleInputChange_def handleTagInputConfirm_def Let_def)
  show "(tags (tag_page_step s e), tagInputValue (tag_page_step s e)) = tag_list_step (tags s, tagInputValue s) e"
    if "distinct (tags s) \<and> [] \<notin> set (tags s)" for s e
  proof -
    have "remove1 t (tags s) = filter (\<lambda>tag. tag \<noteq> t) (tags s)" for t
      using that by (auto simp: distinct_remove1_removeAll removeAll_filter_not_eq intro: filter_cong)
    then show ?thesis
      by (cases e) (simp_all add: handleTagClose_def showTagInput_def handleInputChange_def
          handleTagInputConfirm_def Let_def)
  qed
qed

lemma account_tags_distinct:
  "distinct (tags (foldl tag_page_step init_tag_page es)) \<and> [] \<notin> set (tags (foldl tag_page_step init_tag_page es)) \<and>
   (tags (foldl tag_page_step init_tag_page es), tagInputValue (foldl tag_page_step init_tag_page es)) =
     foldl tag_list_step (tags init_tag_page, []) es"
proof -
  have i: "distinct (tags init_tag_page) \<and> [] \<notin> set (tags init_tag_page)" "tagInputValue init_tag_page = []"
    by (simp_all add: init_tag_page_def utf8_def utf8_char_def)
  show ?thesis using account_tags.run_inv [OF i(1)] account_tags.run_refines [OF i(1)] i(2) by simp
qed

section \<open>The query list\<close>

text \<open>The list or the form for a row, one in place of the other.\<close>

record 'r query_page =
  currentComponet :: string
  qp_record :: "'r option"

definition init_query_page :: "'r query_page" where
  "init_query_page = \<lparr>currentComponet = ''List'', qp_record = None\<rparr>"

definition query_handleEdit :: "'r option \<Rightarrow> 'r query_page \<Rightarrow> 'r query_page" where
  "query_handleEdit r s = s\<lparr>qp_record := r, currentComponet := ''Edit''\<rparr>"

definition handleGoBack :: "'r query_page \<Rightarrow> 'r query_page" where
  "handleGoBack s = s\<lparr>qp_record := None, currentComponet := ''List''\<rparr>"

section \<open>The test page\<close>

text \<open>What its buttons send to the tab bar. The two forms are validated first; the second one names the tab
  to rename.\<close>

record test_page =
  tw_visible :: bool
  tw_visible2 :: bool
  tw_sent :: "tab_event list"

definition handleCloseCurrentTab :: "test_page \<Rightarrow> test_page" where
  "handleCloseCurrentTab s = s\<lparr>tw_sent := tw_sent s @ [Close None]\<rparr>"

definition handleOpenTab :: "test_page \<Rightarrow> test_page" where
  "handleOpenTab s = s\<lparr>tw_sent := tw_sent s @ [Open (Some ''/features/task'')]\<rparr>"

definition confirm :: "string \<Rightarrow> bool \<Rightarrow> string \<Rightarrow> test_page \<Rightarrow> test_page" where
  "confirm path err tabName s =
     (if \<not> err then s\<lparr>tw_sent := tw_sent s @ [Rename path tabName], tw_visible := False\<rparr> else s)"

definition confirm2 :: "bool \<Rightarrow> string \<Rightarrow> string \<Rightarrow> test_page \<Rightarrow> test_page" where
  "confirm2 err tabKey tabName s =
     (if \<not> err then s\<lparr>tw_sent := tw_sent s @ [Rename tabKey tabName], tw_visible2 := False\<rparr> else s)"

text \<open>Closing the current tab by the button closes the active one, if it is not the last, and nothing else.\<close>

lemma close_current_tab:
  assumes "tab_reachable t" "1 < length (fullPathList t)" "activeKey t = Some k"
  shows "fst (bar_of (tab_step t (last (tw_sent (handleCloseCurrentTab s))))) = filter (\<lambda>x. x \<noteq> k) (fullPathList t)"
  using tab_step_bar [OF reachable_bar [OF assms(1)], of "Close None"] assms(2,3)
  by (simp add: handleCloseCurrentTab_def bar_of_def keep_tabs_def Let_def)

end
