(* ===== verification/Session.thy ===== *)
theory Session
  imports Guard LoginForm Layout Request
begin

text \<open>
  A browser tab that runs the frontend: the guard of \<open>permission.js\<close>, the account store, the error handler
  of \<open>utils/request.js\<close>, the login page and the log-out entry of the header, working on one store, one
  router and one local storage. An event is what reaches the tab from outside: a visit of a page, the
  answer to a request, the reload timer of the error handler. Each is handled by the definitions of the
  component it belongs to.
\<close>

section \<open>A tab\<close>

text \<open>\<open>tb_reloads\<close> counts the timers that will reload the page.\<close>

record 'm tab =
  tb_site :: "'m site"
  tb_shown :: location
  tb_reloads :: nat

text \<open>The route vue-router is on before the first navigation.\<close>

definition start_location :: location where
  "start_location = \<lparr>l_path = ''/'', l_fullPath = ''/'', l_name = None, l_redirect = None\<rparr>"

text \<open>A navigation from the page shown: the page changes when the guard lets it through.\<close>

definition visit_page ::
    "'m storage_ops \<Rightarrow> (string \<Rightarrow> string option \<Rightarrow> location) \<Rightarrow> (nat \<Rightarrow> requests) \<Rightarrow> location \<Rightarrow>
     'm tab \<Rightarrow> 'm tab" where
  "visit_page S locate rq to tab =
     (case navigate 4 S locate rq to (tb_shown tab) (tb_site tab) of
        None \<Rightarrow> tab
      | Some (st, to', entered) \<Rightarrow>
          (if entered then tab\<lparr>tb_site := st, tb_shown := to'\<rparr> else tab\<lparr>tb_site := st\<rparr>))"

text \<open>Opening the address in a tab, and again with \<open>window.location.reload()\<close>: the storage stays, the
  rest starts anew.\<close>

definition open_tab ::
    "'m storage_ops \<Rightarrow> (string \<Rightarrow> string option \<Rightarrow> location) \<Rightarrow> (nat \<Rightarrow> requests) \<Rightarrow> location \<Rightarrow> 'm \<Rightarrow>
     'm tab" where
  "open_tab S locate rq to m =
     visit_page S locate rq to \<lparr>tb_site = fresh_site S m, tb_shown = start_location, tb_reloads = 0\<rparr>"

definition reload ::
    "'m storage_ops \<Rightarrow> (string \<Rightarrow> string option \<Rightarrow> location) \<Rightarrow> (nat \<Rightarrow> requests) \<Rightarrow> 'm tab \<Rightarrow> 'm tab" where
  "reload S locate rq tab = open_tab S locate rq (tb_shown tab) (s_stored (tb_site tab))"

text \<open>A request that failed, with the log-outs the error handler starts, as far as they have been answered
  after \<open>n\<close> rounds.\<close>

definition api_failed ::
    "'m storage_ops \<Rightarrow> http_error \<Rightarrow> nat \<Rightarrow> (nat \<Rightarrow> http_error + unit) \<Rightarrow> 'm tab \<Rightarrow> 'm tab" where
  "api_failed S err n out tab =
     (let site = tb_site tab;
          (ss, logs_out, _) = errorHandler S err
            \<lparr>ss_stored = s_stored site, ss_user = s_user site, ss_notices = [], ss_logouts = 0, ss_reloads = 0\<rparr>;
          ss = (if logs_out then fst (logout_chain n S out ss) else ss)
      in tab\<lparr>tb_site := site\<lparr>s_stored := ss_stored ss, s_user := ss_user ss\<rparr>,
             tb_reloads := tb_reloads tab + ss_reloads ss\<rparr>)"

text \<open>The answer to a log-in that is under way on the login page, which goes where the page routes to.\<close>

definition sign_in ::
    "'m storage_ops \<Rightarrow> (string \<Rightarrow> string option \<Rightarrow> location) \<Rightarrow> (nat \<Rightarrow> requests) \<Rightarrow>
     js_error + login_result option \<Rightarrow> string option \<Rightarrow> 'm tab \<Rightarrow> 'm tab" where
  "sign_in S locate rq response message tab =
     (let site = tb_site tab;
          page = login_replied S response message
            ((init_login (s_stored site) (s_user site))\<lparr>loginBtn := True, logging_in := [Map.empty]\<rparr>)
      in foldl (\<lambda>tab p. visit_page S locate rq (locate p None) tab)
           (tab\<lparr>tb_site := site\<lparr>s_stored := lp_stored page, s_user := lp_user page\<rparr>\<rparr>) (routed page))"

text \<open>The confirmed log-out of the header, which pushes the login page by its name.\<close>

definition sign_out ::
    "'m storage_ops \<Rightarrow> (string \<Rightarrow> string option \<Rightarrow> location) \<Rightarrow> (nat \<Rightarrow> requests) \<Rightarrow> js_error + unit \<Rightarrow>
     'm tab \<Rightarrow> 'm tab" where
  "sign_out S locate rq response tab =
     (let site = tb_site tab;
          ((m, u), pushed) = handleLogout S response (s_stored site, s_user site);
          tab = tab\<lparr>tb_site := site\<lparr>s_stored := m, s_user := u\<rparr>\<rparr>
      in case pushed of None \<Rightarrow> tab | Some _ \<Rightarrow> visit_page S locate rq (locate loginRoutePath None) tab)"

datatype browser_event =
    Visit location "nat \<Rightarrow> requests"
  | ApiFailed http_error nat "nat \<Rightarrow> http_error + unit"
  | ReloadDue "nat \<Rightarrow> requests"
  | SignInReply "js_error + login_result option" "string option" "nat \<Rightarrow> requests"
  | SignOut "js_error + unit" "nat \<Rightarrow> requests"
  | ChangeSetting app_mutation jsval

text \<open>What can happen: a reload is due when a timer runs, a log-in is answered on the login page.\<close>

fun tab_enabled :: "'m tab \<Rightarrow> browser_event \<Rightarrow> bool" where
  "tab_enabled tab (ReloadDue rq) = (0 < tb_reloads tab)"
| "tab_enabled tab (SignInReply response message rq) = (l_path (tb_shown tab) = loginRoutePath)"
| "tab_enabled tab _ = True"

fun browser_step ::
    "'m storage_ops \<Rightarrow> (string \<Rightarrow> string option \<Rightarrow> location) \<Rightarrow> 'm tab \<Rightarrow> browser_event \<Rightarrow> 'm tab" where
  "browser_step S locate tab (Visit to rq) = visit_page S locate rq to tab"
| "browser_step S locate tab (ApiFailed err n out) = api_failed S err n out tab"
| "browser_step S locate tab (ReloadDue rq) = reload S locate rq tab"
| "browser_step S locate tab (SignInReply response message rq) = sign_in S locate rq response message tab"
| "browser_step S locate tab (SignOut response rq) = sign_out S locate rq response tab"
| "browser_step S locate tab (ChangeSetting mut v) =
     tab\<lparr>tb_site := (tb_site tab)\<lparr>s_stored := fst (commit_app S mut v (s_stored (tb_site tab), init_app))\<rparr>\<rparr>"

inductive browser_reachable ::
    "'m storage_ops \<Rightarrow> (string \<Rightarrow> string option \<Rightarrow> location) \<Rightarrow> 'm tab \<Rightarrow> bool" for S locate where
  tab_opened: "browser_reachable S locate (open_tab S locate rq to m)"
| tab_goes_on: "browser_reachable S locate tab \<Longrightarrow> tab_enabled tab e \<Longrightarrow>
     browser_reachable S locate (browser_step S locate tab e)"

section \<open>The invariant of the site\<close>

definition role_routes :: "string list \<Rightarrow> route list" where
  "role_routes ps = prune (permitted ps) asyncRouterMap"

text \<open>The session is consistent, the router has the constant routes and then those of the roles there were
  since the page was loaded, and a role in the store is the last of them and has its menu.\<close>

definition site_inv :: "'m storage_ops \<Rightarrow> 'm site \<Rightarrow> bool" where
  "site_inv S st \<longleftrightarrow>
     session_inv S (s_stored st, s_user st) \<and>
     (\<exists>pss. s_router st = constantRouterMap @ concat (map role_routes pss) \<and>
        (case us_roles (s_user st) of
           NoRoles \<Rightarrow> True
         | Roles ro \<Rightarrow> pss \<noteq> [] \<and> ro_permissionList ro = Some (last pss) \<and>
             addRouters (s_permission st) = role_routes (last pss)))"

lemma site_inv_session: "site_inv S st \<Longrightarrow> session_inv S (s_stored st, s_user st)"
  by (simp add: site_inv_def)

text \<open>A change of the account that does not bring a new role.\<close>

lemma site_inv_account:
  assumes "site_inv S st" "session_inv S (m, u)" "us_roles u = us_roles (s_user st) \<or> us_roles u = NoRoles"
  shows "site_inv S (st\<lparr>s_stored := m, s_user := u\<rparr>)"
proof -
  obtain pss where "s_router st = constantRouterMap @ concat (map role_routes pss)"
    "case us_roles (s_user st) of NoRoles \<Rightarrow> True
     | Roles ro \<Rightarrow> pss \<noteq> [] \<and> ro_permissionList ro = Some (last pss) \<and>
         addRouters (s_permission st) = role_routes (last pss)"
    using assms(1) by (auto simp: site_inv_def)
  with assms(2,3) show ?thesis
    unfolding site_inv_def by (intro conjI exI [of _ pss]) (auto split: roles_value.splits)
qed

lemma fresh_session_inv:
  assumes "storage_laws S"
  shows "session_inv S (stored (Initializer S (fresh_app m)), user (Initializer S (fresh_app m)))"
  by (simp add: session_inv_def Initializer_token [OF assms], simp add: fresh_app_def init_user_def)

lemma fresh_site_inv: "storage_laws S \<Longrightarrow> site_inv S (fresh_site S m)"
  using fresh_session_inv [of S m] Initializer_token(3) [of S "fresh_app m"]
  by (auto simp: site_inv_def fresh_site_def Let_def fresh_app_def init_user_def intro: exI [of _ "[]"])

lemma Logout_roles:
  "us_roles (snd (fst (Logout S r ms))) = us_roles (snd ms) \<or> us_roles (snd (fst (Logout S r ms))) = NoRoles"
  by (cases ms) (auto simp: store_simps split: sum.splits)

lemma session_inv_Logout: "storage_laws S \<Longrightarrow> session_inv S ms \<Longrightarrow> session_inv S (fst (Logout S r ms))"
  by (rule account_step_inv [OF _ step_logout])

lemma session_inv_Login: "storage_laws S \<Longrightarrow> session_inv S ms \<Longrightarrow> session_inv S (fst (Login S r ms))"
  by (rule account_step_inv [OF _ step_login])

lemma session_inv_GetInfo:
  "storage_laws S \<Longrightarrow> session_inv S (m, u) \<Longrightarrow> session_inv S (m, fst (GetInfo g r u))"
  by (rule account_step_inv [OF _ step_info])

lemma Login_roles: "us_roles (snd (fst (Login S r ms))) = us_roles (snd ms)"
  by (cases ms) (auto simp: store_simps split: sum.splits option.splits)

text \<open>A first visit with a role brings its routes.\<close>

lemma beforeEach_granted_state:
  assumes "logged_in S st" "l_path to \<noteq> loginRoutePath" "\<not> has_role st" "granted_by rq = Some ps"
  shows "\<exists>u ro. fst (beforeEach S rq to from st) =
      st\<lparr>s_user := u,
         s_permission := (s_permission st)\<lparr>addRouters := role_routes ps,
           routers := constantRouterMap @ role_routes ps\<rparr>,
         s_router := s_router st @ role_routes ps\<rparr> \<and>
    u = fst (GetInfo (rq_greeting rq) (rq_info rq) (s_user st)) \<and> us_roles u = Roles ro \<and>
    ro_permissionList ro = Some ps"
proof -
  obtain u res ro where g: "GetInfo (rq_greeting rq) (rq_info rq) (s_user st) = (u, Resolved res)"
    and "us_roles u = Roles ro" "ui_role res = Some ro" "ro_permissionList ro = Some ps"
    using GetInfo_granted [OF assms(4)] by blast
  with assms(1-3) show ?thesis
    by (cases "us_roles (s_user st)")
      (auto simp: beforeEach_def logged_in_def has_role_def after_info_def GenerateRoutes_result
        add_routes_def role_routes_def Let_def split: option.splits)
qed

lemma beforeEach_refused_state:
  assumes "logged_in S st" "l_path to \<noteq> loginRoutePath" "\<not> has_role st" "granted_by rq = None"
  shows "\<exists>m u. fst (beforeEach S rq to from st) = st\<lparr>s_stored := m, s_user := u\<rparr> \<and>
    (m, u) = fst (Logout S (rq_logout rq) (s_stored st, fst (GetInfo (rq_greeting rq) (rq_info rq) (s_user st))))"
proof -
  obtain u e where g: "GetInfo (rq_greeting rq) (rq_info rq) (s_user st) = (u, Rejected e)"
    using GetInfo_not_granted [OF assms(4)] by blast
  obtain m' u' p where l: "Logout S (rq_logout rq) (s_stored st, u) = ((m', u'), p)"
    by (metis prod.exhaust)
  from assms(1-3) g l show ?thesis
    by (cases "us_roles (s_user st)"; cases p)
      (auto simp: beforeEach_def logged_in_def has_role_def after_failure_def Let_def)
qed

lemma beforeEach_site_inv:
  assumes "storage_laws S" "site_inv S st"
  shows "site_inv S (fst (beforeEach S rq to from st))"
proof -
  consider "\<not> logged_in S st" | "logged_in S st" "l_path to = loginRoutePath"
    | "logged_in S st" "l_path to \<noteq> loginRoutePath" "has_role st"
    | (granted) ps where "logged_in S st" "l_path to \<noteq> loginRoutePath" "\<not> has_role st" "granted_by rq = Some ps"
    | (refused) "logged_in S st" "l_path to \<noteq> loginRoutePath" "\<not> has_role st" "granted_by rq = None"
    by (cases "granted_by rq") auto
  then show ?thesis
  proof cases
    case granted
    obtain u ro where st': "fst (beforeEach S rq to from st) =
        st\<lparr>s_user := u, s_permission := (s_permission st)\<lparr>addRouters := role_routes ps,
           routers := constantRouterMap @ role_routes ps\<rparr>, s_router := s_router st @ role_routes ps\<rparr>"
      and u: "u = fst (GetInfo (rq_greeting rq) (rq_info rq) (s_user st))" "us_roles u = Roles ro"
        "ro_permissionList ro = Some ps"
      using beforeEach_granted_state [OF granted, of "from"] by blast
    obtain pss where "s_router st = constantRouterMap @ concat (map role_routes pss)"
      using assms(2) by (auto simp: site_inv_def)
    then have "s_router st @ role_routes ps = constantRouterMap @ concat (map role_routes (pss @ [ps]))"
      by simp
    moreover have "session_inv S (s_stored st, u)"
      unfolding u(1) by (rule session_inv_GetInfo [OF assms(1) site_inv_session [OF assms(2)]])
    ultimately show ?thesis
      using u(2,3) unfolding st' site_inv_def by (auto intro: exI [of _ "pss @ [ps]"])
  next
    case refused
    let ?u0 = "fst (GetInfo (rq_greeting rq) (rq_info rq) (s_user st))"
    obtain m u where st': "fst (beforeEach S rq to from st) = st\<lparr>s_stored := m, s_user := u\<rparr>"
      and mu: "(m, u) = fst (Logout S (rq_logout rq) (s_stored st, ?u0))"
      using beforeEach_refused_state [OF refused, of "from"] by blast
    have "session_inv S (m, u)"
      unfolding mu
      by (rule session_inv_Logout [OF assms(1) session_inv_GetInfo [OF assms(1) site_inv_session [OF assms(2)]]])
    moreover have "us_roles ?u0 = us_roles (s_user st)"
      using GetInfo_not_granted [OF refused(4), of "rq_greeting rq" "s_user st"] by auto
    then have "us_roles u = us_roles (s_user st) \<or> us_roles u = NoRoles"
      using Logout_roles [of S "rq_logout rq" "(s_stored st, ?u0)"] mu by (metis snd_conv)
    ultimately show ?thesis
      unfolding st' using assms(2) by (rule site_inv_account [rotated])
  qed (use assms(2) in \<open>simp_all add: beforeEach_logged_out beforeEach_login_page beforeEach_role\<close>)
qed

text \<open>A navigation keeps what the guard keeps.\<close>

lemma navigate_keeps:
  assumes "\<And>rq to st. P st \<Longrightarrow> P (fst (beforeEach S rq to from st))"
  shows "P st \<Longrightarrow> navigate n S locate rq to from st = Some (st', r) \<Longrightarrow> P st'"
proof (induction n arbitrary: to st)
  case (Suc n)
  obtain st1 d where b: "beforeEach S (rq n) to from st = (st1, d)" by fastforce
  then have "P st1" using assms [OF Suc.prems(1), of "rq n" to] by simp
  with Suc.IH Suc.prems(2) b show ?case by (cases d) auto
qed simp

lemma navigate_logged_out:
  assumes "l_name (locate loginRoutePath (Some (l_fullPath to))) = Some ''login''" "\<not> logged_in S st"
  shows "navigate (Suc (Suc n)) S locate rq to from st =
    Some (st, if l_name to \<in> Some ` set allowList then to else locate loginRoutePath (Some (l_fullPath to)), True)"
  using assms by (simp add: beforeEach_logged_out) (simp add: allowList_def)

section \<open>The invariant of the tab\<close>

definition public :: "location \<Rightarrow> bool" where
  "public l \<longleftrightarrow> l_name l \<in> Some ` set allowList \<or> l = start_location"

definition tab_inv :: "'m storage_ops \<Rightarrow> 'm tab \<Rightarrow> bool" where
  "tab_inv S tab \<longleftrightarrow>
     site_inv S (tb_site tab) \<and>
     (logged_in S (tb_site tab) \<or> public (tb_shown tab) \<or> 0 < tb_reloads tab)"

text \<open>A visit restores the second half of the invariant, whatever was shown before.\<close>

lemma visit_inv:
  assumes "storage_laws S" and login: "\<And>r. l_name (locate loginRoutePath r) = Some ''login''"
    and "site_inv S (tb_site tab)"
  shows "tab_inv S (visit_page S locate rq to tab)"
proof (cases "navigate 4 S locate rq to (tb_shown tab) (tb_site tab)")
  case None
  have "logged_in S (tb_site tab)"
  proof (rule ccontr)
    assume "\<not> logged_in S (tb_site tab)"
    from navigate_logged_out [where locate = locate and n = 2, OF login this] None
    show False by (simp add: eval_nat_numeral del: navigate.simps)
  qed
  with None assms(3) show ?thesis by (simp add: visit_page_def tab_inv_def)
next
  case (Some r)
  obtain st' to' entered where r: "r = (st', to', entered)" by (metis prod.exhaust)
  have "site_inv S st'"
    using navigate_keeps [where P = "site_inv S", OF beforeEach_site_inv [OF assms(1)] assms(3) Some [unfolded r]] .
  moreover have "logged_in S st' \<or> entered \<and> l_name to' \<in> Some ` set allowList"
    by (rule navigate_guarded [OF Some [unfolded r]])
  ultimately show ?thesis using Some r by (auto simp: visit_page_def tab_inv_def public_def)
qed

lemma visit_page_keeps [simp]: "tb_reloads (visit_page S locate rq to tab) = tb_reloads tab"
  by (simp add: visit_page_def split: option.splits prod.splits)

lemma errorHandler_session:
  "ss_stored (fst (errorHandler S err ss)) = ss_stored ss"
  "ss_user (fst (errorHandler S err ss)) = ss_user ss"
  "ss_reloads (fst (errorHandler S err ss)) = ss_reloads ss"
  by (rule errorHandler_keeps)+

text \<open>The chain of log-outs either leaves the account as it is or logs out and schedules a reload.\<close>

lemma logout_chain_account:
  assumes "storage_laws S" "session_inv S (ss_stored ss, ss_user ss)"
  shows "let ss' = fst (logout_chain n S out ss) in
    session_inv S (ss_stored ss', ss_user ss') \<and>
    (us_roles (ss_user ss') = us_roles (ss_user ss) \<or> us_roles (ss_user ss') = NoRoles) \<and>
    (s_get S (ss_stored ss') ACCESS_TOKEN = s_get S (ss_stored ss) ACCESS_TOKEN \<or> ss_reloads ss < ss_reloads ss')"
  using assms(2)
proof (induction n arbitrary: ss)
  case (Suc n)
  let ?ss = "ss\<lparr>ss_logouts := Suc (ss_logouts ss)\<rparr>"
  show ?case
  proof (cases "out (ss_logouts ss)")
    case (Inl err)
    obtain ss1 again e where h: "errorHandler S err ?ss = (ss1, again, e)" by (metis prod_cases3)
    then have "ss_stored ss1 = ss_stored ss" "ss_user ss1 = ss_user ss" "ss_reloads ss1 = ss_reloads ss"
      using errorHandler_session [of S err ?ss] by simp_all
    with Suc.IH [of "ss1\<lparr>ss_stored := ss_stored ss, ss_user := ss_user ss\<rparr>"] Suc.prems Inl h show ?thesis
      by (cases again) (simp_all add: Logout_def Let_def)
  next
    case (Inr u)
    let ?mu = "fst (Logout S (Inr ()) (ss_stored ss, ss_user ss))"
    have "session_inv S ?mu" by (rule session_inv_Logout [OF assms(1) Suc.prems])
    with Inr show ?thesis
      using Logout_roles [of S "Inr ()" "(ss_stored ss, ss_user ss)"] by (cases ?mu) simp
  qed
qed simp

lemma api_failed_inv:
  assumes "storage_laws S" "tab_inv S tab"
  shows "tab_inv S (api_failed S err n out tab)"
proof -
  let ?site = "tb_site tab"
  let ?ss = "\<lparr>ss_stored = s_stored ?site, ss_user = s_user ?site, ss_notices = [], ss_logouts = 0, ss_reloads = 0\<rparr>"
  obtain ss1 again e where h: "errorHandler S err ?ss = (ss1, again, e)" by (metis prod_cases3)
  then have ss1: "ss_stored ss1 = s_stored ?site" "ss_user ss1 = s_user ?site" "ss_reloads ss1 = 0"
    using errorHandler_session [of S err ?ss] by simp_all
  define ss2 where "ss2 = (if again then fst (logout_chain n S out ss1) else ss1)"
  have site: "site_inv S ?site" using assms(2) by (simp add: tab_inv_def)
  have "session_inv S (ss_stored ss1, ss_user ss1)" using site_inv_session [OF site] ss1 by simp
  from logout_chain_account [OF assms(1) this, of n out] this ss1
  have ss2: "session_inv S (ss_stored ss2, ss_user ss2)"
    "us_roles (ss_user ss2) = us_roles (s_user ?site) \<or> us_roles (ss_user ss2) = NoRoles"
    "s_get S (ss_stored ss2) ACCESS_TOKEN = s_get S (s_stored ?site) ACCESS_TOKEN \<or> 0 < ss_reloads ss2"
    by (auto simp: ss2_def Let_def)
  have failed: "api_failed S err n out tab =
      tab\<lparr>tb_site := ?site\<lparr>s_stored := ss_stored ss2, s_user := ss_user ss2\<rparr>,
          tb_reloads := tb_reloads tab + ss_reloads ss2\<rparr>"
    using h by (simp add: api_failed_def ss2_def Let_def)
  show ?thesis
    using assms(2) ss2(3) site_inv_account [OF site ss2(1,2)]
    unfolding failed by (auto simp: tab_inv_def logged_in_def)
qed

text \<open>What a log-in answered on the login page does.\<close>

lemma sign_in_cases:
  "sign_in S locate rq response message tab =
     (let ((m, u), p) = Login S response (s_stored (tb_site tab), s_user (tb_site tab));
          tab' = tab\<lparr>tb_site := (tb_site tab)\<lparr>s_stored := m, s_user := u\<rparr>\<rparr>
      in case p of Resolved _ \<Rightarrow> visit_page S locate rq (locate ''/'' None) tab' | _ \<Rightarrow> tab)"
  by (auto simp: sign_in_def login_replied_def init_login_def loginSuccess_def requestFailed_def Login_def Let_def
      split: sum.splits option.splits)

lemma sign_in_inv:
  assumes "storage_laws S" "\<And>r. l_name (locate loginRoutePath r) = Some ''login''" "tab_inv S tab"
  shows "tab_inv S (sign_in S locate rq response message tab)"
proof -
  let ?ms = "(s_stored (tb_site tab), s_user (tb_site tab))"
  obtain m u p where l: "Login S response ?ms = ((m, u), p)" by (metis prod.exhaust)
  have site: "site_inv S (tb_site tab)" using assms(3) by (simp add: tab_inv_def)
  have "site_inv S ((tb_site tab)\<lparr>s_stored := m, s_user := u\<rparr>)"
    using session_inv_Login [OF assms(1) site_inv_session [OF site], of response] Login_roles [of S response ?ms] l
    by (intro site_inv_account [OF site]) simp_all
  then show ?thesis
    using visit_inv [where locate = locate, OF assms(1,2)] assms(3) l
    by (simp add: sign_in_cases Let_def split: promise.splits)
qed

lemma sign_out_inv:
  assumes "storage_laws S" "\<And>r. l_name (locate loginRoutePath r) = Some ''login''" "tab_inv S tab"
  shows "tab_inv S (sign_out S locate rq response tab)"
proof -
  let ?ms = "(s_stored (tb_site tab), s_user (tb_site tab))"
  obtain m u p where l: "Logout S response ?ms = ((m, u), p)" by (metis prod.exhaust)
  have site: "site_inv S (tb_site tab)" using assms(3) by (simp add: tab_inv_def)
  have out: "site_inv S ((tb_site tab)\<lparr>s_stored := m, s_user := u\<rparr>)"
    using session_inv_Logout [OF assms(1) site_inv_session [OF site], of response] Logout_roles [of S response ?ms] l
    by (intro site_inv_account [OF site]) simp_all
  show ?thesis
  proof (cases "\<exists>x. p = Resolved x")
    case True
    then show ?thesis
      using out visit_inv [where locate = locate, OF assms(1,2)] l
      by (auto simp: sign_out_def handleLogout_def Let_def)
  next
    case False
    then have "(m, u) = ?ms" using l by (auto simp: Logout_def split: sum.splits)
    with False l assms(3) show ?thesis
      by (cases p) (auto simp: sign_out_def handleLogout_def Let_def)
  qed
qed

lemma open_tab_inv:
  assumes "storage_laws S" "\<And>r. l_name (locate loginRoutePath r) = Some ''login''"
  shows "tab_inv S (open_tab S locate rq to m)"
  unfolding open_tab_def
  by (rule visit_inv [where locate = locate, OF assms]) (simp add: fresh_site_inv [OF assms(1)])

lemma setting_inv:
  assumes "storage_laws S" "tab_inv S tab"
  shows "tab_inv S (browser_step S locate tab (ChangeSetting mut v))"
proof -
  let ?st = "tb_site tab" and ?m = "fst (commit_app S mut v (s_stored (tb_site tab), init_app))"
  have site: "site_inv S ?st" using assms(2) by (simp add: tab_inv_def)
  have "account_step S (s_stored ?st, s_user ?st) (?m, s_user ?st)" by (rule step_setting)
  from account_step_inv [OF assms(1) this site_inv_session [OF site]] site
  have "site_inv S (?st\<lparr>s_stored := ?m\<rparr>)"
    using site_inv_account [OF site, of ?m "s_user ?st"] by simp
  moreover have "logged_in S (?st\<lparr>s_stored := ?m\<rparr>) = logged_in S ?st"
    by (simp add: logged_in_def get_commit [OF assms(1)] storage_key_no_token)
  ultimately show ?thesis using assms(2) by (simp add: tab_inv_def)
qed

lemma browser_step_inv:
  assumes "storage_laws S" "\<And>r. l_name (locate loginRoutePath r) = Some ''login''" "tab_inv S tab"
  shows "tab_inv S (browser_step S locate tab e)"
proof (cases e)
  case (Visit to rq)
  then show ?thesis using visit_inv [where locate = locate, OF assms(1,2)] assms(3) by (simp add: tab_inv_def)
next
  case (ReloadDue rq)
  then show ?thesis using open_tab_inv [where locate = locate, OF assms(1,2)] by (simp add: reload_def)
next
  case (SignInReply response message rq)
  then show ?thesis using sign_in_inv [where locate = locate, OF assms] by simp
next
  case (SignOut response rq)
  then show ?thesis using sign_out_inv [where locate = locate, OF assms] by simp
next
  case (ApiFailed err n out)
  then show ?thesis using api_failed_inv [OF assms(1,3)] by simp
next
  case (ChangeSetting mut v)
  then show ?thesis using setting_inv [OF assms(1,3)] by simp
qed

lemma browser_reachable_inv:
  assumes "storage_laws S" "\<And>r. l_name (locate loginRoutePath r) = Some ''login''"
  shows "browser_reachable S locate tab \<Longrightarrow> tab_inv S tab"
  by (induction rule: browser_reachable.induct)
    (simp_all add: open_tab_inv [where locate = locate, OF assms] browser_step_inv [where locate = locate, OF assms]
      del: browser_step.simps)

section \<open>The roles of a tab\<close>

text \<open>The roles the account of a tab has got since the page was loaded, in order, each by the identifiers of
  its permissions: a history beside the state, which the tab itself does not keep.\<close>

definition role_held :: "'m tab \<Rightarrow> string list list" where
  "role_held tab = (case us_roles (s_user (tb_site tab)) of NoRoles \<Rightarrow> [] | Roles ro \<Rightarrow> [permission_ids ro])"

definition roles_after :: "string list list \<Rightarrow> 'm tab \<Rightarrow> browser_event \<Rightarrow> 'm tab \<Rightarrow> string list list" where
  "roles_after pss tab e tab' =
     (case e of
        ReloadDue _ \<Rightarrow> role_held tab'
      | _ \<Rightarrow> (if role_held tab = [] then pss @ role_held tab' else pss))"

inductive browser_history ::
    "'m storage_ops \<Rightarrow> (string \<Rightarrow> string option \<Rightarrow> location) \<Rightarrow> 'm tab \<Rightarrow> string list list \<Rightarrow> bool"
  for S locate where
  history_opened: "browser_history S locate (open_tab S locate rq to m) (role_held (open_tab S locate rq to m))"
| history_goes_on: "browser_history S locate tab pss \<Longrightarrow> tab_enabled tab e \<Longrightarrow>
     browser_history S locate (browser_step S locate tab e) (roles_after pss tab e (browser_step S locate tab e))"

lemma history_reachable: "browser_history S locate tab pss \<Longrightarrow> browser_reachable S locate tab"
  by (induction rule: browser_history.induct) (auto intro: browser_reachable.intros)

lemma reachable_history: "browser_reachable S locate tab \<Longrightarrow> \<exists>pss. browser_history S locate tab pss"
  by (induction rule: browser_reachable.induct) (auto intro: browser_history.intros)

text \<open>A step without a role before it puts the routes of the role it brings, if any, behind the router's; a
  step with a role leaves the router alone and keeps the role or drops it.\<close>

definition grows :: "'m tab \<Rightarrow> 'm tab \<Rightarrow> bool" where
  "grows tab tab' \<longleftrightarrow>
     (if role_held tab = []
      then s_router (tb_site tab') = s_router (tb_site tab) @ concat (map role_routes (role_held tab'))
      else s_router (tb_site tab') = s_router (tb_site tab) \<and> role_held tab' \<in> {role_held tab, []})"

lemma role_held_empty: "role_held tab = [] \<longleftrightarrow> \<not> has_role (tb_site tab)"
  by (simp add: role_held_def has_role_def split: roles_value.splits)

lemma role_held_single: "role_held tab \<noteq> [] \<Longrightarrow> role_held tab = [last (role_held tab)]"
  by (simp add: role_held_def split: roles_value.splits)

text \<open>A change of the account that brings no role.\<close>

lemma grows_account:
  assumes "us_roles u = us_roles (s_user (tb_site tab)) \<or> us_roles u = NoRoles"
  shows "grows tab (tab\<lparr>tb_site := (tb_site tab)\<lparr>s_stored := m, s_user := u\<rparr>, tb_reloads := k\<rparr>)"
  using assms by (auto simp: grows_def role_held_def split: roles_value.splits)

lemma beforeEach_same:
  assumes "has_role st \<or> \<not> logged_in S st"
  shows "fst (beforeEach S rq to from st) = st"
  using assms
  by (cases "logged_in S st"; cases "l_path to = loginRoutePath")
    (simp_all add: beforeEach_logged_out beforeEach_login_page beforeEach_role)

lemma beforeEach_grows:
  assumes "storage_laws S" "site_inv S st" "\<not> has_role st" "fst (beforeEach S rq to from st) = st'"
  shows "if has_role st' then s_router st' =
      s_router st @ (case us_roles (s_user st') of NoRoles \<Rightarrow> [] | Roles ro \<Rightarrow> role_routes (permission_ids ro))
    else s_router st' = s_router st"
proof -
  have inv: "site_inv S st'" using beforeEach_site_inv [OF assms(1,2), of rq to "from"] assms(4) by simp
  consider "\<not> logged_in S st" | "logged_in S st" "l_path to = loginRoutePath"
    | (granted) ps where "logged_in S st" "l_path to \<noteq> loginRoutePath" "granted_by rq = Some ps"
    | (refused) "logged_in S st" "l_path to \<noteq> loginRoutePath" "granted_by rq = None"
    by (cases "granted_by rq") auto
  then show ?thesis
  proof cases
    case granted
    from beforeEach_granted_state [OF granted(1,2) assms(3) granted(3), of "from"] obtain u ro where
      "st' = st\<lparr>s_user := u, s_permission := (s_permission st)\<lparr>addRouters := role_routes ps,
         routers := constantRouterMap @ role_routes ps\<rparr>, s_router := s_router st @ role_routes ps\<rparr>"
      "us_roles u = Roles ro" "ro_permissionList ro = Some ps"
      using assms(4) by auto
    moreover from this have "permission_ids ro = ps"
      using site_inv_session [OF inv] by (simp add: session_inv_def)
    ultimately show ?thesis by (simp add: has_role_def)
  next
    case refused
    from beforeEach_not_granted [OF assms(1) refused(1,2) assms(3) refused(3), of "from"] assms(4)
    show ?thesis by auto
  qed (use assms(3,4) in \<open>auto simp: beforeEach_logged_out beforeEach_login_page\<close>)
qed

lemma navigate_same:
  assumes "has_role st \<or> \<not> logged_in S st" "navigate n S locate rq to from st = Some (st', r)"
  shows "st' = st"
  using navigate_keeps [where P = "\<lambda>st'. st' = st", OF _ refl assms(2)] beforeEach_same [OF assms(1)] by simp

lemma navigate_grows:
  assumes "storage_laws S"
  shows "site_inv S st \<Longrightarrow> \<not> has_role st \<Longrightarrow> navigate n S locate rq to from st = Some (st', r) \<Longrightarrow>
    (if has_role st' then s_router st' =
       s_router st @ (case us_roles (s_user st') of NoRoles \<Rightarrow> [] | Roles ro \<Rightarrow> role_routes (permission_ids ro))
     else s_router st' = s_router st)"
proof (induction n arbitrary: to st)
  case (Suc n)
  obtain st1 d where b: "beforeEach S (rq n) to from st = (st1, d)" by fastforce
  have inv: "site_inv S st1" using beforeEach_site_inv [OF assms Suc.prems(1), of "rq n" to "from"] b by simp
  note step = beforeEach_grows [OF assms Suc.prems(1,2), of "rq n" to "from" st1]
  show ?case
  proof (cases "has_role st1")
    case True
    then have "st' = st1"
      using Suc.prems(3) b navigate_same [of st1 S n locate rq _ "from" st' r] by (cases d) auto
    with step b True show ?thesis by simp
  next
    case False
    with step b have "s_router st1 = s_router st" by simp
    with Suc.IH [OF inv False] Suc.prems(3) b False show ?thesis by (cases d) auto
  qed
qed simp

lemma visit_grows:
  assumes "storage_laws S" "site_inv S (tb_site tab)"
  shows "grows tab (visit_page S locate rq to tab)"
proof (cases "navigate 4 S locate rq to (tb_shown tab) (tb_site tab)")
  case None
  then show ?thesis by (simp add: visit_page_def grows_def role_held_def split: roles_value.splits)
next
  case (Some r)
  obtain st' to' entered where r: "r = (st', to', entered)" by (metis prod.exhaust)
  have site: "tb_site (visit_page S locate rq to tab) = st'"
    using Some r by (simp add: visit_page_def)
  show ?thesis
  proof (cases "has_role (tb_site tab)")
    case True
    with navigate_same [OF _ Some [unfolded r]] have "st' = tb_site tab" by simp
    with site show ?thesis by (auto simp: grows_def role_held_def split: roles_value.splits)
  next
    case False
    from navigate_grows [OF assms False Some [unfolded r]] site False show ?thesis
      by (auto simp: grows_def role_held_def has_role_def split: roles_value.splits if_splits)
  qed
qed

lemma logout_chain_roles:
  "us_roles (ss_user (fst (logout_chain n S out ss))) = us_roles (ss_user ss) \<or>
   us_roles (ss_user (fst (logout_chain n S out ss))) = NoRoles"
proof (induction n arbitrary: ss)
  case (Suc n)
  let ?ss = "ss\<lparr>ss_logouts := Suc (ss_logouts ss)\<rparr>"
  show ?case
  proof (cases "out (ss_logouts ss)")
    case (Inl err)
    obtain ss1 again e where h: "errorHandler S err ?ss = (ss1, again, e)" by (metis prod_cases3)
    then have "ss_stored ss1 = ss_stored ss" "ss_user ss1 = ss_user ss"
      using errorHandler_session(1,2) [of S err ?ss] by simp_all
    with Suc.IH [of "ss1\<lparr>ss_stored := ss_stored ss, ss_user := ss_user ss\<rparr>"] Inl h show ?thesis
      by (cases again) (simp_all add: Logout_def Let_def)
  next
    case (Inr u)
    then show ?thesis
      using Logout_roles [of S "Inr ()" "(ss_stored ss, ss_user ss)"]
      by (cases "fst (Logout S (Inr ()) (ss_stored ss, ss_user ss))") simp
  qed
qed simp

lemma api_failed_grows: "grows tab (api_failed S err n out tab)"
proof -
  let ?ss = "\<lparr>ss_stored = s_stored (tb_site tab), ss_user = s_user (tb_site tab), ss_notices = [],
      ss_logouts = 0, ss_reloads = 0\<rparr>"
  obtain ss1 again e where h: "errorHandler S err ?ss = (ss1, again, e)" by (metis prod_cases3)
  then have user: "ss_user ss1 = s_user (tb_site tab)" using errorHandler_session(2) [of S err ?ss] by simp
  define ss2 where "ss2 = (if again then fst (logout_chain n S out ss1) else ss1)"
  have "api_failed S err n out tab =
      tab\<lparr>tb_site := (tb_site tab)\<lparr>s_stored := ss_stored ss2, s_user := ss_user ss2\<rparr>,
          tb_reloads := tb_reloads tab + ss_reloads ss2\<rparr>"
    using h by (simp add: api_failed_def ss2_def Let_def)
  moreover have "us_roles (ss_user ss2) = us_roles (s_user (tb_site tab)) \<or> us_roles (ss_user ss2) = NoRoles"
    using user logout_chain_roles [of n S out ss1] by (auto simp: ss2_def)
  ultimately show ?thesis by (simp only: grows_account)
qed

lemma grows_same: "tb_site tab' = tb_site tab \<Longrightarrow> grows tab tab'"
  by (auto simp: grows_def role_held_def split: roles_value.splits)

text \<open>A new token with the roles as they are, then a visit.\<close>

lemma grows_account_visit:
  assumes "us_roles u = us_roles (s_user (tb_site tab))"
    and "grows (tab\<lparr>tb_site := (tb_site tab)\<lparr>s_stored := m, s_user := u\<rparr>\<rparr>) tab'"
  shows "grows tab tab'"
proof -
  have "role_held (tab\<lparr>tb_site := (tb_site tab)\<lparr>s_stored := m, s_user := u\<rparr>\<rparr>) = role_held tab"
    using assms(1) by (simp add: role_held_def)
  with assms(2) show ?thesis by (auto simp: grows_def split: if_splits)
qed

lemma sign_in_grows:
  assumes "storage_laws S" "tab_inv S tab"
  shows "grows tab (sign_in S locate rq response message tab)"
proof -
  let ?ms = "(s_stored (tb_site tab), s_user (tb_site tab))"
  obtain m u p where l: "Login S response ?ms = ((m, u), p)" by (metis prod.exhaust)
  have site: "site_inv S (tb_site tab)" using assms(2) by (simp add: tab_inv_def)
  have roles: "us_roles u = us_roles (s_user (tb_site tab))" using Login_roles [of S response ?ms] l by simp
  have "site_inv S ((tb_site tab)\<lparr>s_stored := m, s_user := u\<rparr>)"
    using session_inv_Login [OF assms(1) site_inv_session [OF site], of response] roles l
    by (intro site_inv_account [OF site]) simp_all
  then show ?thesis
    using l grows_account_visit [OF roles visit_grows [OF assms(1)]] grows_same [OF refl, of tab]
    by (auto simp: sign_in_cases Let_def split: promise.splits)
qed

lemma sign_out_grows:
  assumes "storage_laws S" "tab_inv S tab"
  shows "grows tab (sign_out S locate rq response tab)"
proof (cases response)
  case (Inl e)
  then show ?thesis by (auto simp: sign_out_def handleLogout_def Logout_def Let_def intro: grows_same)
next
  case (Inr r)
  let ?ms = "(s_stored (tb_site tab), s_user (tb_site tab))"
  let ?site = "(tb_site tab)\<lparr>s_stored := fst (fst (Logout S response ?ms)), s_user := snd (fst (Logout S response ?ms))\<rparr>"
  let ?tab = "visit_page S locate rq (locate loginRoutePath None) (tab\<lparr>tb_site := ?site\<rparr>)"
  have out: "\<not> logged_in S ?site" "\<not> has_role ?site"
    using Inr by (simp_all add: Logout_def logged_in_def has_role_def store_simps get_remove [OF assms(1)] Let_def)
  have "tb_site ?tab = ?site"
    using navigate_same [where st = ?site and S = S and locate = locate] out(1)
    by (auto simp: visit_page_def split: option.splits prod.splits)
  moreover have "sign_out S locate rq response tab = ?tab"
    using Inr by (simp add: sign_out_def handleLogout_def Logout_def Let_def)
  ultimately show ?thesis using out(2) by (auto simp: grows_def role_held_def has_role_def split: roles_value.splits)
qed

lemma step_grows:
  assumes "storage_laws S" "tab_inv S tab" "\<And>rq. e \<noteq> ReloadDue rq"
  shows "grows tab (browser_step S locate tab e)"
proof (cases e)
  case (ChangeSetting mut v)
  then show ?thesis by (auto simp: grows_def role_held_def split: roles_value.splits)
qed (use assms visit_grows [OF assms(1)] sign_in_grows [OF assms(1,2)] sign_out_grows [OF assms(1,2)] in
    \<open>simp_all add: api_failed_grows tab_inv_def\<close>)

lemma opened_router:
  assumes "storage_laws S"
  shows "s_router (tb_site (open_tab S locate rq to m)) =
    constantRouterMap @ concat (map role_routes (role_held (open_tab S locate rq to m)))"
proof -
  let ?tab = "\<lparr>tb_site = fresh_site S m, tb_shown = start_location, tb_reloads = 0\<rparr>"
  have "us_roles (s_user (fresh_site S m)) = NoRoles"
    using Initializer_token(3) [OF assms, of "fresh_app m"]
    by (simp add: fresh_site_def Let_def fresh_app_def init_user_def)
  moreover have "s_router (fresh_site S m) = constantRouterMap" by (simp add: fresh_site_def Let_def)
  moreover have "grows ?tab (open_tab S locate rq to m)"
    unfolding open_tab_def by (rule visit_grows [OF assms]) (simp add: fresh_site_inv [OF assms])
  ultimately show ?thesis by (simp add: grows_def role_held_def)
qed

text \<open>The router is what the history says.\<close>

lemma history_router:
  assumes "storage_laws S" "\<And>r. l_name (locate loginRoutePath r) = Some ''login''"
  shows "browser_history S locate tab pss \<Longrightarrow>
    s_router (tb_site tab) = constantRouterMap @ concat (map role_routes pss) \<and>
    (role_held tab \<noteq> [] \<longrightarrow> pss \<noteq> [] \<and> role_held tab = [last pss])"
proof (induction rule: browser_history.induct)
  case (history_opened rq to m)
  show ?case using opened_router [OF assms(1)] by (auto simp: role_held_def split: roles_value.splits)
next
  case (history_goes_on tab pss e)
  have inv: "tab_inv S tab"
    using browser_reachable_inv [where locate = locate, OF assms history_reachable [OF history_goes_on.hyps(1)]] .
  show ?case
  proof (cases "\<exists>rq. e = ReloadDue rq")
    case True
    then show ?thesis
      using opened_router [OF assms(1)] by (auto simp: roles_after_def reload_def role_held_def split: roles_value.splits)
  next
    case False
    then have "grows tab (browser_step S locate tab e)" by (intro step_grows [OF assms(1) inv]) auto
    moreover have "roles_after pss tab e tab' = (if role_held tab = [] then pss @ role_held tab' else pss)" for tab'
      using False by (simp add: roles_after_def split: browser_event.splits)
    ultimately show ?thesis
      using history_goes_on.IH role_held_single [of "browser_step S locate tab e"] by (auto simp: grows_def split: if_splits)
  qed
qed

section \<open>Coming back to a page\<close>

text \<open>A page that is not open to everybody, and whose address leads back to it.\<close>

definition returnable :: "(string \<Rightarrow> string option \<Rightarrow> location) \<Rightarrow> location \<Rightarrow> bool" where
  "returnable locate page \<longleftrightarrow>
     locate (l_fullPath page) None = page \<and> l_path page \<noteq> loginRoutePath \<and>
     l_name page \<notin> Some ` set allowList \<and> l_fullPath page \<notin> {'''', ''/''} \<and>
     decodeURIComponent (l_fullPath page) = Some (l_fullPath page)"

lemma open_protected:
  assumes "storage_laws S" "\<not> js_truthy (s_get S m ACCESS_TOKEN)"
    and "\<And>r. l_name (locate loginRoutePath r) = Some ''login''" "l_name page \<notin> Some ` set allowList"
  shows "open_tab S locate rq page m =
    \<lparr>tb_site = fresh_site S m, tb_shown = locate loginRoutePath (Some (l_fullPath page)), tb_reloads = 0\<rparr>"
proof -
  have out: "\<not> logged_in S (fresh_site S m)"
    using assms(2)
    by (simp add: fresh_site_def logged_in_def Let_def Initializer_token [OF assms(1)]) (simp add: fresh_app_def)
  show ?thesis
    unfolding open_tab_def visit_page_def
    using navigate_logged_out [where locate = locate and n = 2, OF assms(3) out, of rq page start_location] assms(4)
    by (simp add: eval_nat_numeral del: navigate.simps)
qed

text \<open>A log-in on the login page that was reached from a protected page goes back there.\<close>

lemma sign_in_returns:
  fixes message :: "string option"
  assumes laws: "storage_laws S" and t: "js_truthy t"
    and root: "l_path (locate ''/'' None) = ''/''"
    and "l_redirect (tb_shown tab) = Some (l_fullPath page)" "returnable locate page"
    and "\<not> has_role (tb_site tab)" "\<And>k. granted_by (rq k) = Some ps"
  defines "tab' \<equiv> sign_in S locate rq (Inr (Some \<lparr>lr_token = t\<rparr>)) message tab"
  shows "tb_shown tab' = page \<and> logged_in S (tb_site tab') \<and> has_role (tb_site tab') \<and>
    s_router (tb_site tab') = s_router (tb_site tab) @ role_routes ps"
proof -
  let ?site = "(tb_site tab)\<lparr>s_stored := s_set S (s_stored (tb_site tab)) ACCESS_TOKEN t (Some token_ttl),
      s_user := SET_TOKEN (s_user (tb_site tab)) t\<rparr>"
  let ?root = "locate ''/'' None"
  have site: "logged_in S ?site" "\<not> has_role ?site"
    using t assms(6) by (simp_all add: logged_in_def has_role_def SET_TOKEN_def get_set [OF laws])
  have "l_path ?root \<noteq> loginRoutePath" using root by (simp add: loginRoutePath_def)
  from beforeEach_granted [OF site(1) this site(2) assms(7) [of 3], of "tb_shown tab"]
  obtain st1 where st1: "beforeEach S (rq 3) ?root (tb_shown tab) ?site = (st1, ToPath (l_fullPath page))"
    "logged_in S st1" "has_role st1" "s_router st1 = s_router ?site @ role_routes ps"
    using assms(4,5) root by (auto simp: returnable_def role_routes_def str_default_def)
  have page: "locate (l_fullPath page) None = page" "l_path page \<noteq> loginRoutePath"
    using assms(5) by (simp_all add: returnable_def)
  have "navigate 4 S locate rq ?root (tb_shown tab) ?site = Some (st1, page, True)"
    using st1 page beforeEach_role [OF st1(2) page(2) st1(3)]
    by (simp add: eval_nat_numeral)
  then show ?thesis
    using st1 by (simp add: tab'_def sign_in_cases Login_def visit_page_def)
qed

lemma logged_out_chain:
  fixes n :: nat
  assumes "storage_laws S" "unauthorized (Inl err)" "logged_in S (tb_site tab)"
  defines "tab' \<equiv> api_failed S err (Suc n) (\<lambda>k. Inr ()) tab"
  shows "\<not> js_truthy (s_get S (s_stored (tb_site tab')) ACCESS_TOKEN) \<and>
    tb_reloads tab' = Suc (tb_reloads tab) \<and> tb_shown tab' = tb_shown tab"
proof -
  let ?ss = "\<lparr>ss_stored = s_stored (tb_site tab), ss_user = s_user (tb_site tab), ss_notices = [],
      ss_logouts = 0, ss_reloads = 0\<rparr>"
  obtain ss1 again e where h: "errorHandler S err ?ss = (ss1, again, e)" by (metis prod_cases3)
  then have "again" "ss_stored ss1 = s_stored (tb_site tab)" "ss_reloads ss1 = 0"
    using errorHandler_again [of S err ?ss] errorHandler_session [of S err ?ss] assms(2,3)
    by (simp_all add: logged_in_def)
  with h show ?thesis
    by (simp add: tab'_def api_failed_def Logout_def get_remove [OF assms(1)] Let_def)
qed

text \<open>With a token and a role that is granted, the page that is opened is shown.\<close>

lemma open_granted:
  fixes locate :: "string \<Rightarrow> string option \<Rightarrow> location"
  assumes "logged_in S (fresh_site S m)" "\<not> has_role (fresh_site S m)" "l_path page \<noteq> loginRoutePath"
    and "decodeURIComponent (l_path page) = Some (l_path page)" "\<And>k. granted_by (rq k) = Some ps"
  defines "tab \<equiv> open_tab S locate rq page m"
  shows "tb_shown tab = page \<and> logged_in S (tb_site tab) \<and> has_role (tb_site tab) \<and>
    s_router (tb_site tab) = s_router (fresh_site S m) @ role_routes ps"
proof -
  from beforeEach_granted [OF assms(1,3,2) assms(5) [of 3], of start_location]
  obtain st1 where st1: "beforeEach S (rq 3) page start_location (fresh_site S m) = (st1, Again)"
    "logged_in S st1" "has_role st1" "s_router st1 = s_router (fresh_site S m) @ role_routes ps"
    using assms(4) by (auto simp: role_routes_def start_location_def)
  have "navigate 4 S locate rq page start_location (fresh_site S m) = Some (st1, page, True)"
    using st1 beforeEach_role [OF st1(2) assms(3) st1(3)] by (simp add: eval_nat_numeral)
  with st1 show ?thesis by (simp add: tab_def open_tab_def visit_page_def)
qed

text \<open>A tab that was just loaded has no role, and the routes of the configuration only.\<close>

lemma fresh_site_state:
  assumes "storage_laws S"
  shows "logged_in S (fresh_site S m) \<longleftrightarrow> js_truthy (s_get S m ACCESS_TOKEN)" "\<not> has_role (fresh_site S m)"
    "s_router (fresh_site S m) = constantRouterMap"
  by (simp_all add: fresh_site_def logged_in_def has_role_def Let_def Initializer_token [OF assms])
    (simp_all add: fresh_app_def init_user_def)

end
