(* ===== verification/Demo.thy ===== *)
theory Demo
  imports Session MockServer MockUser
begin

text \<open>
  The frontend against its mock account service: the log-in page sends its request to the handler of
  \<open>mock/services/auth.js\<close>, and the guard fetches the account of \<open>mock/services/user.js\<close>. How the mock
  library turns the \<open>_status\<close> of an answer into the status of the response is not part of the
  repository: it is a parameter, of which the code relies on the statuses it writes itself. That a
  response outside of 200 to 299 is a failed request is the default of axios.
\<close>

section \<open>Requests and answers\<close>

text \<open>\<open>JSON.parse(options.body)\<close>: members that are undefined have been left out by the client.\<close>

definition getBody :: "(string \<rightharpoonup> string option) \<Rightarrow> login_body" where
  "getBody params = \<lparr>lb_username = prop_of params ''username'', lb_password = prop_of params ''password''\<rparr>"

definition delivered ::
    "(int option \<Rightarrow> int) \<Rightarrow> 'd mock_result response_body \<Rightarrow> http_error + 'd mock_result option" where
  "delivered status b =
     (let c = status (rb_status b) in
      if 200 \<le> c \<and> c < 300 then Inr (rb_result b)
      else Inl (Some \<lparr>er_status = nat c,
        er_data = Some \<lparr>pr_message = rb_message b,
          pr_isLogin = (case rb_result b of Some LoginAgain \<Rightarrow> True | _ \<Rightarrow> False)\<rparr>\<rparr>))"

text \<open>What the \<open>Login\<close> action gets: \<open>response.result\<close>, of which it reads the token.\<close>

definition login_response ::
    "(int option \<Rightarrow> int) \<Rightarrow> 'd mock_result response_body \<Rightarrow> js_error + login_result option" where
  "login_response status b =
     (case delivered status b of
        Inl e \<Rightarrow> Inl (api_error e)
      | Inr r \<Rightarrow> Inr (map_option
          (\<lambda>x. \<lparr>lr_token = (case x of LoggedIn u \<Rightarrow> JStr (lu_token u) | _ \<Rightarrow> Undefined)\<rparr>) r))"

definition writes_statuses :: "(int option \<Rightarrow> int) \<Rightarrow> bool" where
  "writes_statuses status \<longleftrightarrow> status (Some 200) = 200 \<and> status (Some 401) = 401"

definition demo_token :: jsval where
  "demo_token = JStr ''4291d7da9005377ec9aec4a71ea837f''"

lemma login_response_login:
  assumes "writes_statuses status"
  shows "login_response status (login now draw body b) =
    (if credentials_ok body then Inr (Some \<lparr>lr_token = demo_token\<rparr>) else Inl (ApiError (Some 401)))"
  using assms
  by (cases draw) (simp add: login_response_def delivered_def login_def builder_def writes_statuses_def
      demo_token_def api_error_def Let_def)

lemma login_refused_message: "\<not> credentials_ok body \<Longrightarrow> rb_message (login now draw body b) = login_message"
  by (cases draw) (simp add: login_def builder_def Let_def)

text \<open>The two names of the mock are no e-mail addresses, so that they are sent as user names.\<close>

lemma demo_names_plain: "name \<in> set usernames \<Longrightarrow> \<not> test email_regex name"
proof -
  assume "name \<in> set usernames"
  then have "CHR ''@'' \<notin> set name" by (auto simp: usernames_def)
  then show ?thesis unfolding email_language by auto
qed

lemma sent_credentials_ok:
  assumes "ps ''password'' = Some (Some h)"
    and "ps (if test email_regex name then ''email'' else ''username'') = Some (Some name)"
    and "dom ps = {if test email_regex name then ''email'' else ''username'', ''password''}"
  shows "credentials_ok (getBody ps) \<longleftrightarrow> name \<in> set usernames \<and> h \<in> set passwords"
proof (cases "test email_regex name")
  case True
  then have "''username'' \<notin> dom ps" unfolding assms(3) by simp
  then show ?thesis
    using True demo_names_plain by (auto simp: credentials_ok_def getBody_def prop_of_def domIff)
next
  case False
  with assms(1,2) show ?thesis by (auto simp: credentials_ok_def getBody_def prop_of_def)
qed

section \<open>The administrator's routes\<close>

text \<open>The mock account is granted every section of the static table.\<close>

definition demo_ids :: "string list" where
  "demo_ids = [''dashboard'', ''exception'', ''result'', ''profile'', ''table'', ''form'', ''order'',
     ''permission'', ''role'', ''table'', ''user'', ''support'']"

lemma demo_routes: "role_routes demo_ids = asyncRouterMap"
proof -
  have "visible_sections demo_ids =
      [route_dashboard, route_form, route_list, route_profile, route_result, route_account, route_monitor, route_manager]"
    by (simp add: visible_sections_def granted_def demo_ids_def)
  then show ?thesis
    unfolding role_routes_def prune_asyncRouterMap
    by (simp only:) (simp add: index_route_def asyncRouterMap_def)
qed

lemma demo_granted:
  assumes "rq_info rq = Inr (Some userInfo)"
  shows "granted_by rq = Some demo_ids"
  using assms by (simp add: granted_by_def userInfo_def roleObj_def mock_permissions demo_ids_def)

section \<open>The whole way in\<close>

text \<open>A visitor without a token opens a page, is sent to the log-in page, and submits a name and a password
  there, which the mock handler answers.\<close>

definition demo_visit ::
    "'m storage_ops \<Rightarrow> (string \<Rightarrow> string option \<Rightarrow> location) \<Rightarrow> (string option \<Rightarrow> js_error + string) \<Rightarrow>
     (int option \<Rightarrow> int) \<Rightarrow> (nat \<Rightarrow> requests) \<Rightarrow> location \<Rightarrow> string \<Rightarrow> string \<Rightarrow> 'm \<Rightarrow> 'm tab" where
  "demo_visit S locate hash status rq page name password m =
     (let tab = open_tab S locate rq page m;
          form = foldl (login_step hash S) (init_login (s_stored (tb_site tab)) (s_user (tb_site tab)))
            [Submit, Validated False \<lparr>v_username = Some name, v_password = Some password,
               v_mobile = None, v_captcha = None\<rparr>];
          answer = login 0 ([], [], []) (getBody (hd (logging_in form))) (responseBody :: unit mock_result response_body)
      in sign_in S locate rq (login_response status answer) (Some (rb_message answer)) tab)"

lemma demo_form:
  assumes "hash (Some password) = Inr h"
  shows "credentials_ok (getBody (hd (logging_in (foldl (login_step hash S) (init_login m u)
      [Submit, Validated False \<lparr>v_username = Some name, v_password = Some password,
         v_mobile = None, v_captcha = None\<rparr>])))) \<longleftrightarrow> name \<in> set usernames \<and> h \<in> set passwords"
proof -
  let ?v = "\<lparr>v_username = Some name, v_password = Some password, v_mobile = None, v_captcha = None\<rparr>"
  let ?s = "login_step hash S (init_login m u) Submit"
  have "login_reachable hash S ?s"
    by (intro login_next login_start) (simp add: init_login_def)
  moreover have "validating ?s = [''tab1'']"
    by (simp add: handleSubmit_def init_login_def)
  ultimately obtain ps where "login_step hash S ?s (Validated False ?v) =
      (handleUsernameOrEmail (v_username ?v) (?s\<lparr>validating := []\<rparr>))\<lparr>logging_in := [ps]\<rparr>"
    "ps ''password'' = Some (Some h)"
    "ps (if test email_regex name then ''email'' else ''username'') = Some (Some name)"
    "dom ps = {if test email_regex name then ''email'' else ''username'', ''password''}"
    using credentials_validated [of hash S ?s ?v h name] assms by auto
  then show ?thesis using sent_credentials_ok [of ps h name] by simp
qed

lemma demo_visit_signs_in:
  assumes "writes_statuses status" "hash (Some password) = Inr h"
  shows "\<exists>message. demo_visit S locate hash status rq page name password m =
    sign_in S locate rq
      (if name \<in> set usernames \<and> h \<in> set passwords then Inr (Some \<lparr>lr_token = demo_token\<rparr>) else Inl (ApiError (Some 401)))
      message (open_tab S locate rq page m)"
  unfolding demo_visit_def Let_def login_response_login [OF assms(1)] demo_form [where hash = hash, OF assms(2)]
  by (rule exI) (rule refl)

end
