(* ===== verification/NumberText.thy ===== *)
theory NumberText
  imports Doubles Numbers
begin

text \<open>
  How JavaScript shows its numbers: that rounding to 53 binary digits is monotone, \<open>toFixed\<close>, and the
  text of a number that is appended to a string. A finite double is the rational it stands for.
\<close>

section \<open>Rounding is monotone\<close>

lemma scale_powi: "scale x e = x * 2 powi e"
proof (cases "0 \<le> e")
  case False
  then show ?thesis
    by (simp only: scale_def power_int_def if_False power_inverse divide_inverse)
qed (simp add: scale_def power_int_def)

lemma round_half_even_mono:
  assumes "r \<le> s"
  shows "round_half_even r \<le> round_half_even s"
proof (cases "\<lfloor>r\<rfloor> = \<lfloor>s\<rfloor>")
  case True
  with assms show ?thesis by (auto simp: round_half_even_def Let_def)
next
  case False
  with assms have "\<lfloor>r\<rfloor> + 1 \<le> \<lfloor>s\<rfloor>" using floor_mono [OF assms] by linarith
  moreover have "round_half_even r \<le> \<lfloor>r\<rfloor> + 1" "\<lfloor>s\<rfloor> \<le> round_half_even s"
    by (simp_all add: round_half_even_def Let_def)
  ultimately show ?thesis by linarith
qed

lemma bitlen_powi:
  assumes "0 < n"
  shows "(2::rat) powi (bitlen n - 1) \<le> of_int n" "of_int n < (2::rat) powi (bitlen n)"
proof -
  have pos: "0 < bitlen n" using assms bitlen_nonneg [of n] bitlen_eq_zero_iff [of n] by linarith
  have pow: "(2::rat) powi i = of_int (2 ^ nat i)" if "0 \<le> i" for i :: int
    using that by (simp add: power_int_def)
  show "(2::rat) powi (bitlen n - 1) \<le> of_int n"
    using bitlen_bounds [OF assms] pos by (simp only: pow of_int_le_iff)
  show "of_int n < (2::rat) powi (bitlen n)"
    using bitlen_bounds [OF assms] pos by (simp only: pow of_int_less_iff less_imp_le)
qed

lemma leading_bounds:
  assumes "0 < x"
  shows "2 powi leading x \<le> x" "x < 2 powi (leading x + 1)"
proof -
  obtain n d where q: "quotient_of x = (n, d)" by fastforce
  have d: "0 < d" using quotient_of_denom_pos [OF q] .
  have x: "x = of_int n / of_int d" using quotient_of_div [OF q] .
  have n: "0 < n" using assms d unfolding x by (simp add: zero_less_divide_iff)
  let ?k = "bitlen n - bitlen d"
  have test: "(if 0 \<le> ?k then \<bar>n\<bar> < d * 2 ^ nat ?k else \<bar>n\<bar> * 2 ^ nat (- ?k) < d) \<longleftrightarrow> x < 2 powi ?k"
  proof (cases "0 \<le> ?k")
    case True
    have "x < 2 powi ?k \<longleftrightarrow> of_int n < (of_int (d * 2 ^ nat ?k) :: rat)"
      using d True by (simp add: x power_int_def divide_simps mult.commute)
    also have "\<dots> \<longleftrightarrow> n < d * 2 ^ nat ?k" by (rule of_int_less_iff)
    finally show ?thesis using True n by simp
  next
    case False
    have "x < 2 powi ?k \<longleftrightarrow> of_int (n * 2 ^ nat (- ?k)) < (of_int d :: rat)"
      using d False by (simp add: x power_int_def field_simps)
    also have "\<dots> \<longleftrightarrow> n * 2 ^ nat (- ?k) < d" by (rule of_int_less_iff)
    finally show ?thesis using False n by simp
  qed
  then have l: "leading x = (if x < 2 powi ?k then ?k - 1 else ?k)"
    unfolding leading_def q by (simp only: Let_def prod.case abs_of_pos [OF n])
  note bn = bitlen_powi [OF n] and bd = bitlen_powi [OF d]
  have dr: "(0::rat) < of_int d" using d by simp
  have "2 powi (?k - 1) * (2::rat) powi bitlen d = 2 powi (bitlen n - 1)"
    by (simp add: power_int_add [symmetric])
  then have "2 powi (?k - 1) * of_int d < (of_int n :: rat)"
    using bn(1) mult_strict_left_mono [OF bd(2), of "2 powi (?k - 1)"] by simp
  then have low: "2 powi (?k - 1) < x" using dr by (simp add: x field_simps)
  have "2 powi (?k + 1) * (2::rat) powi (bitlen d - 1) = 2 powi bitlen n"
    by (simp add: power_int_add [symmetric])
  then have "of_int n < (2 powi (?k + 1) * of_int d :: rat)"
    using bn(2) mult_left_mono [OF bd(1), of "2 powi (?k + 1)"] by simp
  then have high: "x < 2 powi (?k + 1)" using dr by (simp add: x field_simps)
  from l low high show "2 powi leading x \<le> x" "x < 2 powi (leading x + 1)"
    by (auto split: if_splits)
qed

text \<open>The digits of a rounded number lie between \<open>2 ^ 52\<close> and \<open>2 ^ 53\<close>.\<close>

lemma double_pos:
  assumes "0 < x"
  shows "double x = of_int (round_half_even (x * 2 powi (52 - leading x))) * 2 powi (leading x - 52)"
    "2 ^ 52 \<le> round_half_even (x * 2 powi (52 - leading x))"
    "round_half_even (x * 2 powi (52 - leading x)) \<le> 2 ^ 53"
proof -
  let ?l = "leading x"
  show "double x = of_int (round_half_even (x * 2 powi (52 - ?l))) * 2 powi (?l - 52)"
    using assms by (simp add: double_def scale_powi Let_def)
  have p: "(2::rat) powi ?l * 2 powi (52 - ?l) = 2 ^ 52" "(2::rat) powi (?l + 1) * 2 powi (52 - ?l) = 2 ^ 53"
    by (simp_all add: power_int_add [symmetric])
  have "2 ^ 52 \<le> x * 2 powi (52 - ?l)" "x * 2 powi (52 - ?l) \<le> 2 ^ 53"
    using mult_right_mono [OF leading_bounds(1) [OF assms], of "2 powi (52 - ?l)"]
      mult_right_mono [OF less_imp_le [OF leading_bounds(2) [OF assms]], of "2 powi (52 - ?l)"]
    by (simp_all only: p) simp_all
  then have "(of_int (2 ^ 52) :: rat) \<le> x * 2 powi (52 - ?l)" "x * 2 powi (52 - ?l) \<le> of_int (2 ^ 53)"
    by simp_all
  then show "2 ^ 52 \<le> round_half_even (x * 2 powi (52 - ?l))"
    "round_half_even (x * 2 powi (52 - ?l)) \<le> 2 ^ 53"
    using round_half_even_mono by (metis round_half_even_int)+
qed

lemma double_nonneg: "0 \<le> x \<Longrightarrow> 0 \<le> double x"
proof (cases "x = 0")
  case False
  assume "0 \<le> x"
  with False have "0 < x" by simp
  from double_pos(1,2) [OF this] show ?thesis by simp
qed (simp add: double_def)

theorem double_mono:
  assumes "0 \<le> x" "x \<le> y"
  shows "double x \<le> double y"
proof (cases "x = 0")
  case True
  then show ?thesis using double_nonneg [of y] assms by (simp add: double_def)
next
  case False
  with assms have x: "0 < x" and y: "0 < y" by simp_all
  have "(2::rat) powi leading x < 2 powi (leading y + 1)"
    using leading_bounds(1) [OF x] assms(2) leading_bounds(2) [OF y] by linarith
  then have le: "leading x \<le> leading y"
    by (metis not_less one_less_numeral_iff semiring_norm(76) power_int_le_imp_le_exp zle_add1_eq_le linorder_not_le
        power_int_increasing one_le_numeral)
  show ?thesis
  proof (cases "leading x = leading y")
    case True
    have "x * 2 powi (52 - leading y) \<le> y * 2 powi (52 - leading y)"
      using assms(2) by (intro mult_right_mono) simp_all
    then show ?thesis
      unfolding double_pos(1) [OF x] double_pos(1) [OF y] True
      by (intro mult_right_mono) (simp_all add: round_half_even_mono)
  next
    case False
    have "double x \<le> 2 ^ 53 * 2 powi (leading x - 52)"
      unfolding double_pos(1) [OF x] using double_pos(3) [OF x]
      by (intro mult_right_mono) (simp_all add: of_int_le_iff [of _ "2 ^ 53", where 'a = rat, simplified])
    also have "\<dots> \<le> 2 ^ 52 * 2 powi (leading y - 52)"
    proof -
      have "(2::rat) ^ 53 * 2 powi (leading x - 52) = 2 powi (leading x + 1)"
        "(2::rat) ^ 52 * 2 powi (leading y - 52) = 2 powi leading y"
        using power_int_add [of "2::rat" 53 "leading x - 52"] power_int_add [of "2::rat" 52 "leading y - 52"]
        by (simp_all add: add.commute)
      then show ?thesis using False le by (simp add: power_int_increasing)
    qed
    also have "\<dots> \<le> double y"
      unfolding double_pos(1) [OF y] using double_pos(2) [OF y]
      by (intro mult_right_mono) (simp_all add: of_int_le_iff [of "2 ^ 52", where 'a = rat, simplified])
    finally show ?thesis .
  qed
qed

section \<open>Numbers and division\<close>

text \<open>A number as a division can give it. The sign of zero is not kept.\<close>

datatype jsnum = NotANumber | Infinite bool | Finite rat

definition js_divide :: "rat \<Rightarrow> rat \<Rightarrow> jsnum" where
  "js_divide a b =
     (if b = 0 then (if a = 0 then NotANumber else Infinite (a < 0)) else Finite (double (a / b)))"

text \<open>A sum in the order of the list, every step rounded.\<close>

definition float_sum :: "rat list \<Rightarrow> rat" where
  "float_sum arr = foldl (\<lambda>s val. double (s + val)) 0 arr"

section \<open>The text of a number\<close>

text \<open>For a positive \<open>x\<close> the number \<open>n\<close> of digits before the point: \<open>10 ^ (n - 1) \<le> x < 10 ^ n\<close>.\<close>

definition digits_before :: "rat \<Rightarrow> int" where
  "digits_before x =
     (if 1 \<le> x then int (length (decimal (nat \<lfloor>x\<rfloor>)))
      else (let m = int (length (decimal (nat \<lfloor>1 / x\<rfloor>))) in
            if x * 10 ^ nat (m - 1) = 1 then 2 - m else 1 - m))"

definition scale10 :: "int \<Rightarrow> rat \<Rightarrow> rat" where
  "scale10 k x = (if 0 \<le> k then x * 10 ^ nat k else x / 10 ^ nat (- k))"

text \<open>The shortest run of digits, from \<open>k\<close> on, that rounds to \<open>x\<close>; of two the closer one. Seventeen
  digits are always enough.\<close>

fun shortest_digits :: "nat \<Rightarrow> nat \<Rightarrow> rat \<Rightarrow> int \<Rightarrow> nat \<times> nat" where
  "shortest_digits 0 k x n = (nat \<lfloor>scale10 (int k - n) x\<rfloor>, k)"
| "shortest_digits (Suc fuel) k x n =
     (let y = scale10 (int k - n) x;
          low = \<lfloor>y\<rfloor>;
          fits = (\<lambda>s. double (scale10 (n - int k) (of_int s)) = x)
      in if fits low \<and> (y - of_int low \<le> 1 / 2 \<or> \<not> fits (low + 1)) then (nat low, k)
         else if fits (low + 1) then (nat (low + 1), k)
         else shortest_digits fuel (Suc k) x n)"

text \<open>Where the point goes, or the exponent.\<close>

definition place_point :: "string \<Rightarrow> int \<Rightarrow> string" where
  "place_point ds n =
     (let k = length ds in
      if int k \<le> n \<and> n \<le> 21 then ds @ replicate (nat n - k) CHR ''0''
      else if 0 < n \<and> n \<le> 21 then take (nat n) ds @ ''.'' @ drop (nat n) ds
      else if - 6 < n \<and> n \<le> 0 then ''0.'' @ replicate (nat (- n)) CHR ''0'' @ ds
      else take 1 ds @ (if k = 1 then '''' else ''.'' @ drop 1 ds) @ ''e'' @
        (if 0 < n then ''+'' else ''-'') @ decimal (nat \<bar>n - 1\<bar>))"

definition positive_text :: "rat \<Rightarrow> string" where
  "positive_text x =
     (let n = digits_before x; (s, k) = shortest_digits 16 1 x n in
      if s = 10 ^ k then place_point ''1'' (n + 1) else place_point (decimal s) n)"

text \<open>\<open>String(x)\<close>\<close>

definition number_text :: "jsnum \<Rightarrow> string" where
  "number_text v =
     (case v of
        NotANumber \<Rightarrow> ''NaN''
      | Infinite negative \<Rightarrow> (if negative then ''-Infinity'' else ''Infinity'')
      | Finite x \<Rightarrow>
          if x = 0 then ''0'' else if x < 0 then ''-'' @ positive_text (- x) else positive_text x)"

section \<open>\<open>toFixed\<close>\<close>

text \<open>The digits of \<open>n / 10 ^ f\<close>\<close>

definition fixed_text :: "nat \<Rightarrow> nat \<Rightarrow> string" where
  "fixed_text f n =
     (if f = 0 then decimal n
      else (let m = decimal n;
                m = (if length m \<le> f then replicate (Suc f - length m) CHR ''0'' @ m else m)
            in take (length m - f) m @ ''.'' @ drop (length m - f) m))"

text \<open>The multiple of \<open>10 ^ - f\<close> that is closest to the number, the larger one of two. From
  \<open>10 ^ 21\<close> on the number is shown as it is.\<close>

definition fixed_value :: "nat \<Rightarrow> rat \<Rightarrow> nat" where
  "fixed_value f x = nat \<lfloor>x * 10 ^ f + 1 / 2\<rfloor>"

definition toFixed :: "nat \<Rightarrow> jsnum \<Rightarrow> string" where
  "toFixed f v =
     (case v of
        Finite x \<Rightarrow>
          if 10 ^ 21 \<le> \<bar>x\<bar> then number_text v
          else if x < 0 then ''-'' @ fixed_text f (fixed_value f (- x))
          else fixed_text f (fixed_value f x)
      | _ \<Rightarrow> number_text v)"

lemma decimal_small: "n < 10 \<Longrightarrow> decimal n = [char_of (48 + n)]"
  by (subst decimal.simps) simp

lemma decimal_step: "10 \<le> n \<Longrightarrow> decimal n = decimal (n div 10) @ [char_of (48 + n mod 10)]"
  by (subst decimal.simps) simp

text \<open>With two decimals: the whole part, the point, and two digits.\<close>

lemma fixed_text_two:
  "fixed_text 2 n = decimal (n div 100) @ ''.'' @ [char_of (48 + n div 10 mod 10), char_of (48 + n mod 10)]"
proof -
  have two: "(2::nat) = Suc (Suc 0)" by simp
  consider "n < 10" | "10 \<le> n" "n < 100" | "100 \<le> n" by linarith
  then show ?thesis
  proof cases
    case 1
    moreover have "CHR ''0'' = char_of (48 :: nat)" by code_simp
    ultimately show ?thesis by (simp add: fixed_text_def decimal_small two)
  next
    case 2
    then have "decimal n = [char_of (48 + n div 10), char_of (48 + n mod 10)]"
      by (simp add: decimal_step decimal_small)
    moreover have "CHR ''0'' = char_of (48 :: nat)" by code_simp
    ultimately show ?thesis using 2 by (simp add: fixed_text_def decimal_small two)
  next
    case 3
    then have "decimal n = decimal (n div 100) @ [char_of (48 + n div 10 mod 10), char_of (48 + n mod 10)]"
      using decimal_step [of n] decimal_step [of "n div 10"] by (simp add: div_mult2_eq [symmetric])
    then show ?thesis by (simp add: fixed_text_def two)
  qed
qed

text \<open>Rounding to hundredths stays between whole numbers.\<close>

lemma fixed_value_between:
  assumes "of_nat a \<le> x" "x \<le> of_nat b"
  shows "a * 10 ^ f \<le> fixed_value f x" "fixed_value f x \<le> b * 10 ^ f"
proof -
  have "of_nat (a * 10 ^ f) \<le> x * 10 ^ f" "x * 10 ^ f \<le> of_nat (b * 10 ^ f)"
    using assms by (simp_all add: mult_right_mono)
  then have low: "of_int (int (a * 10 ^ f)) \<le> x * 10 ^ f + 1 / 2"
    and high: "x * 10 ^ f + 1 / 2 < of_int (int (b * 10 ^ f)) + 1"
    by (simp_all del: of_nat_mult of_nat_power)
  have "int (a * 10 ^ f) \<le> \<lfloor>x * 10 ^ f + 1 / 2\<rfloor>" using low by (simp only: le_floor_iff)
  moreover have "\<lfloor>x * 10 ^ f + 1 / 2\<rfloor> \<le> int (b * 10 ^ f)" using high by (simp only: floor_le_iff)
  ultimately show "a * 10 ^ f \<le> fixed_value f x" "fixed_value f x \<le> b * 10 ^ f"
    by (simp_all only: fixed_value_def nat_le_iff le_nat_iff)
qed

text \<open>A rounded sum of numbers between two whole ones.\<close>

lemma float_sum_between:
  assumes "\<And>v. v \<in> set vs \<Longrightarrow> of_nat a \<le> v \<and> v \<le> of_nat b" "b * length vs < 2 ^ 53"
  shows "of_nat (a * length vs) \<le> float_sum vs \<and> float_sum vs \<le> of_nat (b * length vs)"
  using assms
proof (induction vs rule: rev_induct)
  case Nil
  show ?case by (simp add: float_sum_def)
next
  case (snoc v vs)
  let ?n = "length vs"
  have vs: "of_nat (a * ?n) \<le> float_sum vs" "float_sum vs \<le> of_nat (b * ?n)"
    using snoc.IH snoc.prems by simp_all
  have v: "of_nat a \<le> v" "v \<le> of_nat b" using snoc.prems(1) [of v] by simp_all
  then have ab: "a \<le> b" by (metis of_nat_le_iff order_trans)
  have whole: "double (of_nat k) = of_nat k" if "k < 2 ^ 53" for k
    using double_int [of "int k"] that by simp
  have "double (of_nat (a * Suc ?n)) \<le> double (float_sum vs + v)"
    using vs(1) v(1) by (intro double_mono) simp_all
  moreover have "double (float_sum vs + v) \<le> double (of_nat (b * Suc ?n))"
  proof (rule double_mono)
    show "0 \<le> float_sum vs + v" using vs(1) v(1) by (meson add_nonneg_nonneg of_nat_0_le_iff order_trans)
    show "float_sum vs + v \<le> of_nat (b * Suc ?n)" using vs(2) v(2) by simp
  qed
  moreover have "b * Suc ?n < 2 ^ 53" "a * Suc ?n < 2 ^ 53"
    using snoc.prems(2) mult_right_mono [OF ab, of "Suc ?n"] by simp_all
  ultimately show ?case by (simp add: whole float_sum_def del: of_nat_mult mult_Suc_right)
qed

lemma js_divide_between:
  assumes "of_nat (a * n) \<le> x" "x \<le> of_nat (b * n)" "0 < n" "b < 2 ^ 53"
  shows "\<exists>y. js_divide x (of_nat n) = Finite y \<and> of_nat a \<le> y \<and> y \<le> of_nat b"
proof -
  have n: "(0::rat) < of_nat n" using assms(3) by simp
  have q: "of_nat a \<le> x / of_nat n" "x / of_nat n \<le> of_nat b"
    using assms(1,2) n by (simp_all add: field_simps)
  have whole: "double (of_nat k) = of_nat k" if "k < 2 ^ 53" for k
    using double_int [of "int k"] that by simp
  have "a \<le> b" using q by (metis of_nat_le_iff order_trans)
  then have "of_nat a \<le> double (x / of_nat n)" "double (x / of_nat n) \<le> of_nat b"
    using double_mono [OF _ q(1)] double_mono [OF _ q(2)] q assms(4)
    by (simp_all add: whole)
  with n show ?thesis by (simp add: js_divide_def)
qed

end
