(* ===== verification/MonitorCells.thy ===== *)
theory MonitorCells
  imports NumberText Monitor Util FormPages
begin

text \<open>
  The columns of the monitor pages \<open>views/monitor/server.vue\<close>, \<open>link.vue\<close>, \<open>switch.vue\<close> and
  \<open>sfci.vue\<close>, with what their renderers show; the dialog of \<open>sfci.vue\<close>; and the timer of the pages
  over their lifetime. The trend of \<open>components/Charts/Trend.vue\<close>, which formats numbers the same way,
  is here as well. A column without a renderer shows the field itself.
\<close>

section \<open>Servers\<close>

record server_row =
  sr_id :: string
  sr_active :: bool
  sr_type :: string
  cpu_util :: "rat list"
  max_cores :: string
  huge_page_free :: "int list"
  huge_page_total :: "int list"
  huge_page_size :: rat
  max_memory :: rat

definition status_text :: "bool \<Rightarrow> string" where
  "status_text active = (if active then utf8 [0x6B63, 0x5E38] else utf8 [0x5F02, 0x5E38])"

definition cpu_cell :: "rat list \<Rightarrow> string" where
  "cpu_cell cpuUtils = toFixed 2 (js_divide (float_sum cpuUtils) (of_nat (length cpuUtils))) @ ''%''"

definition pages_cell :: "int list \<Rightarrow> string" where
  "pages_cell ps = number_text (Finite (of_int (sum_of ps)))"

definition page_size_cell :: "rat \<Rightarrow> string" where
  "page_size_cell kb = number_text (js_divide kb 1024) @ ''MB''"

definition memory_cell :: "rat \<Rightarrow> string" where
  "memory_cell t = number_text (Finite t) @ ''GB''"

definition server_columns :: "(string \<times> string \<times> (server_row \<Rightarrow> string)) list" where
  "server_columns =
     [(''ID'', ''id'', sr_id),
      (utf8 [0x72B6, 0x6001], ''active'', \<lambda>r. status_text (sr_active r)),
      (utf8 [0x7C7B, 0x578B], ''type'', sr_type),
      (''CPU'' @ utf8 [0x4F7F, 0x7528, 0x7387], ''cpu_util'', \<lambda>r. cpu_cell (cpu_util r)),
      (''CPU'' @ utf8 [0x6838, 0x5FC3, 0x6570], ''max_cores'', max_cores),
      (utf8 [0x5185, 0x5B58, 0x9875, 0x5269, 0x4F59], ''huge_page_free'', \<lambda>r. pages_cell (huge_page_free r)),
      (utf8 [0x5185, 0x5B58, 0x9875, 0x603B, 0x6570], ''huge_page_total'', \<lambda>r. pages_cell (huge_page_total r)),
      (utf8 [0x5185, 0x5B58, 0x9875, 0x5927, 0x5C0F], ''huge_page_size'', \<lambda>r. page_size_cell (huge_page_size r)),
      (utf8 [0x5185, 0x5B58, 0x603B, 0x5927, 0x5C0F], ''max_memory'', \<lambda>r. memory_cell (max_memory r))]"

text \<open>A server that reports no processor is shown with \<open>NaN%\<close>.\<close>

lemma no_cpu_cell: "cpu_cell [] = ''NaN%''"
  by (simp add: cpu_cell_def float_sum_def js_divide_def toFixed_def number_text_def)

text \<open>A huge page of two megabytes, which the server reports in kilobytes.\<close>

lemma page_size_example: "page_size_cell 2048 = ''2MB''" "page_size_cell 1536 = ''1.5MB''"
  by code_simp+

lemma power53_small: "(2 ^ 53 :: nat) < 10 ^ 21"
  by simp

text \<open>C29: the processor load of a server, which the page averages in floating-point arithmetic and shows with
  two decimals, lies between the bounds of the loads it averages: percentages are never shown as more than
  \<open>100.00%\<close> or less than \<open>0.00%\<close>, whatever the rounding, and equal whole loads are shown as
  they are.\<close>

theorem cpu_cell_between:
  assumes "us \<noteq> []" "\<And>u. u \<in> set us \<Longrightarrow> of_nat a \<le> u \<and> u \<le> of_nat b" "b * length us < 2 ^ 53"
  shows "\<exists>i d e. d < 10 \<and> e < 10 \<and>
    cpu_cell us = decimal i @ ''.'' @ [char_of (48 + d), char_of (48 + e)] @ ''%'' \<and>
    100 * a \<le> 100 * i + 10 * d + e \<and> 100 * i + 10 * d + e \<le> 100 * b"
proof -
  have sums: "of_nat (a * length us) \<le> float_sum us" "float_sum us \<le> of_nat (b * length us)"
    using float_sum_between [OF assms(2,3)] by simp_all
  have len: "0 < length us" using assms(1) by simp
  then have "b \<le> b * length us" by (cases "length us") simp_all
  with assms(3) have "b < 2 ^ 53" by (rule order.strict_trans1 [rotated])
  from js_divide_between [OF sums len this] obtain y where y:
    "js_divide (float_sum us) (of_nat (length us)) = Finite y" "of_nat a \<le> y" "y \<le> of_nat b"
    by blast
  define n where "n = fixed_value 2 y"
  have "0 \<le> y" using y(2) by (meson of_nat_0_le_iff order_trans)
  moreover have "of_nat b < (10 ^ 21 :: rat)"
    using \<open>b < 2 ^ 53\<close> by (metis of_nat_less_iff of_nat_numeral of_nat_power order.strict_trans power53_small)
  ultimately have "toFixed 2 (Finite y) = fixed_text 2 n"
    using y(3) by (simp add: toFixed_def n_def)
  then have cell: "cpu_cell us = decimal (n div 100) @ ''.'' @ [char_of (48 + n div 10 mod 10), char_of (48 + n mod 10)] @ ''%''"
    by (simp add: cpu_cell_def y(1) fixed_text_two)
  have "100 * (n div 100) + 10 * (n div 10 mod 10) + n mod 10 = n"
    using mod_mult2_eq [of n 10 10] mult_div_mod_eq [of 100 n] by simp
  moreover have "100 * a \<le> n" "n \<le> 100 * b"
    using fixed_value_between [OF y(2,3), of 2] by (simp_all add: n_def mult.commute)
  ultimately show ?thesis
    using cell by (intro exI [of _ "n div 100"] exI [of _ "n div 10 mod 10"] exI [of _ "n mod 10"]) simp
qed

theorem cpu_cell_between_witness:
  "\<exists>i d e. d < 10 \<and> e < 10 \<and>
    cpu_cell [25 / 2, 100, 0] = decimal i @ ''.'' @ [char_of (48 + d), char_of (48 + e)] @ ''%'' \<and>
    100 * 0 \<le> 100 * i + 10 * d + e \<and> 100 * i + 10 * d + e \<le> 100 * 100"
  by (rule cpu_cell_between) auto

section \<open>Links and switches\<close>

record link_row =
  lk_src :: string
  lk_dst :: string
  lk_active :: bool
  lk_util :: rat
  lk_bandwidth :: rat

definition util_cell :: "rat \<Rightarrow> string" where
  "util_cell util = toFixed 2 (Finite (double (util * 100))) @ ''%''"

definition bandwidth_cell :: "rat \<Rightarrow> string" where
  "bandwidth_cell bw = number_text (Finite bw) @ ''Gbps''"

definition link_columns :: "(string \<times> string \<times> (link_row \<Rightarrow> string)) list" where
  "link_columns =
     [(utf8 [0x6E90, 0x4EA4, 0x6362, 0x673A], ''src'', lk_src),
      (utf8 [0x76EE, 0x7684, 0x4EA4, 0x6362, 0x673A], ''dst'', lk_dst),
      (utf8 [0x72B6, 0x6001], ''active'', \<lambda>r. status_text (lk_active r)),
      (utf8 [0x4F7F, 0x7528, 0x7387], ''util'', \<lambda>r. util_cell (lk_util r)),
      (utf8 [0x5E26, 0x5BBD], ''bandwidth'', \<lambda>r. bandwidth_cell (lk_bandwidth r))]"

record switch_row =
  sw_id :: string
  sw_active :: bool
  sw_type :: string
  lan_net :: string
  tcam_usage :: string
  tcam_size :: string

definition switch_columns :: "(string \<times> string \<times> (switch_row \<Rightarrow> string)) list" where
  "switch_columns =
     [(''ID'', ''id'', sw_id),
      (utf8 [0x72B6, 0x6001], ''active'', \<lambda>r. status_text (sw_active r)),
      (utf8 [0x7C7B, 0x578B], ''type'', sw_type),
      (utf8 [0x5730, 0x5740], ''lan_net'', lan_net),
      (''tcam'' @ utf8 [0x4F7F, 0x7528, 0x7387], ''tcam_usage'', tcam_usage),
      (''tcam'' @ utf8 [0x5927, 0x5C0F], ''tcam_size'', tcam_size)]"

text \<open>The use of a link, a fraction of one, is between \<open>0.00%\<close> and \<open>100.00%\<close>.\<close>

lemma util_cell_between:
  assumes "0 \<le> u" "u \<le> 1"
  shows "\<exists>n\<le>10000. util_cell u = fixed_text 2 n @ ''%''"
proof -
  have "double (u * 100) \<le> double 100" using assms by (intro double_mono) simp_all
  moreover have "double 100 = 100" using double_int [of 100] by simp
  ultimately have "double (u * 100) \<le> of_nat 100" by simp
  moreover have "0 \<le> double (u * 100)" using assms by (intro double_nonneg) simp
  ultimately show ?thesis
    using fixed_value_between(2) [of 0 "double (u * 100)" 100 2]
    by (intro exI [of _ "fixed_value 2 (double (u * 100))"]) (simp add: util_cell_def toFixed_def)
qed

section \<open>Service chains\<close>

text \<open>\<open>JSON.stringify\<close> on the data of a forwarding path.\<close>

datatype json =
    JNull
  | JTruth bool
  | JNumber jsnum
  | JText string
  | JArray "json list"
  | JObject "(string \<times> json) list"

definition hex_text :: "nat \<Rightarrow> string" where
  "hex_text n = map (\<lambda>k. (''0123456789abcdef'' ! (n div 16 ^ k mod 16))) [3, 2, 1, 0]"

definition json_char :: "char \<Rightarrow> string" where
  "json_char c =
     (let n = of_char c :: nat in
      if c = CHR 0x22 then [CHR 0x5C, CHR 0x22]
      else if c = CHR 0x5C then [CHR 0x5C, CHR 0x5C]
      else if n = 8 then CHR 0x5C # ''b''
      else if n = 9 then CHR 0x5C # ''t''
      else if n = 10 then CHR 0x5C # ''n''
      else if n = 12 then CHR 0x5C # ''f''
      else if n = 13 then CHR 0x5C # ''r''
      else if n < 32 then CHR 0x5C # ''u'' @ hex_text n
      else [c])"

definition json_quote :: "string \<Rightarrow> string" where
  "json_quote s = [CHR 0x22] @ concat (map json_char s) @ [CHR 0x22]"

fun commas :: "string list \<Rightarrow> string" where
  "commas [] = []"
| "commas [x] = x"
| "commas (x # xs) = x @ '','' @ commas xs"

fun stringify :: "json \<Rightarrow> string" where
  "stringify JNull = ''null''"
| "stringify (JTruth b) = (if b then ''true'' else ''false'')"
| "stringify (JNumber v) = (case v of Finite x \<Rightarrow> number_text v | _ \<Rightarrow> ''null'')"
| "stringify (JText s) = json_quote s"
| "stringify (JArray js) = ''['' @ commas (map stringify js) @ '']''"
| "stringify (JObject kjs) = ''{'' @ commas (map (\<lambda>(k, j). json_quote k @ '':'' @ stringify j) kjs) @ ''}''"

record sfci_row =
  sf_id :: string
  sf_sfci :: "(string \<times> json option) option"
  routingMorphic :: string

text \<open>A column of a nested field is empty when the row has no \<open>sfci\<close>; so is the path when it is
  undefined, for which \<open>JSON.stringify\<close> gives nothing.\<close>

definition path_cell :: "json option \<Rightarrow> string" where
  "path_cell path = (case path of None \<Rightarrow> '''' | Some j \<Rightarrow> stringify j)"

definition sfci_columns :: "(string \<times> string list \<times> (sfci_row \<Rightarrow> string)) list" where
  "sfci_columns =
     [(''ID'', [''id''], sf_id),
      (''vnfi'' @ utf8 [0x5E8F, 0x5217, 0x957F, 0x5EA6], [''sfci'', ''vnfiSequenceLength''],
        \<lambda>r. case sf_sfci r of None \<Rightarrow> '''' | Some (n, p) \<Rightarrow> n),
      (utf8 [0x8F6C, 0x53D1, 0x8DEF, 0x5F84], [''sfci'', ''forwardingPath''],
        \<lambda>r. path_cell (Option.bind (sf_sfci r) snd)),
      (utf8 [0x8DEF, 0x7531, 0x6A21, 0x6001], [''routingMorphic''], routingMorphic)]"

lemma path_example:
  "path_cell (Some (JArray [JArray [JNumber (Finite 0), JNumber (Finite 2)], JText ''a'', JNull])) =
     ''[[0,2],'' @ [CHR 0x22] @ ''a'' @ [CHR 0x22] @ '',null]''"
  by code_simp

text \<open>The button opens the form of the basic list in a dialog, whose events are only logged.\<close>

definition sfci_component_props :: dprops where
  "sfci_component_props =
     [(''record'', DObj []),
      (''on'', DObj [(''ok'', DHandler ''ok''), (''cancel'', DHandler ''cancel''), (''close'', DHandler ''close'')])]"

definition sfci_modal_props :: dprops where
  "sfci_modal_props =
     [(''title'', DAtom (utf8 [0x65B0, 0x589E])), (''width'', DAtom ''700''), (''centered'', DBool True),
      (''maskClosable'', DBool False)]"

text \<open>What the form gets are no attributes of its own: the props have no \<open>attrs\<close>, so that all of them
  are spread, the record among them.\<close>

lemma sfci_form_attrs:
  "map_of (fst (component_render sfci_component_props)) ''attrs'' = Some (DObj sfci_component_props)"
  by (simp add: component_render_def sfci_component_props_def model_part_def without_model_def part_or_all_def
      map_of_assign Let_def)

section \<open>The timer of a page\<close>

text \<open>A page starts an interval when it is created and stops it when it is destroyed. A page that is kept
  alive is not destroyed when another one is shown.\<close>

record monitor_life =
  created_at_all :: bool
  interval :: bool
  shown :: bool
  refreshes :: nat

definition new_monitor :: monitor_life where
  "new_monitor = \<lparr>created_at_all = True, interval = True, shown = True, refreshes = 0\<rparr>"

datatype life_event = Interval | Leave bool | Return

fun life_enabled :: "monitor_life \<Rightarrow> life_event \<Rightarrow> bool" where
  "life_enabled p Interval = interval p"
| "life_enabled p (Leave kept) = (created_at_all p \<and> shown p)"
| "life_enabled p Return = (created_at_all p \<and> \<not> shown p)"

fun life_step :: "monitor_life \<Rightarrow> life_event \<Rightarrow> monitor_life" where
  "life_step p Interval = p\<lparr>refreshes := Suc (refreshes p)\<rparr>"
| "life_step p (Leave kept) =
     (if kept then p\<lparr>shown := False\<rparr> else p\<lparr>created_at_all := False, interval := False, shown := False\<rparr>)"
| "life_step p Return = p\<lparr>shown := True\<rparr>"

definition life_inv :: "monitor_life \<Rightarrow> bool" where
  "life_inv p \<longleftrightarrow> interval p = created_at_all p"

interpretation life: machine life_enabled life_step life_inv
proof
  fix p e
  assume "life_inv p" "life_enabled p e"
  then show "life_inv (life_step p e)" by (cases e) (auto simp: life_inv_def)
qed

text \<open>The interval runs exactly as long as the page exists: a page that is gone asks for nothing more, one
  that is only kept alive goes on asking while another page is shown.\<close>

lemma monitor_timer:
  assumes "enabled_run life_enabled life_step new_monitor es"
  shows "interval (foldl life_step new_monitor es) = created_at_all (foldl life_step new_monitor es)"
  using life.run_inv [OF _ assms] by (simp add: life_inv_def new_monitor_def)

lemma hidden_page_refreshes:
  "let p = foldl life_step new_monitor [Leave True, Interval, Interval] in \<not> shown p \<and> refreshes p = 2"
  by (simp add: new_monitor_def)

section \<open>The trend of a chart card\<close>

definition trend_of :: "bool option \<Rightarrow> rat \<Rightarrow> rat \<Rightarrow> string" where
  "trend_of type v target =
     (let t = (case type of None \<Rightarrow> target \<le> v | Some b \<Rightarrow> b) in if t then ''up'' else ''down'')"

definition trend_rate :: "rat option \<Rightarrow> rat \<Rightarrow> rat \<Rightarrow> nat \<Rightarrow> string" where
  "trend_rate percentage v target fixed =
     toFixed fixed
       (case percentage of
          None \<Rightarrow> js_divide (double (\<bar>double (v - target)\<bar> * 100)) target
        | Some p \<Rightarrow> Finite p)"

text \<open>With the default target of zero the rate is not a number, or infinite.\<close>

lemma trend_without_target:
  "trend_rate None 0 0 f = ''NaN''" "0 < v \<Longrightarrow> double (double v * 100) \<noteq> 0 \<Longrightarrow> trend_rate None v 0 f = ''Infinity''"
  using double_nonneg [of v] double_nonneg [of "double v * 100"]
  by (auto simp: trend_rate_def js_divide_def toFixed_def number_text_def double_def [of 0])

end
