(* ===== verification/FormItems.thy ===== *)
theory FormItems
  imports Prelude
begin

text \<open>
  The forms of the pages, as their templates declare them: the controls with their labels, placeholders
  and options, and what each is bound to: a field of the form with its rules and its initial value
  (\<open>v-decorator\<close>), a place in the data of the page (\<open>v-model\<close>), or nothing. Layout and styles are left
  out. A template that repeats the controls of another one is defined to be equal to it.
\<close>

section \<open>Controls\<close>

text \<open>A text of the template: written there, or a message by its key.\<close>

datatype words = Literal string | Message string

text \<open>The values of controls. A moment of time is the number of its milliseconds.\<close>

datatype fvalue = FNum int | FText string | FMany "fvalue list" | FMoment int

record item_rule =
  ru_required :: bool
  ru_whitespace :: bool
  ru_min :: "nat option"
  ru_type :: "string option"
  ru_message :: "words option"
  ru_validator :: "string option"

definition no_rule :: item_rule where
  "no_rule = \<lparr>ru_required = False, ru_whitespace = False, ru_min = None, ru_type = None, ru_message = None,
     ru_validator = None\<rparr>"

definition required :: item_rule where
  "required = no_rule\<lparr>ru_required := True\<rparr>"

definition required_with :: "words \<Rightarrow> item_rule" where
  "required_with m = required\<lparr>ru_message := Some m\<rparr>"

datatype binding =
    Unbound
  | Decorated string "item_rule list" "fvalue option"
  | Bound "string list"

text \<open>Options are written out, or listed by a part of the data of the page.\<close>

datatype options = Options "(fvalue \<times> words) list" | OptionsOf string

datatype control =
    Input
  | Password
  | TextArea
  | NumberInput "int option" "int option"
  | Select bool options
  | RadioGroup options
  | DatePicker
  | TimePicker
  | RangePicker

record form_control =
  fc_label :: "words option"
  fc_control :: control
  fc_binding :: binding
  fc_placeholder :: "words option"
  fc_default :: "fvalue option"
  fc_disabled :: bool

type_synonym form = "form_control list"

definition control :: form_control where
  "control = \<lparr>fc_label = None, fc_control = Input, fc_binding = Unbound, fc_placeholder = None,
     fc_default = None, fc_disabled = False\<rparr>"

section \<open>The templates\<close>

definition basic_form :: form where
  "basic_form =
    [control\<lparr>fc_label := Some (Message ''form.basic-form.title.label''),
       fc_control := Input,
       fc_placeholder := Some (Message ''form.basic-form.title.placeholder''),
       fc_binding := Decorated ''name'' [required_with
         (Message ''form.basic-form.title.required'')] None\<rparr>,
     control\<lparr>fc_label := Some (Message ''form.basic-form.date.label''),
       fc_control := RangePicker,
       fc_binding := Decorated ''buildTime'' [required_with
         (Message ''form.basic-form.date.required'')] None\<rparr>,
     control\<lparr>fc_label := Some (Message ''form.basic-form.goal.label''),
       fc_control := TextArea,
       fc_placeholder := Some (Message ''form.basic-form.goal.placeholder''),
       fc_binding := Decorated ''description'' [required_with
         (Message ''form.basic-form.goal.required'')] None\<rparr>,
     control\<lparr>fc_label := Some (Message ''form.basic-form.standard.label''),
       fc_control := TextArea,
       fc_placeholder := Some (Message ''form.basic-form.standard.placeholder''),
       fc_binding := Decorated ''type'' [required_with
         (Message ''form.basic-form.standard.required'')] None\<rparr>,
     control\<lparr>fc_label := Some (Message ''form.basic-form.client.label''),
       fc_control := Input,
       fc_placeholder := Some (Message ''form.basic-form.client.placeholder''),
       fc_binding := Decorated ''customer'' [required_with
         (Message ''form.basic-form.client.required'')] None\<rparr>,
     control\<lparr>fc_label := Some (Message ''form.basic-form.invites.label''),
       fc_control := Input,
       fc_placeholder := Some (Message ''form.basic-form.invites.placeholder'')\<rparr>,
     control\<lparr>fc_label := Some (Message ''form.basic-form.weight.label''),
       fc_control := NumberInput (Some 0) (Some 100)\<rparr>,
     control\<lparr>fc_label := Some (Message ''form.basic-form.public.label''),
       fc_control := RadioGroup (Options [(FNum 1, Message ''form.basic-form.radio.public''),
          (FNum 2, Message ''form.basic-form.radio.partially-public''),
          (FNum 3, Message ''form.basic-form.radio.private'')]),
       fc_binding := Decorated ''target'' [] (Some (FNum 1))\<rparr>,
     control\<lparr>fc_control := Select True (Options [(FText ''4'',
         Message ''form.basic-form.option.A''),
          (FText ''5'', Message ''form.basic-form.option.B''),
          (FText ''6'', Message ''form.basic-form.option.C'')])\<rparr>]"

definition edit_form :: form where
  "edit_form =
    [control\<lparr>fc_label := Some (Literal (utf8 [0x89C4, 0x5219, 0x7F16, 0x53F7])),
       fc_control := Input,
       fc_placeholder := Some (Literal (utf8 [0x89C4, 0x5219, 0x7F16, 0x53F7])),
       fc_disabled := True,
       fc_binding := Decorated ''no'' [required_with (Literal (utf8 [0x8BF7, 0x8F93, 0x5165, 0x89C4,
         0x5219, 0x7F16, 0x53F7]))] None\<rparr>,
     control\<lparr>fc_label := Some (Literal (utf8 [0x670D, 0x52A1, 0x8C03, 0x7528, 0x6B21, 0x6570])),
       fc_control := NumberInput (Some 1) None,
       fc_binding := Decorated ''callNo'' [required] None\<rparr>,
     control\<lparr>fc_label := Some (Literal (utf8 [0x72B6, 0x6001])),
       fc_control := Select False (Options [(FNum 1, Literal ''Option 1''),
          (FNum 2, Literal ''Option 2''),
          (FNum 3, Literal ''Option 3'')]),
       fc_binding := Decorated ''status'' [required_with (Literal (utf8 [0x8BF7, 0x9009, 0x62E9,
         0x72B6, 0x6001]))] (Some (FText ''1''))\<rparr>,
     control\<lparr>fc_label := Some (Literal (utf8 [0x63CF, 0x8FF0])),
       fc_control := TextArea,
       fc_placeholder := Some (Literal ''...''),
       fc_binding := Decorated ''description'' [required] None\<rparr>,
     control\<lparr>fc_label := Some (Literal (utf8 [0x66F4, 0x65B0, 0x65F6, 0x95F4])),
       fc_control := DatePicker,
       fc_placeholder := Some (Literal ''Select Time''),
       fc_binding := Decorated ''updatedAt'' [] None\<rparr>]"

definition create_form :: form where
  "create_form =
    [control\<lparr>fc_label := Some (Literal (utf8 [0x4E3B, 0x952E] @ ''ID'')),
       fc_control := Input,
       fc_disabled := True,
       fc_binding := Decorated ''id'' [] (Some (FNum 0))\<rparr>,
     control\<lparr>fc_label := Some (Literal (utf8 [0x63CF, 0x8FF0])),
       fc_control := Input,
       fc_binding := Decorated ''description'' [no_rule\<lparr>ru_required := True, ru_min := Some 5,
         ru_message := Some (Literal (utf8 [0x8BF7, 0x8F93, 0x5165, 0x81F3, 0x5C11, 0x4E94, 0x4E2A,
           0x5B57, 0x7B26, 0x7684, 0x89C4, 0x5219, 0x63CF, 0x8FF0, 0xFF01]))\<rparr>] None\<rparr>]"

definition repository_form :: form where
  "repository_form =
    [control\<lparr>fc_label := Some (Literal (utf8 [0x4ED3, 0x5E93, 0x540D])),
       fc_control := Input,
       fc_placeholder := Some (Literal (utf8 [0x8BF7, 0x8F93, 0x5165, 0x4ED3, 0x5E93, 0x540D, 0x79F0])),
       fc_binding := Decorated ''name'' [no_rule\<lparr>ru_required := True, ru_whitespace := True,
         ru_message := Some (Literal (utf8 [0x8BF7, 0x8F93, 0x5165, 0x4ED3, 0x5E93, 0x540D,
           0x79F0]))\<rparr>] None\<rparr>,
     control\<lparr>fc_label := Some (Literal (utf8 [0x4ED3, 0x5E93, 0x57DF, 0x540D])),
       fc_control := Input,
       fc_placeholder := Some (Literal (utf8 [0x8BF7, 0x8F93, 0x5165])),
       fc_binding := Decorated ''url'' [no_rule\<lparr>ru_required := True, ru_whitespace := True,
         ru_message := Some (Literal (utf8 [0x8BF7, 0x8F93, 0x5165, 0x4ED3, 0x5E93, 0x57DF,
           0x540D]))\<rparr>, no_rule\<lparr>ru_validator := Some ''validate''\<rparr>] None\<rparr>,
     control\<lparr>fc_label := Some (Literal (utf8 [0x4ED3, 0x5E93, 0x7BA1, 0x7406, 0x5458])),
       fc_control := Select False (Options [(FText (utf8 [0x738B, 0x540C, 0x5B66]), Literal (utf8
         [0x738B, 0x540C, 0x5B66])),
          (FText (utf8 [0x674E, 0x540C, 0x5B66]), Literal (utf8 [0x674E, 0x540C, 0x5B66])),
          (FText (utf8 [0x9EC4, 0x540C, 0x5B66]), Literal (utf8 [0x9EC4, 0x540C, 0x5B66]))]),
       fc_placeholder := Some (Literal (utf8 [0x8BF7, 0x9009, 0x62E9, 0x7BA1, 0x7406, 0x5458])),
       fc_binding := Decorated ''owner'' [required_with (Literal (utf8 [0x8BF7, 0x9009, 0x62E9, 0x7BA1,
         0x7406, 0x5458]))] None\<rparr>,
     control\<lparr>fc_label := Some (Literal (utf8 [0x5BA1, 0x6279, 0x4EBA])),
       fc_control := Select False (Options [(FText (utf8 [0x738B, 0x6653, 0x4E3D]), Literal (utf8
         [0x738B, 0x6653, 0x4E3D])),
          (FText (utf8 [0x674E, 0x519B]), Literal (utf8 [0x674E, 0x519B]))]),
       fc_placeholder := Some (Literal (utf8 [0x8BF7, 0x9009, 0x62E9, 0x5BA1, 0x6279, 0x5458])),
       fc_binding := Decorated ''approver'' [required_with (Literal (utf8 [0x8BF7, 0x9009, 0x62E9,
         0x5BA1, 0x6279, 0x5458]))] None\<rparr>,
     control\<lparr>fc_label := Some (Literal (utf8 [0x751F, 0x6548, 0x65E5, 0x671F])),
       fc_control := RangePicker,
       fc_binding := Decorated ''dateRange'' [required_with (Literal (utf8 [0x8BF7, 0x9009, 0x62E9,
         0x751F, 0x6548, 0x65E5, 0x671F]))] None\<rparr>,
     control\<lparr>fc_label := Some (Literal (utf8 [0x4ED3, 0x5E93, 0x7C7B, 0x578B])),
       fc_control := Select False (Options [(FText (utf8 [0x516C, 0x5F00]), Literal (utf8 [0x516C,
         0x5F00])),
          (FText (utf8 [0x79C1, 0x5BC6]), Literal (utf8 [0x79C1, 0x5BC6]))]),
       fc_placeholder := Some (Literal (utf8 [0x8BF7, 0x9009, 0x62E9, 0x4ED3, 0x5E93, 0x7C7B, 0x578B])),
       fc_binding := Decorated ''type'' [required_with (Literal (utf8 [0x8BF7, 0x9009, 0x62E9, 0x4ED3,
         0x5E93, 0x7C7B, 0x578B]))] None\<rparr>]"

definition schedule_form :: form where
  "schedule_form =
    [control\<lparr>fc_label := Some (Literal (utf8 [0x4EFB, 0x52A1, 0x540D])),
       fc_control := Input,
       fc_placeholder := Some (Literal (utf8 [0x8BF7, 0x8F93, 0x5165, 0x4EFB, 0x52A1, 0x540D, 0x79F0])),
       fc_binding := Decorated ''name2'' [no_rule\<lparr>ru_required := True, ru_whitespace := True,
         ru_message := Some (Literal (utf8 [0x8BF7, 0x8F93, 0x5165, 0x4EFB, 0x52A1, 0x540D,
           0x79F0]))\<rparr>] None\<rparr>,
     control\<lparr>fc_label := Some (Literal (utf8 [0x4EFB, 0x52A1, 0x63CF, 0x8FF0])),
       fc_control := Input,
       fc_placeholder := Some (Literal (utf8 [0x8BF7, 0x8F93, 0x5165, 0x4EFB, 0x52A1, 0x63CF, 0x8FF0])),
       fc_binding := Decorated ''url2'' [no_rule\<lparr>ru_required := True, ru_whitespace := True,
         ru_message := Some (Literal (utf8 [0x8BF7, 0x8F93, 0x5165, 0x4EFB, 0x52A1, 0x63CF,
           0x8FF0]))\<rparr>] None\<rparr>,
     control\<lparr>fc_label := Some (Literal (utf8 [0x6267, 0x884C, 0x4EBA])),
       fc_control := Select False (Options [(FText (utf8 [0x9EC4, 0x4E3D, 0x4E3D]), Literal (utf8
         [0x9EC4, 0x4E3D, 0x4E3D])),
          (FText (utf8 [0x674E, 0x5927, 0x5200]), Literal (utf8 [0x674E, 0x5927, 0x5200]))]),
       fc_placeholder := Some (Literal (utf8 [0x8BF7, 0x9009, 0x62E9, 0x6267, 0x884C, 0x4EBA])),
       fc_binding := Decorated ''owner2'' [required_with (Literal (utf8 [0x8BF7, 0x9009, 0x62E9,
         0x6267, 0x884C, 0x4EBA]))] None\<rparr>,
     control\<lparr>fc_label := Some (Literal (utf8 [0x8D23, 0x4EFB, 0x4EBA])),
       fc_control := Select False (Options [(FText (utf8 [0x738B, 0x4F1F]), Literal (utf8 [0x738B,
         0x4F1F])),
          (FText (utf8 [0x674E, 0x7EA2, 0x519B]), Literal (utf8 [0x674E, 0x7EA2, 0x519B]))]),
       fc_placeholder := Some (Literal (utf8 [0x8BF7, 0x9009, 0x62E9, 0x8D23, 0x4EFB, 0x4EBA])),
       fc_binding := Decorated ''approver2'' [required_with (Literal (utf8 [0x8BF7, 0x9009, 0x62E9,
         0x8D23, 0x4EFB, 0x4EBA]))] None\<rparr>,
     control\<lparr>fc_label := Some (Literal (utf8 [0x63D0, 0x9192, 0x65F6, 0x95F4])),
       fc_control := TimePicker,
       fc_binding := Decorated ''dateRange2'' [required_with (Literal (utf8 [0x8BF7, 0x9009, 0x62E9,
         0x63D0, 0x9192, 0x65F6, 0x95F4]))] None\<rparr>,
     control\<lparr>fc_label := Some (Literal (utf8 [0x4EFB, 0x52A1, 0x7C7B, 0x578B])),
       fc_control := Select False (Options [(FText (utf8 [0x5B9A, 0x65F6, 0x6267, 0x884C]), Literal
         (utf8 [0x5B9A, 0x65F6, 0x6267, 0x884C])),
          (FText (utf8 [0x5468, 0x671F, 0x6267, 0x884C]), Literal (utf8 [0x5468, 0x671F, 0x6267,
            0x884C]))]),
       fc_placeholder := Some (Literal (utf8 [0x8BF7, 0x9009, 0x62E9, 0x4EFB, 0x52A1, 0x7C7B, 0x578B])),
       fc_binding := Decorated ''type2'' [required_with (Literal (utf8 [0x8BF7, 0x9009, 0x62E9, 0x4EFB,
         0x52A1, 0x7C7B, 0x578B]))] None\<rparr>]"

definition sfci_form :: form where
  "sfci_form =
    [control\<lparr>fc_label := Some (Literal ''SFCI ID''),
       fc_control := Input,
       fc_binding := Decorated ''title'' [required_with (Literal (utf8 [0x8BF7, 0x8F93, 0x5165] @
         ''SFCI ID''))] None\<rparr>,
     control\<lparr>fc_label := Some (Literal (utf8 [0x5F00, 0x59CB, 0x65F6, 0x95F4])),
       fc_control := DatePicker,
       fc_binding := Decorated ''startAt'' [required_with (Literal (utf8 [0x8BF7, 0x9009, 0x62E9,
         0x5F00, 0x59CB, 0x65F6, 0x95F4]))] None\<rparr>,
     control\<lparr>fc_label := Some (Literal (utf8 [0x4EFB, 0x52A1, 0x8D1F, 0x8D23, 0x4EBA])),
       fc_control := Select False (Options [(FNum 0, Literal (utf8 [0x4ED8, 0x6653, 0x6653])),
          (FNum 1, Literal (utf8 [0x5468, 0x6BDB, 0x6BDB]))]),
       fc_binding := Decorated ''owner'' [required_with (Literal (utf8 [0x8BF7, 0x9009, 0x62E9, 0x5F00,
         0x59CB, 0x65F6, 0x95F4]))] None\<rparr>,
     control\<lparr>fc_label := Some (Literal (utf8 [0x4EA7, 0x54C1, 0x63CF, 0x8FF0])),
       fc_control := TextArea,
       fc_binding := Decorated ''description'' [] None\<rparr>]"

definition payment_form :: form where
  "payment_form =
    [control\<lparr>fc_label := Some (Literal (utf8 [0x4ED8, 0x6B3E, 0x8D26, 0x6237])),
       fc_control := Select False (Options [(FText ''1'', Literal ''ant-design@alipay.com'')]),
       fc_placeholder := Some (Literal ''ant-design@alipay.com''),
       fc_binding := Decorated ''paymentUser'' [required_with (Literal (utf8 [0x4ED8, 0x6B3E, 0x8D26,
         0x6237, 0x5FC5, 0x987B, 0x586B, 0x5199]))] None\<rparr>,
     control\<lparr>fc_label := Some (Literal (utf8 [0x6536, 0x6B3E, 0x8D26, 0x6237])),
       fc_control := Select False (Options [(FText ''alipay'', Literal (utf8 [0x652F, 0x4ED8, 0x5B9D])),
          (FText ''wexinpay'', Literal (utf8 [0x5FAE, 0x4FE1]))]),
       fc_default := Some (FText ''alipay'')\<rparr>,
     control\<lparr>fc_label := Some (Literal (utf8 [0x6536, 0x6B3E, 0x8D26, 0x6237])),
       fc_control := Input,
       fc_binding := Decorated ''payType'' [required_with (Literal (utf8 [0x6536, 0x6B3E, 0x8D26,
         0x6237, 0x5FC5, 0x987B, 0x586B, 0x5199]))] (Some (FText ''test@example.com''))\<rparr>,
     control\<lparr>fc_label := Some (Literal (utf8 [0x6536, 0x6B3E, 0x4EBA, 0x59D3, 0x540D])),
       fc_control := Input,
       fc_binding := Decorated ''name'' [required_with (Literal (utf8 [0x6536, 0x6B3E, 0x4EBA, 0x540D,
         0x79F0, 0x5FC5, 0x987B, 0x6838, 0x5BF9]))] (Some (FText ''Alex''))\<rparr>,
     control\<lparr>fc_label := Some (Literal (utf8 [0x8F6C, 0x8D26, 0x91D1, 0x989D])),
       fc_control := Input,
       fc_binding := Decorated ''momey'' [required_with (Literal (utf8 [0x8F6C, 0x8D26, 0x91D1, 0x989D,
         0x5FC5, 0x987B, 0x586B, 0x5199]))] (Some (FText ''5000''))\<rparr>]"

definition password_form :: form where
  "password_form =
    [control\<lparr>fc_label := Some (Literal (utf8 [0x652F, 0x4ED8, 0x5BC6, 0x7801])),
       fc_control := Password,
       fc_binding := Decorated ''paymentPassword'' [required_with (Literal (utf8 [0x8BF7, 0x8F93,
         0x5165, 0x652F, 0x4ED8, 0x5BC6, 0x7801]))] (Some (FText ''123456''))\<rparr>]"

definition rule_basics :: form where
  "rule_basics =
    [control\<lparr>fc_label := Some (Literal (utf8 [0x89C4, 0x5219, 0x540D, 0x79F0])),
       fc_control := Input,
       fc_binding := Decorated ''name'' [required] None\<rparr>,
     control\<lparr>fc_label := Some (Literal (utf8 [0x89C4, 0x5219, 0x63CF, 0x8FF0])),
       fc_control := TextArea,
       fc_binding := Decorated ''desc'' [required] None\<rparr>]"

definition rule_target :: form where
  "rule_target =
    [control\<lparr>fc_label := Some (Literal (utf8 [0x76D1, 0x63A7, 0x5BF9, 0x8C61])),
       fc_control := Select False (Options [(FNum 0, Literal (utf8 [0x8868, 0x4E00])),
          (FNum 1, Literal (utf8 [0x8868, 0x4E8C]))]),
       fc_binding := Decorated ''target'' [required] (Some (FNum 0))\<rparr>,
     control\<lparr>fc_label := Some (Literal (utf8 [0x89C4, 0x5219, 0x6A21, 0x677F])),
       fc_control := Select False (Options [(FNum 0, Literal (utf8 [0x89C4, 0x5219, 0x6A21, 0x677F,
         0x4E00])),
          (FNum 1, Literal (utf8 [0x89C4, 0x5219, 0x6A21, 0x677F, 0x4E8C]))]),
       fc_binding := Decorated ''template'' [required] (Some (FNum 0))\<rparr>,
     control\<lparr>fc_label := Some (Literal (utf8 [0x89C4, 0x5219, 0x7C7B, 0x578B])),
       fc_control := RadioGroup (Options [(FNum 0, Literal (utf8 [0x5F3A])),
          (FNum 1, Literal (utf8 [0x5F31]))]),
       fc_binding := Decorated ''type'' [required] (Some (FNum 0))\<rparr>]"

definition rule_schedule :: form where
  "rule_schedule =
    [control\<lparr>fc_label := Some (Literal (utf8 [0x5F00, 0x59CB, 0x65F6, 0x95F4])),
       fc_control := DatePicker,
       fc_binding := Decorated ''time'' [no_rule\<lparr>ru_required := True,
         ru_type := Some ''object'', ru_message := Some
           (Literal ''Please select time!'')\<rparr>] None\<rparr>,
     control\<lparr>fc_label := Some (Literal (utf8 [0x8C03, 0x5EA6, 0x5468, 0x671F])),
       fc_control := Select False (Options [(FText ''month'', Literal (utf8 [0x6708])),
          (FText ''week'', Literal (utf8 [0x5468]))]),
       fc_binding := Decorated ''frequency'' [required] (Some (FText ''month''))\<rparr>]"

definition big_form1 :: form where
  "big_form1 =
    [control\<lparr>fc_label := Some (Literal (utf8 [0x4ED3, 0x5E93, 0x540D])),
       fc_control := Input,
       fc_placeholder := Some (Literal (utf8 [0x8BF7, 0x8F93, 0x5165, 0x4ED3, 0x5E93, 0x540D, 0x79F0])),
       fc_binding := Decorated ''name'' [no_rule\<lparr>ru_required := True, ru_whitespace := True,
         ru_message := Some (Literal (utf8 [0x8BF7, 0x8F93, 0x5165, 0x4ED3, 0x5E93, 0x540D,
           0x79F0]))\<rparr>] None\<rparr>,
     control\<lparr>fc_label := Some (Literal (utf8 [0x4ED3, 0x5E93, 0x57DF, 0x540D])),
       fc_control := Input,
       fc_placeholder := Some (Literal (utf8 [0x8BF7, 0x8F93, 0x5165])),
       fc_binding := Decorated ''url'' [no_rule\<lparr>ru_required := True, ru_whitespace := True,
         ru_message := Some (Literal (utf8 [0x8BF7, 0x8F93, 0x5165, 0x4ED3, 0x5E93, 0x57DF,
           0x540D]))\<rparr>] None\<rparr>,
     control\<lparr>fc_label := Some (Literal (utf8 [0x4ED3, 0x5E93, 0x7BA1, 0x7406, 0x5458])),
       fc_control := Select False (Options [(FText (utf8 [0x738B, 0x540C, 0x5B66]), Literal (utf8
         [0x738B, 0x540C, 0x5B66])),
          (FText (utf8 [0x674E, 0x540C, 0x5B66]), Literal (utf8 [0x674E, 0x540C, 0x5B66])),
          (FText (utf8 [0x9EC4, 0x540C, 0x5B66]), Literal (utf8 [0x9EC4, 0x540C, 0x5B66]))]),
       fc_placeholder := Some (Literal (utf8 [0x8BF7, 0x9009, 0x62E9, 0x7BA1, 0x7406, 0x5458])),
       fc_binding := Decorated ''owner'' [required_with (Literal (utf8 [0x8BF7, 0x9009, 0x62E9, 0x7BA1,
         0x7406, 0x5458]))] None\<rparr>,
     control\<lparr>fc_label := Some (Literal (utf8 [0x5BA1, 0x6279, 0x4EBA])),
       fc_control := Select False (Options [(FText (utf8 [0x738B, 0x6653, 0x4E3D]), Literal (utf8
         [0x738B, 0x6653, 0x4E3D])),
          (FText (utf8 [0x674E, 0x519B]), Literal (utf8 [0x674E, 0x519B]))]),
       fc_placeholder := Some (Literal (utf8 [0x8BF7, 0x9009, 0x62E9, 0x5BA1, 0x6279, 0x5458])),
       fc_binding := Decorated ''approver'' [required_with (Literal (utf8 [0x8BF7, 0x9009, 0x62E9,
         0x5BA1, 0x6279, 0x5458]))] None\<rparr>,
     control\<lparr>fc_label := Some (Literal (utf8 [0x751F, 0x6548, 0x65E5, 0x671F])),
       fc_control := RangePicker,
       fc_binding := Decorated ''dateRange'' [required_with (Literal (utf8 [0x8BF7, 0x9009, 0x62E9,
         0x751F, 0x6548, 0x65E5, 0x671F]))] None\<rparr>,
     control\<lparr>fc_label := Some (Literal (utf8 [0x4ED3, 0x5E93, 0x7C7B, 0x578B])),
       fc_control := Select False (Options [(FText (utf8 [0x516C, 0x5F00]), Literal (utf8 [0x516C,
         0x5F00])),
          (FText (utf8 [0x79C1, 0x5BC6]), Literal (utf8 [0x79C1, 0x5BC6]))]),
       fc_placeholder := Some (Literal (utf8 [0x8BF7, 0x9009, 0x62E9, 0x4ED3, 0x5E93, 0x7C7B, 0x578B])),
       fc_binding := Decorated ''type'' [required_with (Literal (utf8 [0x8BF7, 0x9009, 0x62E9, 0x4ED3,
         0x5E93, 0x7C7B, 0x578B]))] None\<rparr>]"

definition big_form2 :: form where
  "big_form2 = big_form1"

definition big_form3 :: form where
  "big_form3 = big_form1"

definition big_form4 :: form where
  "big_form4 = big_form1"

definition big_form5 :: form where
  "big_form5 = big_form1"

definition org_form :: form where
  "org_form =
    [control\<lparr>fc_label := Some (Literal (utf8 [0x7236, 0x7EA7] @ ''ID'')),
       fc_control := Input,
       fc_disabled := True,
       fc_binding := Decorated ''parentId'' [] None\<rparr>,
     control\<lparr>fc_label := Some (Literal (utf8 [0x673A, 0x6784, 0x540D, 0x79F0])),
       fc_control := Input,
       fc_binding := Decorated ''orgName'' [] None\<rparr>]"

definition role_search :: form where
  "role_search =
    [control\<lparr>fc_label := Some (Literal (utf8 [0x89D2, 0x8272] @ ''ID'')),
       fc_control := Input,
       fc_placeholder := Some (Literal (utf8 [0x8BF7, 0x8F93, 0x5165]))\<rparr>,
     control\<lparr>fc_label := Some (Literal (utf8 [0x72B6, 0x6001])),
       fc_control := Select False (Options [(FText ''0'', Literal (utf8 [0x5168, 0x90E8])),
          (FText ''1'', Literal (utf8 [0x5173, 0x95ED])),
          (FText ''2'', Literal (utf8 [0x8FD0, 0x884C, 0x4E2D]))]),
       fc_placeholder := Some (Literal (utf8 [0x8BF7, 0x9009, 0x62E9])),
       fc_default := Some (FText ''0'')\<rparr>]"

definition role_form :: form where
  "role_form =
    [control\<lparr>fc_label := Some (Literal (utf8 [0x552F, 0x4E00, 0x8BC6, 0x522B, 0x7801])),
       fc_control := Input,
       fc_placeholder := Some (Literal (utf8 [0x552F, 0x4E00, 0x8BC6, 0x522B, 0x7801])),
       fc_disabled := True,
       fc_binding := Decorated ''id'' [] None\<rparr>,
     control\<lparr>fc_label := Some (Literal (utf8 [0x89D2, 0x8272, 0x540D, 0x79F0])),
       fc_control := Input,
       fc_placeholder := Some (Literal (utf8 [0x8D77, 0x4E00, 0x4E2A, 0x540D, 0x5B57])),
       fc_binding := Decorated ''name'' [] None\<rparr>,
     control\<lparr>fc_label := Some (Literal (utf8 [0x72B6, 0x6001])),
       fc_control := Select False (Options [(FNum 1, Literal (utf8 [0x6B63, 0x5E38])),
          (FNum 2, Literal (utf8 [0x7981, 0x7528]))]),
       fc_binding := Decorated ''status'' [] (Some (FNum 1))\<rparr>,
     control\<lparr>fc_label := Some (Literal (utf8 [0x63CF, 0x8FF0])),
       fc_control := TextArea,
       fc_placeholder := Some (Literal ''...''),
       fc_binding := Decorated ''describe'' [] None\<rparr>]"

definition permission_search :: form where
  "permission_search = role_search"

definition permission_form :: form where
  "permission_form =
    [control\<lparr>fc_label := Some (Literal (utf8 [0x552F, 0x4E00, 0x8BC6, 0x522B, 0x7801])),
       fc_control := Input,
       fc_placeholder := Some (Literal (utf8 [0x552F, 0x4E00, 0x8BC6, 0x522B, 0x7801])),
       fc_disabled := True,
       fc_binding := Bound [''mdl'', ''id'']\<rparr>,
     control\<lparr>fc_label := Some (Literal (utf8 [0x6743, 0x9650, 0x540D, 0x79F0])),
       fc_control := Input,
       fc_placeholder := Some (Literal (utf8 [0x8D77, 0x4E00, 0x4E2A, 0x540D, 0x5B57])),
       fc_binding := Bound [''mdl'', ''name'']\<rparr>,
     control\<lparr>fc_label := Some (Literal (utf8 [0x72B6, 0x6001])),
       fc_control := Select False (Options [(FText ''1'', Literal (utf8 [0x6B63, 0x5E38])),
          (FText ''2'', Literal (utf8 [0x7981, 0x7528]))]),
       fc_binding := Bound [''mdl'', ''status'']\<rparr>,
     control\<lparr>fc_label := Some (Literal (utf8 [0x63CF, 0x8FF0])),
       fc_control := TextArea,
       fc_placeholder := Some (Literal ''...''),
       fc_binding := Bound [''mdl'', ''describe'']\<rparr>,
     control\<lparr>fc_label := Some (Literal (utf8 [0x8D4B, 0x4E88, 0x6743, 0x9650])),
       fc_control := Select True (OptionsOf ''permissionList''),
       fc_binding := Bound [''mdl'', ''actions'']\<rparr>]"

definition role_table_search :: form where
  "role_table_search =
    [control\<lparr>fc_label := Some (Literal (utf8 [0x89D2, 0x8272] @ ''ID'')),
       fc_control := Input,
       fc_placeholder := Some (Literal (utf8 [0x8BF7, 0x8F93, 0x5165]))\<rparr>,
     control\<lparr>fc_label := Some (Literal (utf8 [0x72B6, 0x6001])),
       fc_control := Select False (Options [(FText ''0'', Literal (utf8 [0x5168, 0x90E8])),
          (FText ''1'', Literal (utf8 [0x6B63, 0x5E38])),
          (FText ''2'', Literal (utf8 [0x7981, 0x7528]))]),
       fc_placeholder := Some (Literal (utf8 [0x8BF7, 0x9009, 0x62E9])),
       fc_default := Some (FText ''0'')\<rparr>]"

definition inner_search :: form where
  "inner_search =
    [control\<lparr>fc_label := Some (Literal (utf8 [0x89C4, 0x5219, 0x7F16, 0x53F7])),
       fc_control := Input,
       fc_placeholder := Some (Literal [])\<rparr>,
     control\<lparr>fc_label := Some (Literal (utf8 [0x4F7F, 0x7528, 0x72B6, 0x6001])),
       fc_control := Select False (Options [(FText ''0'', Literal (utf8 [0x5168, 0x90E8])),
          (FText ''1'', Literal (utf8 [0x5173, 0x95ED])),
          (FText ''2'', Literal (utf8 [0x8FD0, 0x884C, 0x4E2D]))]),
       fc_placeholder := Some (Literal (utf8 [0x8BF7, 0x9009, 0x62E9])),
       fc_default := Some (FText ''0'')\<rparr>,
     control\<lparr>fc_label := Some (Literal (utf8 [0x8C03, 0x7528, 0x6B21, 0x6570])),
       fc_control := NumberInput None None\<rparr>,
     control\<lparr>fc_label := Some (Literal (utf8 [0x66F4, 0x65B0, 0x65E5, 0x671F])),
       fc_control := DatePicker,
       fc_placeholder := Some (Literal (utf8 [0x8BF7, 0x8F93, 0x5165, 0x66F4, 0x65B0, 0x65E5,
         0x671F]))\<rparr>,
     control\<lparr>fc_label := Some (Literal (utf8 [0x4F7F, 0x7528, 0x72B6, 0x6001])),
       fc_control := Select False (Options [(FText ''0'', Literal (utf8 [0x5168, 0x90E8])),
          (FText ''1'', Literal (utf8 [0x5173, 0x95ED])),
          (FText ''2'', Literal (utf8 [0x8FD0, 0x884C, 0x4E2D]))]),
       fc_placeholder := Some (Literal (utf8 [0x8BF7, 0x9009, 0x62E9])),
       fc_default := Some (FText ''0'')\<rparr>,
     control\<lparr>fc_label := Some (Literal (utf8 [0x4F7F, 0x7528, 0x72B6, 0x6001])),
       fc_control := Select False (Options [(FText ''0'', Literal (utf8 [0x5168, 0x90E8])),
          (FText ''1'', Literal (utf8 [0x5173, 0x95ED])),
          (FText ''2'', Literal (utf8 [0x8FD0, 0x884C, 0x4E2D]))]),
       fc_placeholder := Some (Literal (utf8 [0x8BF7, 0x9009, 0x62E9])),
       fc_default := Some (FText ''0'')\<rparr>]"

definition rule_search :: form where
  "rule_search =
    [control\<lparr>fc_label := Some (Literal (utf8 [0x89C4, 0x5219, 0x7F16, 0x53F7])),
       fc_control := Input,
       fc_placeholder := Some (Literal []),
       fc_binding := Bound [''queryParam'', ''id'']\<rparr>,
     control\<lparr>fc_label := Some (Literal (utf8 [0x4F7F, 0x7528, 0x72B6, 0x6001])),
       fc_control := Select False (Options [(FText ''0'', Literal (utf8 [0x5168, 0x90E8])),
          (FText ''1'', Literal (utf8 [0x5173, 0x95ED])),
          (FText ''2'', Literal (utf8 [0x8FD0, 0x884C, 0x4E2D]))]),
       fc_placeholder := Some (Literal (utf8 [0x8BF7, 0x9009, 0x62E9])),
       fc_default := Some (FText ''0''),
       fc_binding := Bound [''queryParam'', ''status'']\<rparr>,
     control\<lparr>fc_label := Some (Literal (utf8 [0x8C03, 0x7528, 0x6B21, 0x6570])),
       fc_control := NumberInput None None,
       fc_binding := Bound [''queryParam'', ''callNo'']\<rparr>,
     control\<lparr>fc_label := Some (Literal (utf8 [0x66F4, 0x65B0, 0x65E5, 0x671F])),
       fc_control := DatePicker,
       fc_placeholder := Some (Literal (utf8 [0x8BF7, 0x8F93, 0x5165, 0x66F4, 0x65B0, 0x65E5, 0x671F])),
       fc_binding := Bound [''queryParam'', ''date'']\<rparr>,
     control\<lparr>fc_label := Some (Literal (utf8 [0x4F7F, 0x7528, 0x72B6, 0x6001])),
       fc_control := Select False (Options [(FText ''0'', Literal (utf8 [0x5168, 0x90E8])),
          (FText ''1'', Literal (utf8 [0x5173, 0x95ED])),
          (FText ''2'', Literal (utf8 [0x8FD0, 0x884C, 0x4E2D]))]),
       fc_placeholder := Some (Literal (utf8 [0x8BF7, 0x9009, 0x62E9])),
       fc_default := Some (FText ''0''),
       fc_binding := Bound [''queryParam'', ''useStatus'']\<rparr>,
     control\<lparr>fc_label := Some (Literal (utf8 [0x4F7F, 0x7528, 0x72B6, 0x6001])),
       fc_control := Select False (Options [(FText ''0'', Literal (utf8 [0x5168, 0x90E8])),
          (FText ''1'', Literal (utf8 [0x5173, 0x95ED])),
          (FText ''2'', Literal (utf8 [0x8FD0, 0x884C, 0x4E2D]))]),
       fc_placeholder := Some (Literal (utf8 [0x8BF7, 0x9009, 0x62E9])),
       fc_default := Some (FText ''0'')\<rparr>]"

definition list_search :: form where
  "list_search = rule_search"

definition profile_form :: form where
  "profile_form =
    [control\<lparr>fc_label := Some (Message ''account.settings.basic.nickname''),
       fc_control := Input,
       fc_placeholder := Some (Message ''account.settings.basic.nickname-message'')\<rparr>,
     control\<lparr>fc_label := Some (Message ''account.settings.basic.profile''),
       fc_control := TextArea,
       fc_placeholder := Some (Message ''account.settings.basic.profile-message'')\<rparr>,
     control\<lparr>fc_label := Some (Message ''account.settings.basic.email''),
       fc_control := Input,
       fc_placeholder := Some (Literal ''example@ant.design'')\<rparr>]"

definition application_filter :: form where
  "application_filter =
    [control\<lparr>fc_control := Select True (Options [(FText ''Category1'', Literal (utf8 [0x7C7B,
         0x76EE, 0x4E00])),
          (FText ''Category2'', Literal (utf8 [0x7C7B, 0x76EE, 0x4E8C])),
          (FText ''Category3'', Literal (utf8 [0x7C7B, 0x76EE, 0x4E09])),
          (FText ''Category4'', Literal (utf8 [0x7C7B, 0x76EE, 0x56DB])),
          (FText ''Category5'', Literal (utf8 [0x7C7B, 0x76EE, 0x4E94])),
          (FText ''Category6'', Literal (utf8 [0x7C7B, 0x76EE, 0x516D])),
          (FText ''Category7'', Literal (utf8 [0x7C7B, 0x76EE, 0x4E03])),
          (FText ''Category8'', Literal (utf8 [0x7C7B, 0x76EE, 0x516B])),
          (FText ''Category9'', Literal (utf8 [0x7C7B, 0x76EE, 0x4E5D])),
          (FText ''Category10'', Literal (utf8 [0x7C7B, 0x76EE, 0x5341]))])\<rparr>,
     control\<lparr>fc_label := Some (Literal (utf8 [0x4F5C, 0x8005])),
       fc_control := Select True (Options [(FText ''lisa'', Literal (utf8 [0x738B, 0x662D, 0x541B]))]),
       fc_placeholder := Some (Literal (utf8 [0x4E0D, 0x9650])),
       fc_binding := Decorated ''author'' [] None\<rparr>,
     control\<lparr>fc_label := Some (Literal (utf8 [0x597D, 0x8BC4, 0x5EA6])),
       fc_control := Select False (Options [(FText ''good'', Literal (utf8 [0x4F18, 0x79C0])),
          (FText ''normal'', Literal (utf8 [0x666E, 0x901A]))]),
       fc_placeholder := Some (Literal (utf8 [0x4E0D, 0x9650])),
       fc_binding := Decorated ''rate'' [] None\<rparr>]"

definition project_filter :: form where
  "project_filter = application_filter"

definition article_filter :: form where
  "article_filter =
    [control\<lparr>fc_control := Select True (Options [(FText ''Category1'', Literal (utf8 [0x7C7B,
         0x76EE, 0x4E00])),
          (FText ''Category2'', Literal (utf8 [0x7C7B, 0x76EE, 0x4E8C])),
          (FText ''Category3'', Literal (utf8 [0x7C7B, 0x76EE, 0x4E09])),
          (FText ''Category4'', Literal (utf8 [0x7C7B, 0x76EE, 0x56DB])),
          (FText ''Category5'', Literal (utf8 [0x7C7B, 0x76EE, 0x4E94])),
          (FText ''Category6'', Literal (utf8 [0x7C7B, 0x76EE, 0x516D])),
          (FText ''Category7'', Literal (utf8 [0x7C7B, 0x76EE, 0x4E03])),
          (FText ''Category8'', Literal (utf8 [0x7C7B, 0x76EE, 0x516B])),
          (FText ''Category9'', Literal (utf8 [0x7C7B, 0x76EE, 0x4E5D])),
          (FText ''Category10'', Literal (utf8 [0x7C7B, 0x76EE, 0x5341]))])\<rparr>,
     control\<lparr>fc_control := Select True (OptionsOf ''owners''),
       fc_placeholder := Some (Literal (utf8 [0x9009, 0x62E9] @ '' onwer'')),
       fc_binding := Decorated ''owner'' [] None\<rparr>,
     control\<lparr>fc_label := Some (Literal (utf8 [0x6D3B, 0x8DC3, 0x7528, 0x6237])),
       fc_control := Select False (Options [(FText (utf8 [0x674E, 0x4E09]), Literal (utf8 [0x674E,
         0x4E09]))]),
       fc_placeholder := Some (Literal (utf8 [0x4E0D, 0x9650]))\<rparr>,
     control\<lparr>fc_label := Some (Literal (utf8 [0x597D, 0x8BC4, 0x5EA6])),
       fc_control := Select False (Options [(FText (utf8 [0x4F18, 0x79C0]), Literal (utf8 [0x4F18,
         0x79C0]))]),
       fc_placeholder := Some (Literal (utf8 [0x4E0D, 0x9650]))\<rparr>]"

definition tab_name_form :: form where
  "tab_name_form =
    [control\<lparr>fc_label := Some (Literal (utf8 [0x81EA, 0x5B9A, 0x4E49, 0x540D, 0x79F0])),
       fc_control := Input,
       fc_binding := Decorated ''tabName'' [required_with (Literal (utf8 [0x8BF7, 0x8F93, 0x5165,
         0x65B0, 0x7684] @ '' Tab '' @ utf8 [0x540D, 0x79F0]))] None\<rparr>]"

definition tab_key_form :: form where
  "tab_key_form =
    [control\<lparr>fc_label := Some (Literal (utf8 [0x9875, 0x9762] @ ''KEY'')),
       fc_control := Input,
       fc_binding := Decorated ''tabKey'' [] (Some (FText ''/dashboard/workplace''))\<rparr>,
     control\<lparr>fc_label := Some (Literal (utf8 [0x81EA, 0x5B9A, 0x4E49, 0x540D, 0x79F0])),
       fc_control := Input,
       fc_binding := Decorated ''tabName'' [required_with (Literal (utf8 [0x8BF7, 0x8F93, 0x5165,
         0x65B0, 0x7684] @ '' Tab '' @ utf8 [0x540D, 0x79F0]))] None\<rparr>]"

section \<open>The fields of a form\<close>

text \<open>The fields the form knows, with their initial values: those of the decorated controls.\<close>

fun decorated :: "form \<Rightarrow> (string \<times> fvalue option) list" where
  "decorated [] = []"
| "decorated (c # cs) =
     (case fc_binding c of Decorated name rules initial \<Rightarrow> (name, initial) # decorated cs | _ \<Rightarrow> decorated cs)"

definition field_names :: "form \<Rightarrow> string list" where
  "field_names f = map fst (decorated f)"

definition required_names :: "form \<Rightarrow> string list" where
  "required_names f =
     concat (map (\<lambda>c. case fc_binding c of
       Decorated name rules initial \<Rightarrow> if list_ex ru_required rules then [name] else [] | _ \<Rightarrow> []) f)"

text \<open>The message keys a form uses.\<close>

definition keys_of_words :: "words option \<Rightarrow> string list" where
  "keys_of_words w = (case w of Some (Message k) \<Rightarrow> [k] | _ \<Rightarrow> [])"

definition option_keys :: "options \<Rightarrow> string list" where
  "option_keys os = (case os of Options vs \<Rightarrow> concat (map (keys_of_words \<circ> Some \<circ> snd) vs) | OptionsOf s \<Rightarrow> [])"

definition control_keys :: "form_control \<Rightarrow> string list" where
  "control_keys c =
     keys_of_words (fc_label c) @ keys_of_words (fc_placeholder c) @
     (case fc_control c of Select m os \<Rightarrow> option_keys os | RadioGroup os \<Rightarrow> option_keys os | _ \<Rightarrow> []) @
     (case fc_binding c of
        Decorated name rules initial \<Rightarrow> concat (map (keys_of_words \<circ> ru_message) rules) | _ \<Rightarrow> [])"

text \<open>A control shows a value it offers an option for; the others show any value.\<close>

definition offers :: "control \<Rightarrow> fvalue \<Rightarrow> bool" where
  "offers c v =
     (case c of
        Select many (Options vs) \<Rightarrow>
          (if many then (case v of FMany us \<Rightarrow> set us \<subseteq> fst ` set vs | _ \<Rightarrow> False) else v \<in> fst ` set vs)
      | RadioGroup (Options vs) \<Rightarrow> v \<in> fst ` set vs
      | _ \<Rightarrow> True)"

text \<open>What a control starts with is something it offers.\<close>

definition starts_offered :: "form_control \<Rightarrow> bool" where
  "starts_offered c =
     ((case fc_default c of None \<Rightarrow> True | Some v \<Rightarrow> offers (fc_control c) v) \<and>
      (case fc_binding c of
         Decorated name rules (Some v) \<Rightarrow> offers (fc_control c) v | _ \<Rightarrow> True))"

lemmas form_simps = control_def no_rule_def required_def required_with_def field_names_def

lemmas form_defs = basic_form_def edit_form_def create_form_def repository_form_def schedule_form_def
  sfci_form_def payment_form_def password_form_def rule_basics_def rule_target_def rule_schedule_def
  big_form1_def org_form_def role_search_def
  role_form_def permission_form_def role_table_search_def inner_search_def
  rule_search_def profile_form_def application_filter_def
  article_filter_def tab_name_form_def tab_key_form_def

end
