(* ===== verification/Forms.thy ===== *)
theory Forms
  imports FormItems ListPages FormPages Messages
begin

text \<open>
  What the pages do with their forms: entering values, submitting, and filling a form from a record
  (\<open>views/form/basicForm/index.vue\<close>, \<open>views/list/table/Edit.vue\<close>, \<open>views/list/modules/\<close>,
  \<open>views/other/BigForm.vue\<close>, \<open>views/other/PermissionList.vue\<close>). What the form library does with the fields
  is not code of the repository; its documented behaviour is written out where the pages call it: a decorated
  control keeps its value under the name of its field and starts with the initial value, and a validation
  without errors hands out these values. Which values the rules accept is a parameter.
\<close>

section \<open>The form library: entering and reading values\<close>

text \<open>\<open>fs_loose\<close> are the values in controls that are bound to nothing.\<close>

record form_state =
  fs_values :: "string \<rightharpoonup> fvalue"
  fs_bound :: "string list \<rightharpoonup> fvalue"
  fs_loose :: "nat \<rightharpoonup> fvalue"

definition createForm :: form_state where
  "createForm = \<lparr>fs_values = Map.empty, fs_bound = Map.empty, fs_loose = Map.empty\<rparr>"

definition enter_value :: "form \<Rightarrow> nat \<Rightarrow> fvalue \<Rightarrow> form_state \<Rightarrow> form_state" where
  "enter_value f i v st =
     (case fc_binding (f ! i) of
        Unbound \<Rightarrow> st\<lparr>fs_loose := (fs_loose st)(i \<mapsto> v)\<rparr>
      | Decorated name rules initial \<Rightarrow> st\<lparr>fs_values := (fs_values st)(name \<mapsto> v)\<rparr>
      | Bound p \<Rightarrow> st\<lparr>fs_bound := (fs_bound st)(p \<mapsto> v)\<rparr>)"

definition field_value :: "form_state \<Rightarrow> string \<Rightarrow> fvalue option \<Rightarrow> fvalue option" where
  "field_value st name initial = (case fs_values st name of None \<Rightarrow> initial | Some v \<Rightarrow> Some v)"

definition getFieldsValue :: "form \<Rightarrow> form_state \<Rightarrow> (string \<times> fvalue option) list" where
  "getFieldsValue f st = map (\<lambda>(name, initial). (name, field_value st name initial)) (decorated f)"

text \<open>Values for names the form does not know are ignored.\<close>

definition setFields :: "form \<Rightarrow> (string \<times> fvalue) list \<Rightarrow> form_state \<Rightarrow> form_state" where
  "setFields f kvs st =
     st\<lparr>fs_values := fs_values st ++ map_of (filter (\<lambda>(k, v). k \<in> set (field_names f)) kvs)\<rparr>"

text \<open>\<open>lodash.pick\<close>\<close>

definition pick :: "(string \<times> fvalue) list \<Rightarrow> string list \<Rightarrow> (string \<times> fvalue) list" where
  "pick obj names = filter (\<lambda>(k, v). k \<in> set names) obj"

section \<open>Submitting\<close>

fun rules_accept :: "(item_rule list \<Rightarrow> fvalue option \<Rightarrow> bool) \<Rightarrow> form_state \<Rightarrow> form \<Rightarrow> bool" where
  "rules_accept valid st [] = True"
| "rules_accept valid st (c # cs) =
     ((case fc_binding c of
         Decorated name rules initial \<Rightarrow> valid rules (field_value st name initial) | _ \<Rightarrow> True) \<and>
      rules_accept valid st cs)"

text \<open>The values are logged when the form has no errors.\<close>

definition submit_form ::
    "(item_rule list \<Rightarrow> fvalue option \<Rightarrow> bool) \<Rightarrow> form \<Rightarrow> form_state \<Rightarrow> (string \<times> fvalue option) list option" where
  "submit_form valid f st = (if rules_accept valid st f then Some (getFieldsValue f st) else None)"

text \<open>The form library refuses a value that is missing where a rule requires one.\<close>

definition refuses_missing :: "(item_rule list \<Rightarrow> fvalue option \<Rightarrow> bool) \<Rightarrow> bool" where
  "refuses_missing valid \<longleftrightarrow> (\<forall>rules. list_ex ru_required rules \<longrightarrow> \<not> valid rules None)"

lemma decorated_bindings:
  "(n, initial) \<in> set (decorated f) \<longleftrightarrow> (\<exists>c\<in>set f. \<exists>rules. fc_binding c = Decorated n rules initial)"
  by (induction f) (auto split: binding.splits)

lemma rules_accept_iff:
  "rules_accept valid st f \<longleftrightarrow>
     (\<forall>c\<in>set f. \<forall>n rules initial. fc_binding c = Decorated n rules initial \<longrightarrow>
        valid rules (field_value st n initial))"
  by (induction f) (auto split: binding.splits)

lemma submitted_required:
  assumes "refuses_missing valid" "submit_form valid f st = Some vs" "n \<in> set (required_names f)"
  shows "\<exists>v. (n, Some v) \<in> set vs"
proof -
  obtain c rules initial where c: "c \<in> set f" "fc_binding c = Decorated n rules initial" "list_ex ru_required rules"
    using assms(3) by (auto simp: required_names_def eq_commute [of _ "fc_binding _"] split: binding.splits if_splits)
  then have "valid rules (field_value st n initial)"
    using assms(2) by (auto simp: submit_form_def rules_accept_iff split: if_splits)
  then obtain v where v: "field_value st n initial = Some v"
    using assms(1) c(3) by (metis refuses_missing_def option.exhaust)
  have "(n, initial) \<in> set (decorated f)" using c by (auto simp: decorated_bindings)
  then have "(n, field_value st n initial) \<in> set vs"
    using assms(2) by (auto simp: submit_form_def getFieldsValue_def image_iff split: if_splits intro: bexI [of _ "(n, initial)"])
  then show ?thesis by (auto simp: v)
qed

text \<open>What was entered for a field last.\<close>

fun last_entered :: "form \<Rightarrow> (nat \<times> fvalue) list \<Rightarrow> string \<Rightarrow> fvalue option" where
  "last_entered f [] name = None"
| "last_entered f ((i, v) # es) name =
     (case last_entered f es name of
        Some w \<Rightarrow> Some w
      | None \<Rightarrow> (case fc_binding (f ! i) of Decorated n rules initial \<Rightarrow> if n = name then Some v else None | _ \<Rightarrow> None))"

definition entered_all :: "form \<Rightarrow> (nat \<times> fvalue) list \<Rightarrow> form_state \<Rightarrow> form_state" where
  "entered_all f es st = foldl (\<lambda>st (i, v). enter_value f i v st) st es"

lemma entered_all_simps [simp]:
  "entered_all f [] st = st" "entered_all f ((i, v) # es) st = entered_all f es (enter_value f i v st)"
  by (simp_all add: entered_all_def)

lemma fs_values_entered:
  "fs_values (entered_all f es st) name = (case last_entered f es name of None \<Rightarrow> fs_values st name | Some v \<Rightarrow> Some v)"
proof (induction es arbitrary: st)
  case (Cons e es)
  obtain i v where e: "e = (i, v)" by force
  show ?case
    by (cases "last_entered f es name"; cases "fc_binding (f ! i)")
      (simp_all add: e Cons enter_value_def)
qed simp

lemma field_value_entered:
  "field_value (entered_all f es createForm) name initial =
     (case last_entered f es name of None \<Rightarrow> initial | Some v \<Rightarrow> Some v)"
  by (simp add: field_value_def fs_values_entered createForm_def split: option.splits)

text \<open>A form submits, for its decorated controls and no others, what was entered last, or else the initial
  value.\<close>

lemma submitted_values:
  assumes "submit_form valid f (entered_all f es createForm) = Some vs"
  shows "vs = map (\<lambda>(n, initial). (n, case last_entered f es n of None \<Rightarrow> initial | Some v \<Rightarrow> Some v)) (decorated f)"
  using assms by (simp add: submit_form_def getFieldsValue_def field_value_entered split: if_splits)

text \<open>What is entered elsewhere does not matter.\<close>

definition decorates :: "form \<Rightarrow> nat \<Rightarrow> bool" where
  "decorates f i = (case fc_binding (f ! i) of Decorated n rules initial \<Rightarrow> True | _ \<Rightarrow> False)"

lemma last_entered_decorated:
  "last_entered f (filter (\<lambda>(i, v). decorates f i) es) name = last_entered f es name"
  by (induction es) (auto simp: decorates_def split: option.splits binding.splits)

lemma rules_accept_cong:
  assumes "\<And>n. fs_values st n = fs_values st' n"
  shows "rules_accept valid st f = rules_accept valid st' f"
  by (simp add: rules_accept_iff field_value_def assms)

lemma submit_ignores_loose:
  "submit_form valid f (entered_all f (filter (\<lambda>(i, v). decorates f i) es) createForm) =
   submit_form valid f (entered_all f es createForm)"
proof -
  have "fs_values (entered_all f (filter (\<lambda>(i, v). decorates f i) es) createForm) n =
      fs_values (entered_all f es createForm) n" for n
    by (simp add: fs_values_entered last_entered_decorated)
  then show ?thesis
    using rules_accept_cong [of "entered_all f (filter (\<lambda>(i, v). decorates f i) es) createForm"
        "entered_all f es createForm"]
    by (simp add: submit_form_def getFieldsValue_def field_value_def)
qed

section \<open>The basic form\<close>

definition basic_handleSubmit ::
    "(item_rule list \<Rightarrow> fvalue option \<Rightarrow> bool) \<Rightarrow> form_state \<Rightarrow> (string \<times> fvalue option) list option" where
  "basic_handleSubmit valid st = submit_form valid basic_form st"

text \<open>The select for the readers of a partially public goal is shown for the second choice only.\<close>

definition readers_shown :: "form_state \<Rightarrow> bool" where
  "readers_shown st \<longleftrightarrow> field_value st ''target'' (Some (FNum 1)) = Some (FNum 2)"

lemma submitted_entered:
  assumes "submit_form valid f (entered_all f es createForm) = Some vs" "(n, Some v) \<in> set vs"
    and "distinct (field_names f)" "(n, None) \<in> set (decorated f)"
  shows "last_entered f es n = Some v"
proof -
  obtain initial where i: "(n, initial) \<in> set (decorated f)"
    "Some v = (case last_entered f es n of None \<Rightarrow> initial | Some v \<Rightarrow> Some v)"
    using assms(2) by (auto simp: submitted_values [OF assms(1)])
  moreover have "initial = None"
    using assms(3,4) i(1) by (auto simp: field_names_def dest: eq_key_imp_eq_value)
  ultimately show ?thesis by (simp split: option.splits)
qed

lemma basic_fields:
  "decorated basic_form =
     [(''name'', None), (''buildTime'', None), (''description'', None), (''type'', None), (''customer'', None),
      (''target'', Some (FNum 1))]"
  "required_names basic_form = [''name'', ''buildTime'', ''description'', ''type'', ''customer'']"
  by (simp_all add: basic_form_def form_simps required_names_def)

lemma basic_undecorated: "\<not> decorates basic_form 5" "\<not> decorates basic_form 6" "\<not> decorates basic_form 8"
  by (simp_all add: basic_form_def form_simps decorates_def)

text \<open>If the form library accepts what was entered, in whichever order, the basic form submits six values:
  for each field the one entered last, the choice of the readers being 1 if nothing is chosen, and the five
  others are there. The names of the invited, the weight and the readers of a partially public goal are never
  among them: what is entered there makes no difference.\<close>

theorem basic_form_submits:
  assumes "refuses_missing valid"
    and "basic_handleSubmit valid (entered_all basic_form es createForm) = Some vs"
  shows "map fst vs = [''name'', ''buildTime'', ''description'', ''type'', ''customer'', ''target''] \<and>
    (\<forall>n \<in> {''name'', ''buildTime'', ''description'', ''type'', ''customer''}.
       \<exists>v. (n, Some v) \<in> set vs \<and> last_entered basic_form es n = Some v) \<and>
    map_of vs ''target'' = Some (Some (case last_entered basic_form es ''target'' of None \<Rightarrow> FNum 1 | Some v \<Rightarrow> v)) \<and>
    basic_handleSubmit valid
      (entered_all basic_form (filter (\<lambda>(i, v). i \<notin> {5, 6, 8}) es) createForm) = Some vs"
proof -
  have vs: "vs = map (\<lambda>(n, initial). (n, case last_entered basic_form es n of None \<Rightarrow> initial | Some v \<Rightarrow> Some v))
      (decorated basic_form)"
    by (rule submitted_values [OF assms(2) [unfolded basic_handleSubmit_def]])
  have "\<exists>v. (n, Some v) \<in> set vs \<and> last_entered basic_form es n = Some v"
    if "n \<in> {''name'', ''buildTime'', ''description'', ''type'', ''customer''}" for n
  proof -
    have n: "n \<in> set (required_names basic_form)" "(n, None) \<in> set (decorated basic_form)"
      using that by (auto simp: basic_fields)
    obtain v where "(n, Some v) \<in> set vs"
      using submitted_required [OF assms(1) assms(2) [unfolded basic_handleSubmit_def] n(1)] by blast
    moreover have "distinct (field_names basic_form)" by (simp add: field_names_def basic_fields)
    ultimately show ?thesis
      using submitted_entered [OF assms(2) [unfolded basic_handleSubmit_def] _ _ n(2)] by blast
  qed
  moreover have "filter (\<lambda>(i, v). decorates basic_form i) (filter (\<lambda>(i, v). i \<notin> {5, 6, 8}) es) =
      filter (\<lambda>(i, v). decorates basic_form i) es"
    unfolding filter_filter using basic_undecorated by (intro filter_cong) auto
  moreover have "map fst vs = [''name'', ''buildTime'', ''description'', ''type'', ''customer'', ''target'']"
    "map_of vs ''target'' = Some (Some (case last_entered basic_form es ''target'' of None \<Rightarrow> FNum 1 | Some v \<Rightarrow> v))"
    by (simp_all add: vs basic_fields split: option.splits)
  ultimately show ?thesis
    using assms(2) submit_ignores_loose [of valid basic_form es]
      submit_ignores_loose [of valid basic_form "filter (\<lambda>(i, v). i \<notin> {5, 6, 8}) es"]
    by (simp add: basic_handleSubmit_def)
qed

theorem basic_form_submits_witness:
  "basic_handleSubmit (\<lambda>rules v. v \<noteq> None)
     (entered_all basic_form [(0, FText ''a''), (1, FMoment 0), (2, FText ''b''), (3, FText ''c''), (4, FText ''d'')]
       createForm) =
   Some [(''name'', Some (FText ''a'')), (''buildTime'', Some (FMoment 0)), (''description'', Some (FText ''b'')),
     (''type'', Some (FText ''c'')), (''customer'', Some (FText ''d'')), (''target'', Some (FNum 1))]"
proof -
  let ?valid = "\<lambda>(rules :: item_rule list) (v :: fvalue option). v \<noteq> None"
  let ?es = "[(0, FText ''a''), (1, FMoment 0), (2, FText ''b''), (3, FText ''c''), (4, FText ''d'')] :: (nat \<times> fvalue) list"
  have r: "refuses_missing ?valid" by (simp add: refuses_missing_def)
  have s: "basic_handleSubmit ?valid (entered_all basic_form ?es createForm) =
    Some [(''name'', Some (FText ''a'')), (''buildTime'', Some (FMoment 0)), (''description'', Some (FText ''b'')),
     (''type'', Some (FText ''c'')), (''customer'', Some (FText ''d'')), (''target'', Some (FNum 1))]"
    by (simp add: basic_handleSubmit_def submit_form_def getFieldsValue_def basic_fields field_value_entered)
      (simp add: basic_form_def form_simps field_value_def enter_value_def createForm_def)
  from basic_form_submits [OF r s] s show ?thesis by simp
qed

section \<open>Filling a form from a record\<close>

text \<open>The page of a rule asks for its data and gets them after a second and a half. A new rule is the empty
  text, of which nothing can be picked, and the moment of \<open>undefined\<close> is the present.\<close>

definition edit_loaded ::
    "(fvalue option \<Rightarrow> fvalue) \<Rightarrow> (string \<times> fvalue) list \<Rightarrow> form_state \<Rightarrow> form_state" where
  "edit_loaded moment record st =
     (let formData = pick record [''no'', ''callNo'', ''status'', ''description'', ''updatedAt''];
          formData = AList.update ''updatedAt'' (moment (map_of record ''updatedAt'')) formData
      in setFields edit_form formData st)"

definition edit_handleSubmit ::
    "(item_rule list \<Rightarrow> fvalue option \<Rightarrow> bool) \<Rightarrow> form_state \<Rightarrow> (string \<times> fvalue option) list option" where
  "edit_handleSubmit valid st = submit_form valid edit_form st"

lemma edit_fields: "field_names edit_form = [''no'', ''callNo'', ''status'', ''description'', ''updatedAt'']"
  by (simp add: edit_form_def form_simps)

lemma map_of_pick: "k \<in> set names \<Longrightarrow> map_of (pick obj names) k = map_of obj k"
  by (induction obj) (auto simp: pick_def)

lemma map_of_pick_None: "k \<notin> set names \<Longrightarrow> map_of (pick obj names) k = None"
  by (induction obj) (auto simp: pick_def)

lemma setFields_values:
  "k \<in> set (field_names f) \<Longrightarrow>
     fs_values (setFields f kvs st) k = (case map_of kvs k of None \<Rightarrow> fs_values st k | Some v \<Rightarrow> Some v)"
  using map_of_pick [of k "field_names f" kvs]
  by (auto simp: setFields_def pick_def map_add_def split: option.splits)

text \<open>Whatever is entered before the data arrive is lost in every field the record has, and always in the
  date.\<close>

lemma edit_overwrites:
  assumes "k \<in> set (field_names edit_form)" "k = ''updatedAt'' \<or> map_of record k = Some v"
  shows "fs_values (edit_loaded moment record (entered_all edit_form es st)) k =
    Some (if k = ''updatedAt'' then moment (map_of record ''updatedAt'') else v)"
  using assms
  by (auto simp: edit_loaded_def Let_def setFields_values update_conv' map_of_pick edit_fields)

text \<open>The status of a new rule starts with the text 1, which none of the options stands for: their values
  are numbers.\<close>

lemma edit_status_not_offered: "\<not> starts_offered (edit_form ! 2)"
  by (simp add: edit_form_def form_simps starts_offered_def offers_def)

text \<open>The dialog of a rule is filled whenever its model changes to an object.\<close>

definition create_fields :: "string list" where
  "create_fields = [''description'', ''id'']"

definition create_model_changed :: "(string \<times> fvalue) list option \<Rightarrow> form_state \<Rightarrow> form_state" where
  "create_model_changed model st =
     (case model of None \<Rightarrow> st | Some m \<Rightarrow> setFields create_form (pick m create_fields) st)"

text \<open>The number of the rule is shown when there is one.\<close>

definition create_id_shown :: "(string \<times> fvalue) list option \<Rightarrow> bool" where
  "create_id_shown model =
     (case model of None \<Rightarrow> False
      | Some m \<Rightarrow> (case map_of m ''id'' of Some (FNum n) \<Rightarrow> 0 < n | _ \<Rightarrow> False))"

definition sfci_picked :: "string list" where
  "sfci_picked = [''title'', ''startAt'', ''owner'', ''description'']"

definition sfci_mounted :: "(string \<times> fvalue) list option \<Rightarrow> form_state \<Rightarrow> form_state" where
  "sfci_mounted record st =
     (case record of None \<Rightarrow> st | Some r \<Rightarrow> setFields sfci_form (pick r sfci_picked) st)"

definition sfci_handleSubmit ::
    "(item_rule list \<Rightarrow> fvalue option \<Rightarrow> bool) \<Rightarrow> form_state \<Rightarrow> (string \<times> fvalue option) list option" where
  "sfci_handleSubmit valid st = submit_form valid sfci_form st"

text \<open>What the pages pick are exactly the fields of their forms, so that nothing picked is ignored.\<close>

lemma picked_fields_known:
  "set create_fields = set (field_names create_form)" "sfci_picked = field_names sfci_form"
  "{''id'', ''status'', ''describe'', ''name''} = set (field_names role_form)"
  by (auto simp: create_fields_def create_form_def sfci_picked_def sfci_form_def role_form_def form_simps)

text \<open>A form that was filled from a record and submitted unchanged submits the record.\<close>

lemma create_roundtrip:
  assumes "map_of m ''description'' = Some d" "map_of m ''id'' = Some i"
  shows "getFieldsValue create_form (create_model_changed (Some m) createForm) =
    [(''id'', Some i), (''description'', Some d)]"
proof -
  have "decorated create_form = [(''id'', Some (FNum 0)), (''description'', None)]"
    by (simp add: create_form_def form_simps)
  moreover have "fs_values (create_model_changed (Some m) createForm) k = map_of m k"
    if "k \<in> {''id'', ''description''}" for k
  proof -
    have "k \<in> set (field_names create_form)" using that by (auto simp: create_form_def form_simps)
    then show ?thesis
      using that by (auto simp: create_model_changed_def setFields_values createForm_def map_of_pick
          create_fields_def split: option.splits)
  qed
  ultimately show ?thesis using assms by (simp add: getFieldsValue_def field_value_def)
qed

section \<open>The forms of the other pages\<close>

text \<open>The fields that other parts of the pages rely on.\<close>

lemma step_forms_fields: "stepForms = map field_names [rule_basics, rule_target, rule_schedule]"
  by (simp add: stepForms_def rule_basics_def rule_target_def rule_schedule_def form_simps)

lemma advanced_form_fields:
  "repository_fields = field_names repository_form" "task_fields = field_names schedule_form"
  by (simp_all add: repository_fields_def repository_form_def task_fields_def schedule_form_def form_simps)

text \<open>All of their fields are required, so that an error list has at most twelve entries.\<close>

lemma advanced_form_required:
  "required_names repository_form = field_names repository_form"
  "required_names schedule_form = field_names schedule_form"
  by (simp_all add: required_names_def repository_form_def schedule_form_def form_simps)

text \<open>The confirmation of a payment shows fixed texts. They are the initial values of the form before it,
  whatever was entered there.\<close>

definition confirmed_texts :: "(string \<times> string) list" where
  "confirmed_texts =
     [(utf8 [0x4ED8, 0x6B3E, 0x8D26, 0x6237], ''ant-design@alipay.com''),
      (utf8 [0x6536, 0x6B3E, 0x8D26, 0x6237], ''test@example.com''),
      (utf8 [0x6536, 0x6B3E, 0x4EBA, 0x59D3, 0x540D], ''Alex''),
      (utf8 [0x8F6C, 0x8D26, 0x91D1, 0x989D], utf8 [0xFFE5] @ '' 5,000.00'')]"

lemma confirmation_is_initial:
  "map_of (decorated payment_form) ''payType'' = Some (Some (FText (snd (confirmed_texts ! 1))))"
  "map_of (decorated payment_form) ''name'' = Some (Some (FText (snd (confirmed_texts ! 2))))"
  by (simp_all add: payment_form_def confirmed_texts_def form_simps)

lemma confirmation_ignores_payment:
  "field_value (entered_all payment_form [(3, FText ''Bob'')] createForm) ''name'' (Some (FText ''Alex'')) \<noteq>
     Some (FText (snd (confirmed_texts ! 2)))"
  unfolding field_value_entered by (simp add: payment_form_def confirmed_texts_def form_simps)

section \<open>All forms\<close>

definition all_forms :: "form list" where
  "all_forms =
     [basic_form, edit_form, create_form, repository_form, schedule_form, sfci_form, payment_form, password_form,
      rule_basics, rule_target, rule_schedule, big_form1, big_form2, big_form3, big_form4, big_form5, org_form,
      role_search, role_form, permission_search, permission_form, role_table_search, inner_search, rule_search,
      list_search, profile_form, application_filter, project_filter, article_filter, tab_name_form, tab_key_form]"

definition form_keys :: "form \<Rightarrow> string list" where
  "form_keys f = concat (map control_keys f)"

lemmas copies = big_form2_def big_form3_def big_form4_def big_form5_def permission_search_def list_search_def
  project_filter_def

text \<open>No form uses a name twice.\<close>

lemma distinct_fields: "f \<in> set all_forms \<Longrightarrow> distinct (field_names f)"
proof -
  have "list_all (\<lambda>f. distinct (field_names f)) all_forms"
    unfolding all_forms_def copies list.pred_inject
    by (intro conjI TrueI; simp add: form_defs form_simps)
  then show "f \<in> set all_forms \<Longrightarrow> distinct (field_names f)" by (simp add: list_all_iff)
qed

text \<open>Every message a form asks for is there, in both languages.\<close>

lemma form_messages_known:
  assumes "f \<in> set all_forms" "k \<in> set (form_keys f)"
  shows "message en_US k \<noteq> None" "message zh_CN k \<noteq> None"
proof -
  define A where "A = set (map fst en_basicForm) \<union> set (map fst en_settings)"
  note keys = form_keys_def control_keys_def keys_of_words_def option_keys_def form_simps
  have basic: "set (form_keys basic_form) \<subseteq> A"
    unfolding A_def by (intro le_supI1) (simp add: keys basic_form_def en_basicForm_def)
  have profile: "set (form_keys profile_form) \<subseteq> A"
    unfolding A_def by (intro le_supI2) (simp add: keys profile_form_def en_settings_def)
  have "list_all (\<lambda>f. set (form_keys f) \<subseteq> A) all_forms"
    unfolding all_forms_def copies list.pred_inject
    by (intro conjI TrueI; (rule basic | rule profile | simp add: keys form_defs))
  then have "k \<in> A" using assms by (auto simp: list_all_iff)
  then have "k \<in> set (map fst (texts en_US))"
    by (auto simp: A_def en_US_def en_form_def en_account_def)
  then show "message en_US k \<noteq> None" unfolding message_None_iff by simp
  then show "message zh_CN k \<noteq> None" using same_messages by metis
qed

text \<open>What a control starts with is one of its options, but for the status of a rule.\<close>

lemma starts_offered_but_status:
  assumes "f \<in> set all_forms" "c \<in> set f" "\<not> starts_offered c"
  shows "c = edit_form ! 2"
proof -
  have "list_all (\<lambda>f. list_all (\<lambda>c. starts_offered c \<or> c = edit_form ! 2) f) all_forms"
    unfolding all_forms_def copies list.pred_inject
    by (intro conjI TrueI; simp add: starts_offered_def offers_def form_defs form_simps)
  then show ?thesis using assms by (auto simp: list_all_iff)
qed

section \<open>The big form\<close>

text \<open>Five forms with the same controls, numbered from 1, and the table of members. The methods \<open>toggle\<close>,
  \<open>saveRow\<close> and \<open>cancel\<close> are empty. \<open>bp_validated\<close> lists the forms that were validated.\<close>

record big_page =
  bp_forms :: "nat \<Rightarrow> form_state"
  bp_validated :: "nat list"
  bp_table :: member_form

definition new_big_page :: big_page where
  "new_big_page = \<lparr>bp_forms = (\<lambda>k. createForm), bp_validated = [], bp_table = big_mounted\<rparr>"

text \<open>The forms 3 to 5 have the submit handler of the second.\<close>

definition big_submit_handler :: "nat \<Rightarrow> nat" where
  "big_submit_handler k = (if k = 1 then 1 else 2)"

definition big_handleSubmit :: "nat \<Rightarrow> big_page \<Rightarrow> big_page" where
  "big_handleSubmit k p = p\<lparr>bp_validated := bp_validated p @ [big_submit_handler k]\<rparr>"

definition big_handleChange :: "prop_value \<Rightarrow> prop_value \<Rightarrow> string \<Rightarrow> member_form \<Rightarrow> member_form" where
  "big_handleChange val key column f =
     (case find_member key (members f) of
        None \<Rightarrow> f
      | Some target \<Rightarrow> f\<lparr>members := update_member key (set_prop column val) (members f)\<rparr>)"

definition big_toggle :: "prop_value \<Rightarrow> member_form \<Rightarrow> member_form" where "big_toggle key f = f"
definition big_saveRow :: "obj \<Rightarrow> member_form \<Rightarrow> member_form" where "big_saveRow record f = f"
definition big_cancel :: "prop_value \<Rightarrow> member_form \<Rightarrow> member_form" where "big_cancel key f = f"

datatype big_event =
    BigEnter nat nat fvalue
  | BigSubmit nat
  | BigType prop_value obj string
  | BigToggle obj
  | BigSave obj
  | BigCancel obj
  | BigRemove obj
  | BigAdd

definition big_editable :: "obj \<Rightarrow> bool" where
  "big_editable r = truthy_prop (get_prop r ''editable'')"

text \<open>A row has its inputs, with the links to save or add it, while it is edited, and the link to edit it
  while it is not.\<close>

fun big_enabled :: "big_page \<Rightarrow> big_event \<Rightarrow> bool" where
  "big_enabled p (BigEnter k i v) = (k \<in> {1..5} \<and> i < length big_form1)"
| "big_enabled p (BigSubmit k) = (k \<in> {1..5})"
| "big_enabled p (BigType v r c) =
     (r \<in> set (members (bp_table p)) \<and> big_editable r \<and> c \<in> {''name'', ''workId'', ''department''})"
| "big_enabled p (BigToggle r) = (r \<in> set (members (bp_table p)) \<and> \<not> big_editable r)"
| "big_enabled p (BigSave r) = (r \<in> set (members (bp_table p)) \<and> big_editable r)"
| "big_enabled p (BigCancel r) =
     (r \<in> set (members (bp_table p)) \<and> big_editable r \<and> \<not> truthy_prop (get_prop r ''isNew''))"
| "big_enabled p (BigRemove r) =
     (r \<in> set (members (bp_table p)) \<and> (big_editable r \<longrightarrow> truthy_prop (get_prop r ''isNew'')))"
| "big_enabled p BigAdd = True"

fun big_step :: "big_page \<Rightarrow> big_event \<Rightarrow> big_page" where
  "big_step p (BigEnter k i v) =
     p\<lparr>bp_forms := (bp_forms p)(k := enter_value ([big_form1, big_form2, big_form3, big_form4, big_form5] ! (k - 1)) i v
        (bp_forms p k))\<rparr>"
| "big_step p (BigSubmit k) = big_handleSubmit k p"
| "big_step p (BigType v r c) = p\<lparr>bp_table := big_handleChange v (get_prop r ''key'') c (bp_table p)\<rparr>"
| "big_step p (BigToggle r) = p\<lparr>bp_table := big_toggle (get_prop r ''key'') (bp_table p)\<rparr>"
| "big_step p (BigSave r) = p\<lparr>bp_table := big_saveRow r (bp_table p)\<rparr>"
| "big_step p (BigCancel r) = p\<lparr>bp_table := big_cancel (get_prop r ''key'') (bp_table p)\<rparr>"
| "big_step p (BigRemove r) = p\<lparr>bp_table := remove_member (get_prop r ''key'') (bp_table p)\<rparr>"
| "big_step p BigAdd = p\<lparr>bp_table := newMember (bp_table p)\<rparr>"

definition big_inv :: "big_page \<Rightarrow> bool" where
  "big_inv p \<longleftrightarrow>
     set (bp_validated p) \<subseteq> {1, 2} \<and>
     (\<forall>r \<in> set (members (bp_table p)). big_editable r = truthy_prop (get_prop r ''isNew''))"

lemma update_member_all:
  assumes "\<forall>r \<in> set rs. P r" "\<And>r. P r \<Longrightarrow> P (f r)"
  shows "\<forall>r \<in> set (update_member key f rs). P r"
  using assms(1) by (induction rs) (auto simp: assms(2))

lemma newMember_rows:
  "set (members (newMember f)) = set (members f) \<union> {last (members (newMember f))}"
  "big_editable (last (members (newMember f)))" "truthy_prop (get_prop (last (members (newMember f))) ''isNew'')"
  by (simp_all add: newMember_def Let_def big_editable_def get_prop_def)

interpretation big: machine big_enabled big_step big_inv
proof
  fix p e
  assume inv: "big_inv p" and ok: "big_enabled p e"
  let ?P = "\<lambda>r. big_editable r = truthy_prop (get_prop r ''isNew'')"
  show "big_inv (big_step p e)"
  proof (cases e)
    case (BigType v r c)
    then have "c \<noteq> ''editable''" "c \<noteq> ''isNew''" using ok by auto
    then have "?P r \<Longrightarrow> ?P (set_prop c v r)" for r by (simp add: big_editable_def)
    then show ?thesis
      using inv update_member_all [of "members (bp_table p)" ?P "set_prop c v" "get_prop r ''key''"]
      by (simp add: BigType big_inv_def big_handleChange_def split: option.split)
  next
    case BigAdd
    then show ?thesis using inv newMember_rows [of "bp_table p"] by (simp add: big_inv_def)
  qed (use inv in \<open>auto simp: big_inv_def big_handleSubmit_def big_submit_handler_def big_toggle_def big_saveRow_def
      big_cancel_def remove_member_def\<close>)
qed

lemma big_inv_new: "big_inv new_big_page"
proof -
  have "\<forall>r \<in> set (members ((newMember ^^ n) init_members)). big_editable r = truthy_prop (get_prop r ''isNew'')" for n
  proof (induction n)
    case (Suc n)
    then show ?case using newMember_rows [of "(newMember ^^ n) init_members"] by simp
  qed (simp add: init_members_def initial_members_def big_editable_def get_prop_def)
  then show ?thesis by (simp add: big_inv_def new_big_page_def big_mounted_def)
qed

text \<open>The big form never leaves the state it starts in. Whatever the user does, only the first two of
  its five forms are ever validated, the submit buttons of the other three validating the second; and a
  member is being edited exactly as long as it is one that was added: no added member can be saved, and no
  other one edited.\<close>

theorem big_form_stuck:
  assumes "enabled_run big_enabled big_step new_big_page es"
  shows "let p = foldl big_step new_big_page es in
    set (bp_validated p) \<subseteq> {1, 2} \<and>
    (\<forall>r \<in> set (members (bp_table p)).
       truthy_prop (get_prop r ''editable'') = truthy_prop (get_prop r ''isNew''))"
  using big.run_inv [OF big_inv_new assms] by (simp add: big_inv_def big_editable_def)

theorem big_form_stuck_witness:
  "bp_validated (foldl big_step new_big_page [BigSubmit 1, BigSubmit 3, BigAdd, BigSubmit 5]) = [1, 2, 2] \<and>
   set (bp_validated (foldl big_step new_big_page [BigSubmit 1, BigSubmit 3, BigAdd, BigSubmit 5])) \<subseteq> {1, 2}"
  using big_form_stuck [of "[BigSubmit 1, BigSubmit 3, BigAdd, BigSubmit 5]"]
  by (simp add: big_handleSubmit_def big_submit_handler_def new_big_page_def Let_def)

text \<open>The controls of its forms are those of the repository form, without the check of the address.\<close>

lemma big_form_repository:
  "map (\<lambda>c. (fc_label c, fc_control c)) big_form1 = map (\<lambda>c. (fc_label c, fc_control c)) repository_form"
  "field_names big_form1 = field_names repository_form"
  by (simp_all add: big_form1_def repository_form_def form_simps)

section \<open>The dialog of a permission\<close>

text \<open>The row is copied into the model of the dialog, the OK handler is empty. \<open>pp_rows\<close> are the rows the
  table shows.\<close>

record permission_page =
  pp_rows :: "obj list"
  pp_mdl :: obj
  pp_visible :: bool

definition permission_handleEdit :: "obj \<Rightarrow> permission_page \<Rightarrow> permission_page" where
  "permission_handleEdit row p = p\<lparr>pp_mdl := row, pp_visible := True\<rparr>"

definition permission_handleOk :: "permission_page \<Rightarrow> permission_page" where
  "permission_handleOk p = p"

datatype permission_event =
    PermissionEdit obj
  | PermissionType nat prop_value
  | PermissionOk
  | PermissionClose

fun permission_enabled :: "permission_page \<Rightarrow> permission_event \<Rightarrow> bool" where
  "permission_enabled p (PermissionEdit row) = (row \<in> set (pp_rows p) \<and> \<not> pp_visible p)"
| "permission_enabled p (PermissionType i v) = (pp_visible p \<and> i < length permission_form)"
| "permission_enabled p e = pp_visible p"

fun permission_step :: "permission_page \<Rightarrow> permission_event \<Rightarrow> permission_page" where
  "permission_step p (PermissionEdit row) = permission_handleEdit row p"
| "permission_step p (PermissionType i v) =
     (case fc_binding (permission_form ! i) of
        Bound [m, k] \<Rightarrow> p\<lparr>pp_mdl := set_prop k v (pp_mdl p)\<rparr> | _ \<Rightarrow> p)"
| "permission_step p PermissionOk = permission_handleOk p"
| "permission_step p PermissionClose = p\<lparr>pp_visible := False\<rparr>"

text \<open>What is typed in the dialog never reaches a row, and OK leaves the dialog open.\<close>

lemma permission_edit_discarded:
  "pp_rows (foldl permission_step p es) = pp_rows p" "permission_step p PermissionOk = p"
proof -
  have "pp_rows (permission_step p e) = pp_rows p" for p e
    by (cases "(p, e)" rule: permission_step.cases)
      (auto simp: permission_handleEdit_def permission_handleOk_def split: binding.splits list.splits)
  then show "pp_rows (foldl permission_step p es) = pp_rows p" by (induction es arbitrary: p) simp_all
qed (simp add: permission_handleOk_def)

text \<open>The rows give the status as a number, which the dialog does not offer.\<close>

lemma permission_status_not_offered:
  "\<not> offers (fc_control (permission_form ! 2)) (FNum n)"
  by (simp add: permission_form_def form_simps offers_def)

end
