(* ===== verification/IconSelector.thy ===== *)
theory IconSelector
  imports Machines Prelude
begin

text \<open>
  The icon selector (\<open>components/IconSelector/\<close>): the tabs of icons, the selected one, and the page that
  tries it out (\<open>views/other/IconSelectorView.vue\<close>). The page binds its icon with \<open>v-model\<close>, which for a
  component is the prop \<open>value\<close> and the event \<open>input\<close>.
\<close>

section \<open>The icons\<close>

record icon_tab =
  tab_key :: string
  tab_title :: string
  tab_icons :: "string list"

definition icons_directional :: icon_tab where
  "icons_directional = \<lparr>tab_key = ''directional'', tab_title = utf8 [0x65B9, 0x5411, 0x6027, 0x56FE, 0x6807],
     tab_icons =
    [''step-backward'', ''step-forward'', ''fast-backward'', ''fast-forward'', ''shrink'',
     ''arrows-alt'', ''down'', ''up'', ''left'', ''right'', ''caret-up'', ''caret-down'', ''caret-left'',
     ''caret-right'', ''up-circle'', ''down-circle'', ''left-circle'', ''right-circle'',
     ''double-right'', ''double-left'', ''vertical-left'', ''vertical-right'', ''forward'', ''backward'',
     ''rollback'', ''enter'', ''retweet'', ''swap'', ''swap-left'', ''swap-right'', ''arrow-up'',
     ''arrow-down'', ''arrow-left'', ''arrow-right'', ''play-circle'', ''up-square'', ''down-square'',
     ''left-square'', ''right-square'', ''login'', ''logout'', ''menu-fold'', ''menu-unfold'',
     ''border-bottom'', ''border-horizontal'', ''border-inner'', ''border-left'', ''border-right'',
     ''border-top'', ''border-verticle'', ''pic-center'', ''pic-left'', ''pic-right'',
     ''radius-bottomleft'', ''radius-bottomright'', ''radius-upleft'', ''fullscreen'',
     ''fullscreen-exit'']\<rparr>"

definition icons_suggested :: icon_tab where
  "icons_suggested = \<lparr>tab_key = ''suggested'', tab_title = utf8 [0x63D0, 0x793A, 0x5EFA, 0x8BAE, 0x6027, 0x56FE, 0x6807],
     tab_icons =
    [''question'', ''question-circle'', ''plus'', ''plus-circle'', ''pause'', ''pause-circle'',
     ''minus'', ''minus-circle'', ''plus-square'', ''minus-square'', ''info'', ''info-circle'',
     ''exclamation'', ''exclamation-circle'', ''close'', ''close-circle'', ''close-square'', ''check'',
     ''check-circle'', ''check-square'', ''clock-circle'', ''warning'', ''issues-close'', ''stop'']\<rparr>"

definition icons_editor :: icon_tab where
  "icons_editor = \<lparr>tab_key = ''editor'', tab_title = utf8 [0x7F16, 0x8F91, 0x7C7B, 0x56FE, 0x6807],
     tab_icons =
    [''edit'', ''form'', ''copy'', ''scissor'', ''delete'', ''snippets'', ''diff'', ''highlight'',
     ''align-center'', ''align-left'', ''align-right'', ''bg-colors'', ''bold'', ''italic'',
     ''underline'', ''strikethrough'', ''redo'', ''undo'', ''zoom-in'', ''zoom-out'', ''font-colors'',
     ''font-size'', ''line-height'', ''colum-height'', ''dash'', ''small-dash'', ''sort-ascending'',
     ''sort-descending'', ''drag'', ''ordered-list'', ''radius-setting'']\<rparr>"

definition icons_data :: icon_tab where
  "icons_data = \<lparr>tab_key = ''data'', tab_title = utf8 [0x6570, 0x636E, 0x7C7B, 0x56FE, 0x6807],
     tab_icons =
    [''area-chart'', ''pie-chart'', ''bar-chart'', ''dot-chart'', ''line-chart'', ''radar-chart'',
     ''heat-map'', ''fall'', ''rise'', ''stock'', ''box-plot'', ''fund'', ''sliders'']\<rparr>"

definition icons_brand_logo :: icon_tab where
  "icons_brand_logo = \<lparr>tab_key = ''brand_logo'', tab_title = utf8 [0x7F51, 0x7AD9, 0x901A, 0x7528, 0x56FE, 0x6807],
     tab_icons =
    [''lock'', ''unlock'', ''bars'', ''book'', ''calendar'', ''cloud'', ''cloud-download'', ''code'',
     ''copy'', ''credit-card'', ''delete'', ''desktop'', ''download'', ''ellipsis'', ''file'',
     ''file-text'', ''file-unknown'', ''file-pdf'', ''file-word'', ''file-excel'', ''file-jpg'',
     ''file-ppt'', ''file-markdown'', ''file-add'', ''folder'', ''folder-open'', ''folder-add'', ''hdd'',
     ''frown'', ''meh'', ''smile'', ''inbox'', ''laptop'', ''appstore'', ''link'', ''mail'', ''mobile'',
     ''notification'', ''paper-clip'', ''picture'', ''poweroff'', ''reload'', ''search'', ''setting'',
     ''share-alt'', ''shopping-cart'', ''tablet'', ''tag'', ''tags'', ''to-top'', ''upload'', ''user'',
     ''video-camera'', ''home'', ''loading'', ''loading-3-quarters'', ''cloud-upload'', ''star'',
     ''heart'', ''environment'', ''eye'', ''camera'', ''save'', ''team'', ''solution'', ''phone'',
     ''filter'', ''exception'', ''export'', ''customer-service'', ''qrcode'', ''scan'', ''like'',
     ''dislike'', ''message'', ''pay-circle'', ''calculator'', ''pushpin'', ''bulb'', ''select'',
     ''switcher'', ''rocket'', ''bell'', ''disconnect'', ''database'', ''compass'', ''barcode'',
     ''hourglass'', ''key'', ''flag'', ''layout'', ''printer'', ''sound'', ''usb'', ''skin'', ''tool'',
     ''sync'', ''wifi'', ''car'', ''schedule'', ''user-add'', ''user-delete'', ''usergroup-add'',
     ''usergroup-delete'', ''man'', ''woman'', ''shop'', ''gift'', ''idcard'', ''medicine-box'',
     ''red-envelope'', ''coffee'', ''copyright'', ''trademark'', ''safety'', ''wallet'', ''bank'',
     ''trophy'', ''contacts'', ''global'', ''shake'', ''api'', ''fork'', ''dashboard'', ''table'',
     ''profile'', ''alert'', ''audit'', ''branches'', ''build'', ''border'', ''crown'', ''experiment'',
     ''fire'', ''money-collect'', ''property-safety'', ''read'', ''reconciliation'', ''rest'',
     ''security-scan'', ''insurance'', ''interation'', ''safety-certificate'', ''project'',
     ''thunderbolt'', ''block'', ''cluster'', ''deployment-unit'', ''dollar'', ''euro'', ''pound'',
     ''file-done'', ''file-exclamation'', ''file-protect'', ''file-search'', ''file-sync'', ''gateway'',
     ''gold'', ''robot'', ''shopping'']\<rparr>"

definition icons_application :: icon_tab where
  "icons_application = \<lparr>tab_key = ''application'', tab_title = utf8 [0x54C1, 0x724C, 0x548C, 0x6807, 0x8BC6],
     tab_icons =
    [''android'', ''apple'', ''windows'', ''ie'', ''chrome'', ''github'', ''aliwangwang'', ''dingding'',
     ''weibo-square'', ''weibo-circle'', ''taobao-circle'', ''html5'', ''weibo'', ''twitter'',
     ''wechat'', ''youtube'', ''alipay-circle'', ''taobao'', ''skype'', ''qq'', ''medium-workmark'',
     ''gitlab'', ''medium'', ''linkedin'', ''google-plus'', ''dropbox'', ''facebook'', ''codepen'',
     ''code-sandbox'', ''amazon'', ''google'', ''codepen-circle'', ''alipay'', ''ant-design'',
     ''aliyun'', ''zhihu'', ''slack'', ''slack-square'', ''behance'', ''behance-square'', ''dribbble'',
     ''dribbble-square'', ''instagram'', ''yuque'', ''alibaba'', ''yahoo'']\<rparr>"


definition icons :: "icon_tab list" where
  "icons = [icons_directional, icons_suggested, icons_editor, icons_data, icons_brand_logo, icons_application]"

section \<open>The selector\<close>

record icon_selector =
  is_value :: string
  selectedIcon :: string
  currentTab :: string
  is_emitted :: "(string \<times> string) list"

text \<open>The first tab with the icon; without one the tab stays.\<close>

definition autoSwitchTab :: "icon_selector \<Rightarrow> icon_selector" where
  "autoSwitchTab s =
     (case find (\<lambda>item. is_value s \<in> set (tab_icons item)) icons of
        None \<Rightarrow> s | Some item \<Rightarrow> s\<lparr>currentTab := tab_key item\<rparr>)"

definition created_selector :: "string \<Rightarrow> icon_selector" where
  "created_selector val =
     (let s = \<lparr>is_value = val, selectedIcon = val, currentTab = ''directional'', is_emitted = []\<rparr>
      in if val \<noteq> [] then autoSwitchTab s else s)"

definition handleSelectedIcon :: "string \<Rightarrow> icon_selector \<Rightarrow> icon_selector" where
  "handleSelectedIcon icon s = s\<lparr>selectedIcon := icon, is_emitted := is_emitted s @ [(''change'', icon)]\<rparr>"

definition handleTabChange :: "string \<Rightarrow> icon_selector \<Rightarrow> icon_selector" where
  "handleTabChange activeKey s = s\<lparr>currentTab := activeKey\<rparr>"

text \<open>The watcher runs when the prop gets another value.\<close>

definition watch_value :: "string \<Rightarrow> icon_selector \<Rightarrow> icon_selector" where
  "watch_value val s =
     (if val = is_value s then s else autoSwitchTab (s\<lparr>is_value := val, selectedIcon := val\<rparr>))"

section \<open>The page\<close>

record icon_page =
  currentSelectedIcon :: string
  ip_selector :: icon_selector
  ip_messages :: "string list"

definition new_icon_page :: icon_page where
  "new_icon_page = \<lparr>currentSelectedIcon = ''pause-circle'', ip_selector = created_selector ''pause-circle'',
     ip_messages = []\<rparr>"

text \<open>What the page does with an event of the selector: \<open>change\<close> is shown, \<open>input\<close> would be taken over.\<close>

definition on_event :: "string \<times> string \<Rightarrow> icon_page \<Rightarrow> icon_page" where
  "on_event e p =
     (if fst e = ''change'' then p\<lparr>ip_messages := ip_messages p @ [snd e]\<rparr>
      else if fst e = ''input'' then
        p\<lparr>currentSelectedIcon := snd e, ip_selector := watch_value (snd e) (ip_selector p)\<rparr>
      else p)"

definition changeIcon :: "string \<Rightarrow> icon_page \<Rightarrow> icon_page" where
  "changeIcon type p = p\<lparr>currentSelectedIcon := type, ip_selector := watch_value type (ip_selector p)\<rparr>"

datatype icon_event = PickIcon string | PickTab string | ChangeIcon string

definition icons_of :: "string \<Rightarrow> string list" where
  "icons_of key = (case find (\<lambda>item. tab_key item = key) icons of None \<Rightarrow> [] | Some item \<Rightarrow> tab_icons item)"

text \<open>The icons of the current tab can be picked; the page has two buttons.\<close>

fun icon_enabled :: "icon_page \<Rightarrow> icon_event \<Rightarrow> bool" where
  "icon_enabled p (PickIcon icon) = (icon \<in> set (icons_of (currentTab (ip_selector p))))"
| "icon_enabled p (PickTab key) = (key \<in> tab_key ` set icons)"
| "icon_enabled p (ChangeIcon type) = (type \<in> {''down'', ''cloud-download''})"

fun icon_step :: "icon_page \<Rightarrow> icon_event \<Rightarrow> icon_page" where
  "icon_step p (PickIcon icon) =
     on_event (''change'', icon) (p\<lparr>ip_selector := handleSelectedIcon icon (ip_selector p)\<rparr>)"
| "icon_step p (PickTab key) = p\<lparr>ip_selector := handleTabChange key (ip_selector p)\<rparr>"
| "icon_step p (ChangeIcon type) = changeIcon type p"

section \<open>What holds\<close>

lemma icon_keys:
  "map tab_key icons = [''directional'', ''suggested'', ''editor'', ''data'', ''brand_logo'', ''application'']"
  by (simp add: icons_def icons_directional_def icons_suggested_def icons_editor_def icons_data_def
      icons_brand_logo_def icons_application_def)

lemma icon_keys_distinct: "distinct (map tab_key icons)"
  unfolding icon_keys by simp

lemma icons_of_key: "item \<in> set icons \<Longrightarrow> icons_of (tab_key item) = tab_icons item"
proof -
  assume item: "item \<in> set icons"
  then obtain x where x: "find (\<lambda>i. tab_key i = tab_key item) icons = Some x"
    using find_None_iff [of "\<lambda>i. tab_key i = tab_key item" icons] by (cases "find (\<lambda>i. tab_key i = tab_key item) icons") auto
  then have "x \<in> set icons" "tab_key x = tab_key item" by (auto simp: find_Some_iff)
  then have "x = item" using icon_keys_distinct item by (auto simp: distinct_map inj_on_def)
  with x show ?thesis by (simp add: icons_of_def)
qed

text \<open>A new value is shown: the tab that is current then has it, if any has.\<close>

lemma watch_value_shown:
  assumes "val \<noteq> is_value s" "item \<in> set icons" "val \<in> set (tab_icons item)"
  shows "selectedIcon (watch_value val s) = val"
    "val \<in> set (icons_of (currentTab (watch_value val s)))"
proof -
  obtain x where x: "find (\<lambda>i. val \<in> set (tab_icons i)) icons = Some x"
    using assms(2,3) find_None_iff [of "\<lambda>i. val \<in> set (tab_icons i)" icons]
    by (cases "find (\<lambda>i. val \<in> set (tab_icons i)) icons") auto
  then have "x \<in> set icons" "val \<in> set (tab_icons x)" by (auto simp: find_Some_iff)
  then show "selectedIcon (watch_value val s) = val"
    "val \<in> set (icons_of (currentTab (watch_value val s)))"
    using assms(1) x by (simp_all add: watch_value_def autoSwitchTab_def icons_of_key)
qed

text \<open>The icons \<open>copy\<close> and \<open>delete\<close> are in two tabs; as values they lead to the first one, also from the
  second.\<close>

lemma copy_leaves_its_tab:
  "''copy'' \<in> set (tab_icons icons_brand_logo)"
  "is_value s \<noteq> ''copy'' \<Longrightarrow> currentTab (watch_value ''copy'' (s\<lparr>currentTab := ''brand_logo''\<rparr>)) = ''editor''"
  by (simp_all add: watch_value_def autoSwitchTab_def icons_def icons_directional_def icons_suggested_def
      icons_editor_def icons_brand_logo_def)

section \<open>The page and its selector\<close>

definition last_button :: "icon_event list \<Rightarrow> string \<Rightarrow> string" where
  "last_button es t = foldl (\<lambda>t e. case e of ChangeIcon type \<Rightarrow> type | _ \<Rightarrow> t) t es"

definition icon_inv :: "icon_page \<Rightarrow> bool" where
  "icon_inv p \<longleftrightarrow> is_value (ip_selector p) = currentSelectedIcon p \<and>
     currentTab (ip_selector p) \<in> tab_key ` set icons"

lemma autoSwitchTab_keeps [simp]:
  "is_value (autoSwitchTab s) = is_value s" "selectedIcon (autoSwitchTab s) = selectedIcon s"
  "is_emitted (autoSwitchTab s) = is_emitted s"
  by (simp_all add: autoSwitchTab_def split: option.split)

lemma autoSwitchTab_key:
  "currentTab s \<in> tab_key ` set icons \<Longrightarrow> currentTab (autoSwitchTab s) \<in> tab_key ` set icons"
  by (auto simp: autoSwitchTab_def find_Some_iff split: option.split)

interpretation icon: machine icon_enabled icon_step icon_inv
proof
  fix p e
  assume "icon_inv p" "icon_enabled p e"
  then show "icon_inv (icon_step p e)"
    by (cases e) (auto simp: icon_inv_def on_event_def handleSelectedIcon_def handleTabChange_def changeIcon_def
        watch_value_def intro: autoSwitchTab_key)
qed

lemma new_icon_page_inv: "icon_inv new_icon_page"
proof -
  have "''directional'' \<in> tab_key ` set icons" by (simp add: icons_def icons_directional_def)
  then show ?thesis
    by (simp add: icon_inv_def new_icon_page_def created_selector_def autoSwitchTab_key Let_def)
qed

text \<open>Picking an icon does not reach the page: its icon is that of the last button, whatever is picked in
  between. A button whose icon the page has already does nothing, even when another icon is selected.\<close>

lemma page_icon_is_last_button:
  "currentSelectedIcon (foldl icon_step p es) = last_button es (currentSelectedIcon p)"
proof (induction es arbitrary: p)
  case (Cons e es)
  then show ?case by (cases e) (simp_all add: last_button_def on_event_def changeIcon_def)
qed (simp add: last_button_def)

lemma button_without_effect:
  assumes "enabled_run icon_enabled icon_step new_icon_page (es @ [ChangeIcon type])"
    and "last_button es ''pause-circle'' = type"
  shows "foldl icon_step new_icon_page (es @ [ChangeIcon type]) = foldl icon_step new_icon_page es"
proof -
  have "enabled_run icon_enabled icon_step new_icon_page es" using assms(1) by (simp add: enabled_run_append)
  from icon.run_inv [OF new_icon_page_inv this]
  have "is_value (ip_selector (foldl icon_step new_icon_page es)) = type"
    using assms(2) by (simp add: icon_inv_def page_icon_is_last_button new_icon_page_def)
  then show ?thesis
    using assms(2) page_icon_is_last_button [of new_icon_page es]
    by (simp add: changeIcon_def watch_value_def new_icon_page_def)
qed

lemma button_without_effect_witness:
  "selectedIcon (ip_selector (foldl icon_step new_icon_page [ChangeIcon ''down'', PickIcon ''up'', ChangeIcon ''down''])) = ''up''"
  by (simp add: new_icon_page_def changeIcon_def on_event_def handleSelectedIcon_def watch_value_def
      created_selector_def Let_def)

end
