(* ===== verification/Feeds.thy ===== *)
theory Feeds
  imports Machines MockServer
begin

text \<open>
  Pages that fetch lists with requests of their own, and what the demo service answers: the articles
  (\<open>views/list/search/Article.vue\<close> and \<open>views/account/center/page/Article.vue\<close>, which have the same
  methods), the cards of applications and projects (\<open>views/list/search/\<close>,
  \<open>views/account/center/page/Project.vue\<close>), the teams of the account page and the workplace
  (\<open>views/dashboard/Workplace.vue\<close>); \<open>mock/services/article.js\<close>.
\<close>

section \<open>The demo articles\<close>

text \<open>What the mock library and \<open>Math.random\<close> draw for an article is an argument.\<close>

record article_draw =
  dr_num :: nat
  dr_star :: int
  dr_percent :: int
  dr_like :: int
  dr_message :: int
  dr_updatedAt :: string
  dr_activeUser :: int
  dr_newUser :: int

record article =
  ar_id :: nat
  ar_avatar :: string
  ar_owner :: string
  ar_content :: string
  ar_star :: int
  ar_percent :: int
  ar_like :: int
  ar_message :: int
  ar_description :: string
  ar_href :: string
  ar_title :: string
  ar_updatedAt :: string
  ar_members :: "(string \<times> string \<times> string) list"
  ar_activeUser :: int
  ar_newUser :: int
  ar_cover :: string

definition article_titles :: "string list" where
  "article_titles =
     [''Alipay'',
      ''Angular'',
      ''Ant Design'',
      ''Ant Design Pro'',
      ''Bootstrap'',
      ''React'',
      ''Vue'',
      ''Webpack'']"

definition article_avatar :: "string list" where
  "article_avatar =
     [''https://gw.alipayobjects.com/zos/rmsportal/WdGqmHpayyMjiEhcKoVE.png'',
      ''https://gw.alipayobjects.com/zos/rmsportal/zOsKZmFRdUtvpqCImOVY.png'',
      ''https://gw.alipayobjects.com/zos/rmsportal/dURIMkkrRFpPgTuzkwnB.png'',
      ''https://gw.alipayobjects.com/zos/rmsportal/sfjbOqnsXXJgNCjCzDBL.png'',
      ''https://gw.alipayobjects.com/zos/rmsportal/siCrBXXhmvTQGWPNLBow.png'']"

definition article_covers :: "string list" where
  "article_covers =
     [''https://gw.alipayobjects.com/zos/rmsportal/uMfMFlvUuceEyPpotzlq.png'',
      ''https://gw.alipayobjects.com/zos/rmsportal/iZBVOIhGJiAnhplqjvZW.png'',
      ''https://gw.alipayobjects.com/zos/rmsportal/iXjVmWVHbCJAyqvDxdtx.png'',
      ''https://gw.alipayobjects.com/zos/rmsportal/gLaIAoVWTtLbBWZNYEMg.png'']"

definition article_owner :: "string list" where
  "article_owner =
     [utf8 [0x4ED8, 0x5C0F, 0x5C0F],
      utf8 [0x5434, 0x52A0, 0x597D],
      utf8 [0x5468, 0x661F, 0x661F],
      utf8 [0x6797, 0x4E1C, 0x4E1C],
      utf8 [0x66F2, 0x4E3D, 0x4E3D]]"

definition article_content :: string where
  "article_content =
     utf8 [0x6BB5, 0x843D, 0x793A, 0x610F, 0xFF1A, 0x8682, 0x8681, 0x91D1, 0x670D, 0x8BBE,
      0x8BA1, 0x5E73, 0x53F0] @ '' ant.design'' @ utf8 [0xFF0C, 0x7528, 0x6700, 0x5C0F, 0x7684,
      0x5DE5, 0x4F5C, 0x91CF, 0xFF0C, 0x65E0, 0x7F1D, 0x63A5, 0x5165, 0x8682, 0x8681, 0x91D1,
      0x670D, 0x751F, 0x6001, 0xFF0C, 0x63D0, 0x4F9B, 0x8DE8, 0x8D8A, 0x8BBE, 0x8BA1, 0x4E0E,
      0x5F00, 0x53D1, 0x7684, 0x4F53, 0x9A8C, 0x89E3, 0x51B3, 0x65B9, 0x6848, 0x3002, 0x8682,
      0x8681, 0x91D1, 0x670D, 0x8BBE, 0x8BA1, 0x5E73, 0x53F0] @ '' ant.design'' @ utf8 [0xFF0C,
      0x7528, 0x6700, 0x5C0F, 0x7684, 0x5DE5, 0x4F5C, 0x91CF, 0xFF0C, 0x65E0, 0x7F1D, 0x63A5,
      0x5165, 0x8682, 0x8681, 0x91D1, 0x670D, 0x751F, 0x6001, 0xFF0C, 0x63D0, 0x4F9B, 0x8DE8,
      0x8D8A, 0x8BBE, 0x8BA1, 0x4E0E, 0x5F00, 0x53D1, 0x7684, 0x4F53, 0x9A8C, 0x89E3, 0x51B3,
      0x65B9, 0x6848, 0x3002]"

definition article_description :: string where
  "article_description =
     utf8 [0x5728, 0x4E2D, 0x53F0, 0x4EA7, 0x54C1, 0x7684, 0x7814, 0x53D1, 0x8FC7, 0x7A0B,
      0x4E2D, 0xFF0C, 0x4F1A, 0x51FA, 0x73B0, 0x4E0D, 0x540C, 0x7684, 0x8BBE, 0x8BA1, 0x89C4,
      0x8303, 0x548C, 0x5B9E, 0x73B0, 0x65B9, 0x5F0F, 0xFF0C, 0x4F46, 0x5176, 0x4E2D, 0x5F80,
      0x5F80, 0x5B58, 0x5728, 0x5F88, 0x591A, 0x7C7B, 0x4F3C, 0x7684, 0x9875, 0x9762, 0x548C,
      0x7EC4, 0x4EF6, 0xFF0C, 0x8FD9, 0x4E9B, 0x7C7B, 0x4F3C, 0x7684, 0x7EC4, 0x4EF6, 0x4F1A,
      0x88AB, 0x62BD, 0x79BB, 0x6210, 0x4E00, 0x5957, 0x6807, 0x51C6, 0x89C4, 0x8303, 0x3002]"

definition article_href :: string where
  "article_href =
     ''https://ant.design''"

definition article_members :: "(string \<times> string \<times> string) list" where
  "article_members =
     [(''https://gw.alipayobjects.com/zos/rmsportal/ZiESqWwCXBRQoaPONSJe.png'', utf8 [0x66F2, 0x4E3D, 0x4E3D], ''member1''),
      (''https://gw.alipayobjects.com/zos/rmsportal/tBOxZPlITHqwlGjsJWaF.png'', utf8 [0x738B, 0x662D, 0x541B], ''member2''),
      (''https://gw.alipayobjects.com/zos/rmsportal/sBxjgqiuHMGRkIjqlQCd.png'', utf8 [0x8463, 0x5A1C, 0x5A1C], ''member3'')]"

text \<open>The pictures of the cards alternate in blocks of four, every second block backwards.\<close>

definition article_cover_of :: "nat \<Rightarrow> string" where
  "article_cover_of i =
     (if i div 4 mod 2 = 0 then article_covers ! (i mod 4) else article_covers ! (3 - i mod 4))"

definition article_of :: "article_draw \<Rightarrow> nat \<Rightarrow> article" where
  "article_of d i =
     \<lparr>ar_id = i + 1, ar_avatar = article_avatar ! dr_num d, ar_owner = article_owner ! dr_num d,
      ar_content = article_content, ar_star = dr_star d, ar_percent = dr_percent d, ar_like = dr_like d,
      ar_message = dr_message d, ar_description = article_description, ar_href = article_href,
      ar_title = article_titles ! (i mod 8), ar_updatedAt = dr_updatedAt d, ar_members = article_members,
      ar_activeUser = dr_activeUser d, ar_newUser = dr_newUser d, ar_cover = article_cover_of i\<rparr>"

text \<open>The count asked for is a number or none; without one, five articles are made.\<close>

definition article :: "(nat \<Rightarrow> article_draw) \<Rightarrow> int option \<Rightarrow> article list" where
  "article draw count =
     (let n = (case count of None \<Rightarrow> 5 | Some c \<Rightarrow> c) in map (\<lambda>i. article_of (draw i) i) [0..<nat n])"

lemma article_ids: "map ar_id (article draw count) = [1..<nat (case count of None \<Rightarrow> 5 | Some c \<Rightarrow> c) + 1]"
proof -
  have "map ar_id (map (\<lambda>i. article_of (draw i) i) [0..<n]) = [1..<n + 1]" for n
    by (induction n) (simp_all add: article_of_def)
  then show ?thesis by (simp add: article_def Let_def)
qed

text \<open>Indices stay within their lists, if what is drawn is a number below five.\<close>

lemma article_fields:
  assumes "\<And>i. dr_num (draw i) < 5" "a \<in> set (article draw count)"
  shows "ar_avatar a \<in> set article_avatar \<and> ar_owner a \<in> set article_owner \<and>
    ar_title a \<in> set article_titles \<and> ar_cover a \<in> set article_covers"
proof -
  obtain i where a: "a = article_of (draw i) i" using assms(2) by (auto simp: article_def Let_def)
  have len: "length article_avatar = 5" "length article_owner = 5" "length article_titles = 8" "length article_covers = 4"
    by (simp_all add: article_avatar_def article_owner_def article_titles_def article_covers_def)
  have "article_cover_of i \<in> set article_covers" by (simp add: article_cover_of_def len)
  then show ?thesis using assms(1) [of i] by (simp add: a article_of_def len)
qed

section \<open>A list that can be extended\<close>

text \<open>\<open>fd_lists\<close> and \<open>fd_mores\<close> count the requests under way of \<open>getList\<close> and \<open>loadMore\<close>.\<close>

record 'a feed =
  fd_data :: "'a list"
  fd_loading :: bool
  fd_loadingMore :: bool
  fd_lists :: nat
  fd_mores :: nat

definition feed_data :: "'a feed" where
  "feed_data = \<lparr>fd_data = [], fd_loading = True, fd_loadingMore = False, fd_lists = 0, fd_mores = 0\<rparr>"

definition getList :: "'a feed \<Rightarrow> 'a feed" where
  "getList s = s\<lparr>fd_lists := fd_lists s + 1\<rparr>"

definition list_replied :: "'a list \<Rightarrow> 'a feed \<Rightarrow> 'a feed" where
  "list_replied result s = s\<lparr>fd_lists := fd_lists s - 1, fd_data := result, fd_loading := False\<rparr>"

definition loadMore :: "'a feed \<Rightarrow> 'a feed" where
  "loadMore s = s\<lparr>fd_loadingMore := True, fd_mores := fd_mores s + 1\<rparr>"

definition more_settled :: "'a list option \<Rightarrow> 'a feed \<Rightarrow> 'a feed" where
  "more_settled result s =
     (let s = (case result of None \<Rightarrow> s | Some rows \<Rightarrow> s\<lparr>fd_data := fd_data s @ rows\<rparr>)
      in s\<lparr>fd_mores := fd_mores s - 1, fd_loadingMore := False\<rparr>)"

definition mounted_feed :: "'a feed" where
  "mounted_feed = getList feed_data"

datatype 'a feed_event = ListReply "'a list option" | MoreClick | MoreReply "'a list option"

text \<open>The button is there when there are articles; a button that shows a loading indicator takes no
  clicks.\<close>

fun feed_enabled :: "'a feed \<Rightarrow> 'a feed_event \<Rightarrow> bool" where
  "feed_enabled s (ListReply r) = (0 < fd_lists s)"
| "feed_enabled s MoreClick = (fd_data s \<noteq> [] \<and> \<not> fd_loadingMore s)"
| "feed_enabled s (MoreReply r) = (0 < fd_mores s)"

text \<open>A failed \<open>getList\<close> is not handled.\<close>

fun feed_step :: "'a feed \<Rightarrow> 'a feed_event \<Rightarrow> 'a feed" where
  "feed_step s (ListReply r) =
     (case r of None \<Rightarrow> s\<lparr>fd_lists := fd_lists s - 1\<rparr> | Some rows \<Rightarrow> list_replied rows s)"
| "feed_step s MoreClick = loadMore s"
| "feed_step s (MoreReply r) = more_settled r s"

fun feed_rows :: "'a feed_event \<Rightarrow> 'a list" where
  "feed_rows (ListReply (Some rows)) = rows"
| "feed_rows (MoreReply (Some rows)) = rows"
| "feed_rows e = []"

definition feed_inv :: "'a feed \<Rightarrow> bool" where
  "feed_inv s \<longleftrightarrow> fd_lists s \<le> 1 \<and> fd_mores s = (if fd_loadingMore s then 1 else 0) \<and>
     (fd_lists s = 1 \<longrightarrow> fd_data s = [] \<and> fd_loading s \<and> fd_mores s = 0) \<and> (fd_loading s \<longrightarrow> fd_data s = [] \<and> fd_mores s = 0)"

interpretation feed: machine feed_enabled feed_step feed_inv
proof
  fix s :: "'a feed" and e
  assume "feed_inv s" "feed_enabled s e"
  then show "feed_inv (feed_step s e)"
    by (cases e) (auto simp: feed_inv_def list_replied_def loadMore_def more_settled_def Let_def split: option.splits)
qed

text \<open>A list that is fetched first and extended afterwards is the rows of all replies in their order; the
  indicators show what is under way, but that the first one stays when the list cannot be fetched.\<close>

lemma feed_run_data:
  "feed_inv s \<Longrightarrow> enabled_run feed_enabled feed_step s es \<Longrightarrow>
     fd_data (foldl feed_step s es) = fd_data s @ concat (map feed_rows es)"
proof (induction es arbitrary: s)
  case (Cons e es)
  then have "feed_inv (feed_step s e)" using feed.keeps by auto
  moreover have "fd_data (feed_step s e) = fd_data s @ feed_rows e"
    using Cons.prems by (cases e)
      (auto simp: feed_inv_def list_replied_def loadMore_def more_settled_def Let_def split: option.splits)
  ultimately show ?case using Cons by simp
qed simp

text \<open>C37: a list of articles shows the rows of all successful answers, in the order they came, whatever fails
  in between; at most one request for more is under way, exactly while the button shows it; and the list is
  shown as loading until it has been answered successfully, for ever if its only request fails.\<close>

theorem feed_shows_replies:
  assumes "enabled_run feed_enabled feed_step mounted_feed es"
  shows "let s = foldl feed_step mounted_feed es in
    fd_data s = concat (map feed_rows es) \<and>
    fd_mores s = (if fd_loadingMore s then 1 else 0) \<and>
    fd_loading s = (\<forall>rows. ListReply (Some rows) \<notin> set es) \<and>
    (ListReply None \<in> set es \<longrightarrow> fd_loading s \<and> fd_lists s = 0 \<and> fd_data s = [])"
proof -
  have start: "feed_inv mounted_feed" by (simp add: feed_inv_def mounted_feed_def getList_def feed_data_def)
  let ?run = "foldl feed_step mounted_feed"
  have inv: "feed_inv (?run es)" by (rule feed.run_inv [OF start assms])
  have lists: "fd_loading (?run es) = (\<forall>rows. ListReply (Some rows) \<notin> set es) \<and>
      fd_lists (?run es) = (if \<exists>r. ListReply r \<in> set es then 0 else 1) \<and>
      (ListReply None \<in> set es \<longrightarrow> fd_loading (?run es))"
    using assms
  proof (induction es rule: rev_induct)
    case (snoc e es)
    then show ?case
      by (cases e) (auto simp: enabled_run_append list_replied_def loadMore_def more_settled_def Let_def
          split: option.splits if_splits)
  qed (simp add: mounted_feed_def getList_def feed_data_def)
  show ?thesis
    using feed_run_data [OF start assms] inv lists
    by (auto simp: Let_def feed_inv_def mounted_feed_def getList_def feed_data_def)
qed

theorem feed_shows_replies_witness:
  "let s = foldl feed_step mounted_feed [ListReply (Some [1, 2 :: nat]), MoreClick, MoreReply None, MoreClick,
     MoreReply (Some [3])] in fd_data s = [1, 2, 3] \<and> \<not> fd_loadingMore s \<and> \<not> fd_loading s"
  using feed_shows_replies [where es = "[ListReply (Some [1, 2 :: nat]), MoreClick, MoreReply None, MoreClick,
     MoreReply (Some [3])]"]
  by (simp add: mounted_feed_def getList_def feed_data_def list_replied_def loadMore_def more_settled_def Let_def)

text \<open>The demo service numbers the articles of each answer from one: after the first extension two rows have
  the same key.\<close>

lemma more_articles_repeat_keys:
  "map ar_id (fd_data (foldl feed_step mounted_feed
     [ListReply (Some (article draw None)), MoreClick, MoreReply (Some (article draw' None))])) =
   [1, 2, 3, 4, 5, 1, 2, 3, 4, 5]"
proof -
  have "map ar_id (article d None) = [1, 2, 3, 4, 5]" for d
    unfolding article_ids by (simp add: upt_rec)
  then show ?thesis
    by (simp add: mounted_feed_def getList_def feed_data_def list_replied_def loadMore_def more_settled_def Let_def)
qed

section \<open>Lists that are fetched once\<close>

text \<open>The cards of applications and projects, the projects of the account page, and its teams: the same
  state and the same reply handler; the cards ask for eight articles.\<close>

record 'a fetched =
  ft_data :: "'a list"
  ft_loading :: bool

definition new_fetched :: "'a fetched" where
  "new_fetched = \<lparr>ft_data = [], ft_loading = True\<rparr>"

definition fetched_reply :: "'a list option \<Rightarrow> 'a fetched \<Rightarrow> 'a fetched" where
  "fetched_reply r s = (case r of None \<Rightarrow> s | Some rows \<Rightarrow> s\<lparr>ft_data := rows, ft_loading := False\<rparr>)"

definition cards_request :: "string \<times> int option" where
  "cards_request = (''/list/article'', Some 8)"

definition teams_request :: string where
  "teams_request = ''/workplace/teams''"

lemma cards_shown: "length (ft_data (fetched_reply (Some (article draw (snd cards_request))) new_fetched)) = 8"
  by (simp add: fetched_reply_def cards_request_def article_def new_fetched_def)

section \<open>The workplace\<close>

text \<open>Four requests of its own, answered in any order, and two of the services whose answers it ignores. The
  rows of the radar chart are folded by a library.\<close>

record ('p, 'a, 't, 'r) workplace =
  wp_projects :: "'p list"
  wp_loading :: bool
  wp_radarLoading :: bool
  wp_activities :: "'a list"
  wp_teams :: "'t list"
  wp_radarData :: "'r list"
  wp_asked :: "string list"

definition workplace_data :: "('p, 'a, 't, 'r) workplace" where
  "workplace_data = \<lparr>wp_projects = [], wp_loading = True, wp_radarLoading = True, wp_activities = [],
     wp_teams = [], wp_radarData = [], wp_asked = []\<rparr>"

definition workplace_asks :: "string \<Rightarrow> ('p, 'a, 't, 'r) workplace \<Rightarrow> ('p, 'a, 't, 'r) workplace" where
  "workplace_asks url s = s\<lparr>wp_asked := wp_asked s @ [url]\<rparr>"

definition created_workplace :: "('p, 'a, 't, 'r) workplace" where
  "created_workplace = workplace_asks ''/service'' (workplace_asks ''/role'' workplace_data)"

definition mounted_workplace :: "('p, 'a, 't, 'r) workplace" where
  "mounted_workplace =
     (let s = workplace_asks ''/workplace/teams'' (workplace_asks ''/workplace/activity''
            (workplace_asks ''/list/search/projects'' created_workplace))
      in workplace_asks ''/workplace/radar'' (s\<lparr>wp_radarLoading := True\<rparr>))"

datatype ('p, 'a, 't, 'r) workplace_reply =
    ProjectsReply "'p list"
  | ActivityReply "'a list"
  | TeamsReply "'t list"
  | RadarReply "'r list"
  | NoReply string

fun workplace_step ::
    "('s list \<Rightarrow> 'r list) \<Rightarrow> ('p, 'a, 't, 'r) workplace \<Rightarrow> ('p, 'a, 't, 's) workplace_reply \<Rightarrow>
     ('p, 'a, 't, 'r) workplace" where
  "workplace_step dv_rows s (ProjectsReply ps) = s\<lparr>wp_projects := ps, wp_loading := False\<rparr>"
| "workplace_step dv_rows s (ActivityReply as) = s\<lparr>wp_activities := as\<rparr>"
| "workplace_step dv_rows s (TeamsReply ts) = s\<lparr>wp_teams := ts\<rparr>"
| "workplace_step dv_rows s (RadarReply rs) = s\<lparr>wp_radarData := dv_rows rs, wp_radarLoading := False\<rparr>"
| "workplace_step dv_rows s (NoReply url) = s"

text \<open>The answers may come in any order: two different ones can be swapped.\<close>

fun reply_kind :: "('p, 'a, 't, 'r) workplace_reply \<Rightarrow> nat" where
  "reply_kind (ProjectsReply ps) = 0"
| "reply_kind (ActivityReply as) = 1"
| "reply_kind (TeamsReply ts) = 2"
| "reply_kind (RadarReply rs) = 3"
| "reply_kind (NoReply url) = 4"

lemma workplace_replies_commute:
  "reply_kind a \<noteq> reply_kind b \<Longrightarrow>
     workplace_step dv_rows (workplace_step dv_rows s a) b = workplace_step dv_rows (workplace_step dv_rows s b) a"
  by (cases a; cases b) simp_all

text \<open>A section whose request fails is shown as loading for ever.\<close>

lemma workplace_loading:
  "wp_loading (foldl (workplace_step dv_rows) s es) = (wp_loading s \<and> (\<forall>ps. ProjectsReply ps \<notin> set es))"
proof (induction es arbitrary: s)
  case (Cons e es)
  show ?case by (cases e) (auto simp: Cons)
qed simp

text \<open>What the cards of the page show: their content, or an indicator. The cards of the activities and the
  teams go by the flag of the projects.\<close>

definition projects_card :: "('p, 'a, 't, 'r) workplace \<Rightarrow> 'p list option" where
  "projects_card s = (if wp_loading s then None else Some (wp_projects s))"

definition activities_card :: "('p, 'a, 't, 'r) workplace \<Rightarrow> 'a list option" where
  "activities_card s = (if wp_loading s then None else Some (wp_activities s))"

definition teams_card :: "('p, 'a, 't, 'r) workplace \<Rightarrow> 't list option" where
  "teams_card s = (if wp_loading s then None else Some (wp_teams s))"

definition radar_card :: "('p, 'a, 't, 'r) workplace \<Rightarrow> 'r list option" where
  "radar_card s = (if wp_radarLoading s then None else Some (wp_radarData s))"

text \<open>Without an answer for the projects the teams are not shown, although they have been answered; with
  one the activities are shown as an empty list, although they are still under way.\<close>

lemma cards_follow_projects:
  "(\<forall>ps. ProjectsReply ps \<notin> set es) \<Longrightarrow> teams_card (foldl (workplace_step dv_rows) mounted_workplace es) = None"
  "activities_card (workplace_step dv_rows mounted_workplace (ProjectsReply ps)) = Some []"
  by (simp_all add: teams_card_def activities_card_def workplace_loading)
    (simp_all add: mounted_workplace_def created_workplace_def workplace_asks_def workplace_data_def Let_def)

end
