(* ===== verification/MockRoutes.thy ===== *)
theory MockRoutes
  imports Request MockServer
begin

text \<open>
  Which handler of the demo service answers which request: the environments the frontend is built for
  (\<open>.env\<close>, \<open>.env.development\<close>, \<open>.env.preview\<close>), when the service is loaded (\<open>mock/index.js\<close>), and the
  patterns its handlers are registered for (the last lines of the files in \<open>mock/services/\<close>), in the
  order of their loading. How the mock library chooses among several patterns is its own affair: the
  handlers that match are listed.
\<close>

section \<open>Environments\<close>

record env =
  NODE_ENV :: string
  VUE_APP_PREVIEW :: string
  VUE_APP_API_BASE_URL :: string

definition env_production :: env where
  "env_production = \<lparr>NODE_ENV = ''production'', VUE_APP_PREVIEW = ''false'', VUE_APP_API_BASE_URL = ''/api''\<rparr>"

definition env_development :: env where
  "env_development = \<lparr>NODE_ENV = ''development'', VUE_APP_PREVIEW = ''true'',
     VUE_APP_API_BASE_URL = ''http://10.211.55.9:8000''\<rparr>"

definition env_preview :: env where
  "env_preview = \<lparr>NODE_ENV = ''production'', VUE_APP_PREVIEW = ''true'', VUE_APP_API_BASE_URL = ''/api''\<rparr>"

definition mock_loaded :: "env \<Rightarrow> bool" where
  "mock_loaded e \<longleftrightarrow> NODE_ENV e \<noteq> ''production'' \<or> VUE_APP_PREVIEW e = ''true''"

definition full_url :: "env \<Rightarrow> api_call \<Rightarrow> string" where
  "full_url e c =
     (case cl_baseURL (ac_client c) of ApiPrefix \<Rightarrow> ''/api'' | ApiEnvironment \<Rightarrow> VUE_APP_API_BASE_URL e) @ ac_url c"

section \<open>The handlers\<close>

datatype mock_handler =
    MockLogin | MockLogout | MockSmsCaptcha | MockTwofactor
  | MockInfo | MockUserNav
  | MockServerList | MockProjects | MockActivity | MockTeams | MockRadar
  | MockOrgTree | MockRole | MockPermissionNoPager | MockPermissions
  | MockTagCloud | MockArticle

text \<open>The patterns are plain texts, that may stand anywhere in the address.\<close>

definition mock_auth :: "(string \<times> http_method \<times> mock_handler) list" where
  "mock_auth = [(''/auth/login'', Post, MockLogin), (''/auth/logout'', Post, MockLogout),
     (''/account/sms'', Post, MockSmsCaptcha), (''/auth/2step-code'', Post, MockTwofactor)]"

definition mock_user :: "(string \<times> http_method \<times> mock_handler) list" where
  "mock_user = [(''/api/user/info'', Get, MockInfo), (''/api/user/nav'', Get, MockUserNav)]"

definition mock_manage :: "(string \<times> http_method \<times> mock_handler) list" where
  "mock_manage = [(''/service'', Get, MockServerList), (''/list/search/projects'', Get, MockProjects),
     (''/workplace/activity'', Get, MockActivity), (''/workplace/teams'', Get, MockTeams),
     (''/workplace/radar'', Get, MockRadar)]"

definition mock_other :: "(string \<times> http_method \<times> mock_handler) list" where
  "mock_other = [(''/org/tree'', Get, MockOrgTree), (''/role'', Get, MockRole),
     (''/permission/no-pager'', Get, MockPermissionNoPager), (''/permission'', Get, MockPermissions)]"

definition mock_tagCloud :: "(string \<times> http_method \<times> mock_handler) list" where
  "mock_tagCloud = [(''/data/antv/tag-cloud'', Get, MockTagCloud)]"

definition mock_article :: "(string \<times> http_method \<times> mock_handler) list" where
  "mock_article = [(''/list/article'', Get, MockArticle)]"

definition mock_table :: "(string \<times> http_method \<times> mock_handler) list" where
  "mock_table = mock_auth @ mock_user @ mock_manage @ mock_other @ mock_tagCloud @ mock_article"

fun contains :: "string \<Rightarrow> string \<Rightarrow> bool" where
  "contains pat [] = (pat = [])"
| "contains pat (c # cs) = (take (length pat) (c # cs) = pat \<or> contains pat cs)"

lemma contains_iff: "contains pat s \<longleftrightarrow> (\<exists>u v. s = u @ pat @ v)"
proof (induction s)
  case (Cons c cs)
  have "take (length pat) (c # cs) = pat \<longleftrightarrow> (\<exists>v. c # cs = pat @ v)"
    by (metis append_eq_conv_conj append_take_drop_id)
  moreover have "(\<exists>u v. c # cs = u @ pat @ v) \<longleftrightarrow> (\<exists>v. c # cs = pat @ v) \<or> (\<exists>u v. cs = u @ pat @ v)"
    by (auto simp: Cons_eq_append_conv)
  ultimately show ?case using Cons by simp
qed simp

definition handlers :: "http_method \<Rightarrow> string \<Rightarrow> mock_handler list" where
  "handlers met url =
     map (\<lambda>(pat, m, h). h) (filter (\<lambda>(pat, m, h). m = met \<and> contains pat url) mock_table)"

definition answered_by :: "env \<Rightarrow> api_call \<Rightarrow> mock_handler list" where
  "answered_by e c = (if mock_loaded e then handlers (ac_method c) (full_url e c) else [])"

lemmas mock_table_simps = mock_table_def mock_auth_def mock_user_def mock_manage_def mock_other_def
  mock_tagCloud_def mock_article_def

section \<open>Which request reaches which handler\<close>

text \<open>The service is there in development and in the preview, not in production.\<close>

lemma where_mocked: "mock_loaded env_development" "mock_loaded env_preview" "\<not> mock_loaded env_production"
  by (simp_all add: mock_loaded_def env_development_def env_preview_def env_production_def)

lemmas api_calls_def = api_login_def api_getSmsCaptcha_def api_getInfo_def api_getCurrentUserNav_def
  api_logout_def api_get2step_def api_getUserList_def api_getRoleList_def api_getServiceList_def
  api_getPermissions_def api_getOrgTree_def api_saveService_def api_saveSub_def api_getServerSet_def
  api_getLinks_def api_getSwitches_def api_getSFCIs_def

lemma prefix_url:
  "cl_baseURL (ac_client c) = ApiPrefix \<Longrightarrow> mock_loaded e \<Longrightarrow>
     answered_by e c = handlers (ac_method c) (''/api'' @ ac_url c)"
  by (simp add: answered_by_def full_url_def)

text \<open>The addresses of the calls, looked up in the table.\<close>

lemma handlers_account:
  "handlers Post ''/api/auth/login'' = [MockLogin]" "handlers Post ''/api/auth/logout'' = [MockLogout]"
  "handlers Post ''/api/account/sms'' = [MockSmsCaptcha]" "handlers Post ''/api/auth/2step-code'' = [MockTwofactor]"
  "handlers Get ''/api/user/info'' = [MockInfo]" "handlers Get ''/api/user/nav'' = [MockUserNav]"
  "handlers Get ''/api/user'' = []"
  by code_simp+

lemma handlers_manage:
  "handlers Get ''/api/role'' = [MockRole]" "handlers Get ''/api/service'' = [MockServerList]"
  "handlers Get ''/api/org/tree'' = [MockOrgTree]"
  "handlers Get ''/api/permission/no-pager'' = [MockPermissionNoPager, MockPermissions]"
  by code_simp+

lemma handlers_save: "handlers Put url = []" "handlers Post ''/api/service'' = []" "handlers Post ''/api/sub'' = []"
  by (simp add: handlers_def mock_table_simps, code_simp+)

text \<open>Each call of the account and management interface has its own handler. The list of permissions also
  matches the pattern of the permission page, which is registered after its own. No handler is there for
  the list of users and for saving.\<close>

lemma api_answered_by:
  assumes "mock_loaded e"
  shows "answered_by e api_login = [MockLogin]" "answered_by e api_logout = [MockLogout]"
    "answered_by e api_getSmsCaptcha = [MockSmsCaptcha]" "answered_by e api_get2step = [MockTwofactor]"
    "answered_by e api_getInfo = [MockInfo]" "answered_by e api_getCurrentUserNav = [MockUserNav]"
    "answered_by e api_getRoleList = [MockRole]" "answered_by e api_getServiceList = [MockServerList]"
    "answered_by e api_getOrgTree = [MockOrgTree]"
    "answered_by e api_getPermissions = [MockPermissionNoPager, MockPermissions]"
    "answered_by e api_getUserList = []" "answered_by e (api_saveService i) = []"
    "answered_by e (api_saveSub i) = []"
  using handlers_account handlers_manage handlers_save
  by (simp_all add: assms prefix_url api_calls_def call_def request_def)

text \<open>The calls of the monitor pages go to the controller in every environment.\<close>

lemma monitor_not_mocked:
  assumes "e \<in> {env_production, env_development, env_preview}"
    and "c \<in> {api_getServerSet, api_getLinks, api_getSwitches, api_getSFCIs}"
  shows "answered_by e c = []"
proof -
  have "handlers Get (base @ path) = []"
    if "base \<in> {''/api'', ''http://10.211.55.9:8000''}"
      "path \<in> {''/measure/servers/'', ''/measure/links/'', ''/measure/switches/'', ''/measure/sfcis/''}" for base path
  proof -
    have "list_all (\<lambda>base. list_all (\<lambda>path. handlers Get (base @ path) = [])
        [''/measure/servers/'', ''/measure/links/'', ''/measure/switches/'', ''/measure/sfcis/''])
        [''/api'', ''http://10.211.55.9:8000'']"
      by code_simp
    then show ?thesis using that by (auto simp: list_all_iff)
  qed
  moreover have "VUE_APP_API_BASE_URL e \<in> {''/api'', ''http://10.211.55.9:8000''}"
    using assms(1) by (auto simp: env_production_def env_development_def env_preview_def)
  moreover have "ac_url c \<in> {''/measure/servers/'', ''/measure/links/'', ''/measure/switches/'', ''/measure/sfcis/''}"
    "ac_method c = Get" "cl_baseURL (ac_client c) = ApiEnvironment"
    using assms(2) by (auto simp: api_calls_def call_def request2_def)
  ultimately show ?thesis by (simp add: answered_by_def full_url_def)
qed

text \<open>The requests the pages make themselves. The chart of the transfers asks for an address nobody answers.\<close>

definition page_requests :: "(string \<times> mock_handler list) list" where
  "page_requests =
     [(''/list/article'', [MockArticle]), (''/service'', [MockServerList]), (''/permission'', [MockPermissions]),
      (''/role'', [MockRole]), (''/list/search/projects'', [MockProjects]), (''/workplace/activity'', [MockActivity]),
      (''/workplace/teams'', [MockTeams]), (''/workplace/radar'', [MockRadar]), (''/analysis/month-bar'', [])]"

lemma page_requests_answered: "list_all (\<lambda>(url, hs). handlers Get (''/api'' @ url) = hs) page_requests"
  by code_simp

end
