(* ===== verification/DemoPages.thy ===== *)
theory DemoPages
  imports STable NumberText RouteConfig Machines
begin

text \<open>
  Demo pages with data of their own: the profiles (\<open>views/profile/\<close>), the account settings
  (\<open>views/account/settings/\<close>) with their menu, and the dialog for the avatar.
\<close>

section \<open>The basic profile\<close>

record goods_row =
  gd_id :: string
  gd_name :: string
  gd_barcode :: string
  gd_price :: string
  gd_num :: string
  gd_amount :: string

record schedule_row =
  sc_key :: string
  sc_time :: string
  sc_rate :: string
  sc_status :: string
  sc_operator :: string
  sc_cost :: string

record operation_row =
  op_key :: string
  op_type :: string
  op_name :: string
  op_status :: string
  op_updatedAt :: string
  op_remark :: string

definition goodsColumns :: "column list" where
  "goodsColumns =
     [\<lparr>c_title = utf8 [0x5546, 0x54C1, 0x7F16, 0x53F7], c_dataIndex = ''id'',
        c_needTotal = False\<rparr>,
      \<lparr>c_title = utf8 [0x5546, 0x54C1, 0x540D, 0x79F0], c_dataIndex = ''name'',
        c_needTotal = False\<rparr>,
      \<lparr>c_title = utf8 [0x5546, 0x54C1, 0x6761, 0x7801], c_dataIndex = ''barcode'',
        c_needTotal = False\<rparr>,
      \<lparr>c_title = utf8 [0x5355, 0x4EF7], c_dataIndex = ''price'', c_needTotal = False\<rparr>,
      \<lparr>c_title = utf8 [0x6570, 0x91CF, 0xFF08, 0x4EF6, 0xFF09], c_dataIndex = ''num'',
        c_needTotal = False\<rparr>,
      \<lparr>c_title = utf8 [0x91D1, 0x989D], c_dataIndex = ''amount'', c_needTotal = False\<rparr>]"

definition goods_data :: "goods_row list" where
  "goods_data =
     [\<lparr>gd_id = ''1234561'', gd_name = utf8 [0x77FF, 0x6CC9, 0x6C34] @ '' 550ml'',
        gd_barcode = ''12421432143214321'', gd_price = ''2.00'', gd_num = ''1'',
        gd_amount = ''2.00''\<rparr>,
      \<lparr>gd_id = ''1234562'', gd_name = utf8 [0x51C9, 0x8336] @ '' 300ml'',
        gd_barcode = ''12421432143214322'', gd_price = ''3.00'', gd_num = ''2'',
        gd_amount = ''6.00''\<rparr>,
      \<lparr>gd_id = ''1234563'', gd_name = utf8 [0x597D, 0x5403, 0x7684, 0x85AF, 0x7247],
        gd_barcode = ''12421432143214323'', gd_price = ''7.00'', gd_num = ''4'',
        gd_amount = ''28.00''\<rparr>,
      \<lparr>gd_id = ''1234564'', gd_name = utf8 [0x7279, 0x522B, 0x597D, 0x5403, 0x7684, 0x86CB,
        0x5377], gd_barcode = ''12421432143214324'', gd_price = ''8.50'', gd_num = ''3'',
        gd_amount = ''25.50''\<rparr>]"

definition scheduleColumns :: "column list" where
  "scheduleColumns =
     [\<lparr>c_title = utf8 [0x65F6, 0x95F4], c_dataIndex = ''time'', c_needTotal = False\<rparr>,
      \<lparr>c_title = utf8 [0x5F53, 0x524D, 0x8FDB, 0x5EA6], c_dataIndex = ''rate'',
        c_needTotal = False\<rparr>,
      \<lparr>c_title = utf8 [0x72B6, 0x6001], c_dataIndex = ''status'', c_needTotal = False\<rparr>,
      \<lparr>c_title = utf8 [0x64CD, 0x4F5C, 0x5458] @ ''ID'', c_dataIndex = ''operator'',
        c_needTotal = False\<rparr>,
      \<lparr>c_title = utf8 [0x8017, 0x65F6], c_dataIndex = ''cost'', c_needTotal = False\<rparr>]"

definition schedule_data :: "schedule_row list" where
  "schedule_data =
     [\<lparr>sc_key = ''1'', sc_time = ''2017-10-01 14:10'', sc_rate = utf8 [0x8054, 0x7CFB, 0x5BA2,
        0x6237], sc_status = ''processing'', sc_operator = utf8 [0x53D6, 0x8D27, 0x5458] @ '' ID1234'',
        sc_cost = ''5mins''\<rparr>,
      \<lparr>sc_key = ''2'', sc_time = ''2017-10-01 14:05'', sc_rate = utf8 [0x53D6, 0x8D27, 0x5458,
        0x51FA, 0x53D1], sc_status = ''success'', sc_operator = utf8 [0x53D6, 0x8D27,
        0x5458] @ '' ID1234'', sc_cost = ''1h''\<rparr>,
      \<lparr>sc_key = ''3'', sc_time = ''2017-10-01 13:05'', sc_rate = utf8 [0x53D6, 0x8D27, 0x5458,
        0x63A5, 0x5355], sc_status = ''success'', sc_operator = utf8 [0x53D6, 0x8D27,
        0x5458] @ '' ID1234'', sc_cost = ''5mins''\<rparr>,
      \<lparr>sc_key = ''4'', sc_time = ''2017-10-01 13:00'', sc_rate = utf8 [0x7533, 0x8BF7, 0x5BA1,
        0x6279, 0x901A, 0x8FC7], sc_status = ''success'', sc_operator = utf8 [0x7CFB, 0x7EDF],
        sc_cost = ''1h''\<rparr>,
      \<lparr>sc_key = ''5'', sc_time = ''2017-10-01 12:00'', sc_rate = utf8 [0x53D1, 0x8D77, 0x9000,
        0x8D27, 0x7533, 0x8BF7], sc_status = ''success'', sc_operator = utf8 [0x7528, 0x6237],
        sc_cost = ''5mins''\<rparr>]"

definition operationColumns :: "column list" where
  "operationColumns =
     [\<lparr>c_title = utf8 [0x64CD, 0x4F5C, 0x7C7B, 0x578B], c_dataIndex = ''type'',
        c_needTotal = False\<rparr>,
      \<lparr>c_title = utf8 [0x64CD, 0x4F5C, 0x4EBA], c_dataIndex = ''name'',
        c_needTotal = False\<rparr>,
      \<lparr>c_title = utf8 [0x6267, 0x884C, 0x7ED3, 0x679C], c_dataIndex = ''status'',
        c_needTotal = False\<rparr>,
      \<lparr>c_title = utf8 [0x64CD, 0x4F5C, 0x65F6, 0x95F4], c_dataIndex = ''updatedAt'',
        c_needTotal = False\<rparr>,
      \<lparr>c_title = utf8 [0x5907, 0x6CE8], c_dataIndex = ''remark'', c_needTotal = False\<rparr>]"

definition operation1 :: "operation_row list" where
  "operation1 =
     [\<lparr>op_key = ''op1'', op_type = utf8 [0x8BA2, 0x8D2D, 0x5173, 0x7CFB, 0x751F, 0x6548],
        op_name = utf8 [0x66F2, 0x4E3D, 0x4E3D], op_status = ''agree'',
        op_updatedAt = ''2017-10-03  19:23:12'', op_remark = ''-''\<rparr>,
      \<lparr>op_key = ''op2'', op_type = utf8 [0x8D22, 0x52A1, 0x590D, 0x5BA1],
        op_name = utf8 [0x4ED8, 0x5C0F, 0x5C0F], op_status = ''reject'',
        op_updatedAt = ''2017-10-03  19:23:12'', op_remark = utf8 [0x4E0D, 0x901A, 0x8FC7, 0x539F,
        0x56E0]\<rparr>,
      \<lparr>op_key = ''op3'', op_type = utf8 [0x90E8, 0x95E8, 0x521D, 0x5BA1],
        op_name = utf8 [0x5468, 0x6BDB, 0x6BDB], op_status = ''agree'',
        op_updatedAt = ''2017-10-03  19:23:12'', op_remark = ''-''\<rparr>,
      \<lparr>op_key = ''op4'', op_type = utf8 [0x63D0, 0x4EA4, 0x8BA2, 0x5355],
        op_name = utf8 [0x6797, 0x4E1C, 0x4E1C], op_status = ''agree'',
        op_updatedAt = ''2017-10-03  19:23:12'', op_remark = utf8 [0x5F88, 0x68D2]\<rparr>,
      \<lparr>op_key = ''op5'', op_type = utf8 [0x521B, 0x5EFA, 0x8BA2, 0x5355],
        op_name = utf8 [0x6C57, 0x7259, 0x7259], op_status = ''agree'',
        op_updatedAt = ''2017-10-03  19:23:12'', op_remark = ''-''\<rparr>]"

definition operation2 :: "operation_row list" where
  "operation2 =
     [\<lparr>op_key = ''op2'', op_type = utf8 [0x8D22, 0x52A1, 0x590D, 0x5BA1],
        op_name = utf8 [0x4ED8, 0x5C0F, 0x5C0F], op_status = ''reject'',
        op_updatedAt = ''2017-10-03  19:23:12'', op_remark = utf8 [0x4E0D, 0x901A, 0x8FC7, 0x539F,
        0x56E0]\<rparr>,
      \<lparr>op_key = ''op3'', op_type = utf8 [0x90E8, 0x95E8, 0x521D, 0x5BA1],
        op_name = utf8 [0x5468, 0x6BDB, 0x6BDB], op_status = ''agree'',
        op_updatedAt = ''2017-10-03  19:23:12'', op_remark = ''-''\<rparr>,
      \<lparr>op_key = ''op4'', op_type = utf8 [0x63D0, 0x4EA4, 0x8BA2, 0x5355],
        op_name = utf8 [0x6797, 0x4E1C, 0x4E1C], op_status = ''agree'',
        op_updatedAt = ''2017-10-03  19:23:12'', op_remark = utf8 [0x5F88, 0x68D2]\<rparr>]"

definition operation3 :: "operation_row list" where
  "operation3 =
     [\<lparr>op_key = ''op2'', op_type = utf8 [0x8D22, 0x52A1, 0x590D, 0x5BA1],
        op_name = utf8 [0x4ED8, 0x5C0F, 0x5C0F], op_status = ''reject'',
        op_updatedAt = ''2017-10-03  19:23:12'', op_remark = utf8 [0x4E0D, 0x901A, 0x8FC7, 0x539F,
        0x56E0]\<rparr>,
      \<lparr>op_key = ''op3'', op_type = utf8 [0x90E8, 0x95E8, 0x521D, 0x5BA1],
        op_name = utf8 [0x5468, 0x6BDB, 0x6BDB], op_status = ''agree'',
        op_updatedAt = ''2017-10-03  19:23:12'', op_remark = ''-''\<rparr>]"

text \<open>Both loaders answer every request with all rows as the first page of ten, and count ten rows.\<close>

definition one_page :: "'r list \<Rightarrow> params \<Rightarrow> 'r page" where
  "one_page rows q = \<lparr>pg_data = Some rows, pg_pageSize = Some 10, pg_pageNo = Some 1, pg_totalPage = Some 1,
     pg_totalCount = Some 10\<rparr>"

definition loadGoodsData :: "params \<Rightarrow> goods_row page" where
  "loadGoodsData = one_page goods_data"

definition loadScheduleData :: "params \<Rightarrow> schedule_row page" where
  "loadScheduleData = one_page schedule_data"

definition basic_statusFilter :: "string \<Rightarrow> string option" where
  "basic_statusFilter = map_of
     [(''processing'', utf8 [0x8FDB, 0x884C, 0x4E2D]), (''success'', utf8 [0x5B8C, 0x6210]),
      (''failed'', utf8 [0x5931, 0x8D25])]"

text \<open>The tables show all their rows after one answer, without a pager, and count ten.\<close>

lemma one_page_shown:
  fixes rows :: "'r list" and cell :: "'r \<Rightarrow> string \<Rightarrow> string" and cs :: "column list"
  assumes "rows \<noteq> []"
  defines "st \<equiv> snd (settle 1 (one_page rows) cell (mounted_table (default_props (Some cs)) None))"
  shows "localDataSource st = rows" "\<not> localLoading st" "in_flight st = []"
    "pn_total (pager_fields (localPagination st)) = Some 10"
    "pn_hideOnSinglePage (pager_fields (localPagination st))"
  using assms(1) unfolding st_def
  by (simp_all add: mounted_table_def created_def default_props_def init_table_def loadData_def loaded_def one_page_def
      table_step_def pager_fields_def no_pagination_def paged_def drop_nth_def watch_current_def Let_def)

lemma basic_profile_shown:
  "localDataSource (snd (settle 1 loadGoodsData cell (mounted_table (default_props (Some goodsColumns)) None))) = goods_data"
  "localDataSource (snd (settle 1 loadScheduleData cell' (mounted_table (default_props (Some scheduleColumns)) None))) =
     schedule_data"
proof -
  have "goods_data \<noteq> []" "schedule_data \<noteq> []" by (simp_all add: goods_data_def schedule_data_def)
  then show
    "localDataSource (snd (settle 1 loadGoodsData cell (mounted_table (default_props (Some goodsColumns)) None))) = goods_data"
    "localDataSource (snd (settle 1 loadScheduleData cell' (mounted_table (default_props (Some scheduleColumns)) None))) =
       schedule_data"
    unfolding loadGoodsData_def loadScheduleData_def by (simp_all only: one_page_shown(1) not_False_eq_True)
qed

lemma schedule_labelled: "list_all (\<lambda>r. basic_statusFilter (sc_status r) \<noteq> None) schedule_data"
  by (simp add: schedule_data_def basic_statusFilter_def)

text \<open>What a row of goods costs is its price times its number. (The amounts are texts with two decimals; in
  hundredths they are the digits without the point.)\<close>

definition cents :: "string \<Rightarrow> int option" where
  "cents s = parseInt (filter (\<lambda>c. c \<noteq> CHR ''.'') s)"

lemma amounts_right:
  "list_all (\<lambda>r. Option.bind (cents (gd_price r)) (\<lambda>p. map_option (\<lambda>n. p * n) (parseInt (gd_num r))) = cents (gd_amount r))
     goods_data"
proof -
  have "cents ''2.00'' = Some 200" "cents ''3.00'' = Some 300" "cents ''6.00'' = Some 600" "cents ''7.00'' = Some 700"
    "cents ''28.00'' = Some 2800" "cents ''8.50'' = Some 850" "cents ''25.50'' = Some 2550"
    "parseInt ''1'' = Some 1" "parseInt ''2'' = Some 2" "parseInt ''3'' = Some 3" "parseInt ''4'' = Some 4"
    by code_simp+
  then show ?thesis by (simp add: goods_data_def)
qed

section \<open>The advanced profile\<close>

record advanced_page =
  av_tabActiveKey :: string
  av_operationActiveTabKey :: string

definition new_advanced :: advanced_page where
  "new_advanced = \<lparr>av_tabActiveKey = ''detail'', av_operationActiveTabKey = ''1''\<rparr>"

definition operationTabList :: "(string \<times> string) list" where
  "operationTabList = [(''1'', utf8 [0x64CD, 0x4F5C, 0x65E5, 0x5FD7, 0x4E00]),
     (''2'', utf8 [0x64CD, 0x4F5C, 0x65E5, 0x5FD7, 0x4E8C]), (''3'', utf8 [0x64CD, 0x4F5C, 0x65E5, 0x5FD7, 0x4E09])]"

definition advanced_tabList :: "(string \<times> string) list" where
  "advanced_tabList = [(''detail'', utf8 [0x8BE6, 0x60C5]), (''rule'', utf8 [0x89C4, 0x5219])]"

definition advanced_handleTabChange :: "string \<Rightarrow> advanced_page \<Rightarrow> advanced_page" where
  "advanced_handleTabChange key p = p\<lparr>av_tabActiveKey := key\<rparr>"

definition operation_tabChange :: "string \<Rightarrow> advanced_page \<Rightarrow> advanced_page" where
  "operation_tabChange key p = p\<lparr>av_operationActiveTabKey := key\<rparr>"

text \<open>The tables the page shows: one for each key.\<close>

definition shown_operations :: "advanced_page \<Rightarrow> operation_row list list" where
  "shown_operations p =
     (if av_operationActiveTabKey p = ''1'' then [operation1] else []) @
     (if av_operationActiveTabKey p = ''2'' then [operation2] else []) @
     (if av_operationActiveTabKey p = ''3'' then [operation3] else [])"

definition advanced_statusFilter :: "string \<Rightarrow> string option" where
  "advanced_statusFilter = map_of [(''agree'', utf8 [0x6210, 0x529F]), (''reject'', utf8 [0x9A73, 0x56DE])]"

definition advanced_statusTypeFilter :: "string \<Rightarrow> string option" where
  "advanced_statusTypeFilter = map_of [(''agree'', ''success''), (''reject'', ''error'')]"

text \<open>Every tab shows exactly one table, whose rows all have a label and a colour.\<close>

lemma operations_shown:
  assumes "key \<in> set (map fst operationTabList)"
  shows "\<exists>ops. shown_operations (operation_tabChange key p) = [ops] \<and>
    list_all (\<lambda>r. advanced_statusFilter (op_status r) \<noteq> None \<and> advanced_statusTypeFilter (op_status r) \<noteq> None) ops"
proof -
  have "list_all (\<lambda>r. advanced_statusFilter (op_status r) \<noteq> None \<and> advanced_statusTypeFilter (op_status r) \<noteq> None) ops"
    if "ops \<in> {operation1, operation2, operation3}" for ops
    using that by (auto simp: operation1_def operation2_def operation3_def advanced_statusFilter_def
        advanced_statusTypeFilter_def)
  then show ?thesis
    using assms by (auto simp: operationTabList_def shown_operations_def operation_tabChange_def)
qed

text \<open>The other tabs change the key only: the page shows the same content for both.\<close>

lemma advanced_tabs_same: "shown_operations (advanced_handleTabChange key p) = shown_operations p"
  by (simp add: advanced_handleTabChange_def shown_operations_def)

section \<open>The account settings\<close>

text \<open>The menu: for each entry its key, the name of the route it leads to, and its message.\<close>

definition settings_menu :: "(string \<times> string \<times> string) list" where
  "settings_menu =
     [(''/account/settings/basic'', ''BasicSettings'', ''account.settings.menuMap.basic''),
      (''/account/settings/security'', ''SecuritySettings'', ''account.settings.menuMap.security''),
      (''/account/settings/custom'', ''CustomSettings'', ''account.settings.menuMap.custom''),
      (''/account/settings/binding'', ''BindingSettings'', ''account.settings.menuMap.binding''),
      (''/account/settings/notification'', ''NotificationSettings'', ''account.settings.menuMap.notification'')]"

record settings_page =
  st_openKeys :: "string list"
  st_selectedKeys :: "string list"

definition settings_onOpenChange :: "string list \<Rightarrow> settings_page \<Rightarrow> settings_page" where
  "settings_onOpenChange keys p = p\<lparr>st_openKeys := keys\<rparr>"

text \<open>The entry of the route that was matched last, on mounting and on every change of the route. (There is
  always a match: the page itself is one.)\<close>

definition updateMenu :: "string list \<Rightarrow> settings_page \<Rightarrow> settings_page" where
  "updateMenu matched p = p\<lparr>st_selectedKeys := [last matched]\<rparr>"

definition settings_routes :: "route list" where
  "settings_routes =
     concat (map (\<lambda>r. case r of Route i None \<Rightarrow> [] | Route i (Some rs) \<Rightarrow>
       if r_name i = Some ''settings'' then rs else [])
       (case route_account of Route i None \<Rightarrow> [] | Route i (Some rs) \<Rightarrow> rs))"

text \<open>The entries are exactly the routes below the page, with their paths, names and titles: whichever of
  them is shown, its entry is the selected one.\<close>

lemma settings_menu_routes:
  "map (\<lambda>r. case r of Route i rs \<Rightarrow> (r_path i, r_name i, Option.bind (r_meta i) m_title)) settings_routes =
     map (\<lambda>(key, name, title). (key, Some name, Some title)) settings_menu"
  by (simp add: settings_routes_def route_account_def settings_menu_def no_meta_def)

lemma settings_selected:
  "key \<in> fst ` set settings_menu \<Longrightarrow> st_selectedKeys (updateMenu (outer @ [key]) p) = [key]"
  by (simp add: updateMenu_def)

section \<open>The dialog for the avatar\<close>

text \<open>Saving asks the cropper for the picture and sends it; \<open>am_uploads\<close> counts the answers that are out.
  The dialog has no footer, so that its OK handler is never called.\<close>

record avatar_modal =
  am_visible :: bool
  am_id :: "nat option"
  am_confirmLoading :: bool
  am_img :: string
  am_previews :: string
  am_model :: bool
  am_uploads :: nat
  am_emitted :: "string option list"

definition new_avatar_modal :: avatar_modal where
  "new_avatar_modal = \<lparr>am_visible = False, am_id = None, am_confirmLoading = False, am_img = [],
     am_previews = [], am_model = False, am_uploads = 0, am_emitted = []\<rparr>"

definition avatar_edit :: "nat \<Rightarrow> avatar_modal \<Rightarrow> avatar_modal" where
  "avatar_edit i s = s\<lparr>am_visible := True, am_id := Some i\<rparr>"

definition avatar_close :: "avatar_modal \<Rightarrow> avatar_modal" where
  "avatar_close s = s\<lparr>am_id := None, am_visible := False\<rparr>"

text \<open>The file is not uploaded but read into the cropper.\<close>

definition file_read :: "string \<Rightarrow> avatar_modal \<Rightarrow> avatar_modal" where
  "file_read url s = s\<lparr>am_img := url\<rparr>"

definition realTime :: "string \<Rightarrow> avatar_modal \<Rightarrow> avatar_modal" where
  "realTime data s = s\<lparr>am_previews := data\<rparr>"

definition scale_step :: "int \<Rightarrow> int" where
  "scale_step num = (if num = 0 then 1 else num)"

text \<open>\<open>finish\<close> when the cropper has answered.\<close>

definition avatar_finish :: "string \<Rightarrow> avatar_modal \<Rightarrow> avatar_modal" where
  "avatar_finish type s =
     (let s = s\<lparr>am_model := True\<rparr> in if type = ''blob'' then s\<lparr>am_uploads := am_uploads s + 1\<rparr> else s)"

definition avatar_uploaded :: "string option \<Rightarrow> avatar_modal \<Rightarrow> avatar_modal" where
  "avatar_uploaded url s = s\<lparr>am_uploads := am_uploads s - 1, am_emitted := am_emitted s @ [url], am_visible := False\<rparr>"

text \<open>The page takes over what the dialog reports.\<close>

definition setavatar :: "string option \<Rightarrow> string option \<Rightarrow> string option" where
  "setavatar url img = url"

datatype avatar_event =
    AvatarEdit
  | AvatarCancel
  | AvatarFile string
  | AvatarRealTime string
  | AvatarSave
  | AvatarReply "string option option"

fun avatar_enabled :: "avatar_modal \<Rightarrow> avatar_event \<Rightarrow> bool" where
  "avatar_enabled s AvatarEdit = (\<not> am_visible s)"
| "avatar_enabled s (AvatarReply r) = (0 < am_uploads s)"
| "avatar_enabled s (AvatarFile url) = True"
| "avatar_enabled s e = am_visible s"

text \<open>A failed upload is not handled.\<close>

fun avatar_step :: "avatar_modal \<Rightarrow> avatar_event \<Rightarrow> avatar_modal" where
  "avatar_step s AvatarEdit = avatar_edit 1 s"
| "avatar_step s AvatarCancel = avatar_close s"
| "avatar_step s (AvatarFile url) = file_read url s"
| "avatar_step s (AvatarRealTime data) = realTime data s"
| "avatar_step s AvatarSave = avatar_finish ''blob'' s"
| "avatar_step s (AvatarReply r) =
     (case r of None \<Rightarrow> s\<lparr>am_uploads := am_uploads s - 1\<rparr> | Some url \<Rightarrow> avatar_uploaded url s)"

text \<open>Nothing shows that a picture is being saved: the button can be pressed again.\<close>

lemma avatar_never_busy: "\<not> am_confirmLoading (foldl avatar_step new_avatar_modal es)"
proof -
  have "am_confirmLoading (avatar_step s e) = am_confirmLoading s" for s e
    by (cases e) (simp_all add: avatar_edit_def avatar_close_def file_read_def realTime_def avatar_finish_def avatar_uploaded_def
        split: option.split)
  then have "am_confirmLoading (foldl avatar_step s es) = am_confirmLoading s" for s
    by (induction es arbitrary: s) simp_all
  then show ?thesis by (simp add: new_avatar_modal_def)
qed

text \<open>An upload that is answered late closes the dialog, even when it was opened anew in between.\<close>

lemma late_upload_closes:
  "let es = [AvatarEdit, AvatarSave, AvatarCancel, AvatarEdit, AvatarReply (Some url)] in
     enabled_run avatar_enabled avatar_step new_avatar_modal es \<and>
     \<not> am_visible (foldl avatar_step new_avatar_modal es) \<and> am_id (foldl avatar_step new_avatar_modal es) = Some 1"
  by (simp add: new_avatar_modal_def avatar_edit_def avatar_close_def avatar_finish_def avatar_uploaded_def Let_def)

text \<open>The list of security settings: title and description messages, value, action, and the kind of notice a
  click shows.\<close>

definition security_data :: "(string \<times> string \<times> string \<times> string \<times> string) list" where
  "security_data =
     [(''account.settings.security.password'', ''account.settings.security.password-description'', utf8 [0x5F3A],
        ''account.settings.security.modify'', ''info''),
      (''account.settings.security.phone'', ''account.settings.security.phone-description'', ''138****8293'',
        ''account.settings.security.modify'', ''success''),
      (''account.settings.security.question'', ''account.settings.security.question-description'', '''',
        ''account.settings.security.set'', ''error''),
      (''account.settings.security.email'', ''account.settings.security.email-description'', ''ant***sign.com'',
        ''account.settings.security.modify'', ''warning''),
      (''account.settings.security.mfa'', ''account.settings.security.mfa-description'', '''',
        ''account.settings.security.bind'', ''info'')]"

definition themeFilter :: "string \<Rightarrow> string option" where
  "themeFilter = map_of [(''dark'', utf8 [0x6697, 0x8272]), (''light'', utf8 [0x767D, 0x8272])]"

end
