(* ===== verification/Dashboard.thy ===== *)
theory Dashboard
  imports NumberText TextUtil Prelude
begin

text \<open>
  The analysis page (\<open>views/dashboard/Analysis.vue\<close>) with its charts and cards (\<open>components/Charts/\<close>,
  \<open>components/Trend/\<close>, \<open>components/NumberInfo/\<close>), the tag cloud (\<open>components/Charts/TagCloud.vue\<close>) and the
  card list (\<open>views/list/CardList.vue\<close>). What \<open>Math.random\<close> draws and the dates are arguments; the charts
  themselves are a library.
\<close>

section \<open>Draws\<close>

text \<open>A draw is a double from zero up to, but not including, one: at most the largest double below one.\<close>

definition is_draw :: "rat \<Rightarrow> bool" where
  "is_draw r \<longleftrightarrow> 0 \<le> r \<and> r \<le> 1 - 1 / 2 ^ 53"

definition floor_draw :: "nat \<Rightarrow> rat \<Rightarrow> int" where
  "floor_draw n r = \<lfloor>double (r * of_nat n)\<rfloor>"

definition ceil_draw :: "nat \<Rightarrow> rat \<Rightarrow> int" where
  "ceil_draw n r = \<lceil>double (r * of_nat n)\<rceil>"

text \<open>\<open>Math.round\<close>\<close>

definition round_draw :: "nat \<Rightarrow> rat \<Rightarrow> int" where
  "round_draw n r = \<lfloor>double (r * of_nat n) + 1 / 2\<rfloor>"

lemma scaled_draw:
  assumes "is_draw r"
  shows "0 \<le> double (r * of_nat n)" "double (r * of_nat n) \<le> double ((1 - 1 / 2 ^ 53) * of_nat n)"
proof -
  have r: "0 \<le> r" "r \<le> 1 - 1 / 2 ^ 53" using assms by (simp_all add: is_draw_def del: power_one_over)
  from r(1) show "0 \<le> double (r * of_nat n)" by (intro double_nonneg) simp
  from r show "double (r * of_nat n) \<le> double ((1 - 1 / 2 ^ 53) * of_nat n)"
    by (intro double_mono mult_right_mono) simp_all
qed

lemma largest_draws:
  "double ((1 - 1 / 2 ^ 53) * of_nat 1000) < 1000" "double ((1 - 1 / 2 ^ 53) * of_nat 100) < 100"
  "double ((1 - 1 / 2 ^ 53) * of_nat 10) < 10" "double ((1 - 1 / 2 ^ 53) * of_nat 4) < 4"
proof -
  have "double (9007199254740991 / 9007199254740992 * 1000) < 1000"
    "double (9007199254740991 / 9007199254740992 * 100) < 100"
    "double (9007199254740991 / 9007199254740992 * 10) < 10"
    "double (9007199254740991 / 9007199254740992 * 4) < 4"
    by code_simp+
  then show "double ((1 - 1 / 2 ^ 53) * of_nat 1000) < 1000" "double ((1 - 1 / 2 ^ 53) * of_nat 100) < 100"
    "double ((1 - 1 / 2 ^ 53) * of_nat 10) < 10" "double ((1 - 1 / 2 ^ 53) * of_nat 4) < 4"
    by simp_all
qed

lemma floor_draw_between:
  assumes "is_draw r" "double ((1 - 1 / 2 ^ 53) * of_nat n) < of_nat n"
  shows "0 \<le> floor_draw n r \<and> floor_draw n r < int n"
  using scaled_draw [OF assms(1), of n] assms(2) by (auto simp: floor_draw_def floor_less_iff)

lemma ceil_draw_between:
  assumes "is_draw r" "double ((1 - 1 / 2 ^ 53) * of_nat n) < of_nat n"
  shows "0 \<le> ceil_draw n r \<and> ceil_draw n r \<le> int n"
  using scaled_draw [OF assms(1), of n] assms(2) by (auto simp: ceil_draw_def ceiling_le_iff)

lemma round_draw_between:
  assumes "is_draw r" "double ((1 - 1 / 2 ^ 53) * of_nat n) < of_nat n"
  shows "0 \<le> round_draw n r \<and> round_draw n r \<le> int n"
proof -
  have "0 \<le> double (r * of_nat n) + 1 / 2" "double (r * of_nat n) + 1 / 2 < of_int (int n + 1)"
    using scaled_draw [OF assms(1), of n] assms(2) by simp_all
  then show ?thesis unfolding round_draw_def zero_le_floor by (metis floor_less_iff zless_add1_eq le_less)
qed

section \<open>The data of the analysis page\<close>

definition month :: "nat \<Rightarrow> string" where
  "month i = decimal (i + 1) @ utf8 [0x6708]"

text \<open>Both bar charts; the draw with the number \<open>i\<close> is the one for the month \<open>i\<close>.\<close>

definition barData :: "(nat \<Rightarrow> rat) \<Rightarrow> (string \<times> int) list" where
  "barData random = map (\<lambda>i. (month i, floor_draw 1000 (random i) + 200)) [0..<12]"

definition rankList :: "(string \<times> rat) list" where
  "rankList = map (\<lambda>i. (utf8 [0x767D, 0x9E6D, 0x5C9B] @ '' '' @ decimal (i + 1) @ '' '' @ utf8 [0x53F7, 0x5E97],
      double (double (123456 / 100) - of_nat i * 100))) [0..<7]"

definition searchUserData :: "(nat \<Rightarrow> string) \<Rightarrow> (nat \<Rightarrow> rat) \<Rightarrow> (string \<times> int) list" where
  "searchUserData date_in random = map (\<lambda>i. (date_in i, ceil_draw 10 (random i))) [0..<7]"

definition searchUserScale :: "int \<times> int" where
  "searchUserScale = (0, 10)"

record search_row =
  sr_index :: nat
  sr_keyword :: string
  sr_count :: int
  sr_range :: int
  sr_status :: int

text \<open>The remainder of a number that is not negative by two.\<close>

definition draw_status :: "rat \<Rightarrow> int" where
  "draw_status r = (let x = double (r * 10) in \<lfloor>x - 2 * of_int \<lfloor>x / 2\<rfloor>\<rfloor>)"

definition sample_row :: "nat \<Rightarrow> rat \<times> rat \<times> rat \<Rightarrow> search_row" where
  "sample_row i random = (case random of (c, g, s) \<Rightarrow>
     \<lparr>sr_index = i + 1, sr_keyword = utf8 [0x641C, 0x7D22, 0x5173, 0x952E, 0x8BCD] @ ''-'' @ decimal i,
      sr_count = floor_draw 1000 c, sr_range = floor_draw 100 g, sr_status = draw_status s\<rparr>)"

definition searchData :: "(nat \<Rightarrow> rat \<times> rat \<times> rat) \<Rightarrow> search_row list" where
  "searchData random = map (\<lambda>i. sample_row i (random i)) [0..<50]"

definition sourceData :: "(string \<times> rat) list" where
  "sourceData =
     [(utf8 [0x5BB6, 0x7528, 0x7535, 0x5668], double (322 / 10)), (utf8 [0x98DF, 0x7528, 0x9152, 0x6C34], 21),
      (utf8 [0x4E2A, 0x62A4, 0x5065, 0x5EB7], 17), (utf8 [0x670D, 0x9970, 0x7BB1, 0x5305], 13),
      (utf8 [0x6BCD, 0x5A74, 0x4EA7, 0x54C1], 9), (utf8 [0x5176, 0x4ED6], double (78 / 10))]"

text \<open>The flag of a row, and how the table sorts by the range.\<close>

definition row_flag :: "search_row \<Rightarrow> string" where
  "row_flag r = (if sr_status r = 0 then ''up'' else ''down'')"

definition range_sorter :: "search_row \<Rightarrow> search_row \<Rightarrow> int" where
  "range_sorter a b = sr_range a - sr_range b"

text \<open>Every bar, user count and row lies in the range it is meant for, whatever is drawn.\<close>

lemma bars_between:
  assumes "\<And>i. is_draw (random i)"
  shows "list_all (\<lambda>(x, y). 200 \<le> y \<and> y < 1200) (barData random)"
  using floor_draw_between [OF assms, of 1000] largest_draws by (simp add: barData_def list_all_iff)

lemma users_in_scale:
  assumes "\<And>i. is_draw (random i)"
  shows "list_all (\<lambda>(x, y). fst searchUserScale \<le> y \<and> y \<le> snd searchUserScale) (searchUserData date_in random)"
  using ceil_draw_between [OF assms, of 10] largest_draws
  by (simp add: searchUserData_def searchUserScale_def list_all_iff)

lemma draw_status_bit: "draw_status r \<in> {0, 1}"
proof -
  have bit: "k \<in> {0, 1}" if "0 \<le> k \<and> k < 2" for k :: int using that by auto
  define x where "x = double (r * 10)"
  have b: "of_int \<lfloor>x / 2\<rfloor> \<le> x / 2" "x / 2 < of_int \<lfloor>x / 2\<rfloor> + 1"
    using of_int_floor_le [of "x / 2"] floor_correct [of "x / 2"] by simp_all
  have "0 \<le> x - 2 * of_int \<lfloor>x / 2\<rfloor>" "x - 2 * of_int \<lfloor>x / 2\<rfloor> < 2" using b by linarith+
  then have "0 \<le> \<lfloor>x - 2 * of_int \<lfloor>x / 2\<rfloor>\<rfloor> \<and> \<lfloor>x - 2 * of_int \<lfloor>x / 2\<rfloor>\<rfloor> < 2"
    unfolding zero_le_floor floor_less_iff by simp
  then have "\<lfloor>x - 2 * of_int \<lfloor>x / 2\<rfloor>\<rfloor> \<in> {0, 1}"
    using bit by blast
  then show ?thesis unfolding draw_status_def x_def [symmetric] Let_def .
qed

lemma sample_row_between:
  assumes "case x of (c, g, s) \<Rightarrow> is_draw c \<and> is_draw g \<and> is_draw s"
  shows "let r = sample_row i x in 0 \<le> sr_count r \<and> sr_count r < 1000 \<and> 0 \<le> sr_range r \<and> sr_range r < 100 \<and>
    sr_status r \<in> {0, 1}"
  using assms floor_draw_between [of _ 1000] floor_draw_between [of _ 100] largest_draws draw_status_bit
  by (auto simp: sample_row_def Let_def split: prod.splits)

lemma search_rows_between:
  assumes "\<And>i. case random i of (c, g, s) \<Rightarrow> is_draw c \<and> is_draw g \<and> is_draw s"
  shows "list_all (\<lambda>r. 0 \<le> sr_count r \<and> sr_count r < 1000 \<and> 0 \<le> sr_range r \<and> sr_range r < 100 \<and>
    sr_status r \<in> {0, 1}) (searchData random)"
  using sample_row_between [OF assms] by (simp add: searchData_def list_all_iff Let_def)

text \<open>The keys of the rows are distinct, fifty rows, ten pages of five.\<close>

lemma search_keys: "map sr_index (searchData random) = [1..<51]"
proof -
  have "sr_index (sample_row i x) = Suc i" for i x by (cases x) (simp add: sample_row_def)
  then have "map sr_index (searchData random) = map Suc [0..<50]" by (simp add: searchData_def)
  then show ?thesis by (simp only: map_Suc_upt) simp
qed

text \<open>The shares of the pie are of a hundred, also as the machine adds them.\<close>

lemma shares_of_hundred: "float_sum (map snd sourceData) = 100"
proof -
  have "float_sum [double (322 / 10), 21, 17, 13, 9, double (78 / 10)] = 100" by code_simp
  then show ?thesis by (simp add: sourceData_def)
qed

section \<open>Lists and cards\<close>

text \<open>The rows of a ranking: whether the place is highlighted, its number, name and total.\<close>

definition rank_rows :: "(string \<times> rat) list \<Rightarrow> (bool \<times> nat \<times> string \<times> string) list" where
  "rank_rows xs = map (\<lambda>(i, name, total). (i < 3, i + 1, name, number_text (Finite total))) (enumerate 0 xs)"

text \<open>The totals of the page are the numbers that are meant, 1234.56, 1134.56 and so on, as the machine reads
  them, although they are computed with rounding; the first three places are highlighted.\<close>

lemma ranking_totals:
  "map snd rankList = map double [123456 / 100, 113456 / 100, 103456 / 100, 93456 / 100, 83456 / 100, 73456 / 100,
     63456 / 100]"
proof -
  have "map (\<lambda>h. double (double (123456 / 100) - h)) [0, 100, 200, 300, 400, 500, 600] =
    map double [123456 / 100, 113456 / 100, 103456 / 100, 93456 / 100, 83456 / 100, 73456 / 100, 63456 / 100]"
    by code_simp
  moreover have "[0..<7] = [0, 1, 2, 3, 4, 5, 6 :: nat]" by code_simp
  ultimately show ?thesis by (simp add: rankList_def)
qed

lemma ranking_places:
  "map (\<lambda>(active, place, _). (active, place)) (rank_rows rankList) =
     [(True, 1), (True, 2), (True, 3), (False, 4), (False, 5), (False, 6), (False, 7)]"
proof -
  have "[0..<7] = [0, 1, 2, 3, 4, 5, 6 :: nat]" by code_simp
  then show ?thesis by (simp add: rank_rows_def rankList_def)
qed

text \<open>The total of a card: a function is called, and shown itself when it has nothing to say. (\<open>source\<close> is
  its text.)\<close>

datatype card_total = TotalText string | TotalFunction "string option" string

fun shown_total :: "card_total \<Rightarrow> string" where
  "shown_total (TotalText t) = t"
| "shown_total (TotalFunction result source) = (if truthy result then the result else source)"

text \<open>The four cards of the page: title message and total.\<close>

definition analysis_cards :: "(string \<times> card_total) list" where
  "analysis_cards =
     [(''dashboard.analysis.total-sales'', TotalText (utf8 [0xFFE5] @ ''126,560'')),
      (''dashboard.analysis.visits'', TotalText (NumberFormat (Some ''8846''))),
      (''dashboard.analysis.payments'', TotalText (NumberFormat (Some ''6560''))),
      (''dashboard.analysis.operational-effect'', TotalText ''78%'')]"

lemma cards_totals: "map (shown_total \<circ> snd) analysis_cards = [utf8 [0xFFE5] @ ''126,560'', ''8,846'', ''6,560'', ''78%'']"
proof -
  have "NumberFormat (Some ''8846'') = ''8,846''" "NumberFormat (Some ''6560'') = ''6,560''" by code_simp+
  then show ?thesis by (simp add: analysis_cards_def)
qed

text \<open>The widths of a progress bar, and the icon of a number.\<close>

definition progress_styles :: "rat \<Rightarrow> rat \<Rightarrow> string \<times> string" where
  "progress_styles target percentage = (number_text (Finite target) @ ''%'', number_text (Finite percentage) @ ''%'')"

definition caret :: "string \<Rightarrow> string" where
  "caret status = ''caret-'' @ status"

text \<open>The days of the small charts.\<close>

definition mini_data :: "(nat \<Rightarrow> string) \<Rightarrow> (nat \<Rightarrow> rat) \<Rightarrow> (string \<times> int) list" where
  "mini_data date_in random = map (\<lambda>i. (date_in i, round_draw 10 (random i))) [0..<10]"

lemma mini_between:
  assumes "\<And>i. is_draw (random i)"
  shows "list_all (\<lambda>(x, y). 0 \<le> y \<and> y \<le> 10) (mini_data date_in random)"
  using round_draw_between [OF assms, of 10] largest_draws by (simp add: mini_data_def list_all_iff)

section \<open>The loading of the page\<close>

text \<open>The cards show that they are loading until a timer of one second, started on creation, has run out.\<close>

record analysis_page =
  an_loading :: bool
  an_timer :: bool

definition created_analysis :: analysis_page where
  "created_analysis = \<lparr>an_loading = True, an_timer = True\<rparr>"

definition analysis_timer :: "analysis_page \<Rightarrow> analysis_page" where
  "analysis_timer p = p\<lparr>an_loading := \<not> an_loading p, an_timer := False\<rparr>"

lemma analysis_loads_once: "\<not> an_loading (analysis_timer created_analysis) \<and> \<not> an_timer (analysis_timer created_analysis)"
  by (simp add: created_analysis_def analysis_timer_def)

section \<open>The tag cloud\<close>

text \<open>Half of the draws stay upright: of the four angles the upside-down one is replaced.\<close>

definition cloud_rotate :: "rat \<Rightarrow> int" where
  "cloud_rotate r =
     (let random = trunc (double (r * 4)) mod 4;
          random = (if random = 2 then 0 else random)
      in random * 90)"

lemma cloud_angles:
  assumes "is_draw r"
  shows "cloud_rotate r \<in> {0, 90, 270}"
proof -
  have "trunc (double (r * 4)) mod 4 \<in> {0, 1, 2, 3}" by auto
  then show ?thesis unfolding cloud_rotate_def Let_def by auto
qed

text \<open>The size of a word for its value between the smallest and the largest one.\<close>

definition cloud_fontSize :: "rat \<Rightarrow> rat \<Rightarrow> rat \<Rightarrow> jsnum" where
  "cloud_fontSize lo hi v =
     (if v \<noteq> 0 then
        (case js_divide (double (v - lo)) (double (hi - lo)) of
           Finite q \<Rightarrow> Finite (double (double (q * (32 - 8)) + 8))
         | n \<Rightarrow> n)
      else Finite 0)"

text \<open>Whole values get a size between 8 and 32, but for zero, which gets the size 0; and when all values are
  the same, the size of every word is not a number.\<close>

lemma cloud_sizes:
  fixes lo hi v :: int
  assumes "lo \<le> v" "v \<le> hi" "lo < hi" "v \<noteq> 0" "hi - lo < 2 ^ 53"
  shows "\<exists>q. cloud_fontSize (of_int lo) (of_int hi) (of_int v) = Finite q \<and> 8 \<le> q \<and> q \<le> 32"
proof -
  have d: "double (of_int v - of_int lo) = of_int (v - lo)" "double (of_int hi - of_int lo) = of_int (hi - lo)"
    using double_int [of "v - lo"] double_int [of "hi - lo"] assms by simp_all
  define p where "p = double (of_int (v - lo) / of_int (hi - lo))"
  have whole: "double 0 = 0" "double 1 = 1" "double 24 = 24" "double 8 = 8" "double 32 = 32"
    using double_int [of 0] double_int [of 1] double_int [of 24] double_int [of 8] double_int [of 32] by simp_all
  have f: "0 \<le> (of_int (v - lo) / of_int (hi - lo) :: rat)" "(of_int (v - lo) / of_int (hi - lo) :: rat) \<le> 1"
    using assms by (simp_all add: field_simps)
  have p: "0 \<le> p" "p \<le> 1"
    using double_nonneg [OF f(1)] double_mono [OF f] whole by (simp_all add: p_def)
  then have t: "0 \<le> double (p * 24)" "double (p * 24) \<le> 24"
    using double_nonneg [of "p * 24"] double_mono [of "p * 24" 24] whole by simp_all
  then have "8 \<le> double (double (p * 24) + 8)" "double (double (p * 24) + 8) \<le> 32"
    using double_mono [of 8 "double (p * 24) + 8"] double_mono [of "double (p * 24) + 8" 32] whole by simp_all
  moreover have "hi - lo \<noteq> 0" using assms(3) by simp
  ultimately show ?thesis
    using assms(4) d unfolding cloud_fontSize_def js_divide_def p_def by simp
qed

lemma single_value_no_size: "v \<noteq> 0 \<Longrightarrow> cloud_fontSize v v v = NotANumber"
  by (simp add: cloud_fontSize_def js_divide_def double_def)

text \<open>The component: the tags are laid out when the mask has loaded; every new list of tags starts another
  layout, and the one whose mask loads last is shown. \<open>layout\<close> is the transformation of the library.\<close>

record 't cloud =
  cl_rows :: "'t list"
  cl_masks :: "'t list list"

definition initTagCloud :: "'t list \<Rightarrow> 't cloud \<Rightarrow> 't cloud" where
  "initTagCloud dataSource s = s\<lparr>cl_masks := cl_masks s @ [dataSource]\<rparr>"

definition tags_given :: "'t list \<Rightarrow> 't cloud \<Rightarrow> 't cloud" where
  "tags_given tagList s = (if 0 < length tagList then initTagCloud tagList s else s)"

definition mounted_cloud :: "'t list \<Rightarrow> 't cloud" where
  "mounted_cloud tagList = tags_given tagList \<lparr>cl_rows = [], cl_masks = []\<rparr>"

definition mask_loaded :: "('t list \<Rightarrow> 't list) \<Rightarrow> nat \<Rightarrow> 't cloud \<Rightarrow> 't cloud" where
  "mask_loaded layout i s =
     (if i < length (cl_masks s)
      then s\<lparr>cl_rows := layout (cl_masks s ! i), cl_masks := take i (cl_masks s) @ drop (Suc i) (cl_masks s)\<rparr>
      else s)"

lemma cloud_emptied_keeps: "tags_given [] s = s"
  by (simp add: tags_given_def)

lemma cloud_late_mask_wins:
  "as \<noteq> [] \<Longrightarrow> bs \<noteq> [] \<Longrightarrow>
     cl_rows (mask_loaded f 0 (mask_loaded f 1 (tags_given bs (mounted_cloud as)))) = f as"
  by (simp add: mask_loaded_def tags_given_def mounted_cloud_def initTagCloud_def)

section \<open>The card list\<close>

record card_entry =
  ce_id :: "nat option"
  ce_title :: string
  ce_avatar :: string

definition card_dataSource :: "card_entry list" where
  "card_dataSource =
     \<lparr>ce_id = None, ce_title = [], ce_avatar = []\<rparr> #
     map (\<lambda>i. \<lparr>ce_id = Some i, ce_title = ''Alipay'',
       ce_avatar = ''https://gw.alipayobjects.com/zos/rmsportal/WdGqmHpayyMjiEhcKoVE.png''\<rparr>) [0..<11]"

definition card_tabList :: "(string \<times> string) list" where
  "card_tabList = [(''tab1'', utf8 [0x5FEB, 0x901F, 0x5F00, 0x59CB]), (''tab2'', utf8 [0x4EA7, 0x54C1, 0x7B80, 0x4ECB]),
     (''tab3'', utf8 [0x4EA7, 0x54C1, 0x6587, 0x6863])]"

text \<open>An entry without an id is the button for a new product.\<close>

definition is_new_button :: "card_entry \<Rightarrow> bool" where
  "is_new_button item \<longleftrightarrow> ce_id item = None"

lemma one_new_button:
  "filter is_new_button card_dataSource = [hd card_dataSource]" "length card_dataSource = 12"
  "distinct (map ce_id card_dataSource)"
proof -
  have "filter is_new_button (map (\<lambda>i. \<lparr>ce_id = Some i, ce_title = t, ce_avatar = a\<rparr>) is) = []" for t a "is"
    by (simp add: is_new_button_def filter_empty_conv)
  then show "filter is_new_button card_dataSource = [hd card_dataSource]"
    by (simp add: card_dataSource_def is_new_button_def del: upt_Suc)
  show "length card_dataSource = 12" by (simp add: card_dataSource_def)
  show "distinct (map ce_id card_dataSource)" by (simp add: card_dataSource_def distinct_map o_def del: upt_Suc)
qed

section \<open>The words of the demo service\<close>

definition tagCloudData :: "(string \<times> int) list" where
  "tagCloudData =
     [(''AntV'', 9), (''F2'', 8), (''G2'', 8), (''G6'', 8), (''DataSet'', 8),
      ((utf8 [0x58A8, 0x8005, 0x5B66, 0x9662]), 8), (''Analysis'', 6), (''Data Mining'', 6),
      (''Data Vis'', 6), (''Design'', 6), (''Grammar'', 6), (''Graphics'', 6), (''Graph'', 6),
      (''Hierarchy'', 6), (''Labeling'', 6), (''Layout'', 6), (''Quantitative'', 6), (''Relation'', 6),
      (''Statistics'', 6), ((utf8 [0x53EF, 0x89C6, 0x5316]), 6), ((utf8 [0x6570, 0x636E]), 6),
      ((utf8 [0x6570, 0x636E, 0x53EF, 0x89C6, 0x5316]), 6), (''Arc Diagram'', 4), (''Bar Chart'', 4),
      (''Canvas'', 4), (''Chart'', 4), (''DAG'', 4), (''DG'', 4), (''Facet'', 4), (''Geo'', 4),
      (''Line'', 4), (''MindMap'', 4), (''Pie'', 4), (''Pizza Chart'', 4), (''Punch Card'', 4),
      (''SVG'', 4), (''Sunburst'', 4), (''Tree'', 4), (''UML'', 4), (''Chart'', 3), (''View'', 3),
      (''Geom'', 3), (''Shape'', 3), (''Scale'', 3), (''Animate'', 3), (''Global'', 3), (''Slider'', 3),
      (''Connector'', 3), (''Transform'', 3), (''Util'', 3), (''DomUtil'', 3), (''MatrixUtil'', 3),
      (''PathUtil'', 3), (''G'', 3), (''2D'', 3), (''3D'', 3), (''Line'', 3), (''Area'', 3),
      (''Interval'', 3), (''Schema'', 3), (''Edge'', 3), (''Polygon'', 3), (''Heatmap'', 3),
      (''Render'', 3), (''Tooltip'', 3), (''Axis'', 3), (''Guide'', 3), (''Coord'', 3), (''Legend'', 3),
      (''Path'', 3), (''Helix'', 3), (''Theta'', 3), (''Rect'', 3), (''Polar'', 3), (''Dsv'', 3),
      (''Csv'', 3), (''Tsv'', 3), (''GeoJSON'', 3), (''TopoJSON'', 3), (''Filter'', 3), (''Map'', 3),
      (''Pick'', 3), (''Rename'', 3), (''Filter'', 3), (''Map'', 3), (''Pick'', 3), (''Rename'', 3),
      (''Reverse'', 3), (''sort'', 3), (''Subset'', 3), (''Partition'', 3), (''Imputation'', 3),
      (''Fold'', 3), (''Aggregate'', 3), (''Proportion'', 3), (''Histogram'', 3), (''Quantile'', 3),
      (''Treemap'', 3), (''Hexagon'', 3), (''Binning'', 3), (''kernel'', 3), (''Regression'', 3),
      (''Density'', 3), (''Sankey'', 3), (''Voronoi'', 3), (''Projection'', 3), (''Centroid'', 3),
      (''H5'', 3), (''Mobile'', 3), ((''K'' @ utf8 [0x7EBF, 0x56FE]), 3),
      ((utf8 [0x5173, 0x7CFB, 0x56FE]), 3), ((utf8 [0x70DB, 0x5F62, 0x56FE]), 3),
      ((utf8 [0x80A1, 0x7968, 0x56FE]), 3), ((utf8 [0x76F4, 0x65B9, 0x56FE]), 3),
      ((utf8 [0x91D1, 0x5B57, 0x5854, 0x56FE]), 3), ((utf8 [0x5206, 0x9762]), 3),
      ((utf8 [0x5357, 0x4E01, 0x683C, 0x5C14, 0x73AB, 0x7470, 0x56FE]), 3), ((utf8 [0x997C, 0x56FE]), 3),
      ((utf8 [0x7EBF, 0x56FE]), 3), ((utf8 [0x70B9, 0x56FE]), 3), ((utf8 [0x6563, 0x70B9, 0x56FE]), 3),
      ((utf8 [0x5B50, 0x5F39, 0x56FE]), 3), ((utf8 [0x67F1, 0x72B6, 0x56FE]), 3),
      ((utf8 [0x4EEA, 0x8868, 0x76D8]), 3), ((utf8 [0x6C14, 0x6CE1, 0x56FE]), 3),
      ((utf8 [0x6F0F, 0x6597, 0x56FE]), 3), ((utf8 [0x70ED, 0x529B, 0x56FE]), 3),
      ((utf8 [0x7389, 0x73A6, 0x56FE]), 3), ((utf8 [0x76F4, 0x65B9, 0x56FE]), 3),
      ((utf8 [0x77E9, 0x5F62, 0x6811, 0x56FE]), 3), ((utf8 [0x7BB1, 0x5F62, 0x56FE]), 3),
      ((utf8 [0x8272, 0x5757, 0x56FE]), 3), ((utf8 [0x87BA, 0x65CB, 0x56FE]), 3),
      ((utf8 [0x8BCD, 0x4E91]), 3), ((utf8 [0x8BCD, 0x4E91, 0x56FE]), 3),
      ((utf8 [0x96F7, 0x8FBE, 0x56FE]), 3), ((utf8 [0x9762, 0x79EF, 0x56FE]), 3),
      ((utf8 [0x9A6C, 0x8D5B, 0x514B, 0x56FE]), 3), ((utf8 [0x76D2, 0x987B, 0x56FE]), 3),
      ((utf8 [0x5750, 0x6807, 0x8F74]), 3), ('''', 3), (''Jacques Bertin'', 3), (''Leland Wilkinson'', 3),
      (''William Playfair'', 3), ((utf8 [0x5173, 0x8054]), 3), ((utf8 [0x5206, 0x5E03]), 3),
      ((utf8 [0x533A, 0x95F4]), 3), ((utf8 [0x5360, 0x6BD4]), 3), ((utf8 [0x5730, 0x56FE]), 3),
      ((utf8 [0x65F6, 0x95F4]), 3), ((utf8 [0x6BD4, 0x8F83]), 3), ((utf8 [0x6D41, 0x7A0B]), 3),
      ((utf8 [0x8D8B, 0x52BF]), 3), ((utf8 [0x4EA6, 0x53F6]), 2), ((utf8 [0x518D, 0x98DE]), 2),
      ((utf8 [0x5B8C, 0x767D]), 2), ((utf8 [0x5DF4, 0x601D]), 2), ((utf8 [0x5F20, 0x521D, 0x5C18]), 2),
      ((utf8 [0x5FA1, 0x672F]), 2), ((utf8 [0x6709, 0x7530]), 2), ((utf8 [0x6C89, 0x9C7C]), 2),
      ((utf8 [0x7389, 0x4F2F]), 2), ((utf8 [0x753B, 0x5EB7]), 2), ((utf8 [0x796F, 0x9038]), 2),
      ((utf8 [0x7EDD, 0x4E91]), 2), ((utf8 [0x7F57, 0x5BAA]), 2), ((utf8 [0x8427, 0x5E86]), 2),
      ((utf8 [0x8463, 0x73CA, 0x73CA]), 2), ((utf8 [0x9646, 0x6C89]), 2), ((utf8 [0x987E, 0x503E]), 2),
      (''Domo'', 2), (''GPL'', 2), (''PAI'', 2), (''SPSS'', 2), (''SYSTAT'', 2), (''Tableau'', 2),
      (''D3'', 2), (''Vega'', 2), ((utf8 [0x7EDF, 0x8BA1, 0x56FE, 0x8868]), 2)]"

text \<open>All words get a size between 8 and 32; one of them is empty, and some are listed twice.\<close>

lemma tagCloud_values: "list_all (\<lambda>v. 2 \<le> v \<and> v \<le> 9) (map snd tagCloudData)" "length tagCloudData = 179"
  by (simp_all add: tagCloudData_def)

lemma tagCloud_sizes:
  assumes "(name, v) \<in> set tagCloudData"
  shows "\<exists>q. cloud_fontSize 2 9 (of_int v) = Finite q \<and> 8 \<le> q \<and> q \<le> 32"
proof -
  have "v \<in> set (map snd tagCloudData)" using assms by force
  then have "2 \<le> v" "v \<le> 9" using tagCloud_values(1) by (auto simp: list_all_iff)
  then show ?thesis using cloud_sizes [of 2 v 9] by simp
qed

lemma tagCloud_repeats: "\<not> distinct (take 90 tagCloudData)" "('''', 3) \<in> set tagCloudData"
proof -
  have "tagCloudData ! 79 = (''Filter'', 3)" "tagCloudData ! 83 = (''Filter'', 3)"
    by (simp_all add: tagCloudData_def)
  then show "\<not> distinct (take 90 tagCloudData)"
    using nth_eq_iff_index_eq [of "take 90 tagCloudData" 79 83] tagCloud_values(2) by auto
  show "('''', 3) \<in> set tagCloudData" by (simp add: tagCloudData_def)
qed

end
