(* ===== verification/Theme.thy ===== *)
theory Theme
  imports Layout MonitorCells MockRoutes
begin

text \<open>
  How the frontend is built and coloured: the colour theme of \<open>components/SettingDrawer/themeColor.js\<close> and the
  build plugin of \<open>config/plugin.config.js\<close> that prepares the style sheets for it, the theme files of
  \<open>config/themePluginConfig.js\<close>, and the build of \<open>vue.config.js\<close> in its environments. The colour
  functions of the libraries, \<open>lighten\<close>, \<open>generate\<close> and \<open>toNum3\<close>, are parameters.
\<close>

section \<open>The colours of a theme\<close>

definition getAntdSerials ::
  "(string \<Rightarrow> rat \<Rightarrow> string) \<Rightarrow> (string \<Rightarrow> string list) \<Rightarrow> (string \<Rightarrow> nat list) \<Rightarrow> string \<Rightarrow> string list" where
  "getAntdSerials lighten generate toNum3 c =
     (let lightens = map (\<lambda>i. lighten c (double (of_nat i / 10))) [0..<9];
          colorPalettes = generate c;
          rgb = commas (map decimal (toNum3 (replace_first ''#'' [] c)))
      in lightens @ colorPalettes @ [rgb])"

text \<open>The build has the function once more.\<close>

definition plugin_getAntdSerials ::
  "(string \<Rightarrow> rat \<Rightarrow> string) \<Rightarrow> (string \<Rightarrow> string list) \<Rightarrow> (string \<Rightarrow> nat list) \<Rightarrow> string \<Rightarrow> string list" where
  "plugin_getAntdSerials lighten generate toNum3 c =
     (let lightens = map (\<lambda>i. lighten c (double (of_nat i / 10))) [0..<9];
          colorPalettes = generate c;
          rgb = commas (map decimal (toNum3 (replace_first ''#'' [] c)))
      in lightens @ colorPalettes @ [rgb])"

record change_options =
  newColors :: "string list"
  changeUrl :: "string \<Rightarrow> string"

text \<open>What the theme client is called with.\<close>

definition theme_changeColor ::
  "(string \<Rightarrow> rat \<Rightarrow> string) \<Rightarrow> (string \<Rightarrow> string list) \<Rightarrow> (string \<Rightarrow> nat list) \<Rightarrow> string \<Rightarrow> change_options" where
  "theme_changeColor lighten generate toNum3 newColor =
     \<lparr>newColors = getAntdSerials lighten generate toNum3 newColor, changeUrl = (\<lambda>cssUrl. ''/'' @ cssUrl)\<rparr>"

definition matchColors ::
  "(string \<Rightarrow> rat \<Rightarrow> string) \<Rightarrow> (string \<Rightarrow> string list) \<Rightarrow> (string \<Rightarrow> nat list) \<Rightarrow> string list" where
  "matchColors lighten generate toNum3 = plugin_getAntdSerials lighten generate toNum3 ''#1890ff''"

text \<open>The client replaces the colours the build has marked one to one: the two lists are as long as each
  other and hold at each place what the same function makes of the two colours, provided that the palettes
  of the library all have the same length. (They have ten colours.)\<close>

lemma colors_one_to_one:
  assumes "\<And>c. length (generate c) = k"
  shows "length (newColors (theme_changeColor lighten generate toNum3 c)) =
      length (matchColors lighten generate toNum3)"
    and "i < 9 \<Longrightarrow> newColors (theme_changeColor lighten generate toNum3 c) ! i = lighten c (double (of_nat i / 10)) \<and>
      matchColors lighten generate toNum3 ! i = lighten ''#1890ff'' (double (of_nat i / 10))"
    and "j < k \<Longrightarrow> newColors (theme_changeColor lighten generate toNum3 c) ! (9 + j) = generate c ! j \<and>
      matchColors lighten generate toNum3 ! (9 + j) = generate ''#1890ff'' ! j"
  using assms
  by (simp_all add: theme_changeColor_def matchColors_def getAntdSerials_def plugin_getAntdSerials_def nth_append
      del: upt_Suc)

text \<open>The default colour of the settings leaves the colours as the build has them.\<close>

lemma default_colors_unchanged:
  "JStr c = d_primaryColor defaultSettings \<Longrightarrow>
     newColors (theme_changeColor lighten generate toNum3 c) = matchColors lighten generate toNum3"
  by (simp add: theme_changeColor_def matchColors_def getAntdSerials_def plugin_getAntdSerials_def defaultSettings_def)

section \<open>Selectors\<close>

definition changeSelector :: "string \<Rightarrow> string" where
  "changeSelector selector =
     (if selector = ''.ant-calendar-today .ant-calendar-date''
      then '':not(.ant-calendar-selected-date):not(.ant-calendar-selected-day)'' @ selector
      else if selector = ''.ant-btn:focus,.ant-btn:hover''
      then ''.ant-btn:focus:not(.ant-btn-primary):not(.ant-btn-danger),.ant-btn:hov'' @
      ''er:not(.ant-btn-primary):not(.ant-btn-danger)''
      else if selector = ''.ant-btn.active,.ant-btn:active''
      then ''.ant-btn.active:not(.ant-btn-primary):not(.ant-btn-danger),.ant-btn:ac'' @
      ''tive:not(.ant-btn-primary):not(.ant-btn-danger)''
      else if selector = ''.ant-steps-item-process .ant-steps-item-icon > .ant-steps-icon'' \<or>
         selector = ''.ant-steps-item-process .ant-steps-item-icon>.ant-steps-icon''
      then '':not(.ant-steps-item-process)'' @ selector
      else if selector = ''.ant-steps-item-process .ant-steps-item-icon''
      then '':not(.ant-steps-item-custom)'' @ selector
      else if selector = (''.ant-menu-horizontal>.ant-menu-item-active,.ant-menu-horizontal>.ant-m'' @
      ''enu-item-open,.ant-menu-horizontal>.ant-menu-item-selected,.ant-menu-h'' @
      ''orizontal>.ant-menu-item:hover,.ant-menu-horizontal>.ant-menu-submenu-'' @
      ''active,.ant-menu-horizontal>.ant-menu-submenu-open,.ant-menu-horizonta'' @
      ''l>.ant-menu-submenu-selected,.ant-menu-horizontal>.ant-menu-submenu:ho'' @
      ''ver'') \<or>
         selector = (''.ant-menu-horizontal > .ant-menu-item-active,.ant-menu-horizontal > .a'' @
      ''nt-menu-item-open,.ant-menu-horizontal > .ant-menu-item-selected,.ant-'' @
      ''menu-horizontal > .ant-menu-item:hover,.ant-menu-horizontal > .ant-men'' @
      ''u-submenu-active,.ant-menu-horizontal > .ant-menu-submenu-open,.ant-me'' @
      ''nu-horizontal > .ant-menu-submenu-selected,.ant-menu-horizontal > .ant'' @
      ''-menu-submenu:hover'')
      then ''.ant-menu-horizontal > .ant-menu-item-active,.ant-menu-horizontal > .a'' @
      ''nt-menu-item-open,.ant-menu-horizontal > .ant-menu-item-selected,.ant-'' @
      ''menu-horizontal:not(.ant-menu-dark) > .ant-menu-item:hover,.ant-menu-h'' @
      ''orizontal > .ant-menu-submenu-active,.ant-menu-horizontal > .ant-menu-'' @
      ''submenu-open,.ant-menu-horizontal:not(.ant-menu-dark) > .ant-menu-subm'' @
      ''enu-selected,.ant-menu-horizontal:not(.ant-menu-dark) > .ant-menu-subm'' @
      ''enu:hover''
      else if selector = ''.ant-menu-horizontal > .ant-menu-item-selected > a'' \<or>
         selector = ''.ant-menu-horizontal>.ant-menu-item-selected>a''
      then ''.ant-menu-horizontal:not(ant-menu-light):not(.ant-menu-dark) > .ant-me'' @
      ''nu-item-selected > a''
      else if selector = ''.ant-menu-horizontal > .ant-menu-item > a:hover'' \<or>
         selector = ''.ant-menu-horizontal>.ant-menu-item>a:hover''
      then ''.ant-menu-horizontal:not(ant-menu-light):not(.ant-menu-dark) > .ant-me'' @
      ''nu-item > a:hover''
      else selector)"

definition changed_selectors :: "string list" where
  "changed_selectors =
     [''.ant-calendar-today .ant-calendar-date'',
      ''.ant-btn:focus,.ant-btn:hover'',
      ''.ant-btn.active,.ant-btn:active'',
      ''.ant-steps-item-process .ant-steps-item-icon > .ant-steps-icon'',
      ''.ant-steps-item-process .ant-steps-item-icon>.ant-steps-icon'',
      ''.ant-steps-item-process .ant-steps-item-icon'',
      ''.ant-menu-horizontal>.ant-menu-item-active,.ant-menu-horizontal>.ant-m'' @
      ''enu-item-open,.ant-menu-horizontal>.ant-menu-item-selected,.ant-menu-h'' @
      ''orizontal>.ant-menu-item:hover,.ant-menu-horizontal>.ant-menu-submenu-'' @
      ''active,.ant-menu-horizontal>.ant-menu-submenu-open,.ant-menu-horizonta'' @
      ''l>.ant-menu-submenu-selected,.ant-menu-horizontal>.ant-menu-submenu:ho'' @
      ''ver'',
      ''.ant-menu-horizontal > .ant-menu-item-active,.ant-menu-horizontal > .a'' @
      ''nt-menu-item-open,.ant-menu-horizontal > .ant-menu-item-selected,.ant-'' @
      ''menu-horizontal > .ant-menu-item:hover,.ant-menu-horizontal > .ant-men'' @
      ''u-submenu-active,.ant-menu-horizontal > .ant-menu-submenu-open,.ant-me'' @
      ''nu-horizontal > .ant-menu-submenu-selected,.ant-menu-horizontal > .ant'' @
      ''-menu-submenu:hover'',
      ''.ant-menu-horizontal > .ant-menu-item-selected > a'',
      ''.ant-menu-horizontal>.ant-menu-item-selected>a'',
      ''.ant-menu-horizontal > .ant-menu-item > a:hover'',
      ''.ant-menu-horizontal>.ant-menu-item>a:hover'']"

lemma other_selectors_kept: "selector \<notin> set changed_selectors \<Longrightarrow> changeSelector selector = selector"
  unfolding changeSelector_def changed_selectors_def by simp

text \<open>A selector that has been changed is not changed again: a style sheet that runs through the plugin
  twice stays as it is.\<close>

lemma changed_once: "list_all (\<lambda>s. changeSelector s \<notin> set changed_selectors) changed_selectors"
  by code_simp

lemma changeSelector_idem: "changeSelector (changeSelector s) = changeSelector s"
proof (cases "s \<in> set changed_selectors")
  case True
  then show ?thesis using changed_once by (auto simp: list_all_iff intro: other_selectors_kept)
qed (simp add: other_selectors_kept)

section \<open>The theme files\<close>

record theme_file =
  tf_key :: string
  tf_fileName :: string
  tf_theme :: "string option"
  tf_primary :: "string option"

definition theme_files :: "theme_file list" where
  "theme_files =
     [\<lparr>tf_key = ''dark'', tf_fileName = ''dark.css'', tf_theme = Some ''dark'', tf_primary = None\<rparr>,
      \<lparr>tf_key = ''#F5222D'', tf_fileName = ''#F5222D.css'', tf_theme = None, tf_primary = Some ''#F5222D''\<rparr>,
      \<lparr>tf_key = ''#FA541C'', tf_fileName = ''#FA541C.css'', tf_theme = None, tf_primary = Some ''#FA541C''\<rparr>,
      \<lparr>tf_key = ''#FAAD14'', tf_fileName = ''#FAAD14.css'', tf_theme = None, tf_primary = Some ''#FAAD14''\<rparr>,
      \<lparr>tf_key = ''#13C2C2'', tf_fileName = ''#13C2C2.css'', tf_theme = None, tf_primary = Some ''#13C2C2''\<rparr>,
      \<lparr>tf_key = ''#52C41A'', tf_fileName = ''#52C41A.css'', tf_theme = None, tf_primary = Some ''#52C41A''\<rparr>,
      \<lparr>tf_key = ''#2F54EB'', tf_fileName = ''#2F54EB.css'', tf_theme = None, tf_primary = Some ''#2F54EB''\<rparr>,
      \<lparr>tf_key = ''#722ED1'', tf_fileName = ''#722ED1.css'', tf_theme = None, tf_primary = Some ''#722ED1''\<rparr>,
      \<lparr>tf_key = ''#F5222D'', tf_fileName = ''dark-#F5222D.css'', tf_theme = Some ''dark'', tf_primary = Some ''#F5222D''\<rparr>,
      \<lparr>tf_key = ''#FA541C'', tf_fileName = ''dark-#FA541C.css'', tf_theme = Some ''dark'', tf_primary = Some ''#FA541C''\<rparr>,
      \<lparr>tf_key = ''#FAAD14'', tf_fileName = ''dark-#FAAD14.css'', tf_theme = Some ''dark'', tf_primary = Some ''#FAAD14''\<rparr>,
      \<lparr>tf_key = ''#13C2C2'', tf_fileName = ''dark-#13C2C2.css'', tf_theme = Some ''dark'', tf_primary = Some ''#13C2C2''\<rparr>,
      \<lparr>tf_key = ''#52C41A'', tf_fileName = ''dark-#52C41A.css'', tf_theme = Some ''dark'', tf_primary = Some ''#52C41A''\<rparr>,
      \<lparr>tf_key = ''#2F54EB'', tf_fileName = ''dark-#2F54EB.css'', tf_theme = Some ''dark'', tf_primary = Some ''#2F54EB''\<rparr>,
      \<lparr>tf_key = ''#722ED1'', tf_fileName = ''dark-#722ED1.css'', tf_theme = Some ''dark'', tf_primary = Some ''#722ED1''\<rparr>]"

text \<open>Every colour the settings offer, but for the default, has a file for the light and for the dark menu,
  under names that are all different; the default has the one for the dark menu.\<close>

lemma theme_files_names: "distinct (map tf_fileName theme_files)"
  by (simp add: theme_files_def)

lemma colors_have_files:
  "list_all (\<lambda>(name, c). c \<noteq> ''#1890FF'' \<longrightarrow>
     (\<forall>t \<in> {None, Some ''dark''}. \<exists>f \<in> set theme_files. tf_key f = c \<and> tf_theme f = t \<and> tf_primary f = Some c)) colorList"
  by (simp add: colorList_def theme_files_def)

lemma default_has_dark_file:
  "find (\<lambda>f. tf_primary f = None) theme_files =
     Some \<lparr>tf_key = ''dark'', tf_fileName = ''dark.css'', tf_theme = Some ''dark'', tf_primary = None\<rparr>"
  by (simp add: theme_files_def)

section \<open>The build\<close>

record cdn =
  cdn_externals :: "(string \<times> string) list"
  cdn_css :: "string list"
  cdn_js :: "string list"

definition assetsCDN :: cdn where
  "assetsCDN =
     \<lparr>cdn_externals = [(''vue'', ''Vue''), (''vue-router'', ''VueRouter''), (''vuex'', ''Vuex''), (''axios'', ''axios'')],
      cdn_css = [],
      cdn_js = [''//cdn.jsdelivr.net/npm/vue@2.6.14/dist/vue.min.js'',
        ''//cdn.jsdelivr.net/npm/vue-router@3.5.1/dist/vue-router.min.js'',
        ''//cdn.jsdelivr.net/npm/vuex@3.1.1/dist/vuex.min.js'',
        ''//cdn.jsdelivr.net/npm/axios@0.21.1/dist/axios.min.js'']\<rparr>"

datatype build_plugin =
    IgnoreMomentLocales
  | DefineVersions string string string
  | ThemeColorReplacer

text \<open>The fields of the build that depend on something; the rule for svg files, the port and the styles are
  constants. What git and the clock say are arguments; without git there is no version.\<close>

record vue_build =
  vb_plugins :: "build_plugin list"
  vb_externals :: "(string \<times> string) list"
  vb_html_cdn :: "cdn option"

definition getGitHash :: "string option \<Rightarrow> string" where
  "getGitHash version = (case version of None \<Rightarrow> ''unknown'' | Some v \<Rightarrow> v)"

definition isProd :: "env \<Rightarrow> bool" where
  "isProd e \<longleftrightarrow> NODE_ENV e = ''production''"

definition vueConfig :: "env \<Rightarrow> string \<Rightarrow> string option \<Rightarrow> string \<Rightarrow> vue_build" where
  "vueConfig e package_version git_version date =
     (let build = \<lparr>vb_plugins =
            [IgnoreMomentLocales,
             DefineVersions ([CHR 0x22] @ package_version @ [CHR 0x22]) (json_quote (getGitHash git_version))
               (json_quote date)],
          vb_externals = (if isProd e then cdn_externals assetsCDN else []),
          vb_html_cdn = (if isProd e then Some assetsCDN else None)\<rparr>
      in if VUE_APP_PREVIEW e = ''true'' then build\<lparr>vb_plugins := vb_plugins build @ [ThemeColorReplacer]\<rparr> else build)"

text \<open>Whatever the build leaves out, the page loads: an external library is loaded by a script of its name,
  in the order of the externals; a build that leaves nothing out loads no scripts.\<close>

definition script_package :: "string \<Rightarrow> string" where
  "script_package url = (split_on CHR ''@'' (drop (length ''//cdn.jsdelivr.net/npm/'') url)) ! 0"

lemma externals_loaded:
  "map fst (vb_externals (vueConfig e v g d)) =
     (case vb_html_cdn (vueConfig e v g d) of None \<Rightarrow> [] | Some cdn \<Rightarrow> map script_package (cdn_js cdn))"
proof -
  have "map script_package (cdn_js assetsCDN) = map fst (cdn_externals assetsCDN)" by code_simp
  then show ?thesis by (simp add: vueConfig_def Let_def)
qed

text \<open>The theme plugin and the demo service go together but for a development build without preview: what is
  built for production has neither, the preview has both.\<close>

lemma theme_plugin_built:
  "ThemeColorReplacer \<in> set (vb_plugins (vueConfig e v g d)) \<longleftrightarrow> VUE_APP_PREVIEW e = ''true''"
  by (simp add: vueConfig_def Let_def)

lemma theme_plugin_with_mock:
  "ThemeColorReplacer \<in> set (vb_plugins (vueConfig e v g d)) \<Longrightarrow> mock_loaded e"
  by (simp add: theme_plugin_built mock_loaded_def)

lemma three_builds:
  "map (\<lambda>e. (ThemeColorReplacer \<in> set (vb_plugins (vueConfig e v g d)), mock_loaded e,
        vb_html_cdn (vueConfig e v g d) \<noteq> None)) [env_production, env_development, env_preview] =
     [(False, False, True), (True, True, False), (True, True, True)]"
  by (simp add: theme_plugin_built mock_loaded_def env_production_def env_development_def env_preview_def
      vueConfig_def isProd_def Let_def)

end
