(* ===== verification/SmallParts.thy ===== *)
theory SmallParts
  imports Messages Widgets RegisterForm AppStore Machines
begin

text \<open>
  Small parts of the frontend: the document title (\<open>utils/domUtil.js\<close>, \<open>permission.js\<close>, \<open>App.vue\<close>), the
  search box (\<open>components/Search/GlobalSearch.jsx\<close>), the toolbar and the rows of filter forms
  (\<open>components/FooterToolbar\<close>, \<open>components/StandardFormRow\<close>), the right side of the header
  (\<open>components/GlobalHeader/RightContent.vue\<close>), the two editors (\<open>components/Editor\<close>), the page after a
  registration (\<open>views/user/RegisterResult.vue\<close>), the layout of the log-in pages (\<open>layouts/UserLayout.vue\<close>),
  the tabs of the account page (\<open>views/account/center/index.vue\<close>), the filter for child nodes
  (\<open>components/_util/util.js\<close>) and the loading screens of \<open>views/dashboard/TestWork.vue\<close>.
\<close>

section \<open>The document title\<close>

text \<open>In the browser of a chat application on a phone, the title is only taken over when a frame has been
  loaded; one is then added and removed after 9 ms. The patterns are searched anywhere in the text.\<close>

definition word_char :: "char \<Rightarrow> bool" where
  "word_char c \<longleftrightarrow>
     c \<in> set ''0123456789ABCDEFGHIJKLMNOPQRSTUVWXYZ_abcdefghijklmnopqrstuvwxyz''"

definition lower_char :: "char \<Rightarrow> char" where
  "lower_char c =
     (case map_of (zip ''ABCDEFGHIJKLMNOPQRSTUVWXYZ'' ''abcdefghijklmnopqrstuvwxyz'') c of None \<Rightarrow> c | Some d \<Rightarrow> d)"

definition in_messenger :: "string \<Rightarrow> bool" where
  "in_messenger ua = list_ex (\<lambda>i.
     (i = 0 \<or> \<not> word_char (ua ! (i - 1))) \<and> prefix ''MicroMessenger/'' (drop i ua) \<and>
     (case drop (i + 15) ua of [] \<Rightarrow> False | c # _ \<Rightarrow> c \<in> set ''.0123456789''))
     [0..<length ua]"

definition on_iphone :: "string \<Rightarrow> bool" where
  "on_iphone ua = list_ex (\<lambda>i. let s = map lower_char (drop i ua) in
     prefix ''iphone'' s \<or> prefix ''ipod'' s \<or> prefix ''ipad'' s) [0..<length ua]"

record doc =
  dc_title :: string
  dc_frames :: nat

definition setDocumentTitle :: "string \<Rightarrow> string \<Rightarrow> doc \<Rightarrow> doc" where
  "setDocumentTitle ua title d =
     (let d = d\<lparr>dc_title := title\<rparr> in
      if in_messenger ua \<and> on_iphone ua then d\<lparr>dc_frames := Suc (dc_frames d)\<rparr> else d)"

definition domTitle :: string where
  "domTitle = d_title defaultSettings"

text \<open>The guard writes the title of the page that is asked for, the root component that of the page that is
  shown, whenever the page or the language changes.\<close>

definition guard_title :: "string \<Rightarrow> i18n_state \<Rightarrow> string option \<Rightarrow> doc \<Rightarrow> doc" where
  "guard_title ua s title d =
     (case title of None \<Rightarrow> d | Some t \<Rightarrow> setDocumentTitle ua (i18nRender s t @ '' - '' @ domTitle) d)"

definition app_title :: "string \<Rightarrow> i18n_state \<Rightarrow> string option \<Rightarrow> doc \<Rightarrow> doc" where
  "app_title ua s title d =
     (if truthy title then setDocumentTitle ua (i18nRender s (the title) @ '' - '' @ domTitle) d else d)"

text \<open>On the page that is shown both write the same, so that the title is that of the page in the language in
  force; without a title, that of the page before stays.\<close>

lemma title_in_language:
  assumes "t \<noteq> []"
  shows "dc_title (app_title ua s (Some t) (guard_title ua s' (Some t) d)) = i18nRender s t @ '' - Ant Design Pro''"
  using assms by (simp add: app_title_def guard_title_def setDocumentTitle_def domTitle_def defaultSettings_def
      Let_def truthy_def)

lemma untitled_keeps: "app_title ua s None (guard_title ua s' None d) = d"
  by (simp add: app_title_def guard_title_def truthy_def)

lemma messenger_examples:
  "in_messenger ''Mozilla/5.0 (iPhone) MicroMessenger/6.3''" "on_iphone ''Mozilla/5.0 (iPhone) MicroMessenger/6.3''"
  "\<not> in_messenger ''xMicroMessenger/6''" "\<not> in_messenger ''MicroMessenger/''" "\<not> on_iphone ''Android''"
  by code_simp+

section \<open>The search box\<close>

record key_event =
  ke_ctrl :: bool
  ke_shift :: bool
  ke_alt :: bool
  ke_code :: nat

definition keyboardHandle :: "key_event \<Rightarrow> bool \<Rightarrow> bool" where
  "keyboardHandle e visible =
     (if ke_code e = 75 \<and> ke_ctrl e \<and> \<not> ke_shift e \<and> \<not> ke_alt e then \<not> visible else visible)"

text \<open>The document keeps the handler of every box that was ever mounted; a key is prevented from doing what it
  does as soon as there is one handler.\<close>

definition mount_search :: "bool list \<Rightarrow> bool list" where
  "mount_search boxes = boxes @ [False]"

definition key_pressed :: "key_event \<Rightarrow> bool list \<Rightarrow> bool \<times> bool list" where
  "key_pressed e boxes = (boxes \<noteq> [], map (keyboardHandle e) boxes)"

definition toggle_key :: "key_event \<Rightarrow> bool" where
  "toggle_key e \<longleftrightarrow> ke_code e = 75 \<and> ke_ctrl e \<and> \<not> ke_shift e \<and> \<not> ke_alt e"

lemma search_toggled:
  "foldl (\<lambda>v e. keyboardHandle e v) shown es = (shown = even (length (filter toggle_key es)))"
proof (induction es arbitrary: shown)
  case (Cons e es)
  have "keyboardHandle e shown = (shown = (\<not> toggle_key e))" by (simp add: keyboardHandle_def toggle_key_def)
  then show ?case by (simp add: Cons.IH) blast
qed simp

text \<open>Once a box was mounted no key does anything in the page any more, typing into a field included.\<close>

lemma every_key_prevented: "fst (key_pressed e (foldl (\<lambda>bs e. snd (key_pressed e bs)) (mount_search boxes) es))"
proof -
  have "length (foldl (\<lambda>bs e. snd (key_pressed e bs)) bs es) = length bs" for bs
    by (induction es arbitrary: bs) (simp_all add: key_pressed_def)
  then have "length (foldl (\<lambda>bs e. snd (key_pressed e bs)) (mount_search boxes) es) = length (mount_search boxes)" .
  also have "\<dots> > 0" by (simp add: mount_search_def)
  finally show ?thesis by (simp add: key_pressed_def)
qed

section \<open>Toolbar, rows and header\<close>

definition barWidth :: "bool \<Rightarrow> bool \<Rightarrow> nat option \<Rightarrow> string option" where
  "barWidth mobile collapsed siderWidth =
     (if mobile then None
      else Some (''calc(100% - '' @
        decimal (if collapsed then 80 else case siderWidth of None \<Rightarrow> 256 | Some w \<Rightarrow> if w = 0 then 256 else w) @ ''px)''))"

lemma bar_examples:
  "barWidth False True (Some 300) = Some ''calc(100% - 80px)''" "barWidth False False None = Some ''calc(100% - 256px)''"
  "barWidth False False (Some 0) = barWidth False False None" "barWidth True c w = None"
  by (simp_all add: barWidth_def decimal.simps) code_simp+

definition row_classes :: "string \<Rightarrow> bool \<Rightarrow> bool \<Rightarrow> bool \<Rightarrow> string list" where
  "row_classes prefixCls is_last is_block is_grid =
     [prefixCls] @
     (if is_last then [''antd-pro-components-standard-form-row-index-standardFormRowLast''] else []) @
     (if is_block then [''antd-pro-components-standard-form-row-index-standardFormRowBlock''] else []) @
     (if is_grid then [''antd-pro-components-standard-form-row-index-standardFormRowGrid''] else [])"

text \<open>The classes tell the three flags apart.\<close>

lemma row_classes_inj: "row_classes p a b c = row_classes p a' b' c' \<longleftrightarrow> (a, b, c) = (a', b', c')"
  by (simp add: row_classes_def)

definition wrpCls :: "bool \<Rightarrow> bool \<Rightarrow> string \<Rightarrow> string list" where
  "wrpCls is_mobile topMenu th =
     [''ant-pro-global-header-index-right'',
      ''ant-pro-global-header-index-'' @ (if is_mobile \<or> \<not> topMenu then ''light'' else th)]"

text \<open>The name in the header, none at first; the timer of one and a half seconds sets a constant.\<close>

definition right_content :: "string option" where
  "right_content = None"

definition right_content_timer :: "string option \<Rightarrow> string option" where
  "right_content_timer shown = Some ''Serati Ma''"

section \<open>Editors\<close>

text \<open>The value of a form, and what the editor shows; the value that is given on creation is not taken over.\<close>

record editor =
  ed_content :: "string option"
  ed_emitted :: "string list"

definition created_editor :: "string option \<Rightarrow> editor" where
  "created_editor initial = \<lparr>ed_content = None, ed_emitted = []\<rparr>"

definition onEditorChange :: "string \<Rightarrow> editor \<Rightarrow> editor" where
  "onEditorChange html e = e\<lparr>ed_content := Some html, ed_emitted := ed_emitted e @ [html]\<rparr>"

definition editor_watch :: "string option \<Rightarrow> editor \<Rightarrow> editor" where
  "editor_watch val e = e\<lparr>ed_content := val\<rparr>"

text \<open>In a form, what is written comes back as the value: editor and form agree from the first change on.\<close>

definition edited_in_form :: "string \<Rightarrow> editor \<Rightarrow> editor" where
  "edited_in_form html e = (let e = onEditorChange html e in editor_watch (Some (last (ed_emitted e))) e)"

lemma editor_agrees: "ed_content (edited_in_form html e) = Some (last (ed_emitted (edited_in_form html e)))"
  by (simp add: edited_in_form_def onEditorChange_def editor_watch_def Let_def)

lemma editor_drops_initial: "ed_content (created_editor (Some html)) = None"
  by (simp add: created_editor_def)

section \<open>After a registration\<close>

record result_page =
  rp_description :: string
  rp_form :: "(string \<times> string) list"

text \<open>The page takes what the registration page hands over with the navigation; loaded anew, it gets nothing.\<close>

definition created_result :: "(string \<times> string) list \<Rightarrow> result_page" where
  "created_result params =
     \<lparr>rp_description = utf8 [0x6FC0, 0x6D3B, 0x90AE, 0x4EF6, 0x5DF2, 0x53D1, 0x9001, 0x5230, 0x4F60, 0x7684, 0x90AE,
        0x7BB1, 0x4E2D, 0xFF0C, 0x90AE, 0x4EF6, 0x6709, 0x6548, 0x671F, 0x4E3A] @ ''24'' @
        utf8 [0x5C0F, 0x65F6, 0x3002, 0x8BF7, 0x53CA, 0x65F6, 0x767B, 0x5F55, 0x90AE, 0x7BB1, 0xFF0C, 0x70B9, 0x51FB,
        0x90AE, 0x4EF6, 0x4E2D, 0x7684, 0x94FE, 0x63A5, 0x6FC0, 0x6D3B, 0x5E10, 0x6237, 0x3002],
      rp_form = params\<rparr>"

definition result_email :: "result_page \<Rightarrow> string" where
  "result_email p =
     utf8 [0x4F60, 0x7684, 0x8D26, 0x6237, 0xFF1A] @ str_default (map_of (rp_form p) ''email'') ''xxx'' @ '' '' @
     utf8 [0x6CE8, 0x518C, 0x6210, 0x529F]"

definition goHomeHandle :: string where
  "goHomeHandle = ''login''"

text \<open>What is registered is shown, until the page is loaded anew; both buttons' targets are open to everybody.\<close>

lemma result_shows_email:
  assumes "map_of values ''email'' = Some e" "e \<noteq> []"
  shows "result_email (created_result values) =
      utf8 [0x4F60, 0x7684, 0x8D26, 0x6237, 0xFF1A] @ e @ '' '' @ utf8 [0x6CE8, 0x518C, 0x6210, 0x529F]"
    and "result_email (created_result []) =
      utf8 [0x4F60, 0x7684, 0x8D26, 0x6237, 0xFF1A] @ ''xxx'' @ '' '' @ utf8 [0x6CE8, 0x518C, 0x6210, 0x529F]"
  using assms by (simp_all add: result_email_def created_result_def str_default_def truthy_def)

section \<open>The layout of the log-in pages\<close>

definition user_layout_mounted :: "string list \<Rightarrow> string list" where
  "user_layout_mounted classes = (if ''userLayout'' \<in> set classes then classes else classes @ [''userLayout''])"

definition user_layout_beforeDestroy :: "string list \<Rightarrow> string list" where
  "user_layout_beforeDestroy classes = filter (\<lambda>c. c \<noteq> ''userLayout'') classes"

text \<open>The class is on the document exactly as long as the layout is there; the others are left alone.\<close>

lemma user_layout_class:
  "''userLayout'' \<in> set (user_layout_mounted classes)"
  "''userLayout'' \<notin> set classes \<Longrightarrow> user_layout_beforeDestroy (user_layout_mounted classes) = classes"
  by (auto simp: user_layout_mounted_def user_layout_beforeDestroy_def filter_id_conv)

section \<open>The tabs of the account page\<close>

definition center_tabs :: "string list" where
  "center_tabs = [''article'', ''app'', ''project'']"

definition center_noTitleKey :: string where
  "center_noTitleKey = ''app''"

definition center_handleTabChange :: "string \<Rightarrow> string \<Rightarrow> string" where
  "center_handleTabChange key noTitleKey = key"

text \<open>The page below the tabs: its component.\<close>

definition center_shown :: "string \<Rightarrow> string option" where
  "center_shown noTitleKey =
     (if noTitleKey = ''article'' then Some ''article-page''
      else if noTitleKey = ''app'' then Some ''app-page''
      else if noTitleKey = ''project'' then Some ''project-page''
      else None)"

lemma center_pages:
  "map center_shown center_tabs = [Some ''article-page'', Some ''app-page'', Some ''project-page'']"
  "center_noTitleKey \<in> set center_tabs"
  by (simp_all add: center_tabs_def center_shown_def center_noTitleKey_def)

section \<open>Child nodes\<close>

record vnode =
  vn_tag :: "string option"
  vn_text :: "code_units option"

definition filterEmpty :: "vnode list option \<Rightarrow> vnode list" where
  "filterEmpty nodes = filter (\<lambda>c. truthy (vn_tag c) \<or>
     (case vn_text c of None \<Rightarrow> False | Some t \<Rightarrow> t \<noteq> [] \<and> trim t \<noteq> []))
     (case nodes of None \<Rightarrow> [] | Some cs \<Rightarrow> cs)"

lemma trim_empty_iff: "trim t = [] \<longleftrightarrow> list_all is_blank t"
proof
  have all_end: "list_all P s \<longleftrightarrow> dropWhile P s = []" for P :: "16 word \<Rightarrow> bool" and s
    by (simp add: list_all_iff)
  assume "trim t = []"
  then have "list_all is_blank (dropWhile is_blank t)" by (simp add: trim_def list_all_iff)
  then have "dropWhile is_blank t = []"
    by (metis all_end dropWhile_idem)
  then show "list_all is_blank t" by (simp add: all_end)
next
  assume "list_all is_blank t"
  then have "dropWhile is_blank t = []" by (simp add: list_all_iff)
  then show "trim t = []" by (simp only: trim_def rev.simps dropWhile.simps)
qed

text \<open>What is dropped is exactly the text that is blank, comments among it; filtering again changes nothing.\<close>

lemma filterEmpty_drops_blanks:
  assumes "vn_tag c = None"
  shows "filterEmpty (Some [c]) = [] \<longleftrightarrow> (case vn_text c of None \<Rightarrow> True | Some t \<Rightarrow> list_all is_blank t)"
  using assms by (auto simp: filterEmpty_def truthy_def trim_empty_iff split: option.splits)

lemma filterEmpty_idem: "filterEmpty (Some (filterEmpty nodes)) = filterEmpty nodes"
  by (simp add: filterEmpty_def)

section \<open>Loading screens of the test page\<close>

text \<open>Both buttons show the screen and start a timer of five seconds that hides it; \<open>tl_timers\<close> are those that
  run.\<close>

record test_loading =
  tl_screen :: loading
  tl_timers :: nat

definition installed_loading :: loading where
  "installed_loading = newInstance empty_config"

definition handleOpenLoading :: "test_loading \<Rightarrow> test_loading" where
  "handleOpenLoading s =
     s\<lparr>tl_screen := show_loading installed_loading empty_config (tl_screen s), tl_timers := Suc (tl_timers s)\<rparr>"

definition handleOpenLoadingCustomTip :: "test_loading \<Rightarrow> test_loading" where
  "handleOpenLoadingCustomTip s =
     s\<lparr>tl_screen := show_loading installed_loading
         (empty_config\<lparr>cf_tip := Some (utf8 [0x81EA, 0x5B9A, 0x4E49, 0x63D0, 0x793A, 0x8BED])\<rparr>) (tl_screen s),
       tl_timers := Suc (tl_timers s)\<rparr>"

definition loading_timer :: "test_loading \<Rightarrow> test_loading" where
  "loading_timer s = s\<lparr>tl_screen := hide_loading installed_loading (tl_screen s), tl_timers := tl_timers s - 1\<rparr>"

datatype loading_event = OpenLoading | OpenLoadingTip | LoadingTimer

fun test_loading_enabled :: "test_loading \<Rightarrow> loading_event \<Rightarrow> bool" where
  "test_loading_enabled s LoadingTimer = (0 < tl_timers s)"
| "test_loading_enabled s _ = True"

fun test_loading_step :: "test_loading \<Rightarrow> loading_event \<Rightarrow> test_loading" where
  "test_loading_step s OpenLoading = handleOpenLoading s"
| "test_loading_step s OpenLoadingTip = handleOpenLoadingCustomTip s"
| "test_loading_step s LoadingTimer = loading_timer s"

definition test_loading_start :: test_loading where
  "test_loading_start = \<lparr>tl_screen = installed_loading, tl_timers = 0\<rparr>"

lemmas test_loading_defs = handleOpenLoading_def handleOpenLoadingCustomTip_def loading_timer_def

lemmas loading_defs = show_loading_def hide_loading_def update_loading_def merge_config_def installed_loading_def
  newInstance_def empty_config_def Let_def

interpretation test_screen: machine test_loading_enabled test_loading_step
  "\<lambda>s. ld_visible (tl_screen s) \<longrightarrow> 0 < tl_timers s"
proof unfold_locales
  show "ld_visible (tl_screen (test_loading_step s e)) \<longrightarrow> 0 < tl_timers (test_loading_step s e)"
    if "ld_visible (tl_screen s) \<longrightarrow> 0 < tl_timers s" for s e
    using that by (cases e) (simp_all add: test_loading_defs loading_defs)
qed

text \<open>The screen never stays: as long as it is shown, a timer runs that hides it. But the timers know nothing
  of each other, so that the first one also hides a screen that was opened just before.\<close>

lemma loading_screen_ends:
  assumes "enabled_run test_loading_enabled test_loading_step test_loading_start es"
  shows "ld_visible (tl_screen (foldl test_loading_step test_loading_start es)) \<Longrightarrow>
      test_loading_enabled (foldl test_loading_step test_loading_start es) LoadingTimer"
    and "\<not> ld_visible (tl_screen (test_loading_step (foldl test_loading_step test_loading_start es) LoadingTimer))"
  using test_screen.run_inv [OF _ assms]
  by (simp_all add: test_loading_start_def test_loading_defs loading_defs)

lemma first_timer_hides_second:
  "let s = foldl test_loading_step test_loading_start [OpenLoading, OpenLoadingTip] in
   ld_visible (tl_screen s) \<and> \<not> ld_visible (tl_screen (test_loading_step s LoadingTimer)) \<and>
   tl_timers (test_loading_step s LoadingTimer) = 1"
  by (simp add: test_loading_start_def test_loading_defs loading_defs)

end
