(* ===== verification/Browsing.thy ===== *)
theory Browsing
  imports Monitor Machines
begin

text \<open>
  Browsing a monitor page (\<open>views/monitor/server.vue\<close> and its three siblings, on \<open>components/Table\<close>): whole
  sequences of turning pages, changing the page size, and refreshes by the timer and by hand, with the answers
  of the controller and the requests that fail in any order in between; a second request may be made before
  the first is answered, and a later one may be answered first. What the user sees, and what is still asked
  for, is an abstract view; the table refines it.
\<close>

section \<open>The abstract view\<close>

text \<open>A request that is under way asks for a page of a size. One that was made by the pager brings its page
  size with it, the others take the size the table has when they are answered.\<close>

record ask =
  ak_page :: nat
  ak_size :: nat
  ak_sized :: bool

record 'r view =
  vw_page :: nat
  vw_size :: nat
  vw_total :: "nat option"
  vw_rows :: "'r list"
  vw_loading :: bool
  vw_asked :: "ask list"

text \<open>What happens: the pager is used, the page is refreshed as it is or from the start (with or without
  showing it as loading), the controller answers a request with all its rows, or a request fails.\<close>

datatype 'r page_event =
    Turn nat nat sorter
  | Again bool
  | FromStart bool
  | Answer nat "'r list"
  | Lost nat

text \<open>An answer shows the rows of the page it was asked for; if there are none, and the page is not the first,
  the page before is asked for, and the rows stay as they are meanwhile.\<close>

definition view_answer :: "nat \<Rightarrow> 'r list \<Rightarrow> 'r view \<Rightarrow> 'r view" where
  "view_answer i rows v =
     (let a = vw_asked v ! i; p = ak_page a;
          size = (if ak_sized a then ak_size a else vw_size v);
          rest = drop_nth i (vw_asked v);
          v = v\<lparr>vw_size := size, vw_total := Some (length rows)\<rparr>
      in if slice_of (ak_size a) p rows = [] \<and> 1 < p
         then v\<lparr>vw_page := p - 1, vw_loading := True,
                vw_asked := rest @ [\<lparr>ak_page = p - 1, ak_size = size, ak_sized = False\<rparr>]\<rparr>
         else v\<lparr>vw_page := p, vw_loading := False, vw_rows := slice_of (ak_size a) p rows, vw_asked := rest\<rparr>)"

fun view_step :: "'r view \<Rightarrow> 'r page_event \<Rightarrow> 'r view" where
  "view_step v (Turn p s so) =
     v\<lparr>vw_loading := True, vw_asked := vw_asked v @ [\<lparr>ak_page = p, ak_size = s, ak_sized = True\<rparr>]\<rparr>"
| "view_step v (Again l) =
     v\<lparr>vw_loading := l, vw_asked := vw_asked v @ [\<lparr>ak_page = vw_page v, ak_size = vw_size v, ak_sized = False\<rparr>]\<rparr>"
| "view_step v (FromStart l) =
     v\<lparr>vw_page := 1, vw_size := 10, vw_total := None, vw_loading := l,
       vw_asked := vw_asked v @ [\<lparr>ak_page = 1, ak_size = 10, ak_sized = False\<rparr>]\<rparr>"
| "view_step v (Answer i rows) = view_answer i rows v"
| "view_step v (Lost i) = v\<lparr>vw_asked := drop_nth i (vw_asked v)\<rparr>"

text \<open>A page that was just opened: the first ten rows are asked for.\<close>

definition opened_view :: "'r view" where
  "opened_view = \<lparr>vw_page = 1, vw_size = 10, vw_total = None, vw_rows = [], vw_loading = True,
     vw_asked = [\<lparr>ak_page = 1, ak_size = 10, ak_sized = False\<rparr>]\<rparr>"

section \<open>The table\<close>

fun visit_event :: "'r table_state \<Rightarrow> 'r page_event \<Rightarrow> 'r table_event" where
  "visit_event st (Turn p s so) =
     Change (no_pagination\<lparr>pn_current := Some (int p), pn_pageSize := Some (int s)\<rparr>) (\<lambda>k. None) so"
| "visit_event st (Again l) = Refresh False l"
| "visit_event st (FromStart l) = Refresh True l"
| "visit_event st (Answer i rows) = Reply i (page_loader rows (snd (in_flight st ! i)))"
| "visit_event st (Lost i) = Fail i"

definition visit_step ::
    "('r \<Rightarrow> string \<Rightarrow> string) \<Rightarrow> table_props \<times> 'r table_state \<Rightarrow> 'r page_event \<Rightarrow> table_props \<times> 'r table_state" where
  "visit_step cell t v = table_step cell t (visit_event (snd t) v)"

fun visit_ok :: "table_props \<times> 'r table_state \<Rightarrow> 'r page_event \<Rightarrow> bool" where
  "visit_ok t (Turn p s so) = (0 < p \<and> 0 < s)"
| "visit_ok t (Answer i rows) = (i < length (in_flight (snd t)))"
| "visit_ok t (Lost i) = (i < length (in_flight (snd t)))"
| "visit_ok t v = True"

text \<open>What is seen of a table, and what it has asked for.\<close>

definition asked_page :: "pagination option \<times> params \<Rightarrow> ask" where
  "asked_page = (\<lambda>(pg, q). \<lparr>ak_page = nat (the (num_of (q ''pageNo''))), ak_size = nat (the (num_of (q ''pageSize''))),
     ak_sized = (Option.bind pg pn_pageSize \<noteq> None)\<rparr>)"

definition seen :: "table_props \<times> 'r table_state \<Rightarrow> 'r view" where
  "seen t = (let st = snd t; pn = pager_fields (localPagination st) in
     \<lparr>vw_page = nat (the (pn_current pn)), vw_size = nat (the (pn_pageSize pn)),
      vw_total = map_option nat (pn_total pn), vw_rows = localDataSource st, vw_loading = localLoading st,
      vw_asked = map asked_page (in_flight st)\<rparr>)"

section \<open>The invariant\<close>

definition page_request :: "pagination option \<times> params \<Rightarrow> bool" where
  "page_request = (\<lambda>(pg, q). \<exists>p s. 0 < p \<and> 0 < s \<and> num_of (q ''pageNo'') = Some (int p) \<and>
     num_of (q ''pageSize'') = Some (int s) \<and> Option.bind pg pn_pageSize \<in> {None, Some (int s)})"

definition positive_pager :: "pagination \<Rightarrow> bool" where
  "positive_pager pn \<longleftrightarrow> (\<exists>p s. 0 < p \<and> 0 < s \<and> pn_current pn = Some (int p) \<and> pn_pageSize pn = Some (int s))"

definition browsed :: "column list option \<Rightarrow> table_props \<times> 'r table_state \<Rightarrow> bool" where
  "browsed columns t \<longleftrightarrow> fst t = default_props columns \<and>
     (\<exists>pn. localPagination (snd t) = Pager pn \<and> positive_pager pn) \<and>
     filters (snd t) = (\<lambda>k. None) \<and> list_all page_request (in_flight (snd t))"

lemma seen_watch [simp]: "seen (P, watch_current P' st) = seen (P, st)"
  by (simp add: seen_def)

lemma browsed_watch [simp]: "browsed columns (P, watch_current P' st) = browsed columns (P, st)"
  by (simp add: browsed_def)

lemma default_shown: "js_truthy (t_showPagination (default_props columns))"
  by (simp add: default_props_def)

text \<open>A request of the table's own, for the page its pager has.\<close>

lemma own_request:
  fixes p s :: nat
  assumes "pn_current pn = Some (int p)" "pn_pageSize pn = Some (int s)" "0 < p" "0 < s"
  shows "page_request (None, request_params (default_props columns) None (\<lambda>k. None) so (Pager pn))"
    "asked_page (None, request_params (default_props columns) None (\<lambda>k. None) so (Pager pn)) =
       \<lparr>ak_page = p, ak_size = s, ak_sized = False\<rparr>"
  using assms
  by (simp_all add: page_request_def asked_page_def request_params_def num_of_def map_add_def pager_fields_def
      num_or_def num_truthy_def default_shown Let_def)

text \<open>A request the pager makes.\<close>

lemma pager_request:
  fixes p s :: nat
  assumes "0 < p" "0 < s"
  defines "pg \<equiv> Some (no_pagination\<lparr>pn_current := Some (int p), pn_pageSize := Some (int s)\<rparr>)"
  shows "page_request (pg, request_params P pg (\<lambda>k. None) so lp)"
    "asked_page (pg, request_params P pg (\<lambda>k. None) so lp) = \<lparr>ak_page = p, ak_size = s, ak_sized = True\<rparr>"
  using assms(1,2)
  by (simp_all add: pg_def page_request_def asked_page_def request_params_def num_of_def map_add_def
      num_or_def num_truthy_def Let_def)

lemma drop_nth_all: "list_all P xs \<Longrightarrow> list_all P (drop_nth i xs)"
  by (auto simp: drop_nth_def list_all_iff dest: in_set_takeD in_set_dropD)

lemma drop_nth_map: "map f (drop_nth i xs) = drop_nth i (map f xs)"
  by (simp add: drop_nth_def take_map drop_map)

section \<open>Refinement\<close>

lemma answer_refines:
  assumes "browsed columns (P, st)" "i < length (in_flight st)"
  shows "browsed columns (visit_step cell (P, st) (Answer i rows)) \<and>
    seen (visit_step cell (P, st) (Answer i rows)) = view_answer i rows (seen (P, st))"
proof -
  obtain pg q where r: "in_flight st ! i = (pg, q)" by fastforce
  obtain pn where inv: "P = default_props columns" "localPagination st = Pager pn" "positive_pager pn"
    "filters st = (\<lambda>k. None)" "list_all page_request (in_flight st)"
    using assms(1) by (auto simp: browsed_def)
  obtain p0 s0 where pn: "0 < p0" "0 < s0" "pn_current pn = Some (int p0)" "pn_pageSize pn = Some (int s0)"
    using inv(3) by (auto simp: positive_pager_def)
  from inv(5) assms(2) r have "page_request (pg, q)" by (metis list_all_length)
  then obtain p s where q: "0 < p" "0 < s" "num_of (q ''pageNo'') = Some (int p)" "num_of (q ''pageSize'') = Some (int s)"
    "Option.bind pg pn_pageSize \<in> {None, Some (int s)}" by (auto simp: page_request_def)
  define size where "size = (if Option.bind pg pn_pageSize = None then s0 else s)"
  have size: "num_or (Option.bind pg pn_pageSize) (Some (int s0)) = Some (int size)" "0 < size"
    using q(2,5) pn(2) by (auto simp: size_def num_or_def num_truthy_def)
  have asked: "map asked_page (in_flight st) ! i =
      \<lparr>ak_page = p, ak_size = s, ak_sized = (Option.bind pg pn_pageSize \<noteq> None)\<rparr>"
    using assms(2) r q(3,4) by (simp add: asked_page_def)
  have reply: "pg_pageNo (page_loader rows q) = Some (int p)" "pg_totalCount (page_loader rows q) = Some (int (length rows))"
    "pg_data (page_loader rows q) = Some (slice_of s p rows)"
    using monitor.serves [of q p s rows] q by simp_all
  let ?lp = "pn\<lparr>pn_current := Some (int p), pn_total := Some (int (length rows)),
      pn_showSizeChanger := Some (t_showSizeChanger P), pn_pageSize := Some (int size)\<rparr>"
  have rest: "list_all page_request (drop_nth i (in_flight st))" by (rule drop_nth_all [OF inv(5)])
  show ?thesis
  proof (cases "slice_of s p rows = [] \<and> 1 < p")
    case True
    let ?pn = "?lp\<lparr>pn_current := Some (int (p - 1))\<rparr>"
    have less: "num_less (Some 1) (Some (int p))" "int p - 1 = int (p - 1)" "0 < p - 1" using True by auto
    from own_request [of ?pn "p - 1" size columns "sorter st"] size(2) less(3)
    have own: "page_request (None, request_params P None (\<lambda>k. None) (sorter st) (Pager ?pn))"
      "asked_page (None, request_params P None (\<lambda>k. None) (sorter st) (Pager ?pn)) =
         \<lparr>ak_page = p - 1, ak_size = size, ak_sized = False\<rparr>"
      by (simp_all add: inv(1))
    have step: "visit_step cell (P, st) (Answer i rows) =
        (P, watch_current P (st\<lparr>localPagination := Pager ?pn, localLoading := True,
           in_flight := drop_nth i (in_flight st) @ [(None, request_params P None (\<lambda>k. None) (sorter st) (Pager ?pn))]\<rparr>))"
      using assms(2) r reply True less(1,2) inv(2,4) pn(4) size(1) default_shown [of columns]
      by (simp add: visit_step_def table_step_def loaded_def loadData_def pager_fields_def inv(1) Let_def)
    have "positive_pager ?pn"
      unfolding positive_pager_def using less(3) size(2) by (intro exI [of _ "p - 1"] exI [of _ size]) simp
    moreover have "nat (int p - 1) = p - Suc 0" by simp
    ultimately show ?thesis
      unfolding step using inv(1,2,4) rest own asked True size_def
      by (simp add: browsed_def seen_def view_answer_def drop_nth_map pager_fields_def pn(4) Let_def)
  next
    case False
    define h where "h = (paged P \<and> num_le (Some (int (length rows))) (num_op (*) (Some (int p)) (Some (int size))))"
    let ?pn = "if h then ?lp\<lparr>pn_hideOnSinglePage := True\<rparr> else ?lp"
    have "\<not> (slice_of s p rows = [] \<and> num_less (Some 1) (Some (int p)))"
      using False by auto
    then have step: "visit_step cell (P, st) (Answer i rows) =
        (P, watch_current P (st\<lparr>in_flight := drop_nth i (in_flight st), localPagination := Pager ?pn,
           localDataSource := slice_of s p rows, localLoading := False\<rparr>))"
      using assms(2) r reply inv(2) pn(4) size(1) default_shown [of columns]
      by (auto simp: visit_step_def table_step_def loaded_def pager_fields_def inv(1) h_def Let_def)
    have "positive_pager ?pn" using q(1) size(2) by (auto simp: positive_pager_def)
    moreover have fields: "pn_current ?pn = Some (int p)" "pn_pageSize ?pn = Some (int size)"
      "pn_total ?pn = Some (int (length rows))" by simp_all
    ultimately show ?thesis
      unfolding step using inv(1,2,4) rest asked False size_def
      by (simp add: browsed_def seen_def view_answer_def drop_nth_map pager_fields_def pn(4) Let_def)
  qed
qed

lemma visit_refines:
  assumes "browsed columns t" "visit_ok t v"
  shows "browsed columns (visit_step cell t v) \<and> seen (visit_step cell t v) = view_step (seen t) v"
proof -
  obtain P st where t: "t = (P, st)" by fastforce
  obtain pn where inv: "P = default_props columns" "localPagination st = Pager pn" "positive_pager pn"
    "filters st = (\<lambda>k. None)" "list_all page_request (in_flight st)"
    using assms(1) t by (auto simp: browsed_def)
  obtain p s where pn: "0 < p" "0 < s" "pn_current pn = Some (int p)" "pn_pageSize pn = Some (int s)"
    using inv(3) by (auto simp: positive_pager_def)
  show ?thesis
  proof (cases v)
    case (Turn p' s' so)
    then show ?thesis
      using assms(2) inv pager_request [of p' s' P so "localPagination st"]
      by (simp add: t visit_step_def table_step_def loadData_def browsed_def seen_def Let_def)
  next
    case (Again l)
    then show ?thesis
      using inv own_request [OF pn(3,4,1,2), of columns "sorter st"] pn
      by (simp add: t visit_step_def table_step_def refresh_def loadData_def browsed_def seen_def pager_fields_def Let_def)
  next
    case (FromStart l)
    let ?pn = "no_pagination\<lparr>pn_current := Some 1, pn_pageSize := Some 10\<rparr>"
    have "positive_pager ?pn" by (auto simp: positive_pager_def intro: exI [of _ 1] exI [of _ 10])
    moreover have "t_pageSize (default_props columns) = 10" by (simp add: default_props_def)
    ultimately show ?thesis
      using FromStart inv own_request [of ?pn 1 10 columns "sorter st"]
      by (simp add: t visit_step_def table_step_def refresh_def loadData_def browsed_def seen_def pager_fields_def
          no_pagination_def Let_def)
  next
    case (Answer i rows)
    then show ?thesis using answer_refines [of columns P st i cell rows] assms t by simp
  next
    case (Lost i)
    then show ?thesis
      using inv by (simp add: t visit_step_def table_step_def browsed_def seen_def drop_nth_all drop_nth_map Let_def)
  qed
qed

interpretation browsing: refinement visit_ok "visit_step cell" "browsed columns" seen view_step
  by unfold_locales (simp_all add: visit_refines)

lemma opened_browsed: "browsed (Some columns) (monitor_table columns) \<and> seen (monitor_table columns) = opened_view"
proof -
  let ?P = "default_props (Some columns)"
  let ?pn = "no_pagination\<lparr>pn_current := Some 1, pn_pageSize := Some 10, pn_showSizeChanger := Some True\<rparr>"
  have P: "t_pageURI ?P = False" "t_pageNum ?P = 1" "t_pageSize ?P = 10" "t_showSizeChanger ?P = True"
    "t_pagination ?P = None" by (simp_all add: default_props_def)
  have "positive_pager ?pn" by (auto simp: positive_pager_def intro: exI [of _ 1] exI [of _ 10])
  then show ?thesis
    using own_request [of ?pn 1 10 "Some columns" "\<lparr>so_field = None, so_order = None\<rparr>"]
    by (simp add: monitor_table_def mounted_table_def created_def init_table_def loadData_def P browsed_def seen_def
        opened_view_def pager_fields_def num_or_def num_truthy_def no_pagination_def Let_def)
qed

text \<open>Which events are possible can be read off the view.\<close>

fun view_ok :: "'r view \<Rightarrow> 'r page_event \<Rightarrow> bool" where
  "view_ok v (Turn p s so) = (0 < p \<and> 0 < s)"
| "view_ok v (Answer i rows) = (i < length (vw_asked v))"
| "view_ok v (Lost i) = (i < length (vw_asked v))"
| "view_ok v _ = True"

lemma view_ok_seen: "view_ok (seen t) v = visit_ok t v"
  by (cases v) (simp_all add: seen_def Let_def)

lemma enabled_seen:
  "browsed columns t \<Longrightarrow> enabled_run visit_ok (visit_step cell) t vs = enabled_run view_ok view_step (seen t) vs"
proof (induction vs arbitrary: t)
  case (Cons v vs)
  show ?case
  proof (cases "visit_ok t v")
    case True
    with visit_refines [OF Cons.prems True, of cell] Cons.IH [of "visit_step cell t v"] show ?thesis
      by (simp add: view_ok_seen)
  qed (simp add: view_ok_seen)
qed simp

lemma enabled_view:
  "enabled_run visit_ok (visit_step cell) (monitor_table columns) vs = enabled_run view_ok view_step opened_view vs"
  using enabled_seen [OF conjunct1 [OF opened_browsed]] by (simp add: opened_browsed)

text \<open>C8: a monitor page refines an abstract view: the page number, the page size, the number of rows in all,
  the rows shown, whether it is shown as loading, and the list of requests under way, each for a page of a size.
  This is so from the moment it is opened and after any sequence of turned pages, changed page sizes, refreshes
  by hand or by the timer, answers and failures, also when requests overlap and are answered in another order
  than they were made. Turning a page or refreshing adds a request and leaves the rows; an answer shows the rows
  of the page its own request asked for, cut out of what the controller reports with it, or, when that page has
  none and is not the first, asks for the page before and keeps the rows; a lost answer only takes its request
  away, so the page stays as it is, loading or not.\<close>

theorem monitor_browsing:
  assumes "enabled_run visit_ok (visit_step cell) (monitor_table columns) vs"
  shows "seen (foldl (visit_step cell) (monitor_table columns) vs) = foldl view_step opened_view vs"
  using browsing.run_refines [OF conjunct1 [OF opened_browsed] assms] by (simp add: opened_browsed)

theorem monitor_browsing_witness:
  "seen (foldl (visit_step (\<lambda>_ _. [])) (monitor_table [])
     [Answer 0 ''abcdef'', Turn 3 2 \<lparr>so_field = None, so_order = None\<rparr>, Again False, Answer 1 ''xyz'', Answer 0 ''abc'']) =
   \<lparr>vw_page = 2, vw_size = 2, vw_total = Some 3, vw_rows = ''xyz'', vw_loading = True,
    vw_asked = [\<lparr>ak_page = 2, ak_size = 2, ak_sized = False\<rparr>]\<rparr>"
proof -
  let ?vs = "[Answer 0 ''abcdef'', Turn 3 2 \<lparr>so_field = None, so_order = None\<rparr>, Again False, Answer 1 ''xyz'',
    Answer 0 ''abc'']"
  have view: "foldl view_step opened_view ?vs = \<lparr>vw_page = 2, vw_size = 2, vw_total = Some 3, vw_rows = ''xyz'',
      vw_loading = True, vw_asked = [\<lparr>ak_page = 2, ak_size = 2, ak_sized = False\<rparr>]\<rparr>"
    by (simp add: opened_view_def view_answer_def drop_nth_def slice_of_def Let_def)
  have "enabled_run view_ok view_step opened_view ?vs"
    by (simp add: opened_view_def view_answer_def drop_nth_def slice_of_def Let_def)
  then have "enabled_run visit_ok (visit_step (\<lambda>_ _. [])) (monitor_table []) ?vs" by (simp only: enabled_view)
  from monitor_browsing [OF this] show ?thesis unfolding view .
qed

end
