(* ===== verification/DemoTable.thy ===== *)
theory DemoTable
  imports ListPages Demo MockRoutes
begin

text \<open>
  The list page \<open>views/list/TableList.vue\<close> against the service list of \<open>mock/services/manage.js\<close>: the
  data source the page hands to its table, the request it sends, and what the handler answers. How axios
  writes the parameters of a request into its address is a parameter of the model, of which the documented
  behaviour is used: every parameter that is set is written once as \<open>name=value\<close>, and values of plain
  words are written as they are.
\<close>

section \<open>The address of a request\<close>

definition word_char :: "char \<Rightarrow> bool" where
  "word_char c \<longleftrightarrow> (let n = of_char c :: nat in
     48 \<le> n \<and> n \<le> 57 \<or> 65 \<le> n \<and> n \<le> 90 \<or> 97 \<le> n \<and> n \<le> 122)"

abbreviation word_text :: "string \<Rightarrow> bool" where
  "word_text s \<equiv> list_all word_char s"

text \<open>What the table and the search form of the page set.\<close>

definition list_params :: "string list" where
  "list_params = [''pageNo'', ''pageSize'', ''sortField'', ''sortOrder'',
     ''id'', ''status'', ''callNo'', ''date'', ''useStatus'']"

definition word_param :: "param_value \<Rightarrow> bool" where
  "word_param v = (case v of PNum (Some n) \<Rightarrow> 0 \<le> n | PNum None \<Rightarrow> True | PText t \<Rightarrow> word_text t | PList ts \<Rightarrow> False)"

definition param_text :: "param_value \<Rightarrow> string" where
  "param_text v = (case v of PNum n \<Rightarrow> num_text n | PText t \<Rightarrow> t | PList ts \<Rightarrow> concat ts)"

definition word_params :: "params \<Rightarrow> bool" where
  "word_params q \<longleftrightarrow> (\<forall>k v. q k = Some v \<longrightarrow> k \<in> set list_params \<and> word_param v)"

definition writes_query :: "(string \<Rightarrow> params \<Rightarrow> string) \<Rightarrow> bool" where
  "writes_query url_of \<longleftrightarrow> (\<forall>path q. word_params q \<longrightarrow> q \<noteq> Map.empty \<longrightarrow>
     (\<exists>kvs. url_of path q = path @ CHR ''?'' # query_text kvs \<and> distinct (map fst kvs) \<and>
        map_of kvs = (\<lambda>k. map_option param_text (q k))))"

section \<open>The data source of the page\<close>

definition to_page :: "service_page \<Rightarrow> service_row page" where
  "to_page r = \<lparr>pg_data = Some (sp_data r), pg_pageSize = sp_pageSize r, pg_pageNo = sp_pageNo r,
     pg_totalPage = sp_totalPage r, pg_totalCount = Some (sp_totalCount r)\<rparr>"

text \<open>What becomes of the first request in flight; nothing, when the handler throws.\<close>

definition list_reply ::
    "(string \<Rightarrow> params \<Rightarrow> string) \<Rightarrow> (int option \<Rightarrow> int) \<Rightarrow> (int \<times> unit mock_request) list \<Rightarrow> int \<Rightarrow> service_draw \<Rightarrow>
     params \<Rightarrow> service_row table_event option" where
  "list_reply url_of status rqs now draw q =
     (let url = url_of (''/api'' @ ac_url api_getServiceList) q in
      case getQueryParameters url of
        Inl e \<Rightarrow> None
      | Inr _ \<Rightarrow> Some
          (case delivered status (serve (serve_all rqs) (now, ServiceReq draw url)) of
             Inr (Some (ServicePage r)) \<Rightarrow> Reply 0 (to_page r)
           | _ \<Rightarrow> Fail 0))"

definition turn_page :: "nat \<Rightarrow> nat \<Rightarrow> sorter \<Rightarrow> service_row list_page \<Rightarrow> service_row list_page" where
  "turn_page p s so lp = lp\<lparr>page_table := snd (table_step (\<lambda>_ _. []) (TableList_props, page_table lp)
     (Change (no_pagination\<lparr>pn_current := Some (int p), pn_pageSize := Some (int s)\<rparr>) (\<lambda>k. None) so))\<rparr>"

definition list_answered ::
    "(string \<Rightarrow> params \<Rightarrow> string) \<Rightarrow> (int option \<Rightarrow> int) \<Rightarrow> (int \<times> unit mock_request) list \<Rightarrow> int \<Rightarrow> service_draw \<Rightarrow>
     service_row list_page \<Rightarrow> service_row list_page" where
  "list_answered url_of status rqs now draw lp =
     (case in_flight (page_table lp) of
        [] \<Rightarrow> lp
      | (pg, q) # _ \<Rightarrow>
          (case list_reply url_of status rqs now draw (requestParameters q (queryParam lp)) of
             None \<Rightarrow> lp
           | Some e \<Rightarrow> lp\<lparr>page_table := snd (table_step (\<lambda>_ _. []) (TableList_props, page_table lp) e)\<rparr>))"

section \<open>Reading the address\<close>

lemma word_plain_char: "word_char c \<Longrightarrow> plain_char c"
  by (auto simp: word_char_def plain_char_def Let_def)

lemma word_plain: "word_text s \<Longrightarrow> plain s"
  by (auto simp: list_all_iff word_plain_char)

lemma word_decimal: "word_text (decimal n)"
proof -
  have "word_char (char_of (48 + d))" if "d < 10" for d :: nat
    using that by (simp add: word_char_def)
  then show ?thesis
    by (induction n rule: decimal.induct) (subst decimal.simps, simp)
qed

lemma param_plain: "word_param v \<Longrightarrow> plain (param_text v)"
  using word_plain [OF word_decimal] word_plain
  by (auto simp: word_param_def param_text_def num_text_def plain_char_def split: param_value.splits option.splits)

lemma list_params_plain: "k \<in> set list_params \<Longrightarrow> plain k"
  by (auto simp: list_params_def plain_char_def)

lemma address_read:
  assumes "writes_query url_of" "word_params q" "q \<noteq> Map.empty" "CHR ''?'' \<notin> set path"
  shows "getQueryParameters (url_of path q) = Inr (\<lambda>k. map_option param_text (q k))"
proof -
  obtain kvs where url: "url_of path q = path @ CHR ''?'' # query_text kvs" and d: "distinct (map fst kvs)"
    and kvs: "map_of kvs = (\<lambda>k. map_option param_text (q k))"
    using assms(1-3) unfolding writes_query_def by blast
  have "plain k \<and> plain t" if "(k, t) \<in> set kvs" for k t
  proof -
    have "map_option param_text (q k) = Some t" using that d kvs by (metis map_of_is_SomeI)
    then obtain v where v: "q k = Some v" "t = param_text v" by auto
    then have "k \<in> set list_params" "word_param v" using assms(2) by (auto simp: word_params_def)
    then show ?thesis using v(2) by (simp add: param_plain list_params_plain)
  qed
  then have plain: "plain_pairs kvs" by (auto simp: plain_pairs_def list_all_iff)
  have "kvs \<noteq> []"
  proof
    assume "kvs = []"
    then have "map_option param_text (q k) = None" for k using fun_cong [OF kvs, of k] by simp
    then show False using assms(3) by auto
  qed
  moreover have "map_of (rev kvs) = map_of kvs" using d by (subst map_of_inject_set) (simp_all add: rev_map [symmetric])
  ultimately show ?thesis
    using assms(4) plain kvs url
    by (simp add: getQueryParameters_search query_text_chars query_text_not_Nil decode_plain query_to_json
        json_members_text)
qed

lemma serverList_reads:
  "m ''pageNo'' = Some (decimal p) \<Longrightarrow> m ''pageSize'' = Some (decimal s) \<Longrightarrow>
     serverList draw m = serverList draw (page_query p s)"
  by (simp add: serverList_def page_query_def Let_def)

section \<open>The rows of a page\<close>

text \<open>The pages that have rows: all but the last one of a size that divides the number of rows.\<close>

definition page_served :: "nat \<Rightarrow> nat \<Rightarrow> bool" where
  "page_served p s \<longleftrightarrow> 5701 mod s \<noteq> 0 \<or> p < page_count s"

lemma page_before_end:
  assumes "0 < s" "p < page_count s"
  shows "p * s < 5701"
proof -
  have "Suc p * s \<le> (5701 + s - 1) div s * s" using assms(2) by (intro mult_le_mono1) (simp add: page_count_def)
  also have "\<dots> \<le> 5701 + s - 1" by simp
  finally show ?thesis using assms(1) by simp
qed

lemma served_keys:
  assumes "0 < s" "0 < p" "p \<le> page_count s" "page_served p s"
  shows "page_keys draw p s = map (\<lambda>n. Some (int n)) [Suc ((p - 1) * s)..<Suc (min (p * s) 5701)]"
proof -
  define n where "n = (if page_count s \<le> p then 5701 mod s else s)"
  have all: "5701 div s * s + 5701 mod s = 5701" "5701 mod s < s" using assms(1) by simp_all
  have "(p - 1) * s + n = min (p * s) 5701"
  proof (cases "page_count s \<le> p")
    case True
    then have count: "page_count s = Suc (5701 div s)"
      using page_count_not_dividing [OF assms(1)] assms(4) by (simp add: page_served_def)
    then have "p = Suc (5701 div s)" using True assms(3) by simp
    then have "(p - 1) * s + n = 5701" "p * s = s + 5701 div s * s" using all True by (simp_all add: n_def count)
    moreover from this all have "min (p * s) 5701 = 5701" by (intro min_absorb2) linarith
    ultimately show ?thesis by (simp only:)
  next
    case False
    then have "p * s < 5701" by (intro page_before_end [OF assms(1)]) simp
    moreover have "(p - 1) * s + s = p * s" using assms(2) by (cases p) simp_all
    ultimately show ?thesis using False by (simp add: n_def)
  qed
  then have "map (\<lambda>i. (p - 1) * s + i) [1..<Suc n] = [Suc ((p - 1) * s)..<Suc (min (p * s) 5701)]"
    by (simp add: map_plus_upt del: upt_Suc)
  then have "map (\<lambda>n. Some (int n)) (map (\<lambda>i. (p - 1) * s + i) [1..<Suc n]) =
      map (\<lambda>n. Some (int n)) [Suc ((p - 1) * s)..<Suc (min (p * s) 5701)]" by (rule arg_cong)
  then show ?thesis by (simp only: page_keys_eq [OF assms(1,2)] n_def [symmetric] map_map comp_def)
qed

text \<open>The last page of a size that divides the number of rows is empty.\<close>

lemma unserved_rows:
  assumes "0 < s" "0 < p" "p \<le> page_count s" "\<not> page_served p s"
  shows "sp_data (serverList draw (page_query p s)) = []" "p = page_count s"
proof -
  show p: "p = page_count s" using assms(3,4) by (simp add: page_served_def)
  have "page_keys draw p s = []"
    using service_pages_defects [OF assms(1), of draw] assms(4) p by (simp add: page_served_def)
  then show "sp_data (serverList draw (page_query p s)) = []" by (simp add: page_keys_def)
qed

lemma served_fields:
  assumes "0 < s"
  shows "sp_pageNo (serverList draw (page_query p s)) = Some (int p)"
    "sp_totalCount (serverList draw (page_query p s)) = 5701"
  by (simp_all add: serverList_def page_query_def parseInt_decimal totalCount_def Let_def)

section \<open>Turning the pages\<close>

definition list_serves :: "service_row list_page \<Rightarrow> nat \<Rightarrow> nat \<Rightarrow> bool" where
  "list_serves lp p s \<longleftrightarrow>
     map sv_key (localDataSource (page_table lp)) = map (\<lambda>n. Some (int n)) [Suc ((p - 1) * s)..<Suc (min (p * s) 5701)] \<and>
     \<not> localLoading (page_table lp) \<and> in_flight (page_table lp) = [] \<and>
     (let pn = pager_fields (localPagination (page_table lp)) in
        pn_current pn = Some (int p) \<and> pn_pageSize pn = Some (int s) \<and> pn_total pn = Some 5701)"

definition word_sorter :: "sorter \<Rightarrow> bool" where
  "word_sorter so \<longleftrightarrow> list_all word_text (List.map_filter (\<lambda>x. x) [so_field so, so_order so])"

lemma turned:
  assumes "in_flight (page_table lp) = []"
  shows "queryParam (turn_page p s so lp) = queryParam lp"
    "localLoading (page_table (turn_page p s so lp))"
    "localDataSource (page_table (turn_page p s so lp)) = localDataSource (page_table lp)"
    "in_flight (page_table (turn_page p s so lp)) =
       [(Some (no_pagination\<lparr>pn_current := Some (int p), pn_pageSize := Some (int s)\<rparr>),
         request_params TableList_props (Some (no_pagination\<lparr>pn_current := Some (int p), pn_pageSize := Some (int s)\<rparr>))
           (\<lambda>k. None) so (localPagination (page_table lp)))]"
  using assms by (simp_all add: turn_page_def table_step_def loadData_def)

lemma turned_params:
  fixes so :: sorter and p s :: nat and P lp
  defines "q \<equiv> request_params P (Some (no_pagination\<lparr>pn_current := Some (int p), pn_pageSize := Some (int s)\<rparr>))
    (\<lambda>k. None) so lp"
  assumes "0 < p" "0 < s" "word_sorter so"
  shows "q ''pageNo'' = Some (PNum (Some (int p)))" "q ''pageSize'' = Some (PNum (Some (int s)))" "word_params q"
proof -
  show q: "q ''pageNo'' = Some (PNum (Some (int p)))" "q ''pageSize'' = Some (PNum (Some (int s)))"
    using assms(2,3) by (simp_all add: q_def request_params_def Let_def map_add_def num_or_def num_truthy_def)
  show "word_params q"
    using assms(2-4)
    by (auto simp: q_def word_params_def request_params_def Let_def map_add_def num_or_def num_truthy_def list_params_def
        word_param_def word_sorter_def map_filter_simps truthy_def split: if_splits option.splits)
qed

lemma list_shown: "paged TableList_props" "js_truthy (t_showPagination TableList_props)"
  by (simp_all add: paged_def TableList_props_def default_props_def)

lemma own_params:
  fixes so :: sorter and p s :: nat
  defines "q pn \<equiv> request_params TableList_props None (\<lambda>k. None) so (Pager pn)"
  assumes "0 < p" "0 < s" "word_sorter so"
    and "pn_current pn = Some (int p)" "pn_pageSize pn = Some (int s)"
  shows "q pn ''pageNo'' = Some (PNum (Some (int p))) \<and> q pn ''pageSize'' = Some (PNum (Some (int s))) \<and> word_params (q pn)"
  using assms(2-)
  by (auto simp: q_def word_params_def request_params_def Let_def map_add_def pager_fields_def list_params_def
      word_param_def word_sorter_def map_filter_simps truthy_def list_shown split: if_splits option.splits)

lemma served_rows:
  assumes "0 < s" "0 < p" "p \<le> page_count s" "page_served p s"
  shows "sp_data (serverList draw (page_query p s)) \<noteq> []"
proof -
  have "(p - 1) * s < 5701" using assms(2,3) by (intro page_before_end [OF assms(1)]) simp
  moreover have "(p - 1) * s < p * s" using assms(1,2) by simp
  ultimately have "(p - 1) * s < min (p * s) 5701" unfolding min_less_iff_conj by linarith
  moreover have "length (sp_data (serverList draw (page_query p s))) = min (p * s) 5701 - (p - 1) * s"
    using arg_cong [OF served_keys [OF assms, of draw, unfolded page_keys_def], of length] by (simp del: upt_Suc)
  ultimately have "0 < length (sp_data (serverList draw (page_query p s)))" by linarith
  then show ?thesis by simp
qed

text \<open>What the service answers to a request for a page, whatever else is asked.\<close>

lemma list_reply_page:
  assumes "writes_query url_of" "writes_statuses status" "last_login None rqs = Some ok"
    and "word_params q" "q ''pageNo'' = Some (PNum (Some (int p)))" "q ''pageSize'' = Some (PNum (Some (int s)))"
  shows "list_reply url_of status rqs now draw q =
    Some (if ok then Reply 0 (to_page (serverList draw (page_query p s))) else Fail 0)"
proof -
  let ?url = "url_of (''/api'' @ ac_url api_getServiceList) q"
  have "getQueryParameters ?url = Inr (\<lambda>k. map_option param_text (q k))"
    using assms(5) by (intro address_read [OF assms(1,4)]) (auto simp: api_getServiceList_def call_def request_def)
  moreover have "serverList draw (\<lambda>k. map_option param_text (q k)) = serverList draw (page_query p s)"
    by (rule serverList_reads) (simp_all add: assms(5,6) param_text_def num_text_def)
  ultimately have "serve (serve_all rqs) (now, ServiceReq draw ?url) =
      builder now (serve_all rqs) (ServicePage (serverList draw (page_query p s))) None 0 []" "\<exists>m. getQueryParameters ?url = Inr m"
    by simp_all
  moreover have "rb_status (serve_all rqs) = Some (if ok then 200 else 401)"
    using serve_status [of responseBody None rqs] assms(3)
    by (simp add: serve_all_def responseBody_def login_status_def)
  ultimately show ?thesis
    using assms(2) by (auto simp: list_reply_def Let_def delivered_def builder_def writes_statuses_def)
qed

text \<open>A table whose one request asks for page \<open>p\<close> of size \<open>s\<close>.\<close>

definition asks_page :: "service_row list_page \<Rightarrow> nat \<Rightarrow> nat \<Rightarrow> bool" where
  "asks_page lp p s \<longleftrightarrow>
     (\<exists>pg q. in_flight (page_table lp) = [(pg, q)] \<and> word_params q \<and>
        q ''pageNo'' = Some (PNum (Some (int p))) \<and> q ''pageSize'' = Some (PNum (Some (int s))) \<and>
        num_or (Option.bind pg pn_pageSize) (pn_pageSize (pager_fields (localPagination (page_table lp)))) = Some (int s)) \<and>
     filters (page_table lp) = (\<lambda>k. None) \<and> word_sorter (sorter (page_table lp))"

definition page_words :: "params \<Rightarrow> bool" where
  "page_words q \<longleftrightarrow> word_params q \<and> q ''pageNo'' = None \<and> q ''pageSize'' = None"

lemma watch_sorter: "sorter (watch_current P st) = sorter st"
  by (simp add: watch_current_def Let_def)

lemma pager_of: "pager_fields (Pager pn) = pn"
  by (simp add: pager_fields_def)

lemma turned_asks:
  assumes "in_flight (page_table lp) = []" "word_sorter so" "0 < p" "0 < s"
  shows "asks_page (turn_page p s so lp) p s"
  using turned_params [OF assms(3,4,2), of TableList_props "localPagination (page_table lp)"] assms
  by (simp add: asks_page_def turn_page_def table_step_def loadData_def watch_current_def Let_def)

text \<open>The answer to the request of such a table.\<close>

lemma page_reply:
  assumes "writes_query url_of" "writes_statuses status" "last_login None rqs = Some ok"
    and "asks_page lp p s" "page_words (queryParam lp)"
  shows "list_answered url_of status rqs now draw lp =
    lp\<lparr>page_table := snd (table_step (\<lambda>_ _. []) (TableList_props, page_table lp)
      (if ok then Reply 0 (to_page (serverList draw (page_query p s))) else Fail 0))\<rparr>"
proof -
  obtain pg q where q: "in_flight (page_table lp) = [(pg, q)]" "word_params q" "q ''pageNo'' = Some (PNum (Some (int p)))"
    "q ''pageSize'' = Some (PNum (Some (int s)))"
    using assms(4) by (auto simp: asks_page_def)
  let ?sent = "requestParameters q (queryParam lp)"
  have "?sent ''pageNo'' = Some (PNum (Some (int p)))" "?sent ''pageSize'' = Some (PNum (Some (int s)))"
    using q(3,4) assms(5) by (simp_all add: page_words_def requestParameters_def map_add_def)
  moreover have "word_params ?sent"
    using q(2) assms(5) by (auto simp: page_words_def word_params_def requestParameters_def map_add_def split: option.splits)
  ultimately have "list_reply url_of status rqs now draw ?sent =
      Some (if ok then Reply 0 (to_page (serverList draw (page_query p s))) else Fail 0)"
    by (intro list_reply_page [OF assms(1-3)])
  then show ?thesis using q(1) by (simp add: list_answered_def)
qed

lemma served_page:
  assumes "writes_query url_of" "writes_statuses status" "last_login None rqs = Some True"
    and "asks_page lp p s" "page_words (queryParam lp)" "0 < s" "0 < p" "p \<le> page_count s" "page_served p s"
  shows "list_serves (list_answered url_of status rqs now draw lp) p s"
proof -
  note rows = served_rows [OF assms(6-9), of draw]
    and keys = served_keys [OF assms(6-9), of draw, unfolded page_keys_def]
  obtain pg q where "in_flight (page_table lp) = [(pg, q)]"
    "num_or (Option.bind pg pn_pageSize) (pn_pageSize (pager_fields (localPagination (page_table lp)))) = Some (int s)"
    using assms(4) by (auto simp: asks_page_def)
  then show ?thesis
    using rows keys list_shown served_fields [OF assms(6), of draw p]
    by (simp add: page_reply [OF assms(1-5)] list_serves_def table_step_def loaded_def to_page_def drop_nth_def
        pager_fields_def Let_def)
qed

text \<open>An empty page that is not the first makes the table ask for the one before it.\<close>

lemma unserved_page:
  fixes now :: int and draw :: service_draw
  assumes "writes_query url_of" "writes_statuses status" "last_login None rqs = Some True"
    and "asks_page lp p s" "page_words (queryParam lp)" "0 < s" "0 < p" "p \<le> page_count s" "\<not> page_served p s"
  defines "shown \<equiv> list_answered url_of status rqs now draw lp"
  shows "queryParam shown = queryParam lp"
    "1 < p \<Longrightarrow> asks_page shown (p - 1) s \<and> localDataSource (page_table shown) = localDataSource (page_table lp) \<and>
       localLoading (page_table shown)"
    "\<not> 1 < p \<Longrightarrow> in_flight (page_table shown) = [] \<and> localDataSource (page_table shown) = [] \<and>
       \<not> localLoading (page_table shown)"
proof -
  note empty = unserved_rows(1) [OF assms(6-9), of draw] and shown = page_reply [OF assms(1-5), of now draw]
  obtain pg q where q: "in_flight (page_table lp) = [(pg, q)]"
    "num_or (Option.bind pg pn_pageSize) (pn_pageSize (pager_fields (localPagination (page_table lp)))) = Some (int s)"
    and rest: "filters (page_table lp) = (\<lambda>k. None)" "word_sorter (sorter (page_table lp))"
    using assms(4) by (auto simp: asks_page_def)
  show "queryParam shown = queryParam lp" by (simp add: shown_def shown)
  show "asks_page shown (p - 1) s \<and> localDataSource (page_table shown) = localDataSource (page_table lp) \<and>
      localLoading (page_table shown)" if "1 < p"
  proof -
    let ?pn = "(pager_fields (localPagination (page_table lp)))\<lparr>pn_total := Some 5701,
      pn_showSizeChanger := Some (t_showSizeChanger TableList_props), pn_pageSize := Some (int s),
      pn_current := Some (int (p - 1))\<rparr>"
    let ?q = "request_params TableList_props None (\<lambda>k. None) (sorter (page_table lp)) (Pager ?pn)"
    have own: "?q ''pageNo'' = Some (PNum (Some (int (p - 1))))" "?q ''pageSize'' = Some (PNum (Some (int s)))" "word_params ?q"
      using own_params [OF _ assms(6) rest(2), of "p - 1" ?pn] that by simp_all
    have "page_table shown = watch_current TableList_props ((page_table lp)\<lparr>localPagination := Pager ?pn,
        localLoading := True, in_flight := [(None, ?q)]\<rparr>)"
      using that q rest empty list_shown served_fields [OF assms(6), of draw p]
      by (simp add: shown_def shown table_step_def loaded_def loadData_def to_page_def drop_nth_def of_nat_diff Let_def)
    then show ?thesis
      using own rest assms(6) by (simp add: asks_page_def pager_of watch_sorter)
  qed
  show "in_flight (page_table shown) = [] \<and> localDataSource (page_table shown) = [] \<and> \<not> localLoading (page_table shown)"
    if "\<not> 1 < p"
    using that q empty list_shown served_fields [OF assms(6), of draw p]
    by (simp add: shown_def shown table_step_def loaded_def to_page_def drop_nth_def Let_def)
qed

text \<open>C9: on the list page, turning to any page the pager offers, of any size, sorted in any way and with any
  words in the search form, shows the rows that belong there once the demo service has answered: the rows of
  page \<open>p\<close> of size \<open>s\<close> are those numbered from \<open>(p - 1) * s + 1\<close> on, the pager counts all 5701
  rows, and nothing is loading; what the search form holds changes nothing. The one exception is the last page
  of a size that divides the number of rows, which the service answers without rows: the table then asks for the
  page before, and shows that when it is answered, or shows no rows at all when there is only this page. All this
  needs the last log-in at the service to have succeeded: if it was refused the request fails and the page
  keeps the old rows, shown as loading with no request under way.\<close>

theorem demo_list_page:
  assumes "writes_query url_of" "writes_statuses status" "last_login None rqs = Some ok"
    and "in_flight (page_table lp) = []" "page_words (queryParam lp)"
    and "word_sorter so" "0 < s" "0 < p" "p \<le> page_count s"
  shows "let shown = list_answered url_of status rqs now draw (turn_page p s so lp);
             back = list_answered url_of status rqs now' draw' shown in
    if \<not> ok then in_flight (page_table shown) = [] \<and> localLoading (page_table shown) \<and>
      localDataSource (page_table shown) = localDataSource (page_table lp)
    else if 5701 mod s \<noteq> 0 \<or> p < page_count s then list_serves shown p s
    else if 1 < p then localLoading (page_table shown) \<and>
      localDataSource (page_table shown) = localDataSource (page_table lp) \<and> list_serves back (p - 1) s
    else in_flight (page_table shown) = [] \<and> \<not> localLoading (page_table shown) \<and> localDataSource (page_table shown) = []"
proof -
  let ?lp = "turn_page p s so lp"
  let ?shown = "list_answered url_of status rqs now draw ?lp"
  note t = turned [OF assms(4), of p s so]
  have asks: "asks_page ?lp p s" by (rule turned_asks [OF assms(4,6,8,7)])
  have words: "page_words (queryParam ?lp)" using assms(5) t(1) by simp
  consider (refused) "\<not> ok" | (served) "ok" "page_served p s" | (unserved) "ok" "\<not> page_served p s" by blast
  then show ?thesis
  proof cases
    case refused
    then show ?thesis
      using t page_reply [OF assms(1-3) asks words, of now draw]
      by (simp add: table_step_def drop_nth_def Let_def)
  next
    case served
    have "last_login None rqs = Some True" using assms(3) served(1) by simp
    from served_page [OF assms(1,2) this asks words assms(7-9) served(2), of now draw] served
    show ?thesis by (simp add: page_served_def Let_def)
  next
    case unserved
    have ok: "last_login None rqs = Some True" using assms(3) unserved(1) by simp
    note empty = unserved_page [OF assms(1,2) ok asks words assms(7-9) unserved(2), of now draw]
    have "list_serves (list_answered url_of status rqs now' draw' ?shown) (p - 1) s" if "1 < p"
    proof (rule served_page [OF assms(1,2) ok])
      show "page_served (p - 1) s" using that assms(9) by (auto simp: page_served_def)
    qed (use empty(1,2) that words assms(7,9) in simp_all)
    then show ?thesis
      using empty(2,3) unserved t(3) assms(8) by (auto simp: page_served_def Let_def)
  qed
qed

text \<open>An address as axios writes it, for the parameters of the page.\<close>

definition written :: "params \<Rightarrow> (string \<times> string) list" where
  "written q = List.map_filter (\<lambda>k. map_option (\<lambda>v. (k, param_text v)) (q k)) list_params"

definition sample_url :: "string \<Rightarrow> params \<Rightarrow> string" where
  "sample_url path q = path @ CHR ''?'' # query_text (written q)"

lemma sample_url_writes: "writes_query sample_url"
proof -
  have fsts: "map fst (List.map_filter (\<lambda>k. map_option (\<lambda>v. (k, param_text v)) (q k)) ks) =
      filter (\<lambda>k. q k \<noteq> None) ks" for q ks
    by (induction ks) (auto simp: map_filter_simps split: option.splits)
  have reads: "map_of (List.map_filter (\<lambda>k. map_option (\<lambda>v. (k, param_text v)) (q k)) ks) k =
      (if k \<in> set ks then map_option param_text (q k) else None)" for q ks k
    by (induction ks) (auto simp: map_filter_simps split: option.splits)
  have "distinct list_params" by (simp add: list_params_def)
  moreover have "map_of (written q) = (\<lambda>k. map_option param_text (q k))" if "word_params q" for q
  proof (rule ext)
    show "map_of (written q) k = map_option param_text (q k)" for k
      using that by (cases "q k") (auto simp: written_def reads word_params_def)
  qed
  ultimately show ?thesis
    by (auto simp: writes_query_def sample_url_def written_def fsts intro!: exI)
qed

theorem demo_list_page_witness:
  "let login = (0, LoginReq ([], [], []) \<lparr>lb_username = Some ''admin'', lb_password = Some ''21232f297a57a5a743894a0e4a801fc3''\<rparr>);
       lp = (created_page :: service_row list_page)\<lparr>page_table := init_table TableList_props, queryParam := [''id'' \<mapsto> PText ''7'']\<rparr>;
       shown = list_answered sample_url (\<lambda>c. case c of None \<Rightarrow> 200 | Some n \<Rightarrow> n) [login] 1 (\<lambda>i. (1, 0, []))
         (turn_page 571 10 \<lparr>so_field = Some ''callNo'', so_order = None\<rparr> lp)
   in map sv_key (localDataSource (page_table shown)) = [Some 5701] \<and> \<not> localLoading (page_table shown)"
proof -
  let ?body = "\<lparr>lb_username = Some ''admin'', lb_password = Some ''21232f297a57a5a743894a0e4a801fc3''\<rparr>"
  let ?lp = "(created_page :: service_row list_page)\<lparr>page_table := init_table TableList_props, queryParam := [''id'' \<mapsto> PText ''7'']\<rparr>"
  let ?so = "\<lparr>so_field = Some ''callNo'', so_order = None\<rparr>"
  have "last_login None [(0, LoginReq ([], [], []) ?body)] = Some True"
    by (simp add: credentials_ok_def usernames_def passwords_def)
  moreover have "word_params (queryParam ?lp)" "word_sorter ?so"
    by (simp_all add: word_params_def list_params_def word_param_def word_char_def word_sorter_def map_filter_simps)
  moreover have "writes_statuses (\<lambda>c. case c of None \<Rightarrow> 200 | Some n \<Rightarrow> n)" by (simp add: writes_statuses_def)
  ultimately have "list_serves (list_answered sample_url (\<lambda>c. case c of None \<Rightarrow> 200 | Some n \<Rightarrow> n)
      [(0, LoginReq ([], [], []) ?body)] 1 (\<lambda>i. (1, 0, [])) (turn_page 571 10 ?so ?lp)) 571 10"
    using demo_list_page [OF sample_url_writes, of "\<lambda>c. case c of None \<Rightarrow> 200 | Some n \<Rightarrow> n"
        "[(0, LoginReq ([], [], []) ?body)]" True ?lp ?so 10 571 1 "\<lambda>i. (1, 0, [])"]
    by (simp add: Let_def init_table_def page_count_def page_words_def)
  then show ?thesis by (simp add: list_serves_def Let_def)
qed

end
