(* ===== verification/Workplace.thy ===== *)
theory Workplace
  imports Feeds MockRoles "HOL-Library.Multiset"
begin

text \<open>
  The workplace (\<open>views/dashboard/Workplace.vue\<close>) on what the demo service answers its requests with:
  the projects, the activities, the teams and the rows of the radar chart (\<open>mock/services/manage.js\<close>), as
  data. The answers may come in any order. The library that folds the rows of the chart is an argument.
\<close>

section \<open>The answers\<close>

record project =
  pj_id :: int
  pj_cover :: string
  pj_title :: string
  pj_description :: string
  pj_status :: int
  pj_updatedAt :: string

text \<open>Number, user with picture, project with what was done to what, and time.\<close>

datatype activity_item =
  Activity (av_id: int) (av_user: "string \<times> string") (av_project: "string \<times> string \<times> string") (av_time: string)

definition project_1 :: project where
  "project_1 = \<lparr>
    pj_id = 1,
    pj_cover = ''https://gw.alipayobjects.com/zos/rmsportal/WdGqmHpayyMjiEhcKoVE.png'',
    pj_title = ''Alipay'',
    pj_description = (utf8 [0x90A3, 0x662F, 0x4E00, 0x79CD, 0x5185, 0x5728, 0x7684, 0x4E1C,
      0x897F, 0xFF0C] @ '' '' @ utf8 [0x4ED6, 0x4EEC, 0x5230, 0x8FBE, 0x4E0D, 0x4E86, 0xFF0C,
      0x4E5F, 0x65E0, 0x6CD5, 0x89E6, 0x53CA, 0x7684]),
    pj_status = 1,
    pj_updatedAt = ''2018-07-26 00:00:00''\<rparr>"

definition project_2 :: project where
  "project_2 = \<lparr>
    pj_id = 2,
    pj_cover = ''https://gw.alipayobjects.com/zos/rmsportal/zOsKZmFRdUtvpqCImOVY.png'',
    pj_title = ''Angular'',
    pj_description = (utf8 [0x5E0C, 0x671B, 0x662F, 0x4E00, 0x4E2A, 0x597D, 0x4E1C, 0x897F,
      0xFF0C, 0x4E5F, 0x8BB8, 0x662F, 0x6700, 0x597D, 0x7684, 0xFF0C, 0x597D, 0x4E1C, 0x897F,
      0x662F, 0x4E0D, 0x4F1A, 0x6D88, 0x4EA1, 0x7684]),
    pj_status = 1,
    pj_updatedAt = ''2018-07-26 00:00:00''\<rparr>"

definition project_3 :: project where
  "project_3 = \<lparr>
    pj_id = 3,
    pj_cover = ''https://gw.alipayobjects.com/zos/rmsportal/dURIMkkrRFpPgTuzkwnB.png'',
    pj_title = ''Ant Design'',
    pj_description = (utf8 [0x57CE, 0x9547, 0x4E2D, 0x6709, 0x90A3, 0x4E48, 0x591A, 0x7684,
      0x9152, 0x9986, 0xFF0C, 0x5979, 0x5374, 0x504F, 0x504F, 0x8D70, 0x8FDB, 0x4E86, 0x6211,
      0x7684, 0x9152, 0x9986]),
    pj_status = 1,
    pj_updatedAt = ''2018-07-26 00:00:00''\<rparr>"

definition project_4 :: project where
  "project_4 = \<lparr>
    pj_id = 4,
    pj_cover = ''https://gw.alipayobjects.com/zos/rmsportal/sfjbOqnsXXJgNCjCzDBL.png'',
    pj_title = ''Ant Design Pro'',
    pj_description = (utf8 [0x90A3, 0x65F6, 0x5019, 0x6211, 0x53EA, 0x4F1A, 0x60F3, 0x81EA,
      0x5DF1, 0x60F3, 0x8981, 0x4EC0, 0x4E48, 0xFF0C, 0x4ECE, 0x4E0D, 0x60F3, 0x81EA, 0x5DF1,
      0x62E5, 0x6709, 0x4EC0, 0x4E48]),
    pj_status = 1,
    pj_updatedAt = ''2018-07-26 00:00:00''\<rparr>"

definition project_5 :: project where
  "project_5 = \<lparr>
    pj_id = 5,
    pj_cover = ''https://gw.alipayobjects.com/zos/rmsportal/siCrBXXhmvTQGWPNLBow.png'',
    pj_title = ''Bootstrap'',
    pj_description = (utf8 [0x51DB, 0x51AC, 0x5C06, 0x81F3]),
    pj_status = 1,
    pj_updatedAt = ''2018-07-26 00:00:00''\<rparr>"

definition project_6 :: project where
  "project_6 = \<lparr>
    pj_id = 6,
    pj_cover = ''https://gw.alipayobjects.com/zos/rmsportal/ComBAopevLwENQdKWiIn.png'',
    pj_title = ''Vue'',
    pj_description = (utf8 [0x751F, 0x547D, 0x5C31, 0x50CF, 0x4E00, 0x76D2, 0x5DE7, 0x514B,
      0x529B, 0xFF0C, 0x7ED3, 0x679C, 0x5F80, 0x5F80, 0x51FA, 0x4EBA, 0x610F, 0x6599]),
    pj_status = 1,
    pj_updatedAt = ''2018-07-26 00:00:00''\<rparr>"

definition projects :: "project listing" where
  "projects = \<lparr>
    li_data = [project_1, project_2, project_3, project_4, project_5, project_6],
    li_pageSize = 10, li_pageNo = 0, li_totalPage = 6, li_totalCount = 57\<rparr>"

definition activity :: "activity_item list" where
  "activity =
     [Activity 1 (''@name'',
        ''https://gw.alipayobjects.com/zos/rmsportal/BiazfanxmamNRoxxVxka.png'') ((utf8 [0x767D,
        0x9E6D, 0x9171, 0x6CB9, 0x5F00, 0x53D1, 0x7EC4]), (utf8 [0x66F4, 0x65B0]), (utf8 [0x756A,
        0x7EC4, 0x8BA1, 0x5212])) ''2018-08-23 14:47:00'',
      Activity 1 ((utf8 [0x84DD, 0x8393, 0x9171]),
        ''https://gw.alipayobjects.com/zos/rmsportal/jZUIxmJycoymBprLOUbT.png'') ((utf8 [0x767D,
        0x9E6D, 0x9171, 0x6CB9, 0x5F00, 0x53D1, 0x7EC4]), (utf8 [0x66F4, 0x65B0]), (utf8 [0x756A,
        0x7EC4, 0x8BA1, 0x5212])) ''2018-08-23 09:35:37'',
      Activity 1 (''@name'', ''@image(64x64)'') ((utf8 [0x767D, 0x9E6D, 0x9171, 0x6CB9, 0x5F00,
        0x53D1, 0x7EC4]), (utf8 [0x521B, 0x5EFA]), (utf8 [0x756A, 0x7EC4, 0x8BA1, 0x5212]))
        ''2017-05-27 00:00:00'',
      Activity 1 ((utf8 [0x66F2, 0x4E3D, 0x4E3D]), ''@image(64x64)'') ((utf8 [0x9AD8, 0x903C,
        0x683C, 0x8BBE, 0x8BA1, 0x5929, 0x56E2]), (utf8 [0x66F4, 0x65B0]), (utf8 [0x516D, 0x6708,
        0x8FED, 0x4EE3])) ''2018-08-23 14:47:00'',
      Activity 1 (''@name'', ''@image(64x64)'') ((utf8 [0x9AD8, 0x903C, 0x683C, 0x8BBE, 0x8BA1,
        0x5929, 0x56E2]), ''created'', (utf8 [0x516D, 0x6708, 0x8FED, 0x4EE3]))
        ''2018-08-23 14:47:00'',
      Activity 1 ((utf8 [0x66F2, 0x4E3D, 0x4E3D]),
        ''https://gw.alipayobjects.com/zos/rmsportal/BiazfanxmamNRoxxVxka.png'') ((utf8 [0x9AD8,
        0x903C, 0x683C, 0x8BBE, 0x8BA1, 0x5929, 0x56E2]), ''created'', (utf8 [0x516D, 0x6708,
        0x8FED, 0x4EE3])) ''2018-08-23 14:47:00'']"

definition teams :: "(int \<times> string \<times> string) list" where
  "teams =
     [(1, (utf8 [0x79D1, 0x5B66, 0x642C, 0x7816, 0x7EC4]), ''https://gw.alipayobjects.com/zos/rmsportal/BiazfanxmamNRoxxVxka.png''),
      (2, (utf8 [0x7A0B, 0x5E8F, 0x5458, 0x65E5, 0x5E38]), ''https://gw.alipayobjects.com/zos/rmsportal/cnrhVkzwxjPwAaCfPbdc.png''),
      (1, (utf8 [0x8BBE, 0x8BA1, 0x5929, 0x56E2]), ''https://gw.alipayobjects.com/zos/rmsportal/gaOngJwsRYRaVAuXXcmB.png''),
      (1, (utf8 [0x4E2D, 0x4E8C, 0x5C11, 0x5973, 0x56E2]), ''https://gw.alipayobjects.com/zos/rmsportal/ubnKSIfAJTxIgXOKlciN.png''),
      (1, (utf8 [0x9A97, 0x4F60, 0x5B66, 0x8BA1, 0x7B97, 0x673A]), ''https://gw.alipayobjects.com/zos/rmsportal/WhxKECPNujWoWEFNdnJE.png'')]"

definition radar :: "(string \<times> int \<times> int \<times> int) list" where
  "radar =
     [((utf8 [0x5F15, 0x7528]), 70, 30, 40),
      ((utf8 [0x53E3, 0x7891]), 60, 70, 40),
      ((utf8 [0x4EA7, 0x91CF]), 50, 60, 40),
      ((utf8 [0x8D21, 0x732E]), 40, 50, 40),
      ((utf8 [0x70ED, 0x5EA6]), 60, 70, 40),
      ((utf8 [0x5F15, 0x7528]), 70, 50, 40)]"

section \<open>Any order\<close>

definition demo_replies :: "(project, activity_item, int \<times> string \<times> string, string \<times> int \<times> int \<times> int) workplace_reply list" where
  "demo_replies = [ProjectsReply (li_data projects), ActivityReply activity, TeamsReply teams, RadarReply radar]"

lemma run_without_no_reply:
  "foldl (workplace_step dv_rows) s es = foldl (workplace_step dv_rows) s (filter (\<lambda>e. reply_kind e \<noteq> 4) es)"
proof (induction es arbitrary: s)
  case (Cons e es)
  show ?case by (cases e) (simp_all add: Cons)
qed simp

text \<open>Replies of different kinds can be exchanged, so that any order of a set of them leads to the same state.\<close>

lemma run_any_order:
  assumes "mset es = mset es'" "\<And>a b. a \<in> set es \<Longrightarrow> b \<in> set es \<Longrightarrow> reply_kind a = reply_kind b \<Longrightarrow> a = b"
  shows "foldl (workplace_step dv_rows) s es = foldl (workplace_step dv_rows) s es'"
proof -
  let ?f = "\<lambda>e s. workplace_step dv_rows s e"
  have "List.fold ?f es = List.fold ?f es'"
  proof (rule fold_multiset_equiv)
    show "?f a \<circ> ?f b = ?f b \<circ> ?f a" if "a \<in> set es" "b \<in> set es" for a b
    proof (cases "reply_kind a = reply_kind b")
      case True
      then show ?thesis using assms(2) that by blast
    next
      case False
      then show ?thesis using workplace_replies_commute [OF False, of dv_rows] by (simp add: fun_eq_iff)
    qed
  qed (use assms(1) in simp)
  then show ?thesis by (simp add: foldl_conv_fold)
qed

text \<open>C38: whatever the order in which the demo service answers the workplace, and whatever requests whose
  answers the page ignores are answered in between, in the end every card shows its answer: the six projects,
  the six activities, the five teams and the chart.\<close>

theorem workplace_shows_demo:
  assumes "mset (filter (\<lambda>e. reply_kind e \<noteq> 4) es) = mset demo_replies"
  shows "let s = foldl (workplace_step dv_rows) mounted_workplace es in
    projects_card s = Some (li_data projects) \<and> activities_card s = Some activity \<and>
    teams_card s = Some teams \<and> radar_card s = Some (dv_rows radar) \<and>
    length (li_data projects) = 6 \<and> length activity = 6 \<and> length teams = 5"
proof -
  have eq: "set (filter (\<lambda>e. reply_kind e \<noteq> 4) es) = set demo_replies"
    by (rule mset_eq_setD [OF assms])
  have one: "a = b" if "a \<in> set demo_replies" "b \<in> set demo_replies" "reply_kind a = reply_kind b" for a b
    using that by (auto simp: demo_replies_def)
  have "foldl (workplace_step dv_rows) mounted_workplace (filter (\<lambda>e. reply_kind e \<noteq> 4) es) =
      foldl (workplace_step dv_rows) mounted_workplace demo_replies"
    by (rule run_any_order [OF assms]) (rule one; simp only: eq)
  then have "foldl (workplace_step dv_rows) mounted_workplace es =
      foldl (workplace_step dv_rows) mounted_workplace demo_replies"
    by (rule trans [OF run_without_no_reply])
  then show ?thesis
    by (simp add: demo_replies_def projects_card_def activities_card_def teams_card_def radar_card_def Let_def
        projects_def activity_def teams_def)
qed

theorem workplace_shows_demo_witness:
  "radar_card (foldl (workplace_step (filter (\<lambda>(item, a, b, c). 60 \<le> a))) mounted_workplace
     [RadarReply radar, NoReply ''/role'', TeamsReply teams, ProjectsReply (li_data projects), ActivityReply activity]) =
   Some (filter (\<lambda>(item, a, b, c). 60 \<le> a) radar)"
proof -
  let ?es = "[RadarReply radar, NoReply ''/role'', TeamsReply teams, ProjectsReply (li_data projects), ActivityReply activity]"
  have "mset (filter (\<lambda>e. reply_kind e \<noteq> 4) ?es) = mset demo_replies" by (simp add: demo_replies_def)
  from workplace_shows_demo [OF this, of "filter (\<lambda>(item, a, b, c). 60 \<le> a)"] show ?thesis by (simp add: Let_def)
qed

text \<open>The numbers of the teams and of the activities do not tell them apart, and two axes of the chart have
  the same name; the listing counts fifty-seven projects on page nought.\<close>

lemma demo_numbers_repeat:
  "map fst teams = [1, 2, 1, 1, 1]" "map av_id activity = [1, 1, 1, 1, 1, 1]"
  "fst (radar ! 0) = fst (radar ! 5)" "li_totalCount projects = 57" "li_pageNo projects = 0"
  by (simp_all add: teams_def activity_def radar_def projects_def)

end
