(* ===== verification/Wiring.thy ===== *)
theory Wiring
  imports UserStore RoutePermission PermissionUI ListPages Request
begin

text \<open>
  How the frontend is put together: the getters of the store and the mixins that read it
  (\<open>src/store/getters.js\<close>, \<open>app-mixin.js\<close>, \<open>device-mixin.js\<close>, \<open>i18n-mixin.js\<close>), what start-up installs for
  all components (\<open>src/main.js\<close>, \<open>core/lazy_use.js\<close>, its alternative \<open>core/use.js\<close> and the plug-ins of
  the repository), the date filters, the helper \<open>$enum\<close>, and the router (\<open>src/router/index.js\<close>). What the plug-ins of libraries register is a
  parameter.
\<close>

section \<open>Reading the store\<close>

record store_state =
  st_app :: app_state
  st_user :: user_state
  st_permission :: permission_state

datatype store_value =
    Js jsval | Text string | RolesValue roles_value | Info "user_info option" | RouteList "route list"

definition getters :: "string \<Rightarrow> (store_state \<Rightarrow> store_value) option" where
  "getters = map_of
     [(''isMobile'', \<lambda>s. Js (isMobile (st_app s))),
      (''lang'', \<lambda>s. Js (lang (st_app s))),
      (''theme'', \<lambda>s. Js (theme (st_app s))),
      (''color'', \<lambda>s. Js (color (st_app s))),
      (''token'', \<lambda>s. Js (us_token (st_user s))),
      (''avatar'', \<lambda>s. Text (us_avatar (st_user s))),
      (''nickname'', \<lambda>s. Text (us_name (st_user s))),
      (''welcome'', \<lambda>s. Text (us_welcome (st_user s))),
      (''roles'', \<lambda>s. RolesValue (us_roles (st_user s))),
      (''userInfo'', \<lambda>s. Info (us_info (st_user s))),
      (''addRouters'', \<lambda>s. RouteList (addRouters (st_permission s))),
      (''multiTab'', \<lambda>s. Js (multiTab (st_app s)))]"

definition baseMixin :: "string \<Rightarrow> (app_state \<Rightarrow> jsval) option" where
  "baseMixin = map_of
     [(''layout'', layout), (''navTheme'', theme), (''primaryColor'', color), (''colorWeak'', weak),
      (''fixedHeader'', fixedHeader), (''fixedSidebar'', fixedSidebar), (''contentWidth'', contentWidth),
      (''autoHideHeader'', autoHideHeader), (''isMobile'', isMobile), (''sideCollapsed'', sideCollapsed),
      (''multiTab'', multiTab)]"

definition isTopMenu :: "app_state \<Rightarrow> bool" where
  "isTopMenu s \<longleftrightarrow> layout s = JStr ''topmenu''"

definition isSideMenu :: "app_state \<Rightarrow> bool" where
  "isSideMenu s \<longleftrightarrow> \<not> isTopMenu s"

definition deviceMixin :: "app_state \<Rightarrow> jsval" where
  "deviceMixin s = isMobile s"

definition currentLang :: "app_state \<Rightarrow> jsval" where
  "currentLang s = lang s"

text \<open>The method of the mixin dispatches the action and drops its promise.\<close>

definition mixin_setLang ::
    "'m storage_ops \<Rightarrow> string \<Rightarrow> 'm \<times> app_state \<times> i18n_state \<Rightarrow> 'm \<times> app_state \<times> i18n_state" where
  "mixin_setLang S l t = fst (setLang S l t)"

text \<open>A mutation of the settings shows at once in what the components read.\<close>

lemma mixin_follows_mutations:
  "isTopMenu (snd (commit_app S ToggleLayout v (m, s))) \<longleftrightarrow> v = JStr ''topmenu''"
  "deviceMixin (snd (commit_app S ToggleMobileType v (m, s))) = v"
  "currentLang (fst (snd (mixin_setLang S l (m, s, i)))) = JStr l"
  by (simp_all add: isTopMenu_def deviceMixin_def currentLang_def mixin_setLang_def setLang_def Let_def split: prod.splits)

section \<open>Globals\<close>

text \<open>What a component finds without importing it: the members of \<open>Vue.prototype\<close>, components, directives and
  filters. A plug-in is used once.\<close>

record globals =
  gl_members :: "string list"
  gl_components :: "string list"
  gl_directives :: "string list"
  gl_filters :: "string list"
  gl_plugins :: "string list"
  gl_axios :: vue_axios

type_synonym plugin = "globals \<Rightarrow> js_error + globals"

definition no_globals :: globals where
  "no_globals = \<lparr>gl_members = [], gl_components = [], gl_directives = [], gl_filters = [], gl_plugins = [],
     gl_axios = \<lparr>va_installed = False, va_http = None, va_errors = 0\<rparr>\<rparr>"

definition vue_use :: "string \<Rightarrow> plugin \<Rightarrow> plugin" where
  "vue_use name f g =
     (if name \<in> set (gl_plugins g) then Inr g
      else (case f g of Inl e \<Rightarrow> Inl e | Inr g' \<Rightarrow> Inr (g'\<lparr>gl_plugins := gl_plugins g' @ [name]\<rparr>)))"

fun vue_uses :: "(string \<times> plugin) list \<Rightarrow> plugin" where
  "vue_uses [] g = Inr g"
| "vue_uses ((name, f) # ps) g = (case vue_use name f g of Inl e \<Rightarrow> Inl e | Inr g' \<Rightarrow> vue_uses ps g')"

definition assign_members :: "string list \<Rightarrow> globals \<Rightarrow> globals" where
  "assign_members ns g = g\<lparr>gl_members := gl_members g @ ns\<rparr>"

text \<open>The plug-ins of the repository. \<open>Object.defineProperty\<close> throws for a member that is there already; the
  others look first.\<close>

definition install_dialog :: plugin where
  "install_dialog g = (if ''$dialog'' \<in> set (gl_members g) then Inl TypeError else Inr (assign_members [''$dialog''] g))"

definition install_multiTab :: plugin where
  "install_multiTab g =
     Inr (if ''$multiTab'' \<in> set (gl_members g) then g
          else (assign_members [''$multiTab''] g)\<lparr>gl_components := gl_components g @ [''multi-tab'']\<rparr>)"

definition install_pageLoading :: plugin where
  "install_pageLoading g =
     Inr (if ''$loading'' \<in> set (gl_members g) then g else assign_members [''$loading''] g)"

definition install_permission :: plugin where
  "install_permission g =
     (let g = (if ''$auth'' \<in> set (gl_members g) then g else assign_members [''$auth''] g);
          g = (if ''$enum'' \<in> set (gl_members g) then g else assign_members [''$enum''] g)
      in Inr g)"

definition install_axios :: plugin where
  "install_axios g =
     (let v = installer (gl_axios g) in
      Inr ((if va_http v = va_http (gl_axios g) then g else assign_members [''axios'', ''$http''] g)\<lparr>gl_axios := v\<rparr>))"

text \<open>What the plug-in of a library adds: members, components and directives.\<close>

record library =
  lb_members :: "string list"
  lb_components :: "string list"
  lb_directives :: "string list"

type_synonym libraries = "string \<Rightarrow> library"

definition library_plugin :: "libraries \<Rightarrow> string \<Rightarrow> string \<times> plugin" where
  "library_plugin lib name = (name, \<lambda>g. Inr ((assign_members (lb_members (lib name)) g)
     \<lparr>gl_components := gl_components g @ lb_components (lib name),
      gl_directives := gl_directives g @ lb_directives (lib name)\<rparr>))"

definition antd_plugins :: "string list" where
  "antd_plugins = [''ConfigProvider'', ''Layout'', ''Input'', ''InputNumber'', ''Button'', ''Switch'', ''Radio'',
     ''Checkbox'', ''Select'', ''Card'', ''Form'', ''Row'', ''Col'', ''Modal'', ''Table'', ''Tabs'', ''Icon'', ''Badge'',
     ''Popover'', ''Dropdown'', ''List'', ''Avatar'', ''Breadcrumb'', ''Steps'', ''Spin'', ''Menu'', ''Drawer'',
     ''Tooltip'', ''Alert'', ''Tag'', ''Divider'', ''DatePicker'', ''TimePicker'', ''Upload'', ''Progress'', ''Skeleton'',
     ''Popconfirm'', ''PageHeader'', ''Result'', ''Statistic'', ''Descriptions'', ''Space'']"

definition antd_members :: "string list" where
  "antd_members = [''$confirm'', ''$message'', ''$notification'', ''$info'', ''$success'', ''$error'', ''$warning'']"

definition action_loaded :: "globals \<Rightarrow> globals" where
  "action_loaded g = g\<lparr>gl_directives := gl_directives g @ [''action'']\<rparr>"

definition lazy_use :: "libraries \<Rightarrow> plugin" where
  "lazy_use lib g =
     (case vue_uses (map (library_plugin lib) antd_plugins) (action_loaded g) of
        Inl e \<Rightarrow> Inl e
      | Inr g \<Rightarrow> vue_uses [library_plugin lib ''Viser'', (''Dialog'', install_dialog), (''MultiTab'', install_multiTab),
            (''PageLoading'', install_pageLoading), (''PermissionHelper'', install_permission),
            library_plugin lib ''VueCropper''] (assign_members antd_members g))"

definition core_use :: "libraries \<Rightarrow> plugin" where
  "core_use lib g = vue_uses [library_plugin lib ''Antd'', library_plugin lib ''Viser'', (''MultiTab'', install_multiTab),
     (''PageLoading'', install_pageLoading), library_plugin lib ''VueClipboard'',
     (''PermissionHelper'', install_permission), library_plugin lib ''VueCropper''] (action_loaded g)"

definition filters_loaded :: "globals \<Rightarrow> globals" where
  "filters_loaded g = g\<lparr>gl_filters := gl_filters g @ [''NumberFormat'', ''dayjs'', ''moment'']\<rparr>"

text \<open>The plug-ins that \<open>locales/index.js\<close>, \<open>router/index.js\<close> and \<open>store/index.js\<close> use when they are
  imported, in the order in which \<open>main.js\<close> and \<open>App.vue\<close> import them.\<close>

definition imported_plugins :: "string list" where
  "imported_plugins = [''VueI18n'', ''Router'', ''Vuex'']"

text \<open>\<open>main.js\<close>, with the file it imports for the libraries: the imports run before its own lines.\<close>

definition main_js :: "libraries \<Rightarrow> plugin \<Rightarrow> plugin" where
  "main_js lib libraries_used g =
     (case vue_uses (map (library_plugin lib) imported_plugins) g of
        Inl e \<Rightarrow> Inl e
      | Inr g \<Rightarrow>
     (case libraries_used g of
        Inl e \<Rightarrow> Inl e
      | Inr g \<Rightarrow>
          (case vue_use ''VueAxios'' install_axios (filters_loaded g) of
             Inl e \<Rightarrow> Inl e
           | Inr g \<Rightarrow> Inr (g\<lparr>gl_components := gl_components g @
               [''pro-layout'', ''page-container'', ''page-header-wrapper'']\<rparr>))))"

section \<open>What start-up installs\<close>

lemma library_uses:
  "distinct ps \<Longrightarrow> set ps \<inter> set (gl_plugins g) = {} \<Longrightarrow>
     vue_uses (map (library_plugin lib) ps) g =
       Inr (g\<lparr>gl_members := gl_members g @ concat (map (lb_members \<circ> lib) ps),
         gl_components := gl_components g @ concat (map (lb_components \<circ> lib) ps),
         gl_directives := gl_directives g @ concat (map (lb_directives \<circ> lib) ps),
         gl_plugins := gl_plugins g @ ps\<rparr>)"
proof (induction ps arbitrary: g)
  case (Cons p ps)
  then show ?case by (simp add: library_plugin_def vue_use_def assign_members_def)
qed simp

text \<open>The members of the libraries are others than those the repository installs.\<close>

definition own_members :: "string list" where
  "own_members = [''$dialog'', ''$multiTab'', ''$loading'', ''$auth'', ''$enum'']"

definition installed_members :: "string list" where
  "installed_members = antd_members @ own_members @ [''axios'', ''$http'']"

definition library_plugins :: "string list" where
  "library_plugins = imported_plugins @ antd_plugins @ [''Viser'', ''VueCropper'']"

text \<open>The plug-in of the whole component library, which only the alternative list uses, may install the members
  that \<open>lazy_use.js\<close> sets itself.\<close>

definition keeps_own :: "libraries \<Rightarrow> bool" where
  "keeps_own lib \<longleftrightarrow>
     (\<forall>p. set (lb_members (lib p)) \<inter> set (own_members @ [''axios'', ''$http'']) = {}) \<and>
     (\<forall>p \<in> set library_plugins. set (lb_members (lib p)) \<inter> set antd_members = {})"

lemma keeps_own_member: "keeps_own lib \<Longrightarrow> n \<in> set own_members \<Longrightarrow> n \<notin> set (lb_members (lib p))"
  by (auto simp: keeps_own_def)

lemma keeps_own_filter:
  "keeps_own lib \<Longrightarrow> p \<in> set library_plugins \<Longrightarrow>
     filter (\<lambda>n. n \<in> set installed_members) (lb_members (lib p)) = []"
  unfolding keeps_own_def installed_members_def filter_empty_conv by auto

lemma keeps_own_filter_all:
  "keeps_own lib \<Longrightarrow> set ps \<subseteq> set library_plugins \<Longrightarrow>
     filter (\<lambda>n. n \<in> set installed_members) (concat (map (lb_members \<circ> lib) ps)) = []"
  by (induction ps) (simp_all add: keeps_own_filter)

definition used_members :: "string list" where
  "used_members = [''$http'', ''$message'', ''$notification'', ''$multiTab'', ''$dialog'', ''$loading'', ''$confirm'']"

lemma main_js_members:
  assumes "keeps_own lib"
  shows "\<exists>g. main_js lib (lazy_use lib) no_globals = Inr g \<and> va_http (gl_axios g) = Some request \<and>
      gl_filters g = [''NumberFormat'', ''dayjs'', ''moment''] \<and>
      gl_members g = concat (map (lb_members \<circ> lib) (imported_plugins @ antd_plugins)) @ antd_members @
        lb_members (lib ''Viser'') @ own_members @ lb_members (lib ''VueCropper'') @ [''axios'', ''$http''] \<and>
      gl_directives g = concat (map (lb_directives \<circ> lib) imported_plugins) @ [''action''] @
        concat (map (lb_directives \<circ> lib) (antd_plugins @ [''Viser'', ''VueCropper'']))"
proof -
  have free: "''$dialog'' \<notin> set (lb_members (lib p))" "''$multiTab'' \<notin> set (lb_members (lib p))"
    "''$loading'' \<notin> set (lb_members (lib p))" "''$auth'' \<notin> set (lb_members (lib p))"
    "''$enum'' \<notin> set (lb_members (lib p))" for p
    by (rule keeps_own_member [OF assms]; simp add: own_members_def)+
  have names: "distinct antd_plugins" "distinct imported_plugins" "set antd_plugins \<inter> set imported_plugins = {}"
    "set (antd_plugins @ imported_plugins) \<inter>
       {''Viser'', ''Dialog'', ''MultiTab'', ''PageLoading'', ''PermissionHelper'', ''VueCropper'', ''VueAxios''} = {}"
    by (simp_all add: antd_plugins_def imported_plugins_def)
  let ?g = "no_globals\<lparr>gl_members := concat (map (lb_members \<circ> lib) imported_plugins),
      gl_components := concat (map (lb_components \<circ> lib) imported_plugins),
      gl_directives := concat (map (lb_directives \<circ> lib) imported_plugins), gl_plugins := imported_plugins\<rparr>"
  have first: "vue_uses (map (library_plugin lib) imported_plugins) no_globals = Inr ?g"
    by (subst library_uses [OF names(2)]) (simp_all add: no_globals_def)
  have second: "vue_uses (map (library_plugin lib) antd_plugins) (action_loaded ?g) =
      Inr ((action_loaded ?g)\<lparr>gl_members := gl_members (action_loaded ?g) @ concat (map (lb_members \<circ> lib) antd_plugins),
         gl_components := gl_components (action_loaded ?g) @ concat (map (lb_components \<circ> lib) antd_plugins),
         gl_directives := gl_directives (action_loaded ?g) @ concat (map (lb_directives \<circ> lib) antd_plugins),
         gl_plugins := gl_plugins (action_loaded ?g) @ antd_plugins\<rparr>)"
    by (rule library_uses [OF names(1)]) (use names(3) in \<open>simp add: action_loaded_def\<close>)
  show ?thesis
    unfolding main_js_def lazy_use_def first second sum.case
    using names(4) free
    by (auto simp: vue_use_def library_plugin_def action_loaded_def filters_loaded_def no_globals_def assign_members_def
        install_dialog_def install_multiTab_def install_pageLoading_def install_permission_def install_axios_def
        installer_def install_def antd_members_def own_members_def Let_def)
qed



section \<open>Dates and resizing\<close>

text \<open>The date filters hand value and pattern to the date library, a parameter.\<close>

definition default_pattern :: string where
  "default_pattern = ''YYYY-MM-DD HH:mm:ss''"

definition filter_dayjs :: "('d \<Rightarrow> string \<Rightarrow> string) \<Rightarrow> 'd \<Rightarrow> string option \<Rightarrow> string" where
  "filter_dayjs moment_format dataStr pattern =
     moment_format dataStr (case pattern of None \<Rightarrow> default_pattern | Some p \<Rightarrow> p)"

definition filter_moment :: "('d \<Rightarrow> string \<Rightarrow> string) \<Rightarrow> 'd \<Rightarrow> string option \<Rightarrow> string" where
  "filter_moment moment_format dataStr pattern =
     moment_format dataStr (case pattern of None \<Rightarrow> default_pattern | Some p \<Rightarrow> p)"

lemma date_filters_agree: "filter_dayjs = filter_moment"
  by (simp add: fun_eq_iff filter_dayjs_def filter_moment_def)

record dom_event =
  ev_kind :: string
  ev_bubbles :: bool
  ev_cancelable :: bool
  ev_eventType :: string

definition triggerWindowResizeEvent :: "dom_event list \<Rightarrow> dom_event list" where
  "triggerWindowResizeEvent dispatched = dispatched @
     [\<lparr>ev_kind = ''resize'', ev_bubbles = True, ev_cancelable = True, ev_eventType = ''message''\<rparr>]"

section \<open>\<open>$enum\<close>\<close>

text \<open>The table of the permissions, an entry of it, a text as its code units, a number, or \<open>null\<close>. Reading a
  property: what every object inherits is left out. The length of a text may be nought, which is falsy, as an empty text
  is.\<close>

datatype enum_value = EnumTable | EnumEntry string "nat list" | EnumText "nat list" | EnumNum nat | EnumNull

definition enum_codes :: "(string \<times> nat list) list" where
  "enum_codes =
     [(''add'', [0x65B0, 0x589E]), (''delete'', [0x5220, 0x9664]), (''edit'', [0x4FEE, 0x6539]),
      (''query'', [0x67E5, 0x8BE2]), (''get'', [0x8BE6, 0x60C5]), (''enable'', [0x542F, 0x7528]),
      (''disable'', [0x7981, 0x7528]), (''import'', [0x5BFC, 0x5165]), (''export'', [0x5BFC, 0x51FA])]"

fun enum_prop :: "enum_value \<Rightarrow> string \<Rightarrow> enum_value option" where
  "enum_prop EnumTable v = map_option (EnumEntry v) (map_of enum_codes v)"
| "enum_prop (EnumEntry k l) v =
     (if v = ''key'' then Some (EnumText (map of_char k)) else if v = ''label'' then Some (EnumText l) else None)"
| "enum_prop (EnumText cs) v =
     (if v = ''length'' then Some (EnumNum (length cs))
      else (case List.find (\<lambda>i. decimal i = v) [0..<length cs] of None \<Rightarrow> None | Some i \<Rightarrow> Some (EnumText [cs ! i])))"
| "enum_prop (EnumNum n) v = None"
| "enum_prop EnumNull v = None"

fun enum_truthy :: "enum_value \<Rightarrow> bool" where
  "enum_truthy (EnumText cs) = (cs \<noteq> [])"
| "enum_truthy (EnumNum n) = (n \<noteq> 0)"
| "enum_truthy EnumNull = False"
| "enum_truthy _ = True"

text \<open>\<open>result && result[v] || null\<close>\<close>

definition enum_next :: "enum_value \<Rightarrow> string \<Rightarrow> enum_value" where
  "enum_next result v =
     (if \<not> enum_truthy result then EnumNull
      else (case enum_prop result v of None \<Rightarrow> EnumNull | Some r \<Rightarrow> (if enum_truthy r then r else EnumNull)))"

definition enum :: "string \<Rightarrow> enum_value" where
  "enum val = (if val = [] then EnumTable else foldl enum_next EnumTable (split_on (CHR ''.'') val))"

lemma enum_labels: "map (\<lambda>(k, cs). (k, utf8 cs)) enum_codes = PERMISSION_ENUM"
  by (simp add: enum_codes_def PERMISSION_ENUM_def)

lemma enum_null_stays: "foldl enum_next EnumNull vs = EnumNull"
  by (induction vs) (simp_all add: enum_next_def)

text \<open>An action and its label; a path that leaves the table is null for good.\<close>

lemma enum_label:
  assumes "map_of enum_codes k = Some cs"
  shows "enum k = EnumEntry k cs" "enum (k @ ''.label'') = EnumText cs" "enum (k @ ''.key'') = EnumText (map of_char k)"
proof -
  have k: "k \<in> set (map fst enum_codes)" using assms by (simp add: map_of_SomeD image_iff) (metis fst_conv map_of_SomeD)
  then have sep: "CHR ''.'' \<notin> set k" "k \<noteq> []" by (auto simp: enum_codes_def)
  have "cs \<noteq> []" using assms by (auto simp: enum_codes_def split: if_splits)
  then show "enum k = EnumEntry k cs" "enum (k @ ''.label'') = EnumText cs" "enum (k @ ''.key'') = EnumText (map of_char k)"
    using assms sep split_on_append [OF sep(1), of "''label''"] split_on_append [OF sep(1), of "''key''"]
    by (simp_all add: enum_def enum_next_def split_on_no_sep)
qed

lemma enum_unknown:
  assumes "map_of enum_codes k = None" "CHR ''.'' \<notin> set k" "k \<noteq> []"
  shows "enum (k @ CHR ''.'' # rest) = EnumNull" "enum k = EnumNull"
  using assms by (simp_all add: enum_def enum_next_def split_on_append split_on_no_sep enum_null_stays)

section \<open>The router\<close>

text \<open>\<open>router/index.js\<close>: what a caller of \<open>push\<close> gets, from how the navigation of the router library ends. With
  callbacks it is the library's own result, here \<open>None\<close>; without them a failure is caught and becomes the value.\<close>

definition router_push :: "bool \<Rightarrow> 'e + 'l \<Rightarrow> ('e + 'l) promise option" where
  "router_push callbacks outcome = (if callbacks then None else Some (Resolved outcome))"

definition router_routes :: "route list" where
  "router_routes = constantRouterMap"

text \<open>A page that pushes without callbacks goes on whether or not the navigation was let through.\<close>

lemma push_never_rejects: "router_push False outcome = Some p \<Longrightarrow> p \<noteq> Rejected e"
  by (auto simp: router_push_def)

end
