(* ===== verification/PlainViews.thy ===== *)
theory PlainViews
  imports Messages Dashboard Wiring SmallParts Feeds
begin

text \<open>
  Pages with little state of their own: the result pages (\<open>views/result/\<close>), the exception pages
  (\<open>views/exception/\<close>, \<open>views/404.vue\<close>), the last step of the form (\<open>views/form/stepForm/Step3.vue\<close>), the
  applications of the account page (\<open>views/account/center/page/App.vue\<close>), the basic list
  (\<open>views/list/BasicList.vue\<close>), and the remaining charts with what they hand to the chart library
  (\<open>components/Charts/\<close>), small cards, the advertisement (\<open>components/Other/CarbonAds.vue\<close>).
\<close>

section \<open>Result pages\<close>

text \<open>What a result page shows: its parts in the order of the template, each a message or a text that is written
  there; the steps with their message, a name and a remark.\<close>

datatype shown_text = Said string | Message string

datatype result_part =
    Heading shown_text
  | Line "shown_text list"
  | Step shown_text "string list"

record result_view =
  rv_status :: string
  rv_title :: shown_text
  rv_subTitle :: shown_text
  rv_buttons :: "shown_text list"
  rv_parts :: "result_part list"
  rv_current :: "nat option"
  rv_direction :: "string option"

definition Success_view :: "app_state \<Rightarrow> result_view" where
  "Success_view s = \<lparr>rv_status = ''success'',
     rv_title = Message ''result.success.title'',
     rv_subTitle = Message ''result.success.description'',
     rv_buttons = [Message ''result.success.btn-return'', Message ''result.success.btn-project'', Message ''result.success.btn-print''],
     rv_parts =
       [Heading (Message ''result.success.operate-title''),
        Line [Message ''result.success.operate-id'', Said (utf8 [0xFF1A]), Said ''20180724089''],
        Line [Message ''result.success.principal'', Said (utf8 [0xFF1A]), Said (utf8 [0x66F2, 0x4E3D, 0x4E3D, 0x662F, 0x8C01, 0xFF1F])],
        Line [Message ''result.success.operate-time'', Said (utf8 [0xFF1A]), Said ''2016-12-12 ~ 2017-12-12''],
        Step (Message ''result.success.step1-title'') [(utf8 [0x66F2, 0x4E3D, 0x4E3D]), ''2016-12-12 12:32''],
        Step (Message ''result.success.step2-title'') [(utf8 [0x5468, 0x6BDB, 0x6BDB]), (utf8 [0x50AC, 0x4E00, 0x4E0B])],
        Step (Message ''result.success.step3-title'') [],
        Step (Message ''result.success.step4-title'') []],
     rv_current = Some 1,
     rv_direction = Some (if js_truthy (isMobile s) then ''vertical'' else ''horizontal'')\<rparr>"

definition Error_view :: result_view where
  "Error_view = \<lparr>rv_status = ''error'',
     rv_title = Message ''result.fail.error.title'',
     rv_subTitle = Message ''result.fail.error.description'',
     rv_buttons = [Message ''result.fail.error.btn-text''],
     rv_parts =
       [Heading (Message ''result.fail.error.hint-title''),
        Line [Message ''result.fail.error.hint-text1'', Message ''result.fail.error.hint-btn1''],
        Line [Message ''result.fail.error.hint-text2'', Message ''result.fail.error.hint-btn2'']],
     rv_current = None, rv_direction = None\<rparr>"

fun part_texts :: "result_part \<Rightarrow> shown_text list" where
  "part_texts (Heading t) = [t]"
| "part_texts (Line ts) = ts"
| "part_texts (Step t ss) = t # map Said ss"

definition view_texts :: "result_view \<Rightarrow> shown_text list" where
  "view_texts v = rv_title v # rv_subTitle v # rv_buttons v @ concat (map part_texts (rv_parts v))"

fun text_shown :: "i18n_state \<Rightarrow> shown_text \<Rightarrow> string" where
  "text_shown i (Said t) = t"
| "text_shown i (Message key) = i18nRender i key"

definition message_keys :: "shown_text list \<Rightarrow> string list" where
  "message_keys ts = List.map_filter (\<lambda>t. case t of Said s \<Rightarrow> None | Message k \<Rightarrow> Some k) ts"

lemma message_keys_mem: "Message k \<in> set ts \<Longrightarrow> k \<in> set (message_keys ts)"
  by (induction ts) (auto simp: message_keys_def map_filter_simps split: shown_text.splits)

lemma result_keys_known:
  "set (message_keys (view_texts (Success_view s))) \<subseteq> set (map fst en_success)"
  "set (message_keys (view_texts Error_view)) \<subseteq> set (map fst en_fail)"
  by (simp_all add: message_keys_def view_texts_def Success_view_def Error_view_def map_filter_simps en_success_def en_fail_def
      del: set_map)

lemma result_messages:
  assumes "key \<in> set (message_keys (view_texts (Success_view s))) \<union> set (message_keys (view_texts Error_view))"
  shows "message en_US key \<noteq> None" "message zh_CN key \<noteq> None"
proof -
  have "key \<in> set (map fst en_success) \<union> set (map fst en_fail)" using assms result_keys_known(1) [of s] result_keys_known(2) by blast
  then have "key \<in> set (map fst (texts en_US))" by (auto simp: en_US_def en_result_def)
  then show "message en_US key \<noteq> None" by (simp add: message_None_iff)
  then show "message zh_CN key \<noteq> None" by (simp add: same_messages)
qed

text \<open>No result page shows a raw key, in whichever of the two languages, once its messages are loaded.\<close>

lemma result_pages_translated:
  assumes "i18n_locale i \<in> {''en-US'', ''zh-CN''}" "i18n_locale i \<in> set (i18n_messages i)"
    and "Message key \<in> set (view_texts (Success_view s)) \<union> set (view_texts Error_view)"
  shows "\<exists>l. language_of (i18n_locale i) = Some l \<and> message l key = Some (text_shown i (Message key))"
proof -
  have "key \<in> set (message_keys (view_texts (Success_view s))) \<union> set (message_keys (view_texts Error_view))"
    using assms(3) message_keys_mem by blast
  from result_messages [OF this] obtain t t' where t: "message en_US key = Some t" "message zh_CN key = Some t'" by blast
  have "language_of (i18n_locale i) = Some en_US \<or> language_of (i18n_locale i) = Some zh_CN"
    using assms(1) by (auto simp: language_of_def)
  with t obtain l t where "language_of (i18n_locale i) = Some l" "message l key = Some t" by blast
  then show ?thesis using assms(2) by (simp add: i18nRender_def Let_def)
qed

text \<open>The steps of the success page stand below each other on small screens.\<close>

lemma success_direction:
  "rv_direction (Success_view (snd (commit_app S ToggleMobileType (JBool b) (m, s)))) =
     Some (if b then ''vertical'' else ''horizontal'')"
  by (simp add: Success_view_def)

section \<open>Exception pages\<close>

record exception_view =
  ex_status :: string
  ex_title :: string
  ex_subTitle :: string

definition exception_403 :: exception_view where
  "exception_403 = \<lparr>ex_status = ''403'', ex_title = ''403'', ex_subTitle = ''Sorry, you don'' @ CHR 0x27 # ''t have access to this page.''\<rparr>"

definition exception_404 :: exception_view where
  "exception_404 = \<lparr>ex_status = ''404'', ex_title = ''404'', ex_subTitle = ''Sorry, the page you visited does not exist.''\<rparr>"

definition exception_500 :: exception_view where
  "exception_500 = \<lparr>ex_status = ''500'', ex_title = ''500'', ex_subTitle = ''Sorry, the server is reporting an error.''\<rparr>"

text \<open>The button pushes the home page, which the static routes of every account have.\<close>

definition toHome :: "string list \<Rightarrow> string list" where
  "toHome pushed = pushed @ [''/'']"

definition page_404 :: string where
  "page_404 = ''404 page''"

section \<open>The end of the form in steps\<close>

record step3 =
  s3_loading :: bool
  s3_finished :: nat
  s3_pushed :: "string list"

definition step3_data :: step3 where
  "step3_data = \<lparr>s3_loading = False, s3_finished = 0, s3_pushed = []\<rparr>"

definition step3_finish :: "step3 \<Rightarrow> step3" where
  "step3_finish s = s\<lparr>s3_finished := Suc (s3_finished s)\<rparr>"

definition toOrderList :: "step3 \<Rightarrow> step3" where
  "toOrderList s = s\<lparr>s3_pushed := s3_pushed s @ [''/list/table-list'']\<rparr>"

text \<open>What the page reports, whatever was entered in the first step.\<close>

definition step3_report :: "(string \<times> string) list" where
  "step3_report =
     [((utf8 [0x4ED8, 0x6B3E, 0x8D26, 0x6237, 0xFF1A]), ''ant-design@alipay.com''),
      ((utf8 [0x6536, 0x6B3E, 0x8D26, 0x6237, 0xFF1A]), ''test@example.com''),
      ((utf8 [0x6536, 0x6B3E, 0x4EBA, 0x59D3, 0x540D, 0xFF1A]), (utf8 [0x8F89, 0x591C])),
      ((utf8 [0x8F6C, 0x8D26, 0x91D1, 0x989D, 0xFF1A]), (''500'' @ '' '' @ (utf8 [0x5143])))]"

section \<open>Lists of constants\<close>

text \<open>Title, picture, active users, new users: eleven times the same.\<close>

definition App_dataSource :: "(string \<times> string \<times> int \<times> int) list" where
  "App_dataSource = map (\<lambda>i. (''Alipay'', ''https://gw.alipayobjects.com/zos/rmsportal/WdGqmHpayyMjiEhcKoVE.png'', 17, 1700)) [0..<11]"

definition App_newUser :: "string \<times> string \<times> int \<times> int \<Rightarrow> string" where
  "App_newUser item = (case item of (title, avatar, activeUser, newUser) \<Rightarrow> NumberFormat (Some (decimal (nat newUser))))"

record basic_item =
  bi_title :: string
  bi_avatar :: string
  bi_description :: string
  bi_owner :: string
  bi_startAt :: string
  bi_status :: "string option"
  bi_value :: int

definition BasicList_data :: "basic_item list" where
  "BasicList_data =
     [\<lparr>bi_title = ''Alipay'', bi_avatar = ''https://gw.alipayobjects.com/zos/rmsportal/WdGqmHpayyMjiEhcKoVE.png'',
        bi_description = (utf8 [0x90A3, 0x662F, 0x4E00, 0x79CD, 0x5185, 0x5728, 0x7684, 0x4E1C, 0x897F, 0xFF0C] @ '' '' @ utf8 [0x4ED6, 0x4EEC, 0x5230, 0x8FBE, 0x4E0D, 0x4E86, 0xFF0C, 0x4E5F, 0x65E0, 0x6CD5, 0x89E6, 0x53CA, 0x7684]),
        bi_owner = (utf8 [0x4ED8, 0x6653, 0x6653]), bi_startAt = ''2018-07-26 22:44'', bi_status = None, bi_value = 90\<rparr>,
      \<lparr>bi_title = ''Angular'', bi_avatar = ''https://gw.alipayobjects.com/zos/rmsportal/zOsKZmFRdUtvpqCImOVY.png'',
        bi_description = (utf8 [0x5E0C, 0x671B, 0x662F, 0x4E00, 0x4E2A, 0x597D, 0x4E1C, 0x897F, 0xFF0C, 0x4E5F, 0x8BB8, 0x662F, 0x6700, 0x597D, 0x7684, 0xFF0C, 0x597D, 0x4E1C, 0x897F, 0x662F, 0x4E0D, 0x4F1A, 0x6D88, 0x4EA1, 0x7684]),
        bi_owner = (utf8 [0x66F2, 0x4E3D, 0x4E3D]), bi_startAt = ''2018-07-26 22:44'', bi_status = None, bi_value = 54\<rparr>,
      \<lparr>bi_title = ''Ant Design'', bi_avatar = ''https://gw.alipayobjects.com/zos/rmsportal/dURIMkkrRFpPgTuzkwnB.png'',
        bi_description = (utf8 [0x751F, 0x547D, 0x5C31, 0x50CF, 0x4E00, 0x76D2, 0x5DE7, 0x514B, 0x529B, 0xFF0C, 0x7ED3, 0x679C, 0x5F80, 0x5F80, 0x51FA, 0x4EBA, 0x610F, 0x6599]),
        bi_owner = (utf8 [0x6797, 0x4E1C, 0x4E1C]), bi_startAt = ''2018-07-26 22:44'', bi_status = None, bi_value = 66\<rparr>,
      \<lparr>bi_title = ''Ant Design Pro'', bi_avatar = ''https://gw.alipayobjects.com/zos/rmsportal/sfjbOqnsXXJgNCjCzDBL.png'',
        bi_description = (utf8 [0x57CE, 0x9547, 0x4E2D, 0x6709, 0x90A3, 0x4E48, 0x591A, 0x7684, 0x9152, 0x9986, 0xFF0C, 0x5979, 0x5374, 0x504F, 0x504F, 0x8D70, 0x8FDB, 0x4E86, 0x6211, 0x7684, 0x9152, 0x9986]),
        bi_owner = (utf8 [0x5468, 0x661F, 0x661F]), bi_startAt = ''2018-07-26 22:44'', bi_status = None, bi_value = 30\<rparr>,
      \<lparr>bi_title = ''Bootstrap'', bi_avatar = ''https://gw.alipayobjects.com/zos/rmsportal/siCrBXXhmvTQGWPNLBow.png'',
        bi_description = (utf8 [0x90A3, 0x65F6, 0x5019, 0x6211, 0x53EA, 0x4F1A, 0x60F3, 0x81EA, 0x5DF1, 0x60F3, 0x8981, 0x4EC0, 0x4E48, 0xFF0C, 0x4ECE, 0x4E0D, 0x60F3, 0x81EA, 0x5DF1, 0x62E5, 0x6709, 0x4EC0, 0x4E48]),
        bi_owner = (utf8 [0x5434, 0x52A0, 0x597D]), bi_startAt = ''2018-07-26 22:44'', bi_status = Some ''exception'', bi_value = 100\<rparr>]"

text \<open>The pager of the list counts fifty entries on pages of five; there are five.\<close>

definition BasicList_pagination :: "nat \<times> nat" where
  "BasicList_pagination = (5, 50)"

lemma BasicList_one_page: "length BasicList_data = fst BasicList_pagination" "snd BasicList_pagination = 50"
  by (simp_all add: BasicList_data_def BasicList_pagination_def)

section \<open>Charts\<close>

text \<open>A scale: the field, its title and the name shown for it, and its bounds.\<close>

record chart_scale =
  sc_dataKey :: string
  sc_title :: "string option"
  sc_alias :: "string option"
  sc_min :: "int option"
  sc_max :: "int option"

definition scale_of :: "string \<Rightarrow> string option \<Rightarrow> string option \<Rightarrow> int option \<Rightarrow> int option \<Rightarrow> chart_scale" where
  "scale_of k t a lo hi = \<lparr>sc_dataKey = k, sc_title = t, sc_alias = a, sc_min = lo, sc_max = hi\<rparr>"

definition Bar_scale :: "chart_scale list" where
  "Bar_scale = [scale_of ''x'' None None (Some 2) None, scale_of ''y'' (Some (utf8 [0x65F6, 0x95F4])) None (Some 1) (Some 22)]"

definition MiniArea_scale :: "chart_scale list" where
  "MiniArea_scale = [scale_of ''x'' None None (Some 2) None, scale_of ''y'' (Some (utf8 [0x65F6, 0x95F4])) None (Some 1) (Some 22)]"

definition Radar_scale :: "chart_scale list" where
  "Radar_scale = [scale_of ''score'' None None (Some 0) (Some 80), scale_of ''user'' None (Some (utf8 [0x7C7B, 0x578B])) None None]"

definition TransferBar_scale :: "chart_scale list" where
  "TransferBar_scale = [scale_of ''x'' (Some (utf8 [0x65E5, 0x671F] @ ''('' @ utf8 [0x5929] @ '')'')) (Some (utf8 [0x65E5, 0x671F] @ ''('' @ utf8 [0x5929] @ '')'')) (Some 2) None,
     scale_of ''y'' (Some (utf8 [0x6D41, 0x91CF] @ ''(Gb)'')) (Some (utf8 [0x6D41, 0x91CF] @ ''(Gb)'')) (Some 1) None]"

text \<open>\<open>MiniArea\<close>: ten days from now on, each with a draw. The date of a time in milliseconds is an argument.\<close>

definition MiniArea_data :: "(int \<Rightarrow> string) \<Rightarrow> int \<Rightarrow> (nat \<Rightarrow> rat) \<Rightarrow> (string \<times> int) list" where
  "MiniArea_data format_day beginDay random =
     map (\<lambda>i. (format_day (beginDay + 1000 * 60 * 60 * 24 * int i), round_draw 10 (random i))) [0..<10]"

text \<open>The small charts all draw their data alike, so that their values lie between nought and ten.\<close>

lemma MiniArea_is_mini: "MiniArea_data format_day beginDay random = mini_data (\<lambda>i. format_day (beginDay + 86400000 * int i)) random"
  by (simp add: MiniArea_data_def mini_data_def)

text \<open>What \<open>Liquid\<close> writes beside a row.\<close>

definition Liquid_content :: "string \<Rightarrow> string" where
  "Liquid_content row_value = row_value @ ''%''"

text \<open>\<open>TransferBar\<close> asks for its data when it is created; without an answer it stays empty.\<close>

record 'r transfer_bar =
  tb_title :: string
  tb_data :: "'r list"
  tb_asked :: "string list"

definition getMonthBar :: "'r transfer_bar \<Rightarrow> 'r transfer_bar" where
  "getMonthBar s = s\<lparr>tb_asked := tb_asked s @ [''/analysis/month-bar'']\<rparr>"

definition created_bar :: "string option \<Rightarrow> 'r transfer_bar" where
  "created_bar title = getMonthBar \<lparr>tb_title = (case title of None \<Rightarrow> [] | Some t \<Rightarrow> t), tb_data = [], tb_asked = []\<rparr>"

definition bar_replied :: "'r list option \<Rightarrow> 'r transfer_bar \<Rightarrow> 'r transfer_bar" where
  "bar_replied r s = (case r of None \<Rightarrow> s | Some rows \<Rightarrow> s\<lparr>tb_data := rows\<rparr>)"

section \<open>The advertisement\<close>

text \<open>Mounting loads nothing: the call is commented out. Loading would add a script to the page and push an entry
  two seconds later.\<close>

record ads =
  ad_scripts :: "(string \<times> string) list"
  ad_timers :: nat
  ad_pushed :: nat

definition googleAdsUrl :: string where
  "googleAdsUrl = ''https://pagead2.googlesyndication.com/pagead/js/adsbygoogle.js''"

definition ads_mounted :: "ads \<Rightarrow> ads" where
  "ads_mounted s = s"

definition ads_load :: "ads \<Rightarrow> ads" where
  "ads_load s =
     (if googleAdsUrl \<noteq> [] then s\<lparr>ad_scripts := ad_scripts s @ [(''_adsbygoogle_js'', googleAdsUrl)], ad_timers := Suc (ad_timers s)\<rparr>
      else s)"

definition ads_timer :: "ads \<Rightarrow> ads" where
  "ads_timer s = (if ad_timers s = 0 then s else s\<lparr>ad_timers := ad_timers s - 1, ad_pushed := Suc (ad_pushed s)\<rparr>)"

text \<open>Loaded twice the page has two scripts with the same id.\<close>

lemma ads_load_repeats_id: "map fst (ad_scripts (ads_load (ads_load s))) = map fst (ad_scripts s) @ [''_adsbygoogle_js'', ''_adsbygoogle_js'']"
  by (simp add: ads_load_def googleAdsUrl_def)

section \<open>Small cards\<close>

text \<open>\<open>views/list/components/Info.vue\<close>: title, value, and a rule beside them; \<open>views/list/search/components/CardInfo.vue\<close>
  and the content of an article, with the parts it shows and its date as the date filter writes it.\<close>

definition prop_default :: "string \<Rightarrow> string option \<Rightarrow> string" where
  "prop_default d v = (case v of None \<Rightarrow> d | Some t \<Rightarrow> t)"

definition info_card :: "string option \<Rightarrow> string option \<Rightarrow> bool \<Rightarrow> string \<times> string \<times> bool" where
  "info_card title val bordered = (prop_default [] title, prop_default [] val, bordered)"

definition basic_infos :: "(string \<times> string \<times> bool) list" where
  "basic_infos =
     [info_card (Some (utf8 [0x6211, 0x7684, 0x5F85, 0x529E])) (Some (''8'' @ utf8 [0x4E2A, 0x4EFB, 0x52A1])) True,
      info_card (Some (utf8 [0x672C, 0x5468, 0x4EFB, 0x52A1, 0x5E73, 0x5747, 0x5904, 0x7406, 0x65F6, 0x95F4])) (Some (''32'' @ utf8 [0x5206, 0x949F])) True,
      info_card (Some (utf8 [0x672C, 0x5468, 0x5B8C, 0x6210, 0x4EFB, 0x52A1, 0x6570])) (Some (''24'' @ utf8 [0x4E2A])) False]"

definition card_info :: "string option \<Rightarrow> string option \<Rightarrow> (string \<times> string) list" where
  "card_info activeUser newUser = [((utf8 [0x6D3B, 0x8DC3, 0x7528, 0x6237]), prop_default ''0'' activeUser), ((utf8 [0x65B0, 0x589E, 0x7528, 0x6237]), prop_default ''0'' newUser)]"

definition article_content :: "(string \<Rightarrow> string \<Rightarrow> string) \<Rightarrow> string option \<Rightarrow> string \<Rightarrow> string \<Rightarrow> string \<Rightarrow> string list" where
  "article_content moment_format description owner href updateAt =
     [prop_default [] description, owner, href, filter_moment moment_format updateAt None]"

text \<open>\<open>components/AvatarList/Item.jsx\<close>: the size follows the list; without a tip the picture itself is taken for a
  component, so that no picture is shown.\<close>

datatype avatar_item = WithTip string string string | NotAComponent

definition item_size :: "string option \<Rightarrow> string" where
  "item_size parent_size =
     (let size = (if parent_size = Some ''mini'' then Some ''small'' else parent_size) in
      if truthy size then the size else ''small'')"

definition avatar_item :: "string option \<Rightarrow> string \<Rightarrow> string option \<Rightarrow> avatar_item" where
  "avatar_item parent_size src tips =
     (if truthy tips then WithTip (the tips) (item_size parent_size) src else NotAComponent)"

text \<open>The cards of projects and applications give every picture the name of its member.\<close>

lemma members_shown:
  "list_all (\<lambda>(src, name, key). avatar_item sz src (Some name) = WithTip name (item_size sz) src) article_members"
  by (simp add: article_members_def avatar_item_def truthy_def utf8_def utf8_char_def)

end
