(* ===== verification/Spec2Isabelle.thy ===== *)
theory Spec2Isabelle
  imports Guard AsyncRouter MockRoles MockServer Monitor Request PermissionUI TextUtil Messages
    MultiTab Layout Captcha RegisterForm EditTable RouteConvert Dialog RolePages
    Widgets TreePage FormPages Demo MonitorCells
    Forms IconSelector Feeds MockRoutes DemoPages Dashboard Theme SmallParts
    Browsing DemoTable Workplace Wiring PlainViews
begin

text \<open>
  The web frontend of the SelfAdaptiveMano dashboard: a model of the Vue application under
  \<open>src/sam/dashboard/frontend/src\<close>, and the theorems about it. Paths below are relative to that
  directory.

  \<^bold>\<open>The program.\<close> The frontend is a single-page application. At start the bootstrap restores the
  settings and the token from local storage into a Vuex store. Every navigation passes a guard, which
  lets a visitor without a token only to the login pages, fetches the account data on the first visit,
  computes the routes the account may see, and adds them to the router; a failed request logs the user
  out. The pages run inside a layout with a menu and a bar of open tabs. Most pages are tables that
  request their data page by page, and forms. Requests go through one HTTP client, whose error handler
  logs out as well; in the demo a mock server, loaded in some of the builds only, answers them.

  \<^bold>\<open>The theories and the code.\<close> State is passed explicitly: the local storage, the modules of the store,
  the data of a component and the requests in flight are records, and an operation returns the new ones.
  What comes from outside (the outcome of a request, a user's click, a timer) is an event or an
  argument. An exception is \<open>Inl\<close>, a promise is pending, resolved or rejected.

  \<^item> \<open>Prelude\<close>: strings, truthiness, errors and promises, list facts. \<open>Machines\<close>: runs of event-driven
    state machines, with locales for invariants, refinement and progress.
  \<^item> \<open>Browser\<close>: local storage (its operations are a parameter) and the keys of
    \<open>store/mutation-types.js\<close>. \<open>Numbers\<close> and \<open>Doubles\<close>: JavaScript numbers, exact and rounded.
    \<open>Regex\<close>: the regular expressions of the form rules.
  \<^item> \<open>Account\<close>, \<open>UserStore\<close>: \<open>store/modules/user.js\<close>; \<open>AppStore\<close>: \<open>store/modules/app.js\<close>,
    \<open>config/defaultSettings.js\<close>, \<open>core/bootstrap.js\<close>; \<open>Locales\<close>, \<open>Messages\<close>: \<open>locales/\<close>.
  \<^item> \<open>Routes\<close>, \<open>RouteConfig\<close>: \<open>config/router.config.js\<close>; \<open>RoutePermission\<close>:
    \<open>store/modules/permission.js\<close>; \<open>NavTree\<close>, \<open>AsyncRouter\<close>: \<open>router/generator-routers.js\<close>,
    \<open>store/modules/async-router.js\<close>; \<open>RouteConvert\<close>: \<open>utils/routeConvert.js\<close>; \<open>Guard\<close>:
    \<open>permission.js\<close>; \<open>PermissionUI\<close>: \<open>core/permission\<close>, \<open>core/directives\<close>.
  \<^item> \<open>Request\<close>: \<open>utils/request.js\<close>, \<open>utils/axios.js\<close>, \<open>api/\<close>; \<open>MockServer\<close>, \<open>MockUser\<close>,
    \<open>MockRoles\<close>: \<open>mock/\<close>.
  \<^item> \<open>STable\<close>: \<open>components/Table/index.js\<close>; \<open>Monitor\<close>: \<open>views/monitor/\<close>; \<open>ListPages\<close>:
    \<open>views/list/\<close>; \<open>RolePages\<close>: \<open>views/other/\<close> (users, roles, permissions); \<open>EditTable\<close>:
    \<open>views/form/advancedForm/\<close>, \<open>views/other/TableInnerEditList.vue\<close>.
  \<^item> \<open>LoginForm\<close>, \<open>RegisterForm\<close>, \<open>Captcha\<close>: \<open>views/user/\<close>; \<open>Util\<close>, \<open>TextUtil\<close>:
    \<open>utils/util.js\<close>, \<open>utils/filter.js\<close>, \<open>components/_util/util.js\<close>.
  \<^item> \<open>Layout\<close>: \<open>layouts/\<close> with the language menu, the settings drawer and the log-out entry;
    \<open>MultiTab\<close>: \<open>components/MultiTab/\<close>; \<open>Dialog\<close>: \<open>components/Dialog.js\<close>; \<open>Widgets\<close>: the
    reusable components with state (text area, tags, avatars, loading screen, notices).
  \<^item> \<open>TreePage\<close>: the organisation page with its tree; \<open>FormPages\<close>: the order of a service chain
    (\<open>views/manager/\<close>), the form in steps, and the small state of further pages. \<open>FormItems\<close>: the
    templates of all forms as data; \<open>Forms\<close>: entering and submitting them, and the big form
    (\<open>views/other/BigForm.vue\<close>). \<open>IconSelector\<close>: \<open>components/IconSelector/\<close>.
  \<^item> \<open>NumberText\<close>: division, \<open>toFixed\<close> and the text of a number; \<open>MonitorCells\<close>: the cells of the monitor
    pages and the life of their timers; \<open>Dashboard\<close>: \<open>views/dashboard/Analysis.vue\<close>, the data of
    \<open>components/Charts/\<close>, \<open>views/list/CardList.vue\<close>; \<open>Feeds\<close>: the articles of the demo service, the lists
    that show them, \<open>views/dashboard/Workplace.vue\<close>; \<open>DemoPages\<close>: \<open>views/profile/\<close>,
    \<open>views/account/settings/\<close>; \<open>SmallParts\<close>: the document title and small components.
  \<^item> \<open>MockRoutes\<close>: the environments (\<open>.env\<close> files beside the directory) and the handlers of the demo service
    by address; \<open>Theme\<close>: the colours, and the build (\<open>vue.config.js\<close>, \<open>config/\<close> beside the directory).
  \<^item> \<open>Browsing\<close>: a monitor page over a whole visit, as an abstract view; \<open>DemoTable\<close>: the list page against the
    service list of the demo; \<open>Workplace\<close>: the workplace on the answers of \<open>mock/services/manage.js\<close>.
  \<^item> \<open>Wiring\<close>: \<open>store/getters.js\<close> and the mixins, \<open>main.js\<close>, \<open>core/lazy_use.js\<close>, \<open>core/use.js\<close> and the
    plug-ins of the repository, \<open>router/index.js\<close>, the date filters, \<open>$enum\<close>; \<open>PlainViews\<close>: result and exception pages, the
    remaining charts and lists of constants.
  \<^item> \<open>Session\<close>: guard, store, error handler, log-in page and log-out entry working on one tab of a browser,
    with the reloads; \<open>Demo\<close>: the same against the mock account service. The properties of both are at the
    end of this file.

  Definitions carry the names of the source. Where two sources use one name, or a name is taken in HOL,
  a prefix or a suffix says which one is meant (\<open>user_handleEdit\<close>, \<open>modal_edit\<close>).

  \<^bold>\<open>What is shown.\<close>
  \<^item> Whole sessions: whatever the visitor does and the servers answer, a protected page is shown only with a
    token in storage or before a reload that is scheduled; the router is the constant routes and those of the roles the
    account got since the page was loaded, in order, which a history beside the tab records; a session that
    expires is taken up again at the page it was at; the demo lets exactly its own accounts in.
  \<^item> Access: the guard protects every page that is not on the list of open pages, comes to
    a decision in four passes, except in the two cases in which it never calls \<open>next\<close>, and hands exactly the permitted routes
    to the router; the routes of an earlier session remain.
  \<^item> Session and settings: store and storage agree on the token; the settings the bootstrap
    restores survive a reload; the i18n instance always has the messages of the locale in force.
  \<^item> Menus: building the tree ends exactly for acyclic parent ids and loses no item; paths and components
    come out as the items say; converting relative paths ends on a finite tree and resolves them all.
  \<^item> Tables and lists: totals match the selection, a page change clears it, the page shown is that of the
    reply that came last; a monitor page refines a view of page number, page size, rows and requests under
    way, over any sequence of turned pages, refreshes, answers and failures, overlapping ones included; the list
    page shows, against the demo, the rows that belong on its page, but for an empty last page, where it goes one
    page back; a list page saves one form at a time; editing and cancelling a row restores it;
    the keys of the rows stay distinct.
  \<^item> Login and registration: the submit button is disabled as long as a submission is under way and free
    afterwards, the credentials are sent hashed and under the right name; the text-message log-in never
    sends anything; one countdown runs at a time; the password strength is that of the last password that
    has one.
  \<^item> Frame: the tab bar refines a list of tabs with an active one; layout and store agree on the mobile
    mode and the collapsed menu; the menu of a tree shows every node once; a row of tags agrees with its
    items; an order for a service chain is complete when it is submitted, but for the network functions.
  \<^item> Start-up: the members that components use without importing them are installed, each once; the workplace shows all
    its answers in whatever order they come.
  \<^item> Forms and feeds: the fields, rules and initial values of all forms, and what the pages pick for them from a
    record; what the form library keeps and hands out is its documented behaviour, not code that is verified here.
    The big form never leaves its first state; a list of articles is the rows of all its answers in their order.
  \<^item> Numbers on the screen: the load of a server lies between those of its processors, also as the machine adds,
    divides and rounds; the data of the charts lie in their ranges for every draw.
  \<^item> Build: the demo service and the theme plugin are in the builds that need them; every library that is left
    out is loaded by the page.

  Where the code does not do what it means to, a theorem states what it does; see the findings of the
  manifest.

  \<^bold>\<open>Bounds and fuel.\<close> \<open>listToTree\<close> and \<open>convert_loop\<close> are partial functions, because cyclic data keep
  the code running; their termination is stated as a property. The chain of log-outs after a refused
  token takes the number of passes as fuel, and the theorem says for which servers a number suffices.
  Everything else is structural or terminates by a measure. Numbers are integers below \<open>2 ^ 53\<close>, where
  JavaScript's are exact; where there are fractions, the password score, the cells of the monitor pages and
  the charts, every operation is rounded to 53 binary digits. The digits of a number are searched with
  seventeen as fuel, which is enough for every double. Code units are 16-bit words. For the countdown of the text message the requests are
  assumed to be settled within a minute; the timeout of the client is six seconds.

  \<^bold>\<open>Not modelled.\<close> Rendering, beyond the decisions a template or a render function takes from the state and
  the texts of the pages that have little else; styles and DOM access; re-exports (\<open>components/index.js\<close>,
  \<open>core/icons.js\<close>); the charts, beyond their data and scales; the banner printed to the console. The packages the
  code calls (vue, vuex, vue-router, axios, ant-design-vue, store, moment, md5) are not part of the
  repository: they are parameters, or the documented effect of the call is written out at the place of
  the call. Outside the frontend, \<open>src/sam/dashboard/backup\<close> holds an older site with vendored
  libraries, and the rest of \<open>src/sam\<close> is the network controller in Python and P4.
\<close>

section \<open>Properties of the whole frontend\<close>

text \<open>The router that turns a path into a location is an argument of the model. What the properties use of it is
  that the log-in page has its name, as in \<open>config/router.config.js\<close>, and what each states besides.\<close>

text \<open>C1: a page that is not open to everybody is on the screen only as long as there is a token in
  storage, or until a reload that the error handler has already scheduled: whatever the visitor does and
  whatever the servers answer, in whatever order.\<close>

theorem session_is_protected:
  assumes "storage_laws S" "\<And>r. l_name (locate loginRoutePath r) = Some ''login''"
    and "browser_reachable S locate tab"
  shows "logged_in S (tb_site tab) \<or> public (tb_shown tab) \<or> 0 < tb_reloads tab"
  using browser_reachable_inv [where locate = locate, OF assms] by (simp add: tab_inv_def)

theorem session_is_protected_witness:
  "public (tb_shown (open_tab alist_storage sample_locate (\<lambda>k. sample_requests []) (sample_locate ''/form'' None) []))"
proof -
  let ?tab = "open_tab alist_storage sample_locate (\<lambda>k. sample_requests []) (sample_locate ''/form'' None) []"
  have l: "l_name (sample_locate loginRoutePath r) = Some ''login''" for r
    by (simp add: sample_locate_def)
  have "\<not> js_truthy (s_get alist_storage [] ACCESS_TOKEN)" by (simp add: alist_storage_def)
  moreover have "l_name (sample_locate ''/form'' None) \<notin> Some ` set allowList"
    by (simp add: sample_locate_def loginRoutePath_def)
  ultimately have tab: "?tab = \<lparr>tb_site = fresh_site alist_storage [],
      tb_shown = sample_locate loginRoutePath (Some ''/form''), tb_reloads = 0\<rparr>"
    using open_protected [where locate = sample_locate, OF alist_storage_laws _ l] by (simp add: sample_locate_def)
  have "\<not> logged_in alist_storage (fresh_site alist_storage [])"
    by (simp add: fresh_site_def logged_in_def Let_def Initializer_token [OF alist_storage_laws])
      (simp add: fresh_app_def alist_storage_def)
  with session_is_protected [where locate = sample_locate, OF alist_storage_laws l tab_opened] tab
  show ?thesis by (metis tab.select_convs(1,3) less_numeral_extra(3))
qed

text \<open>C3: router, menu and role go together in every session. Keep, beside the tab, the list of the roles its
  account got since the page was loaded: one for every event before which there was no role and after which
  there is one; a reload starts the list anew. Then after any events the router is exactly the constant routes followed
  by the routes each of these roles permits, in the order of the roles; and while there is a role in the store,
  it is the last of the list, its permission list is complete, and the menu module holds exactly the part of the
  route table it permits.\<close>

theorem router_follows_role:
  assumes "storage_laws S" "\<And>r. l_name (locate loginRoutePath r) = Some ''login''"
    and "browser_history S locate tab pss"
  shows "s_router (tb_site tab) =
      constantRouterMap @ concat (map (\<lambda>ps. prune (permitted ps) asyncRouterMap) pss) \<and>
    (case us_roles (s_user (tb_site tab)) of
       NoRoles \<Rightarrow> True
     | Roles ro \<Rightarrow> pss \<noteq> [] \<and> permission_ids ro = last pss \<and> ro_permissionList ro = Some (last pss) \<and>
         addRouters (s_permission (tb_site tab)) = prune (permitted (last pss)) asyncRouterMap)"
proof -
  have "tab_inv S tab"
    using browser_reachable_inv [where locate = locate, OF assms(1,2) history_reachable [OF assms(3)]] .
  then have inv: "site_inv S (tb_site tab)" by (simp add: tab_inv_def)
  note router = history_router [where locate = locate, OF assms]
  show ?thesis
  proof (cases "us_roles (s_user (tb_site tab))")
    case NoRoles
    with router show ?thesis by (simp add: role_routes_def [abs_def])
  next
    case (Roles ro)
    then have "role_held tab = [permission_ids ro]" by (simp add: role_held_def)
    moreover from Roles have "ro_permissionList ro = Some (permission_ids ro)"
      using site_inv_session [OF inv] by (simp add: session_inv_def)
    moreover from this Roles have "addRouters (s_permission (tb_site tab)) = role_routes (permission_ids ro)"
      using inv by (auto simp: site_inv_def)
    ultimately show ?thesis using router Roles by (auto simp: role_routes_def [abs_def])
  qed
qed

theorem router_follows_role_witness:
  "let tab = open_tab alist_storage sample_locate (\<lambda>k. sample_requests [''form'']) (sample_locate ''/form'' None)
       [(ACCESS_TOKEN, JStr ''t'')]
   in \<exists>ro. us_roles (s_user (tb_site tab)) = Roles ro \<and>
     s_router (tb_site tab) = constantRouterMap @ prune (permitted (permission_ids ro)) asyncRouterMap"
proof -
  let ?tab = "open_tab alist_storage sample_locate (\<lambda>k. sample_requests [''form'']) (sample_locate ''/form'' None)
       [(ACCESS_TOKEN, JStr ''t'')]"
  have "has_role (tb_site ?tab)"
    using open_granted [OF sample_site_state [unfolded sample_site_def], where page = "sample_locate ''/form'' None"
        and rq = "\<lambda>k. sample_requests [''form'']" and ps = "[''form'']" and locate = sample_locate]
      granted_by_sample [of "[''form'']"]
    by (simp add: sample_locate_def loginRoutePath_def decode_plain)
  then obtain ro where "us_roles (s_user (tb_site ?tab)) = Roles ro"
    by (cases "us_roles (s_user (tb_site ?tab))") (simp_all add: has_role_def)
  moreover from this have "role_held ?tab = [permission_ids ro]" by (simp add: role_held_def)
  moreover note router_follows_role [where locate = sample_locate, OF alist_storage_laws _ history_opened]
  ultimately show ?thesis by (simp add: sample_locate_def Let_def)
qed

text \<open>C2: a session that expires is taken up again where it was: when the token is refused and the log-out
  that follows succeeds, the reload leads to the log-in page, and a successful log-in there back to the page
  that was shown, with a router that has the routes of the role that is granted now, and no others. (The
  page must be one that needs a log-in, with an address that leads to it and has no percent sign.)\<close>

theorem refused_token_resumes:
  assumes "storage_laws S" "logged_in S (tb_site tab)" "unauthorized (Inl err)"
    and "\<And>r. l_name (locate loginRoutePath r) = Some ''login''"
    and "\<And>r. l_redirect (locate loginRoutePath r) = r" "l_path (locate ''/'' None) = ''/''"
    and "returnable locate (tb_shown tab)" "js_truthy t" "\<And>k. granted_by (rq' k) = Some ps"
  shows "let expired = browser_step S locate tab (ApiFailed err (Suc n) (\<lambda>k. Inr ()));
             away = browser_step S locate expired (ReloadDue rq);
             back = browser_step S locate away (SignInReply (Inr (Some \<lparr>lr_token = t\<rparr>)) msg rq')
         in tab_enabled expired (ReloadDue rq) \<and>
            tb_shown away = locate loginRoutePath (Some (l_fullPath (tb_shown tab))) \<and>
            tb_shown back = tb_shown tab \<and> logged_in S (tb_site back) \<and>
            s_router (tb_site back) = constantRouterMap @ prune (permitted ps) asyncRouterMap"
proof -
  let ?expired = "api_failed S err (Suc n) (\<lambda>k. Inr ()) tab"
  let ?m = "s_stored (tb_site ?expired)"
  let ?away = "reload S locate rq ?expired"
  have expired: "\<not> js_truthy (s_get S ?m ACCESS_TOKEN)" "0 < tb_reloads ?expired" "tb_shown ?expired = tb_shown tab"
    using logged_out_chain [where tab = tab and err = err and S = S and n = n, OF assms(1,3,2)] by simp_all
  have "l_name (tb_shown tab) \<notin> Some ` set allowList" using assms(7) by (simp add: returnable_def)
  then have away: "?away = \<lparr>tb_site = fresh_site S ?m,
      tb_shown = locate loginRoutePath (Some (l_fullPath (tb_shown tab))), tb_reloads = 0\<rparr>"
    unfolding reload_def expired(3)
    by (intro open_protected [where locate = locate]) (simp_all add: assms(1,4) expired(1))
  have fresh: "\<not> has_role (tb_site ?away)" "s_router (tb_site ?away) = constantRouterMap"
    by (simp_all add: away fresh_site_state [OF assms(1)])
  have "l_redirect (tb_shown ?away) = Some (l_fullPath (tb_shown tab))" by (simp add: away assms(5))
  from sign_in_returns [where locate = locate and message = msg, OF assms(1,8,6) this assms(7) fresh(1) assms(9)]
  show ?thesis
    using expired(2) fresh(2) by (simp add: away role_routes_def Let_def)
qed

theorem refused_token_resumes_witness:
  "let page = sample_locate ''/form'' None;
       tab = \<lparr>tb_site = sample_site, tb_shown = page, tb_reloads = 0\<rparr>;
       refused = Some \<lparr>er_status = 401, er_data = Some \<lparr>pr_message = [], pr_isLogin = False\<rparr>\<rparr>
   in tb_shown (foldl (browser_step alist_storage sample_locate) tab
        [ApiFailed refused 1 (\<lambda>k. Inr ()), ReloadDue (\<lambda>k. sample_requests []),
         SignInReply (Inr (Some \<lparr>lr_token = JStr ''u''\<rparr>)) None (\<lambda>k. sample_requests [''form''])]) = page"
proof -
  have "returnable sample_locate (sample_locate ''/form'' None)"
    by (simp add: returnable_def sample_locate_def loginRoutePath_def decode_plain)
  with refused_token_resumes [where locate = sample_locate and n = 0 and msg = None and t = "JStr ''u''"
      and tab = "\<lparr>tb_site = sample_site, tb_shown = sample_locate ''/form'' None, tb_reloads = 0\<rparr>"
      and err = "Some \<lparr>er_status = 401, er_data = Some \<lparr>pr_message = [], pr_isLogin = False\<rparr>\<rparr>"
      and rq = "\<lambda>k. sample_requests []" and rq' = "\<lambda>k. sample_requests [''form'']",
      OF alist_storage_laws] granted_by_sample [of "[''form'']"] sample_site_state(1)
  show ?thesis
    by (simp add: sample_locate_def unauthorized_def Let_def del: browser_step.simps)
qed

text \<open>C4: the demo, from the first page to the last part: a visitor opens a page, is sent to the log-in page,
  and submits a name and a password to the mock account service. Exactly the names and password hashes it
  lists lead on, back to the page that was opened and with the whole route table in the router, as the mock
  account is granted every section; otherwise the visitor stays on the log-in page without a token. An
  e-mail address is never accepted: it is sent under another name than the one the service reads.\<close>

theorem demo_session:
  assumes "storage_laws S" "writes_statuses status" "\<not> js_truthy (s_get S m ACCESS_TOKEN)"
    and "\<And>r. l_name (locate loginRoutePath r) = Some ''login''"
    and "\<And>r. l_redirect (locate loginRoutePath r) = r" "l_path (locate ''/'' None) = ''/''"
    and "returnable locate page" "hash (Some password) = Inr h" "\<And>k. rq_info (rq k) = Inr (Some userInfo)"
  shows "let tab = demo_visit S locate hash status rq page name password m in
    if name \<in> set usernames \<and> h \<in> set passwords
    then tb_shown tab = page \<and> logged_in S (tb_site tab) \<and>
      s_router (tb_site tab) = constantRouterMap @ asyncRouterMap
    else tb_shown tab = locate loginRoutePath (Some (l_fullPath page)) \<and> \<not> logged_in S (tb_site tab) \<and>
      s_router (tb_site tab) = constantRouterMap"
proof -
  have "l_name page \<notin> Some ` set allowList" using assms(7) by (simp add: returnable_def)
  then have opened: "open_tab S locate rq page m = \<lparr>tb_site = fresh_site S m,
      tb_shown = locate loginRoutePath (Some (l_fullPath page)), tb_reloads = 0\<rparr>"
    by (intro open_protected [where locate = locate]) (simp_all add: assms(1,3,4))
  note fresh = fresh_site_state [OF assms(1), of m]
  have g: "granted_by (rq k) = Some demo_ids" for k by (rule demo_granted [OF assms(9)])
  obtain msg where visit: "demo_visit S locate hash status rq page name password m = sign_in S locate rq
      (if name \<in> set usernames \<and> h \<in> set passwords then Inr (Some \<lparr>lr_token = demo_token\<rparr>)
       else Inl (ApiError (Some 401))) msg (open_tab S locate rq page m)"
    using demo_visit_signs_in [where hash = hash and S = S and locate = locate and rq = rq and page = page and m = m and name = name, OF assms(2,8)]
    by (elim exE)
  show ?thesis
  proof (cases "name \<in> set usernames \<and> h \<in> set passwords")
    case True
    have "js_truthy demo_token" by (simp add: demo_token_def)
    from sign_in_returns [where locate = locate and tab = "open_tab S locate rq page m" and message = msg,
        OF assms(1) this assms(6) _ assms(7) _ g] fresh
    show ?thesis unfolding visit if_P [OF True] Let_def by (simp add: opened assms(5) demo_routes)
  next
    case False
    show ?thesis
      unfolding visit if_not_P [OF False] Let_def using fresh assms(3)
      by (simp add: opened sign_in_cases Login_def)
  qed
qed

theorem demo_session_witness:
  "let rq = (\<lambda>k. (sample_requests [])\<lparr>rq_info := Inr (Some userInfo)\<rparr>);
       tab = demo_visit alist_storage sample_locate (\<lambda>w. Inr ''21232f297a57a5a743894a0e4a801fc3'')
         (\<lambda>s. case s of None \<Rightarrow> 200 | Some c \<Rightarrow> c) rq (sample_locate ''/form'' None) ''admin'' ''admin'' []
   in tb_shown tab = sample_locate ''/form'' None \<and>
      s_router (tb_site tab) = constantRouterMap @ asyncRouterMap"
proof -
  have "returnable sample_locate (sample_locate ''/form'' None)"
    by (simp add: returnable_def sample_locate_def loginRoutePath_def decode_plain)
  with demo_session [where locate = sample_locate and status = "\<lambda>s. case s of None \<Rightarrow> 200 | Some c \<Rightarrow> c"
      and hash = "\<lambda>w. Inr ''21232f297a57a5a743894a0e4a801fc3''" and m = "[]" and name = "''admin''"
      and password = "''admin''" and rq = "\<lambda>k. (sample_requests [])\<lparr>rq_info := Inr (Some userInfo)\<rparr>",
      OF alist_storage_laws]
  show ?thesis
    by (simp add: writes_statuses_def alist_storage_def sample_locate_def usernames_def passwords_def Let_def)
qed

end
